(* ===== verification/Prelude.thy ===== *)
theory Prelude
  imports Complex_Main "HOL-Library.AList" "HOL-Library.Sublist" "HOL-Library.Char_ord"
    "HOL-Library.List_Lexorder"
begin

section \<open>Prelude: what every component shares\<close>

text \<open>
  This theory holds the vocabulary the components share: Rust's \<open>Result\<close> and its
  \<open>?\<close> operator, the arithmetic of \<open>rust_decimal::Decimal\<close> as a parameter with the laws
  the code relies on, the parts of Rust's \<open>str\<close> that the parsers use, association
  lists for \<open>HashMap\<close>, and the collections of rewrite rules the other theories fill.
\<close>

named_theorems money_defs \<open>unfolding rules of the money types\<close>
named_theorems guard_simps \<open>evaluation of guards and early returns\<close>
named_theorems state_simps \<open>what an operation does to each part of a state\<close>

subsection \<open>Results\<close>

text \<open>
  \<open>Result<T, E>\<close> is \<open>'e + 'a\<close>, with \<open>Inl\<close> for \<open>Err\<close>. \<open>and_then\<close> is the
  \<open>?\<close> operator: it stops at the first error.
\<close>

fun and_then :: "'e + 'a \<Rightarrow> ('a \<Rightarrow> 'e + 'b) \<Rightarrow> 'e + 'b" where
  "and_then (Inl e) f = Inl e"
| "and_then (Inr a) f = f a"

fun map_err :: "('e \<Rightarrow> 'f) \<Rightarrow> 'e + 'a \<Rightarrow> 'f + 'a" where
  "map_err h (Inl e) = Inl (h e)"
| "map_err h (Inr a) = Inr a"

fun ok :: "'e + 'a \<Rightarrow> 'a option" where
  "ok (Inl e) = None"
| "ok (Inr a) = Some a"

fun ok_or :: "'e \<Rightarrow> 'a option \<Rightarrow> 'e + 'a" where
  "ok_or e None = Inl e"
| "ok_or e (Some a) = Inr a"

lemma and_then_Inr [guard_simps]:
  "and_then r f = Inr b \<longleftrightarrow> (\<exists>a. r = Inr a \<and> f a = Inr b)"
  by (cases r) auto

lemma map_err_Inr [simp]: "map_err h r = Inr a \<longleftrightarrow> r = Inr a"
  by (cases r) auto

lemma ok_Some [simp]: "ok r = Some a \<longleftrightarrow> r = Inr a"
  by (cases r) auto

lemma ok_or_Inr [simp]: "ok_or e x = Inr a \<longleftrightarrow> x = Some a"
  by (cases x) auto

subsection \<open>Decimal arithmetic\<close>

text \<open>
  Money is \<open>rust_decimal::Decimal\<close>, a crate that is not part of the repository: a
  96-bit integer with a decimal scale of at most 28 places. The value of a decimal is a
  rational number. Comparison, \<open>abs\<close>, negation, \<open>min\<close>, \<open>max\<close>, \<open>floor\<close>,
  \<open>ceil\<close> and \<open>fract\<close> are exact on these values and are written as the operations on
  \<open>rat\<close>. The four operations that may round, and the conversions from and to text, are a
  parameter: every definition that computes with money takes a \<open>decimal_ops\<close>, and the
  laws that a theorem needs of it are its hypotheses.
\<close>

record decimal_ops =
  d_add :: "rat \<Rightarrow> rat \<Rightarrow> rat"
  d_sub :: "rat \<Rightarrow> rat \<Rightarrow> rat"
  d_mul :: "rat \<Rightarrow> rat \<Rightarrow> rat"
  d_div :: "rat \<Rightarrow> rat \<Rightarrow> rat"
  \<comment> \<open>\<open>normalize().to_string()\<close>\<close>
  d_text :: "rat \<Rightarrow> string"
  \<comment> \<open>\<open>to_string()\<close>; trailing zeros depend on the scale, which the value does not keep\<close>
  d_show :: "rat \<Rightarrow> string"
  \<comment> \<open>\<open>format!("{:.2}")\<close>, how an amount of dollars is shown\<close>
  d_cents :: "rat \<Rightarrow> string"
  \<comment> \<open>\<open>str::parse::<Decimal>().ok()\<close>\<close>
  d_parse :: "string \<Rightarrow> rat option"
  \<comment> \<open>\<open>Decimal::from_str(&v.to_string()).ok()\<close> of a finite float \<open>v\<close>\<close>
  d_of_f64 :: "rat \<Rightarrow> rat option"
  \<comment> \<open>\<open>Decimal::try_from(v).ok()\<close> of a finite float \<open>v\<close>\<close>
  d_try_f64 :: "rat \<Rightarrow> rat option"

text \<open>\<open>Iterator::sum\<close> over decimals adds from zero, left to right.\<close>

definition d_sum :: "decimal_ops \<Rightarrow> rat list \<Rightarrow> rat" where
  "d_sum D xs = foldl (d_add D) 0 xs"

text \<open>
  The laws, in three steps. \<open>decimal_sign\<close>: products and quotients respect signs,
  zero and one, and the order (any correctly rounded arithmetic does).
  \<open>decimal_additive\<close>: sums and differences are exact, as they are while the operands'
  digits fit the 96-bit coefficient. \<open>decimal_exact\<close>: nothing rounds.
\<close>

locale decimal_sign =
  fixes D :: decimal_ops
  assumes mul_zero_left: "d_mul D 0 a = 0"
    and mul_zero_right: "d_mul D a 0 = 0"
    and mul_nonneg: "0 \<le> a \<Longrightarrow> 0 \<le> b \<Longrightarrow> 0 \<le> d_mul D a b"
    and mul_mono: "a \<le> b \<Longrightarrow> 0 \<le> c \<Longrightarrow> d_mul D a c \<le> d_mul D b c"
    and div_nonneg: "0 \<le> a \<Longrightarrow> 0 < b \<Longrightarrow> 0 \<le> d_div D a b"
    and div_mono: "a \<le> b \<Longrightarrow> 0 < c \<Longrightarrow> d_div D a c \<le> d_div D b c"

locale decimal_additive = decimal_sign +
  assumes add_exact: "d_add D a b = a + b"
    and sub_exact: "d_sub D a b = a - b"
begin

lemma sum_exact: "d_sum D xs = sum_list xs"
proof -
  have "foldl (d_add D) a xs = a + sum_list xs" for a
    by (induction xs arbitrary: a) (simp_all add: add_exact add.assoc)
  then show ?thesis by (simp add: d_sum_def)
qed

end

locale decimal_exact = decimal_additive +
  assumes mul_exact: "d_mul D a b = a * b"
    and div_exact: "b \<noteq> 0 \<Longrightarrow> d_div D a b = a / b"
begin

lemmas exact = add_exact sub_exact mul_exact div_exact sum_exact

end

text \<open>
  Two instances. \<open>exact_decimal\<close> is the arithmetic of the rationals. In
  \<open>fixed28_decimal\<close> products and quotients are cut to 28 decimal places, so the first
  two steps hold of an arithmetic that rounds.
\<close>

definition exact_decimal :: decimal_ops where
  "exact_decimal = \<lparr>d_add = (+), d_sub = (-), d_mul = (*), d_div = (/),
     d_text = (\<lambda>_. ''''), d_show = (\<lambda>_. ''''), d_cents = (\<lambda>_. ''''), d_parse = (\<lambda>_. None), d_of_f64 = Some, d_try_f64 = Some\<rparr>"

lemma exact_decimal_simps [simp]:
  "d_add exact_decimal = (+)" "d_sub exact_decimal = (-)" "d_mul exact_decimal = (*)"
  "d_div exact_decimal = (/)" "d_of_f64 exact_decimal = Some" "d_try_f64 exact_decimal = Some"
  "d_text exact_decimal = (\<lambda>_. '''')" "d_parse exact_decimal = (\<lambda>_. None)"
  by (simp_all add: exact_decimal_def)

definition cut28 :: "rat \<Rightarrow> rat" where
  "cut28 x = (if 0 \<le> x then of_int \<lfloor>x * 10 ^ 28\<rfloor> / 10 ^ 28 else of_int \<lceil>x * 10 ^ 28\<rceil> / 10 ^ 28)"

definition fixed28_decimal :: decimal_ops where
  "fixed28_decimal = exact_decimal
     \<lparr>d_mul := (\<lambda>a b. cut28 (a * b)), d_div := (\<lambda>a b. cut28 (a / b))\<rparr>"

lemma cut28_nonneg: "0 \<le> x \<Longrightarrow> 0 \<le> cut28 x"
  by (simp add: cut28_def)

lemma cut28_nonpos: "x \<le> 0 \<Longrightarrow> cut28 x \<le> 0"
  by (auto simp: cut28_def divide_le_0_iff mult_nonpos_nonneg)

lemma cut28_mono: "x \<le> y \<Longrightarrow> cut28 x \<le> cut28 y"
proof (cases "0 \<le> x \<longleftrightarrow> 0 \<le> y")
  case True
  assume "x \<le> y"
  then have "x * 10 ^ 28 \<le> y * 10 ^ 28" by simp
  then have "\<lfloor>x * 10 ^ 28\<rfloor> \<le> \<lfloor>y * 10 ^ 28\<rfloor>" "\<lceil>x * 10 ^ 28\<rceil> \<le> \<lceil>y * 10 ^ 28\<rceil>"
    by (simp_all only: floor_mono ceiling_mono)
  with True show ?thesis
    by (simp add: cut28_def divide_right_mono del: times_divide_eq_right)
next
  case False
  assume "x \<le> y"
  with False have "x \<le> 0" "0 \<le> y" by auto
  then show ?thesis using cut28_nonneg cut28_nonpos order_trans by blast
qed

interpretation exact_dec: decimal_exact exact_decimal
  by unfold_locales (simp_all add: mult_right_mono divide_right_mono)

interpretation fixed28_dec: decimal_additive fixed28_decimal
  by unfold_locales
    (simp_all add: fixed28_decimal_def cut28_nonneg cut28_mono mult_right_mono divide_right_mono,
      simp_all add: cut28_def)

text \<open>Floats from the wire: a finite value, or one of the values that are not finite.\<close>

datatype f64 = Finite rat | NonFinite

text \<open>\<open>Decimal::floor\<close>, \<open>ceil\<close> and \<open>Ord::clamp\<close>.\<close>

text \<open>
  A float computation on finite positive values is rounded to 53 significant bits, ties to
  even; \<open>f64_round\<close> is that rounding for values of at least \<open>2 ^ -60\<close>, and a decimal
  literal of the source is the rounding of its value.
\<close>

definition round_half_even :: "rat \<Rightarrow> int" where
  "round_half_even x =
     (let f = \<lfloor>x\<rfloor>; d = x - of_int f
      in if d < 1/2 \<or> (d = 1/2 \<and> even f) then f else f + 1)"

function bit_length :: "int \<Rightarrow> nat" where
  "bit_length n = (if n \<le> 0 then 0 else Suc (bit_length (n div 2)))"
  by pat_completeness auto
termination
  by (relation "measure nat") auto

declare bit_length.simps [simp del]

definition f64_round :: "rat \<Rightarrow> rat" where
  "f64_round x =
     (let unit = 2 ^ bit_length \<lfloor>x * 2 ^ 60\<rfloor> / 2 ^ 113
      in of_int (round_half_even (x / unit)) * unit)"

definition d_floor :: "rat \<Rightarrow> rat" where
  "d_floor x = of_int \<lfloor>x\<rfloor>"

definition d_ceil :: "rat \<Rightarrow> rat" where
  "d_ceil x = of_int \<lceil>x\<rceil>"

text \<open>Closed roundings evaluate.\<close>

lemma rat_floor_numeral_div [simp]:
  "\<lfloor>numeral a / numeral b :: rat\<rfloor> = numeral a div numeral b"
  by (metis floor_divide_of_int_eq of_int_numeral)

lemma rat_floor_one_div [simp]: "\<lfloor>1 / numeral b :: rat\<rfloor> = 1 div numeral b"
  by (metis floor_divide_of_int_eq of_int_1 of_int_numeral)

lemma rat_ceil_numeral_div [simp]:
  "\<lceil>numeral a / numeral b :: rat\<rceil> = - (- numeral a div numeral b)"
  by (metis ceiling_divide_eq_div of_int_numeral)

lemma rat_ceil_one_div [simp]: "\<lceil>1 / numeral b :: rat\<rceil> = - (- 1 div numeral b)"
  by (metis ceiling_divide_eq_div of_int_1 of_int_numeral)

definition clamp :: "'a::linorder \<Rightarrow> 'a \<Rightarrow> 'a \<Rightarrow> 'a" where
  "clamp lo hi x = (if x < lo then lo else if hi < x then hi else x)"

lemma clamp_bounds: "lo \<le> hi \<Longrightarrow> lo \<le> clamp lo hi x \<and> clamp lo hi x \<le> hi"
  by (auto simp: clamp_def)

lemma d_floor_le: "d_floor x \<le> x"
  by (simp add: d_floor_def)

lemma le_d_ceil: "x \<le> d_ceil x"
  by (simp add: d_ceil_def)

lemma d_floor_nonneg: "0 \<le> x \<Longrightarrow> 0 \<le> d_floor x"
  by (simp add: d_floor_def)

subsection \<open>Hash maps\<close>

text \<open>
  A \<open>HashMap\<close> is an association list with distinct keys, in some iteration order:
  \<open>get\<close> is \<open>map_of\<close>, \<open>insert\<close> is \<open>AList.update\<close>, \<open>remove\<close> is
  \<open>AList.delete\<close>. \<open>upsert\<close> is \<open>entry(k).or_insert(d)\<close> followed by a change of the
  value, and \<open>adjust\<close> is a change through \<open>get_mut\<close>.
\<close>

type_synonym ('k, 'v) hashmap = "('k \<times> 'v) list"

definition get :: "('k, 'v) hashmap \<Rightarrow> 'k \<Rightarrow> 'v option" where
  "get m k = map_of m k"

definition get_or :: "('k, 'v) hashmap \<Rightarrow> 'k \<Rightarrow> 'v \<Rightarrow> 'v" where
  "get_or m k d = (case get m k of Some v \<Rightarrow> v | None \<Rightarrow> d)"

definition upsert :: "('k, 'v) hashmap \<Rightarrow> 'k \<Rightarrow> 'v \<Rightarrow> ('v \<Rightarrow> 'v) \<Rightarrow> ('k, 'v) hashmap" where
  "upsert m k d f = AList.update k (f (get_or m k d)) m"

definition adjust :: "('k, 'v) hashmap \<Rightarrow> 'k \<Rightarrow> ('v \<Rightarrow> 'v) \<Rightarrow> ('k, 'v) hashmap" where
  "adjust m k f = (case get m k of Some v \<Rightarrow> AList.update k (f v) m | None \<Rightarrow> m)"

definition keys_ok :: "('k, 'v) hashmap \<Rightarrow> bool" where
  "keys_ok m \<longleftrightarrow> distinct (map fst m)"

text \<open>Sums over the values do not depend on the order.\<close>

definition vsum :: "('v \<Rightarrow> rat) \<Rightarrow> ('k, 'v) hashmap \<Rightarrow> rat" where
  "vsum f m = sum_list (map f (map snd m))"

lemma keys_ok_Nil [simp]: "keys_ok []"
  by (simp add: keys_ok_def)

lemma keys_ok_update [simp]: "keys_ok m \<Longrightarrow> keys_ok (AList.update k v m)"
  by (simp add: keys_ok_def distinct_update)

lemma keys_ok_delete [simp]: "keys_ok m \<Longrightarrow> keys_ok (AList.delete k m)"
  by (simp add: keys_ok_def distinct_delete)

lemma keys_ok_upsert [simp]: "keys_ok m \<Longrightarrow> keys_ok (upsert m k d f)"
  by (simp add: upsert_def)

lemma keys_ok_adjust [simp]: "keys_ok m \<Longrightarrow> keys_ok (adjust m k f)"
  by (simp add: adjust_def split: option.splits)

lemma get_update: "get (AList.update k v m) k' = (if k = k' then Some v else get m k')"
  by (simp add: get_def update_conv')

lemma get_delete: "get (AList.delete k m) k' = (if k = k' then None else get m k')"
  by (simp add: get_def delete_conv')

lemma get_upsert:
  "get (upsert m k d f) k' = (if k = k' then Some (f (get_or m k d)) else get m k')"
  by (simp add: upsert_def get_update)

lemma get_adjust: "get (adjust m k f) k' = (if k = k' then map_option f (get m k) else get m k')"
  by (simp add: adjust_def get_update split: option.splits)

lemma get_Nil [simp]: "get [] k = None"
  by (simp add: get_def)

lemma get_in: "get m k = Some v \<Longrightarrow> (k, v) \<in> set m"
  by (simp add: get_def map_of_SomeD)

lemma keys_ok_get: "keys_ok m \<Longrightarrow> (k, v) \<in> set m \<longleftrightarrow> get m k = Some v"
  by (simp add: keys_ok_def get_def)

lemma list_all_update:
  "list_all P (map snd m) \<Longrightarrow> P v \<Longrightarrow> list_all P (map snd (AList.update k v m))"
  by (induction m) auto

lemma list_all_get: "list_all P (map snd m) \<Longrightarrow> get m k = Some v \<Longrightarrow> P v"
  using get_in [of m k v] by (force simp: list_all_iff)

lemma vsum_update_new: "k \<notin> fst ` set m \<Longrightarrow> vsum f (AList.update k v m) = vsum f m + f v"
  by (induction m) (auto simp: vsum_def)

lemma vsum_update:
  "keys_ok m \<Longrightarrow>
     vsum f (AList.update k v m) =
       vsum f m - (case get m k of Some old \<Rightarrow> f old | None \<Rightarrow> 0) + f v"
proof (induction m)
  case Nil
  then show ?case by (simp add: vsum_def)
next
  case (Cons a m)
  obtain k' v' where a: "a = (k', v')" by (cases a)
  show ?case
  proof (cases "k' = k")
    case True
    with a show ?thesis by (simp add: vsum_def get_def)
  next
    case False
    with a Cons show ?thesis by (simp add: vsum_def get_def keys_ok_def)
  qed
qed

lemma vsum_upsert:
  "keys_ok m \<Longrightarrow> f d = 0 \<Longrightarrow>
     vsum f (upsert m k d g) = vsum f m - f (get_or m k d) + f (g (get_or m k d))"
  by (simp add: upsert_def vsum_update get_or_def split: option.splits)

lemma vsum_adjust:
  "keys_ok m \<Longrightarrow> (\<And>v. f (g v) = f v) \<Longrightarrow> vsum f (adjust m k g) = vsum f m"
  by (simp add: adjust_def vsum_update split: option.splits)

subsection \<open>Sources of identities\<close>

text \<open>
  Several components promise the same thing: offered a request, they refuse it or hand out
  an identity, and no identity is handed out twice. \<open>run_offers\<close> offers a list of
  requests; \<open>id_source\<close> is the contract of one offer.
\<close>

fun run_offers :: "('s \<Rightarrow> 'r \<Rightarrow> 's \<times> 'i option) \<Rightarrow> 's \<Rightarrow> 'r list \<Rightarrow> 's \<times> 'i list" where
  "run_offers offer s [] = (s, [])"
| "run_offers offer s (r # rs) =
     (let (s1, x) = offer s r; (s2, ids) = run_offers offer s1 rs
      in (s2, case x of None \<Rightarrow> ids | Some i \<Rightarrow> i # ids))"

locale id_source =
  fixes inv :: "'s \<Rightarrow> bool" and seen :: "'s \<Rightarrow> 'i set" and offer :: "'s \<Rightarrow> 'r \<Rightarrow> 's \<times> 'i option"
  assumes offer_inv: "inv s \<Longrightarrow> inv (fst (offer s r))"
    and offer_seen: "inv s \<Longrightarrow> seen s \<subseteq> seen (fst (offer s r))"
    and offer_fresh: "inv s \<Longrightarrow> snd (offer s r) = Some i \<Longrightarrow> i \<notin> seen s \<and> i \<in> seen (fst (offer s r))"
begin

lemma run_distinct:
  "inv s \<Longrightarrow> run_offers offer s rs = (s', ids) \<Longrightarrow>
     inv s' \<and> distinct ids \<and> set ids \<inter> seen s = {} \<and> seen s \<union> set ids \<subseteq> seen s'"
proof (induction rs arbitrary: s s' ids)
  case (Cons r rs)
  obtain s1 x where o: "offer s r = (s1, x)" by force
  obtain s2 ids2 where rest: "run_offers offer s1 rs = (s2, ids2)" by force
  from Cons.prems(1) offer_inv [of s r] offer_seen [of s r] o
  have s1: "inv s1" "seen s \<subseteq> seen s1" by auto
  from Cons.IH [OF s1(1) rest] have ih: "inv s2" "distinct ids2" "set ids2 \<inter> seen s1 = {}"
    "seen s1 \<union> set ids2 \<subseteq> seen s2" by auto
  show ?case
  proof (cases x)
    case None
    with ih s1 o rest Cons.prems(2) show ?thesis by auto
  next
    case (Some i)
    with offer_fresh [OF Cons.prems(1), of r i] o have "i \<notin> seen s" "i \<in> seen s1" by auto
    with Some ih s1 o rest Cons.prems(2) show ?thesis by auto
  qed
qed simp

end

end
