(* ===== verification/Strings.thy ===== *)
theory Strings
  imports Prelude
begin

section \<open>Rust strings\<close>

text \<open>
  A \<open>&str\<close> is its UTF-8 bytes, so a HOL \<open>string\<close> whose characters are bytes:
  \<open>len\<close> is \<open>length\<close>. This theory models what the parsers use of the standard
  library: \<open>trim\<close>, \<open>strip_prefix\<close>, \<open>split\<close>, the ASCII case conversions and
  predicates, and the reading of an unsigned decimal.
\<close>

subsection \<open>ASCII\<close>

definition byte :: "char \<Rightarrow> nat" where
  "byte c = of_char c"

definition is_ascii_digit :: "char \<Rightarrow> bool" where
  "is_ascii_digit c \<longleftrightarrow> 48 \<le> byte c \<and> byte c \<le> 57"

definition is_ascii_hexdigit :: "char \<Rightarrow> bool" where
  "is_ascii_hexdigit c \<longleftrightarrow> is_ascii_digit c \<or>
     (65 \<le> byte c \<and> byte c \<le> 70) \<or> (97 \<le> byte c \<and> byte c \<le> 102)"

definition is_lower_hexdigit :: "char \<Rightarrow> bool" where
  "is_lower_hexdigit c \<longleftrightarrow> is_ascii_digit c \<or> (97 \<le> byte c \<and> byte c \<le> 102)"

definition ascii_lower :: "char \<Rightarrow> char" where
  "ascii_lower c = (if 65 \<le> byte c \<and> byte c \<le> 90 then char_of (byte c + 32) else c)"

definition ascii_upper :: "char \<Rightarrow> char" where
  "ascii_upper c = (if 97 \<le> byte c \<and> byte c \<le> 122 then char_of (byte c - 32) else c)"

definition to_ascii_lowercase :: "string \<Rightarrow> string" where
  "to_ascii_lowercase s = map ascii_lower s"

definition to_ascii_uppercase :: "string \<Rightarrow> string" where
  "to_ascii_uppercase s = map ascii_upper s"

lemma byte_char_of [simp]: "n < 256 \<Longrightarrow> byte (char_of n) = n"
  by (simp add: byte_def)

lemma byte_less [simp]: "byte c < 256"
  by (simp add: byte_def)

lemma byte_inject: "byte c = byte d \<longleftrightarrow> c = d"
  by (simp add: byte_def)

lemma byte_ascii_lower:
  "byte (ascii_lower c) = (if 65 \<le> byte c \<and> byte c \<le> 90 then byte c + 32 else byte c)"
  by (auto simp: ascii_lower_def)

lemma byte_ascii_upper:
  "byte (ascii_upper c) = (if 97 \<le> byte c \<and> byte c \<le> 122 then byte c - 32 else byte c)"
  using byte_less [of c] by (auto simp: ascii_upper_def)

lemma ascii_lower_hex: "is_ascii_hexdigit c \<Longrightarrow> is_lower_hexdigit (ascii_lower c)"
  by (auto simp: is_ascii_hexdigit_def is_lower_hexdigit_def is_ascii_digit_def byte_ascii_lower)

lemma lower_hex_is_hex: "is_lower_hexdigit c \<Longrightarrow> is_ascii_hexdigit c"
  by (auto simp: is_ascii_hexdigit_def is_lower_hexdigit_def)

lemma ascii_lower_lower_hex: "is_lower_hexdigit c \<Longrightarrow> ascii_lower c = c"
  by (auto simp: is_lower_hexdigit_def is_ascii_digit_def ascii_lower_def)

lemma hex_ascii_upper [simp]: "is_ascii_hexdigit (ascii_upper c) = is_ascii_hexdigit c"
  by (auto simp: is_ascii_hexdigit_def is_ascii_digit_def byte_ascii_upper)

lemma ascii_lower_upper [simp]: "ascii_lower (ascii_upper c) = ascii_lower c"
  using byte_less [of c] unfolding byte_inject [symmetric] byte_ascii_lower byte_ascii_upper
  by auto

lemma lowercase_fixed: "list_all is_lower_hexdigit s \<Longrightarrow> to_ascii_lowercase s = s"
  by (induction s) (auto simp: to_ascii_lowercase_def ascii_lower_lower_hex)

subsection \<open>Trimming\<close>

text \<open>
  \<open>trim\<close> removes the characters with Unicode's \<open>White_Space\<close> property from both
  ends. Their encodings, of one to three bytes:
\<close>

definition ws_encodings :: "string list" where
  "ws_encodings = map (map char_of)
     ([[9], [10], [11], [12], [13], [32], [0xC2, 0x85], [0xC2, 0xA0], [0xE1, 0x9A, 0x80 :: nat]]
      @ map (\<lambda>n. [0xE2, 0x80, 0x80 + n]) [0..<11]
      @ [[0xE2, 0x80, 0xA8], [0xE2, 0x80, 0xA9], [0xE2, 0x80, 0xAF], [0xE2, 0x81, 0x9F],
         [0xE3, 0x80, 0x80]])"

fun strip_one :: "string list \<Rightarrow> string \<Rightarrow> string option" where
  "strip_one [] s = None"
| "strip_one (w # ws) s =
     (if w \<noteq> [] \<and> prefix w s then Some (drop (length w) s) else strip_one ws s)"

lemma strip_one_shorter: "strip_one ws s = Some s' \<Longrightarrow> length s' < length s"
  by (induction ws) (auto split: if_splits simp: prefix_def)

function trim_front :: "string list \<Rightarrow> string \<Rightarrow> string" where
  "trim_front ws s = (case strip_one ws s of None \<Rightarrow> s | Some s' \<Rightarrow> trim_front ws s')"
  by pat_completeness auto
termination
  by (relation "measure (\<lambda>(ws, s). length s)") (auto dest: strip_one_shorter)

declare trim_front.simps [simp del]

definition trim_start :: "string \<Rightarrow> string" where
  "trim_start s = trim_front ws_encodings s"

definition trim_end :: "string \<Rightarrow> string" where
  "trim_end s = rev (trim_front (map rev ws_encodings) (rev s))"

definition trim :: "string \<Rightarrow> string" where
  "trim s = trim_end (trim_start s)"

lemma strip_one_Nil: "list_all (\<lambda>w. w \<noteq> []) ws \<Longrightarrow> strip_one ws [] = None"
  by (induction ws) auto

lemma trim_Nil [simp]: "trim [] = []"
proof -
  have "list_all (\<lambda>w. w \<noteq> []) ws_encodings" "list_all (\<lambda>w. w \<noteq> []) (map rev ws_encodings)"
    by (simp_all add: ws_encodings_def upt_rec)
  then show ?thesis
    by (simp add: trim_def trim_start_def trim_end_def trim_front.simps strip_one_Nil)
qed

text \<open>
  A string that starts and ends with an ASCII byte that is no white space is not changed:
  the first byte of every encoding, and the last, is white space or not ASCII.
\<close>

definition ws_edge :: "char \<Rightarrow> bool" where
  "ws_edge c \<longleftrightarrow> (9 \<le> byte c \<and> byte c \<le> 13) \<or> byte c = 32 \<or> 128 \<le> byte c"

lemma strip_one_None:
  "(\<And>w. w \<in> set ws \<Longrightarrow> w \<noteq> [] \<Longrightarrow> hd w \<noteq> c) \<Longrightarrow> strip_one ws (c # s) = None"
proof (induction ws)
  case (Cons w ws)
  then have "strip_one ws (c # s) = None" by simp
  moreover have "\<not> (w \<noteq> [] \<and> prefix w (c # s))"
    using Cons.prems [of w] by (cases w) auto
  ultimately show ?case by simp
qed simp

lemma ws_encodings_edges:
  "list_all (\<lambda>w. ws_edge (hd w) \<and> ws_edge (last w) \<and> w \<noteq> []) ws_encodings"
  by (simp add: ws_encodings_def ws_edge_def upt_rec)

lemma trim_start_plain: "\<not> ws_edge c \<Longrightarrow> trim_start (c # s) = c # s"
proof -
  assume c: "\<not> ws_edge c"
  have "strip_one ws_encodings (c # s) = None"
    using ws_encodings_edges c by (intro strip_one_None) (auto simp: list_all_iff)
  then show ?thesis by (simp add: trim_start_def trim_front.simps)
qed

lemma trim_end_plain: "\<not> ws_edge c \<Longrightarrow> trim_end (s @ [c]) = s @ [c]"
proof -
  assume c: "\<not> ws_edge c"
  have "strip_one (map rev ws_encodings) (c # rev s) = None"
    using ws_encodings_edges c by (intro strip_one_None) (auto simp: list_all_iff hd_rev)
  then show ?thesis by (simp add: trim_end_def trim_front.simps)
qed

lemma trim_plain:
  assumes "s \<noteq> []" "\<not> ws_edge (hd s)" "\<not> ws_edge (last s)"
  shows "trim s = s"
proof -
  from assms obtain c t where s: "s = c # t" by (cases s) auto
  from assms obtain d u where s': "s = u @ [d]" by (cases s rule: rev_cases) auto
  from assms s have "trim_start s = s" by (simp add: trim_start_plain)
  moreover from assms s' have "trim_end s = s" by (simp add: trim_end_plain)
  ultimately show ?thesis by (simp add: trim_def)
qed

lemma hex_no_edge: "is_ascii_hexdigit c \<Longrightarrow> \<not> ws_edge c"
  by (auto simp: is_ascii_hexdigit_def is_ascii_digit_def ws_edge_def)

lemma digit_no_edge: "is_ascii_digit c \<Longrightarrow> \<not> ws_edge c"
  by (auto simp: is_ascii_digit_def ws_edge_def)

subsection \<open>Prefixes, splitting, unsigned decimals\<close>

definition strip_prefix :: "string \<Rightarrow> string \<Rightarrow> string option" where
  "strip_prefix p s = (if prefix p s then Some (drop (length p) s) else None)"

fun split_on :: "char \<Rightarrow> string \<Rightarrow> string list" where
  "split_on c [] = [[]]"
| "split_on c (x # xs) =
     (if x = c then [] # split_on c xs
      else case split_on c xs of [] \<Rightarrow> [[x]] | w # ws \<Rightarrow> (x # w) # ws)"

lemma strip_prefix_append [simp]: "strip_prefix p (p @ s) = Some s"
  by (simp add: strip_prefix_def)

lemma strip_prefix_Some: "strip_prefix p s = Some t \<longleftrightarrow> s = p @ t"
  by (auto simp: strip_prefix_def prefix_def)

lemma split_on_not_Nil [simp]: "split_on c s \<noteq> []"
  by (induction s) (auto split: list.splits)

subsection \<open>Numbers\<close>

text \<open>\<open>str::parse\<close> at an integer type: an optional sign, at least one digit, nothing else, and
  a value in the range of the type.\<close>

definition digits_value :: "string \<Rightarrow> nat" where
  "digits_value s = foldl (\<lambda>a c. a * 10 + (byte c - 48)) 0 s"

definition parse_digits :: "string \<Rightarrow> nat option" where
  "parse_digits s = (if s \<noteq> [] \<and> list_all is_ascii_digit s then Some (digits_value s) else None)"

definition parse_unsigned :: "nat \<Rightarrow> string \<Rightarrow> nat option" where
  "parse_unsigned bits s =
     (let body = (case s of c # cs \<Rightarrow> if c = CHR ''+'' then cs else s | [] \<Rightarrow> s)
      in case parse_digits body of
           Some n \<Rightarrow> if n < 2 ^ bits then Some n else None
         | None \<Rightarrow> None)"

definition parse_i64 :: "string \<Rightarrow> int option" where
  "parse_i64 s =
     (let (neg, body) = (case s of
            c # cs \<Rightarrow> if c = CHR ''-'' then (True, cs) else if c = CHR ''+'' then (False, cs) else (False, s)
          | [] \<Rightarrow> (False, s))
      in case parse_digits body of
           Some n \<Rightarrow> (let v = (if neg then - int n else int n)
                      in if - (2 ^ 63) \<le> v \<and> v < 2 ^ 63 then Some v else None)
         | None \<Rightarrow> None)"

subsection \<open>Decimal text of a number\<close>

definition digit_char :: "nat \<Rightarrow> char" where
  "digit_char d = char_of (48 + d)"

fun nat_text :: "nat \<Rightarrow> string" where
  "nat_text n = (if n < 10 then [digit_char n] else nat_text (n div 10) @ [digit_char (n mod 10)])"

declare nat_text.simps [simp del]

text \<open>The formatter's \<open>{:0w}\<close>.\<close>

definition zero_padded :: "nat \<Rightarrow> nat \<Rightarrow> string" where
  "zero_padded w n = replicate (w - length (nat_text n)) (CHR ''0'') @ nat_text n"

lemma byte_digit_char: "d < 10 \<Longrightarrow> byte (digit_char d) = 48 + d"
  by (simp add: byte_def digit_char_def)

lemma digit_char_digit: "d < 10 \<Longrightarrow> is_ascii_digit (digit_char d)"
  by (simp add: is_ascii_digit_def byte_digit_char)

lemma digits_value_append: "digits_value (s @ [c]) = digits_value s * 10 + (byte c - 48)"
  by (simp add: digits_value_def)

lemma nat_text_digits: "nat_text n \<noteq> [] \<and> list_all is_ascii_digit (nat_text n)"
  by (induction n rule: nat_text.induct) (subst (1 2) nat_text.simps, simp add: digit_char_digit)

lemma digits_value_nat_text: "digits_value (nat_text n) = n"
proof (induction n rule: nat_text.induct)
  case (1 n)
  then show ?case
    by (subst nat_text.simps) (auto simp: digits_value_append byte_digit_char digits_value_def)
qed

lemma digits_value_zeros: "digits_value (replicate k (CHR ''0'') @ s) = digits_value s"
  by (induction k) (simp_all add: digits_value_def byte_def)

lemma digits_value_padded: "digits_value (zero_padded w n) = n"
  by (simp add: zero_padded_def digits_value_zeros digits_value_nat_text)

text \<open>The digits of \<open>{:x}\<close> and the formatter's \<open>{:0wx}\<close>.\<close>

definition hex_char :: "nat \<Rightarrow> char" where
  "hex_char n = (if n < 10 then char_of (48 + n) else char_of (87 + n))"

fun hex_text :: "nat \<Rightarrow> string" where
  "hex_text n = (if n < 16 then [hex_char n] else hex_text (n div 16) @ [hex_char (n mod 16)])"

declare hex_text.simps [simp del]

definition hex_padded :: "nat \<Rightarrow> nat \<Rightarrow> string" where
  "hex_padded w n = replicate (w - length (hex_text n)) (CHR ''0'') @ hex_text n"

end
