(* ===== verification/Money.thy ===== *)
theory Money
  imports Strings
begin

section \<open>Money, prices, quantities (crates/domain/src/money.rs)\<close>

text \<open>
  \<open>Price\<close>, \<open>Qty\<close> and \<open>Usd\<close> wrap a \<open>Decimal\<close>. A price is valid strictly between 0
  and 1, a quantity is not negative, and a dollar amount is signed; the wrapped value is
  private, so the constructors here are the only way to make one.
\<close>

type_synonym price = rat
type_synonym qty = rat
type_synonym usd = rat

datatype money_error = PriceOutOfRange rat | NegativeQuantity rat | NotFinite f64

datatype side = Buy | Sell

subsection \<open>Price\<close>

definition PRICE_MIN :: rat where
  "PRICE_MIN = 1 / 10000"

definition PRICE_MAX :: rat where
  "PRICE_MAX = 9999 / 10000"

definition price_new :: "rat \<Rightarrow> money_error + price" where
  "price_new d = (if d \<le> 0 \<or> d \<ge> 1 then Inl (PriceOutOfRange d) else Inr d)"

definition price_from_feed_f64 :: "decimal_ops \<Rightarrow> f64 \<Rightarrow> money_error + price" where
  "price_from_feed_f64 D v =
     (case v of
        NonFinite \<Rightarrow> Inl (NotFinite v)
      | Finite x \<Rightarrow> and_then (ok_or (NotFinite v) (d_of_f64 D x)) price_new)"

definition price_saturating :: "rat \<Rightarrow> price" where
  "price_saturating d = clamp PRICE_MIN PRICE_MAX d"

definition price_round_to_tick :: "decimal_ops \<Rightarrow> price \<Rightarrow> rat \<Rightarrow> side \<Rightarrow> price" where
  "price_round_to_tick D p tick s =
     (if tick \<le> 0 then p
      else let steps = d_div D p tick;
               rounded = (case s of Buy \<Rightarrow> d_floor steps | Sell \<Rightarrow> d_ceil steps)
           in price_saturating (d_mul D rounded tick))"

definition price_complement :: "decimal_ops \<Rightarrow> price \<Rightarrow> price" where
  "price_complement D p = d_sub D 1 p"

subsection \<open>Qty\<close>

definition qty_new :: "rat \<Rightarrow> money_error + qty" where
  "qty_new d = (if d < 0 then Inl (NegativeQuantity d) else Inr d)"

definition qty_from_feed_f64 :: "decimal_ops \<Rightarrow> f64 \<Rightarrow> money_error + qty" where
  "qty_from_feed_f64 D v =
     (case v of
        NonFinite \<Rightarrow> Inl (NotFinite v)
      | Finite x \<Rightarrow> and_then (ok_or (NotFinite v) (d_of_f64 D x)) qty_new)"

definition qty_notional :: "decimal_ops \<Rightarrow> qty \<Rightarrow> price \<Rightarrow> usd" where
  "qty_notional D q p = d_mul D q p"

definition qty_saturating_sub :: "decimal_ops \<Rightarrow> qty \<Rightarrow> qty \<Rightarrow> qty" where
  "qty_saturating_sub D q r = max (d_sub D q r) 0"

definition qty_floor_to :: "decimal_ops \<Rightarrow> qty \<Rightarrow> rat \<Rightarrow> qty" where
  "qty_floor_to D q step =
     (if step \<le> 0 then q else d_mul D (d_floor (d_div D q step)) step)"

subsection \<open>Usd, Bps, Side\<close>

definition usd_from_feed_f64 :: "decimal_ops \<Rightarrow> f64 \<Rightarrow> money_error + usd" where
  "usd_from_feed_f64 D v =
     (case v of
        NonFinite \<Rightarrow> Inl (NotFinite v)
      | Finite x \<Rightarrow> ok_or (NotFinite v) (d_of_f64 D x))"

definition usd_shares_at :: "decimal_ops \<Rightarrow> usd \<Rightarrow> price \<Rightarrow> qty" where
  "usd_shares_at D u p = max (d_div D u p) 0"

definition bps_as_fraction :: "decimal_ops \<Rightarrow> nat \<Rightarrow> rat" where
  "bps_as_fraction D b = d_div D (of_nat b) 10000"

definition bps_apply_to :: "decimal_ops \<Rightarrow> nat \<Rightarrow> usd \<Rightarrow> usd" where
  "bps_apply_to D b v = d_mul D v (bps_as_fraction D b)"

definition bps_slippage :: "decimal_ops \<Rightarrow> price \<Rightarrow> price \<Rightarrow> side \<Rightarrow> rat" where
  "bps_slippage D r actual s =
     (if r = 0 then 0
      else let diff = (case s of Buy \<Rightarrow> d_sub D actual r | Sell \<Rightarrow> d_sub D r actual)
           in d_mul D (d_div D diff r) 10000)"

fun opposite :: "side \<Rightarrow> side" where
  "opposite Buy = Sell"
| "opposite Sell = Buy"

fun side_sign :: "side \<Rightarrow> rat" where
  "side_sign Buy = 1"
| "side_sign Sell = - 1"

fun side_str :: "side \<Rightarrow> string" where
  "side_str Buy = ''BUY''"
| "side_str Sell = ''SELL''"

subsection \<open>Validity\<close>

definition valid_price :: "price \<Rightarrow> bool" where
  "valid_price p \<longleftrightarrow> 0 < p \<and> p < 1"

definition valid_qty :: "qty \<Rightarrow> bool" where
  "valid_qty q \<longleftrightarrow> 0 \<le> q"

lemma price_new_Inr [simp]: "price_new d = Inr p \<longleftrightarrow> p = d \<and> valid_price p"
  by (auto simp: price_new_def valid_price_def)

lemma qty_new_Inr [simp]: "qty_new d = Inr q \<longleftrightarrow> q = d \<and> valid_qty q"
  by (auto simp: qty_new_def valid_qty_def)

lemma price_new_valid [simp]: "valid_price d \<Longrightarrow> price_new d = Inr d"
  by (simp add: price_new_def valid_price_def)

lemma qty_new_valid [simp]: "valid_qty d \<Longrightarrow> qty_new d = Inr d"
  by (simp add: qty_new_def valid_qty_def)

lemma valid_price_saturating [simp]: "valid_price (price_saturating d)"
  by (auto simp: price_saturating_def clamp_def valid_price_def PRICE_MIN_def PRICE_MAX_def)

lemma price_saturating_le: "d \<le> p \<Longrightarrow> PRICE_MIN \<le> p \<Longrightarrow> price_saturating d \<le> p"
  by (auto simp: price_saturating_def clamp_def)

lemma price_saturating_ge: "p \<le> d \<Longrightarrow> p \<le> PRICE_MAX \<Longrightarrow> p \<le> price_saturating d"
  by (auto simp: price_saturating_def clamp_def)

lemma valid_price_round_to_tick [simp]:
  "valid_price p \<Longrightarrow> valid_price (price_round_to_tick D p tick s)"
  by (simp add: price_round_to_tick_def Let_def)

lemma opposite_opposite [simp]: "opposite (opposite s) = s"
  by (cases s) simp_all

lemma side_sign_opposite: "side_sign (opposite s) = - side_sign s"
  by (cases s) simp_all

lemma side_sign_cases: "side_sign s = 1 \<or> side_sign s = - 1"
  by (cases s) simp_all

lemma side_str_inject: "side_str s = side_str t \<longleftrightarrow> s = t"
  by (cases s; cases t) simp_all

lemma shares_at_nonneg: "0 \<le> usd_shares_at D u p"
  by (simp add: usd_shares_at_def)

lemma saturating_sub_nonneg: "0 \<le> qty_saturating_sub D q r"
  by (simp add: qty_saturating_sub_def)

text \<open>Every constructor of a price or a quantity gives a valid one.\<close>

lemma price_from_feed_valid: "price_from_feed_f64 D v = Inr p \<Longrightarrow> valid_price p"
  by (auto simp: price_from_feed_f64_def and_then_Inr split: f64.splits)

lemma qty_from_feed_valid: "qty_from_feed_f64 D v = Inr q \<Longrightarrow> valid_qty q"
  by (auto simp: qty_from_feed_f64_def and_then_Inr split: f64.splits)

subsection \<open>Arithmetic under the laws of the decimals\<close>

context decimal_sign
begin

lemma notional_nonneg: "0 \<le> q \<Longrightarrow> 0 \<le> p \<Longrightarrow> 0 \<le> qty_notional D q p"
  by (simp add: qty_notional_def mul_nonneg)

lemma floor_to_nonneg: "0 \<le> q \<Longrightarrow> 0 \<le> qty_floor_to D q step"
  by (simp add: qty_floor_to_def mul_nonneg div_nonneg d_floor_nonneg)

end

context decimal_additive
begin

lemma saturating_sub_exact: "qty_saturating_sub D q r = max (q - r) 0"
  by (simp add: qty_saturating_sub_def sub_exact)

lemma complement_valid: "valid_price p \<Longrightarrow> valid_price (price_complement D p)"
  by (simp add: price_complement_def sub_exact valid_price_def)

lemma complement_complement: "price_complement D (price_complement D p) = p"
  by (simp add: price_complement_def sub_exact)

end

context decimal_exact
begin

lemma floor_to_le: "qty_floor_to D q step \<le> q"
proof (cases "step \<le> 0")
  case False
  then have "d_floor (q / step) * step \<le> q / step * step"
    by (intro mult_right_mono d_floor_le) simp
  with False show ?thesis by (simp add: qty_floor_to_def exact)
qed (simp add: qty_floor_to_def)

lemma floor_to_multiple: "0 < step \<Longrightarrow> \<exists>k::int. qty_floor_to D q step = of_int k * step"
  by (auto simp: qty_floor_to_def exact d_floor_def)

lemma shares_at_notional: "0 \<le> u \<Longrightarrow> 0 < p \<Longrightarrow> usd_shares_at D u p * p = u"
  by (auto simp: usd_shares_at_def exact max_def divide_le_0_iff)

lemma round_to_tick_buy:
  assumes "PRICE_MIN \<le> p"
  shows "price_round_to_tick D p tick Buy \<le> p"
proof (cases "tick \<le> 0")
  case False
  then have "d_floor (p / tick) * tick \<le> p / tick * tick"
    by (intro mult_right_mono d_floor_le) simp
  with False assms show ?thesis
    by (simp add: price_round_to_tick_def exact price_saturating_le)
qed (simp add: price_round_to_tick_def)

lemma round_to_tick_sell:
  assumes "p \<le> PRICE_MAX"
  shows "p \<le> price_round_to_tick D p tick Sell"
proof (cases "tick \<le> 0")
  case False
  then have "p / tick * tick \<le> d_ceil (p / tick) * tick"
    by (intro mult_right_mono le_d_ceil) simp
  with False assms show ?thesis
    by (simp add: price_round_to_tick_def exact price_saturating_ge)
qed (simp add: price_round_to_tick_def)

lemma slippage_buy: "0 < r \<Longrightarrow> bps_slippage D r a Buy = (a - r) / r * 10000"
  by (simp add: bps_slippage_def exact)

lemma slippage_sell: "0 < r \<Longrightarrow> bps_slippage D r a Sell = (r - a) / r * 10000"
  by (simp add: bps_slippage_def exact)

end

subsection \<open>Properties\<close>

text \<open>Rounding a limit price to the market's tick is never more aggressive than the price
  that was asked for, whatever the tick: a buyer's limit does not rise and a seller's does not
  fall, as long as the price is inside the tradable range [0.0001, 0.9999] that the result is
  clamped into; and the result is a valid price.\<close>

theorem round_to_tick_conservative:
  assumes "decimal_exact D" and "PRICE_MIN \<le> p" and "p \<le> PRICE_MAX"
  shows "price_round_to_tick D p tick Buy \<le> p \<and> p \<le> price_round_to_tick D p tick Sell \<and>
         valid_price (price_round_to_tick D p tick s)"
proof -
  have "valid_price p"
    using assms(2,3) by (simp add: valid_price_def PRICE_MIN_def PRICE_MAX_def)
  with assms show ?thesis
    by (simp add: decimal_exact.round_to_tick_buy decimal_exact.round_to_tick_sell)
qed

theorem round_to_tick_conservative_witness:
  "price_round_to_tick exact_decimal (617/1000) (1/100) Buy \<le> 617/1000 \<and>
   617/1000 \<le> price_round_to_tick exact_decimal (617/1000) (1/100) Sell \<and>
   valid_price (price_round_to_tick exact_decimal (617/1000) (1/100) Buy)"
  by (rule round_to_tick_conservative [OF exact_dec.decimal_exact_axioms])
    (simp_all add: PRICE_MIN_def PRICE_MAX_def)

text \<open>Below the tradable range the rounding does raise a buyer's price: a valid price of
  0.00005 becomes 0.0001, because the result is clamped up to the minimum.\<close>

theorem round_to_tick_raises_tiny_price:
  "valid_price (1/20000) \<and>
   price_round_to_tick exact_decimal (1/20000) (1/100) Buy = 1/10000 \<and>
   1/20000 < price_round_to_tick exact_decimal (1/20000) (1/100) Buy"
  by (simp add: valid_price_def price_round_to_tick_def price_saturating_def clamp_def
      PRICE_MIN_def PRICE_MAX_def d_floor_def Let_def)

end
