(* ===== verification/Ids.thy ===== *)
theory Ids
  imports Money
begin

section \<open>Identifiers (crates/domain/src/ids.rs)\<close>

text \<open>
  Each identifier that crosses a module boundary is its own type around a string, with a
  constructor that validates and normalises. The UUID identifiers (\<open>OrderId\<close>,
  \<open>CorrelationId\<close>, \<open>FillId\<close>, \<open>SignalId\<close>) are 128-bit values minted by the
  \<open>uuid\<close> crate; a function that mints one takes it as an argument.
\<close>

datatype id_error =
    BadAddress string
  | BadConditionId string
  | BadTxHash string
  | BadTokenId string

datatype address = Address (address_str: string)
datatype market_id = MarketId (market_str: string)
datatype token_id = TokenId (token_str: string)
datatype tx_hash = TxHash (tx_str: string)
datatype source_event_id = SourceEventId (event_str: string)

type_synonym order_id = nat
type_synonym correlation_id = nat
type_synonym fill_id = nat
type_synonym signal_id = nat

text \<open>\<open>TokenId\<close> derives \<open>Ord\<close> from its string: bytes compare lexicographically.\<close>

instantiation token_id :: linorder
begin

definition less_eq_token_id :: "token_id \<Rightarrow> token_id \<Rightarrow> bool" where
  "less_eq_token_id a b \<longleftrightarrow> token_str a \<le> token_str b"

definition less_token_id :: "token_id \<Rightarrow> token_id \<Rightarrow> bool" where
  "less_token_id a b \<longleftrightarrow> token_str a < token_str b"

instance
  by standard (auto simp: less_eq_token_id_def less_token_id_def intro: token_id.expand)

end

definition is_hex_body :: "string \<Rightarrow> nat \<Rightarrow> bool" where
  "is_hex_body s want \<longleftrightarrow> length s = want \<and> list_all is_ascii_hexdigit s"

definition address_new :: "string \<Rightarrow> id_error + address" where
  "address_new raw =
     (let s = trim raw;
          body = (case strip_prefix ''0x'' s of Some b \<Rightarrow> Some b | None \<Rightarrow> strip_prefix ''0X'' s)
      in case body of
           Some b \<Rightarrow> (if is_hex_body b 40 then Inr (Address (''0x'' @ to_ascii_lowercase b))
                      else Inl (BadAddress s))
         | None \<Rightarrow> Inl (BadAddress s))"

definition market_id_new :: "string \<Rightarrow> id_error + market_id" where
  "market_id_new raw =
     (let s = trim raw
      in case strip_prefix ''0x'' s of
           Some b \<Rightarrow> (if is_hex_body b 64 then Inr (MarketId (''0x'' @ to_ascii_lowercase b))
                      else Inl (BadConditionId s))
         | None \<Rightarrow> Inl (BadConditionId s))"

definition token_id_new :: "string \<Rightarrow> id_error + token_id" where
  "token_id_new raw =
     (let s = trim raw
      in if s \<noteq> [] \<and> length s \<le> 78 \<and> list_all is_ascii_digit s then Inr (TokenId s)
         else Inl (BadTokenId s))"

definition tx_hash_new :: "string \<Rightarrow> id_error + tx_hash" where
  "tx_hash_new raw =
     (let s = trim raw
      in case strip_prefix ''0x'' s of
           Some b \<Rightarrow> (if is_hex_body b 64 then Inr (TxHash (''0x'' @ to_ascii_lowercase b))
                      else Inl (BadTxHash s))
         | None \<Rightarrow> Inl (BadTxHash s))"

definition from_digest :: "string \<Rightarrow> source_event_id" where
  "from_digest hex = SourceEventId hex"

subsection \<open>Normal forms\<close>

text \<open>The invariant of each type: what its private string looks like.\<close>

definition normal_hex :: "nat \<Rightarrow> string \<Rightarrow> bool" where
  "normal_hex n s \<longleftrightarrow> (\<exists>b. s = ''0x'' @ b \<and> length b = n \<and> list_all is_lower_hexdigit b)"

definition normal_token :: "string \<Rightarrow> bool" where
  "normal_token s \<longleftrightarrow> s \<noteq> [] \<and> length s \<le> 78 \<and> list_all is_ascii_digit s"

lemma lowercase_length [simp]: "length (to_ascii_lowercase s) = length s"
  by (simp add: to_ascii_lowercase_def)

lemma lowercase_hex: "list_all is_ascii_hexdigit s \<Longrightarrow> list_all is_lower_hexdigit (to_ascii_lowercase s)"
  by (simp add: to_ascii_lowercase_def list_all_iff ascii_lower_hex)

lemma normal_hexI: "is_hex_body b n \<Longrightarrow> normal_hex n (''0x'' @ to_ascii_lowercase b)"
  by (auto simp: normal_hex_def is_hex_body_def lowercase_hex)

lemma zero_no_edge: "\<not> ws_edge (CHR ''0'')"
  by (simp add: ws_edge_def byte_def)

lemma trim_hex:
  assumes "0 < n" and "is_hex_body b n" and "\<not> ws_edge x"
  shows "trim (CHR ''0'' # x # b) = CHR ''0'' # x # b"
proof -
  have "b \<noteq> []" using assms by (auto simp: is_hex_body_def)
  then have "last (CHR ''0'' # x # b) \<in> set b" by simp
  with assms have "\<not> ws_edge (last (CHR ''0'' # x # b))"
    by (auto simp: is_hex_body_def list_all_iff hex_no_edge simp del: last.simps)
  then show ?thesis by (intro trim_plain) (simp_all add: zero_no_edge)
qed

lemma normal_hex_body: "normal_hex n s \<Longrightarrow> \<exists>b. s = CHR ''0'' # CHR ''x'' # b \<and> is_hex_body b n \<and>
    to_ascii_lowercase b = b"
  by (auto simp: normal_hex_def is_hex_body_def lowercase_fixed list_all_iff lower_hex_is_hex)

lemma x_no_edge: "\<not> ws_edge (CHR ''x'')" "\<not> ws_edge (CHR ''X'')"
  by (simp_all add: ws_edge_def byte_def)

lemma address_new_normal: "address_new raw = Inr a \<Longrightarrow> normal_hex 40 (address_str a)"
  by (auto simp: address_new_def Let_def normal_hexI split: option.splits if_splits
      intro!: normal_hexI [simplified])

lemma market_id_new_normal: "market_id_new raw = Inr a \<Longrightarrow> normal_hex 64 (market_str a)"
  by (auto simp: market_id_new_def Let_def split: option.splits if_splits
      intro!: normal_hexI [simplified])

lemma tx_hash_new_normal: "tx_hash_new raw = Inr a \<Longrightarrow> normal_hex 64 (tx_str a)"
  by (auto simp: tx_hash_new_def Let_def split: option.splits if_splits
      intro!: normal_hexI [simplified])

lemma token_id_new_normal: "token_id_new raw = Inr a \<Longrightarrow> normal_token (token_str a)"
  by (auto simp: token_id_new_def Let_def normal_token_def split: if_splits)

lemma address_new_body:
  assumes "is_hex_body b 40" and "x = CHR ''x'' \<or> x = CHR ''X''"
  shows "address_new (CHR ''0'' # x # b) = Inr (Address (''0x'' @ to_ascii_lowercase b))"
  using assms trim_hex [of 40 b x] x_no_edge by (auto simp: address_new_def strip_prefix_def)

lemma address_new_fixed: "normal_hex 40 s \<Longrightarrow> address_new s = Inr (Address s)"
  using normal_hex_body [of 40 s] by (auto simp: address_new_body)

lemma market_id_new_fixed: "normal_hex 64 s \<Longrightarrow> market_id_new s = Inr (MarketId s)"
  using normal_hex_body [of 64 s] trim_hex [of 64 _ "CHR ''x''"] x_no_edge
  by (auto simp: market_id_new_def strip_prefix_def)

lemma tx_hash_new_fixed: "normal_hex 64 s \<Longrightarrow> tx_hash_new s = Inr (TxHash s)"
  using normal_hex_body [of 64 s] trim_hex [of 64 _ "CHR ''x''"] x_no_edge
  by (auto simp: tx_hash_new_def strip_prefix_def)

lemma token_id_new_fixed: "normal_token s \<Longrightarrow> token_id_new s = Inr (TokenId s)"
  by (auto simp: token_id_new_def normal_token_def Let_def list_all_iff digit_no_edge trim_plain)

subsection \<open>Properties\<close>

text \<open>The constructors normalise once and for all: an accepted address, market id,
  transaction hash or token id is in normal form (lower-case hex of the fixed length after
  0x, or 1 to 78 digits), and reading its text back gives the same identifier. In particular
  the identifiers survive a round trip through the database and the JSON layer.\<close>

theorem ids_roundtrip:
  "(address_new r = Inr a \<longrightarrow> normal_hex 40 (address_str a) \<and> address_new (address_str a) = Inr a) \<and>
   (market_id_new r' = Inr m \<longrightarrow> normal_hex 64 (market_str m) \<and> market_id_new (market_str m) = Inr m) \<and>
   (tx_hash_new r' = Inr h \<longrightarrow> normal_hex 64 (tx_str h) \<and> tx_hash_new (tx_str h) = Inr h) \<and>
   (token_id_new r'' = Inr t \<longrightarrow> normal_token (token_str t) \<and> token_id_new (token_str t) = Inr t)"
  by (auto dest!: address_new_normal market_id_new_normal tx_hash_new_normal token_id_new_normal
      simp: address_new_fixed market_id_new_fixed tx_hash_new_fixed token_id_new_fixed)

lemma normal_hex_sevens: "normal_hex n (''0x'' @ replicate n (CHR ''7''))"
  by (auto simp: normal_hex_def list_all_iff is_lower_hexdigit_def is_ascii_digit_def byte_def)

lemma normal_token_42: "normal_token ''42''"
  by (simp add: normal_token_def is_ascii_digit_def byte_def)

theorem ids_roundtrip_witness:
  "address_new (''0x'' @ replicate 40 (CHR ''7'')) = Inr (Address (''0x'' @ replicate 40 (CHR ''7''))) \<and>
   market_id_new (''0x'' @ replicate 64 (CHR ''7'')) = Inr (MarketId (''0x'' @ replicate 64 (CHR ''7''))) \<and>
   tx_hash_new (''0x'' @ replicate 64 (CHR ''7'')) = Inr (TxHash (''0x'' @ replicate 64 (CHR ''7''))) \<and>
   token_id_new ''42'' = Inr (TokenId ''42'')"
proof -
  have "address_new (''0x'' @ replicate 40 (CHR ''7'')) = Inr (Address (''0x'' @ replicate 40 (CHR ''7'')))"
    "market_id_new (''0x'' @ replicate 64 (CHR ''7'')) = Inr (MarketId (''0x'' @ replicate 64 (CHR ''7'')))"
    "tx_hash_new (''0x'' @ replicate 64 (CHR ''7'')) = Inr (TxHash (''0x'' @ replicate 64 (CHR ''7'')))"
    "token_id_new ''42'' = Inr (TokenId ''42'')"
    by (simp_all only: address_new_fixed market_id_new_fixed tx_hash_new_fixed token_id_new_fixed
        normal_hex_sevens normal_token_42)
  then show ?thesis
    using ids_roundtrip by (metis address.sel market_id.sel token_id.sel tx_hash.sel)
qed

lemma address_case_insensitive_lemma:
  "is_hex_body b 40 \<Longrightarrow> is_hex_body c 40 \<Longrightarrow> to_ascii_lowercase b = to_ascii_lowercase c \<Longrightarrow>
     address_new (''0x'' @ b) = address_new (''0x'' @ c) \<and> (\<exists>a. address_new (''0x'' @ b) = Inr a)"
  by (auto simp: address_new_body)

text \<open>The live feed's mixed-case address and the REST API's lower-case one name the
  same wallet: any two spellings of 40 hex digits that agree after lowering, with either
  prefix, give the same \<open>Address\<close>, so the wallet lookup cannot miss on case.\<close>

theorem address_case_insensitive:
  assumes "is_hex_body b 40" and "is_hex_body c 40"
    and "to_ascii_lowercase b = to_ascii_lowercase c"
    and "p \<in> {''0x'', ''0X''}" and "q \<in> {''0x'', ''0X''}"
  shows "address_new (p @ b) = address_new (q @ c) \<and> (\<exists>a. address_new (p @ b) = Inr a)"
  using assms by (auto simp: address_new_body)

theorem address_case_insensitive_witness:
  "address_new (''0x'' @ replicate 40 (CHR ''A'')) = address_new (''0X'' @ replicate 40 (CHR ''a'')) \<and>
   (\<exists>a. address_new (''0x'' @ replicate 40 (CHR ''A'')) = Inr a)"
  by (rule address_case_insensitive)
    (simp_all add: is_hex_body_def list_all_iff is_ascii_hexdigit_def is_ascii_digit_def
      to_ascii_lowercase_def ascii_lower_def byte_def char_of_def bit_Suc_0_iff)

end
