(* ===== verification/Market.thy ===== *)
theory Market
  imports Ids
begin

section \<open>Markets and order books (crates/domain/src/market.rs)\<close>

text \<open>
  A book keeps both sides best-first: bids descending, asks ascending. A timestamp is a
  \<open>DateTime<Utc>\<close>, here the nanoseconds since the epoch.
\<close>

type_synonym timestamp = int

record outcome =
  oc_token :: token_id
  oc_name :: string

record market =
  mk_id :: market_id
  mk_slug :: string
  mk_title :: string
  mk_outcomes :: "outcome list"
  mk_tick_size :: rat
  mk_min_order_size :: rat
  mk_neg_risk :: bool
  mk_active :: bool
  mk_closed :: bool
  mk_accepting_orders :: bool

definition outcome_by_token :: "market \<Rightarrow> token_id \<Rightarrow> outcome option" where
  "outcome_by_token m t = find (\<lambda>oc. oc_token oc = t) (mk_outcomes m)"

definition is_tradable :: "market \<Rightarrow> bool" where
  "is_tradable m \<longleftrightarrow> mk_active m \<and> \<not> mk_closed m \<and> mk_accepting_orders m"

record level =
  lv_price :: price
  lv_size :: qty

record order_book =
  bk_market :: market_id
  bk_token :: token_id
  bk_bids :: "level list"
  bk_asks :: "level list"
  bk_tick_size :: rat
  bk_min_order_size :: rat
  bk_timestamp :: timestamp
  bk_seq :: nat

definition first_level :: "level list \<Rightarrow> level option" where
  "first_level ls = (case ls of [] \<Rightarrow> None | l # _ \<Rightarrow> Some l)"

definition best_bid :: "order_book \<Rightarrow> level option" where
  "best_bid b = first_level (bk_bids b)"

definition best_ask :: "order_book \<Rightarrow> level option" where
  "best_ask b = first_level (bk_asks b)"

definition book_mid :: "decimal_ops \<Rightarrow> order_book \<Rightarrow> price option" where
  "book_mid D b =
     (case (best_bid b, best_ask b) of
        (Some x, Some y) \<Rightarrow> ok (price_new (d_div D (d_add D (lv_price x) (lv_price y)) 2))
      | _ \<Rightarrow> None)"

definition book_spread :: "decimal_ops \<Rightarrow> order_book \<Rightarrow> rat option" where
  "book_spread D b =
     (case (best_bid b, best_ask b) of
        (Some x, Some y) \<Rightarrow> Some (d_sub D (lv_price y) (lv_price x))
      | _ \<Rightarrow> None)"

text \<open>\<open>windows(2).all(...)\<close> of a slice.\<close>

definition windows2_all :: "('a \<Rightarrow> 'a \<Rightarrow> bool) \<Rightarrow> 'a list \<Rightarrow> bool" where
  "windows2_all P xs = list_all (\<lambda>(x, y). P x y) (zip xs (tl xs))"

definition is_well_formed :: "order_book \<Rightarrow> bool" where
  "is_well_formed b \<longleftrightarrow>
     windows2_all (\<lambda>x y. lv_price x \<ge> lv_price y) (bk_bids b) \<and>
     windows2_all (\<lambda>x y. lv_price x \<le> lv_price y) (bk_asks b) \<and>
     (case (best_bid b, best_ask b) of
        (Some x, Some y) \<Rightarrow> lv_price x < lv_price y
      | _ \<Rightarrow> True)"

definition taking_side :: "order_book \<Rightarrow> side \<Rightarrow> level list" where
  "taking_side b s = (case s of Buy \<Rightarrow> bk_asks b | Sell \<Rightarrow> bk_bids b)"

definition within_limit :: "side \<Rightarrow> price \<Rightarrow> level \<Rightarrow> bool" where
  "within_limit s limit l = (case s of Buy \<Rightarrow> lv_price l \<le> limit | Sell \<Rightarrow> lv_price l \<ge> limit)"

definition liquidity_within :: "decimal_ops \<Rightarrow> order_book \<Rightarrow> side \<Rightarrow> price \<Rightarrow> qty" where
  "liquidity_within D b s limit =
     d_sum D (map lv_size (takeWhile (within_limit s limit) (taking_side b s)))"

definition notional_within :: "decimal_ops \<Rightarrow> order_book \<Rightarrow> side \<Rightarrow> price \<Rightarrow> usd" where
  "notional_within D b s limit =
     d_sum D (map (\<lambda>l. qty_notional D (lv_size l) (lv_price l))
       (takeWhile (within_limit s limit) (taking_side b s)))"

text \<open>The loop of \<open>sweep_vwap\<close>, with its three accumulators.\<close>

fun sweep_loop :: "decimal_ops \<Rightarrow> side \<Rightarrow> price \<Rightarrow> level list \<Rightarrow> rat \<Rightarrow> rat \<Rightarrow> rat \<Rightarrow> rat \<times> rat" where
  "sweep_loop D s limit [] remaining notional taken = (notional, taken)"
| "sweep_loop D s limit (l # ls) remaining notional taken =
     (if \<not> within_limit s limit l \<or> remaining \<le> 0 then (notional, taken)
      else let tk = min remaining (lv_size l)
           in sweep_loop D s limit ls (d_sub D remaining tk)
                (d_add D notional (d_mul D tk (lv_price l))) (d_add D taken tk))"

definition sweep_vwap :: "decimal_ops \<Rightarrow> order_book \<Rightarrow> side \<Rightarrow> qty \<Rightarrow> price \<Rightarrow> (price \<times> qty) option" where
  "sweep_vwap D b s q limit =
     (let (notional, taken) = sweep_loop D s limit (taking_side b s) q 0 0
      in if taken = 0 then None
         else case ok (price_new (d_div D notional taken)) of
                None \<Rightarrow> None
              | Some p \<Rightarrow> Some (p, case ok (qty_new taken) of Some t \<Rightarrow> t | None \<Rightarrow> 0))"

subsection \<open>Well-formed books\<close>

text \<open>The types already ensure this of every level: a valid price and a quantity.\<close>

definition valid_level :: "level \<Rightarrow> bool" where
  "valid_level l \<longleftrightarrow> valid_price (lv_price l) \<and> valid_qty (lv_size l)"

definition valid_levels :: "order_book \<Rightarrow> bool" where
  "valid_levels b \<longleftrightarrow> list_all valid_level (bk_bids b) \<and> list_all valid_level (bk_asks b)"

lemma valid_levels_taking: "valid_levels b \<Longrightarrow> list_all valid_level (taking_side b s)"
  by (cases s) (simp_all add: valid_levels_def taking_side_def)

lemma windows2_all_Nil [simp]: "windows2_all P []"
  by (simp add: windows2_all_def)

lemma windows2_all_Cons [simp]:
  "windows2_all P (x # xs) \<longleftrightarrow> (case xs of [] \<Rightarrow> True | y # _ \<Rightarrow> P x y) \<and> windows2_all P xs"
  by (cases xs) (simp_all add: windows2_all_def)

lemma windows2_all_sorted_wrt:
  "transp P \<Longrightarrow> windows2_all P xs \<longleftrightarrow> sorted_wrt P xs"
proof (induction xs)
  case (Cons x xs)
  then show ?case
    by (cases xs) (auto dest: transpD)
qed simp

lemma is_well_formed_sorted:
  "is_well_formed b \<longleftrightarrow>
     sorted_wrt (\<ge>) (map lv_price (bk_bids b)) \<and> sorted (map lv_price (bk_asks b)) \<and>
     (\<forall>x y. best_bid b = Some x \<longrightarrow> best_ask b = Some y \<longrightarrow> lv_price x < lv_price y)"
  by (auto simp: is_well_formed_def windows2_all_sorted_wrt transp_def sorted_wrt_map
      split: option.splits)

subsection \<open>Sweeping the book\<close>

definition within_levels :: "side \<Rightarrow> price \<Rightarrow> level list \<Rightarrow> level list" where
  "within_levels s limit ls = takeWhile (within_limit s limit) ls"

context decimal_additive
begin

lemma liquidity_within_exact:
  "liquidity_within D b s limit = sum_list (map lv_size (within_levels s limit (taking_side b s)))"
  by (simp add: liquidity_within_def sum_exact within_levels_def)

lemma within_sizes_nonneg:
  "list_all valid_level ls \<Longrightarrow> 0 \<le> sum_list (map lv_size (within_levels s limit ls))"
  by (induction ls) (auto simp: within_levels_def valid_level_def valid_qty_def)

text \<open>The quantity taken is the wanted one, cut to what rests within the limit.\<close>

lemma sweep_loop_taken:
  "list_all valid_level ls \<Longrightarrow> 0 \<le> r \<Longrightarrow>
   snd (sweep_loop D s limit ls r n t) =
     t + min r (sum_list (map lv_size (within_levels s limit ls)))"
proof (induction ls arbitrary: r n t)
  case (Cons l ls)
  then have rest: "0 \<le> sum_list (map lv_size (within_levels s limit ls))"
    by (simp add: within_sizes_nonneg)
  from Cons.prems have l: "0 \<le> lv_size l"
    by (simp add: valid_level_def valid_qty_def)
  show ?case
  proof (cases "\<not> within_limit s limit l \<or> r \<le> 0")
    case True
    with Cons.prems rest l show ?thesis by (auto simp: within_levels_def min_def)
  next
    case False
    then have "within_levels s limit (l # ls) = l # within_levels s limit ls"
      by (simp add: within_levels_def)
    with False Cons rest l show ?thesis
      by (simp add: Let_def add_exact sub_exact min_def)
  qed
qed (simp add: within_levels_def)

end

context decimal_exact
begin

text \<open>
  A price range that holds of every level within the limit holds of the average: the
  invariant is on the running totals.
\<close>

lemma sweep_loop_between:
  assumes "list_all (\<lambda>l. 0 \<le> lv_size l \<and>
             (within_limit s limit l \<longrightarrow> lo \<le> lv_price l \<and> lv_price l \<le> hi)) ls"
    and "lo * t \<le> n" and "n \<le> hi * t"
    and "sweep_loop D s limit ls r n t = (n', t')"
  shows "lo * t' \<le> n' \<and> n' \<le> hi * t'"
  using assms
proof (induction ls arbitrary: r n t)
  case (Cons l ls)
  show ?case
  proof (cases "\<not> within_limit s limit l \<or> r \<le> 0")
    case True
    with Cons.prems show ?thesis by simp
  next
    case False
    define k where "k = min r (lv_size l)"
    have k: "0 \<le> k" and lo: "lo \<le> lv_price l" and hi: "lv_price l \<le> hi"
      using False Cons.prems(1) by (auto simp: k_def)
    have "lo * (t + k) \<le> n + k * lv_price l" "n + k * lv_price l \<le> hi * (t + k)"
      using mult_right_mono [OF lo k] mult_right_mono [OF hi k] Cons.prems(2,3)
      by (simp_all add: algebra_simps)
    moreover have "sweep_loop D s limit ls (r - k) (n + k * lv_price l) (t + k) = (n', t')"
      using False Cons.prems(4) by (simp add: Let_def exact k_def)
    ultimately show ?thesis using Cons.IH Cons.prems(1) by simp
  qed
qed simp

lemma sweep_loop_positive:
  assumes "list_all valid_level ls"
    and "(n = 0 \<and> t = 0) \<or> (0 < n \<and> n < t)"
    and "sweep_loop D s limit ls r n t = (n', t')"
  shows "(n' = 0 \<and> t' = 0) \<or> (0 < n' \<and> n' < t')"
  using assms
proof (induction ls arbitrary: r n t)
  case (Cons l ls)
  show ?case
  proof (cases "\<not> within_limit s limit l \<or> r \<le> 0")
    case True
    with Cons.prems show ?thesis by simp
  next
    case False
    define k where "k = min r (lv_size l)"
    have k: "0 \<le> k" and p: "0 < lv_price l" "lv_price l < 1"
      using False Cons.prems(1) by (auto simp: k_def valid_level_def valid_qty_def valid_price_def)
    have "(n + k * lv_price l = 0 \<and> t + k = 0) \<or> (0 < n + k * lv_price l \<and> n + k * lv_price l < t + k)"
    proof (cases "k = 0")
      case False
      with k p have "0 < k * lv_price l" "k * lv_price l < k" by (auto simp: mult_less_cancel_left1)
      with Cons.prems(2) show ?thesis by auto
    qed (use Cons.prems(2) in simp)
    moreover have "sweep_loop D s limit ls (r - k) (n + k * lv_price l) (t + k) = (n', t')"
      using False Cons.prems(3) by (simp add: Let_def exact k_def)
    ultimately show ?thesis using Cons.IH Cons.prems(1) by simp
  qed
qed simp

lemma sweep_vwap_cases:
  fixes s limit
  assumes "valid_levels b" and "0 \<le> q"
  defines "avail \<equiv> min q (liquidity_within D b s limit)"
  shows "(avail = 0 \<and> sweep_vwap D b s q limit = None) \<or>
         (\<exists>p. 0 < avail \<and> sweep_vwap D b s q limit = Some (p, avail) \<and> valid_price p \<and>
              (case s of Buy \<Rightarrow> p \<le> limit | Sell \<Rightarrow> limit \<le> p))"
proof -
  obtain n t where nt: "sweep_loop D s limit (taking_side b s) q 0 0 = (n, t)" by force
  note levels = valid_levels_taking [OF assms(1), of s]
  have t: "t = avail"
    using sweep_loop_taken [OF levels assms(2), of s limit 0 0] nt
    by (simp add: avail_def liquidity_within_exact)
  have pos: "(n = 0 \<and> t = 0) \<or> (0 < n \<and> n < t)"
    by (rule sweep_loop_positive [OF levels _ nt]) simp
  have lim: "case s of Buy \<Rightarrow> n \<le> limit * t | Sell \<Rightarrow> limit * t \<le> n"
  proof (cases s)
    case Buy
    have "list_all (\<lambda>l. 0 \<le> lv_size l \<and>
        (within_limit Buy limit l \<longrightarrow> 0 \<le> lv_price l \<and> lv_price l \<le> limit)) (taking_side b s)"
      using levels by (auto simp: list_all_iff valid_level_def valid_qty_def valid_price_def
          within_limit_def)
    from sweep_loop_between [OF this [folded Buy] _ _ nt] Buy show ?thesis by simp
  next
    case Sell
    have "list_all (\<lambda>l. 0 \<le> lv_size l \<and>
        (within_limit Sell limit l \<longrightarrow> limit \<le> lv_price l \<and> lv_price l \<le> 1)) (taking_side b s)"
      using levels by (auto simp: list_all_iff valid_level_def valid_qty_def valid_price_def
          within_limit_def)
    from sweep_loop_between [OF this [folded Sell] _ _ nt] Sell show ?thesis by simp
  qed
  show ?thesis
  proof (cases "t = 0")
    case True
    with nt t show ?thesis by (simp add: sweep_vwap_def)
  next
    case False
    with pos have "0 < n" "n < t" by auto
    then have v: "valid_price (n / t)" by (simp add: valid_price_def)
    have "sweep_vwap D b s q limit = Some (n / t, t)"
      using nt False v \<open>0 < n\<close> \<open>n < t\<close> by (simp add: sweep_vwap_def exact valid_qty_def)
    moreover have "case s of Buy \<Rightarrow> n / t \<le> limit | Sell \<Rightarrow> limit \<le> n / t"
      using lim \<open>0 < n\<close> \<open>n < t\<close> by (cases s) (simp_all add: pos_divide_le_eq pos_le_divide_eq)
    ultimately show ?thesis using v t \<open>0 < n\<close> \<open>n < t\<close> by auto
  qed
qed

end

subsection \<open>Properties\<close>

text \<open>Walking the book never promises more than it holds and never leaves the limit. With
  valid levels and a non-negative quantity, \<open>sweep_vwap\<close> takes exactly the wanted
  quantity cut to the liquidity that rests within the limit; it refuses only when that is
  zero; and the volume-weighted price is a valid price on the right side of the limit.\<close>

theorem sweep_vwap_exact:
  assumes "decimal_exact D" and "valid_levels b" and "0 \<le> q"
  shows "(sweep_vwap D b s q limit = None \<longleftrightarrow> min q (liquidity_within D b s limit) = 0) \<and>
         (\<forall>p t. sweep_vwap D b s q limit = Some (p, t) \<longrightarrow>
            t = min q (liquidity_within D b s limit) \<and> 0 < t \<and> valid_price p \<and>
            (case s of Buy \<Rightarrow> p \<le> limit | Sell \<Rightarrow> limit \<le> p))"
  using decimal_exact.sweep_vwap_cases [OF assms, of s limit] by auto

definition sample_book :: order_book where
  "sample_book = \<lparr>bk_market = MarketId ''m'', bk_token = TokenId ''7'',
     bk_bids = [\<lparr>lv_price = 60/100, lv_size = 50\<rparr>],
     bk_asks = [\<lparr>lv_price = 61/100, lv_size = 100\<rparr>, \<lparr>lv_price = 62/100, lv_size = 300\<rparr>],
     bk_tick_size = 1/100, bk_min_order_size = 5, bk_timestamp = 0, bk_seq = 1\<rparr>"

theorem sweep_vwap_exact_witness:
  "valid_levels sample_book \<and>
   sweep_vwap exact_decimal sample_book Buy 200 (61/100) = Some (61/100, 100) \<and>
   (100::rat) = min 200 (liquidity_within exact_decimal sample_book Buy (61/100))"
proof -
  have v: "valid_levels sample_book"
    by (simp add: sample_book_def valid_levels_def valid_level_def valid_price_def valid_qty_def)
  have "sweep_vwap exact_decimal sample_book Buy 200 (61/100) = Some (61/100, 100)"
    by (simp add: sample_book_def sweep_vwap_def taking_side_def within_limit_def Let_def
        valid_price_def valid_qty_def)
  moreover have "(0::rat) \<le> 200" by simp
  ultimately show ?thesis
    using v sweep_vwap_exact [OF exact_dec.decimal_exact_axioms v, of 200 Buy "61/100"] by blast
qed

end
