(* ===== verification/Latency.thy ===== *)
theory Latency
  imports Market
begin

section \<open>Latency instrumentation (crates/domain/src/latency.rs, crates/metrics/src/latency.rs)\<close>

text \<open>
  \<open>LatencyStamps\<close> is a chain of optional timestamps; a stage is measured when both of its
  ends were observed. \<open>LatencyRecorder\<close> keeps a bounded ring of observations per stage.
\<close>

subsection \<open>Time differences\<close>

text \<open>
  \<open>num_microseconds\<close> and \<open>num_milliseconds\<close> of a difference truncate towards zero;
  the first is \<open>None\<close> when the result does not fit an \<open>i64\<close>.
\<close>

definition tdiv :: "int \<Rightarrow> int \<Rightarrow> int" where
  "tdiv a b = (if 0 \<le> a then a div b else - ((- a) div b))"

definition num_microseconds :: "int \<Rightarrow> int option" where
  "num_microseconds ns =
     (let us = tdiv ns 1000 in if - (2 ^ 63) \<le> us \<and> us < 2 ^ 63 then Some us else None)"

definition num_milliseconds :: "int \<Rightarrow> int" where
  "num_milliseconds ns = tdiv ns 1000000"

definition num_seconds :: "int \<Rightarrow> int" where
  "num_seconds ns = tdiv ns 1000000000"

lemma tdiv_nonneg: "0 \<le> a \<Longrightarrow> 0 < b \<Longrightarrow> 0 \<le> tdiv a b"
  by (simp add: tdiv_def pos_imp_zdiv_nonneg_iff)

subsection \<open>Stamps\<close>

record latency_stamps =
  lt_source :: "timestamp option"
  lt_source_is_coarse :: bool
  lt_detection :: "timestamp option"
  lt_signal :: "timestamp option"
  lt_risk_check :: "timestamp option"
  lt_submission :: "timestamp option"
  lt_ack :: "timestamp option"
  lt_fill :: "timestamp option"
  lt_dashboard :: "timestamp option"

definition stamps_begin :: "timestamp \<Rightarrow> latency_stamps" where
  "stamps_begin detection = \<lparr>lt_source = None, lt_source_is_coarse = False,
     lt_detection = Some detection, lt_signal = None, lt_risk_check = None,
     lt_submission = None, lt_ack = None, lt_fill = None, lt_dashboard = None\<rparr>"

definition stamps_from_source :: "timestamp \<Rightarrow> bool \<Rightarrow> timestamp \<Rightarrow> latency_stamps" where
  "stamps_from_source source coarse detection =
     (stamps_begin detection)\<lparr>lt_source := Some source, lt_source_is_coarse := coarse\<rparr>"

fun delta_us :: "timestamp option \<Rightarrow> timestamp option \<Rightarrow> int option" where
  "delta_us (Some a) (Some b) = num_microseconds (b - a)"
| "delta_us _ _ = None"

definition detection_us :: "latency_stamps \<Rightarrow> int option" where
  "detection_us s = delta_us (lt_source s) (lt_detection s)"

definition strategy_us :: "latency_stamps \<Rightarrow> int option" where
  "strategy_us s = delta_us (lt_detection s) (lt_signal s)"

definition risk_us :: "latency_stamps \<Rightarrow> int option" where
  "risk_us s = delta_us (lt_signal s) (lt_risk_check s)"

definition submission_us :: "latency_stamps \<Rightarrow> int option" where
  "submission_us s = delta_us (lt_risk_check s) (lt_submission s)"

definition ack_us :: "latency_stamps \<Rightarrow> int option" where
  "ack_us s = delta_us (lt_submission s) (lt_ack s)"

definition execution_us :: "latency_stamps \<Rightarrow> int option" where
  "execution_us s = delta_us (lt_submission s) (lt_fill s)"

definition internal_us :: "latency_stamps \<Rightarrow> int option" where
  "internal_us s = delta_us (lt_detection s) (lt_submission s)"

definition end_to_end_us :: "latency_stamps \<Rightarrow> int option" where
  "end_to_end_us s =
     (case delta_us (lt_source s) (lt_fill s) of
        Some us \<Rightarrow> Some us
      | None \<Rightarrow> delta_us (lt_detection s) (lt_fill s))"

definition stamp_seq :: "latency_stamps \<Rightarrow> timestamp option list" where
  "stamp_seq s = [lt_source s, lt_detection s, lt_signal s, lt_risk_check s,
     lt_submission s, lt_ack s, lt_fill s, lt_dashboard s]"

text \<open>The loop of \<open>is_monotonic\<close>, with the last stamp seen.\<close>

fun monotonic_from :: "timestamp option \<Rightarrow> timestamp list \<Rightarrow> bool" where
  "monotonic_from prev [] = True"
| "monotonic_from prev (s # ss) =
     (case prev of
        Some l \<Rightarrow> if s < l then False else monotonic_from (Some s) ss
      | None \<Rightarrow> monotonic_from (Some s) ss)"

definition is_monotonic :: "latency_stamps \<Rightarrow> bool" where
  "is_monotonic s = monotonic_from None (List.map_filter id (stamp_seq s))"

datatype latency_stage =
  Detection | Strategy | Risk | Submission | Ack | Execution | Internal | EndToEnd

definition all_stages :: "latency_stage list" where
  "all_stages = [Detection, Strategy, Risk, Submission, Ack, Execution, Internal, EndToEnd]"

definition samples :: "latency_stamps \<Rightarrow> (latency_stage \<times> int) list" where
  "samples s = List.map_filter (\<lambda>(stage, us). map_option (Pair stage) us)
     [(Detection, detection_us s), (Strategy, strategy_us s), (Risk, risk_us s),
      (Submission, submission_us s), (Ack, ack_us s), (Execution, execution_us s),
      (Internal, internal_us s), (EndToEnd, end_to_end_us s)]"

lemma monotonic_from_sorted:
  "monotonic_from prev ss \<longleftrightarrow>
     sorted ss \<and> (case prev of None \<Rightarrow> True | Some l \<Rightarrow> \<forall>s \<in> set ss. l \<le> s)"
  by (induction prev ss rule: monotonic_from.induct) (auto split: option.splits)

lemma is_monotonic_sorted: "is_monotonic s \<longleftrightarrow> sorted (List.map_filter id (stamp_seq s))"
  by (simp add: is_monotonic_def monotonic_from_sorted)

lemma delta_us_nonneg: "delta_us (Some a) (Some b) = Some us \<Longrightarrow> a \<le> b \<Longrightarrow> 0 \<le> us"
  by (auto simp: num_microseconds_def Let_def tdiv_nonneg split: if_splits)

lemma delta_us_Some:
  "delta_us x y = Some us \<Longrightarrow> \<exists>a b. x = Some a \<and> y = Some b \<and> delta_us (Some a) (Some b) = Some us"
  by (cases x; cases y) auto

text \<open>
  Two stamps of a sorted chain are ordered as their positions are; \<open>None\<close> entries do not
  count.
\<close>

lemma Some_in_map_filter: "Some c \<in> set xs \<Longrightarrow> c \<in> set (List.map_filter id xs)"
  by (induction xs) (auto simp: List.map_filter_simps split: option.splits)

lemma sorted_map_filter_nth:
  "sorted (List.map_filter id xs) \<Longrightarrow> i < j \<Longrightarrow> j < length xs \<Longrightarrow>
   xs ! i = Some a \<Longrightarrow> xs ! j = Some b \<Longrightarrow> a \<le> (b::'a::linorder)"
proof (induction xs arbitrary: i j)
  case (Cons x xs)
  have mem: "k < length xs \<Longrightarrow> xs ! k = Some c \<Longrightarrow> c \<in> set (List.map_filter id xs)" for k c
    by (metis Some_in_map_filter nth_mem)
  from Cons.prems obtain j' where j: "j = Suc j'" by (cases j) auto
  show ?case
  proof (cases i)
    case 0
    with Cons.prems j have x: "x = Some a" and b: "j' < length xs" "xs ! j' = Some b" by auto
    then have "b \<in> set (List.map_filter id xs)" by (simp add: mem)
    moreover have "\<forall>c \<in> set (List.map_filter id xs). a \<le> c"
      using Cons.prems(1) x by (simp add: List.map_filter_simps id_def)
    ultimately show ?thesis by blast
  next
    case (Suc i')
    with Cons.prems j have "sorted (List.map_filter id xs)"
      by (auto simp: List.map_filter_simps id_def split: option.splits)
    from Cons.IH [OF this, of i' j'] Cons.prems j Suc show ?thesis by simp
  qed
qed simp

lemma delta_nonneg_at:
  assumes "is_monotonic s" and "i < j" and "j < 8"
    and "delta_us (stamp_seq s ! i) (stamp_seq s ! j) = Some us"
  shows "0 \<le> us"
proof -
  obtain a b where ab: "stamp_seq s ! i = Some a" "stamp_seq s ! j = Some b"
    "delta_us (Some a) (Some b) = Some us"
    using delta_us_Some [OF assms(4)] by blast
  then have "a \<le> b"
    using sorted_map_filter_nth [of "stamp_seq s" i j a b] assms
    by (simp add: is_monotonic_sorted stamp_seq_def)
  with ab(3) show ?thesis by (rule delta_us_nonneg)
qed

lemma stage_nonneg:
  assumes "is_monotonic s"
  shows "detection_us s = Some us \<Longrightarrow> 0 \<le> us" "strategy_us s = Some us \<Longrightarrow> 0 \<le> us"
    "risk_us s = Some us \<Longrightarrow> 0 \<le> us" "submission_us s = Some us \<Longrightarrow> 0 \<le> us"
    "ack_us s = Some us \<Longrightarrow> 0 \<le> us" "execution_us s = Some us \<Longrightarrow> 0 \<le> us"
    "internal_us s = Some us \<Longrightarrow> 0 \<le> us" "end_to_end_us s = Some us \<Longrightarrow> 0 \<le> us"
  using delta_nonneg_at [OF assms, of 0 1 us] delta_nonneg_at [OF assms, of 1 2 us]
    delta_nonneg_at [OF assms, of 2 3 us] delta_nonneg_at [OF assms, of 3 4 us]
    delta_nonneg_at [OF assms, of 4 5 us] delta_nonneg_at [OF assms, of 4 6 us]
    delta_nonneg_at [OF assms, of 1 4 us] delta_nonneg_at [OF assms, of 0 6 us]
    delta_nonneg_at [OF assms, of 1 6 us]
  by (simp_all add: stamp_seq_def detection_us_def strategy_us_def risk_us_def submission_us_def
      ack_us_def execution_us_def internal_us_def end_to_end_us_def split: option.splits)

text \<open>The samples, read as a filter over the stages.\<close>

definition stage_us :: "latency_stage \<Rightarrow> latency_stamps \<Rightarrow> int option" where
  "stage_us st s = (case st of Detection \<Rightarrow> detection_us s | Strategy \<Rightarrow> strategy_us s
     | Risk \<Rightarrow> risk_us s | Submission \<Rightarrow> submission_us s | Ack \<Rightarrow> ack_us s
     | Execution \<Rightarrow> execution_us s | Internal \<Rightarrow> internal_us s | EndToEnd \<Rightarrow> end_to_end_us s)"

lemma map_filter_pairs:
  "(st, us) \<in> set (List.map_filter (\<lambda>(a, x). map_option (Pair a) x) xs) \<longleftrightarrow>
     (st, Some us) \<in> set xs"
  by (induction xs) (auto simp: List.map_filter_simps split: option.splits)

lemma samples_stage: "(st, us) \<in> set (samples s) \<longleftrightarrow> stage_us st s = Some us"
  unfolding samples_def map_filter_pairs by (cases st) (auto simp: stage_us_def)

lemma samples_nonneg: "is_monotonic s \<Longrightarrow> (st, us) \<in> set (samples s) \<Longrightarrow> 0 \<le> us"
  unfolding samples_stage by (cases st) (auto simp: stage_us_def dest: stage_nonneg)

subsection \<open>The recorder\<close>

definition CAPACITY :: nat where
  "CAPACITY = 4096"

record ring =
  rg_buf :: "int list"
  rg_next :: nat
  rg_total :: nat

definition ring_new :: ring where
  "ring_new = \<lparr>rg_buf = [], rg_next = 0, rg_total = 0\<rparr>"

definition ring_push :: "ring \<Rightarrow> int \<Rightarrow> ring" where
  "ring_push r v =
     (let r1 = r\<lparr>rg_total := rg_total r + 1\<rparr>
      in if length (rg_buf r) < CAPACITY then r1\<lparr>rg_buf := rg_buf r @ [v]\<rparr>
         else r1\<lparr>rg_buf := (rg_buf r)[rg_next r := v], rg_next := (rg_next r + 1) mod CAPACITY\<rparr>)"

text \<open>The rank \<open>(p * n as f64).ceil()\<close> is computed in binary64.\<close>

definition P50 :: rat where "P50 = 1/2"
definition P95 :: rat where "P95 = f64_round (95/100)"
definition P99 :: rat where "P99 = f64_round (99/100)"

definition rank_index :: "rat \<Rightarrow> nat \<Rightarrow> nat" where
  "rank_index p n = min (nat \<lceil>f64_round (p * of_nat n)\<rceil> - 1) (n - 1)"

record latency_stats =
  st_count :: nat
  st_min :: int
  st_mean :: int
  st_p50 :: int
  st_p95 :: int
  st_p99 :: int
  st_max :: int

definition ring_stats :: "ring \<Rightarrow> latency_stats option" where
  "ring_stats r =
     (if rg_buf r = [] then None
      else let s = sort (rg_buf r); n = length s
           in Some \<lparr>st_count = rg_total r, st_min = s ! 0, st_mean = tdiv (sum_list s) (int n),
                st_p50 = s ! rank_index P50 n, st_p95 = s ! rank_index P95 n,
                st_p99 = s ! rank_index P99 n, st_max = s ! (n - 1)\<rparr>)"

type_synonym recorder = "(latency_stage \<times> ring) list"

definition recorder_new :: recorder where
  "recorder_new = map (\<lambda>s. (s, ring_new)) all_stages"

text \<open>\<open>iter_mut().find(...)\<close> changes the first entry of the stage.\<close>

fun update_first :: "('a \<Rightarrow> bool) \<Rightarrow> ('a \<Rightarrow> 'a) \<Rightarrow> 'a list \<Rightarrow> 'a list" where
  "update_first P f [] = []"
| "update_first P f (x # xs) = (if P x then f x # xs else x # update_first P f xs)"

definition record_sample :: "recorder \<Rightarrow> latency_stage \<Rightarrow> int \<Rightarrow> recorder" where
  "record_sample rec stage micros =
     (if micros < 0 then rec
      else update_first (\<lambda>(s, _). s = stage) (\<lambda>(s, r). (s, ring_push r micros)) rec)"

definition record_all :: "recorder \<Rightarrow> latency_stamps \<Rightarrow> recorder" where
  "record_all rec stamps = foldl (\<lambda>rc (st, us). record_sample rc st us) rec (samples stamps)"

definition recorder_stats :: "recorder \<Rightarrow> latency_stage \<Rightarrow> latency_stats option" where
  "recorder_stats rec stage =
     (case find (\<lambda>(s, _). s = stage) rec of None \<Rightarrow> None | Some (_, r) \<Rightarrow> ring_stats r)"

definition all_stats :: "recorder \<Rightarrow> (latency_stage \<times> latency_stats) list" where
  "all_stats rec = List.map_filter (\<lambda>(s, r). map_option (Pair s) (ring_stats r)) rec"

subsection \<open>The ring refines a sliding window\<close>

text \<open>
  The specification is the list of everything pushed, cut to the last \<open>CAPACITY\<close>; the
  ring stores it rotated, with the oldest sample at \<open>next\<close>.
\<close>

definition last_n :: "nat \<Rightarrow> 'a list \<Rightarrow> 'a list" where
  "last_n n xs = drop (length xs - n) xs"

definition ring_view :: "ring \<Rightarrow> int list" where
  "ring_view r = drop (rg_next r) (rg_buf r) @ take (rg_next r) (rg_buf r)"

definition ring_ok :: "ring \<Rightarrow> bool" where
  "ring_ok r \<longleftrightarrow> length (rg_buf r) \<le> CAPACITY \<and> rg_next r < CAPACITY \<and>
     (length (rg_buf r) < CAPACITY \<longrightarrow> rg_next r = 0)"

lemma CAPACITY_pos [simp]: "0 < CAPACITY"
  by (simp add: CAPACITY_def)

lemma ring_ok_new: "ring_ok ring_new"
  by (simp add: ring_ok_def ring_new_def)

lemma ring_ok_push: "ring_ok r \<Longrightarrow> ring_ok (ring_push r v)"
  by (auto simp: ring_ok_def ring_push_def Let_def)

lemma length_ring_view [simp]: "length (ring_view r) = length (rg_buf r)"
  by (simp add: ring_view_def)

lemma set_ring_view: "set (ring_view r) = set (rg_buf r)"
  unfolding ring_view_def by (metis append_take_drop_id set_append sup_commute)

lemma ring_view_push:
  assumes "ring_ok r"
  shows "ring_view (ring_push r v) = last_n CAPACITY (ring_view r @ [v])"
proof (cases "length (rg_buf r) < CAPACITY")
  case True
  with assms show ?thesis by (simp add: ring_push_def ring_view_def ring_ok_def last_n_def Let_def)
next
  case False
  with assms have len: "length (rg_buf r) = CAPACITY" and nxt: "rg_next r < CAPACITY"
    by (auto simp: ring_ok_def)
  then have spec: "last_n CAPACITY (ring_view r @ [v]) =
      drop (Suc (rg_next r)) (rg_buf r) @ take (rg_next r) (rg_buf r) @ [v]"
    by (simp add: last_n_def ring_view_def)
  show ?thesis
  proof (cases "Suc (rg_next r) = CAPACITY")
    case True
    with len nxt have "(rg_buf r)[rg_next r := v] = take (rg_next r) (rg_buf r) @ [v]"
      by (simp add: upd_conv_take_nth_drop)
    with True len show ?thesis unfolding spec by (simp add: ring_push_def ring_view_def)
  next
    case False
    with nxt have "Suc (rg_next r) < CAPACITY" by simp
    with len nxt show ?thesis unfolding spec
      by (simp add: ring_push_def ring_view_def take_Suc_conv_app_nth drop_update_cancel)
  qed
qed

lemma last_n_append: "last_n n (last_n n xs @ ys) = last_n n (xs @ ys)"
proof -
  have "length xs + length ys - (length xs - n + n) + (length xs - n) = length xs + length ys - n"
    if "n < length xs" using that by linarith
  then show ?thesis by (cases "length xs \<le> n") (auto simp: last_n_def)
qed

lemma rg_total_push: "rg_total (ring_push r v) = Suc (rg_total r)"
  by (simp add: ring_push_def Let_def)

lemma ring_pushes:
  "ring_ok r \<Longrightarrow> ring_ok (foldl ring_push r vs) \<and>
     ring_view (foldl ring_push r vs) = last_n CAPACITY (ring_view r @ vs) \<and>
     rg_total (foldl ring_push r vs) = rg_total r + length vs"
proof (induction vs arbitrary: r)
  case Nil
  then show ?case by (simp add: last_n_def ring_ok_def)
next
  case (Cons v vs)
  then have "ring_ok (ring_push r v)" by (simp add: ring_ok_push)
  from Cons.IH [OF this] Cons.prems show ?case
    using last_n_append [of CAPACITY "ring_view r @ [v]" vs] rg_total_push [of r v]
    by (simp add: ring_view_push)
qed

lemma rank_index_less: "0 < n \<Longrightarrow> rank_index p n < n"
  by (simp add: rank_index_def min_def) linarith

lemma ring_stats_None: "ring_stats r = None \<longleftrightarrow> rg_buf r = []"
  by (simp add: ring_stats_def Let_def)

lemma sorted_index:
  fixes xs :: "int list"
  assumes "i < length xs"
  shows "sort xs ! i \<in> set xs" and "sort xs ! 0 \<le> sort xs ! i"
    and "sort xs ! i \<le> sort xs ! (length xs - 1)"
proof -
  show "sort xs ! i \<in> set xs"
    using nth_mem [of i "sort xs"] assms by simp
  show "sort xs ! 0 \<le> sort xs ! i"
    by (rule sorted_nth_mono) (use assms in simp_all)
  show "sort xs ! i \<le> sort xs ! (length xs - 1)"
    by (rule sorted_nth_mono) (use assms in simp_all)
qed

subsection \<open>Properties\<close>

text \<open>Latencies are real observations: on a chain of stamps whose recorded times never go
  backwards every sample that is published is non-negative, so the recorder, which drops negative
  values, records every one of them; and a stage is published exactly when its delta was
  measured.\<close>

theorem samples_nonnegative:
  assumes "is_monotonic s"
  shows "((st, us) \<in> set (samples s) \<longleftrightarrow> stage_us st s = Some us) \<and>
         (stage_us st s = Some us \<longrightarrow> 0 \<le> us)"
  using assms samples_nonneg by (auto simp: samples_stage)

theorem samples_nonnegative_witness:
  "(Detection, 250000) \<in> set (samples (stamps_from_source 0 False 250000000)) \<and> (0::int) \<le> 250000"
proof -
  define s where "s = stamps_from_source 0 False 250000000"
  have "is_monotonic s"
    by (simp add: s_def is_monotonic_def stamps_from_source_def stamps_begin_def stamp_seq_def
        List.map_filter_simps)
  moreover have "stage_us Detection s = Some 250000"
    by (simp add: s_def stage_us_def detection_us_def stamps_from_source_def stamps_begin_def
        num_microseconds_def tdiv_def)
  ultimately show ?thesis using samples_nonnegative [of s Detection 250000] by (simp add: s_def)
qed

text \<open>The bounded ring of the latency recorder is a sliding window: after any sequence of
  pushes, read from the oldest sample on, it holds the last \<open>CAPACITY\<close> of them in order, its
  total counts them all, and its statistics exist as soon as there is a sample, with every
  percentile an observed sample between the minimum and the maximum of the window.\<close>

theorem ring_is_sliding_window:
  "ring_view (foldl ring_push ring_new vs) = last_n CAPACITY vs \<and>
   rg_total (foldl ring_push ring_new vs) = length vs \<and>
   (case ring_stats (foldl ring_push ring_new vs) of
      None \<Rightarrow> vs = []
    | Some st \<Rightarrow> vs \<noteq> [] \<and>
        list_all (\<lambda>p. p \<in> set (last_n CAPACITY vs) \<and> st_min st \<le> p \<and> p \<le> st_max st)
          [st_p50 st, st_p95 st, st_p99 st])"
proof -
  define r where "r = foldl ring_push ring_new vs"
  have view: "ring_view r = last_n CAPACITY vs" and total: "rg_total r = length vs"
    using ring_pushes [OF ring_ok_new, of vs] by (simp_all add: r_def ring_view_def ring_new_def)
  then have buf: "set (rg_buf r) = set (last_n CAPACITY vs)" and len: "rg_buf r = [] \<longleftrightarrow> vs = []"
    using set_ring_view [of r] length_ring_view [of r] by (auto simp: last_n_def CAPACITY_def)
  note idx = sorted_index [OF rank_index_less, of "rg_buf r"]
  show ?thesis
    using view total len idx unfolding r_def [symmetric]
    by (cases "rg_buf r = []") (auto simp: ring_stats_def Let_def buf)
qed

end
