(* ===== verification/Trades.thy ===== *)
theory Trades
  imports Latency
begin

section \<open>Target wallets, source trades, signals, fills (crates/domain/src/wallet.rs, trade.rs)\<close>

text \<open>
  What is observed of the traders that are copied, what the strategy makes of it, and the
  executions of our own orders. The operations here are the admission test of a target
  wallet and the cash impact of a fill.
\<close>

subsection \<open>Skip reasons and target wallets\<close>

datatype signal_skip_reason =
    DuplicateEvent
  | WalletNotTracked
  | SkipWalletDisabled
  | MarketBlocked string
  | MarketNotAllowed string
  | BelowMinNotional (skip_got: string) (skip_min: string)
  | SizedToZero

datatype sizing_mode =
    FixedRatio rat
  | FixedUsd rat
  | PortfolioPercent rat
  | RiskAdjusted (base_ratio: rat) (liquidity_cap_pct: rat)

fun sizing_mode_name :: "sizing_mode \<Rightarrow> string" where
  "sizing_mode_name (FixedRatio _) = ''fixed_ratio''"
| "sizing_mode_name (FixedUsd _) = ''fixed_usd''"
| "sizing_mode_name (PortfolioPercent _) = ''portfolio_percent''"
| "sizing_mode_name (RiskAdjusted _ _) = ''risk_adjusted''"

definition default_sizing_mode :: sizing_mode where
  "default_sizing_mode = FixedRatio (25/100)"

record target_wallet =
  tw_address :: address
  tw_nickname :: string
  tw_enabled :: bool
  tw_sizing :: sizing_mode
  tw_max_trade_usd :: usd
  tw_max_exposure_usd :: usd
  tw_min_trade_usd :: usd
  tw_allowed_markets :: "market_id list"
  tw_blocked_markets :: "market_id list"
  tw_min_source_notional_usd :: usd

definition target_wallet_new :: "address \<Rightarrow> string \<Rightarrow> target_wallet" where
  "target_wallet_new addr nickname = \<lparr>tw_address = addr, tw_nickname = nickname, tw_enabled = True,
     tw_sizing = default_sizing_mode, tw_max_trade_usd = 100, tw_max_exposure_usd = 1000,
     tw_min_trade_usd = 5, tw_allowed_markets = [], tw_blocked_markets = [],
     tw_min_source_notional_usd = 50\<rparr>"

definition admits :: "decimal_ops \<Rightarrow> target_wallet \<Rightarrow> market_id \<Rightarrow> usd \<Rightarrow> signal_skip_reason + unit" where
  "admits D w market source_notional =
     (if \<not> tw_enabled w then Inl SkipWalletDisabled
      else if market \<in> set (tw_blocked_markets w) then Inl (MarketBlocked (market_str market))
      else if tw_allowed_markets w \<noteq> [] \<and> market \<notin> set (tw_allowed_markets w)
        then Inl (MarketNotAllowed (market_str market))
      else if source_notional < tw_min_source_notional_usd w
        then Inl (BelowMinNotional (d_cents D source_notional) (d_cents D (tw_min_source_notional_usd w)))
      else Inr ())"

subsection \<open>Source trades\<close>

datatype trade_source = RtdsWebsocket | RestBackfill | ReplaySource | DemoSource

definition is_real :: "trade_source \<Rightarrow> bool" where
  "is_real s \<longleftrightarrow> s = RtdsWebsocket \<or> s = RestBackfill"

fun trade_source_str :: "trade_source \<Rightarrow> string" where
  "trade_source_str RtdsWebsocket = ''rtds_ws''"
| "trade_source_str RestBackfill = ''rest_backfill''"
| "trade_source_str ReplaySource = ''replay''"
| "trade_source_str DemoSource = ''demo''"

record source_trade =
  so_event_id :: source_event_id
  so_correlation_id :: correlation_id
  so_trader :: address
  so_market_id :: market_id
  so_token_id :: token_id
  so_outcome :: string
  so_side :: side
  so_price :: price
  so_quantity :: qty
  so_tx_hash :: tx_hash
  so_occurrence :: nat
  so_source_ts :: timestamp
  so_detected_ts :: timestamp
  so_source :: trade_source
  so_market_title :: string
  so_market_slug :: string

definition source_notional :: "decimal_ops \<Rightarrow> source_trade \<Rightarrow> usd" where
  "source_notional D t = qty_notional D (so_quantity t) (so_price t)"

subsection \<open>Copy signals\<close>

text \<open>The JSON metadata of a signal is its sequence of keys and values.\<close>

datatype json =
    JNull
  | JBool bool
  | JStr string
  | JInt int
  | JDecimal rat
  | JFloat f64
  | JArr "json list"
  | JObj "(string \<times> json) list"

record copy_signal =
  cs_signal_id :: signal_id
  cs_correlation_id :: correlation_id
  cs_source_event_id :: source_event_id
  cs_target_wallet :: address
  cs_market_id :: market_id
  cs_token_id :: token_id
  cs_outcome :: string
  cs_side :: side
  cs_target_price :: price
  cs_target_quantity :: qty
  cs_target_notional :: usd
  cs_copy_quantity :: qty
  cs_copy_notional :: usd
  cs_limit_price :: price
  cs_sizing_mode :: string
  cs_confidence :: rat
  cs_source_ts :: timestamp
  cs_detection_ts :: timestamp
  cs_signal_ts :: timestamp
  cs_latency :: latency_stamps
  cs_metadata :: "(string \<times> json) list"

subsection \<open>Fills\<close>

record fill =
  fi_fill_id :: fill_id
  fi_order_id :: order_id
  fi_correlation_id :: correlation_id
  fi_market_id :: market_id
  fi_token_id :: token_id
  fi_side :: side
  fi_quantity :: qty
  fi_price :: price
  fi_fee :: usd
  fi_venue_fill_id :: "string option"
  fi_is_maker :: bool
  fi_filled_at :: timestamp

definition fill_notional :: "decimal_ops \<Rightarrow> fill \<Rightarrow> usd" where
  "fill_notional D f = qty_notional D (fi_quantity f) (fi_price f)"

definition cash_delta :: "decimal_ops \<Rightarrow> fill \<Rightarrow> usd" where
  "cash_delta D f =
     (case fi_side f of
        Buy \<Rightarrow> - (d_add D (fill_notional D f) (fi_fee f))
      | Sell \<Rightarrow> d_sub D (fill_notional D f) (fi_fee f))"

definition valid_fill :: "fill \<Rightarrow> bool" where
  "valid_fill f \<longleftrightarrow> valid_qty (fi_quantity f) \<and> valid_price (fi_price f)"

context decimal_exact
begin

lemma cash_delta_exact:
  "cash_delta D f = - (side_sign (fi_side f) * fi_quantity f * fi_price f) - fi_fee f"
  by (cases "fi_side f") (simp_all add: cash_delta_def fill_notional_def qty_notional_def exact)

end

lemma admits_iff:
  "admits D w m n = Inr () \<longleftrightarrow> tw_enabled w \<and> m \<notin> set (tw_blocked_markets w) \<and>
     (tw_allowed_markets w = [] \<or> m \<in> set (tw_allowed_markets w)) \<and> tw_min_source_notional_usd w \<le> n"
  by (auto simp: admits_def)

subsection \<open>Properties\<close>

text \<open>A target wallet admits a trade exactly when the wallet is enabled, the market is not
  blocked, the market is on the allow list (or there is none), and the source trade is not dust.
  The reasons have a fixed priority: a disabled wallet always reports so, and a blocked market is
  reported as blocked even when it is also allowed.\<close>

theorem admits_exactly:
  "(admits D w m n = Inr () \<longleftrightarrow> tw_enabled w \<and> m \<notin> set (tw_blocked_markets w) \<and>
      (tw_allowed_markets w = [] \<or> m \<in> set (tw_allowed_markets w)) \<and>
      tw_min_source_notional_usd w \<le> n) \<and>
   (admits D w m n = Inl SkipWalletDisabled \<longleftrightarrow> \<not> tw_enabled w) \<and>
   (admits D w m n = Inl (MarketBlocked (market_str m)) \<longleftrightarrow>
      tw_enabled w \<and> m \<in> set (tw_blocked_markets w))"
  by (auto simp: admits_def)

end
