(* ===== verification/Orders.thy ===== *)
theory Orders
  imports Trades
begin

section \<open>Orders and their state machine (crates/domain/src/order.rs)\<close>

text \<open>
  One of our own orders: its request, its lifecycle state and its fills. A change of state
  goes through \<open>transition\<close>, which checks \<open>can_transition_to\<close>, or through
  \<open>apply_fill\<close>, which checks that the order may have executed and is not overfilled.
  \<open>order_run\<close> is every history these two allow.
\<close>

subsection \<open>States\<close>

datatype order_state =
    Created
  | Validated
  | Submitted
  | Acknowledged
  | PartiallyFilled
  | Filled
  | CancelRequested
  | Cancelled
  | Rejected
  | Failed
  | Unknown

definition is_terminal :: "order_state \<Rightarrow> bool" where
  "is_terminal s \<longleftrightarrow> s \<in> set [Filled, Cancelled, Rejected, Failed]"

definition is_open :: "order_state \<Rightarrow> bool" where
  "is_open s \<longleftrightarrow> s \<in> set [Created, Validated, Submitted, Acknowledged,
     PartiallyFilled, CancelRequested, Unknown]"

definition may_have_executed :: "order_state \<Rightarrow> bool" where
  "may_have_executed s \<longleftrightarrow> s \<in> set [Submitted, Acknowledged, PartiallyFilled,
     Filled, CancelRequested, Unknown]"

definition can_transition_to :: "order_state \<Rightarrow> order_state \<Rightarrow> bool" where
  "can_transition_to s n \<longleftrightarrow>
     (if is_terminal s then False
      else if n = Unknown then True
      else case s of
        Unknown \<Rightarrow> n \<in> set [Acknowledged, PartiallyFilled, Filled, Cancelled, Rejected, Failed]
      | Created \<Rightarrow> n \<in> set [Validated, Rejected, Failed]
      | Validated \<Rightarrow> n \<in> set [Submitted, Rejected, Failed]
      | Submitted \<Rightarrow> n \<in> set [Acknowledged, PartiallyFilled, Filled, Rejected, Failed, Cancelled]
      | Acknowledged \<Rightarrow> n \<in> set [PartiallyFilled, Filled, CancelRequested, Cancelled, Rejected]
      | PartiallyFilled \<Rightarrow> n \<in> set [PartiallyFilled, Filled, CancelRequested, Cancelled]
      | CancelRequested \<Rightarrow> n \<in> set [Cancelled, Filled, PartiallyFilled]
      | _ \<Rightarrow> False)"

fun order_state_str :: "order_state \<Rightarrow> string" where
  "order_state_str Created = ''CREATED''"
| "order_state_str Validated = ''VALIDATED''"
| "order_state_str Submitted = ''SUBMITTED''"
| "order_state_str Acknowledged = ''ACKNOWLEDGED''"
| "order_state_str PartiallyFilled = ''PARTIALLY_FILLED''"
| "order_state_str Filled = ''FILLED''"
| "order_state_str CancelRequested = ''CANCEL_REQUESTED''"
| "order_state_str Cancelled = ''CANCELLED''"
| "order_state_str Rejected = ''REJECTED''"
| "order_state_str Failed = ''FAILED''"
| "order_state_str Unknown = ''UNKNOWN''"

lemmas state_tests = is_terminal_def is_open_def may_have_executed_def can_transition_to_def

lemma is_open_iff: "is_open s \<longleftrightarrow> \<not> is_terminal s"
  by (cases s) (simp_all add: state_tests)

lemma terminal_no_transition: "is_terminal s \<Longrightarrow> \<not> can_transition_to s n"
  by (simp add: can_transition_to_def)

lemma to_Submitted: "can_transition_to s Submitted \<longleftrightarrow> s = Validated"
  by (cases s) (simp_all add: state_tests)

lemma to_Validated: "can_transition_to s Validated \<longleftrightarrow> s = Created"
  by (cases s) (simp_all add: state_tests)

lemma to_Created: "\<not> can_transition_to s Created"
  by (cases s) (simp_all add: state_tests)

lemma order_state_str_inject: "order_state_str s = order_state_str t \<longleftrightarrow> s = t"
  by (cases s; cases t) simp_all

text \<open>Outside \<open>Unknown\<close>, an order can only start to execute by being submitted.\<close>

lemma into_executing:
  "can_transition_to s n \<Longrightarrow> may_have_executed n \<Longrightarrow> n \<noteq> Unknown \<Longrightarrow>
   may_have_executed s \<or> (s = Validated \<and> n = Submitted)"
  by (cases s; cases n) (simp_all add: state_tests)

subsection \<open>Requests and orders\<close>

datatype order_type = MarketOrder | LimitOrder

datatype time_in_force = Gtc | Ioc | Fok

record order_request =
  rq_order_id :: order_id
  rq_correlation_id :: correlation_id
  rq_signal_id :: "signal_id option"
  rq_market_id :: market_id
  rq_token_id :: token_id
  rq_side :: side
  rq_order_type :: order_type
  rq_time_in_force :: time_in_force
  rq_quantity :: qty
  rq_limit_price :: price
  rq_reference_price :: price
  rq_tick_size :: rat
  rq_created_at :: timestamp

definition request_notional :: "decimal_ops \<Rightarrow> order_request \<Rightarrow> usd" where
  "request_notional D r = qty_notional D (rq_quantity r) (rq_limit_price r)"

record order =
  or_request :: order_request
  or_state :: order_state
  or_venue_order_id :: "string option"
  or_filled_qty :: qty
  or_filled_notional :: usd
  or_fees_paid :: usd
  or_reject_reason :: "string option"
  or_latency :: latency_stamps
  or_updated_at :: timestamp

datatype order_error =
    IllegalTransition (err_from: order_state) (err_to: order_state)
  | Overfill (err_order: order_id) (err_fill: qty) (err_remaining: qty)
  | ZeroQuantity

definition order_new :: "order_request \<Rightarrow> latency_stamps \<Rightarrow> order_error + order" where
  "order_new request latency =
     (if rq_quantity request = 0 then Inl ZeroQuantity
      else Inr \<lparr>or_request = request, or_state = Created, or_venue_order_id = None,
        or_filled_qty = 0, or_filled_notional = 0, or_fees_paid = 0, or_reject_reason = None,
        or_latency = latency, or_updated_at = rq_created_at request\<rparr>)"

definition order_id_of :: "order \<Rightarrow> order_id" where
  "order_id_of o' = rq_order_id (or_request o')"

definition remaining :: "decimal_ops \<Rightarrow> order \<Rightarrow> qty" where
  "remaining D o' = qty_saturating_sub D (rq_quantity (or_request o')) (or_filled_qty o')"

definition avg_fill_price :: "decimal_ops \<Rightarrow> order \<Rightarrow> price option" where
  "avg_fill_price D o' =
     (if or_filled_qty o' = 0 then None
      else ok (price_new (d_div D (or_filled_notional o') (or_filled_qty o'))))"

definition transition :: "order \<Rightarrow> order_state \<Rightarrow> timestamp \<Rightarrow> order_error + order" where
  "transition o' n now =
     (if \<not> can_transition_to (or_state o') n then Inl (IllegalTransition (or_state o') n)
      else Inr (o'\<lparr>or_state := n, or_updated_at := now\<rparr>))"

definition apply_fill ::
    "decimal_ops \<Rightarrow> order \<Rightarrow> qty \<Rightarrow> price \<Rightarrow> usd \<Rightarrow> timestamp \<Rightarrow> order_error + order" where
  "apply_fill D o' q p fee now =
     (if \<not> may_have_executed (or_state o') then Inl (IllegalTransition (or_state o') PartiallyFilled)
      else if q > remaining D o' then Inl (Overfill (order_id_of o') q (remaining D o'))
      else let o1 = o'\<lparr>or_filled_qty := d_add D (or_filled_qty o') q,
                 or_filled_notional := d_add D (or_filled_notional o') (qty_notional D q p),
                 or_fees_paid := d_add D (or_fees_paid o') fee\<rparr>;
               nxt = (if remaining D o1 = 0 then Filled else PartiallyFilled)
           in Inr (o1\<lparr>or_state := nxt, or_updated_at := now\<rparr>))"

lemma remaining_update [simp]:
  "remaining D (o'\<lparr>or_state := s\<rparr>) = remaining D o'"
  "remaining D (o'\<lparr>or_updated_at := t\<rparr>) = remaining D o'"
  "remaining D (o'\<lparr>or_venue_order_id := v\<rparr>) = remaining D o'"
  "remaining D (o'\<lparr>or_latency := l\<rparr>) = remaining D o'"
  "remaining D (o'\<lparr>or_reject_reason := r\<rparr>) = remaining D o'"
  by (simp_all add: remaining_def)

lemma transition_Inr [guard_simps]:
  "transition o' n now = Inr o'' \<longleftrightarrow>
     can_transition_to (or_state o') n \<and> o'' = o'\<lparr>or_state := n, or_updated_at := now\<rparr>"
  by (auto simp: transition_def)

lemma transition_Inl [guard_simps]:
  "transition o' n now = Inl e \<longleftrightarrow>
     \<not> can_transition_to (or_state o') n \<and> e = IllegalTransition (or_state o') n"
  by (auto simp: transition_def)

lemma apply_fill_succeeds:
  "(\<exists>o''. apply_fill D o' q p fee now = Inr o'') \<longleftrightarrow>
     may_have_executed (or_state o') \<and> q \<le> remaining D o'"
  by (simp add: apply_fill_def Let_def)

text \<open>What a successful fill does to every field.\<close>

lemma apply_fill_fields:
  assumes "apply_fill D o' q p fee now = Inr o''"
  shows "or_request o'' = or_request o'" and "or_filled_qty o'' = d_add D (or_filled_qty o') q"
    and "or_filled_notional o'' = d_add D (or_filled_notional o') (qty_notional D q p)"
    and "or_fees_paid o'' = d_add D (or_fees_paid o') fee"
    and "or_state o'' = (if remaining D o'' = 0 then Filled else PartiallyFilled)"
    and "or_updated_at o'' = now" and "or_venue_order_id o'' = or_venue_order_id o'"
    and "or_latency o'' = or_latency o'" and "or_reject_reason o'' = or_reject_reason o'"
    and "may_have_executed (or_state o')" and "q \<le> remaining D o'"
  using assms by (auto simp: apply_fill_def remaining_def Let_def split: if_splits)

subsection \<open>Histories\<close>

inductive order_step :: "decimal_ops \<Rightarrow> order \<Rightarrow> order \<Rightarrow> bool" for D where
  moved: "transition o' n now = Inr o'' \<Longrightarrow> order_step D o' o''"
| filled: "apply_fill D o' q p fee now = Inr o'' \<Longrightarrow> valid_qty q \<Longrightarrow> valid_price p \<Longrightarrow>
    order_step D o' o''"

text \<open>The orders of a history, newest first.\<close>

inductive order_run :: "decimal_ops \<Rightarrow> order list \<Rightarrow> bool" for D where
  start: "order_new rq lat = Inr o' \<Longrightarrow> valid_qty (rq_quantity rq) \<Longrightarrow> order_run D [o']"
| step: "order_run D (o' # os) \<Longrightarrow> order_step D o' o'' \<Longrightarrow> order_run D (o'' # o' # os)"

inductive_cases order_run_NilE: "order_run D []"
inductive_cases order_stepE: "order_step D o' o''"

lemma order_new_fields:
  "order_new rq lat = Inr o' \<longleftrightarrow> rq_quantity rq \<noteq> 0 \<and>
     o' = \<lparr>or_request = rq, or_state = Created, or_venue_order_id = None,
        or_filled_qty = 0, or_filled_notional = 0, or_fees_paid = 0, or_reject_reason = None,
        or_latency = lat, or_updated_at = rq_created_at rq\<rparr>"
  by (auto simp: order_new_def)

lemma order_step_request: "order_step D o' o'' \<Longrightarrow> or_request o'' = or_request o'"
  by (auto elim!: order_stepE simp: transition_Inr dest: apply_fill_fields)

text \<open>How a step changes the state: a checked transition, or a fill.\<close>

lemma order_step_state:
  "order_step D o' o'' \<Longrightarrow>
     can_transition_to (or_state o') (or_state o'') \<or>
     (may_have_executed (or_state o') \<and> or_state o'' \<in> {PartiallyFilled, Filled})"
proof (elim order_stepE)
  fix q p fee now
  assume "apply_fill D o' q p fee now = Inr o''"
  from apply_fill_fields(5,10) [OF this] show ?thesis by simp
qed (auto simp: transition_Inr)

lemma order_step_executing:
  assumes "order_step D o' o''" and "may_have_executed (or_state o'')"
  shows "may_have_executed (or_state o') \<or> or_state o'' = Unknown \<or> or_state o' = Validated"
  using order_step_state [OF assms(1)] assms(2) into_executing by blast

text \<open>Nothing executes before it was validated, or lost track of.\<close>

lemma executing_was_validated:
  "order_run D os \<Longrightarrow> may_have_executed (or_state (hd os)) \<Longrightarrow>
     \<exists>o' \<in> set os. or_state o' = Validated \<or> or_state o' = Unknown"
proof (induction rule: order_run.induct)
  case (start rq lat o')
  then show ?case by (auto simp: order_new_fields may_have_executed_def)
next
  case (step o' os o'')
  with order_step_executing [OF step.hyps(2)] show ?case by auto
qed

lemma filled_was_executing:
  "order_run D os \<Longrightarrow> or_filled_qty (hd os) \<noteq> 0 \<Longrightarrow>
     \<exists>o' \<in> set os. may_have_executed (or_state o')"
proof (induction rule: order_run.induct)
  case (step o' os o'')
  show ?case
  proof (cases "or_filled_qty o' = 0")
    case True
    with step have "may_have_executed (or_state o')"
      by (auto elim!: order_stepE simp: transition_Inr dest: apply_fill_fields(10))
    then show ?thesis by simp
  next
    case False
    with step.IH show ?thesis by auto
  qed
qed (auto simp: order_new_fields)

lemma run_suffix: "order_run D (xs @ ys) \<Longrightarrow> ys \<noteq> [] \<Longrightarrow> order_run D ys"
proof (induction xs)
  case (Cons x xs)
  from Cons.prems have "order_run D (xs @ ys)"
    by (cases "xs @ ys") (auto elim: order_run.cases)
  with Cons show ?case by simp
qed simp

lemma filled_was_validated:
  assumes "order_run D os" and "or_filled_qty (hd os) \<noteq> 0"
  shows "\<exists>o' \<in> set os. or_state o' = Validated \<or> or_state o' = Unknown"
proof -
  obtain o' where o': "o' \<in> set os" "may_have_executed (or_state o')"
    using filled_was_executing [OF assms] by blast
  then obtain xs ys where os: "os = xs @ o' # ys" by (meson split_list)
  with assms(1) have "order_run D (o' # ys)" using run_suffix by blast
  from executing_was_validated [OF this] o' os show ?thesis by auto
qed

subsection \<open>The fill invariant\<close>

text \<open>
  The request is never edited, the filled quantity stays between zero and the quantity asked
  for, and the fees and the notional belong to the fills.
\<close>

definition order_ok :: "order \<Rightarrow> bool" where
  "order_ok o' \<longleftrightarrow> 0 < rq_quantity (or_request o') \<and> 0 \<le> or_filled_qty o' \<and>
     or_filled_qty o' \<le> rq_quantity (or_request o')"

definition notional_ok :: "order \<Rightarrow> bool" where
  "notional_ok o' \<longleftrightarrow> (or_filled_qty o' = 0 \<and> or_filled_notional o' = 0) \<or>
     (0 < or_filled_notional o' \<and> or_filled_notional o' < or_filled_qty o')"

lemma order_ok_new: "order_new rq lat = Inr o' \<Longrightarrow> valid_qty (rq_quantity rq) \<Longrightarrow> order_ok o'"
  by (auto simp: order_new_fields order_ok_def valid_qty_def)

context decimal_additive
begin

lemma remaining_exact: "remaining D o' = max (rq_quantity (or_request o') - or_filled_qty o') 0"
  by (simp add: remaining_def saturating_sub_exact)

lemma remaining_ok: "order_ok o' \<Longrightarrow> remaining D o' = rq_quantity (or_request o') - or_filled_qty o'"
  by (simp add: remaining_exact order_ok_def)

lemma apply_fill_ok:
  "order_ok o' \<Longrightarrow> valid_qty q \<Longrightarrow> apply_fill D o' q p fee now = Inr o'' \<Longrightarrow> order_ok o''"
  using apply_fill_fields [of D o' q p fee now o'']
  by (simp add: order_ok_def remaining_exact add_exact valid_qty_def split: if_splits)

lemma apply_fill_complete:
  "order_ok o' \<Longrightarrow> valid_qty q \<Longrightarrow> apply_fill D o' q p fee now = Inr o'' \<Longrightarrow>
     or_state o'' = (if or_filled_qty o' + q = rq_quantity (or_request o') then Filled
                     else PartiallyFilled)"
  using apply_fill_fields [of D o' q p fee now o''] apply_fill_ok [of o' q p fee now o'']
    remaining_ok [of o'']
  by (auto simp: add_exact)

lemma order_step_ok:
  assumes "order_step D o' o''" and "order_ok o'"
  shows "order_ok o'' \<and> or_filled_qty o' \<le> or_filled_qty o''"
  using assms(1)
proof (cases rule: order_step.cases)
  case (moved n now)
  with assms(2) show ?thesis by (auto simp: transition_Inr order_ok_def)
next
  case (filled q p fee now)
  with assms(2) show ?thesis
    using apply_fill_ok [of o' q p fee now o''] apply_fill_fields(2) [of D o' q p fee now o'']
    by (simp add: add_exact valid_qty_def)
qed

lemma order_run_ok:
  "order_run D os \<Longrightarrow>
     list_all (\<lambda>o'. order_ok o' \<and> or_request o' = or_request (hd os) \<and>
                or_filled_qty o' \<le> or_filled_qty (hd os)) os"
proof (induction rule: order_run.induct)
  case (start rq lat o')
  then show ?case by (simp add: order_ok_new)
next
  case (step o' os o'')
  then have "order_ok o'" by simp
  from order_step_ok [OF step.hyps(2) this] order_step_request [OF step.hyps(2)] step.IH
  show ?case by (auto simp: list_all_iff)
qed

end

context decimal_exact
begin

lemma apply_fill_notional_ok:
  assumes "notional_ok o'" and "valid_qty q" and "valid_price p"
    and "apply_fill D o' q p fee now = Inr o''"
  shows "notional_ok o''"
proof -
  note fields = apply_fill_fields(2,3) [OF assms(4)]
  show ?thesis
  proof (cases "q = 0")
    case True
    with assms(1) fields show ?thesis by (simp add: notional_ok_def qty_notional_def exact)
  next
    case False
    with assms(2,3) have "0 < q * p" "q * p < q"
      by (auto simp: valid_qty_def valid_price_def mult_less_cancel_left2)
    with assms(1) fields show ?thesis by (auto simp: notional_ok_def qty_notional_def exact)
  qed
qed

lemma order_run_notional_ok: "order_run D os \<Longrightarrow> notional_ok (hd os)"
proof (induction rule: order_run.induct)
  case (step o' os o'')
  from step.IH have "notional_ok o'" by simp
  with step.hyps(2) have "notional_ok o''"
  proof (cases rule: order_step.cases)
    case (moved n now)
    with \<open>notional_ok o'\<close> show ?thesis by (auto simp: transition_Inr notional_ok_def)
  qed (use \<open>notional_ok o'\<close> apply_fill_notional_ok in blast)
  then show ?case by simp
qed (auto simp: order_new_fields notional_ok_def)

lemma avg_fill_price_ok:
  "notional_ok o' \<Longrightarrow>
     (if or_filled_qty o' = 0 then avg_fill_price D o' = None
      else avg_fill_price D o' = Some (or_filled_notional o' / or_filled_qty o') \<and>
           valid_price (or_filled_notional o' / or_filled_qty o'))"
  by (auto simp: avg_fill_price_def exact notional_ok_def valid_price_def)

end

subsection \<open>Properties\<close>

text \<open>An order for 100 shares, and its life up to a first fill of 40 at 0.61.\<close>

definition sample_request :: order_request where
  "sample_request = \<lparr>rq_order_id = 1, rq_correlation_id = 2, rq_signal_id = Some 3,
     rq_market_id = MarketId ''m'', rq_token_id = TokenId ''7'', rq_side = Buy,
     rq_order_type = MarketOrder, rq_time_in_force = Ioc, rq_quantity = 100,
     rq_limit_price = 62/100, rq_reference_price = 60/100, rq_tick_size = 1/100, rq_created_at = 0\<rparr>"

definition sample_order :: "order_state \<Rightarrow> rat \<Rightarrow> rat \<Rightarrow> order" where
  "sample_order st q n = \<lparr>or_request = sample_request, or_state = st, or_venue_order_id = None,
     or_filled_qty = q, or_filled_notional = n, or_fees_paid = 0, or_reject_reason = None,
     or_latency = stamps_begin 0, or_updated_at = 0\<rparr>"

definition sample_run :: "order list" where
  "sample_run = [sample_order PartiallyFilled 40 (244/10), sample_order Submitted 0 0,
     sample_order Validated 0 0, sample_order Created 0 0]"

lemma sample_step:
  "can_transition_to s n \<Longrightarrow> order_step D (sample_order s q v) (sample_order n q v)"
  by (rule order_step.moved [of _ n 0]) (simp add: transition_def sample_order_def)

lemma sample_run_run: "order_run exact_decimal sample_run"
proof -
  have "apply_fill exact_decimal (sample_order Submitted 0 0) 40 (61/100) 0 0 =
      Inr (sample_order PartiallyFilled 40 (244/10))"
    by (simp add: apply_fill_def sample_order_def sample_request_def may_have_executed_def
        remaining_def qty_saturating_sub_def qty_notional_def)
  then have "order_step exact_decimal (sample_order Submitted 0 0)
      (sample_order PartiallyFilled 40 (244/10))"
    by (rule order_step.filled) (simp_all add: valid_qty_def valid_price_def)
  then show ?thesis unfolding sample_run_def
    by (intro order_run.intros sample_step)
      (auto simp: order_new_def sample_order_def sample_request_def valid_qty_def state_tests)
qed

text \<open>C39: In every history of an order the quantity filled stays between zero and the quantity
  requested and never decreases, and the request itself is never edited. The history may be any
  sequence of accepted transitions and accepted fills.\<close>

theorem fills_never_exceed_the_order:
  assumes "decimal_additive D" and "order_run D os"
  shows "list_all (\<lambda>o'. 0 \<le> or_filled_qty o' \<and>
           or_filled_qty o' \<le> rq_quantity (or_request o') \<and> or_request o' = or_request (hd os) \<and>
           or_filled_qty o' \<le> or_filled_qty (hd os)) os"
  using decimal_additive.order_run_ok [OF assms] by (auto simp: list_all_iff order_ok_def)

theorem fills_never_exceed_the_order_witness:
  "list_all (\<lambda>o'. 0 \<le> or_filled_qty o' \<and> or_filled_qty o' \<le> 100) sample_run"
  using fills_never_exceed_the_order [OF exact_dec.decimal_additive_axioms sample_run_run]
  by (simp add: sample_run_def sample_order_def sample_request_def)

text \<open>No order executes before the risk checks let it pass. In every history of an order,
  if a quantity was filled, then the order was in state \<open>Validated\<close> before, or its outcome had
  become \<open>Unknown\<close>; and \<open>Submitted\<close> is entered from \<open>Validated\<close> and from nowhere
  else.\<close>

theorem no_execution_without_validation:
  "(order_run D os \<and> or_filled_qty (hd os) \<noteq> 0 \<longrightarrow>
      (\<exists>o' \<in> set os. or_state o' = Validated \<or> or_state o' = Unknown)) \<and>
   (order_step D o1 o2 \<and> or_state o2 = Submitted \<longrightarrow> or_state o1 = Validated)"
proof -
  have "or_state o1 = Validated" if "order_step D o1 o2" "or_state o2 = Submitted"
    using order_step_state [OF that(1)] that(2) by (auto simp: to_Submitted)
  with filled_was_validated [of D os] show ?thesis by blast
qed

theorem no_execution_without_validation_witness:
  "or_filled_qty (hd sample_run) = 40 \<and>
   (\<exists>o' \<in> set sample_run. or_state o' = Validated \<or> or_state o' = Unknown)"
proof -
  have f: "or_filled_qty (hd sample_run) = 40" by (simp add: sample_run_def sample_order_def)
  then have "or_filled_qty (hd sample_run) \<noteq> 0" by simp
  with f show ?thesis
    using no_execution_without_validation [of exact_decimal sample_run] sample_run_run by blast
qed

text \<open>A fill is accepted exactly when the order may have executed and the fill does not
  exceed what remains; every other fill is refused with an error that names the cause. An accepted
  fill completes the order exactly when it brings the filled quantity to the requested one.\<close>

theorem apply_fill_exactly:
  assumes "decimal_additive D" and "order_ok o'" and "valid_qty q"
  shows "case apply_fill D o' q p fee now of
           Inr o'' \<Rightarrow> may_have_executed (or_state o') \<and>
             or_filled_qty o'' = or_filled_qty o' + q \<and>
             or_filled_qty o'' \<le> rq_quantity (or_request o') \<and>
             (or_state o'' = Filled \<longleftrightarrow> or_filled_qty o'' = rq_quantity (or_request o')) \<and>
             (or_state o'' = PartiallyFilled \<longleftrightarrow> or_filled_qty o'' < rq_quantity (or_request o'))
         | Inl (IllegalTransition s t) \<Rightarrow> s = or_state o' \<and> \<not> may_have_executed s
         | Inl (Overfill i q' r) \<Rightarrow> i = order_id_of o' \<and> q' = q \<and>
             r = rq_quantity (or_request o') - or_filled_qty o' \<and> r < q
         | Inl ZeroQuantity \<Rightarrow> False"
proof (cases "apply_fill D o' q p fee now")
  case (Inl e)
  with decimal_additive.remaining_ok [OF assms(1,2)] show ?thesis
    by (auto simp: apply_fill_def Let_def split: if_splits)
next
  case (Inr o'')
  from decimal_additive.apply_fill_ok [OF assms Inr] apply_fill_fields(1,2,10) [OF Inr]
    decimal_additive.apply_fill_complete [OF assms Inr] decimal_additive.add_exact [OF assms(1)]
  show ?thesis by (auto simp: Inr order_ok_def)
qed

theorem apply_fill_exactly_witness:
  "order_ok (sample_order Submitted 0 0) \<and>
   (case apply_fill exact_decimal (sample_order Submitted 0 0) 40 (61/100) 0 0 of
      Inr o'' \<Rightarrow> or_state o'' = PartiallyFilled \<and> or_filled_qty o'' = 40 | Inl e \<Rightarrow> False)"
proof -
  have k: "order_ok (sample_order Submitted 0 0)"
    by (simp add: order_ok_def sample_order_def sample_request_def)
  have "valid_qty (40::rat)" by (simp add: valid_qty_def)
  from apply_fill_exactly [OF exact_dec.decimal_additive_axioms k this, of "61/100" 0 0] k
  show ?thesis
    by (simp add: apply_fill_def sample_order_def sample_request_def may_have_executed_def
        remaining_def qty_saturating_sub_def qty_notional_def)
qed

text \<open>The average fill price of an order is never made up: it is absent until a first
  quantity is filled, and from then on it is the notional transacted per share filled, which is a
  valid price.\<close>

theorem avg_fill_price_sound:
  assumes "decimal_exact D" and "order_run D os"
  shows "avg_fill_price D (hd os) =
           (if or_filled_qty (hd os) = 0 then None
            else Some (or_filled_notional (hd os) / or_filled_qty (hd os))) \<and>
         pred_option valid_price (avg_fill_price D (hd os))"
  using decimal_exact.avg_fill_price_ok [OF assms(1) decimal_exact.order_run_notional_ok [OF assms]]
  by (auto split: if_splits)

theorem avg_fill_price_sound_witness:
  "avg_fill_price exact_decimal (hd sample_run) = Some (61/100)"
  using avg_fill_price_sound [OF exact_dec.decimal_exact_axioms sample_run_run]
  by (simp add: sample_run_def sample_order_def)

text \<open>A terminal order makes no transition, but a fill is not refused by every terminal
  state: an order that is \<open>Filled\<close> accepts a fill of quantity zero, which still adds its fee;
  the other three terminal states refuse every fill.\<close>

theorem filled_accepts_empty_fill:
  "apply_fill exact_decimal (sample_order Filled 100 61) 0 (61/100) 5 9 =
     Inr ((sample_order Filled 100 61)\<lparr>or_fees_paid := 5, or_updated_at := 9\<rparr>) \<and>
   list_all (\<lambda>s. ok (transition (sample_order s f v) n t) = None) [Filled, Cancelled, Rejected, Failed] \<and>
   list_all (\<lambda>s. ok (apply_fill D (sample_order s f v) q p fee t) = None) [Cancelled, Rejected, Failed]"
  by (simp add: apply_fill_def sample_order_def sample_request_def state_tests transition_def
      remaining_def qty_saturating_sub_def qty_notional_def)

end
