(* ===== verification/Positions.thy ===== *)
theory Positions
  imports Orders
begin

section \<open>Positions (crates/domain/src/position.rs)\<close>

text \<open>
  The net exposure in one token, with weighted-average cost accounting. The specification
  is double-entry: what a position has realised, less the cost of what it still holds, is
  the cash that its fills moved.
\<close>

record position =
  ps_market_id :: market_id
  ps_token_id :: token_id
  ps_outcome :: string
  ps_net_quantity :: rat
  ps_avg_entry :: rat
  ps_realized_pnl :: usd
  ps_fees_paid :: usd
  ps_mark_price :: "price option"
  ps_updated_at :: timestamp

definition position_new :: "market_id \<Rightarrow> token_id \<Rightarrow> string \<Rightarrow> timestamp \<Rightarrow> position" where
  "position_new m t oc now = \<lparr>ps_market_id = m, ps_token_id = t, ps_outcome = oc,
     ps_net_quantity = 0, ps_avg_entry = 0, ps_realized_pnl = 0, ps_fees_paid = 0,
     ps_mark_price = None, ps_updated_at = now\<rparr>"

definition is_flat :: "position \<Rightarrow> bool" where
  "is_flat p \<longleftrightarrow> ps_net_quantity p = 0"

definition is_long :: "position \<Rightarrow> bool" where
  "is_long p \<longleftrightarrow> ps_net_quantity p > 0"

definition exposure :: "decimal_ops \<Rightarrow> position \<Rightarrow> usd" where
  "exposure D p =
     (let px = (case ps_mark_price p of Some m \<Rightarrow> m | None \<Rightarrow> ps_avg_entry p)
      in \<bar>d_mul D (ps_net_quantity p) px\<bar>)"

definition unrealized_pnl :: "decimal_ops \<Rightarrow> position \<Rightarrow> usd option" where
  "unrealized_pnl D p =
     (case ps_mark_price p of
        None \<Rightarrow> None
      | Some mark \<Rightarrow> Some (d_mul D (ps_net_quantity p) (d_sub D mark (ps_avg_entry p))))"

definition position_total_pnl :: "decimal_ops \<Rightarrow> position \<Rightarrow> usd" where
  "position_total_pnl D p =
     d_add D (ps_realized_pnl p) (case unrealized_pnl D p of Some u \<Rightarrow> u | None \<Rightarrow> 0)"

text \<open>
  The branches of \<open>apply\<close>: opening or increasing rolls the average, and everything else
  closes against it first. The result is the realised profit, the new average and the new
  quantity.
\<close>

definition position_legs ::
    "decimal_ops \<Rightarrow> rat \<Rightarrow> rat \<Rightarrow> rat \<Rightarrow> rat \<Rightarrow> rat \<times> rat \<times> rat" where
  "position_legs D old_qty avg signed px =
     (if old_qty = 0 \<or> (old_qty > 0) = (signed > 0) then
        (let new_qty = d_add D old_qty signed
         in (0,
             (if new_qty \<noteq> 0 then d_div D (d_add D (d_mul D old_qty avg) (d_mul D signed px)) new_qty
              else avg),
             new_qty))
      else
        (let closing = min \<bar>signed\<bar> \<bar>old_qty\<bar>;
             realized = (if old_qty > 0 then d_mul D closing (d_sub D px avg)
                         else d_mul D closing (d_sub D avg px));
             new_qty = d_add D old_qty signed
         in (realized,
             (if new_qty = 0 then 0
              else if (new_qty > 0) \<noteq> (old_qty > 0) then px
              else avg),
             new_qty)))"

definition position_apply ::
    "decimal_ops \<Rightarrow> position \<Rightarrow> side \<Rightarrow> qty \<Rightarrow> price \<Rightarrow> usd \<Rightarrow> timestamp \<Rightarrow> position \<times> usd" where
  "position_apply D p s q px fee now =
     (let signed = d_mul D (side_sign s) q;
          (realized, avg, net) = position_legs D (ps_net_quantity p) (ps_avg_entry p) signed px
      in (p\<lparr>ps_net_quantity := net, ps_avg_entry := avg,
            ps_realized_pnl := d_sub D (d_add D (ps_realized_pnl p) realized) fee,
            ps_fees_paid := d_add D (ps_fees_paid p) fee,
            ps_updated_at := now\<rparr>,
          d_sub D realized fee))"

definition position_mark :: "position \<Rightarrow> price \<Rightarrow> timestamp \<Rightarrow> position" where
  "position_mark p price now = p\<lparr>ps_mark_price := Some price, ps_updated_at := now\<rparr>"

subsection \<open>Accounting\<close>

text \<open>A flat position has no average; an open one has a valid price as its average.\<close>

definition position_ok :: "position \<Rightarrow> bool" where
  "position_ok p \<longleftrightarrow> (if ps_net_quantity p = 0 then ps_avg_entry p = 0 else valid_price (ps_avg_entry p))"

text \<open>What the position has taken in cash, less what it still holds at cost.\<close>

definition book_balance :: "position \<Rightarrow> rat" where
  "book_balance p = ps_realized_pnl p - ps_net_quantity p * ps_avg_entry p"

lemma position_ok_new: "position_ok (position_new m t oc now)"
  by (simp add: position_ok_def position_new_def)

lemma position_ok_mark: "position_ok (position_mark p price now) = position_ok p"
  by (simp add: position_ok_def position_mark_def)

lemma book_balance_mark: "book_balance (position_mark p price now) = book_balance p"
  by (simp add: book_balance_def position_mark_def)

lemma position_mark_fields [simp]:
  "ps_net_quantity (position_mark p price now) = ps_net_quantity p"
  "ps_realized_pnl (position_mark p price now) = ps_realized_pnl p"
  "ps_avg_entry (position_mark p price now) = ps_avg_entry p"
  "ps_fees_paid (position_mark p price now) = ps_fees_paid p"
  "ps_mark_price (position_mark p price now) = Some price"
  by (simp_all add: position_mark_def)

text \<open>An average of two prices of positions on the same side is a price.\<close>

lemma average_valid:
  assumes "valid_price a" and "valid_price b" and "0 \<le> x" and "0 \<le> y" and "x + y \<noteq> (0::rat)"
  shows "valid_price ((x * a + y * b) / (x + y))"
proof -
  have pos: "0 < x + y" using assms(3-5) by linarith
  have "0 \<le> x * a" "0 \<le> y * b" "x * a \<le> x" "y * b \<le> y"
    using assms(1-4) by (auto simp: valid_price_def mult_left_le)
  moreover have "0 < x * a + y * b \<and> x * a + y * b < x + y"
  proof (cases "x = 0")
    case True
    with pos assms(2) show ?thesis by (simp add: valid_price_def)
  next
    case False
    with assms(1,3) have "0 < x * a" "x * a < x" by (auto simp: valid_price_def)
    with \<open>0 \<le> y * b\<close> \<open>y * b \<le> y\<close> show ?thesis by linarith
  qed
  ultimately show ?thesis using pos by (simp add: valid_price_def)
qed

context decimal_exact
begin

text \<open>The three cases of a fill, in exact arithmetic.\<close>

lemma legs_increase:
  assumes "n = 0 \<or> (0 < n) = (0 < s)" and "n + s \<noteq> 0"
  shows "position_legs D n a s px = (0, (n * a + s * px) / (n + s), n + s)"
  using assms by (simp add: position_legs_def exact Let_def)

lemma legs_reduce:
  assumes "n \<noteq> 0" and "(0 < n) \<noteq> (0 < s)" and "\<bar>s\<bar> < \<bar>n\<bar>"
  shows "position_legs D n a s px = (- s * (px - a), a, n + s)"
  using assms by (auto simp: position_legs_def exact Let_def algebra_simps abs_if split: if_splits)

lemma legs_cross:
  assumes "n \<noteq> 0" and "(0 < n) \<noteq> (0 < s)" and "\<bar>n\<bar> \<le> \<bar>s\<bar>"
  shows "position_legs D n a s px = (n * (px - a), (if n + s = 0 then 0 else px), n + s)"
  using assms by (auto simp: position_legs_def exact Let_def algebra_simps abs_if split: if_splits)

lemma legs_net: "snd (snd (position_legs D n a s px)) = n + s"
  by (simp add: position_legs_def exact Let_def)

lemma legs_balance:
  assumes "position_legs D n a s px = (r, a', n')" and "n = 0 \<longrightarrow> a = 0"
  shows "r - n' * a' = - n * a - s * px"
proof -
  consider (zero) "n + s = 0" "n = 0" | (inc) "n = 0 \<or> (0 < n) = (0 < s)" "n + s \<noteq> 0"
    | (red) "n \<noteq> 0" "(0 < n) \<noteq> (0 < s)" "\<bar>s\<bar> < \<bar>n\<bar>"
    | (cross) "n \<noteq> 0" "(0 < n) \<noteq> (0 < s)" "\<bar>n\<bar> \<le> \<bar>s\<bar>"
    by linarith
  then show ?thesis
  proof cases
    case zero
    with assms show ?thesis by (auto simp: position_legs_def exact)
  next
    case inc
    with assms(1) legs_increase [OF inc] show ?thesis by auto
  next
    case red
    with assms(1) legs_reduce [OF red] show ?thesis by (auto simp: algebra_simps)
  next
    case cross
    note legs = legs_cross [OF cross, of a px]
    show ?thesis
    proof (cases "n + s = 0")
      case True
      then have "s = - n" by simp
      with legs assms(1) show ?thesis by (auto simp: algebra_simps)
    next
      case False
      with legs assms(1) show ?thesis by (auto simp: algebra_simps)
    qed
  qed
qed

lemma legs_avg:
  assumes "position_legs D n a s px = (r, a', n')" and "valid_price px"
    and "if n = 0 then a = 0 else valid_price a"
  shows "if n' = 0 then a' = 0 else valid_price a'"
proof -
  consider (zero) "n + s = 0" "n = 0" | (inc) "n = 0 \<or> (0 < n) = (0 < s)" "n + s \<noteq> 0"
    | (red) "n \<noteq> 0" "(0 < n) \<noteq> (0 < s)" "\<bar>s\<bar> < \<bar>n\<bar>"
    | (cross) "n \<noteq> 0" "(0 < n) \<noteq> (0 < s)" "\<bar>n\<bar> \<le> \<bar>s\<bar>"
    by linarith
  then show ?thesis
  proof cases
    case zero
    with assms show ?thesis by (auto simp: position_legs_def exact)
  next
    case inc
    have "valid_price ((n * a + s * px) / (n + s))"
    proof (cases "0 \<le> n \<and> 0 \<le> s")
      case True
      with inc assms average_valid [of a px n s] show ?thesis by (cases "n = 0") auto
    next
      case False
      with inc have neg: "0 \<le> - n" "0 \<le> - s" "- n + - s \<noteq> 0" by auto
      have "(- n * a + - s * px) / (- n + - s) = (n * a + s * px) / (n + s)"
        by (metis minus_add_distrib minus_divide_divide mult_minus_left)
      with average_valid [of a px "- n" "- s"] neg assms(2,3) inc(2) show ?thesis
        by (cases "n = 0") auto
    qed
    with inc assms(1) legs_increase [OF inc] show ?thesis by auto
  next
    case red
    with assms legs_reduce [OF red] show ?thesis by auto
  next
    case cross
    with assms legs_cross [OF cross] show ?thesis by (auto split: if_splits)
  qed
qed

lemma position_apply_unfold:
  assumes "position_legs D (ps_net_quantity p) (ps_avg_entry p) (side_sign s * q) px = (r, a', n')"
  shows "position_apply D p s q px fee now =
    (p\<lparr>ps_net_quantity := n', ps_avg_entry := a', ps_realized_pnl := ps_realized_pnl p + r - fee,
       ps_fees_paid := ps_fees_paid p + fee, ps_updated_at := now\<rparr>, r - fee)"
  using assms by (simp add: position_apply_def exact)

lemma position_apply_ok:
  assumes "position_ok p" and "valid_price px"
  shows "position_ok (fst (position_apply D p s q px fee now))"
proof -
  obtain r a' n' where legs:
    "position_legs D (ps_net_quantity p) (ps_avg_entry p) (side_sign s * q) px = (r, a', n')"
    by (metis prod_cases3)
  from legs_avg [OF this assms(2)] assms(1) show ?thesis
    by (simp add: position_apply_unfold [OF legs] position_ok_def)
qed

lemma position_apply_balance:
  assumes "position_ok p"
  shows "book_balance (fst (position_apply D p s q px fee now)) =
           book_balance p - side_sign s * q * px - fee"
proof -
  obtain r a' n' where legs:
    "position_legs D (ps_net_quantity p) (ps_avg_entry p) (side_sign s * q) px = (r, a', n')"
    by (metis prod_cases3)
  have "ps_net_quantity p = 0 \<longrightarrow> ps_avg_entry p = 0"
    using assms by (simp add: position_ok_def split: if_splits)
  from legs_balance [OF legs this] show ?thesis
    by (simp add: position_apply_unfold [OF legs] book_balance_def)
qed

lemma position_apply_fields:
  "ps_net_quantity (fst (position_apply D p s q px fee now)) = ps_net_quantity p + side_sign s * q"
  "ps_realized_pnl (fst (position_apply D p s q px fee now)) =
     ps_realized_pnl p + snd (position_apply D p s q px fee now)"
  "ps_fees_paid (fst (position_apply D p s q px fee now)) = ps_fees_paid p + fee"
  "ps_mark_price (fst (position_apply D p s q px fee now)) = ps_mark_price p"
proof -
  obtain r a' n' where legs:
    "position_legs D (ps_net_quantity p) (ps_avg_entry p) (side_sign s * q) px = (r, a', n')"
    by (metis prod_cases3)
  from legs_net [of "ps_net_quantity p" "ps_avg_entry p" "side_sign s * q" px]
  show "ps_net_quantity (fst (position_apply D p s q px fee now)) = ps_net_quantity p + side_sign s * q"
    "ps_realized_pnl (fst (position_apply D p s q px fee now)) =
       ps_realized_pnl p + snd (position_apply D p s q px fee now)"
    "ps_fees_paid (fst (position_apply D p s q px fee now)) = ps_fees_paid p + fee"
    "ps_mark_price (fst (position_apply D p s q px fee now)) = ps_mark_price p"
    by (simp_all add: position_apply_unfold [OF legs] legs)
qed

text \<open>The profit and loss at a mark is the cash taken plus what is held, at that mark.\<close>

lemma total_pnl_marked:
  "ps_mark_price p = Some m \<Longrightarrow>
     position_total_pnl D p = book_balance p + ps_net_quantity p * m"
  by (simp add: position_total_pnl_def unrealized_pnl_def book_balance_def exact algebra_simps)

text \<open>A sequence of fills, each booked as the portfolio books it.\<close>

end

definition position_fill :: "decimal_ops \<Rightarrow> position \<Rightarrow> fill \<Rightarrow> position" where
  "position_fill D p f =
     fst (position_apply D p (fi_side f) (fi_quantity f) (fi_price f) (fi_fee f) (fi_filled_at f))"

definition signed_qty :: "fill \<Rightarrow> rat" where
  "signed_qty f = side_sign (fi_side f) * fi_quantity f"

context decimal_exact
begin

lemma position_fill_step:
  assumes "position_ok p" and "valid_fill f"
  shows "position_ok (position_fill D p f)"
    and "book_balance (position_fill D p f) = book_balance p + cash_delta D f"
    and "ps_net_quantity (position_fill D p f) = ps_net_quantity p + signed_qty f"
    and "ps_fees_paid (position_fill D p f) = ps_fees_paid p + fi_fee f"
  using assms
  by (simp_all add: position_fill_def position_apply_ok position_apply_balance valid_fill_def
      position_apply_fields cash_delta_exact signed_qty_def)

lemma position_fills:
  "position_ok p \<Longrightarrow> list_all valid_fill fs \<Longrightarrow>
     position_ok (foldl (position_fill D) p fs) \<and>
     book_balance (foldl (position_fill D) p fs) = book_balance p + sum_list (map (cash_delta D) fs) \<and>
     ps_net_quantity (foldl (position_fill D) p fs) = ps_net_quantity p + sum_list (map signed_qty fs) \<and>
     ps_fees_paid (foldl (position_fill D) p fs) = ps_fees_paid p + sum_list (map fi_fee fs)"
  by (induction fs arbitrary: p) (simp_all add: position_fill_step)

end

subsection \<open>Properties\<close>

definition sample_fill :: "side \<Rightarrow> rat \<Rightarrow> rat \<Rightarrow> fill" where
  "sample_fill s q p = \<lparr>fi_fill_id = 1, fi_order_id = 1, fi_correlation_id = 2,
     fi_market_id = MarketId ''m'', fi_token_id = TokenId ''7'', fi_side = s, fi_quantity = q,
     fi_price = p, fi_fee = 1, fi_venue_fill_id = None, fi_is_maker = False, fi_filled_at = 5\<rparr>"

definition flat_position :: position where
  "flat_position = position_new (MarketId ''m'') (TokenId ''7'') ''Yes'' 0"


definition crossing_fills :: "fill list" where
  "crossing_fills = [sample_fill Buy 50 (40/100), sample_fill Sell 80 (70/100)]"

definition crossed_position :: position where
  "crossed_position = foldl (position_fill exact_decimal) flat_position crossing_fills"


text \<open>The average entry moves only when exposure grows. A fill on the side of the position
  realises nothing but its fee and rolls the weighted average; a fill against it that leaves a
  residual keeps the average and realises the closed quantity against it; a fill that crosses
  through zero realises the whole old position and starts the new one at the fill's price.\<close>

theorem position_branches:
  assumes "decimal_exact D" and "0 < q"
    and "net = ps_net_quantity p" and "avg = ps_avg_entry p" and "s = side_sign sd * q"
    and "position_apply D p sd q px fee now = (p', realized)"
  shows "(if net = 0 \<or> 0 < net * s then
            realized = - fee \<and> ps_avg_entry p' = (net * avg + s * px) / (net + s)
          else if q < \<bar>net\<bar> then
            realized = q * (if 0 < net then px - avg else avg - px) - fee \<and> ps_avg_entry p' = avg
          else
            realized = \<bar>net\<bar> * (if 0 < net then px - avg else avg - px) - fee \<and>
            ps_avg_entry p' = (if net + s = 0 then 0 else px)) \<and>
         ps_net_quantity p' = net + s"
proof -
  have s: "s \<noteq> 0" "\<bar>s\<bar> = q" using assms(2,5) side_sign_cases [of sd] by auto
  obtain r a' n' where legs: "position_legs D net avg s px = (r, a', n')" by (metis prod_cases3)
  with assms(3-5) have "position_legs D (ps_net_quantity p) (ps_avg_entry p) (side_sign sd * q) px =
      (r, a', n')" by simp
  from decimal_exact.position_apply_unfold [OF assms(1) this, of fee now] assms(6)
  have p': "ps_net_quantity p' = n'" "ps_avg_entry p' = a'" "realized = r - fee" by auto
  have n': "n' = net + s" using decimal_exact.legs_net [OF assms(1), of net avg s px] legs by simp
  consider (inc) "net = 0 \<or> 0 < net * s" | (red) "\<not> (net = 0 \<or> 0 < net * s)" "q < \<bar>net\<bar>"
    | (cross) "\<not> (net = 0 \<or> 0 < net * s)" "\<not> q < \<bar>net\<bar>" by blast
  then show ?thesis
  proof cases
    case inc
    then have "net = 0 \<or> (0 < net) = (0 < s)" "net + s \<noteq> 0"
      using s by (auto simp: zero_less_mult_iff)
    from decimal_exact.legs_increase [OF assms(1) this, of avg px] legs inc p' n' show ?thesis by auto
  next
    case red
    then have g: "net \<noteq> 0" "(0 < net) \<noteq> (0 < s)" "\<bar>s\<bar> < \<bar>net\<bar>"
      using s by (auto simp: zero_less_mult_iff)
    from decimal_exact.legs_reduce [OF assms(1) this, of avg px] legs red p' n' s g
    show ?thesis by (auto simp: abs_if algebra_simps split: if_splits)
  next
    case cross
    then have g: "net \<noteq> 0" "(0 < net) \<noteq> (0 < s)" "\<bar>net\<bar> \<le> \<bar>s\<bar>"
      using s by (auto simp: zero_less_mult_iff)
    from decimal_exact.legs_cross [OF assms(1) this, of avg px] legs cross p' n' s g
    show ?thesis by (auto simp: abs_if algebra_simps split: if_splits)
  qed
qed

definition long_position :: position where
  "long_position = flat_position\<lparr>ps_net_quantity := 100, ps_avg_entry := 40/100\<rparr>"

theorem position_branches_witness:
  "ps_avg_entry (fst (position_apply exact_decimal long_position Sell 30 (50/100) 0 2)) = 40/100 \<and>
   snd (position_apply exact_decimal long_position Sell 30 (50/100) 0 2) = 3"
proof -
  obtain p' r where a: "position_apply exact_decimal long_position Sell 30 (50/100) 0 2 = (p', r)"
    by force
  have "(0::rat) < 30" by simp
  from position_branches [OF exact_dec.decimal_exact_axioms this refl refl refl a]
  have "r = 3" "ps_avg_entry p' = 40/100" by (simp_all add: long_position_def)
  with a show ?thesis by simp
qed

end
