(* ===== verification/Portfolio.thy ===== *)
theory Portfolio
  imports Positions
begin

section \<open>Portfolio and profit and loss (crates/portfolio/src/lib.rs, crates/domain/src/pnl.rs)\<close>

text \<open>
  The portfolio owns cash, positions and realised profit; \<open>apply_fill\<close> is the only
  operation that changes a position. The day number of a time, \<open>ordinal\<close>, is a function of
  the \<open>chrono\<close> crate and a parameter here.
\<close>

subsection \<open>Snapshots\<close>

record pnl_snapshot =
  pn_at :: timestamp
  pn_cash :: usd
  pn_position_value :: usd
  pn_equity :: usd
  pn_realized_pnl :: usd
  pn_unrealized_pnl :: "usd option"
  pn_fees_paid :: usd
  pn_gross_exposure :: usd
  pn_daily_pnl :: usd
  pn_peak_equity :: usd
  pn_open_orders :: nat
  pn_active_positions :: nat

definition snapshot_total_pnl :: "decimal_ops \<Rightarrow> pnl_snapshot \<Rightarrow> usd" where
  "snapshot_total_pnl D s =
     d_add D (pn_realized_pnl s) (case pn_unrealized_pnl s of Some u \<Rightarrow> u | None \<Rightarrow> 0)"

definition drawdown_pct :: "decimal_ops \<Rightarrow> pnl_snapshot \<Rightarrow> rat" where
  "drawdown_pct D s =
     (let peak = pn_peak_equity s
      in if peak \<le> 0 then 0
         else max (d_div D (d_sub D peak (pn_equity s)) peak) 0)"

definition available_capital :: "decimal_ops \<Rightarrow> pnl_snapshot \<Rightarrow> usd" where
  "available_capital D s = max (d_sub D (pn_cash s) (pn_gross_exposure s)) 0"

subsection \<open>State\<close>

record portfolio =
  pf_cash :: usd
  pf_starting_cash :: usd
  pf_positions :: "(token_id, position) hashmap"
  pf_realized :: usd
  pf_fees :: usd
  pf_peak_equity :: usd
  pf_daily :: "nat \<times> usd"
  pf_by_wallet :: "(address, usd) hashmap"
  pf_by_market :: "(market_id, usd) hashmap"
  pf_order_wallet :: "(order_id, address) hashmap"

definition portfolio_new :: "(timestamp \<Rightarrow> nat) \<Rightarrow> usd \<Rightarrow> timestamp \<Rightarrow> portfolio" where
  "portfolio_new ordinal starting_cash now = \<lparr>pf_cash = starting_cash,
     pf_starting_cash = starting_cash, pf_positions = [], pf_realized = 0, pf_fees = 0,
     pf_peak_equity = starting_cash, pf_daily = (ordinal now, 0), pf_by_wallet = [],
     pf_by_market = [], pf_order_wallet = []\<rparr>"

definition attribute_order :: "portfolio \<Rightarrow> order_id \<Rightarrow> address \<Rightarrow> portfolio" where
  "attribute_order P order wallet =
     P\<lparr>pf_order_wallet := AList.update order wallet (pf_order_wallet P)\<rparr>"

subsection \<open>Queries\<close>

definition position_values :: "portfolio \<Rightarrow> position list" where
  "position_values P = map snd (pf_positions P)"

text \<open>\<open>sort_by_key\<close> with \<open>Reverse\<close> sorts by the negated key, and is stable.\<close>

definition positions :: "decimal_ops \<Rightarrow> portfolio \<Rightarrow> position list" where
  "positions D P = sort_key (\<lambda>p. - exposure D p) (position_values P)"

definition position_of :: "portfolio \<Rightarrow> token_id \<Rightarrow> position option" where
  "position_of P t = get (pf_positions P) t"

definition active_positions :: "portfolio \<Rightarrow> position list" where
  "active_positions P = filter (\<lambda>p. \<not> is_flat p) (position_values P)"

definition exposure_map :: "portfolio \<Rightarrow> (token_id, rat) hashmap" where
  "exposure_map P = map (\<lambda>(t, p). (t, ps_net_quantity p)) (pf_positions P)"

definition token_exposure :: "decimal_ops \<Rightarrow> portfolio \<Rightarrow> token_id \<Rightarrow> usd" where
  "token_exposure D P t =
     (case get (pf_positions P) t of Some p \<Rightarrow> exposure D p | None \<Rightarrow> 0)"

definition market_exposure :: "decimal_ops \<Rightarrow> portfolio \<Rightarrow> market_id \<Rightarrow> usd" where
  "market_exposure D P m =
     d_sum D (map (exposure D) (filter (\<lambda>p. ps_market_id p = m) (position_values P)))"

definition gross_exposure :: "decimal_ops \<Rightarrow> portfolio \<Rightarrow> usd" where
  "gross_exposure D P = d_sum D (map (exposure D) (position_values P))"

definition wallet_pnl :: "portfolio \<Rightarrow> address \<Rightarrow> usd" where
  "wallet_pnl P w = get_or (pf_by_wallet P) w 0"

definition market_pnl :: "portfolio \<Rightarrow> market_id \<Rightarrow> usd" where
  "market_pnl P m = get_or (pf_by_market P) m 0"

definition held :: "portfolio \<Rightarrow> position list" where
  "held P = filter (\<lambda>p. \<not> is_flat p) (position_values P)"

definition position_value :: "decimal_ops \<Rightarrow> portfolio \<Rightarrow> usd option" where
  "position_value D P =
     (if list_ex (\<lambda>p. ps_mark_price p = None) (held P) then None
      else Some (d_sum D (map (\<lambda>p. d_mul D (ps_net_quantity p)
             (case ps_mark_price p of Some m \<Rightarrow> m | None \<Rightarrow> 0)) (held P))))"

definition portfolio_unrealized :: "decimal_ops \<Rightarrow> portfolio \<Rightarrow> usd option" where
  "portfolio_unrealized D P =
     (if held P = [] then Some 0
      else if list_ex (\<lambda>p. ps_mark_price p = None) (held P) then None
      else Some (d_sum D (List.map_filter (unrealized_pnl D) (held P))))"

definition equity :: "decimal_ops \<Rightarrow> portfolio \<Rightarrow> usd" where
  "equity D P =
     d_add D (pf_cash P)
       (case position_value D P of
          Some v \<Rightarrow> v
        | None \<Rightarrow> d_sum D (map (\<lambda>p. d_mul D (ps_net_quantity p) (ps_avg_entry p)) (position_values P)))"

definition daily_pnl :: "(timestamp \<Rightarrow> nat) \<Rightarrow> portfolio \<Rightarrow> timestamp \<Rightarrow> usd" where
  "daily_pnl ordinal P now = (if fst (pf_daily P) \<noteq> ordinal now then 0 else snd (pf_daily P))"

definition total_pnl :: "decimal_ops \<Rightarrow> portfolio \<Rightarrow> usd" where
  "total_pnl D P =
     d_add D (pf_realized P) (case portfolio_unrealized D P of Some u \<Rightarrow> u | None \<Rightarrow> 0)"

definition return_pct :: "decimal_ops \<Rightarrow> portfolio \<Rightarrow> rat" where
  "return_pct D P =
     (if pf_starting_cash P = 0 then 0
      else d_div D (d_sub D (equity D P) (pf_starting_cash P)) (pf_starting_cash P))"

definition snapshot ::
    "decimal_ops \<Rightarrow> (timestamp \<Rightarrow> nat) \<Rightarrow> portfolio \<Rightarrow> nat \<Rightarrow> timestamp \<Rightarrow> pnl_snapshot" where
  "snapshot D ordinal P open_orders now =
     \<lparr>pn_at = now, pn_cash = pf_cash P,
      pn_position_value = (case position_value D P of Some v \<Rightarrow> v | None \<Rightarrow> 0),
      pn_equity = equity D P, pn_realized_pnl = pf_realized P,
      pn_unrealized_pnl = portfolio_unrealized D P, pn_fees_paid = pf_fees P,
      pn_gross_exposure = gross_exposure D P, pn_daily_pnl = daily_pnl ordinal P now,
      pn_peak_equity = pf_peak_equity P, pn_open_orders = open_orders,
      pn_active_positions = length (active_positions P)\<rparr>"

subsection \<open>Operations\<close>

definition refresh_peak :: "decimal_ops \<Rightarrow> portfolio \<Rightarrow> portfolio" where
  "refresh_peak D P =
     (let e = equity D P in if e > pf_peak_equity P then P\<lparr>pf_peak_equity := e\<rparr> else P)"

definition book_position ::
    "decimal_ops \<Rightarrow> portfolio \<Rightarrow> fill \<Rightarrow> string \<Rightarrow> timestamp \<Rightarrow> position \<times> usd" where
  "book_position D P f outcome_name now =
     position_apply D
       (get_or (pf_positions P) (fi_token_id f)
          (position_new (fi_market_id f) (fi_token_id f) outcome_name now))
       (fi_side f) (fi_quantity f) (fi_price f) (fi_fee f) (fi_filled_at f)"

definition roll_daily :: "decimal_ops \<Rightarrow> nat \<times> usd \<Rightarrow> nat \<Rightarrow> usd \<Rightarrow> nat \<times> usd" where
  "roll_daily D d today realized =
     (let d' = (if fst d \<noteq> today then (today, 0) else d) in (fst d', d_add D (snd d') realized))"

text \<open>
  Cash and fees move first, then the position, the realised profit, the bucket of the day
  and the attribution; \<open>now\<close> is the time at which a new position is made.
\<close>

definition portfolio_apply_fill ::
    "decimal_ops \<Rightarrow> (timestamp \<Rightarrow> nat) \<Rightarrow> portfolio \<Rightarrow> fill \<Rightarrow> string \<Rightarrow> timestamp \<Rightarrow> portfolio \<times> position" where
  "portfolio_apply_fill D ordinal P f outcome_name now =
     (let (p, realized) = book_position D P f outcome_name now;
          P1 = P\<lparr>pf_cash := d_add D (pf_cash P) (cash_delta D f),
                 pf_fees := d_add D (pf_fees P) (fi_fee f),
                 pf_positions := AList.update (fi_token_id f) p (pf_positions P),
                 pf_realized := d_add D (pf_realized P) realized,
                 pf_daily := roll_daily D (pf_daily P) (ordinal (fi_filled_at f)) realized,
                 pf_by_market := upsert (pf_by_market P) (fi_market_id f) 0 (\<lambda>v. d_add D v realized),
                 pf_by_wallet :=
                   (case get (pf_order_wallet P) (fi_order_id f) of
                      Some w \<Rightarrow> upsert (pf_by_wallet P) w 0 (\<lambda>v. d_add D v realized)
                    | None \<Rightarrow> pf_by_wallet P)\<rparr>
      in (refresh_peak D P1, p))"

definition portfolio_mark ::
    "decimal_ops \<Rightarrow> portfolio \<Rightarrow> token_id \<Rightarrow> price \<Rightarrow> timestamp \<Rightarrow> portfolio" where
  "portfolio_mark D P t price now =
     refresh_peak D (P\<lparr>pf_positions := adjust (pf_positions P) t (\<lambda>p. position_mark p price now)\<rparr>)"

definition portfolio_restore ::
    "decimal_ops \<Rightarrow> portfolio \<Rightarrow> usd \<Rightarrow> position list \<Rightarrow> usd \<Rightarrow> usd \<Rightarrow> portfolio" where
  "portfolio_restore D P cash ps realized fees =
     refresh_peak D (P\<lparr>pf_cash := cash, pf_realized := realized, pf_fees := fees,
       pf_positions := foldl (\<lambda>m p. AList.update (ps_token_id p) p m) [] ps\<rparr>)"

definition portfolio_reset :: "(timestamp \<Rightarrow> nat) \<Rightarrow> portfolio \<Rightarrow> timestamp \<Rightarrow> portfolio" where
  "portfolio_reset ordinal P now =
     P\<lparr>pf_cash := pf_starting_cash P, pf_positions := [], pf_realized := 0, pf_fees := 0,
       pf_peak_equity := pf_starting_cash P, pf_daily := (ordinal now, 0), pf_by_wallet := [],
       pf_by_market := [], pf_order_wallet := []\<rparr>"

definition make_fill ::
    "fill_id \<Rightarrow> order_id \<Rightarrow> correlation_id \<Rightarrow> market_id \<Rightarrow> token_id \<Rightarrow> side \<Rightarrow> qty \<Rightarrow> price \<Rightarrow>
     usd \<Rightarrow> timestamp \<Rightarrow> fill" where
  "make_fill new_id order corr m t s q p fee now = \<lparr>fi_fill_id = new_id, fi_order_id = order,
     fi_correlation_id = corr, fi_market_id = m, fi_token_id = t, fi_side = s, fi_quantity = q,
     fi_price = p, fi_fee = fee, fi_venue_fill_id = None, fi_is_maker = False, fi_filled_at = now\<rparr>"

subsection \<open>The books\<close>

text \<open>
  The cash is the starting cash plus the balance of every position, and the totals are the
  sums over the positions; attribution by market splits the realised profit.
\<close>

definition portfolio_ok :: "decimal_ops \<Rightarrow> portfolio \<Rightarrow> bool" where
  "portfolio_ok D P \<longleftrightarrow> keys_ok (pf_positions P) \<and> list_all position_ok (position_values P) \<and>
     pf_cash P = pf_starting_cash P + vsum book_balance (pf_positions P) \<and>
     pf_realized P = vsum ps_realized_pnl (pf_positions P) \<and>
     pf_fees P = vsum ps_fees_paid (pf_positions P) \<and>
     keys_ok (pf_by_market P) \<and> pf_realized P = vsum id (pf_by_market P) \<and>
     equity D P \<le> pf_peak_equity P"

definition books_ok :: "portfolio \<Rightarrow> bool" where
  "books_ok P \<longleftrightarrow> keys_ok (pf_positions P) \<and> list_all position_ok (position_values P) \<and>
     pf_cash P = pf_starting_cash P + vsum book_balance (pf_positions P) \<and>
     pf_realized P = vsum ps_realized_pnl (pf_positions P) \<and>
     pf_fees P = vsum ps_fees_paid (pf_positions P) \<and>
     keys_ok (pf_by_market P) \<and> pf_realized P = vsum id (pf_by_market P)"

lemma portfolio_ok_iff: "portfolio_ok D P \<longleftrightarrow> books_ok P \<and> equity D P \<le> pf_peak_equity P"
  by (auto simp: portfolio_ok_def books_ok_def)

lemma sum_list_filter:
  "(\<And>x. x \<in> set xs \<Longrightarrow> \<not> P x \<Longrightarrow> f x = (0::rat)) \<Longrightarrow>
     sum_list (map f (filter P xs)) = sum_list (map f xs)"
  by (induction xs) auto

lemma position_values_cong:
  "pf_positions P = pf_positions Q \<Longrightarrow> position_values P = position_values Q \<and> held P = held Q"
  by (simp add: position_values_def held_def)

lemma equity_cong:
  "pf_positions P = pf_positions Q \<Longrightarrow> pf_cash P = pf_cash Q \<Longrightarrow> equity D P = equity D Q"
  using position_values_cong [of P Q] by (simp add: equity_def position_value_def)

lemma map_filter_total:
  "(\<And>x. x \<in> set xs \<Longrightarrow> f x = Some (g x)) \<Longrightarrow> List.map_filter f xs = map g xs"
  by (induction xs) (simp_all add: List.map_filter_simps)

lemma equity_peak [simp]: "equity D (P\<lparr>pf_peak_equity := e\<rparr>) = equity D P"
  by (rule equity_cong) simp_all

lemma books_ok_peak [simp]: "books_ok (P\<lparr>pf_peak_equity := e\<rparr>) = books_ok P"
  by (simp add: books_ok_def position_values_def)

lemma refresh_peak_ok: "books_ok P \<Longrightarrow> portfolio_ok D (refresh_peak D P)"
  by (simp add: portfolio_ok_iff refresh_peak_def Let_def)

lemma refresh_peak_fields [simp]:
  "pf_cash (refresh_peak D P) = pf_cash P" "pf_positions (refresh_peak D P) = pf_positions P"
  "pf_realized (refresh_peak D P) = pf_realized P" "pf_fees (refresh_peak D P) = pf_fees P"
  "pf_starting_cash (refresh_peak D P) = pf_starting_cash P"
  "pf_daily (refresh_peak D P) = pf_daily P" "pf_by_market (refresh_peak D P) = pf_by_market P"
  "pf_by_wallet (refresh_peak D P) = pf_by_wallet P"
  "pf_order_wallet (refresh_peak D P) = pf_order_wallet P"
  by (simp_all add: refresh_peak_def Let_def)

lemma refresh_peak_mono: "pf_peak_equity P \<le> pf_peak_equity (refresh_peak D P)"
  by (simp add: refresh_peak_def Let_def)

lemma vsum_positions: "vsum f (pf_positions P) = sum_list (map f (position_values P))"
  by (simp add: vsum_def position_values_def)

lemma portfolio_new_books: "books_ok (portfolio_new ordinal c now)"
  by (simp add: books_ok_def portfolio_new_def vsum_def position_values_def)

lemma portfolio_reset_books: "books_ok (portfolio_reset ordinal P now)"
  by (simp add: books_ok_def portfolio_reset_def vsum_def position_values_def)

lemma attribute_order_ok: "portfolio_ok D P \<Longrightarrow> portfolio_ok D (attribute_order P order w)"
  using equity_cong [of "attribute_order P order w" P D]
  by (simp add: portfolio_ok_iff books_ok_def attribute_order_def position_values_def)

lemma mark_books:
  assumes "books_ok P"
  shows "books_ok (P\<lparr>pf_positions := adjust (pf_positions P) t (\<lambda>p. position_mark p price now)\<rparr>)"
proof -
  let ?m = "adjust (pf_positions P) t (\<lambda>p. position_mark p price now)"
  have "list_all position_ok (map snd ?m)"
  proof (cases "get (pf_positions P) t")
    case (Some p)
    have all: "list_all position_ok (map snd (pf_positions P))"
      using assms by (simp add: books_ok_def position_values_def)
    from list_all_get [OF this Some] list_all_update [OF all] Some show ?thesis
      by (simp add: adjust_def position_ok_mark)
  qed (use assms in \<open>simp add: adjust_def books_ok_def position_values_def\<close>)
  moreover have "vsum book_balance ?m = vsum book_balance (pf_positions P)"
    "vsum ps_realized_pnl ?m = vsum ps_realized_pnl (pf_positions P)"
    "vsum ps_fees_paid ?m = vsum ps_fees_paid (pf_positions P)"
    using assms by (simp_all add: books_ok_def vsum_adjust book_balance_mark)
  ultimately show ?thesis using assms by (simp add: books_ok_def position_values_def)
qed

lemma portfolio_mark_ok: "portfolio_ok D P \<Longrightarrow> portfolio_ok D (portfolio_mark D P t price now)"
  by (simp add: portfolio_mark_def portfolio_ok_iff [of D P] mark_books refresh_peak_ok)

context decimal_exact
begin

lemma empty_equity: "pf_positions P = [] \<Longrightarrow> equity D P = pf_cash P"
  by (simp add: equity_def position_value_def held_def position_values_def exact)

lemma portfolio_new_ok: "portfolio_ok D (portfolio_new ordinal c now)"
  by (simp add: portfolio_ok_iff portfolio_new_books empty_equity) (simp add: portfolio_new_def empty_equity)

lemma portfolio_reset_ok: "portfolio_ok D (portfolio_reset ordinal P now)"
  by (simp add: portfolio_ok_iff portfolio_reset_books)
    (simp add: portfolio_reset_def empty_equity)

lemma fill_books:
  assumes "books_ok P" and "valid_fill f"
  shows "books_ok (fst (portfolio_apply_fill D ordinal P f oc now))"
proof -
  define p0 where "p0 = get_or (pf_positions P) (fi_token_id f)
    (position_new (fi_market_id f) (fi_token_id f) oc now)"
  obtain p r where b: "book_position D P f oc now = (p, r)" by force
  have ok0: "position_ok p0"
    using assms(1) by (auto simp: p0_def get_or_def position_ok_new books_ok_def position_values_def
        dest: list_all_get split: option.splits)
  have p: "p = position_fill D p0 f" and r: "ps_realized_pnl p = ps_realized_pnl p0 + r"
    using b position_apply_fields(2) [of p0 "fi_side f" "fi_quantity f" "fi_price f" "fi_fee f" "fi_filled_at f"]
    by (simp_all add: book_position_def position_fill_def p0_def [symmetric])
  note step = position_fill_step [OF ok0 assms(2), folded p]
  have old: "(case get (pf_positions P) (fi_token_id f) of Some q \<Rightarrow> g q | None \<Rightarrow> 0) = g p0"
    if "g (position_new (fi_market_id f) (fi_token_id f) oc now) = 0" for g :: "position \<Rightarrow> rat"
    using that by (simp add: p0_def get_or_def split: option.splits)
  have sums: "vsum g (AList.update (fi_token_id f) p (pf_positions P)) = vsum g (pf_positions P) - g p0 + g p"
    if "g (position_new (fi_market_id f) (fi_token_id f) oc now) = 0" for g
    using assms(1) old [of g, OF that] by (simp add: vsum_update books_ok_def)
  have zero: "book_balance (position_new m t oc now) = 0" "ps_realized_pnl (position_new m t oc now) = 0"
    "ps_fees_paid (position_new m t oc now) = 0" for m t
    by (simp_all add: position_new_def book_balance_def)
  show ?thesis
    using assms(1) step r
    by (simp add: portfolio_apply_fill_def b Let_def books_ok_def sums [of book_balance]
        sums [of ps_realized_pnl] sums [of ps_fees_paid] zero vsum_upsert exact position_values_def
        list_all_update)
qed

lemma portfolio_fill_ok:
  "portfolio_ok D P \<Longrightarrow> valid_fill f \<Longrightarrow> portfolio_ok D (fst (portfolio_apply_fill D ordinal P f oc now))"
  using fill_books [of P f ordinal oc now]
  by (auto simp: portfolio_ok_iff portfolio_apply_fill_def Let_def refresh_peak_def split: prod.splits)

text \<open>Equity is the starting cash and all profit and loss, whether or not the book is marked.\<close>

lemma held_sum:
  fixes f :: "position \<Rightarrow> rat"
  assumes "\<And>p. ps_net_quantity p = 0 \<Longrightarrow> f p = 0"
  shows "sum_list (map f (held P)) = sum_list (map f (position_values P))"
  unfolding held_def by (rule sum_list_filter) (simp add: is_flat_def assms)

lemma unmarked_equity:
  assumes "books_ok P" and "position_value D P = None"
  shows "equity D P = pf_starting_cash P + pf_realized P" and "portfolio_unrealized D P = None"
proof -
  have "list_ex (\<lambda>p. ps_mark_price p = None) (held P)"
    using assms(2) by (simp add: position_value_def split: if_splits)
  then show "portfolio_unrealized D P = None" by (auto simp: portfolio_unrealized_def)
  have "vsum book_balance (pf_positions P) + sum_list (map (\<lambda>p. ps_net_quantity p * ps_avg_entry p) (position_values P))
      = vsum ps_realized_pnl (pf_positions P)"
    by (simp add: vsum_positions book_balance_def sum_list_addf [symmetric])
  with assms show "equity D P = pf_starting_cash P + pf_realized P"
    by (simp add: equity_def exact books_ok_def)
qed

lemma marked_equity:
  assumes "books_ok P" and "position_value D P = Some v"
  shows "equity D P = pf_starting_cash P + pf_realized P +
           (case portfolio_unrealized D P of Some u \<Rightarrow> u | None \<Rightarrow> 0)"
proof -
  define mk where "mk p = (case ps_mark_price p of Some m \<Rightarrow> m | None \<Rightarrow> (0::rat))" for p :: position
  have marked: "ps_mark_price p \<noteq> None" if "p \<in> set (held P)" for p
    using assms(2) that by (auto simp: position_value_def list_ex_iff split: if_splits)
  have v: "v = sum_list (map (\<lambda>p. ps_net_quantity p * mk p) (held P))"
    using assms(2) by (simp add: position_value_def exact mk_def split: if_splits)
  have "unrealized_pnl D p = Some (ps_net_quantity p * (mk p - ps_avg_entry p))"
    if "p \<in> set (held P)" for p
    using marked [OF that] by (auto simp: unrealized_pnl_def exact mk_def)
  then have mf: "List.map_filter (unrealized_pnl D) (held P) =
      map (\<lambda>p. ps_net_quantity p * (mk p - ps_avg_entry p)) (held P)"
    by (rule map_filter_total)
  have "\<not> list_ex (\<lambda>p. ps_mark_price p = None) (held P)"
    using marked by (simp add: list_ex_iff)
  with mf have u: "(case portfolio_unrealized D P of Some u \<Rightarrow> u | None \<Rightarrow> 0) =
      sum_list (map (\<lambda>p. ps_net_quantity p * (mk p - ps_avg_entry p)) (held P))"
    by (simp add: portfolio_unrealized_def exact)
  have "vsum book_balance (pf_positions P) + sum_list (map (\<lambda>p. ps_net_quantity p * mk p) (position_values P))
      = vsum ps_realized_pnl (pf_positions P) +
        sum_list (map (\<lambda>p. ps_net_quantity p * (mk p - ps_avg_entry p)) (position_values P))"
    by (simp add: vsum_positions book_balance_def sum_list_addf [symmetric] algebra_simps)
  with assms v u show ?thesis
    by (simp add: equity_def exact books_ok_def held_sum)
qed

lemma equity_exact:
  assumes "books_ok P"
  shows "equity D P = pf_starting_cash P + total_pnl D P"
  using unmarked_equity [OF assms] marked_equity [OF assms]
  by (cases "position_value D P") (simp_all add: total_pnl_def exact add.assoc)

end

subsection \<open>Properties\<close>

text \<open>Every portfolio that its operations can build from a starting cash \<open>c\<close>.\<close>

inductive portfolio_reach ::
    "decimal_ops \<Rightarrow> (timestamp \<Rightarrow> nat) \<Rightarrow> usd \<Rightarrow> portfolio \<Rightarrow> bool" for D ordinal c where
  pf_new: "portfolio_reach D ordinal c (portfolio_new ordinal c now)"
| pf_fill: "portfolio_reach D ordinal c P \<Longrightarrow> valid_fill f \<Longrightarrow>
    portfolio_reach D ordinal c (fst (portfolio_apply_fill D ordinal P f oc now))"
| pf_mark: "portfolio_reach D ordinal c P \<Longrightarrow> portfolio_reach D ordinal c (portfolio_mark D P t price now)"
| pf_attribute: "portfolio_reach D ordinal c P \<Longrightarrow> portfolio_reach D ordinal c (attribute_order P order w)"
| pf_reset: "portfolio_reach D ordinal c P \<Longrightarrow> portfolio_reach D ordinal c (portfolio_reset ordinal P now)"

lemma apply_fill_starting [simp]:
  "pf_starting_cash (fst (portfolio_apply_fill D ordinal P f oc now)) = pf_starting_cash P"
  by (simp add: portfolio_apply_fill_def Let_def split: prod.splits)

lemma reach_starting: "portfolio_reach D ordinal c P \<Longrightarrow> pf_starting_cash P = c"
  by (induction rule: portfolio_reach.induct)
    (simp_all add: portfolio_new_def portfolio_mark_def attribute_order_def portfolio_reset_def)

lemma reach_ok:
  assumes "decimal_exact D" and "portfolio_reach D ordinal c P"
  shows "portfolio_ok D P"
  using assms(2)
  by (induction rule: portfolio_reach.induct)
    (simp_all add: assms(1) decimal_exact.portfolio_new_ok decimal_exact.portfolio_fill_ok
      portfolio_mark_ok attribute_order_ok decimal_exact.portfolio_reset_ok)


definition filled_portfolio :: portfolio where
  "filled_portfolio =
     fst (portfolio_apply_fill exact_decimal (\<lambda>_. 7) (portfolio_new (\<lambda>_. 7) 1000 0)
       (sample_fill Buy 100 (40/100)) ''Yes'' 0)"

lemma filled_portfolio_eval:
  "filled_portfolio = \<lparr>pf_cash = 959, pf_starting_cash = 1000,
     pf_positions = [(TokenId ''7'',
       \<lparr>ps_market_id = MarketId ''m'', ps_token_id = TokenId ''7'', ps_outcome = ''Yes'',
        ps_net_quantity = 100, ps_avg_entry = 40/100, ps_realized_pnl = - 1, ps_fees_paid = 1,
        ps_mark_price = None, ps_updated_at = 5\<rparr>)],
     pf_realized = - 1, pf_fees = 1, pf_peak_equity = 1000, pf_daily = (7, - 1),
     pf_by_wallet = [], pf_by_market = [(MarketId ''m'', - 1)], pf_order_wallet = []\<rparr>"
  by (simp add: filled_portfolio_def portfolio_apply_fill_def portfolio_new_def book_position_def
      position_apply_def position_legs_def position_new_def sample_fill_def get_or_def upsert_def
      cash_delta_def fill_notional_def qty_notional_def roll_daily_def refresh_peak_def equity_def
      position_value_def held_def position_values_def is_flat_def d_sum_def)

lemma filled_portfolio_reach: "portfolio_reach exact_decimal (\<lambda>_. 7) 1000 filled_portfolio"
  unfolding filled_portfolio_def
  by (intro portfolio_reach.intros) (simp add: valid_fill_def sample_fill_def valid_qty_def valid_price_def)


text \<open>Drawdown is a true measure of the distance from the peak: in every portfolio its
  operations can build it is never negative, it is zero exactly at the peak (when the peak is
  positive), and it never exceeds one while equity is not negative.\<close>

theorem drawdown_sound:
  assumes "decimal_exact D" and "portfolio_reach D ordinal c P" and "0 < pf_peak_equity P"
    and "d = drawdown_pct D (snapshot D ordinal P n now)"
  shows "d = (pf_peak_equity P - equity D P) / pf_peak_equity P \<and> 0 \<le> d \<and>
         (d = 0 \<longleftrightarrow> equity D P = pf_peak_equity P) \<and> (d \<le> 1 \<longleftrightarrow> 0 \<le> equity D P)"
proof -
  define x where "x = (pf_peak_equity P - equity D P) / pf_peak_equity P"
  have peak: "equity D P \<le> pf_peak_equity P"
    using reach_ok [OF assms(1,2)] by (simp add: portfolio_ok_iff)
  with assms(3) have x: "0 \<le> x" by (simp add: x_def)
  have "d = max x 0"
    using assms(3) unfolding assms(4)
    by (simp add: drawdown_pct_def snapshot_def Let_def decimal_exact.exact [OF assms(1)] x_def)
  with x have "d = x" by simp
  with x peak assms(3) show ?thesis by (auto simp: x_def divide_le_eq)
qed

theorem drawdown_sound_witness:
  "drawdown_pct exact_decimal (snapshot exact_decimal (\<lambda>_. 7) filled_portfolio 0 9) = 1/1000"
proof -
  have "0 < pf_peak_equity filled_portfolio" by (simp add: filled_portfolio_eval)
  from drawdown_sound [OF exact_dec.decimal_exact_axioms filled_portfolio_reach this refl, of 0 9]
  have "drawdown_pct exact_decimal (snapshot exact_decimal (\<lambda>_. 7) filled_portfolio 0 9) =
      (pf_peak_equity filled_portfolio - equity exact_decimal filled_portfolio) /
      pf_peak_equity filled_portfolio" by blast
  then show ?thesis
    by (simp add: filled_portfolio_eval equity_def position_value_def held_def position_values_def
        is_flat_def d_sum_def)
qed

text \<open>A snapshot of an unmarked book reports a position value of zero while its equity
  counts the position at cost, so its equity is not its cash plus its position value. The
  unrealised profit is absent exactly when some held position has no mark.\<close>

theorem unmarked_snapshot_does_not_add_up:
  "(let s = snapshot exact_decimal (\<lambda>_. 7) filled_portfolio 0 9
    in pn_equity s = 999 \<and> pn_cash s = 959 \<and> pn_position_value s = 0 \<and> pn_unrealized_pnl s = None) \<and>
   (pn_unrealized_pnl (snapshot D ordinal P n now) = None \<longleftrightarrow>
      list_ex (\<lambda>p. ps_net_quantity p \<noteq> 0 \<and> ps_mark_price p = None) (position_values P))"
proof -
  have "list_ex (\<lambda>p. ps_mark_price p = None) (held P) \<longleftrightarrow>
      list_ex (\<lambda>p. ps_net_quantity p \<noteq> 0 \<and> ps_mark_price p = None) (position_values P)"
    by (auto simp: held_def list_ex_iff is_flat_def)
  moreover have "held P = [] \<Longrightarrow> \<not> list_ex (\<lambda>p. ps_mark_price p = None) (held P)" by simp
  ultimately show ?thesis
    by (auto simp: snapshot_def portfolio_unrealized_def filled_portfolio_eval equity_def
        position_value_def held_def [of "\<lparr>pf_cash = _, pf_starting_cash = _, pf_positions = _,
          pf_realized = _, pf_fees = _, pf_peak_equity = _, pf_daily = _, pf_by_wallet = _,
          pf_by_market = _, pf_order_wallet = _\<rparr>"] position_values_def is_flat_def d_sum_def Let_def)
qed

end
