(* ===== verification/Events.thy ===== *)
theory Events
  imports Portfolio
begin

section \<open>The event vocabulary (crates/domain/src/events.rs)\<close>

text \<open>
  Components tell each other and the dashboard what happened through one enumeration of
  events. The properties here are that names are stable and distinct, and that every event
  of a trade's lifecycle carries its correlation id.
\<close>

datatype app_mode = PaperMode | LiveMode | ReplayMode

fun app_mode_str :: "app_mode \<Rightarrow> string" where
  "app_mode_str PaperMode = ''PAPER''"
| "app_mode_str LiveMode = ''LIVE''"
| "app_mode_str ReplayMode = ''REPLAY''"

definition is_live :: "app_mode \<Rightarrow> bool" where
  "is_live m \<longleftrightarrow> m = LiveMode"

datatype risk_rejection =
    MaxTradeSizeExceeded (mts_requested: usd) (mts_limit: usd)
  | MaxPositionExceeded (mp_market: market_id) (mp_projected: usd) (mp_limit: usd)
  | MaxPortfolioExposureExceeded (mpe_projected: usd) (mpe_limit: usd)
  | MaxMarketExposureExceeded (mme_market: market_id) (mme_projected: usd) (mme_limit: usd)
  | MaxWalletExposureExceeded (mwe_wallet: string) (mwe_projected: usd) (mwe_limit: usd)
  | DailyLossLimitReached (dll_daily_pnl: usd) (dll_limit: usd)
  | MaxOpenOrdersReached (moo_open: nat) (moo_limit: nat)
  | SlippageTooWide (stw_estimated_bps: int) (stw_limit_bps: nat)
  | InsufficientLiquidity (il_available: usd) (il_required: usd)
  | MarketNotTradable (mnt_market: market_id) (mnt_reason: string)
  | RejWalletDisabled (wd_wallet: string)
  | DuplicateOrder (do_source_event: source_event_id)
  | KillSwitchActive (ksa_reason: string)
  | SystemUnhealthy (su_detail: string)
  | LiveExecutionNotArmed
  | BelowMinimumOrderSize (bmo_requested: usd) (bmo_minimum: usd)
  | StaleMarketData (smd_age_ms: int) (smd_max_age_ms: int)

fun rejection_code :: "risk_rejection \<Rightarrow> string" where
  "rejection_code (MaxTradeSizeExceeded _ _) = ''max_trade_size''"
| "rejection_code (MaxPositionExceeded _ _ _) = ''max_position''"
| "rejection_code (MaxPortfolioExposureExceeded _ _) = ''max_portfolio_exposure''"
| "rejection_code (MaxMarketExposureExceeded _ _ _) = ''max_market_exposure''"
| "rejection_code (MaxWalletExposureExceeded _ _ _) = ''max_wallet_exposure''"
| "rejection_code (DailyLossLimitReached _ _) = ''daily_loss_limit''"
| "rejection_code (MaxOpenOrdersReached _ _) = ''max_open_orders''"
| "rejection_code (SlippageTooWide _ _) = ''slippage_too_wide''"
| "rejection_code (InsufficientLiquidity _ _) = ''insufficient_liquidity''"
| "rejection_code (MarketNotTradable _ _) = ''market_not_tradable''"
| "rejection_code (RejWalletDisabled _) = ''wallet_disabled''"
| "rejection_code (DuplicateOrder _) = ''duplicate_order''"
| "rejection_code (KillSwitchActive _) = ''kill_switch''"
| "rejection_code (SystemUnhealthy _) = ''system_unhealthy''"
| "rejection_code LiveExecutionNotArmed = ''live_not_armed''"
| "rejection_code (BelowMinimumOrderSize _ _) = ''below_min_order_size''"
| "rejection_code (StaleMarketData _ _) = ''stale_market_data''"

datatype health_state = Healthy | Degraded | Down

datatype component_health =
    HealthMarketData health_state string
  | HealthSourceFeed health_state string
  | HealthDatabase health_state string
  | HealthRedis health_state string
  | HealthExecution health_state string

datatype system_event =
    MarketUpdated market_id token_id "price option" "price option" nat timestamp
  | SourceTradeDetected source_trade
  | SourceTradeSkipped source_event_id correlation_id signal_skip_reason timestamp
  | CopySignalGenerated copy_signal
  | OrderRiskApproved order_id correlation_id signal_id timestamp
  | OrderRiskRejected correlation_id "signal_id option" risk_rejection timestamp
  | OrderSubmitted order_id correlation_id timestamp
  | OrderAcknowledged order_id correlation_id "string option" timestamp
  | OrderPartiallyFilled order_id correlation_id fill
  | OrderFilled order_id correlation_id fill
  | OrderCancelled order_id correlation_id timestamp
  | OrderRejected order_id correlation_id string timestamp
  | OrderStateChanged order_id correlation_id order_state order_state timestamp
  | PositionUpdated position timestamp
  | PnlUpdated pnl_snapshot
  | RiskLimitBreached risk_rejection timestamp
  | KillSwitchActivated string string timestamp
  | KillSwitchReset string timestamp
  | ReconciliationMismatch token_id qty qty timestamp
  | HealthChanged component_health timestamp
  | FeedDisconnected string timestamp timestamp
  | FeedReconnected string nat timestamp

fun event_correlation_id :: "system_event \<Rightarrow> correlation_id option" where
  "event_correlation_id (SourceTradeDetected t) = Some (so_correlation_id t)"
| "event_correlation_id (CopySignalGenerated s) = Some (cs_correlation_id s)"
| "event_correlation_id (SourceTradeSkipped _ c _ _) = Some c"
| "event_correlation_id (OrderRiskApproved _ c _ _) = Some c"
| "event_correlation_id (OrderRiskRejected c _ _ _) = Some c"
| "event_correlation_id (OrderSubmitted _ c _) = Some c"
| "event_correlation_id (OrderAcknowledged _ c _ _) = Some c"
| "event_correlation_id (OrderPartiallyFilled _ c _) = Some c"
| "event_correlation_id (OrderFilled _ c _) = Some c"
| "event_correlation_id (OrderCancelled _ c _) = Some c"
| "event_correlation_id (OrderRejected _ c _ _) = Some c"
| "event_correlation_id (OrderStateChanged _ c _ _ _) = Some c"
| "event_correlation_id _ = None"

fun event_kind :: "system_event \<Rightarrow> string" where
  "event_kind (MarketUpdated _ _ _ _ _ _) = ''market_updated''"
| "event_kind (SourceTradeDetected _) = ''source_trade_detected''"
| "event_kind (SourceTradeSkipped _ _ _ _) = ''source_trade_skipped''"
| "event_kind (CopySignalGenerated _) = ''copy_signal_generated''"
| "event_kind (OrderRiskApproved _ _ _ _) = ''order_risk_approved''"
| "event_kind (OrderRiskRejected _ _ _ _) = ''order_risk_rejected''"
| "event_kind (OrderSubmitted _ _ _) = ''order_submitted''"
| "event_kind (OrderAcknowledged _ _ _ _) = ''order_acknowledged''"
| "event_kind (OrderPartiallyFilled _ _ _) = ''order_partially_filled''"
| "event_kind (OrderFilled _ _ _) = ''order_filled''"
| "event_kind (OrderCancelled _ _ _) = ''order_cancelled''"
| "event_kind (OrderRejected _ _ _ _) = ''order_rejected''"
| "event_kind (OrderStateChanged _ _ _ _ _) = ''order_state_changed''"
| "event_kind (PositionUpdated _ _) = ''position_updated''"
| "event_kind (PnlUpdated _) = ''pnl_updated''"
| "event_kind (RiskLimitBreached _ _) = ''risk_limit_breached''"
| "event_kind (KillSwitchActivated _ _ _) = ''kill_switch_activated''"
| "event_kind (KillSwitchReset _ _) = ''kill_switch_reset''"
| "event_kind (ReconciliationMismatch _ _ _ _) = ''reconciliation_mismatch''"
| "event_kind (HealthChanged _ _) = ''health_changed''"
| "event_kind (FeedDisconnected _ _ _) = ''feed_disconnected''"
| "event_kind (FeedReconnected _ _ _) = ''feed_reconnected''"

fun is_critical :: "system_event \<Rightarrow> bool" where
  "is_critical (RiskLimitBreached _ _) = True"
| "is_critical (KillSwitchActivated _ _ _) = True"
| "is_critical (ReconciliationMismatch _ _ _ _) = True"
| "is_critical (FeedDisconnected _ _ _) = True"
| "is_critical _ = False"

text \<open>A rejection is recognised by its code; the constructor tests are the reference.\<close>

lemma code_kill_switch: "rejection_code r = ''kill_switch'' \<longleftrightarrow> (\<exists>s. r = KillSwitchActive s)"
  by (cases r) simp_all

lemma code_daily_loss:
  "rejection_code r = ''daily_loss_limit'' \<longleftrightarrow> (\<exists>a b. r = DailyLossLimitReached a b)"
  by (cases r) simp_all

lemma critical_kinds:
  "is_critical e \<longleftrightarrow> event_kind e \<in> {''risk_limit_breached'', ''kill_switch_activated'',
     ''reconciliation_mismatch'', ''feed_disconnected''}"
  by (cases e) simp_all

end
