(* ===== verification/Dedup.thy ===== *)
theory Dedup
  imports Events
begin

section \<open>Idempotency of source trades (crates/wallet_tracker/src/dedup.rs)\<close>

text \<open>
  The venue gives a fill no identifier, so identity is content plus the ordinal among
  identical fills of the same transaction. The live feed takes the next ordinal; a REST
  backfill claims ordinals from zero and finds the ones already held. SHA-256 and the hex
  encoding come from crates: \<open>sha\<close> is the text of the digest.
\<close>

record content_key =
  ck_tx_hash :: tx_hash
  ck_trader :: address
  ck_token_id :: token_id
  ck_side :: side
  ck_price :: string
  ck_size :: string

definition content_key_new ::
    "decimal_ops \<Rightarrow> tx_hash \<Rightarrow> address \<Rightarrow> token_id \<Rightarrow> side \<Rightarrow> price \<Rightarrow> qty \<Rightarrow> content_key" where
  "content_key_new D tx trader token s p q = \<lparr>ck_tx_hash = tx, ck_trader = trader,
     ck_token_id = token, ck_side = s, ck_price = d_text D p, ck_size = d_text D q\<rparr>"

text \<open>What is fed to the hash: the fields, each closed by a unit separator, and the ordinal
  as four bytes, most significant first.\<close>

definition unit_sep :: char where
  "unit_sep = char_of (31 :: nat)"

definition be_bytes :: "nat \<Rightarrow> string" where
  "be_bytes n = map (\<lambda>i. char_of (n div 256 ^ i mod 256)) [3, 2, 1, 0]"

definition event_text :: "content_key \<Rightarrow> nat \<Rightarrow> string" where
  "event_text k occurrence =
     tx_str (ck_tx_hash k) @ [unit_sep] @ address_str (ck_trader k) @ [unit_sep] @
     token_str (ck_token_id k) @ [unit_sep] @ side_str (ck_side k) @ [unit_sep] @
     ck_price k @ [unit_sep] @ ck_size k @ [unit_sep] @ be_bytes occurrence"

definition event_id :: "(string \<Rightarrow> string) \<Rightarrow> content_key \<Rightarrow> nat \<Rightarrow> source_event_id" where
  "event_id sha k occurrence = from_digest (sha (event_text k occurrence))"

datatype dedup_verdict =
    NewFill (verdict_event_id: source_event_id) (verdict_occurrence: nat)
  | DuplicateFill (verdict_event_id: source_event_id) (verdict_occurrence: nat)

definition is_new :: "dedup_verdict \<Rightarrow> bool" where
  "is_new v = (case v of NewFill _ _ \<Rightarrow> True | DuplicateFill _ _ \<Rightarrow> False)"

record dedup_index =
  di_counts :: "(content_key, nat) hashmap"
  di_last_seen :: "(content_key, timestamp) hashmap"
  di_retention :: int
  di_evictions :: nat
  di_suspicious :: nat

definition DEFAULT_RETENTION_HOURS :: int where
  "DEFAULT_RETENTION_HOURS = 6"

definition MAX_OCCURRENCES_PER_CONTENT :: nat where
  "MAX_OCCURRENCES_PER_CONTENT = 64"

definition hours :: "int \<Rightarrow> int" where
  "hours n = n * 3600 * 1000000000"

definition dedup_new :: "int \<Rightarrow> dedup_index" where
  "dedup_new retention = \<lparr>di_counts = [], di_last_seen = [], di_retention = retention,
     di_evictions = 0, di_suspicious = 0\<rparr>"

definition dedup_default :: dedup_index where
  "dedup_default = dedup_new (hours DEFAULT_RETENTION_HOURS)"

definition tracked_contents :: "dedup_index \<Rightarrow> nat" where
  "tracked_contents d = length (di_counts d)"

definition recorded_fills :: "dedup_index \<Rightarrow> nat" where
  "recorded_fills d = sum_list (map snd (di_counts d))"

definition dedup_restore :: "dedup_index \<Rightarrow> content_key \<Rightarrow> nat \<Rightarrow> timestamp \<Rightarrow> dedup_index" where
  "dedup_restore d key occurrences now =
     d\<lparr>di_counts := upsert (di_counts d) key 0 (\<lambda>e. max e occurrences),
       di_last_seen := AList.update key now (di_last_seen d)\<rparr>"

definition observe_live ::
    "(string \<Rightarrow> string) \<Rightarrow> dedup_index \<Rightarrow> content_key \<Rightarrow> timestamp \<Rightarrow> dedup_index \<times> dedup_verdict" where
  "observe_live sha d key now =
     (let occurrence = get_or (di_counts d) key 0;
          d0 = d\<lparr>di_counts := AList.update key occurrence (di_counts d)\<rparr>
      in if occurrence \<ge> MAX_OCCURRENCES_PER_CONTENT then
           (d0\<lparr>di_suspicious := di_suspicious d + 1\<rparr>, DuplicateFill (event_id sha key occurrence) occurrence)
         else
           (d0\<lparr>di_counts := AList.update key (occurrence + 1) (di_counts d0),
               di_last_seen := AList.update key now (di_last_seen d)\<rparr>,
            NewFill (event_id sha key occurrence) occurrence))"

definition observe_backfill ::
    "(string \<Rightarrow> string) \<Rightarrow> dedup_index \<Rightarrow> content_key \<Rightarrow> nat \<Rightarrow> timestamp \<Rightarrow> dedup_index \<times> dedup_verdict" where
  "observe_backfill sha d key index_within_batch now =
     (if index_within_batch \<ge> MAX_OCCURRENCES_PER_CONTENT then
        (d\<lparr>di_suspicious := di_suspicious d + 1\<rparr>,
         DuplicateFill (event_id sha key index_within_batch) index_within_batch)
      else let existing = get_or (di_counts d) key 0
        in if index_within_batch < existing then
             (d, DuplicateFill (event_id sha key index_within_batch) index_within_batch)
           else
             (d\<lparr>di_counts := AList.update key (index_within_batch + 1) (di_counts d),
                di_last_seen := AList.update key now (di_last_seen d)\<rparr>,
              NewFill (event_id sha key index_within_batch) index_within_batch))"

definition evict_one :: "dedup_index \<Rightarrow> content_key \<Rightarrow> dedup_index" where
  "evict_one d k = d\<lparr>di_counts := AList.delete k (di_counts d),
     di_last_seen := AList.delete k (di_last_seen d), di_evictions := di_evictions d + 1\<rparr>"

definition evict_older_than :: "dedup_index \<Rightarrow> timestamp \<Rightarrow> dedup_index" where
  "evict_older_than d now =
     (let cutoff = now - di_retention d;
          stale = map fst (filter (\<lambda>(_, t). t < cutoff) (di_last_seen d))
      in foldl evict_one d stale)"

type_synonym batch_ordinals = "(content_key, nat) hashmap"

definition batch_next :: "batch_ordinals \<Rightarrow> content_key \<Rightarrow> batch_ordinals \<times> nat" where
  "batch_next b key =
     (let v = get_or b key 0 in (AList.update key (v + 1) b, v))"

subsection \<open>Identities are unambiguous\<close>

text \<open>A separator that occurs in no field makes the concatenation injective.\<close>

lemma sep_cancel:
  "c \<notin> set a \<Longrightarrow> c \<notin> set b \<Longrightarrow> a @ c # x = b @ c # y \<longleftrightarrow> a = b \<and> x = y"
proof (induction a arbitrary: b)
  case Nil
  then show ?case by (cases b) auto
next
  case (Cons u a)
  then show ?case by (cases b) auto
qed

lemma be_bytes_inject:
  assumes "m < 2 ^ 32" and "n < 2 ^ 32" and "be_bytes m = be_bytes n"
  shows "m = n"
proof -
  have d: "m div 256 ^ i mod 256 = n div 256 ^ i mod 256" if "i \<in> {0, 1, 2, 3}" for i
  proof -
    have "\<forall>i \<in> set [3, 2, 1, 0]. char_of (m div 256 ^ i mod 256) = (char_of (n div 256 ^ i mod 256) :: char)"
      using assms(3) unfolding be_bytes_def map_eq_conv .
    then have "char_of (m div 256 ^ i mod 256) = (char_of (n div 256 ^ i mod 256) :: char)"
      by (rule bspec) (use that in auto)
    from arg_cong [OF this, of byte] show ?thesis by (simp add: byte_def)
  qed
  have pow: "k div 256 ^ 2 = k div 256 div 256" "k div 256 ^ 3 = k div 256 div 256 div 256" for k :: nat
    by (simp_all add: div_mult2_eq [symmetric])
  have top: "k div 256 ^ 3 mod 256 = k div 256 div 256 div 256" if "k < 2 ^ 32" for k :: nat
  proof -
    have "k div 256 ^ 3 < 256" using that by (simp add: less_mult_imp_div_less)
    then show ?thesis by (simp only: mod_less pow)
  qed
  have split: "k = ((k div 256 div 256 div 256 * 256 + k div 256 div 256 mod 256) * 256 +
      k div 256 mod 256) * 256 + k mod 256" for k :: nat
    by (simp only: div_mult_mod_eq)
  have d3: "m div 256 ^ 3 mod 256 = n div 256 ^ 3 mod 256" by (rule d) simp
  have d2: "m div 256 ^ 2 mod 256 = n div 256 ^ 2 mod 256" by (rule d) simp
  have d1: "m div 256 ^ 1 mod 256 = n div 256 ^ 1 mod 256" by (rule d) simp
  have d0: "m div 256 ^ 0 mod 256 = n div 256 ^ 0 mod 256" by (rule d) simp
  have eqs: "m div 256 div 256 div 256 = n div 256 div 256 div 256"
    using d3 unfolding top [OF assms(1)] top [OF assms(2)] .
  have eqs2: "m div 256 div 256 mod 256 = n div 256 div 256 mod 256" using d2 unfolding pow .
  have eqs1: "m div 256 mod 256 = n div 256 mod 256" using d1 unfolding power_one_right .
  have eqs0: "m mod 256 = n mod 256" using d0 unfolding power_0 div_by_1 .
  note eqs = eqs eqs2 eqs1 eqs0
  show ?thesis by (rule trans [OF split [of m, unfolded eqs] split [of n, symmetric]])
qed

definition key_ok :: "content_key \<Rightarrow> bool" where
  "key_ok k \<longleftrightarrow> unit_sep \<notin> set (tx_str (ck_tx_hash k)) \<and> unit_sep \<notin> set (address_str (ck_trader k)) \<and>
     unit_sep \<notin> set (token_str (ck_token_id k)) \<and> unit_sep \<notin> set (ck_price k) \<and>
     unit_sep \<notin> set (ck_size k)"

lemma sep_not_side: "unit_sep \<notin> set (side_str s)"
  by (cases s) (simp_all add: unit_sep_def char_of_def bit_Suc_0_iff)

lemma event_text_inject:
  assumes "key_ok k" and "key_ok l" and "m < 2 ^ 32" and "n < 2 ^ 32"
  shows "event_text k m = event_text l n \<longleftrightarrow> k = l \<and> m = n"
proof
  assume eq: "event_text k m = event_text l n"
  then have "tx_str (ck_tx_hash k) = tx_str (ck_tx_hash l)"
    "address_str (ck_trader k) = address_str (ck_trader l)"
    "token_str (ck_token_id k) = token_str (ck_token_id l)"
    "side_str (ck_side k) = side_str (ck_side l)" "ck_price k = ck_price l" "ck_size k = ck_size l"
    "be_bytes m = be_bytes n"
    using assms(1,2) by (simp_all add: event_text_def key_ok_def sep_cancel sep_not_side)
  with assms(3,4) show "k = l \<and> m = n"
    by (auto simp: side_str_inject intro: content_key.equality tx_hash.expand address.expand
        token_id.expand be_bytes_inject)
qed simp

subsection \<open>The index as a source of identities\<close>

text \<open>Everything that can be offered to the index, short of eviction.\<close>

datatype arrival =
    LiveArrival content_key timestamp
  | BackfillArrival content_key nat timestamp
  | RestoreArrival content_key nat timestamp

fun arrival_key :: "arrival \<Rightarrow> content_key" where
  "arrival_key (LiveArrival k _) = k"
| "arrival_key (BackfillArrival k _ _) = k"
| "arrival_key (RestoreArrival k _ _) = k"

fun verdict_new :: "content_key \<Rightarrow> dedup_verdict \<Rightarrow> (content_key \<times> nat) option" where
  "verdict_new k (NewFill _ occurrence) = Some (k, occurrence)"
| "verdict_new k (DuplicateFill _ _) = None"

fun dedup_offer :: "(string \<Rightarrow> string) \<Rightarrow> dedup_index \<Rightarrow> arrival \<Rightarrow> dedup_index \<times> (content_key \<times> nat) option" where
  "dedup_offer sha d (LiveArrival k t) =
     (let (d', v) = observe_live sha d k t in (d', verdict_new k v))"
| "dedup_offer sha d (BackfillArrival k i t) =
     (let (d', v) = observe_backfill sha d k i t in (d', verdict_new k v))"
| "dedup_offer sha d (RestoreArrival k n t) = (dedup_restore d k n t, None)"

definition count_of :: "dedup_index \<Rightarrow> content_key \<Rightarrow> nat" where
  "count_of d k = get_or (di_counts d) k 0"

definition seen_occurrences :: "dedup_index \<Rightarrow> (content_key \<times> nat) set" where
  "seen_occurrences d = {(k, n). n < count_of d k}"

text \<open>Every content has a time, so that eviction can reach it.\<close>

definition dedup_ok :: "dedup_index \<Rightarrow> bool" where
  "dedup_ok d \<longleftrightarrow> keys_ok (di_counts d) \<and> keys_ok (di_last_seen d) \<and>
     (\<forall>k. get (di_counts d) k = None \<longleftrightarrow> get (di_last_seen d) k = None)"

lemma get_or_update: "get_or (AList.update k v m) k' d = (if k = k' then v else get_or m k' d)"
  by (simp add: get_or_def get_update)

lemma update_same: "get m k = Some v \<Longrightarrow> get (AList.update k v m) k' = get m k'"
  by (auto simp: get_update)

lemma dedup_ok_new: "dedup_ok (dedup_new r)"
  by (simp add: dedup_ok_def dedup_new_def)

lemma get_or_pos: "0 < get_or m k (0::nat) \<Longrightarrow> get m k = Some (get_or m k 0)"
  by (simp add: get_or_def split: option.splits)

lemma live_counts:
  "count_of (fst (observe_live sha d k t)) k' =
     (if k = k' \<and> count_of d k < MAX_OCCURRENCES_PER_CONTENT then count_of d k + 1 else count_of d k')"
  by (auto simp: observe_live_def count_of_def Let_def get_or_update)

lemma live_verdict:
  "snd (observe_live sha d k t) =
     (if count_of d k < MAX_OCCURRENCES_PER_CONTENT then NewFill (event_id sha k (count_of d k)) (count_of d k)
      else DuplicateFill (event_id sha k (count_of d k)) (count_of d k))"
  by (simp add: observe_live_def count_of_def Let_def)

lemma backfill_counts:
  "count_of (fst (observe_backfill sha d k i t)) k' =
     (if k = k' \<and> i < MAX_OCCURRENCES_PER_CONTENT \<and> count_of d k \<le> i then i + 1 else count_of d k')"
  by (auto simp: observe_backfill_def count_of_def Let_def get_or_update)

lemma backfill_verdict:
  "snd (observe_backfill sha d k i t) =
     (if i < MAX_OCCURRENCES_PER_CONTENT \<and> count_of d k \<le> i then NewFill (event_id sha k i) i
      else DuplicateFill (event_id sha k i) i)"
  by (simp add: observe_backfill_def count_of_def Let_def)

lemma restore_counts:
  "count_of (dedup_restore d k n t) k' = (if k = k' then max (count_of d k) n else count_of d k')"
  by (auto simp: dedup_restore_def count_of_def get_or_def get_upsert)

lemma live_ok: "dedup_ok d \<Longrightarrow> dedup_ok (fst (observe_live sha d k t))"
proof (cases "get_or (di_counts d) k 0 < MAX_OCCURRENCES_PER_CONTENT")
  case True
  assume "dedup_ok d"
  with True show ?thesis by (simp add: observe_live_def dedup_ok_def Let_def get_update)
next
  case False
  assume "dedup_ok d"
  moreover have "0 < get_or (di_counts d) k 0" using False by (simp add: MAX_OCCURRENCES_PER_CONTENT_def)
  ultimately show ?thesis using False get_or_pos [of "di_counts d" k]
    by (simp add: observe_live_def dedup_ok_def Let_def update_same)
qed

lemma backfill_ok: "dedup_ok d \<Longrightarrow> dedup_ok (fst (observe_backfill sha d k i t))"
  by (simp add: observe_backfill_def dedup_ok_def Let_def get_update)

lemma restore_ok: "dedup_ok d \<Longrightarrow> dedup_ok (dedup_restore d k n t)"
  by (simp add: dedup_restore_def dedup_ok_def get_upsert get_update)

interpretation dedup: id_source dedup_ok seen_occurrences "dedup_offer sha" for sha
proof
  fix d a i
  assume ok: "dedup_ok d"
  show "dedup_ok (fst (dedup_offer sha d a))"
    using ok live_ok backfill_ok restore_ok
    by (cases a) (simp_all add: case_prod_beta)
  show "seen_occurrences d \<subseteq> seen_occurrences (fst (dedup_offer sha d a))"
    by (cases a) (auto simp: case_prod_beta seen_occurrences_def live_counts backfill_counts restore_counts)
  assume "snd (dedup_offer sha d a) = Some i"
  then show "i \<notin> seen_occurrences d \<and> i \<in> seen_occurrences (fst (dedup_offer sha d a))"
    by (cases a) (auto simp: case_prod_beta seen_occurrences_def live_counts backfill_counts
        live_verdict backfill_verdict split: if_splits)
qed

text \<open>What is handed out belongs to an arrival and stays below the ceiling.\<close>

lemma dedup_offer_id:
  "snd (dedup_offer sha d a) = Some (k, n) \<Longrightarrow> k = arrival_key a \<and> n < MAX_OCCURRENCES_PER_CONTENT"
  by (cases a) (auto simp: case_prod_beta live_verdict backfill_verdict split: if_splits)

lemma run_ids:
  "run_offers (dedup_offer sha) d as = (d', ids) \<Longrightarrow>
     (k, n) \<in> set ids \<Longrightarrow> k \<in> arrival_key ` set as \<and> n < MAX_OCCURRENCES_PER_CONTENT"
proof (induction as arbitrary: d d' ids)
  case (Cons a as)
  obtain d1 x where o: "dedup_offer sha d a = (d1, x)" by force
  obtain d2 ids2 where r: "run_offers (dedup_offer sha) d1 as = (d2, ids2)" by force
  from Cons.IH [OF r] Cons.prems o r dedup_offer_id [of sha d a] show ?case
    by (cases x) auto
qed simp

subsection \<open>Backfill against the live feed\<close>

text \<open>One batch with \<open>n\<close> identical rows, from the ordinals the batch has given so far.\<close>

fun backfill_rows ::
    "(string \<Rightarrow> string) \<Rightarrow> dedup_index \<Rightarrow> batch_ordinals \<Rightarrow> content_key \<Rightarrow> timestamp \<Rightarrow> nat \<Rightarrow>
     dedup_index \<times> batch_ordinals \<times> dedup_verdict list" where
  "backfill_rows sha d b key now 0 = (d, b, [])"
| "backfill_rows sha d b key now (Suc n) =
     (let (b1, i) = batch_next b key; (d1, v) = observe_backfill sha d key i now;
          (d2, b2, vs) = backfill_rows sha d1 b1 key now n
      in (d2, b2, v # vs))"

lemma backfill_rows_spec:
  "get_or b key 0 = j \<Longrightarrow> count_of d key = c \<Longrightarrow> backfill_rows sha d b key now n = (d', b', vs) \<Longrightarrow>
     vs = map (\<lambda>i. if c \<le> i \<and> i < MAX_OCCURRENCES_PER_CONTENT then NewFill (event_id sha key i) i
                  else DuplicateFill (event_id sha key i) i) [j..<j + n] \<and>
     count_of d' key = (if n = 0 \<or> MAX_OCCURRENCES_PER_CONTENT \<le> j then c
                        else max c (min (j + n) MAX_OCCURRENCES_PER_CONTENT))"
proof (induction n arbitrary: d b j c d' b' vs)
  case (Suc n)
  obtain d1 v where o: "observe_backfill sha d key j now = (d1, v)" by force
  let ?b = "AList.update key (j + 1) b"
  obtain d2 b2 ws where r: "backfill_rows sha d1 ?b key now n = (d2, b2, ws)" by (metis prod_cases3)
  have b1: "batch_next b key = (?b, j)" using Suc.prems(1) by (simp add: batch_next_def)
  with o r Suc.prems(3) have res: "d' = d2" "vs = v # ws" by simp_all
  have c1: "count_of d1 key = (if j < MAX_OCCURRENCES_PER_CONTENT \<and> c \<le> j then j + 1 else c)"
    using backfill_counts [of sha d key j now key] o Suc.prems(2) by simp
  have v: "v = (if j < MAX_OCCURRENCES_PER_CONTENT \<and> c \<le> j then NewFill (event_id sha key j) j
      else DuplicateFill (event_id sha key j) j)"
    using backfill_verdict [of sha d key j now] o Suc.prems(2) by simp
  from Suc.IH [OF _ c1 r, of "j + 1"]
  have ih: "ws = map (\<lambda>i. if (if j < MAX_OCCURRENCES_PER_CONTENT \<and> c \<le> j then j + 1 else c) \<le> i \<and>
        i < MAX_OCCURRENCES_PER_CONTENT then NewFill (event_id sha key i) i
      else DuplicateFill (event_id sha key i) i) [j + 1..<j + 1 + n]"
    "count_of d2 key = (if n = 0 \<or> MAX_OCCURRENCES_PER_CONTENT \<le> j + 1 then count_of d1 key
       else max (count_of d1 key) (min (j + 1 + n) MAX_OCCURRENCES_PER_CONTENT))"
    using c1 by (auto simp: get_or_update)
  have "[j..<j + Suc n] = j # [j + 1..<j + 1 + n]" by (simp add: upt_rec)
  then show ?case using res v ih c1 by (auto simp: max_def min_def)
qed simp

lemma filter_new_length:
  "length (filter is_new (map (\<lambda>i. if c \<le> i \<and> i < m then NewFill (f i) i else DuplicateFill (f i) i) [0..<n]))
     = min n m - c"
proof (induction n)
  case (Suc n)
  then show ?case by (auto simp: is_new_def)
qed simp

subsection \<open>Eviction\<close>

lemma evict_fold_get:
  "get (di_counts (foldl evict_one d ks)) k = (if k \<in> set ks then None else get (di_counts d) k) \<and>
   get (di_last_seen (foldl evict_one d ks)) k = (if k \<in> set ks then None else get (di_last_seen d) k) \<and>
   di_evictions (foldl evict_one d ks) = di_evictions d + length ks"
  by (induction ks arbitrary: d) (auto simp: evict_one_def get_delete)

lemma evict_fold_keys:
  "keys_ok (di_counts d) \<and> keys_ok (di_last_seen d) \<Longrightarrow>
     keys_ok (di_counts (foldl evict_one d ks)) \<and> keys_ok (di_last_seen (foldl evict_one d ks))"
  by (induction ks arbitrary: d) (auto simp: evict_one_def)

lemma stale_iff:
  "keys_ok m \<Longrightarrow> k \<in> set (map fst (filter (\<lambda>(_, t). t < c) m)) \<longleftrightarrow> (\<exists>t. get m k = Some t \<and> t < c)"
  using keys_ok_get [of m k] by force

lemma evict_spec:
  assumes "dedup_ok d" and "d' = evict_older_than d now"
  shows "dedup_ok d'"
    and "count_of d' k = (case get (di_last_seen d) k of
           Some t \<Rightarrow> if t < now - di_retention d then 0 else count_of d k
         | None \<Rightarrow> 0)"
proof -
  let ?ks = "map fst (filter (\<lambda>(_, t). t < now - di_retention d) (di_last_seen d))"
  have d': "d' = foldl evict_one d ?ks" using assms(2) by (simp add: evict_older_than_def Let_def)
  have "k \<in> set ?ks \<longleftrightarrow> (\<exists>t. get (di_last_seen d) k = Some t \<and> t < now - di_retention d)" for k
    using assms(1) by (intro stale_iff) (simp add: dedup_ok_def)
  note ks = this
  show "dedup_ok d'"
    using assms(1) evict_fold_get [of d ?ks] evict_fold_keys [of d ?ks]
    unfolding d' dedup_ok_def by auto
  show "count_of d' k = (case get (di_last_seen d) k of
      Some t \<Rightarrow> if t < now - di_retention d then 0 else count_of d k | None \<Rightarrow> 0)"
  proof -
    have "get (di_counts d) k = None \<longleftrightarrow> get (di_last_seen d) k = None"
      using assms(1) by (simp add: dedup_ok_def)
    moreover have "get (di_counts d') k =
        (if \<exists>t. get (di_last_seen d) k = Some t \<and> t < now - di_retention d then None else get (di_counts d) k)"
      using ks [of k] evict_fold_get [of d ?ks k] unfolding d' by presburger
    ultimately show ?thesis
      by (auto simp: count_of_def get_or_def split: option.splits)
  qed
qed

subsection \<open>Properties\<close>

text \<open>C25: No fill is copied twice under one identity, and distinct fills never share one. Offered
  any sequence of live rows, backfilled rows and restored counts, the index accepts each pair of
  content and ordinal at most once, and the event ids of all the fills it accepts are pairwise
  different. The one hypothesis on SHA-256 is that it has no collision among the finitely many
  texts these arrivals can produce; the texts themselves are proved to be unambiguous, because no
  field contains the separator.\<close>

theorem no_fill_accepted_twice:
  assumes "list_all (\<lambda>a. key_ok (arrival_key a)) as"
    and "inj_on sha {event_text k n | k n. k \<in> arrival_key ` set as \<and> n < MAX_OCCURRENCES_PER_CONTENT}"
    and "run_offers (dedup_offer sha) (dedup_new retention) as = (d, ids)"
  shows "distinct ids \<and> distinct (map (\<lambda>(k, n). event_id sha k n) ids)"
proof -
  have dist: "distinct ids"
    using dedup.run_distinct [OF dedup_ok_new assms(3)] by blast
  have "inj_on (\<lambda>(k, n). event_id sha k n) (set ids)"
  proof (rule inj_onI, clarify)
    fix k m l n
    assume in1: "(k, m) \<in> set ids" and in2: "(l, n) \<in> set ids"
      and eq: "event_id sha k m = event_id sha l n"
    note r1 = run_ids [OF assms(3) in1] and r2 = run_ids [OF assms(3) in2]
    from eq have "sha (event_text k m) = sha (event_text l n)" by (simp add: event_id_def from_digest_def)
    from inj_onD [OF assms(2) this] r1 r2 have "event_text k m = event_text l n" by blast
    moreover have "key_ok k" "key_ok l" using assms(1) r1 r2 by (auto simp: list_all_iff)
    moreover have "m < 2 ^ 32" "n < 2 ^ 32" using r1 r2 by (auto simp: MAX_OCCURRENCES_PER_CONTENT_def)
    ultimately show "k = l \<and> m = n" by (simp add: event_text_inject)
  qed
  with dist show ?thesis by (simp add: distinct_map)
qed

definition sample_key :: content_key where
  "sample_key = \<lparr>ck_tx_hash = TxHash ''0x5acd'', ck_trader = Address ''0xe6f7'',
     ck_token_id = TokenId ''7'', ck_side = Buy, ck_price = ''0.98'', ck_size = ''5''\<rparr>"

lemma sample_key_ok: "key_ok sample_key"
  by (simp add: key_ok_def sample_key_def unit_sep_def char_of_def bit_Suc_0_iff)

definition sample_arrivals :: "arrival list" where
  "sample_arrivals = [LiveArrival sample_key 1, LiveArrival sample_key 2,
     BackfillArrival sample_key 0 3, BackfillArrival sample_key 1 3, BackfillArrival sample_key 2 3]"

lemma sample_arrivals_run:
  "snd (run_offers (dedup_offer id) (dedup_new 0) sample_arrivals) =
     [(sample_key, 0), (sample_key, 1), (sample_key, 2)]"
  by (simp add: sample_arrivals_def observe_live_def observe_backfill_def dedup_new_def get_or_def
      get_def MAX_OCCURRENCES_PER_CONTENT_def Let_def)

theorem no_fill_accepted_twice_witness:
  "snd (run_offers (dedup_offer id) (dedup_new 0) sample_arrivals) =
     [(sample_key, 0), (sample_key, 1), (sample_key, 2)] \<and>
   distinct [event_id id sample_key 0, event_id id sample_key 1, event_id id sample_key 2]"
proof -
  obtain d where run: "run_offers (dedup_offer id) (dedup_new 0) sample_arrivals =
      (d, [(sample_key, 0), (sample_key, 1), (sample_key, 2)])"
    using sample_arrivals_run by (metis prod.collapse)
  have ok: "list_all (\<lambda>a. key_ok (arrival_key a)) sample_arrivals"
    by (simp add: sample_arrivals_def sample_key_ok)
  from no_fill_accepted_twice [OF ok inj_on_id run] run show ?thesis by simp
qed

text \<open>C38: A backfill reconciles with the live feed as multisets. When a content was recorded
  \<open>c\<close> times and one backfill batch reports \<open>n\<close> identical rows of it, exactly the rows in
  excess of \<open>c\<close> are new (up to the ceiling of 64), each with its own ordinal, and afterwards
  the content is recorded \<open>max c (min n 64)\<close> times: two fills seen live and reported again
  are the same two, not four.\<close>

theorem backfill_reconciles:
  assumes "backfill_rows sha d [] key now n = (d', b', vs)"
  shows "vs = map (\<lambda>i. if count_of d key \<le> i \<and> i < MAX_OCCURRENCES_PER_CONTENT
                    then NewFill (event_id sha key i) i else DuplicateFill (event_id sha key i) i) [0..<n] \<and>
         length (filter is_new vs) = min n MAX_OCCURRENCES_PER_CONTENT - count_of d key \<and>
         count_of d' key = max (count_of d key) (min n MAX_OCCURRENCES_PER_CONTENT)"
proof -
  have "get_or ([] :: batch_ordinals) key 0 = 0" by (simp add: get_or_def)
  from backfill_rows_spec [OF this refl assms] show ?thesis
    using filter_new_length [of "count_of d key" MAX_OCCURRENCES_PER_CONTENT "event_id sha key" n]
    by (simp add: MAX_OCCURRENCES_PER_CONTENT_def)
qed

theorem backfill_reconciles_witness:
  "snd (snd (backfill_rows id (fst (observe_live id (dedup_new 0) sample_key 1)) [] sample_key 2 2)) =
     [DuplicateFill (event_id id sample_key 0) 0, NewFill (event_id id sample_key 1) 1]"
proof -
  define d where "d = fst (observe_live id (dedup_new 0) sample_key 1)"
  obtain d' b' vs where r: "backfill_rows id d [] sample_key 2 2 = (d', b', vs)" by (metis prod_cases3)
  have c: "count_of d sample_key = 1"
    using live_counts [of id "dedup_new 0" sample_key 1 sample_key]
    by (simp add: d_def count_of_def dedup_new_def get_or_def MAX_OCCURRENCES_PER_CONTENT_def)
  have "[0..<2] = [0, Suc 0]" by (simp add: upt_rec)
  with backfill_reconciles [OF r] c show ?thesis
    by (simp add: d_def [symmetric] r MAX_OCCURRENCES_PER_CONTENT_def)
qed

text \<open>The reconciliation is one-sided. A fill that a backfill records first and the live
  feed delivers afterwards is accepted a second time, under the next ordinal: the live path takes
  every arrival for a new fill.\<close>

theorem backfill_then_live_is_accepted_twice:
  "snd (run_offers (dedup_offer sha) (dedup_new r) [BackfillArrival k 0 t, LiveArrival k t']) =
     [(k, 0), (k, 1)]"
  by (simp add: observe_live_def observe_backfill_def dedup_new_def get_or_def
      get_def MAX_OCCURRENCES_PER_CONTENT_def Let_def)

text \<open>Eviction forgets exactly what was last touched before the retention window, resets its
  count to zero and changes no other count, and leaves no content without a time that would let a
  later eviction reach it.\<close>

theorem eviction_exact:
  assumes "dedup_ok d" and "d' = evict_older_than d now"
  shows "dedup_ok d' \<and>
         count_of d' k = (case get (di_last_seen d) k of
           Some t \<Rightarrow> if t < now - di_retention d then 0 else count_of d k
         | None \<Rightarrow> 0)"
  using evict_spec [OF assms] by blast

theorem eviction_exact_witness:
  "count_of (evict_older_than (fst (observe_live id (dedup_new 10) sample_key 1)) 12) sample_key = 0 \<and>
   count_of (evict_older_than (fst (observe_live id (dedup_new 10) sample_key 1)) 11) sample_key = 1"
proof -
  define d where "d = fst (observe_live id (dedup_new 10) sample_key 1)"
  have "dedup_ok d" by (simp add: d_def live_ok dedup_ok_new)
  note ev = eviction_exact [OF this refl]
  have "get (di_last_seen d) sample_key = Some 1" "di_retention d = 10" "count_of d sample_key = 1"
    by (simp_all add: d_def observe_live_def dedup_new_def get_or_def get_def count_of_def
        MAX_OCCURRENCES_PER_CONTENT_def)
  with ev [of 12 sample_key] ev [of 11 sample_key] show ?thesis by (simp add: d_def)
qed

end
