(* ===== verification/Parser.thy ===== *)
theory Parser
  imports Dedup "HOL-Library.Multiset"
begin

section \<open>The wire formats (crates/market_data/src/parser.rs)\<close>

text \<open>
  The only code that sees the venue's JSON. Decoding of JSON text (\<open>serde_json\<close>) and the
  range check of \<open>chrono\<close>'s timestamps are parameters; the decoded structures are records
  with the fields of the source, and everything after the decoding is modelled.
\<close>

datatype field_detail =
    IdDetail id_error
  | MoneyDetail money_error
  | BadEpoch int
  | UnknownSide string
  | LengthMismatch nat nat

datatype parse_error =
    JsonError
  | FieldError string field_detail
  | NotATrade
  | NoPayload

type_synonym timestamp_opt = "int \<Rightarrow> nat \<Rightarrow> timestamp option"

definition epoch_to_utc :: "timestamp_opt \<Rightarrow> int \<Rightarrow> timestamp option" where
  "epoch_to_utc ts_opt v =
     (let (secs, nanos) = (if v > 100000000000 then (v div 1000, nat ((v mod 1000) * 1000000)) else (v, 0))
      in ts_opt secs nanos)"

subsection \<open>The RTDS activity feed\<close>

record rtds_trade_payload =
  rp_proxy_wallet :: string
  rp_side :: string
  rp_asset :: string
  rp_condition_id :: string
  rp_outcome :: string
  rp_outcome_index :: int
  rp_price :: f64
  rp_size :: f64
  rp_timestamp :: int
  rp_transaction_hash :: string
  rp_title :: string
  rp_slug :: string
  rp_fee :: "f64 option"

record rtds_envelope =
  re_topic :: "string option"
  re_kind :: "string option"
  re_timestamp :: "int option"
  re_payload :: "rtds_trade_payload option"

record parsed_trade =
  pt_trader :: address
  pt_market_id :: market_id
  pt_token_id :: token_id
  pt_outcome :: string
  pt_side :: side
  pt_price :: price
  pt_quantity :: qty
  pt_tx_hash :: tx_hash
  pt_source_ts :: timestamp
  pt_source_is_coarse :: bool
  pt_detected_ts :: timestamp
  pt_market_title :: string
  pt_market_slug :: string
  pt_source :: trade_source

datatype rtds_frame = TradeFrame parsed_trade | IgnoredFrame

definition into_source_trade ::
    "parsed_trade \<Rightarrow> source_event_id \<Rightarrow> nat \<Rightarrow> correlation_id \<Rightarrow> source_trade" where
  "into_source_trade t event occurrence corr = \<lparr>so_event_id = event, so_correlation_id = corr,
     so_trader = pt_trader t, so_market_id = pt_market_id t, so_token_id = pt_token_id t,
     so_outcome = pt_outcome t, so_side = pt_side t, so_price = pt_price t,
     so_quantity = pt_quantity t, so_tx_hash = pt_tx_hash t, so_occurrence = occurrence,
     so_source_ts = pt_source_ts t, so_detected_ts = pt_detected_ts t, so_source = pt_source t,
     so_market_title = pt_market_title t, so_market_slug = pt_market_slug t\<rparr>"

definition parse_side :: "string \<Rightarrow> parse_error + side" where
  "parse_side s =
     (let u = to_ascii_uppercase (trim s)
      in if u = ''BUY'' then Inr Buy else if u = ''SELL'' then Inr Sell
         else Inl (FieldError ''side'' (UnknownSide u)))"

text \<open>\<open>field(name)\<close> turns the error of a constructor into a field error.\<close>

definition id_field :: "string \<Rightarrow> id_error + 'a \<Rightarrow> parse_error + 'a" where
  "id_field f = map_err (\<lambda>e. FieldError f (IdDetail e))"

definition money_field :: "string \<Rightarrow> money_error + 'a \<Rightarrow> parse_error + 'a" where
  "money_field f = map_err (\<lambda>e. FieldError f (MoneyDetail e))"

definition parse_rtds_payload ::
    "decimal_ops \<Rightarrow> timestamp_opt \<Rightarrow> rtds_trade_payload \<Rightarrow> int option \<Rightarrow> timestamp \<Rightarrow> parse_error + parsed_trade" where
  "parse_rtds_payload D ts_opt p envelope_ts received_at =
     and_then
       (case (case envelope_ts of None \<Rightarrow> None | Some t \<Rightarrow> epoch_to_utc ts_opt t) of
          Some t \<Rightarrow> Inr (t, False)
        | None \<Rightarrow> and_then (ok_or (FieldError ''timestamp'' (BadEpoch (rp_timestamp p)))
                              (epoch_to_utc ts_opt (rp_timestamp p))) (\<lambda>t. Inr (t, True)))
       (\<lambda>(source_ts, coarse).
     and_then (id_field ''proxyWallet'' (address_new (rp_proxy_wallet p))) (\<lambda>trader.
     and_then (id_field ''conditionId'' (market_id_new (rp_condition_id p))) (\<lambda>market.
     and_then (id_field ''asset'' (token_id_new (rp_asset p))) (\<lambda>token.
     and_then (parse_side (rp_side p)) (\<lambda>sd.
     and_then (money_field ''price'' (price_from_feed_f64 D (rp_price p))) (\<lambda>price.
     and_then (money_field ''size'' (qty_from_feed_f64 D (rp_size p))) (\<lambda>quantity.
     and_then (id_field ''transactionHash'' (tx_hash_new (rp_transaction_hash p))) (\<lambda>tx.
       Inr \<lparr>pt_trader = trader, pt_market_id = market, pt_token_id = token,
            pt_outcome = rp_outcome p, pt_side = sd, pt_price = price, pt_quantity = quantity,
            pt_tx_hash = tx, pt_source_ts = source_ts, pt_source_is_coarse = coarse,
            pt_detected_ts = received_at, pt_market_title = rp_title p, pt_market_slug = rp_slug p,
            pt_source = RtdsWebsocket\<rparr>))))))))"

definition parse_rtds_frame ::
    "decimal_ops \<Rightarrow> timestamp_opt \<Rightarrow> (string \<Rightarrow> rtds_envelope option) \<Rightarrow> string \<Rightarrow> timestamp \<Rightarrow>
     parse_error + rtds_frame" where
  "parse_rtds_frame D ts_opt decode raw received_at =
     (let trimmed = trim raw
      in if trimmed = [] \<or> hd trimmed \<noteq> CHR 0x7B then Inr IgnoredFrame
         else case decode trimmed of
           None \<Rightarrow> Inl JsonError
         | Some env \<Rightarrow>
             (if re_kind env \<noteq> Some ''trades'' then Inr IgnoredFrame
              else case re_payload env of
                None \<Rightarrow> Inl NoPayload
              | Some p \<Rightarrow> and_then (parse_rtds_payload D ts_opt p (re_timestamp env) received_at)
                           (\<lambda>t. Inr (TradeFrame t))))"

subsection \<open>REST backfill\<close>

record data_api_trade =
  da_proxy_wallet :: string
  da_side :: string
  da_asset :: string
  da_condition_id :: string
  da_outcome :: string
  da_price :: f64
  da_size :: f64
  da_timestamp :: int
  da_transaction_hash :: string
  da_title :: string
  da_slug :: string

definition parse_data_api_trade ::
    "decimal_ops \<Rightarrow> timestamp_opt \<Rightarrow> data_api_trade \<Rightarrow> timestamp \<Rightarrow> parse_error + parsed_trade" where
  "parse_data_api_trade D ts_opt t received_at =
     and_then (id_field ''proxyWallet'' (address_new (da_proxy_wallet t))) (\<lambda>trader.
     and_then (id_field ''conditionId'' (market_id_new (da_condition_id t))) (\<lambda>market.
     and_then (id_field ''asset'' (token_id_new (da_asset t))) (\<lambda>token.
     and_then (parse_side (da_side t)) (\<lambda>sd.
     and_then (money_field ''price'' (price_from_feed_f64 D (da_price t))) (\<lambda>price.
     and_then (money_field ''size'' (qty_from_feed_f64 D (da_size t))) (\<lambda>quantity.
     and_then (id_field ''transactionHash'' (tx_hash_new (da_transaction_hash t))) (\<lambda>tx.
     and_then (ok_or (FieldError ''timestamp'' (BadEpoch (da_timestamp t)))
                 (epoch_to_utc ts_opt (da_timestamp t))) (\<lambda>source_ts.
       Inr \<lparr>pt_trader = trader, pt_market_id = market, pt_token_id = token,
            pt_outcome = da_outcome t, pt_side = sd, pt_price = price, pt_quantity = quantity,
            pt_tx_hash = tx, pt_source_ts = source_ts, pt_source_is_coarse = True,
            pt_detected_ts = received_at, pt_market_title = da_title t, pt_market_slug = da_slug t,
            pt_source = RestBackfill\<rparr>))))))))"

subsection \<open>Order books\<close>

record clob_level =
  cl_price :: string
  cl_size :: string

record clob_book =
  cb_market :: string
  cb_asset_id :: string
  cb_timestamp :: "string option"
  cb_bids :: "clob_level list"
  cb_asks :: "clob_level list"
  cb_tick_size :: "string option"
  cb_min_order_size :: "string option"

definition parse_level :: "decimal_ops \<Rightarrow> clob_level \<Rightarrow> level option" where
  "parse_level D l =
     (case Option.bind (d_parse D (cl_price l)) (\<lambda>d. ok (price_new d)) of
        None \<Rightarrow> None
      | Some price \<Rightarrow>
          (case Option.bind (d_parse D (cl_size l)) (\<lambda>d. ok (qty_new d)) of
             None \<Rightarrow> None
           | Some sz \<Rightarrow> if sz \<noteq> 0 then Some \<lparr>lv_price = price, lv_size = sz\<rparr> else None))"

definition parse_levels :: "decimal_ops \<Rightarrow> clob_level list \<Rightarrow> level list" where
  "parse_levels D raw = List.map_filter (parse_level D) raw"

definition default_tick :: rat where
  "default_tick = 1/100"

definition default_min_size :: rat where
  "default_min_size = 5"

definition parse_book_value ::
    "decimal_ops \<Rightarrow> timestamp_opt \<Rightarrow> clob_book \<Rightarrow> nat \<Rightarrow> timestamp \<Rightarrow> parse_error + order_book" where
  "parse_book_value D ts_opt b seq fallback_ts =
     (let bids = sort_key (\<lambda>l. - lv_price l) (parse_levels D (cb_bids b));
          asks = sort_key lv_price (parse_levels D (cb_asks b));
          ts = (case Option.bind (Option.bind (cb_timestamp b) parse_i64) (epoch_to_utc ts_opt) of
                  Some t \<Rightarrow> t | None \<Rightarrow> fallback_ts)
      in and_then (id_field ''market'' (market_id_new (cb_market b))) (\<lambda>market.
         and_then (id_field ''asset_id'' (token_id_new (cb_asset_id b))) (\<lambda>token.
           Inr \<lparr>bk_market = market, bk_token = token, bk_bids = bids, bk_asks = asks,
             bk_tick_size = (case Option.bind (cb_tick_size b) (d_parse D) of Some t \<Rightarrow> t | None \<Rightarrow> default_tick),
             bk_min_order_size =
               (case Option.bind (cb_min_order_size b) (d_parse D) of Some t \<Rightarrow> t | None \<Rightarrow> default_min_size),
             bk_timestamp = ts, bk_seq = seq\<rparr>)))"

definition parse_book ::
    "decimal_ops \<Rightarrow> timestamp_opt \<Rightarrow> (string \<Rightarrow> clob_book option) \<Rightarrow> string \<Rightarrow> nat \<Rightarrow> timestamp \<Rightarrow>
     parse_error + order_book" where
  "parse_book D ts_opt decode raw seq fallback_ts =
     and_then (ok_or JsonError (decode raw)) (\<lambda>b. parse_book_value D ts_opt b seq fallback_ts)"

subsection \<open>Market metadata\<close>

record gamma_market =
  gm_condition_id :: string
  gm_slug :: string
  gm_question :: string
  gm_clob_token_ids :: "string option"
  gm_outcomes :: "string option"
  gm_tick_size :: "f64 option"
  gm_min_size :: "f64 option"
  gm_active :: bool
  gm_closed :: bool
  gm_accepting_orders :: bool
  gm_neg_risk :: bool

definition decode_nested_array :: "(string \<Rightarrow> string list option) \<Rightarrow> string \<Rightarrow> parse_error + string list" where
  "decode_nested_array decode raw = ok_or JsonError (decode raw)"

definition decode_optional_array ::
    "(string \<Rightarrow> string list option) \<Rightarrow> string option \<Rightarrow> parse_error + string list" where
  "decode_optional_array decode x =
     (case x of None \<Rightarrow> Inr [] | Some raw \<Rightarrow> decode_nested_array decode raw)"

fun collect_outcomes :: "(string \<times> string) list \<Rightarrow> parse_error + outcome list" where
  "collect_outcomes [] = Inr []"
| "collect_outcomes ((t, name) # rest) =
     and_then (id_field ''clobTokenIds'' (token_id_new t)) (\<lambda>token.
     and_then (collect_outcomes rest) (\<lambda>os. Inr (\<lparr>oc_token = token, oc_name = name\<rparr> # os)))"

definition decimal_of_float :: "decimal_ops \<Rightarrow> f64 option \<Rightarrow> rat \<Rightarrow> rat" where
  "decimal_of_float D x d =
     (case x of Some (Finite v) \<Rightarrow> (case d_try_f64 D v of Some r \<Rightarrow> r | None \<Rightarrow> d) | _ \<Rightarrow> d)"

definition parse_gamma_market ::
    "decimal_ops \<Rightarrow> (string \<Rightarrow> string list option) \<Rightarrow> gamma_market \<Rightarrow> parse_error + market" where
  "parse_gamma_market D decode g =
     and_then (decode_optional_array decode (gm_clob_token_ids g)) (\<lambda>ids.
     and_then (decode_optional_array decode (gm_outcomes g)) (\<lambda>names.
       if length ids \<noteq> length names then
         Inl (FieldError ''clobTokenIds/outcomes'' (LengthMismatch (length ids) (length names)))
       else
         and_then (collect_outcomes (zip ids names)) (\<lambda>outcomes.
         and_then (id_field ''conditionId'' (market_id_new (gm_condition_id g))) (\<lambda>market.
           Inr \<lparr>mk_id = market, mk_slug = gm_slug g, mk_title = gm_question g, mk_outcomes = outcomes,
             mk_tick_size = decimal_of_float D (gm_tick_size g) default_tick,
             mk_min_order_size = decimal_of_float D (gm_min_size g) default_min_size,
             mk_neg_risk = gm_neg_risk g, mk_active = gm_active g, mk_closed = gm_closed g,
             mk_accepting_orders = gm_accepting_orders g\<rparr>))))"

subsection \<open>What the parsers guarantee\<close>

lemma id_field_Inr [simp]: "id_field f r = Inr a \<longleftrightarrow> r = Inr a"
  by (simp add: id_field_def)

lemma money_field_Inr [simp]: "money_field f r = Inr a \<longleftrightarrow> r = Inr a"
  by (simp add: money_field_def)

definition parsed_ok :: "parsed_trade \<Rightarrow> bool" where
  "parsed_ok t \<longleftrightarrow> valid_price (pt_price t) \<and> valid_qty (pt_quantity t)"

lemma rtds_fields:
  assumes "parse_rtds_payload D ts_opt p env_ts now = Inr t"
  shows "address_new (rp_proxy_wallet p) = Inr (pt_trader t)"
    and "market_id_new (rp_condition_id p) = Inr (pt_market_id t)"
    and "token_id_new (rp_asset p) = Inr (pt_token_id t)"
    and "parse_side (rp_side p) = Inr (pt_side t)"
    and "price_from_feed_f64 D (rp_price p) = Inr (pt_price t)"
    and "qty_from_feed_f64 D (rp_size p) = Inr (pt_quantity t)"
    and "tx_hash_new (rp_transaction_hash p) = Inr (pt_tx_hash t)"
    and "pt_source_is_coarse t \<longleftrightarrow> Option.bind env_ts (epoch_to_utc ts_opt) = None"
    and "Some (pt_source_ts t) = (case Option.bind env_ts (epoch_to_utc ts_opt) of
           Some x \<Rightarrow> Some x | None \<Rightarrow> epoch_to_utc ts_opt (rp_timestamp p))"
    and "pt_detected_ts t = now"
  using assms unfolding parse_rtds_payload_def
  by (auto simp: and_then_Inr split: option.splits)

lemma data_api_fields:
  assumes "parse_data_api_trade D ts_opt r now = Inr t"
  shows "address_new (da_proxy_wallet r) = Inr (pt_trader t)"
    and "market_id_new (da_condition_id r) = Inr (pt_market_id t)"
    and "token_id_new (da_asset r) = Inr (pt_token_id t)"
    and "parse_side (da_side r) = Inr (pt_side t)"
    and "price_from_feed_f64 D (da_price r) = Inr (pt_price t)"
    and "qty_from_feed_f64 D (da_size r) = Inr (pt_quantity t)"
    and "tx_hash_new (da_transaction_hash r) = Inr (pt_tx_hash t)"
    and "pt_source_is_coarse t"
  using assms unfolding parse_data_api_trade_def
  by (auto simp: and_then_Inr)

lemma rtds_ok: "parse_rtds_payload D ts_opt p env_ts now = Inr t \<Longrightarrow> parsed_ok t"
  using rtds_fields(5,6) [of D ts_opt p env_ts now t] price_from_feed_valid qty_from_feed_valid
  by (auto simp: parsed_ok_def)

lemma data_api_ok: "parse_data_api_trade D ts_opt r now = Inr t \<Longrightarrow> parsed_ok t"
  using data_api_fields(5,6) [of D ts_opt r now t] price_from_feed_valid qty_from_feed_valid
  by (auto simp: parsed_ok_def)

lemma parse_level_Some:
  "parse_level D l = Some v \<Longrightarrow> valid_level v \<and> 0 < lv_size v \<and>
     d_parse D (cl_price l) = Some (lv_price v) \<and> d_parse D (cl_size l) = Some (lv_size v)"
  by (auto simp: parse_level_def valid_level_def valid_qty_def split: option.splits if_splits
      bind_splits)

lemma parse_levels_ok: "list_all (\<lambda>v. valid_level v \<and> 0 < lv_size v) (parse_levels D raw)"
proof (induction raw)
  case Nil
  then show ?case by (simp add: parse_levels_def List.map_filter_simps)
next
  case (Cons l raw)
  then show ?case
    using parse_level_Some [of D l]
    by (auto simp: parse_levels_def List.map_filter_simps split: option.splits)
qed

lemma sort_key_sorted_wrt: "sorted_wrt (\<ge>) (map lv_price (sort_key (\<lambda>l. - lv_price l) ls))"
proof -
  have "sorted (map (\<lambda>l. - lv_price l) (sort_key (\<lambda>l. - lv_price l) ls))" by simp
  then show ?thesis by (simp add: sorted_wrt_map)
qed

lemma parse_book_fields:
  assumes "parse_book_value D ts_opt b seq now = Inr bk"
  shows "bk_bids bk = sort_key (\<lambda>l. - lv_price l) (parse_levels D (cb_bids b))"
    and "bk_asks bk = sort_key lv_price (parse_levels D (cb_asks b))"
    and "bk_seq bk = seq"
  using assms unfolding parse_book_value_def Let_def by (auto simp: and_then_Inr)

subsection \<open>Properties\<close>

text \<open>A book that leaves the parser is best-first whatever the order it arrived in, and holds
  only real levels: bids descend and asks ascend, every level has a valid price and a positive
  size, the first bid is at least every parsed bid and the first ask at most every parsed ask, and
  no level that parses is lost.\<close>

theorem parsed_book_is_best_first:
  assumes "parse_book_value D ts_opt b seq now = Inr bk"
  shows "sorted_wrt (\<ge>) (map lv_price (bk_bids bk)) \<and> sorted (map lv_price (bk_asks bk)) \<and>
         mset (bk_bids bk) = mset (parse_levels D (cb_bids b)) \<and>
         mset (bk_asks bk) = mset (parse_levels D (cb_asks b)) \<and>
         list_all (\<lambda>l. valid_level l \<and> 0 < lv_size l) (bk_bids bk @ bk_asks bk) \<and>
         (case best_bid bk of
            Some l \<Rightarrow> list_all (\<lambda>x. lv_price x \<le> lv_price l) (parse_levels D (cb_bids b))
          | None \<Rightarrow> parse_levels D (cb_bids b) = []) \<and>
         (case best_ask bk of
            Some l \<Rightarrow> list_all (\<lambda>x. lv_price l \<le> lv_price x) (parse_levels D (cb_asks b))
          | None \<Rightarrow> parse_levels D (cb_asks b) = [])"
proof -
  note f = parse_book_fields [OF assms]
  have s: "sorted_wrt (\<ge>) (map lv_price (bk_bids bk))" "sorted (map lv_price (bk_asks bk))"
    unfolding f by (rule sort_key_sorted_wrt) simp
  have m: "mset (bk_bids bk) = mset (parse_levels D (cb_bids b))"
    "mset (bk_asks bk) = mset (parse_levels D (cb_asks b))"
    unfolding f by simp_all
  have sets: "set (parse_levels D (cb_bids b)) = set (bk_bids bk)"
    "set (parse_levels D (cb_asks b)) = set (bk_asks bk)"
    unfolding f by simp_all
  have v: "list_all (\<lambda>l. valid_level l \<and> 0 < lv_size l) (bk_bids bk @ bk_asks bk)"
    using parse_levels_ok [of D "cb_bids b"] parse_levels_ok [of D "cb_asks b"] sets
    by (auto simp: list_all_iff)
  have "case best_bid bk of
          Some l \<Rightarrow> list_all (\<lambda>x. lv_price x \<le> lv_price l) (parse_levels D (cb_bids b))
        | None \<Rightarrow> parse_levels D (cb_bids b) = []"
    using s(1) sets(1) by (cases "bk_bids bk") (auto simp: best_bid_def first_level_def list_all_iff)
  moreover have "case best_ask bk of
          Some l \<Rightarrow> list_all (\<lambda>x. lv_price l \<le> lv_price x) (parse_levels D (cb_asks b))
        | None \<Rightarrow> parse_levels D (cb_asks b) = []"
    using s(2) sets(2) by (cases "bk_asks bk") (auto simp: best_ask_def first_level_def list_all_iff)
  ultimately show ?thesis using s m v by simp
qed

text \<open>Decimal text that parses, for the concrete instances.\<close>

definition parsing_decimal :: "(string \<times> rat) list \<Rightarrow> decimal_ops" where
  "parsing_decimal table = exact_decimal\<lparr>d_parse := map_of table\<rparr>"

definition worst_first_book :: clob_book where
  "worst_first_book = \<lparr>cb_market = ''0x'' @ replicate 64 (CHR ''7''), cb_asset_id = ''42'',
     cb_timestamp = None,
     cb_bids = [\<lparr>cl_price = ''a'', cl_size = ''5''\<rparr>, \<lparr>cl_price = ''b'', cl_size = ''5''\<rparr>],
     cb_asks = [\<lparr>cl_price = ''bad'', cl_size = ''5''\<rparr>], cb_tick_size = None, cb_min_order_size = None\<rparr>"

definition sample_numbers :: decimal_ops where
  "sample_numbers = parsing_decimal [(''a'', 1/10), (''b'', 6/10), (''5'', 5), (''bad'', 2)]"

lemma sample_levels:
  "parse_levels sample_numbers (cb_bids worst_first_book) =
     [\<lparr>lv_price = 1/10, lv_size = 5\<rparr>, \<lparr>lv_price = 6/10, lv_size = 5\<rparr>]"
  "parse_levels sample_numbers (cb_asks worst_first_book) = []"
  by (simp_all add: parse_levels_def List.map_filter_simps parse_level_def sample_numbers_def
      parsing_decimal_def worst_first_book_def price_new_def qty_new_def)

theorem parsed_book_is_best_first_witness:
  "\<exists>bk. parse_book_value sample_numbers (\<lambda>_ _. None) worst_first_book 1 0 = Inr bk \<and>
     map_option lv_price (best_bid bk) = Some (6/10) \<and> best_ask bk = None"
proof -
  have ids: "market_id_new (cb_market worst_first_book) = Inr (MarketId (''0x'' @ replicate 64 (CHR ''7'')))"
    "token_id_new (cb_asset_id worst_first_book) = Inr (TokenId ''42'')"
    using market_id_new_fixed [OF normal_hex_sevens] token_id_new_fixed [OF normal_token_42]
    by (simp_all add: worst_first_book_def)
  then obtain bk where bk: "parse_book_value sample_numbers (\<lambda>_ _. None) worst_first_book 1 0 = Inr bk"
    by (simp add: parse_book_value_def id_field_def Let_def)
  note p = parsed_book_is_best_first [OF bk]
  have "bk_bids bk = [\<lparr>lv_price = 6/10, lv_size = 5\<rparr>, \<lparr>lv_price = 1/10, lv_size = 5\<rparr>]"
    unfolding parse_book_fields(1) [OF bk] sample_levels by (simp add: sort_key_def)
  with p bk show ?thesis
    by (auto simp: best_bid_def first_level_def best_ask_def sample_levels)
qed

definition trade_key :: "decimal_ops \<Rightarrow> parsed_trade \<Rightarrow> content_key" where
  "trade_key D t = content_key_new D (pt_tx_hash t) (pt_trader t) (pt_token_id t) (pt_side t)
     (pt_price t) (pt_quantity t)"

text \<open>The constructors leave no separator in an identifier.\<close>

lemma sep_byte: "byte unit_sep = 31"
  by (simp add: unit_sep_def)

lemma sep_not_lower_hex: "list_all is_lower_hexdigit s \<Longrightarrow> unit_sep \<notin> set s"
  by (auto simp: list_all_iff is_lower_hexdigit_def is_ascii_digit_def sep_byte)

lemma sep_not_digits: "list_all is_ascii_digit s \<Longrightarrow> unit_sep \<notin> set s"
  by (auto simp: list_all_iff is_ascii_digit_def sep_byte)

lemma sep_not_0x: "unit_sep \<noteq> CHR ''0''" "unit_sep \<noteq> CHR ''x''"
  by (simp_all add: unit_sep_def char_of_def bit_Suc_0_iff)

lemma sep_not_hex: "normal_hex n s \<Longrightarrow> unit_sep \<notin> set s"
  using sep_not_lower_hex by (auto simp: normal_hex_def sep_not_0x)

lemma trade_key_ok:
  assumes "address_new a = Inr (pt_trader t)" and "token_id_new b = Inr (pt_token_id t)"
    and "tx_hash_new c = Inr (pt_tx_hash t)" and "\<And>x. unit_sep \<notin> set (d_text D x)"
  shows "key_ok (trade_key D t)"
  using address_new_normal [OF assms(1)] token_id_new_normal [OF assms(2)]
    tx_hash_new_normal [OF assms(3)] assms(4) sep_not_hex sep_not_digits
  by (auto simp: key_ok_def trade_key_def content_key_new_def normal_token_def)

text \<open>The two feeds name the same trade alike. A fill that arrives as a websocket frame and
  again as a backfill row gets the same content key, although the websocket spells addresses in
  mixed case, so the second arrival can be recognised; both are trades with a valid price and
  quantity, and a backfilled trade never claims a precise time stamp, while the websocket's does
  exactly when the envelope carried a valid one.\<close>

theorem both_feeds_same_key:
  assumes "parse_rtds_payload D ts_opt p env_ts now = Inr a" and "parse_data_api_trade D ts_opt r now' = Inr b"
    and "rp_proxy_wallet p = ''0x'' @ x" and "da_proxy_wallet r = ''0x'' @ y"
    and "is_hex_body x 40" and "is_hex_body y 40" and "to_ascii_lowercase x = to_ascii_lowercase y"
    and "rp_asset p = da_asset r" and "rp_side p = da_side r" and "rp_price p = da_price r"
    and "rp_size p = da_size r" and "rp_transaction_hash p = da_transaction_hash r"
  shows "trade_key D a = trade_key D b \<and> parsed_ok a \<and> parsed_ok b \<and> pt_source_is_coarse b \<and>
         (pt_source_is_coarse a \<longleftrightarrow> Option.bind env_ts (epoch_to_utc ts_opt) = None)"
proof -
  have "address_new (rp_proxy_wallet p) = address_new (da_proxy_wallet r)"
    unfolding assms(3,4) using address_case_insensitive_lemma [OF assms(5-7)] by simp
  then show ?thesis
    using rtds_fields [OF assms(1)] data_api_fields [OF assms(2)] rtds_ok [OF assms(1)]
      data_api_ok [OF assms(2)] assms(8-12)
    by (simp add: trade_key_def)
qed

definition sample_payload :: rtds_trade_payload where
  "sample_payload = \<lparr>rp_proxy_wallet = ''0x'' @ replicate 40 (CHR ''A''), rp_side = ''BUY'',
     rp_asset = ''42'', rp_condition_id = ''0x'' @ replicate 64 (CHR ''7''), rp_outcome = ''Yes'',
     rp_outcome_index = 999, rp_price = Finite (98/100), rp_size = Finite 5, rp_timestamp = 1,
     rp_transaction_hash = ''0x'' @ replicate 64 (CHR ''7''), rp_title = [], rp_slug = [], rp_fee = None\<rparr>"

definition sample_row :: data_api_trade where
  "sample_row = \<lparr>da_proxy_wallet = ''0x'' @ replicate 40 (CHR ''a''), da_side = ''BUY'',
     da_asset = ''42'', da_condition_id = ''0x'' @ replicate 64 (CHR ''7''), da_outcome = ''Yes'',
     da_price = Finite (98/100), da_size = Finite 5, da_timestamp = 1,
     da_transaction_hash = ''0x'' @ replicate 64 (CHR ''7''), da_title = [], da_slug = []\<rparr>"

lemma parse_side_BUY: "parse_side ''BUY'' = Inr Buy"
proof -
  have "trim ''BUY'' = ''BUY''"
    by (rule trim_plain) (simp_all add: ws_edge_def byte_def)
  moreover have "to_ascii_uppercase ''BUY'' = ''BUY''"
    by (simp add: to_ascii_uppercase_def ascii_upper_def byte_def)
  ultimately show ?thesis by (simp add: parse_side_def)
qed

lemma hex_As: "is_hex_body (replicate 40 (CHR ''A'')) 40" "is_hex_body (replicate 40 (CHR ''a'')) 40"
  "to_ascii_lowercase (replicate 40 (CHR ''A'')) = to_ascii_lowercase (replicate 40 (CHR ''a''))"
  by (simp_all add: is_hex_body_def list_all_iff is_ascii_hexdigit_def is_ascii_digit_def
      to_ascii_lowercase_def ascii_lower_def byte_def char_of_def bit_Suc_0_iff)

lemma sample_parses:
  "\<exists>a. parse_rtds_payload exact_decimal (\<lambda>s n. Some s) sample_payload (Some 5) 9 = Inr a"
  "\<exists>b. parse_data_api_trade exact_decimal (\<lambda>s n. Some s) sample_row 9 = Inr b"
proof -
  obtain w v where w: "address_new (''0x'' @ replicate 40 (CHR ''A'')) = Inr w"
    "address_new (''0x'' @ replicate 40 (CHR ''a'')) = Inr v"
    using address_case_insensitive_lemma [OF hex_As] by metis
  note ids = w market_id_new_fixed [OF normal_hex_sevens] tx_hash_new_fixed [OF normal_hex_sevens]
    token_id_new_fixed [OF normal_token_42] parse_side_BUY
  show "\<exists>a. parse_rtds_payload exact_decimal (\<lambda>s n. Some s) sample_payload (Some 5) 9 = Inr a"
    "\<exists>b. parse_data_api_trade exact_decimal (\<lambda>s n. Some s) sample_row 9 = Inr b"
    unfolding parse_rtds_payload_def parse_data_api_trade_def sample_payload_def sample_row_def
    by (simp_all add: ids [simplified] ids epoch_to_utc_def id_field_def money_field_def
        price_from_feed_f64_def qty_from_feed_f64_def price_new_def qty_new_def)
qed

theorem both_feeds_same_key_witness:
  "\<exists>a b. parse_rtds_payload exact_decimal (\<lambda>s n. Some s) sample_payload (Some 5) 9 = Inr a \<and>
     parse_data_api_trade exact_decimal (\<lambda>s n. Some s) sample_row 9 = Inr b \<and>
     trade_key exact_decimal a = trade_key exact_decimal b \<and> \<not> pt_source_is_coarse a"
proof -
  obtain a b where a: "parse_rtds_payload exact_decimal (\<lambda>s n. Some s) sample_payload (Some 5) 9 = Inr a"
    and b: "parse_data_api_trade exact_decimal (\<lambda>s n. Some s) sample_row 9 = Inr b"
    using sample_parses by blast
  have w: "rp_proxy_wallet sample_payload = ''0x'' @ replicate 40 (CHR ''A'')"
    "da_proxy_wallet sample_row = ''0x'' @ replicate 40 (CHR ''a'')"
    and f: "rp_asset sample_payload = da_asset sample_row" "rp_side sample_payload = da_side sample_row"
    "rp_price sample_payload = da_price sample_row" "rp_size sample_payload = da_size sample_row"
    "rp_transaction_hash sample_payload = da_transaction_hash sample_row"
    by (simp_all add: sample_payload_def sample_row_def)
  from both_feeds_same_key [OF a b w hex_As f] a b show ?thesis
    by (auto simp: epoch_to_utc_def)
qed

end
