(* ===== verification/Tracker.thy ===== *)
theory Tracker
  imports Parser
begin

section \<open>Wallet tracking (crates/wallet_tracker/src/tracker.rs)\<close>

text \<open>
  Every trade of the venue passes the tracker: one lookup of the trader, the wallet's
  admission test, then the dedup index. The outcome is an actionable trade, a skip with its
  reason, or nothing. The tracker is a client of the dedup index and again a source of
  identities.
\<close>

datatype detection =
    Actionable source_trade
  | Skipped address signal_skip_reason
  | NotTracked

record tracker_stats =
  ts_frames_examined :: nat
  ts_wallet_matches :: nat
  ts_duplicates_suppressed :: nat
  ts_actionable :: nat
  ts_skipped :: nat

record wallet_tracker =
  tk_wallets :: "(address, target_wallet) hashmap"
  tk_dedup :: dedup_index
  tk_stats :: tracker_stats

definition no_stats :: tracker_stats where
  "no_stats = \<lparr>ts_frames_examined = 0, ts_wallet_matches = 0, ts_duplicates_suppressed = 0,
     ts_actionable = 0, ts_skipped = 0\<rparr>"

definition tracker_new :: "target_wallet list \<Rightarrow> wallet_tracker" where
  "tracker_new ws = \<lparr>tk_wallets = foldl (\<lambda>m w. AList.update (tw_address w) w m) [] ws,
     tk_dedup = dedup_default, tk_stats = no_stats\<rparr>"

definition wallet_count :: "wallet_tracker \<Rightarrow> nat" where
  "wallet_count T = length (tk_wallets T)"

definition list_wallets :: "wallet_tracker \<Rightarrow> target_wallet list" where
  "list_wallets T = sort_key tw_nickname (map snd (tk_wallets T))"

definition get_wallet :: "wallet_tracker \<Rightarrow> address \<Rightarrow> target_wallet option" where
  "get_wallet T a = get (tk_wallets T) a"

definition upsert_wallet :: "wallet_tracker \<Rightarrow> target_wallet \<Rightarrow> wallet_tracker" where
  "upsert_wallet T w = T\<lparr>tk_wallets := AList.update (tw_address w) w (tk_wallets T)\<rparr>"

definition remove_wallet :: "wallet_tracker \<Rightarrow> address \<Rightarrow> wallet_tracker \<times> target_wallet option" where
  "remove_wallet T a = (T\<lparr>tk_wallets := AList.delete a (tk_wallets T)\<rparr>, get (tk_wallets T) a)"

definition set_enabled :: "wallet_tracker \<Rightarrow> address \<Rightarrow> bool \<Rightarrow> wallet_tracker \<times> bool" where
  "set_enabled T a e =
     (case get (tk_wallets T) a of
        Some w \<Rightarrow> (T\<lparr>tk_wallets := AList.update a (w\<lparr>tw_enabled := e\<rparr>) (tk_wallets T)\<rparr>, True)
      | None \<Rightarrow> (T, False))"

definition is_tracked :: "wallet_tracker \<Rightarrow> address \<Rightarrow> bool" where
  "is_tracked T a \<longleftrightarrow> get (tk_wallets T) a \<noteq> None"

definition count_frame :: "tracker_stats \<Rightarrow> tracker_stats" where
  "count_frame s = s\<lparr>ts_frames_examined := ts_frames_examined s + 1\<rparr>"

definition count_match :: "tracker_stats \<Rightarrow> tracker_stats" where
  "count_match s = s\<lparr>ts_wallet_matches := ts_wallet_matches s + 1\<rparr>"

definition count_skip :: "tracker_stats \<Rightarrow> tracker_stats" where
  "count_skip s = s\<lparr>ts_skipped := ts_skipped s + 1\<rparr>"

definition count_duplicate :: "tracker_stats \<Rightarrow> tracker_stats" where
  "count_duplicate s = s\<lparr>ts_duplicates_suppressed := ts_duplicates_suppressed s + 1,
     ts_skipped := ts_skipped s + 1\<rparr>"

definition count_actionable :: "tracker_stats \<Rightarrow> tracker_stats" where
  "count_actionable s = s\<lparr>ts_actionable := ts_actionable s + 1\<rparr>"

definition observe ::
    "decimal_ops \<Rightarrow> (string \<Rightarrow> string) \<Rightarrow> wallet_tracker \<Rightarrow> parsed_trade \<Rightarrow> nat option \<Rightarrow> correlation_id \<Rightarrow>
     wallet_tracker \<times> detection" where
  "observe D sha T t backfill_ordinal corr =
     (let T1 = T\<lparr>tk_stats := count_frame (tk_stats T)\<rparr>
      in case get (tk_wallets T) (pt_trader t) of
        None \<Rightarrow> (T1, NotTracked)
      | Some wallet \<Rightarrow>
          (let T2 = T1\<lparr>tk_stats := count_match (tk_stats T1)\<rparr>;
               notional = qty_notional D (pt_quantity t) (pt_price t)
           in case admits D wallet (pt_market_id t) notional of
             Inl reason \<Rightarrow> (T2\<lparr>tk_stats := count_skip (tk_stats T2)\<rparr>, Skipped (pt_trader t) reason)
           | Inr _ \<Rightarrow>
               (let key = trade_key D t;
                    (d, verdict) = (case backfill_ordinal of
                       Some n \<Rightarrow> observe_backfill sha (tk_dedup T2) key n (pt_detected_ts t)
                     | None \<Rightarrow> observe_live sha (tk_dedup T2) key (pt_detected_ts t));
                    T3 = T2\<lparr>tk_dedup := d\<rparr>
                in case verdict of
                  NewFill event occurrence \<Rightarrow>
                    (T3\<lparr>tk_stats := count_actionable (tk_stats T3)\<rparr>,
                     Actionable (into_source_trade t event occurrence corr))
                | DuplicateFill _ _ \<Rightarrow>
                    (T3\<lparr>tk_stats := count_duplicate (tk_stats T3)\<rparr>,
                     Skipped (pt_trader t) DuplicateEvent))))"

definition tracker_observe_live ::
    "decimal_ops \<Rightarrow> (string \<Rightarrow> string) \<Rightarrow> wallet_tracker \<Rightarrow> parsed_trade \<Rightarrow> correlation_id \<Rightarrow>
     wallet_tracker \<times> detection" where
  "tracker_observe_live D sha T t corr = observe D sha T t None corr"

definition tracker_observe_backfill ::
    "decimal_ops \<Rightarrow> (string \<Rightarrow> string) \<Rightarrow> wallet_tracker \<Rightarrow> parsed_trade \<Rightarrow> batch_ordinals \<Rightarrow> correlation_id \<Rightarrow>
     wallet_tracker \<times> batch_ordinals \<times> detection" where
  "tracker_observe_backfill D sha T t batch corr =
     (let (batch', ordinal) = batch_next batch (trade_key D t);
          (T', det) = observe D sha T t (Some ordinal) corr
      in (T', batch', det))"

definition restore_dedup :: "wallet_tracker \<Rightarrow> (content_key \<times> nat \<times> timestamp) list \<Rightarrow> wallet_tracker" where
  "restore_dedup T entries =
     T\<lparr>tk_dedup := foldl (\<lambda>d (k, n, t). dedup_restore d k n t) (tk_dedup T) entries\<rparr>"

definition evict_stale :: "wallet_tracker \<Rightarrow> timestamp \<Rightarrow> wallet_tracker" where
  "evict_stale T now = T\<lparr>tk_dedup := evict_older_than (tk_dedup T) now\<rparr>"

subsection \<open>The tracker as a source of identities\<close>

text \<open>What can be offered: a trade from either feed, with its ordinal if it is a backfilled one.\<close>

fun detected_occurrence :: "decimal_ops \<Rightarrow> detection \<Rightarrow> (content_key \<times> nat) option" where
  "detected_occurrence D (Actionable s) =
     Some (content_key_new D (so_tx_hash s) (so_trader s) (so_token_id s) (so_side s) (so_price s)
             (so_quantity s), so_occurrence s)"
| "detected_occurrence D _ = None"

fun tracker_offer ::
    "decimal_ops \<Rightarrow> (string \<Rightarrow> string) \<Rightarrow> wallet_tracker \<Rightarrow> parsed_trade \<times> nat option \<times> correlation_id \<Rightarrow>
     wallet_tracker \<times> (content_key \<times> nat) option" where
  "tracker_offer D sha T (t, n, corr) =
     (let (T', det) = observe D sha T t n corr in (T', detected_occurrence D det))"

definition trade_arrival :: "decimal_ops \<Rightarrow> parsed_trade \<Rightarrow> nat option \<Rightarrow> arrival" where
  "trade_arrival D t n =
     (case n of Some i \<Rightarrow> BackfillArrival (trade_key D t) i (pt_detected_ts t)
      | None \<Rightarrow> LiveArrival (trade_key D t) (pt_detected_ts t))"

text \<open>
  An observation either leaves the index alone and yields nothing, or offers the trade to the
  index and yields what the index answers.
\<close>

lemma observe_offer:
  assumes "observe D sha T t n corr = (T', det)"
  shows "(tk_dedup T' = tk_dedup T \<and> detected_occurrence D det = None) \<or>
         (tk_dedup T' = fst (dedup_offer sha (tk_dedup T) (trade_arrival D t n)) \<and>
          detected_occurrence D det = snd (dedup_offer sha (tk_dedup T) (trade_arrival D t n)) \<and>
          (\<exists>w. get (tk_wallets T) (pt_trader t) = Some w \<and>
               admits D w (pt_market_id t) (qty_notional D (pt_quantity t) (pt_price t)) = Inr ()))"
proof (cases "get (tk_wallets T) (pt_trader t)")
  case None
  with assms show ?thesis by (auto simp: observe_def)
next
  case (Some w)
  show ?thesis
  proof (cases "admits D w (pt_market_id t) (qty_notional D (pt_quantity t) (pt_price t))")
    case (Inl r)
    with Some assms show ?thesis by (auto simp: observe_def Let_def)
  next
    case (Inr u)
    define out where "out = (case n of
        Some i \<Rightarrow> observe_backfill sha (tk_dedup T) (trade_key D t) i (pt_detected_ts t)
      | None \<Rightarrow> observe_live sha (tk_dedup T) (trade_key D t) (pt_detected_ts t))"
    obtain d v where out: "out = (d, v)" by force
    then have off: "dedup_offer sha (tk_dedup T) (trade_arrival D t n) = (d, verdict_new (trade_key D t) v)"
      by (simp add: out_def trade_arrival_def split: option.splits)
    have "tk_dedup T' = d \<and> detected_occurrence D det = verdict_new (trade_key D t) v"
      using assms Some Inr out unfolding out_def
      by (cases n; cases v) (auto simp: observe_def Let_def into_source_trade_def trade_key_def)
    with off Some Inr show ?thesis by auto
  qed
qed

definition tracker_seen :: "wallet_tracker \<Rightarrow> (content_key \<times> nat) set" where
  "tracker_seen T = seen_occurrences (tk_dedup T)"

definition tracker_ok :: "wallet_tracker \<Rightarrow> bool" where
  "tracker_ok T \<longleftrightarrow> dedup_ok (tk_dedup T)"

lemma tracker_ok_new: "tracker_ok (tracker_new ws)"
  by (simp add: tracker_ok_def tracker_new_def dedup_default_def dedup_ok_new)

interpretation tracker: id_source tracker_ok tracker_seen "tracker_offer D sha" for D sha
proof
  fix T i and r :: "parsed_trade \<times> nat option \<times> correlation_id"
  assume ok: "tracker_ok T"
  obtain t n corr where r: "r = (t, n, corr)" by (cases r)
  obtain T' det where o: "observe D sha T t n corr = (T', det)" by force
  note step = observe_offer [OF o]
  note laws = dedup.offer_inv [of "tk_dedup T" sha "trade_arrival D t n"]
    dedup.offer_seen [of "tk_dedup T" sha "trade_arrival D t n"]
    dedup.offer_fresh [of "tk_dedup T" sha "trade_arrival D t n" i]
  from step laws ok show "tracker_ok (fst (tracker_offer D sha T r))"
    unfolding r by (auto simp: tracker_ok_def o)
  from step laws ok show "tracker_seen T \<subseteq> tracker_seen (fst (tracker_offer D sha T r))"
    unfolding r by (auto simp: tracker_ok_def tracker_seen_def o)
  assume "snd (tracker_offer D sha T r) = Some i"
  with step laws ok show "i \<notin> tracker_seen T \<and> i \<in> tracker_seen (fst (tracker_offer D sha T r))"
    unfolding r by (auto simp: tracker_ok_def tracker_seen_def o)
qed

subsection \<open>Accounting\<close>

lemma observe_stats:
  assumes "observe D sha T t n corr = (T', det)"
  shows "ts_frames_examined (tk_stats T') = ts_frames_examined (tk_stats T) + 1"
    and "ts_wallet_matches (tk_stats T') =
           ts_wallet_matches (tk_stats T) + (if is_tracked T (pt_trader t) then 1 else 0)"
    and "ts_actionable (tk_stats T') + ts_skipped (tk_stats T') =
           ts_actionable (tk_stats T) + ts_skipped (tk_stats T) + (if is_tracked T (pt_trader t) then 1 else 0)"
    and "ts_actionable (tk_stats T') =
           ts_actionable (tk_stats T) + (case det of Actionable _ \<Rightarrow> 1 | _ \<Rightarrow> 0)"
    and "tk_wallets T' = tk_wallets T"
  using assms
  by (auto simp: observe_def Let_def is_tracked_def count_frame_def count_match_def count_skip_def
      count_duplicate_def count_actionable_def
      split: option.splits sum.splits prod.splits dedup_verdict.splits)

fun tracker_run ::
    "decimal_ops \<Rightarrow> (string \<Rightarrow> string) \<Rightarrow> wallet_tracker \<Rightarrow> (parsed_trade \<times> nat option \<times> correlation_id) list \<Rightarrow>
     wallet_tracker \<times> detection list" where
  "tracker_run D sha T [] = (T, [])"
| "tracker_run D sha T ((t, n, corr) # rs) =
     (let (T1, det) = observe D sha T t n corr; (T2, dets) = tracker_run D sha T1 rs
      in (T2, det # dets))"

lemma tracker_run_offers:
  "tracker_run D sha T rs = (T', dets) \<Longrightarrow>
     run_offers (tracker_offer D sha) T rs = (T', List.map_filter (detected_occurrence D) dets)"
proof (induction rs arbitrary: T T' dets)
  case (Cons r rs)
  obtain t n corr where r: "r = (t, n, corr)" by (cases r)
  obtain T1 det where o: "observe D sha T t n corr = (T1, det)" by force
  obtain T2 ds where rest: "tracker_run D sha T1 rs = (T2, ds)" by force
  from Cons.IH [OF rest] Cons.prems o rest show ?case
    unfolding r by (auto simp: List.map_filter_simps split: option.splits)
qed (simp add: List.map_filter_simps)

text \<open>The counters over a run.\<close>

lemma tracker_run_stats:
  "tracker_run D sha T rs = (T', dets) \<Longrightarrow>
     length dets = length rs \<and>
     ts_frames_examined (tk_stats T') = ts_frames_examined (tk_stats T) + length rs \<and>
     ts_actionable (tk_stats T') + ts_skipped (tk_stats T') =
       ts_actionable (tk_stats T) + ts_skipped (tk_stats T) +
       length (filter (is_tracked T) (map (pt_trader \<circ> fst) rs)) \<and>
     ts_actionable (tk_stats T') =
       ts_actionable (tk_stats T) + length (List.map_filter (detected_occurrence D) dets)"
proof (induction rs arbitrary: T T' dets)
  case (Cons r rs)
  obtain t n corr where r: "r = (t, n, corr)" by (cases r)
  obtain T1 det where o: "observe D sha T t n corr = (T1, det)" by force
  obtain T2 ds where rest: "tracker_run D sha T1 rs = (T2, ds)" by force
  note st = observe_stats [OF o]
  have tr: "is_tracked T1 = is_tracked T" by (rule ext) (simp add: is_tracked_def st(5))
  have res: "T' = T2" "dets = det # ds" using Cons.prems o rest unfolding r by simp_all
  have mf: "length (List.map_filter (detected_occurrence D) (det # ds)) =
      (case det of Actionable _ \<Rightarrow> 1 | _ \<Rightarrow> 0) + length (List.map_filter (detected_occurrence D) ds)"
    by (cases det) (simp_all add: List.map_filter_simps)
  show ?case
    using Cons.IH [OF rest] st(1,3,4) unfolding res r mf tr
    by (cases "is_tracked T (pt_trader t)") auto
qed (simp add: List.map_filter_simps)

subsection \<open>Properties\<close>

text \<open>The tracker never lets the same fill through twice, and it accounts for every trade.
  Over any sequence of trades from both feeds, starting from a fresh tracker, the actionable trades
  are pairwise different fills (content and ordinal); every trade gets exactly one answer; and each
  trade of a tracked wallet is counted either as actionable or as skipped.\<close>

theorem tracker_acts_once:
  assumes "tracker_run D sha (tracker_new ws) rs = (T, dets)"
  shows "distinct (List.map_filter (detected_occurrence D) dets) \<and>
         length dets = length rs \<and> ts_frames_examined (tk_stats T) = length rs \<and>
         ts_actionable (tk_stats T) = length (List.map_filter (detected_occurrence D) dets) \<and>
         ts_actionable (tk_stats T) + ts_skipped (tk_stats T) =
           length (filter (is_tracked (tracker_new ws)) (map (pt_trader \<circ> fst) rs))"
  using tracker.run_distinct [OF tracker_ok_new tracker_run_offers [OF assms]]
    tracker_run_stats [OF assms]
  by (simp add: tracker_new_def no_stats_def)

definition sample_trade :: parsed_trade where
  "sample_trade = \<lparr>pt_trader = Address ''w'', pt_market_id = MarketId ''m'', pt_token_id = TokenId ''7'',
     pt_outcome = ''Yes'', pt_side = Buy, pt_price = 1/2, pt_quantity = 200, pt_tx_hash = TxHash ''t'',
     pt_source_ts = 1, pt_source_is_coarse = False, pt_detected_ts = 2, pt_market_title = [],
     pt_market_slug = [], pt_source = RtdsWebsocket\<rparr>"

definition sample_wallet :: target_wallet where
  "sample_wallet = target_wallet_new (Address ''w'') ''whale''"

definition sample_feed :: "(parsed_trade \<times> nat option \<times> correlation_id) list" where
  "sample_feed = [(sample_trade, None, 1), (sample_trade, Some 0, 2),
     (sample_trade\<lparr>pt_trader := Address ''x''\<rparr>, None, 3)]"

lemma sample_trade_fields:
  "pt_trader sample_trade = Address ''w''" "pt_market_id sample_trade = MarketId ''m''"
  "pt_price sample_trade = 1/2" "pt_quantity sample_trade = 200"
  by (simp_all add: sample_trade_def)

lemma sample_observations:
  "get (tk_wallets (tracker_new [sample_wallet])) (Address ''w'') = Some sample_wallet"
  "get (tk_wallets (tracker_new [sample_wallet])) (Address ''x'') = None"
  "admits exact_decimal sample_wallet (MarketId ''m'') 100 = Inr ()"
  by (simp_all add: tracker_new_def sample_wallet_def target_wallet_new_def get_def admits_def)

lemma sample_feed_run:
  "List.map_filter (detected_occurrence exact_decimal)
     (snd (tracker_run exact_decimal id (tracker_new [sample_wallet]) sample_feed)) =
     [(trade_key exact_decimal sample_trade, 0)]"
proof -
  define T where "T = tracker_new [sample_wallet]"
  define k where "k = trade_key exact_decimal sample_trade"
  have d: "tk_dedup T = dedup_default" by (simp add: T_def tracker_new_def)
  note ev = sample_observations [folded T_def] sample_trade_fields
  define T1 where "T1 = fst (observe exact_decimal id T sample_trade None 1)"
  define s1 where "s1 = into_source_trade sample_trade (event_id id k 0) 0 1"
  have o1: "observe exact_decimal id T sample_trade None 1 = (T1, Actionable s1)"
    and c1: "count_of (tk_dedup T1) k = 1" and w1: "tk_wallets T1 = tk_wallets T"
    by (simp_all add: T1_def s1_def observe_def ev qty_notional_def d observe_live_def
        dedup_default_def dedup_new_def get_or_def get_def [of "[]"] count_of_def
        MAX_OCCURRENCES_PER_CONTENT_def Let_def k_def [symmetric] get_update)
      (simp_all add: get_def)
  have s1: "detected_occurrence exact_decimal (Actionable s1) = Some (k, 0)"
    by (simp add: s1_def into_source_trade_def k_def trade_key_def)
  obtain T2 where o2: "observe exact_decimal id T1 sample_trade (Some 0) 2 =
      (T2, Skipped (Address ''w'') DuplicateEvent)" and w2: "tk_wallets T2 = tk_wallets T"
    using c1 by (simp add: observe_def w1 ev qty_notional_def observe_backfill_def count_of_def
        k_def [symmetric] MAX_OCCURRENCES_PER_CONTENT_def Let_def)
  obtain T3 where o3: "observe exact_decimal id T2 (sample_trade\<lparr>pt_trader := Address ''x''\<rparr>) None 3 =
      (T3, NotTracked)"
    by (simp add: observe_def w2 ev Let_def)
  show ?thesis
    by (simp add: sample_feed_def T_def [symmetric] o1 o2 o3 List.map_filter_simps s1
        k_def [symmetric] del: detected_occurrence.simps(1) One_nat_def)
qed

theorem tracker_acts_once_witness:
  "ts_actionable (tk_stats (fst (tracker_run exact_decimal id (tracker_new [sample_wallet]) sample_feed))) = 1 \<and>
   ts_skipped (tk_stats (fst (tracker_run exact_decimal id (tracker_new [sample_wallet]) sample_feed))) = 1"
proof -
  obtain T dets where run:
    "tracker_run exact_decimal id (tracker_new [sample_wallet]) sample_feed = (T, dets)" by force
  have "is_tracked (tracker_new [sample_wallet]) (Address ''w'')"
    "\<not> is_tracked (tracker_new [sample_wallet]) (Address ''x'')"
    by (simp_all add: is_tracked_def sample_observations)
  then have "length (filter (is_tracked (tracker_new [sample_wallet])) (map (pt_trader \<circ> fst) sample_feed)) = 2"
    by (simp add: sample_feed_def sample_trade_fields)
  with tracker_acts_once [OF run] sample_feed_run run show ?thesis by auto
qed

text \<open>Only trades of tracked wallets that the wallet's own rules admit become actionable, and
  the trade handed on is the one observed, with its new identity.\<close>

theorem actionable_is_admitted:
  assumes "observe D sha T t n corr = (T', Actionable s)"
  shows "\<exists>w. get_wallet T (pt_trader t) = Some w \<and> tw_enabled w \<and>
           pt_market_id t \<notin> set (tw_blocked_markets w) \<and>
           tw_min_source_notional_usd w \<le> qty_notional D (pt_quantity t) (pt_price t) \<and>
           s = into_source_trade t (event_id sha (trade_key D t) (so_occurrence s)) (so_occurrence s) corr"
  using assms
  by (auto simp: observe_def Let_def get_wallet_def admits_iff into_source_trade_def
      observe_live_def observe_backfill_def
      split: option.splits sum.splits prod.splits dedup_verdict.splits if_splits)

end
