(* ===== verification/Strategy.thy ===== *)
theory Strategy
  imports Tracker
begin

section \<open>Sizing and the copy strategy (crates/strategy/src/sizing.rs, copy_trader.rs)\<close>

text \<open>
  How much of a source trade is copied, and at which worst price. Sizing computes the mode's
  raw notional and then applies caps that can only reduce it; the strategy prices the trade
  against the book and turns the result into a copy signal.
\<close>

subsection \<open>Sizing\<close>

record sizing_context =
  sx_equity :: usd
  sx_current_market_exposure :: usd
  sx_max_position_usd :: usd
  sx_max_trade_usd :: usd
  sx_min_trade_usd :: usd
  sx_available_liquidity :: usd
  sx_remaining_daily_risk :: usd
  sx_min_order_size :: rat

datatype sizing_refusal =
    BelowMinimum (bm_sized: string) (bm_minimum: string)
  | NoPositionHeadroom
  | DailyRiskExhausted
  | NoLiquidity

record sized_order =
  sz_quantity :: qty
  sz_notional :: usd
  sz_mode :: string
  sz_binding_constraint :: "string option"

text \<open>The closure \<open>cap\<close>: a limit lowers the notional and leaves its name.\<close>

fun cap :: "usd \<Rightarrow> string \<Rightarrow> usd \<times> string option \<Rightarrow> usd \<times> string option" where
  "cap limit name (n, b) = (if n > limit then (limit, Some name) else (n, b))"

fun raw_notional :: "decimal_ops \<Rightarrow> sizing_mode \<Rightarrow> usd \<Rightarrow> sizing_context \<Rightarrow> usd" where
  "raw_notional D (FixedRatio ratio) sn ctx = d_mul D sn ratio"
| "raw_notional D (FixedUsd amount) sn ctx = amount"
| "raw_notional D (PortfolioPercent pct) sn ctx = d_mul D (sx_equity ctx) pct"
| "raw_notional D (RiskAdjusted base _) sn ctx =
     (let b = d_mul D sn base;
          used = (if sx_max_position_usd ctx > 0
                  then clamp 0 1 (d_div D (sx_current_market_exposure ctx) (sx_max_position_usd ctx))
                  else 1)
      in d_mul D b (d_sub D 1 used))"

text \<open>The last part: the floor, and the conversion to shares.\<close>

definition finish_size ::
    "decimal_ops \<Rightarrow> target_wallet \<Rightarrow> price \<Rightarrow> sizing_context \<Rightarrow> usd \<times> string option \<Rightarrow>
     sizing_refusal + sized_order" where
  "finish_size D wallet limit ctx c =
     (let (notional, binding) = c;
          floor_usd = max (tw_min_trade_usd wallet) (sx_min_trade_usd ctx)
      in if notional < floor_usd then Inl (BelowMinimum (d_cents D notional) (d_cents D floor_usd))
         else
           let shares = qty_floor_to D (usd_shares_at D notional limit) (sx_min_order_size ctx)
           in if shares = 0 then Inl (BelowMinimum ''0'' (d_show D (sx_min_order_size ctx)))
              else Inr \<lparr>sz_quantity = shares, sz_notional = qty_notional D shares limit,
                        sz_mode = sizing_mode_name (tw_sizing wallet), sz_binding_constraint = binding\<rparr>)"

definition size_order ::
    "decimal_ops \<Rightarrow> target_wallet \<Rightarrow> usd \<Rightarrow> price \<Rightarrow> sizing_context \<Rightarrow> sizing_refusal + sized_order" where
  "size_order D wallet sn limit ctx =
     (if sx_remaining_daily_risk ctx \<le> 0 then Inl DailyRiskExhausted
      else
        let c0 = (raw_notional D (tw_sizing wallet) sn ctx, None);
            c1 = cap (tw_max_trade_usd wallet) ''wallet_max_trade'' c0;
            c2 = cap (sx_max_trade_usd ctx) ''global_max_trade'' c1;
            headroom = max (d_sub D (sx_max_position_usd ctx) (sx_current_market_exposure ctx)) 0
        in if headroom \<le> 0 then Inl NoPositionHeadroom
           else
             let c3 = cap headroom ''position_headroom'' c2;
                 c4 = cap (tw_max_exposure_usd wallet) ''wallet_max_exposure'' c3;
                 c5 = cap (sx_remaining_daily_risk ctx) ''daily_risk_budget'' c4
             in case tw_sizing wallet of
                  RiskAdjusted _ pct \<Rightarrow>
                    (if sx_available_liquidity ctx \<le> 0 then Inl NoLiquidity
                     else finish_size D wallet limit ctx
                            (cap (d_mul D (sx_available_liquidity ctx) pct) ''liquidity'' c5))
                | _ \<Rightarrow> finish_size D wallet limit ctx c5)"

definition limit_price :: "decimal_ops \<Rightarrow> price \<Rightarrow> side \<Rightarrow> nat \<Rightarrow> rat \<Rightarrow> price" where
  "limit_price D reference s max_slippage_bps tick =
     (let budget = d_div D (of_nat max_slippage_bps) 10000;
          adjusted = (case s of
             Buy \<Rightarrow> d_mul D reference (d_add D 1 budget)
           | Sell \<Rightarrow> d_mul D reference (d_sub D 1 budget))
      in price_round_to_tick D (price_saturating adjusted) tick s)"

subsection \<open>The strategy\<close>

datatype signal_refusal =
    SizingRefused sizing_refusal
  | StaleBook (sb_age_ms: int) (sb_max_age_ms: int)

record strategy_config =
  sg_max_slippage_bps :: nat
  sg_max_book_age_ms :: int
  sg_allow_pricing_without_book :: bool

definition strategy_default :: strategy_config where
  "strategy_default = \<lparr>sg_max_slippage_bps = 50, sg_max_book_age_ms = 30000,
     sg_allow_pricing_without_book = True\<rparr>"

text \<open>Float literals and products are rounded to binary64.\<close>

fun base_confidence :: "trade_source \<Rightarrow> rat" where
  "base_confidence RtdsWebsocket = f64_round (95/100)"
| "base_confidence RestBackfill = f64_round (6/10)"
| "base_confidence ReplaySource = f64_round (9/10)"
| "base_confidence DemoSource = f64_round (5/10)"

definition confidence :: "source_trade \<Rightarrow> int option \<Rightarrow> rat" where
  "confidence trade book_age_ms =
     (let c0 = base_confidence (so_source trade);
          lag = max (num_milliseconds (so_detected_ts trade - so_source_ts trade)) 0;
          c1 = (if lag > 2000 then f64_round (c0 * f64_round (7/10))
                else if lag > 1000 then f64_round (c0 * f64_round (85/100)) else c0);
          c2 = (case book_age_ms of
                  Some age \<Rightarrow> (if age > 10000 then f64_round (c1 * f64_round (7/10))
                              else if age > 2000 then f64_round (c1 * f64_round (9/10)) else c1)
                | None \<Rightarrow> c1)
      in clamp 0 1 c2)"

text \<open>The reference price and the confidence, or the reason there is none.\<close>

definition reference_price ::
    "strategy_config \<Rightarrow> source_trade \<Rightarrow> order_book option \<Rightarrow> timestamp \<Rightarrow> signal_refusal + price \<times> rat" where
  "reference_price cfg trade book now =
     (case book of
        Some b \<Rightarrow>
          (let age = num_milliseconds (now - bk_timestamp b)
           in if age > sg_max_book_age_ms cfg then Inl (StaleBook age (sg_max_book_age_ms cfg))
              else
                let touch = (case so_side trade of
                       Buy \<Rightarrow> map_option lv_price (best_ask b)
                     | Sell \<Rightarrow> map_option lv_price (best_bid b))
                in case touch of
                     Some p \<Rightarrow> Inr (p, confidence trade (Some age))
                   | None \<Rightarrow> (if sg_allow_pricing_without_book cfg then Inr (so_price trade, f64_round (4/10))
                             else Inl (SizingRefused NoLiquidity)))
      | None \<Rightarrow> (if sg_allow_pricing_without_book cfg then Inr (so_price trade, f64_round (5/10))
                else Inl (SizingRefused NoLiquidity)))"

definition price_context ::
    "decimal_ops \<Rightarrow> order_book option \<Rightarrow> side \<Rightarrow> price \<Rightarrow> sizing_context \<Rightarrow> sizing_context" where
  "price_context D book s limit ctx =
     (let ctx1 = (case book of
            Some b \<Rightarrow> ctx\<lparr>sx_available_liquidity := notional_within D b s limit\<rparr>
          | None \<Rightarrow> ctx)
      in ctx1\<lparr>sx_min_order_size :=
           (if sx_min_order_size ctx1 > 0 then sx_min_order_size ctx1
            else (case book of Some b \<Rightarrow> bk_min_order_size b | None \<Rightarrow> 1))\<rparr>)"

definition signal_metadata :: "decimal_ops \<Rightarrow> price \<Rightarrow> string option \<Rightarrow> source_trade \<Rightarrow> target_wallet \<Rightarrow> (string \<times> json) list" where
  "signal_metadata D reference binding trade wallet =
     [(''reference_price'', JStr (d_show D reference)),
      (''binding_constraint'', (case binding of Some b \<Rightarrow> JStr b | None \<Rightarrow> JNull)),
      (''source_feed'', JStr (trade_source_str (so_source trade))),
      (''occurrence'', JInt (int (so_occurrence trade))),
      (''tx_hash'', JStr (tx_str (so_tx_hash trade))),
      (''target_nickname'', JStr (tw_nickname wallet))]"

definition strategy_on_source_trade ::
    "decimal_ops \<Rightarrow> strategy_config \<Rightarrow> source_trade \<Rightarrow> target_wallet \<Rightarrow> order_book option \<Rightarrow>
     sizing_context \<Rightarrow> rat \<Rightarrow> timestamp \<Rightarrow> signal_id \<Rightarrow> signal_refusal + copy_signal" where
  "strategy_on_source_trade D cfg trade wallet book ctx tick now new_id =
     and_then (reference_price cfg trade book now) (\<lambda>(reference, conf).
       let limit = limit_price D reference (so_side trade) (sg_max_slippage_bps cfg) tick;
           ctx' = price_context D book (so_side trade) limit ctx
       in and_then (map_err SizingRefused (size_order D wallet (source_notional D trade) limit ctx'))
            (\<lambda>sized.
               Inr \<lparr>cs_signal_id = new_id, cs_correlation_id = so_correlation_id trade,
                 cs_source_event_id = so_event_id trade, cs_target_wallet = so_trader trade,
                 cs_market_id = so_market_id trade, cs_token_id = so_token_id trade,
                 cs_outcome = so_outcome trade, cs_side = so_side trade,
                 cs_target_price = so_price trade, cs_target_quantity = so_quantity trade,
                 cs_target_notional = source_notional D trade, cs_copy_quantity = sz_quantity sized,
                 cs_copy_notional = sz_notional sized, cs_limit_price = limit,
                 cs_sizing_mode = sz_mode sized, cs_confidence = conf,
                 cs_source_ts = so_source_ts trade, cs_detection_ts = so_detected_ts trade,
                 cs_signal_ts = now,
                 cs_latency = (stamps_from_source (so_source_ts trade) False (so_detected_ts trade))
                   \<lparr>lt_signal := Some now\<rparr>,
                 cs_metadata = signal_metadata D reference (sz_binding_constraint sized) trade wallet\<rparr>))"

definition achievable_price :: "decimal_ops \<Rightarrow> order_book \<Rightarrow> side \<Rightarrow> qty \<Rightarrow> price \<Rightarrow> price option" where
  "achievable_price D b s q limit = map_option fst (sweep_vwap D b s q limit)"

subsection \<open>Caps only reduce\<close>

text \<open>Every limit that applies to a trade, in the order of the code.\<close>

definition caps_of :: "decimal_ops \<Rightarrow> target_wallet \<Rightarrow> sizing_context \<Rightarrow> usd list" where
  "caps_of D wallet ctx =
     [tw_max_trade_usd wallet, sx_max_trade_usd ctx,
      max (d_sub D (sx_max_position_usd ctx) (sx_current_market_exposure ctx)) 0,
      tw_max_exposure_usd wallet, sx_remaining_daily_risk ctx] @
     (case tw_sizing wallet of
        RiskAdjusted _ pct \<Rightarrow> [d_mul D (sx_available_liquidity ctx) pct] | _ \<Rightarrow> [])"

text \<open>
  The capped notional is the least of the raw one and the limits; a binding constraint is
  named exactly when a limit lowered it.
\<close>

definition capped_notional :: "decimal_ops \<Rightarrow> target_wallet \<Rightarrow> usd \<Rightarrow> sizing_context \<Rightarrow> usd" where
  "capped_notional D wallet sn ctx =
     foldl min (raw_notional D (tw_sizing wallet) sn ctx) (caps_of D wallet ctx)"

lemma fst_cap: "fst (cap limit name c) = min (fst c) limit"
  by (cases c) (simp add: min_def)

definition cap_ok :: "usd \<Rightarrow> usd \<times> string option \<Rightarrow> bool" where
  "cap_ok raw c \<longleftrightarrow> fst c \<le> raw \<and> (snd c = None \<longleftrightarrow> fst c = raw)"

lemma cap_ok_cap: "cap_ok raw c \<Longrightarrow> cap_ok raw (cap limit name c)"
  by (cases c) (auto simp: cap_ok_def)

lemma foldl_min_le: "foldl min (a::'a::linorder) xs \<le> a \<and> list_all (\<lambda>c. foldl min a xs \<le> c) xs"
proof (induction xs arbitrary: a)
  case (Cons x xs)
  from Cons [of "min a x"] show ?case by (auto simp: list_all_iff)
qed simp

lemma capped_le:
  "capped_notional D wallet sn ctx \<le> tw_max_trade_usd wallet"
  "capped_notional D wallet sn ctx \<le> sx_max_trade_usd ctx"
proof -
  have "list_all (\<lambda>c. capped_notional D wallet sn ctx \<le> c) (caps_of D wallet ctx)"
    unfolding capped_notional_def using foldl_min_le by blast
  then show "capped_notional D wallet sn ctx \<le> tw_max_trade_usd wallet"
    "capped_notional D wallet sn ctx \<le> sx_max_trade_usd ctx"
    by (simp_all add: caps_of_def)
qed

lemma price_context_max: "sx_max_trade_usd (price_context D book s limit ctx) = sx_max_trade_usd ctx"
  by (cases book) (simp_all add: price_context_def Let_def)

lemma size_order_Inr:
  assumes "size_order D wallet sn limit ctx = Inr so"
  shows "sz_quantity so = qty_floor_to D (usd_shares_at D (capped_notional D wallet sn ctx) limit) (sx_min_order_size ctx)"
    and "sz_quantity so \<noteq> 0" and "sz_notional so = qty_notional D (sz_quantity so) limit"
    and "max (tw_min_trade_usd wallet) (sx_min_trade_usd ctx) \<le> capped_notional D wallet sn ctx"
    and "0 < sx_remaining_daily_risk ctx"
    and "sz_binding_constraint so = None \<longleftrightarrow>
           capped_notional D wallet sn ctx = raw_notional D (tw_sizing wallet) sn ctx"
proof -
  define raw where "raw = raw_notional D (tw_sizing wallet) sn ctx"
  define c5 where "c5 = cap (sx_remaining_daily_risk ctx) ''daily_risk_budget''
    (cap (tw_max_exposure_usd wallet) ''wallet_max_exposure''
      (cap (max (d_sub D (sx_max_position_usd ctx) (sx_current_market_exposure ctx)) 0) ''position_headroom''
        (cap (sx_max_trade_usd ctx) ''global_max_trade''
          (cap (tw_max_trade_usd wallet) ''wallet_max_trade'' (raw, None)))))"
  define c6 where "c6 = (case tw_sizing wallet of
      RiskAdjusted _ pct \<Rightarrow> cap (d_mul D (sx_available_liquidity ctx) pct) ''liquidity'' c5 | _ \<Rightarrow> c5)"
  have "cap_ok raw (raw, None)" by (simp add: cap_ok_def)
  then have ok: "cap_ok raw c6"
    unfolding c6_def c5_def by (cases "tw_sizing wallet") (simp_all only: cap_ok_cap sizing_mode.case)
  have n: "fst c6 = capped_notional D wallet sn ctx"
    unfolding c6_def c5_def capped_notional_def caps_of_def raw_def
    by (cases "tw_sizing wallet") (simp_all only: fst_cap foldl.simps append.simps fst_conv sizing_mode.case)
  have c5_eq: "size_order D wallet sn limit ctx =
      (if sx_remaining_daily_risk ctx \<le> 0 then Inl DailyRiskExhausted
       else if max (d_sub D (sx_max_position_usd ctx) (sx_current_market_exposure ctx)) 0 \<le> 0
         then Inl NoPositionHeadroom
       else case tw_sizing wallet of
         RiskAdjusted _ pct \<Rightarrow>
           (if sx_available_liquidity ctx \<le> 0 then Inl NoLiquidity
            else finish_size D wallet limit ctx (cap (d_mul D (sx_available_liquidity ctx) pct) ''liquidity'' c5))
       | _ \<Rightarrow> finish_size D wallet limit ctx c5)"
    unfolding size_order_def Let_def c5_def raw_def ..
  show "0 < sx_remaining_daily_risk ctx"
    using assms unfolding c5_eq by (simp split: if_splits)
  have "finish_size D wallet limit ctx c6 = Inr so"
    using assms unfolding c5_eq c6_def by (simp split: if_splits sizing_mode.splits)
  then have fin: "max (tw_min_trade_usd wallet) (sx_min_trade_usd ctx) \<le> fst c6 \<and>
      sz_quantity so = qty_floor_to D (usd_shares_at D (fst c6) limit) (sx_min_order_size ctx) \<and>
      sz_quantity so \<noteq> 0 \<and> sz_notional so = qty_notional D (sz_quantity so) limit \<and>
      sz_binding_constraint so = snd c6"
    by (cases c6) (auto simp: finish_size_def Let_def split: if_splits)
  then show "sz_quantity so = qty_floor_to D (usd_shares_at D (capped_notional D wallet sn ctx) limit) (sx_min_order_size ctx)"
    "sz_quantity so \<noteq> 0" "sz_notional so = qty_notional D (sz_quantity so) limit"
    "max (tw_min_trade_usd wallet) (sx_min_trade_usd ctx) \<le> capped_notional D wallet sn ctx"
    by (simp_all add: n)
  show "sz_binding_constraint so = None \<longleftrightarrow>
      capped_notional D wallet sn ctx = raw_notional D (tw_sizing wallet) sn ctx"
    using fin ok by (simp add: cap_ok_def n raw_def)
qed

context decimal_exact
begin

lemma floor_to_bounds: "0 < step \<Longrightarrow> q - step < qty_floor_to D q step"
proof -
  assume "0 < step"
  have "q / step < d_floor (q / step) + 1" unfolding d_floor_def using floor_correct [of "q / step"] by simp
  then have "q / step * step < (d_floor (q / step) + 1) * step"
    using \<open>0 < step\<close> by (rule mult_strict_right_mono)
  with \<open>0 < step\<close> show ?thesis by (simp add: qty_floor_to_def exact algebra_simps)
qed

lemma size_order_bounds:
  assumes "size_order D wallet sn limit ctx = Inr so" and "0 < limit"
  shows "0 < sz_quantity so" and "sz_notional so = sz_quantity so * limit"
    and "sz_notional so \<le> capped_notional D wallet sn ctx"
    and "0 < sx_min_order_size ctx \<Longrightarrow>
           capped_notional D wallet sn ctx < sz_notional so + sx_min_order_size ctx * limit"
proof -
  let ?n = "capped_notional D wallet sn ctx" and ?step = "sx_min_order_size ctx"
  note s = size_order_Inr [OF assms(1)]
  have q: "0 \<le> sz_quantity so" using s(1) shares_at_nonneg by (simp add: floor_to_nonneg)
  with s(2) show "0 < sz_quantity so" by simp
  show eq: "sz_notional so = sz_quantity so * limit" by (simp add: s(3) qty_notional_def exact)
  have le: "sz_quantity so \<le> usd_shares_at D ?n limit" unfolding s(1) by (rule floor_to_le)
  have pos: "0 < ?n"
  proof (rule ccontr)
    assume "\<not> 0 < ?n"
    then have "usd_shares_at D ?n limit = 0"
      using assms(2) by (auto simp: usd_shares_at_def exact max_def divide_le_0_iff)
    with le \<open>0 < sz_quantity so\<close> show False by simp
  qed
  have n: "usd_shares_at D ?n limit * limit = ?n" using pos assms(2) by (simp add: shares_at_notional)
  from mult_right_mono [OF le, of limit] assms(2) n eq show "sz_notional so \<le> ?n" by simp
  assume step: "0 < ?step"
  have "usd_shares_at D ?n limit < sz_quantity so + ?step"
    using floor_to_bounds [OF step, of "usd_shares_at D ?n limit"] unfolding s(1) by simp
  from mult_strict_right_mono [OF this assms(2)] n eq
  show "?n < sz_notional so + ?step * limit" by (simp add: algebra_simps)
qed

lemma limit_price_bounds:
  assumes "PRICE_MIN \<le> r" and "r \<le> PRICE_MAX"
  shows "limit_price D r Buy bps tick \<le> r * (1 + of_nat bps / 10000)"
    and "r * (1 - of_nat bps / 10000) \<le> limit_price D r Sell bps tick"
    and "valid_price (limit_price D r s bps tick)"
proof -
  define b where "b = (of_nat bps :: rat) / 10000"
  have b: "0 \<le> b" by (simp add: b_def)
  have r: "0 \<le> r" using assms(1) by (simp add: PRICE_MIN_def)
  have up: "PRICE_MIN \<le> r * (1 + b)"
    using assms(1) mult_left_mono [of 1 "1 + b" r] b r by simp
  have down: "r * (1 - b) \<le> PRICE_MAX"
    using assms(2) mult_left_mono [of "1 - b" 1 r] b r by simp
  have "price_saturating (r * (1 + b)) \<le> r * (1 + b)"
    using up by (simp add: price_saturating_le)
  moreover have mn: "PRICE_MIN \<le> price_saturating x" "price_saturating x \<le> PRICE_MAX" for x
    by (simp_all add: price_saturating_def clamp_def PRICE_MIN_def PRICE_MAX_def)
  ultimately show "limit_price D r Buy bps tick \<le> r * (1 + of_nat bps / 10000)"
    using round_to_tick_buy [OF mn(1), of "r * (1 + b)" tick]
    by (simp add: limit_price_def exact b_def [symmetric] Let_def)
  have "r * (1 - b) \<le> price_saturating (r * (1 - b))"
    using down by (simp add: price_saturating_ge)
  then show "r * (1 - of_nat bps / 10000) \<le> limit_price D r Sell bps tick"
    using round_to_tick_sell [OF mn(2), of "r * (1 - b)" tick]
    by (simp add: limit_price_def exact b_def [symmetric] Let_def)
  show "valid_price (limit_price D r s bps tick)"
    by (simp add: limit_price_def Let_def)
qed

end

lemma confidence_bounds: "0 \<le> confidence t age \<and> confidence t age \<le> 1"
  unfolding confidence_def Let_def by (rule clamp_bounds) simp

lemma half_confidence: "0 \<le> f64_round (4/10) \<and> f64_round (4/10) \<le> 1 \<and> 0 \<le> f64_round (5/10) \<and> f64_round (5/10) \<le> 1"
  by (simp add: f64_round_def bit_length.simps round_half_even_def Let_def)

lemma signal_fields:
  assumes "strategy_on_source_trade D cfg trade wallet book ctx tick now new_id = Inr sig"
  shows "\<exists>reference conf so.
           reference_price cfg trade book now = Inr (reference, conf) \<and>
           cs_limit_price sig = limit_price D reference (so_side trade) (sg_max_slippage_bps cfg) tick \<and>
           size_order D wallet (source_notional D trade) (cs_limit_price sig)
             (price_context D book (so_side trade) (cs_limit_price sig) ctx) = Inr so \<and>
           cs_copy_quantity sig = sz_quantity so \<and> cs_copy_notional sig = sz_notional so \<and>
           cs_confidence sig = conf \<and> cs_side sig = so_side trade \<and> cs_token_id sig = so_token_id trade \<and>
           cs_market_id sig = so_market_id trade \<and> cs_correlation_id sig = so_correlation_id trade \<and>
           cs_source_event_id sig = so_event_id trade \<and> cs_target_wallet sig = so_trader trade"
  using assms unfolding strategy_on_source_trade_def by (auto simp: and_then_Inr Let_def)

lemma reference_price_Inr:
  assumes "reference_price cfg trade book now = Inr (reference, conf)"
  shows "0 \<le> conf \<and> conf \<le> 1"
    and "case book of Some b \<Rightarrow> num_milliseconds (now - bk_timestamp b) \<le> sg_max_book_age_ms cfg
         | None \<Rightarrow> sg_allow_pricing_without_book cfg"
proof -
  have "conf = f64_round (5/10) \<or> conf = f64_round (4/10) \<or> (\<exists>age. conf = confidence trade age)"
    using assms unfolding reference_price_def Let_def
    by (cases book) (auto split: option.splits if_splits)
  with half_confidence confidence_bounds show "0 \<le> conf \<and> conf \<le> 1" by blast
  show "case book of Some b \<Rightarrow> num_milliseconds (now - bk_timestamp b) \<le> sg_max_book_age_ms cfg
      | None \<Rightarrow> sg_allow_pricing_without_book cfg"
    using assms unfolding reference_price_def Let_def
    by (cases book) (auto split: if_splits)
qed

subsection \<open>Properties\<close>

definition sample_context :: sizing_context where
  "sample_context = \<lparr>sx_equity = 10000, sx_current_market_exposure = 0, sx_max_position_usd = 1000,
     sx_max_trade_usd = 500, sx_min_trade_usd = 5, sx_available_liquidity = 10000,
     sx_remaining_daily_risk = 1000, sx_min_order_size = 1\<rparr>"


lemma sample_size:
  "size_order exact_decimal sample_wallet 1000 (1/2) sample_context =
     Inr \<lparr>sz_quantity = 200, sz_notional = 100, sz_mode = ''fixed_ratio'',
          sz_binding_constraint = Some ''wallet_max_trade''\<rparr>"
  by (simp add: size_order_def sample_wallet_def target_wallet_new_def default_sizing_mode_def
      sample_context_def finish_size_def usd_shares_at_def qty_floor_to_def qty_notional_def
      d_floor_def Let_def)


text \<open>The limit price spends at most the slippage budget: a buy's limit is at most the
  reference price plus the budget and a sell's at least the reference minus the budget, for every
  tick, and the limit is always a valid price.\<close>

theorem limit_price_within_budget:
  assumes "decimal_exact D" and "PRICE_MIN \<le> r" and "r \<le> PRICE_MAX"
  shows "limit_price D r Buy bps tick \<le> r * (1 + of_nat bps / 10000) \<and>
         r * (1 - of_nat bps / 10000) \<le> limit_price D r Sell bps tick \<and>
         valid_price (limit_price D r s bps tick)"
  using decimal_exact.limit_price_bounds [OF assms] by blast

theorem limit_price_within_budget_witness:
  "limit_price exact_decimal (60/100) Buy 50 (1/100) \<le> 603/1000 \<and>
   597/1000 \<le> limit_price exact_decimal (60/100) Sell 50 (1/100)"
proof -
  have "PRICE_MIN \<le> (60/100::rat)" "(60/100::rat) \<le> PRICE_MAX"
    by (simp_all add: PRICE_MIN_def PRICE_MAX_def)
  from limit_price_within_budget [OF exact_dec.decimal_exact_axioms this, of 50 "1/100"]
  show ?thesis by simp
qed

text \<open>A copy can come out below the minimum trade size. The floor is checked before the
  quantity is rounded down to the size increment and not again after it: a source trade of 20
  dollars copied at a quarter at a limit of 0.62 passes the 5 dollar floor and becomes 8 shares
  worth 4.96 dollars.\<close>

theorem sized_below_the_minimum:
  "\<exists>so. size_order exact_decimal sample_wallet 20 (62/100) sample_context = Inr so \<and>
     sz_quantity so = 8 \<and> sz_notional so = 496/100 \<and>
     sz_notional so < max (tw_min_trade_usd sample_wallet) (sx_min_trade_usd sample_context)"
  by (simp add: size_order_def sample_wallet_def target_wallet_new_def default_sizing_mode_def
      sample_context_def finish_size_def usd_shares_at_def qty_floor_to_def qty_notional_def
      d_floor_def Let_def)

text \<open>A signal is a faithful, bounded instruction. Every signal the strategy emits mirrors the
  trade's market, token, side and identities, buys or sells a positive quantity that is worth at most
  the wallet's and the global maximum trade at the limit price, carries a confidence between 0 and 1,
  and never comes from a book older than the configured age.\<close>

theorem signal_sound:
  assumes "decimal_exact D"
    and "strategy_on_source_trade D cfg trade wallet book ctx tick now new_id = Inr sig"
  shows "cs_token_id sig = so_token_id trade \<and> cs_market_id sig = so_market_id trade \<and>
         cs_side sig = so_side trade \<and> cs_source_event_id sig = so_event_id trade \<and>
         cs_correlation_id sig = so_correlation_id trade \<and>
         0 < cs_copy_quantity sig \<and> valid_price (cs_limit_price sig) \<and>
         cs_copy_notional sig = cs_copy_quantity sig * cs_limit_price sig \<and>
         cs_copy_notional sig \<le> tw_max_trade_usd wallet \<and> cs_copy_notional sig \<le> sx_max_trade_usd ctx \<and>
         0 \<le> cs_confidence sig \<and> cs_confidence sig \<le> 1 \<and>
         (case book of Some b \<Rightarrow> num_milliseconds (now - bk_timestamp b) \<le> sg_max_book_age_ms cfg
          | None \<Rightarrow> sg_allow_pricing_without_book cfg)"
proof -
  obtain reference conf so where f: "reference_price cfg trade book now = Inr (reference, conf)"
    "cs_limit_price sig = limit_price D reference (so_side trade) (sg_max_slippage_bps cfg) tick"
    "size_order D wallet (source_notional D trade) (cs_limit_price sig)
       (price_context D book (so_side trade) (cs_limit_price sig) ctx) = Inr so"
    "cs_copy_quantity sig = sz_quantity so" "cs_copy_notional sig = sz_notional so"
    "cs_confidence sig = conf" "cs_side sig = so_side trade" "cs_token_id sig = so_token_id trade"
    "cs_market_id sig = so_market_id trade" "cs_correlation_id sig = so_correlation_id trade"
    "cs_source_event_id sig = so_event_id trade"
    using signal_fields [OF assms(2)] by blast
  have valid: "valid_price (cs_limit_price sig)"
    unfolding f(2) by (simp add: limit_price_def Let_def)
  then have pos: "0 < cs_limit_price sig" by (simp add: valid_price_def)
  note b = decimal_exact.size_order_bounds [OF assms(1) f(3) pos]
  have "capped_notional D wallet (source_notional D trade)
      (price_context D book (so_side trade) (cs_limit_price sig) ctx) \<le> tw_max_trade_usd wallet"
    "capped_notional D wallet (source_notional D trade)
      (price_context D book (so_side trade) (cs_limit_price sig) ctx) \<le> sx_max_trade_usd ctx"
    using capped_le [of D wallet "source_notional D trade"
        "price_context D book (so_side trade) (cs_limit_price sig) ctx"]
    by (simp_all add: price_context_max)
  moreover have "0 \<le> conf \<and> conf \<le> 1" "(case book of Some b \<Rightarrow> num_milliseconds (now - bk_timestamp b) \<le> sg_max_book_age_ms cfg
       | None \<Rightarrow> sg_allow_pricing_without_book cfg)"
    using reference_price_Inr [OF f(1)] by simp_all
  ultimately show ?thesis using f(4-11) b(1-3) valid by auto
qed

definition sample_source :: source_trade where
  "sample_source = into_source_trade (sample_trade\<lparr>pt_quantity := 2000\<rparr>) (SourceEventId ''e'') 0 1"

lemma sample_limit: "limit_price exact_decimal (1/2) Buy 50 (1/100) = 1/2"
  by (simp add: limit_price_def price_saturating_def clamp_def PRICE_MIN_def PRICE_MAX_def
      price_round_to_tick_def d_floor_def Let_def)

lemma sample_signal:
  "\<exists>sig. strategy_on_source_trade exact_decimal strategy_default sample_source sample_wallet None
     sample_context (1/100) 9 7 = Inr sig \<and> cs_copy_quantity sig = 200"
proof -
  have ctx: "price_context exact_decimal None Buy l sample_context = sample_context" for l
    by (simp add: price_context_def sample_context_def)
  have src: "so_price sample_source = 1/2" "so_side sample_source = Buy"
    "source_notional exact_decimal sample_source = 1000"
    by (simp_all add: sample_source_def into_source_trade_def sample_trade_def source_notional_def
        qty_notional_def)
  show ?thesis
    by (simp add: strategy_on_source_trade_def reference_price_def strategy_default_def src ctx
        sample_limit sample_size Let_def)
qed

theorem signal_sound_witness:
  "\<exists>sig. strategy_on_source_trade exact_decimal strategy_default sample_source sample_wallet None
     sample_context (1/100) 9 7 = Inr sig \<and> cs_copy_notional sig \<le> 100 \<and> 0 < cs_copy_quantity sig"
proof -
  obtain sig where sig: "strategy_on_source_trade exact_decimal strategy_default sample_source
      sample_wallet None sample_context (1/100) 9 7 = Inr sig" using sample_signal by blast
  from signal_sound [OF exact_dec.decimal_exact_axioms sig] sig show ?thesis
    by (simp add: sample_wallet_def target_wallet_new_def)
qed

text \<open>The coarse-timestamp flag is lost on the way to a signal. A backfilled row is parsed with
  a whole-second stamp and says so, but the source trade has no such field and every signal's
  latency chain claims a precise one.\<close>

theorem coarse_flag_is_lost:
  "(case parse_data_api_trade D ts_opt r t of Inr pt \<Rightarrow> pt_source_is_coarse pt | Inl _ \<Rightarrow> True) \<and>
   (case strategy_on_source_trade D cfg (into_source_trade pt ev occ corr) wallet book ctx tick now new_id of
      Inr sig \<Rightarrow> lt_source (cs_latency sig) = Some (pt_source_ts pt) \<and> \<not> lt_source_is_coarse (cs_latency sig)
    | Inl _ \<Rightarrow> True)"
proof -
  have "case parse_data_api_trade D ts_opt r t of Inr pt \<Rightarrow> pt_source_is_coarse pt | Inl _ \<Rightarrow> True"
    using data_api_fields(8) [of D ts_opt r t] by (simp split: sum.split)
  moreover have "lt_source (cs_latency sig) = Some (pt_source_ts pt) \<and> \<not> lt_source_is_coarse (cs_latency sig)"
    if "strategy_on_source_trade D cfg (into_source_trade pt ev occ corr) wallet book ctx tick now new_id = Inr sig"
    for sig
    using that unfolding strategy_on_source_trade_def
    by (auto simp: and_then_Inr Let_def stamps_from_source_def into_source_trade_def)
  ultimately show ?thesis by (simp split: sum.split)
qed

end
