(* ===== verification/Risk.thy ===== *)
theory Risk
  imports Config
begin

section \<open>Pre-trade risk (crates/risk/src/limits.rs, kill_switch.rs, validation.rs, engine.rs)\<close>

text \<open>
  Every order passes \<open>check\<close> before it can be submitted. The checks run in a fixed order
  and the verdict names the first one that failed. The kill switch is a state of its own
  that the engine only reads.
\<close>

subsection \<open>Limits\<close>

record risk_limits =
  rl_max_trade_usd :: usd
  rl_min_trade_usd :: usd
  rl_max_position_usd :: usd
  rl_max_market_exposure_usd :: usd
  rl_max_portfolio_exposure_usd :: usd
  rl_max_daily_loss_usd :: usd
  rl_max_open_orders :: nat
  rl_max_slippage_bps :: nat
  rl_min_liquidity_usd :: usd
  rl_max_market_data_age_ms :: int
  rl_max_live_order_usd :: usd
  rl_require_market_data :: bool

definition limits_from_config :: "risk_config \<Rightarrow> usd \<Rightarrow> bool \<Rightarrow> risk_limits" where
  "limits_from_config r max_live require_market_data = \<lparr>
     rl_max_trade_usd = rc_max_trade_usd r, rl_min_trade_usd = rc_min_trade_usd r,
     rl_max_position_usd = rc_max_position_usd r,
     rl_max_market_exposure_usd = rc_max_market_exposure_usd r,
     rl_max_portfolio_exposure_usd = rc_max_portfolio_exposure_usd r,
     rl_max_daily_loss_usd = rc_max_daily_loss_usd r, rl_max_open_orders = rc_max_open_orders r,
     rl_max_slippage_bps = rc_max_slippage_bps r, rl_min_liquidity_usd = rc_min_liquidity_usd r,
     rl_max_market_data_age_ms = rc_max_market_data_age_ms r,
     rl_max_live_order_usd = max_live, rl_require_market_data = require_market_data\<rparr>"

definition limits_default :: risk_limits where
  "limits_default = limits_from_config risk_default 50 False"

subsection \<open>Kill switch\<close>

record kill_switch =
  ks_engaged :: bool
  ks_reason :: "string option"
  ks_engaged_by :: "string option"
  ks_engaged_at :: "timestamp option"
  ks_cancel_open_orders :: bool
  ks_activations :: nat

definition kill_switch_new :: kill_switch where
  "kill_switch_new = \<lparr>ks_engaged = False, ks_reason = None, ks_engaged_by = None,
     ks_engaged_at = None, ks_cancel_open_orders = True, ks_activations = 0\<rparr>"

definition engage :: "kill_switch \<Rightarrow> string \<Rightarrow> string \<Rightarrow> timestamp \<Rightarrow> kill_switch" where
  "engage k reason who now =
     (if \<not> ks_engaged k then
        k\<lparr>ks_engaged := True, ks_reason := Some reason, ks_engaged_by := Some who,
          ks_engaged_at := Some now, ks_activations := ks_activations k + 1\<rparr>
      else k)"

definition kill_switch_engaged :: "string \<Rightarrow> timestamp \<Rightarrow> kill_switch" where
  "kill_switch_engaged reason now = engage kill_switch_new reason ''startup'' now"

definition kill_switch_reset :: "kill_switch \<Rightarrow> string \<Rightarrow> kill_switch" where
  "kill_switch_reset k who = k\<lparr>ks_engaged := False, ks_reason := None, ks_engaged_by := Some who,
     ks_engaged_at := None\<rparr>"

definition set_cancel_open_orders :: "kill_switch \<Rightarrow> bool \<Rightarrow> kill_switch" where
  "set_cancel_open_orders k v = k\<lparr>ks_cancel_open_orders := v\<rparr>"

subsection \<open>Structural validation\<close>

datatype validation_error =
    ValZeroQuantity
  | BelowMinSize (bms_qty: rat) (bms_min: rat)
  | OffTick (ot_price: rat) (ot_tick: rat)
  | BuyLimitBelowReference (blr_limit: rat) (blr_reference: rat)
  | SellLimitAboveReference (sar_limit: rat) (sar_reference: rat)

text \<open>\<open>Decimal::fract\<close> keeps the sign; it is zero exactly at the integers.\<close>

definition d_fract :: "rat \<Rightarrow> rat" where
  "d_fract x = (if 0 \<le> x then x - of_int \<lfloor>x\<rfloor> else x - of_int \<lceil>x\<rceil>)"

definition is_on_tick :: "decimal_ops \<Rightarrow> price \<Rightarrow> rat \<Rightarrow> bool" where
  "is_on_tick D p tick \<longleftrightarrow> tick \<le> 0 \<or> d_fract (d_div D p tick) = 0"

definition validate_order :: "decimal_ops \<Rightarrow> order_request \<Rightarrow> rat \<Rightarrow> validation_error + unit" where
  "validate_order D r min_size =
     (if rq_quantity r = 0 then Inl ValZeroQuantity
      else if rq_quantity r < min_size then Inl (BelowMinSize (rq_quantity r) min_size)
      else if rq_tick_size r > 0 \<and> d_fract (d_div D (rq_limit_price r) (rq_tick_size r)) \<noteq> 0
        then Inl (OffTick (rq_limit_price r) (rq_tick_size r))
      else if rq_order_type r = MarketOrder then
        (case rq_side r of
           Buy \<Rightarrow> (if rq_limit_price r < rq_reference_price r
                   then Inl (BuyLimitBelowReference (rq_limit_price r) (rq_reference_price r)) else Inr ())
         | Sell \<Rightarrow> (if rq_limit_price r > rq_reference_price r
                   then Inl (SellLimitAboveReference (rq_limit_price r) (rq_reference_price r)) else Inr ()))
      else Inr ())"

subsection \<open>The engine\<close>

record risk_snapshot =
  rs_daily_pnl :: usd
  rs_gross_exposure :: usd
  rs_market_exposure :: usd
  rs_wallet_exposure :: usd
  rs_token_exposure :: usd
  rs_open_orders :: nat
  rs_equity :: usd

record system_status =
  ss_market_data_healthy :: bool
  ss_source_feed_healthy :: bool
  ss_execution_ready :: bool
  ss_database_healthy :: bool

definition status_default :: system_status where
  "status_default = \<lparr>ss_market_data_healthy = True, ss_source_feed_healthy = True,
     ss_execution_ready = True, ss_database_healthy = True\<rparr>"

definition first_problem :: "system_status \<Rightarrow> string option" where
  "first_problem s =
     (if \<not> ss_execution_ready s then Some ''execution adapter not ready''
      else if \<not> ss_source_feed_healthy s then Some ''source trade feed disconnected''
      else if \<not> ss_market_data_healthy s then Some ''market data feed disconnected''
      else None)"

datatype risk_verdict = Approved | VerdictRejected (verdict_rejection: risk_rejection)

record risk_engine =
  re_limits :: risk_limits
  re_mode :: app_mode
  re_live_armed :: bool

definition engine_new :: "risk_limits \<Rightarrow> app_mode \<Rightarrow> bool \<Rightarrow> risk_engine" where
  "engine_new l m armed = \<lparr>re_limits = l, re_mode = m, re_live_armed = armed\<rparr>"

definition I64_MAX :: int where
  "I64_MAX = 2 ^ 63 - 1"

text \<open>\<open>bps.round().try_into().unwrap_or(i64::MAX)\<close>: half to even, or the maximum.\<close>

definition round_bps :: "rat \<Rightarrow> int" where
  "round_bps x = (let r = round_half_even x in if - (2 ^ 63) \<le> r \<and> r \<le> I64_MAX then r else I64_MAX)"

definition check_gates ::
    "risk_engine \<Rightarrow> system_status \<Rightarrow> kill_switch \<Rightarrow> bool \<Rightarrow> string \<Rightarrow>
     (market_id \<times> bool \<times> string) option \<Rightarrow> source_event_id option \<Rightarrow> risk_verdict" where
  "check_gates E status kill wallet_enabled wallet_label market_tradable already_processed =
     (if ks_engaged kill then
        VerdictRejected (KillSwitchActive (case ks_reason kill of Some r \<Rightarrow> r | None \<Rightarrow> ''engaged''))
      else if is_live (re_mode E) \<and> \<not> re_live_armed E then VerdictRejected LiveExecutionNotArmed
      else case first_problem status of
        Some detail \<Rightarrow> VerdictRejected (SystemUnhealthy detail)
      | None \<Rightarrow>
        (case already_processed of
          Some ev \<Rightarrow> VerdictRejected (DuplicateOrder ev)
        | None \<Rightarrow>
          (if \<not> wallet_enabled then VerdictRejected (RejWalletDisabled wallet_label)
           else case market_tradable of
             Some (mid, tradable, why) \<Rightarrow>
               (if \<not> tradable then VerdictRejected (MarketNotTradable mid why) else Approved)
           | None \<Rightarrow> Approved)))"

definition check_amounts :: "decimal_ops \<Rightarrow> risk_engine \<Rightarrow> order_request \<Rightarrow> risk_snapshot \<Rightarrow> risk_verdict" where
  "check_amounts D E order snap =
     (let L = re_limits E; notional = request_notional D order;
          projected_token = d_add D (rs_token_exposure snap) notional;
          projected_market = d_add D (rs_market_exposure snap) notional;
          projected_gross = d_add D (rs_gross_exposure snap) notional
      in if rs_daily_pnl snap < - rl_max_daily_loss_usd L then
           VerdictRejected (DailyLossLimitReached (rs_daily_pnl snap) (rl_max_daily_loss_usd L))
         else if rs_open_orders snap \<ge> rl_max_open_orders L then
           VerdictRejected (MaxOpenOrdersReached (rs_open_orders snap) (rl_max_open_orders L))
         else if notional < rl_min_trade_usd L then
           VerdictRejected (BelowMinimumOrderSize notional (rl_min_trade_usd L))
         else if notional > rl_max_trade_usd L then
           VerdictRejected (MaxTradeSizeExceeded notional (rl_max_trade_usd L))
         else if is_live (re_mode E) \<and> notional > rl_max_live_order_usd L then
           VerdictRejected (MaxTradeSizeExceeded notional (rl_max_live_order_usd L))
         else if projected_token > rl_max_position_usd L then
           VerdictRejected (MaxPositionExceeded (rq_market_id order) projected_token (rl_max_position_usd L))
         else if projected_market > rl_max_market_exposure_usd L then
           VerdictRejected (MaxMarketExposureExceeded (rq_market_id order) projected_market
             (rl_max_market_exposure_usd L))
         else if projected_gross > rl_max_portfolio_exposure_usd L then
           VerdictRejected (MaxPortfolioExposureExceeded projected_gross (rl_max_portfolio_exposure_usd L))
         else Approved)"

definition check_market ::
    "decimal_ops \<Rightarrow> risk_engine \<Rightarrow> order_request \<Rightarrow> order_book option \<Rightarrow> timestamp \<Rightarrow> risk_verdict" where
  "check_market D E order book now =
     (let L = re_limits E
      in case book of
        Some b \<Rightarrow>
          (let age = num_milliseconds (now - bk_timestamp b)
           in if age > rl_max_market_data_age_ms L then
                VerdictRejected (StaleMarketData age (rl_max_market_data_age_ms L))
              else
                let available = notional_within D b (rq_side order) (rq_limit_price order)
                in if available < rl_min_liquidity_usd L then
                     VerdictRejected (InsufficientLiquidity available (rl_min_liquidity_usd L))
                   else case sweep_vwap D b (rq_side order) (rq_quantity order) (rq_limit_price order) of
                     Some (vwap, _) \<Rightarrow>
                       (let bps = bps_slippage D (rq_reference_price order) vwap (rq_side order)
                        in if bps > of_nat (rl_max_slippage_bps L) then
                             VerdictRejected (SlippageTooWide (round_bps bps) (rl_max_slippage_bps L))
                           else Approved)
                   | None \<Rightarrow> VerdictRejected (InsufficientLiquidity 0 (rl_min_liquidity_usd L)))
      | None \<Rightarrow>
          (if rl_require_market_data L then
             VerdictRejected (StaleMarketData I64_MAX (rl_max_market_data_age_ms L))
           else Approved))"

definition check ::
    "decimal_ops \<Rightarrow> risk_engine \<Rightarrow> order_request \<Rightarrow> risk_snapshot \<Rightarrow> system_status \<Rightarrow> kill_switch \<Rightarrow>
     order_book option \<Rightarrow> bool \<Rightarrow> string \<Rightarrow> (market_id \<times> bool \<times> string) option \<Rightarrow>
     source_event_id option \<Rightarrow> timestamp \<Rightarrow> risk_verdict" where
  "check D E order snap status kill book wallet_enabled wallet_label market_tradable already_processed now =
     (case check_gates E status kill wallet_enabled wallet_label market_tradable already_processed of
        VerdictRejected r \<Rightarrow> VerdictRejected r
      | Approved \<Rightarrow>
          (case check_amounts D E order snap of
             VerdictRejected r \<Rightarrow> VerdictRejected r
           | Approved \<Rightarrow> check_market D E order book now))"

fun should_auto_engage_kill_switch :: "risk_rejection \<Rightarrow> bool" where
  "should_auto_engage_kill_switch (DailyLossLimitReached _ _) = True"
| "should_auto_engage_kill_switch _ = False"

subsection \<open>The daily budget\<close>

record daily_risk_budget =
  db_day :: nat
  db_realized_today :: usd
  db_limit :: usd

definition budget_new :: "(timestamp \<Rightarrow> nat) \<Rightarrow> usd \<Rightarrow> timestamp \<Rightarrow> daily_risk_budget" where
  "budget_new ordinal limit now = \<lparr>db_day = ordinal now, db_realized_today = 0, db_limit = limit\<rparr>"

definition budget_record ::
    "decimal_ops \<Rightarrow> (timestamp \<Rightarrow> nat) \<Rightarrow> daily_risk_budget \<Rightarrow> usd \<Rightarrow> timestamp \<Rightarrow> daily_risk_budget" where
  "budget_record D ordinal b pnl now =
     (let b1 = (if ordinal now \<noteq> db_day b then b\<lparr>db_day := ordinal now, db_realized_today := 0\<rparr> else b)
      in b1\<lparr>db_realized_today := d_add D (db_realized_today b1) pnl\<rparr>)"

definition budget_remaining :: "decimal_ops \<Rightarrow> daily_risk_budget \<Rightarrow> usd" where
  "budget_remaining D b = max (d_add D (db_limit b) (min (db_realized_today b) 0)) 0"

definition budget_breached :: "daily_risk_budget \<Rightarrow> bool" where
  "budget_breached b \<longleftrightarrow> db_realized_today b < - db_limit b"

subsection \<open>What the checks mean\<close>

lemma check_Approved:
  "check D E order snap status kill book we wl mt ap now = Approved \<longleftrightarrow>
     check_gates E status kill we wl mt ap = Approved \<and> check_amounts D E order snap = Approved \<and>
     check_market D E order book now = Approved"
  by (auto simp: check_def split: risk_verdict.splits)

lemma check_gates_Approved:
  "check_gates E status kill we wl mt ap = Approved \<longleftrightarrow>
     \<not> ks_engaged kill \<and> (is_live (re_mode E) \<longrightarrow> re_live_armed E) \<and> first_problem status = None \<and>
     ap = None \<and> we \<and> (case mt of Some (_, tradable, _) \<Rightarrow> tradable | None \<Rightarrow> True)"
  by (auto simp: check_gates_def split: option.splits prod.splits)

lemma guarded_Approved: "(if c then VerdictRejected r else v) = Approved \<longleftrightarrow> \<not> c \<and> v = Approved"
  by simp

lemma check_amounts_Approved:
  "check_amounts D E order snap = Approved \<longleftrightarrow>
     (let L = re_limits E; n = request_notional D order
      in - rl_max_daily_loss_usd L \<le> rs_daily_pnl snap \<and> rs_open_orders snap < rl_max_open_orders L \<and>
         rl_min_trade_usd L \<le> n \<and> n \<le> rl_max_trade_usd L \<and>
         (is_live (re_mode E) \<longrightarrow> n \<le> rl_max_live_order_usd L) \<and>
         d_add D (rs_token_exposure snap) n \<le> rl_max_position_usd L \<and>
         d_add D (rs_market_exposure snap) n \<le> rl_max_market_exposure_usd L \<and>
         d_add D (rs_gross_exposure snap) n \<le> rl_max_portfolio_exposure_usd L)"
  unfolding check_amounts_def Let_def guarded_Approved by (auto simp: not_less not_le)

lemma check_market_Approved:
  "check_market D E order book now = Approved \<longleftrightarrow>
     (case book of
        None \<Rightarrow> \<not> rl_require_market_data (re_limits E)
      | Some b \<Rightarrow> num_milliseconds (now - bk_timestamp b) \<le> rl_max_market_data_age_ms (re_limits E) \<and>
          rl_min_liquidity_usd (re_limits E) \<le> notional_within D b (rq_side order) (rq_limit_price order) \<and>
          (case sweep_vwap D b (rq_side order) (rq_quantity order) (rq_limit_price order) of
             None \<Rightarrow> False
           | Some (vwap, _) \<Rightarrow>
               bps_slippage D (rq_reference_price order) vwap (rq_side order) \<le> of_nat (rl_max_slippage_bps (re_limits E))))"
  by (auto simp: check_market_def Let_def not_less not_le split: option.splits prod.splits)

text \<open>A rejection comes from the first stage that does not approve.\<close>

lemma check_stage:
  "check_gates E status kill we wl mt ap = VerdictRejected r \<Longrightarrow>
     check D E order snap status kill book we wl mt ap now = VerdictRejected r"
  "check_gates E status kill we wl mt ap = Approved \<Longrightarrow> check_amounts D E order snap = VerdictRejected r \<Longrightarrow>
     check D E order snap status kill book we wl mt ap now = VerdictRejected r"
  by (simp_all add: check_def)

lemma amounts_not_kill: "check_amounts D E order snap \<noteq> VerdictRejected (KillSwitchActive s)"
  by (simp add: check_amounts_def Let_def)

lemma market_not_kill:
  "check_market D E order book now \<noteq> VerdictRejected (KillSwitchActive s)"
  "check_market D E order book now \<noteq> VerdictRejected (DailyLossLimitReached a b)"
  by (auto simp: check_market_def Let_def split: option.splits prod.splits)

lemma gates_not_loss: "check_gates E status kill we wl mt ap \<noteq> VerdictRejected (DailyLossLimitReached a b)"
  by (auto simp: check_gates_def split: option.splits prod.splits)

lemma amounts_loss:
  "check_amounts D E order snap = VerdictRejected (DailyLossLimitReached a b) \<longleftrightarrow>
     rs_daily_pnl snap < - rl_max_daily_loss_usd (re_limits E) \<and> a = rs_daily_pnl snap \<and>
     b = rl_max_daily_loss_usd (re_limits E)"
  by (auto simp: check_amounts_def Let_def)

subsection \<open>Properties\<close>

text \<open>C28: Approval means that every check passed. The engine approves an order exactly when the kill
  switch is off, live execution is armed if the mode is live, the system is healthy, the source
  event is new, the wallet is enabled and the market tradable; when the day's loss, the open orders,
  the size and the three projected exposures are within their limits; and when the book is fresh,
  liquid enough, and can be swept within the slippage limit (or, with no book, market data is not
  required).\<close>

theorem approved_exactly:
  "check D E order snap status kill book we wl mt ap now = Approved \<longleftrightarrow>
     (\<not> ks_engaged kill \<and> (if is_live (re_mode E) then re_live_armed E else True) \<and> first_problem status = None \<and>
      ap = None \<and> we \<and> (case mt of Some (_, tradable, _) \<Rightarrow> tradable | None \<Rightarrow> True)) \<and>
     (let L = re_limits E; n = request_notional D order
      in - rl_max_daily_loss_usd L \<le> rs_daily_pnl snap \<and> rs_open_orders snap < rl_max_open_orders L \<and>
         rl_min_trade_usd L \<le> n \<and> n \<le> rl_max_trade_usd L \<and>
         n \<le> (if is_live (re_mode E) then rl_max_live_order_usd L else n) \<and>
         d_add D (rs_token_exposure snap) n \<le> rl_max_position_usd L \<and>
         d_add D (rs_market_exposure snap) n \<le> rl_max_market_exposure_usd L \<and>
         d_add D (rs_gross_exposure snap) n \<le> rl_max_portfolio_exposure_usd L) \<and>
     (case book of
        None \<Rightarrow> \<not> rl_require_market_data (re_limits E)
      | Some b \<Rightarrow> num_milliseconds (now - bk_timestamp b) \<le> rl_max_market_data_age_ms (re_limits E) \<and>
          rl_min_liquidity_usd (re_limits E) \<le> notional_within D b (rq_side order) (rq_limit_price order) \<and>
          (case sweep_vwap D b (rq_side order) (rq_quantity order) (rq_limit_price order) of
             None \<Rightarrow> False
           | Some (vwap, _) \<Rightarrow>
               bps_slippage D (rq_reference_price order) vwap (rq_side order)
                 \<le> of_nat (rl_max_slippage_bps (re_limits E))))"
  unfolding check_Approved check_gates_Approved check_amounts_Approved check_market_Approved Let_def
  by auto

text \<open>A concrete approval: a fresh book that covers the order at its reference price.\<close>

theorem approved_exactly_witness:
  "check exact_decimal (engine_new (limits_default\<lparr>rl_min_liquidity_usd := 50\<rparr>) PaperMode False)
     (sample_request\<lparr>rq_limit_price := 61/100, rq_reference_price := 61/100\<rparr>)
     \<lparr>rs_daily_pnl = 0, rs_gross_exposure = 0, rs_market_exposure = 0, rs_wallet_exposure = 0,
      rs_token_exposure = 0, rs_open_orders = 0, rs_equity = 1000\<rparr>
     status_default kill_switch_new (Some sample_book) True ''w'' None None 0
   = Approved"
proof -
  have sweep: "sweep_vwap exact_decimal sample_book Buy 100 (61/100) = Some (61/100, 100)"
    by (simp add: sample_book_def sweep_vwap_def taking_side_def within_limit_def Let_def
        valid_price_def valid_qty_def)
  have liquid: "notional_within exact_decimal sample_book Buy (61/100) = 61"
    by (simp add: sample_book_def notional_within_def taking_side_def within_limit_def d_sum_def qty_notional_def)
  show ?thesis
    unfolding approved_exactly
    by (simp add: engine_new_def limits_default_def limits_from_config_def risk_default_def is_live_def
        sample_request_def request_notional_def qty_notional_def first_problem_def status_default_def
        kill_switch_new_def Let_def sweep liquid num_milliseconds_def bps_slippage_def tdiv_def sample_book_def [THEN arg_cong [where f = bk_timestamp]])
qed

text \<open>The kill switch cannot be bypassed and comes first: with the switch engaged every order is
  rejected for that reason, whatever else is true of it, and an order is rejected for that reason
  only then. Engaging always takes effect, keeps the first reason when repeated, and only an
  explicit reset releases it.\<close>

theorem kill_switch_first:
  "(case check D E order snap status kill book we wl mt ap now of
      VerdictRejected (KillSwitchActive _) \<Rightarrow> ks_engaged kill
    | _ \<Rightarrow> \<not> ks_engaged kill) \<and>
   ks_engaged (engage kill r who t) \<and>
   engage (engage kill r who t) r' who' t' = engage kill r who t \<and>
   \<not> ks_engaged (kill_switch_reset kill who)"
proof -
  have "check D E order snap status kill book we wl mt ap now =
      VerdictRejected (KillSwitchActive (case ks_reason kill of Some r \<Rightarrow> r | None \<Rightarrow> ''engaged''))"
    if "ks_engaged kill"
    using that by (simp add: check_def check_gates_def)
  moreover have "check D E order snap status kill book we wl mt ap now \<noteq> VerdictRejected (KillSwitchActive s)"
    if "\<not> ks_engaged kill" for s
  proof -
    have "check_gates E status kill we wl mt ap \<noteq> VerdictRejected (KillSwitchActive s)"
      using that by (auto simp: check_gates_def split: option.splits prod.splits)
    then show ?thesis using amounts_not_kill market_not_kill
      by (auto simp: check_def split: risk_verdict.splits)
  qed
  ultimately show ?thesis
    by (cases "ks_engaged kill")
      (auto simp: engage_def kill_switch_reset_def split: risk_verdict.splits risk_rejection.splits)
qed

text \<open>The daily loss limit stops trading by itself. The engine answers that the limit is reached
  exactly when all gates pass and the day's loss exceeds it, before it looks at any size, exposure
  or book; and this is the only rejection that asks for the kill switch.\<close>

theorem daily_loss_trips_the_switch:
  "(\<exists>r. check D E order snap status kill book we wl mt ap now = VerdictRejected r \<and>
       should_auto_engage_kill_switch r) \<longleftrightarrow>
   check_gates E status kill we wl mt ap = Approved \<and>
   rs_daily_pnl snap < - rl_max_daily_loss_usd (re_limits E)"
proof -
  have auto: "should_auto_engage_kill_switch r \<longleftrightarrow> (\<exists>a b. r = DailyLossLimitReached a b)" for r
    by (cases r) simp_all
  let ?c = "check D E order snap status kill book we wl mt ap now"
  have "?c = VerdictRejected (DailyLossLimitReached a b) \<longleftrightarrow>
      check_gates E status kill we wl mt ap = Approved \<and>
      check_amounts D E order snap = VerdictRejected (DailyLossLimitReached a b)" for a b
    using gates_not_loss [of E status kill we wl mt ap] market_not_kill(2) [of D E order book now]
    by (cases "check_gates E status kill we wl mt ap"; cases "check_amounts D E order snap") (auto simp: check_def)
  with amounts_loss show ?thesis unfolding auto by blast
qed

text \<open>The projected exposure grows with every order, also with one that closes a position: a sell
  of 100 shares at 0.50, out of a long position of 100 shares whose 50 dollars are the whole
  position limit, is rejected for exceeding that limit.\<close>

definition closing_sell :: order_request where
  "closing_sell = sample_request\<lparr>rq_side := Sell, rq_limit_price := 1/2, rq_reference_price := 1/2\<rparr>"

theorem closing_sell_is_rejected:
  "check exact_decimal (engine_new (limits_default\<lparr>rl_max_position_usd := 50\<rparr>) PaperMode False) closing_sell
     \<lparr>rs_daily_pnl = 0, rs_gross_exposure = 50, rs_market_exposure = 50, rs_wallet_exposure = 0,
      rs_token_exposure = 50, rs_open_orders = 0, rs_equity = 1000\<rparr>
     status_default kill_switch_new None True ''w'' None None 0
   = VerdictRejected (MaxPositionExceeded (MarketId ''m'') 100 50)"
  by (simp add: check_def check_gates_def check_amounts_def engine_new_def limits_default_def
      limits_from_config_def risk_default_def is_live_def closing_sell_def sample_request_def
      request_notional_def qty_notional_def first_problem_def status_default_def kill_switch_new_def Let_def)

lemma d_fract_zero: "d_fract x = 0 \<longleftrightarrow> x = of_int \<lfloor>x\<rfloor>"
proof (cases "0 \<le> x")
  case False
  have "x = of_int \<lceil>x\<rceil> \<longleftrightarrow> x = of_int \<lfloor>x\<rfloor>"
    by (metis ceiling_of_int floor_of_int)
  with False show ?thesis by (simp add: d_fract_def)
qed (simp add: d_fract_def)

text \<open>Structural validation accepts an order exactly when it has a positive quantity of at least
  the market's minimum, its limit is a whole number of ticks, and, if it is a market order, its limit
  is on the executable side of the reference price.\<close>

theorem validate_order_exactly:
  "validate_order D r min_size = Inr () \<longleftrightarrow>
     rq_quantity r \<noteq> 0 \<and> min_size \<le> rq_quantity r \<and> is_on_tick D (rq_limit_price r) (rq_tick_size r) \<and>
     (rq_order_type r = LimitOrder \<or>
      (case rq_side r of Buy \<Rightarrow> rq_reference_price r \<le> rq_limit_price r
       | Sell \<Rightarrow> rq_limit_price r \<le> rq_reference_price r))"
  by (cases "rq_order_type r"; cases "rq_side r") (auto simp: validate_order_def is_on_tick_def)

end
