(* ===== verification/Matching.thy ===== *)
theory Matching
  imports Risk
begin

section \<open>Fill simulation (crates/simulator/src/matching.rs)\<close>

text \<open>
  The simulated venue walks the real book. Its random numbers come from the \<open>rand\<close> crate:
  a call receives the three draws it may make, the rejection draw, the queue-risk draw and
  the fraction that is filled when the queue risk strikes (drawn from 0.2 to 0.8).
\<close>

datatype sim_outcome =
    SimFilled (sim_quantity: qty) (sim_price: price) (sim_fee: usd) (sim_is_maker: bool)
  | SimResting
  | SimRejected (sim_reason: string)
  | SimNoLiquidity

record match_params =
  mp_fee_bps :: nat
  mp_slippage_bps :: nat
  mp_partial_fill_enabled :: bool
  mp_fill_probability :: rat
  mp_reject_probability :: rat

definition match_params_default :: match_params where
  "match_params_default = \<lparr>mp_fee_bps = 0, mp_slippage_bps = 10, mp_partial_fill_enabled = True,
     mp_fill_probability = f64_round (92/100), mp_reject_probability = f64_round (1/100)\<rparr>"

record draws =
  dr_reject :: rat
  dr_fill :: rat
  dr_frac :: rat

definition is_marketable :: "order_request \<Rightarrow> order_book \<Rightarrow> bool" where
  "is_marketable order book \<longleftrightarrow>
     (if rq_order_type order = MarketOrder then True
      else case rq_side order of
        Buy \<Rightarrow> (case best_ask book of Some a \<Rightarrow> lv_price a \<le> rq_limit_price order | None \<Rightarrow> False)
      | Sell \<Rightarrow> (case best_bid book of Some b \<Rightarrow> lv_price b \<ge> rq_limit_price order | None \<Rightarrow> False))"

definition resting_would_fill :: "order_request \<Rightarrow> price \<Rightarrow> bool" where
  "resting_would_fill order traded \<longleftrightarrow>
     (case rq_side order of Buy \<Rightarrow> traded \<le> rq_limit_price order | Sell \<Rightarrow> traded \<ge> rq_limit_price order)"

definition apply_slippage :: "decimal_ops \<Rightarrow> price \<Rightarrow> side \<Rightarrow> nat \<Rightarrow> price" where
  "apply_slippage D p s bps =
     (if bps = 0 then p
      else let f = d_div D (of_nat bps) 10000
           in price_saturating (case s of Buy \<Rightarrow> d_mul D p (d_add D 1 f) | Sell \<Rightarrow> d_mul D p (d_sub D 1 f)))"

definition clip_to_limit :: "order_request \<Rightarrow> price \<Rightarrow> price" where
  "clip_to_limit order slipped =
     (case rq_side order of
        Buy \<Rightarrow> if slipped > rq_limit_price order then rq_limit_price order else slipped
      | Sell \<Rightarrow> if slipped < rq_limit_price order then rq_limit_price order else slipped)"

definition fill_fee :: "decimal_ops \<Rightarrow> qty \<Rightarrow> price \<Rightarrow> nat \<Rightarrow> usd" where
  "fill_fee D q p bps = d_div D (d_mul D (qty_notional D q p) (of_nat bps)) 10000"

text \<open>The fraction of the intended size: \<open>Decimal::try_from\<close> of the draw, or one half.\<close>

definition shortfall_qty :: "decimal_ops \<Rightarrow> qty \<Rightarrow> rat \<Rightarrow> qty" where
  "shortfall_qty D q frac_draw =
     (let frac = (case d_try_f64 D frac_draw of Some f \<Rightarrow> f | None \<Rightarrow> 1/2)
      in case ok (qty_new (max (d_mul D q frac) 0)) of Some r \<Rightarrow> r | None \<Rightarrow> 0)"

definition match_order ::
    "decimal_ops \<Rightarrow> order_request \<Rightarrow> order_book \<Rightarrow> match_params \<Rightarrow> draws \<Rightarrow> sim_outcome" where
  "match_order D order book P r =
     (if dr_reject r < mp_reject_probability P then SimRejected ''simulated venue rejection''
      else if \<not> is_marketable order book then
        (case rq_time_in_force order of Ioc \<Rightarrow> SimNoLiquidity | Fok \<Rightarrow> SimNoLiquidity | Gtc \<Rightarrow> SimResting)
      else case sweep_vwap D book (rq_side order) (rq_quantity order) (rq_limit_price order) of
        None \<Rightarrow> SimNoLiquidity
      | Some (vwap, available) \<Rightarrow>
          (let fill_price = clip_to_limit order (apply_slippage D vwap (rq_side order) (mp_slippage_bps P))
           in if available < rq_quantity order \<and>
                 (rq_time_in_force order = Fok \<or> \<not> mp_partial_fill_enabled P) then SimNoLiquidity
              else if mp_fill_probability P < 1 \<and> dr_fill r > mp_fill_probability P then
                (if \<not> mp_partial_fill_enabled P then SimNoLiquidity
                 else
                   let q = shortfall_qty D available (dr_frac r)
                   in if q = 0 then SimNoLiquidity
                      else SimFilled q fill_price (fill_fee D q fill_price (mp_fee_bps P)) False)
              else SimFilled available fill_price (fill_fee D available fill_price (mp_fee_bps P)) False))"

subsection \<open>Fills are pessimistic\<close>

text \<open>A draw is a fraction of the intended size.\<close>

definition fraction_draw :: "decimal_ops \<Rightarrow> rat \<Rightarrow> bool" where
  "fraction_draw D x \<longleftrightarrow> (case d_try_f64 D x of Some f \<Rightarrow> 0 \<le> f \<and> f \<le> 1 | None \<Rightarrow> True)"

text \<open>A filled outcome comes from the sweep of the book.\<close>

lemma match_order_filled:
  assumes "match_order D order book P r = SimFilled q p fee mk"
  shows "\<exists>vwap available. sweep_vwap D book (rq_side order) (rq_quantity order) (rq_limit_price order) = Some (vwap, available) \<and>
           p = clip_to_limit order (apply_slippage D vwap (rq_side order) (mp_slippage_bps P)) \<and>
           fee = fill_fee D q p (mp_fee_bps P) \<and> \<not> mk \<and> is_marketable order book \<and>
           (q = available \<or> (q = shortfall_qty D available (dr_frac r) \<and> q \<noteq> 0 \<and> mp_partial_fill_enabled P)) \<and>
           (available = rq_quantity order \<or> available > rq_quantity order \<or>
            (rq_time_in_force order \<noteq> Fok \<and> mp_partial_fill_enabled P))"
  using assms unfolding match_order_def Let_def
  by (auto split: if_splits option.splits prod.splits time_in_force.splits)

lemma clip_within: "case rq_side order of Buy \<Rightarrow> clip_to_limit order x \<le> rq_limit_price order
    | Sell \<Rightarrow> rq_limit_price order \<le> clip_to_limit order x"
  by (cases "rq_side order") (simp_all add: clip_to_limit_def)

lemma clip_valid: "valid_price x \<Longrightarrow> valid_price (rq_limit_price order) \<Longrightarrow> valid_price (clip_to_limit order x)"
  by (cases "rq_side order") (simp_all add: clip_to_limit_def)

lemma slippage_valid: "valid_price p \<Longrightarrow> valid_price (apply_slippage D p s bps)"
  by (simp add: apply_slippage_def Let_def)

context decimal_exact
begin

lemma slippage_adverse:
  assumes "0 \<le> p" and "PRICE_MIN \<le> p" and "p \<le> PRICE_MAX"
  shows "p \<le> apply_slippage D p Buy bps" and "apply_slippage D p Sell bps \<le> p"
proof -
  define f where "f = (of_nat bps :: rat) / 10000"
  have f: "0 \<le> f" by (simp add: f_def)
  have "p \<le> p * (1 + f)" "p * (1 - f) \<le> p"
    using mult_left_mono [of 1 "1 + f" p] mult_left_mono [of "1 - f" 1 p] f assms(1) by simp_all
  with assms show "p \<le> apply_slippage D p Buy bps" "apply_slippage D p Sell bps \<le> p"
    by (simp_all add: apply_slippage_def exact Let_def f_def [symmetric] price_saturating_ge
        price_saturating_le)
qed

lemma shortfall_bounds:
  assumes "fraction_draw D x" and "0 \<le> q"
  shows "0 \<le> shortfall_qty D q x \<and> shortfall_qty D q x \<le> q"
proof -
  define fr where "fr = (case d_try_f64 D x of Some f \<Rightarrow> f | None \<Rightarrow> 1/2)"
  have "0 \<le> fr" "fr \<le> 1" using assms(1) by (auto simp: fr_def fraction_draw_def split: option.splits)
  with assms(2) have "0 \<le> q * fr" "q * fr \<le> q" by (simp_all add: mult_left_le)
  then show ?thesis
    by (simp add: shortfall_qty_def fr_def [symmetric] exact max_def valid_qty_def)
qed

lemma match_order_sound:
  assumes "valid_levels book" and "0 \<le> rq_quantity order" and "valid_price (rq_limit_price order)"
    and "fraction_draw D (dr_frac r)" and "match_order D order book P r = SimFilled q p fee mk"
  shows "0 < q" and "q \<le> rq_quantity order"
    and "q \<le> liquidity_within D book (rq_side order) (rq_limit_price order)"
    and "valid_price p" and "fee = q * p * of_nat (mp_fee_bps P) / 10000"
    and "case rq_side order of Buy \<Rightarrow> p \<le> rq_limit_price order | Sell \<Rightarrow> rq_limit_price order \<le> p"
proof -
  obtain vwap available where m:
    "sweep_vwap D book (rq_side order) (rq_quantity order) (rq_limit_price order) = Some (vwap, available)"
    "p = clip_to_limit order (apply_slippage D vwap (rq_side order) (mp_slippage_bps P))"
    "fee = fill_fee D q p (mp_fee_bps P)"
    "q = available \<or> (q = shortfall_qty D available (dr_frac r) \<and> q \<noteq> 0)"
    using match_order_filled [OF assms(5)] by blast
  from sweep_vwap_cases [OF assms(1,2), of "rq_side order" "rq_limit_price order"] m(1)
  have v: "valid_price vwap"
    "available = min (rq_quantity order) (liquidity_within D book (rq_side order) (rq_limit_price order))"
    "0 < available" by auto
  with m(4) shortfall_bounds [OF assms(4), of available] have q: "0 < q" "q \<le> available" by auto
  then show "0 < q" "q \<le> rq_quantity order"
    "q \<le> liquidity_within D book (rq_side order) (rq_limit_price order)" using v by auto
  show "valid_price p" unfolding m(2) by (intro clip_valid slippage_valid v assms(3))
  show "fee = q * p * of_nat (mp_fee_bps P) / 10000"
    by (simp add: m(3) fill_fee_def qty_notional_def exact)
  show "case rq_side order of Buy \<Rightarrow> p \<le> rq_limit_price order | Sell \<Rightarrow> rq_limit_price order \<le> p"
    unfolding m(2) by (rule clip_within)
qed

end

subsection \<open>Properties\<close>


definition sample_params :: match_params where
  "sample_params = \<lparr>mp_fee_bps = 0, mp_slippage_bps = 0, mp_partial_fill_enabled = True,
     mp_fill_probability = 9/10, mp_reject_probability = 0\<rparr>"

definition sample_draws :: draws where
  "sample_draws = \<lparr>dr_reject = 1/2, dr_fill = 95/100, dr_frac = 1/2\<rparr>"

lemma sample_sweep: "sweep_vwap exact_decimal sample_book Buy 100 (62/100) = Some (61/100, 100)"
  by (simp add: sample_book_def sweep_vwap_def taking_side_def within_limit_def Let_def
      valid_price_def valid_qty_def)

lemma sample_book_valid: "valid_levels sample_book"
  by (simp add: sample_book_def valid_levels_def valid_level_def valid_price_def valid_qty_def)

lemma sample_match:
  "match_order exact_decimal (sample_request\<lparr>rq_time_in_force := tif\<rparr>) sample_book sample_params sample_draws =
     SimFilled 50 (61/100) 0 False"
  using sample_sweep
  by (simp add: match_order_def sample_params_def sample_draws_def sample_request_def is_marketable_def
      clip_to_limit_def apply_slippage_def shortfall_qty_def fill_fee_def qty_notional_def
      valid_qty_def)


text \<open>A fill-or-kill order can be filled in part. When the queue-risk draw strikes, the quantity
  is scaled down without another look at the time in force: an order for 100 shares that the book
  covers in full and that must fill completely or not at all is filled for 50.\<close>

theorem fill_or_kill_is_filled_in_part:
  "match_order exact_decimal (sample_request\<lparr>rq_time_in_force := Fok\<rparr>) sample_book sample_params
     sample_draws = SimFilled 50 (61/100) 0 False \<and>
   rq_quantity (sample_request\<lparr>rq_time_in_force := Fok\<rparr>) = 100 \<and>
   sweep_vwap exact_decimal sample_book Buy 100 (62/100) = Some (61/100, 100)"
  using sample_match sample_sweep by (simp add: sample_request_def)

end
