(* ===== verification/Adapter.thy ===== *)
theory Adapter
  imports Matching
begin

section \<open>The execution seam (crates/execution/src/adapter.rs)\<close>

text \<open>
  What every venue adapter answers, and the contract the order manager relies on: the locale
  \<open>execution_adapter\<close>. The state of an adapter is whatever it keeps, and \<open>submit\<close> and
  \<open>cancel\<close> return it updated. The text of an order id is its UUID, an argument.
\<close>

datatype execution_error =
    VenueRejected string
  | TransportFailure string
  | NotAuthenticated string
  | AdapterNotReady string
  | AmbiguousOutcome string
  | UnknownAtVenue order_id
  | UnsupportedOperation string

fun execution_error_text :: "(nat \<Rightarrow> string) \<Rightarrow> execution_error \<Rightarrow> string" where
  "execution_error_text uuid (VenueRejected s) = ''venue rejected the order: '' @ s"
| "execution_error_text uuid (TransportFailure s) = ''transport failure: '' @ s"
| "execution_error_text uuid (NotAuthenticated s) = ''not authenticated: '' @ s"
| "execution_error_text uuid (AdapterNotReady s) = ''execution adapter is not ready: '' @ s"
| "execution_error_text uuid (AmbiguousOutcome s) =
     ''ambiguous outcome, reconciliation required: '' @ s"
| "execution_error_text uuid (UnknownAtVenue i) =
     ''order '' @ uuid i @ '' is unknown to this adapter''"
| "execution_error_text uuid (UnsupportedOperation s) =
     ''operation unsupported by this adapter: '' @ s"

text \<open>Does the outcome leave a possible order at the venue?\<close>

fun requires_reconciliation :: "execution_error \<Rightarrow> bool" where
  "requires_reconciliation (AmbiguousOutcome _) = True"
| "requires_reconciliation (TransportFailure _) = True"
| "requires_reconciliation _ = False"

record acknowledgement =
  ak_order_id :: order_id
  ak_venue_order_id :: "string option"
  ak_accepted_at :: timestamp
  ak_immediate_fills :: "fill list"
  ak_terminal :: bool

record venue_position =
  vp_token_id :: token_id
  vp_quantity :: qty

record adapter_capabilities =
  cp_supports_cancel :: bool
  cp_supports_position_query :: bool
  cp_is_real_money :: bool

text \<open>A request the risk checks let pass, and an acknowledgement that keeps to it.\<close>

definition request_ok :: "order_request \<Rightarrow> bool" where
  "request_ok r \<longleftrightarrow> 0 < rq_quantity r \<and> valid_price (rq_limit_price r)"

definition fill_of :: "order_request \<Rightarrow> fill \<Rightarrow> bool" where
  "fill_of r f \<longleftrightarrow> fi_order_id f = rq_order_id r \<and> fi_token_id f = rq_token_id r \<and>
     fi_market_id f = rq_market_id r \<and> fi_side f = rq_side r \<and>
     fi_correlation_id f = rq_correlation_id r \<and> 0 < fi_quantity f \<and> valid_price (fi_price f)"

definition filled_by :: "fill list \<Rightarrow> rat" where
  "filled_by fs = sum_list (map fi_quantity fs)"

definition ack_ok :: "order_request \<Rightarrow> acknowledgement \<Rightarrow> bool" where
  "ack_ok r a \<longleftrightarrow> ak_order_id a = rq_order_id r \<and> list_all (fill_of r) (ak_immediate_fills a) \<and>
     filled_by (ak_immediate_fills a) \<le> rq_quantity r"

lemma filled_by_simps [simp]:
  "filled_by [] = 0"
  "filled_by (f # fs) = fi_quantity f + filled_by fs"
  "filled_by (fs @ gs) = filled_by fs + filled_by gs"
  by (simp_all add: filled_by_def)

lemma filled_by_nonneg: "list_all (fill_of r) fs \<Longrightarrow> 0 \<le> filled_by fs"
  by (induction fs) (auto simp: fill_of_def)

text \<open>The contract between a venue and its client.\<close>

locale execution_adapter =
  fixes venue_ok :: "'s \<Rightarrow> bool"
    and submit :: "'s \<Rightarrow> order_request \<Rightarrow> 's \<times> (execution_error + acknowledgement)"
    and cancel :: "'s \<Rightarrow> order_id \<Rightarrow> string option \<Rightarrow> 's \<times> (execution_error + unit)"
  assumes submit_keeps: "venue_ok s \<Longrightarrow> request_ok r \<Longrightarrow> venue_ok (fst (submit s r))"
    and submit_acks: "venue_ok s \<Longrightarrow> request_ok r \<Longrightarrow> submit s r = (s', Inr a) \<Longrightarrow> ack_ok r a"
    and cancel_keeps: "venue_ok s \<Longrightarrow> venue_ok (fst (cancel s i v))"

text \<open>A venue whose cancellations end: the order is gone, or was not there.\<close>

locale cooperative_adapter = execution_adapter +
  assumes cancel_answers: "venue_ok s \<Longrightarrow> cancel s i v = (s', Inl e) \<Longrightarrow> e = UnknownAtVenue i"

end
