(* ===== verification/Paper.thy ===== *)
theory Paper
  imports Adapter
begin

section \<open>Paper execution (crates/execution/src/paper.rs)\<close>

text \<open>
  The simulated venue: a cache of books, resting orders, signed positions, and the fills that
  nobody has polled yet. The locks and the latency sleep are left out; what a call takes from the
  outside (the random draws, the fresh UUIDs and the clock) is the record \<open>fill_inputs\<close>. The
  sequence number is a \<open>u64\<close> that counts acknowledgements, so it does not wrap in practice and is
  a natural number here.
\<close>

subsection \<open>State\<close>

type_synonym book_cache = "(token_id, order_book) hashmap"

definition cache_put :: "book_cache \<Rightarrow> order_book \<Rightarrow> book_cache" where
  "cache_put c b = AList.update (bk_token b) b c"

definition cache_get :: "book_cache \<Rightarrow> token_id \<Rightarrow> order_book option" where
  "cache_get c t = get c t"

definition cache_len :: "book_cache \<Rightarrow> nat" where
  "cache_len c = length c"

record resting_order =
  ro_request :: order_request
  ro_remaining :: qty

record paper =
  pp_params :: match_params
  pp_latency_ms :: nat
  pp_latency_jitter_ms :: nat
  pp_resting :: "(order_id, resting_order) hashmap"
  pp_positions :: "(token_id, rat) hashmap"
  pp_pending_fills :: "fill list"
  pp_seq :: nat

record fill_inputs =
  fx_draws :: draws
  fx_fill_id :: fill_id
  fx_venue_fill_id :: nat
  fx_filled_at :: timestamp
  fx_now :: timestamp

definition paper_new :: "match_params \<Rightarrow> nat \<Rightarrow> nat \<Rightarrow> paper" where
  "paper_new params latency jitter = \<lparr>pp_params = params, pp_latency_ms = latency,
     pp_latency_jitter_ms = jitter, pp_resting = [], pp_positions = [], pp_pending_fills = [],
     pp_seq = 0\<rparr>"

text \<open>The configured probabilities are finite in every configuration that loads.\<close>

definition paper_from_config :: "simulation_config \<Rightarrow> paper option" where
  "paper_from_config cfg =
     (case (sc_fill_probability cfg, sc_reject_probability cfg) of
        (Finite f, Finite r) \<Rightarrow>
          Some (paper_new
            \<lparr>mp_fee_bps = sc_fee_bps cfg, mp_slippage_bps = sc_slippage_bps cfg,
             mp_partial_fill_enabled = sc_partial_fill_enabled cfg, mp_fill_probability = f,
             mp_reject_probability = r\<rparr>
            (sc_latency_ms cfg) (sc_latency_jitter_ms cfg))
      | _ \<Rightarrow> None)"

subsection \<open>Operations\<close>

definition next_venue_id :: "paper \<Rightarrow> paper \<times> string" where
  "next_venue_id P =
     (let s = pp_seq P + 1 in (P\<lparr>pp_seq := s\<rparr>, ''PAPER-'' @ zero_padded 12 s))"

text \<open>The round trip that is slept; the jitter is drawn from \<open>0..=latency_jitter_ms\<close>.\<close>

definition round_trip_ms :: "paper \<Rightarrow> nat \<Rightarrow> nat" where
  "round_trip_ms P draw =
     pp_latency_ms P + (if pp_latency_jitter_ms P > 0 then draw else 0)"

definition record_fill ::
    "decimal_ops \<Rightarrow> (nat \<Rightarrow> string) \<Rightarrow> paper \<Rightarrow> order_request \<Rightarrow> qty \<Rightarrow> price \<Rightarrow> usd \<Rightarrow> bool \<Rightarrow>
     fill_inputs \<Rightarrow> paper \<times> fill" where
  "record_fill D uuid P r q p fee maker fx =
     (P\<lparr>pp_positions := upsert (pp_positions P) (rq_token_id r) 0
          (\<lambda>e. d_add D e (d_mul D (side_sign (rq_side r)) q))\<rparr>,
      \<lparr>fi_fill_id = fx_fill_id fx, fi_order_id = rq_order_id r,
       fi_correlation_id = rq_correlation_id r, fi_market_id = rq_market_id r,
       fi_token_id = rq_token_id r, fi_side = rq_side r, fi_quantity = q, fi_price = p,
       fi_fee = fee, fi_venue_fill_id = Some (''PAPERFILL-'' @ uuid (fx_venue_fill_id fx)),
       fi_is_maker = maker, fi_filled_at = fx_filled_at fx\<rparr>)"

definition rest_order :: "paper \<Rightarrow> order_request \<Rightarrow> qty \<Rightarrow> paper" where
  "rest_order P r q =
     P\<lparr>pp_resting := AList.update (rq_order_id r) \<lparr>ro_request = r, ro_remaining = q\<rparr> (pp_resting P)\<rparr>"

definition paper_submit ::
    "decimal_ops \<Rightarrow> (nat \<Rightarrow> string) \<Rightarrow> book_cache \<Rightarrow> paper \<Rightarrow> order_request \<Rightarrow> fill_inputs \<Rightarrow>
     paper \<times> (execution_error + acknowledgement)" where
  "paper_submit D uuid books P r fx =
     (case cache_get books (rq_token_id r) of
        None \<Rightarrow>
          (P, Inl (AdapterNotReady (''no order book cached for token '' @ token_str (rq_token_id r))))
      | Some book \<Rightarrow>
          (case match_order D r book (pp_params P) (fx_draws fx) of
             SimRejected reason \<Rightarrow> (P, Inl (VenueRejected reason))
           | SimNoLiquidity \<Rightarrow> (P, Inl (VenueRejected ''insufficient liquidity within limit price''))
           | SimResting \<Rightarrow>
               (let (P1, vid) = next_venue_id (rest_order P r (rq_quantity r))
                in (P1, Inr \<lparr>ak_order_id = rq_order_id r, ak_venue_order_id = Some vid,
                      ak_accepted_at = fx_now fx, ak_immediate_fills = [], ak_terminal = False\<rparr>))
           | SimFilled q p fee maker \<Rightarrow>
               (let (P1, f) = record_fill D uuid P r q p fee maker fx;
                    complete = q \<ge> rq_quantity r;
                    P2 = (if \<not> complete \<and> rq_time_in_force r = Gtc
                          then rest_order P1 r (qty_saturating_sub D (rq_quantity r) q) else P1);
                    (P3, vid) = next_venue_id P2
                in (P3, Inr \<lparr>ak_order_id = rq_order_id r, ak_venue_order_id = Some vid,
                      ak_accepted_at = fx_now fx, ak_immediate_fills = [f],
                      ak_terminal = (complete \<or> rq_time_in_force r \<noteq> Gtc)\<rparr>))))"

definition paper_cancel :: "paper \<Rightarrow> order_id \<Rightarrow> paper \<times> (execution_error + unit)" where
  "paper_cancel P i =
     (case get (pp_resting P) i of
        Some _ \<Rightarrow> (P\<lparr>pp_resting := AList.delete i (pp_resting P)\<rparr>, Inr ())
      | None \<Rightarrow> (P, Inl (UnknownAtVenue i)))"

definition paper_positions :: "paper \<Rightarrow> venue_position list" where
  "paper_positions P =
     map (\<lambda>(t, q). \<lparr>vp_token_id = t,
            vp_quantity = (case ok (qty_new \<bar>q\<bar>) of Some a \<Rightarrow> a | None \<Rightarrow> 0)\<rparr>)
       (filter (\<lambda>(_, q). q \<noteq> 0) (pp_positions P))"

definition poll_fills :: "paper \<Rightarrow> paper \<times> fill list" where
  "poll_fills P = (P\<lparr>pp_pending_fills := []\<rparr>, pp_pending_fills P)"

definition resting_count :: "paper \<Rightarrow> nat" where
  "resting_count P = length (pp_resting P)"

text \<open>A reset clears everything but the sequence number.\<close>

definition paper_reset :: "paper \<Rightarrow> paper" where
  "paper_reset P = P\<lparr>pp_resting := [], pp_positions := [], pp_pending_fills := []\<rparr>"

definition paper_capabilities :: adapter_capabilities where
  "paper_capabilities = \<lparr>cp_supports_cancel = True, cp_supports_position_query = True,
     cp_is_real_money = False\<rparr>"

text \<open>
  A book update re-examines the resting orders of its token. The candidates are collected first;
  the loop then works on the state. Its inputs depend on the candidate.
\<close>

definition book_step ::
    "decimal_ops \<Rightarrow> (nat \<Rightarrow> string) \<Rightarrow> order_book \<Rightarrow> (order_id \<Rightarrow> fill_inputs) \<Rightarrow>
     paper \<times> fill list \<Rightarrow> order_id \<times> resting_order \<Rightarrow> paper \<times> fill list" where
  "book_step D uuid book ev acc cand =
     (let (P, fills) = acc; (i, r) = cand in
      if \<not> is_marketable (ro_request r) book then (P, fills)
      else
        case match_order D ((ro_request r)\<lparr>rq_quantity := ro_remaining r\<rparr>) book (pp_params P)
               (fx_draws (ev i)) of
          SimFilled q p fee _ \<Rightarrow>
            (let (P1, f) = record_fill D uuid P (ro_request r) q p fee True (ev i);
                 left = qty_saturating_sub D (ro_remaining r) q;
                 P2 = (if left = 0 then P1\<lparr>pp_resting := AList.delete i (pp_resting P1)\<rparr>
                       else P1\<lparr>pp_resting := adjust (pp_resting P1) i (\<lambda>e. e\<lparr>ro_remaining := left\<rparr>)\<rparr>)
             in (P2, fills @ [f]))
        | _ \<Rightarrow> (P, fills))"

definition resting_candidates :: "paper \<Rightarrow> order_book \<Rightarrow> (order_id \<times> resting_order) list" where
  "resting_candidates P book =
     filter (\<lambda>(_, r). rq_token_id (ro_request r) = bk_token book) (pp_resting P)"

definition on_book_update ::
    "decimal_ops \<Rightarrow> (nat \<Rightarrow> string) \<Rightarrow> paper \<Rightarrow> order_book \<Rightarrow> (order_id \<Rightarrow> fill_inputs) \<Rightarrow>
     paper \<times> fill list" where
  "on_book_update D uuid P book ev =
     (let (P1, fills) = foldl (book_step D uuid book ev) (P, []) (resting_candidates P book)
      in (if fills \<noteq> [] then P1\<lparr>pp_pending_fills := pp_pending_fills P1 @ fills\<rparr> else P1, fills))"

subsection \<open>The ledger\<close>

text \<open>
  What was filled for an order and for a token, read from the fills the venue reported, and the
  invariant that ties the venue's state to them: an order rests for no more than what is left of
  it, and the position in a token is the signed sum of its fills.
\<close>

definition order_filled :: "order_id \<Rightarrow> fill list \<Rightarrow> rat" where
  "order_filled i fs = filled_by (filter (\<lambda>f. fi_order_id f = i) fs)"

definition token_net :: "token_id \<Rightarrow> fill list \<Rightarrow> rat" where
  "token_net t fs = sum_list (map signed_qty (filter (\<lambda>f. fi_token_id f = t) fs))"

definition resting_qty :: "paper \<Rightarrow> order_id \<Rightarrow> rat" where
  "resting_qty P i = (case get (pp_resting P) i of Some r \<Rightarrow> ro_remaining r | None \<Rightarrow> 0)"

definition resting_ok :: "order_request list \<Rightarrow> paper \<Rightarrow> bool" where
  "resting_ok os P \<longleftrightarrow> keys_ok (pp_resting P) \<and>
     (\<forall>i r. get (pp_resting P) i = Some r \<longrightarrow>
        ro_request r \<in> set os \<and> rq_order_id (ro_request r) = i \<and> 0 < ro_remaining r)"

definition orders_ok :: "order_request list \<Rightarrow> bool" where
  "orders_ok os \<longleftrightarrow> inj_on rq_order_id (set os) \<and> (\<forall>r\<in>set os. request_ok r)"

definition ledger_ok :: "order_request list \<Rightarrow> fill list \<Rightarrow> paper \<Rightarrow> bool" where
  "ledger_ok os fs P \<longleftrightarrow>
     (\<forall>r\<in>set os. order_filled (rq_order_id r) fs + resting_qty P (rq_order_id r) \<le> rq_quantity r) \<and>
     (\<forall>f\<in>set fs. \<exists>r\<in>set os. fill_of r f) \<and>
     (\<forall>t. get_or (pp_positions P) t 0 = token_net t fs)"

definition paper_ok :: "order_request list \<Rightarrow> fill list \<Rightarrow> paper \<Rightarrow> bool" where
  "paper_ok os fs P \<longleftrightarrow> orders_ok os \<and> resting_ok os P \<and> ledger_ok os fs P"

lemma order_filled_simps [simp]:
  "order_filled i [] = 0"
  "order_filled i (fs @ gs) = order_filled i fs + order_filled i gs"
  "order_filled i (f # fs) = (if fi_order_id f = i then fi_quantity f else 0) + order_filled i fs"
  by (simp_all add: order_filled_def)

lemma token_net_simps [simp]:
  "token_net t [] = 0"
  "token_net t (fs @ gs) = token_net t fs + token_net t gs"
  "token_net t (f # fs) = (if fi_token_id f = t then signed_qty f else 0) + token_net t fs"
  by (simp_all add: token_net_def)

lemma record_fill_fields:
  assumes "record_fill D uuid P r q p fee mk fx = (P', f)"
  shows "pp_resting P' = pp_resting P" "pp_params P' = pp_params P"
    "pp_pending_fills P' = pp_pending_fills P" "pp_seq P' = pp_seq P"
    "fi_order_id f = rq_order_id r" "fi_token_id f = rq_token_id r" "fi_side f = rq_side r"
    "fi_quantity f = q" "fi_price f = p" "fi_fee f = fee"
    "0 < q \<Longrightarrow> valid_price p \<Longrightarrow> fill_of r f"
  using assms by (auto simp: record_fill_def fill_of_def)

lemma next_venue_id_fields [simp]:
  "pp_resting (fst (next_venue_id P)) = pp_resting P"
  "pp_positions (fst (next_venue_id P)) = pp_positions P"
  "pp_pending_fills (fst (next_venue_id P)) = pp_pending_fills P"
  "pp_params (fst (next_venue_id P)) = pp_params P"
  by (simp_all add: next_venue_id_def Let_def)

lemma next_venue_id_eq:
  "next_venue_id P = (P', v) \<Longrightarrow> P' = P\<lparr>pp_seq := pp_seq P + 1\<rparr>"
  by (auto simp: next_venue_id_def Let_def)

lemma paper_ok_cong:
  "pp_resting P' = pp_resting P \<Longrightarrow> pp_positions P' = pp_positions P \<Longrightarrow>
     paper_ok os fs P' = paper_ok os fs P"
  by (simp add: paper_ok_def resting_ok_def ledger_ok_def resting_qty_def)

lemma paper_ok_venue [simp]: "paper_ok os fs (fst (next_venue_id P)) = paper_ok os fs P"
  by (rule paper_ok_cong) simp_all

definition cache_ok :: "book_cache \<Rightarrow> bool" where
  "cache_ok c \<longleftrightarrow> (\<forall>t b. cache_get c t = Some b \<longrightarrow> valid_levels b)"

lemma cache_ok_put: "cache_ok c \<Longrightarrow> valid_levels b \<Longrightarrow> cache_ok (cache_put c b)"
  by (auto simp: cache_ok_def cache_get_def cache_put_def get_update)

lemma rest_order_fields [simp]:
  "pp_positions (rest_order P r q) = pp_positions P" "pp_params (rest_order P r q) = pp_params P"
  by (simp_all add: rest_order_def)

lemma rest_order_qty:
  "resting_qty (rest_order P r q) j = (if j = rq_order_id r then q else resting_qty P j)"
  by (simp add: resting_qty_def rest_order_def get_update)

lemma rest_order_ok: "resting_ok os P \<Longrightarrow> r \<in> set os \<Longrightarrow> 0 < q \<Longrightarrow> resting_ok os (rest_order P r q)"
  by (auto simp: resting_ok_def rest_order_def get_update split: if_splits)

text \<open>A new order has no fills and does not rest yet.\<close>

lemma fresh_order:
  assumes "paper_ok os fs P" and "i \<notin> rq_order_id ` set os"
  shows "order_filled i fs = 0" and "resting_qty P i = 0"
proof -
  have "filter (\<lambda>f. fi_order_id f = i) fs = []"
    using assms by (force simp: paper_ok_def ledger_ok_def filter_empty_conv fill_of_def)
  then show "order_filled i fs = 0" by (simp add: order_filled_def)
  show "resting_qty P i = 0"
    using assms by (auto simp: paper_ok_def resting_ok_def resting_qty_def split: option.splits)
qed

lemma paper_ok_Cons:
  assumes "paper_ok os fs P" and "request_ok r" and "rq_order_id r \<notin> rq_order_id ` set os"
  shows "paper_ok (r # os) fs P"
proof -
  note z = fresh_order [OF assms(1,3)]
  have "resting_ok (r # os) P" "orders_ok (r # os)"
    using assms by (auto simp: paper_ok_def resting_ok_def orders_ok_def)
  moreover have "ledger_ok (r # os) fs P"
    using assms z by (auto simp: paper_ok_def ledger_ok_def request_ok_def)
  ultimately show ?thesis by (simp add: paper_ok_def)
qed

context decimal_exact
begin

lemma record_fill_net:
  "record_fill D uuid P r q p fee mk fx = (P', f) \<Longrightarrow>
     get_or (pp_positions P') t 0 =
       get_or (pp_positions P) t 0 + (if fi_token_id f = t then signed_qty f else 0)"
  by (auto simp: record_fill_def get_or_def get_upsert signed_qty_def exact split: option.splits)

text \<open>A fill of an order against the quantity that is left for it, here \<open>k\<close>.\<close>

lemma ledger_fill:
  assumes "paper_ok os fs P" and "r \<in> set os" and "0 < q" and "valid_price p"
    and "record_fill D uuid P r q p fee mk fx = (P1, f)"
    and "pp_positions P2 = pp_positions P1"
    and "\<And>j. j \<noteq> rq_order_id r \<Longrightarrow> resting_qty P2 j = resting_qty P j"
    and "order_filled (rq_order_id r) fs + q + resting_qty P2 (rq_order_id r) \<le> rq_quantity r"
  shows "ledger_ok os (fs @ [f]) P2"
proof -
  note F = record_fill_fields [OF assms(5)]
  have "order_filled (rq_order_id x) (fs @ [f]) + resting_qty P2 (rq_order_id x) \<le> rq_quantity x"
    if x: "x \<in> set os" for x
  proof (cases "rq_order_id x = rq_order_id r")
    case True
    with x assms(1,2) have "x = r" by (auto simp: paper_ok_def orders_ok_def inj_on_def)
    with assms(8) F show ?thesis by simp
  next
    case False
    with x assms(1,7) F show ?thesis by (auto simp: paper_ok_def ledger_ok_def)
  qed
  moreover have "\<forall>g\<in>set (fs @ [f]). \<exists>x\<in>set os. fill_of x g"
    using assms(1-4) F(11) by (auto simp: paper_ok_def ledger_ok_def)
  moreover have "get_or (pp_positions P2) t 0 = token_net t (fs @ [f])" for t
    using assms(1) record_fill_net [OF assms(5), of t] by (simp add: assms(6) paper_ok_def ledger_ok_def)
  ultimately show ?thesis by (simp add: ledger_ok_def)
qed

text \<open>What comes back from a submission keeps to the order.\<close>

lemma submit_ack_ok:
  assumes books: "cache_ok c" and rq: "request_ok r" and draw: "fraction_draw D (dr_frac (fx_draws fx))"
    and sub: "paper_submit D uuid c P r fx = (P', Inr a)"
  shows "ack_ok r a"
proof -
  from sub obtain book where book: "cache_get c (rq_token_id r) = Some book"
    by (auto simp: paper_submit_def split: option.splits)
  have lv: "valid_levels book" using books book by (simp add: cache_ok_def)
  show ?thesis
  proof (cases "match_order D r book (pp_params P) (fx_draws fx)")
    case (SimFilled q p fee mk)
    have q: "0 < q" "q \<le> rq_quantity r" "valid_price p"
      using match_order_sound [OF lv _ _ draw SimFilled] rq by (auto simp: request_ok_def)
    obtain P1 f where rec: "record_fill D uuid P r q p fee mk fx = (P1, f)" by force
    have "ak_immediate_fills a = [f]" "ak_order_id a = rq_order_id r"
      using sub book SimFilled rec by (auto simp: paper_submit_def Let_def split: prod.splits if_splits)
    then show ?thesis using record_fill_fields(5,8,11) [OF rec] q by (simp add: ack_ok_def)
  qed (use sub book rq in \<open>auto simp: paper_submit_def ack_ok_def request_ok_def Let_def split: prod.splits\<close>)
qed

text \<open>The invariant survives every operation.\<close>

lemma submit_ok:
  assumes ok: "paper_ok os fs P" and books: "cache_ok c" and rq: "request_ok r"
    and fresh: "rq_order_id r \<notin> rq_order_id ` set os"
    and draw: "fraction_draw D (dr_frac (fx_draws fx))"
    and sub: "paper_submit D uuid c P r fx = (P', Inr a)"
  shows "paper_ok (r # os) (fs @ ak_immediate_fills a) P'"
proof -
  note ok' = paper_ok_Cons [OF ok rq fresh]
  from sub obtain book where book: "cache_get c (rq_token_id r) = Some book"
    by (auto simp: paper_submit_def split: option.splits)
  have lv: "valid_levels book" using books book by (simp add: cache_ok_def)
  show ?thesis
  proof (cases "match_order D r book (pp_params P) (fx_draws fx)")
    case (SimFilled q p fee mk)
    have q: "0 < q" "q \<le> rq_quantity r" "valid_price p"
      using match_order_sound [OF lv _ _ draw SimFilled] rq by (auto simp: request_ok_def)
    obtain P1 f where rec: "record_fill D uuid P r q p fee mk fx = (P1, f)" by force
    note F = record_fill_fields [OF rec]
    define P2 where "P2 = (if \<not> q \<ge> rq_quantity r \<and> rq_time_in_force r = Gtc
        then rest_order P1 r (qty_saturating_sub D (rq_quantity r) q) else P1)"
    have res: "P' = fst (next_venue_id P2)" "ak_immediate_fills a = [f]" "ak_order_id a = rq_order_id r"
      using sub book SimFilled rec
      by (auto simp: paper_submit_def P2_def Let_def split: prod.splits if_splits)
    have zero: "order_filled (rq_order_id r) fs = 0" "resting_qty P (rq_order_id r) = 0"
      using fresh_order [OF ok fresh] by auto
    have P1: "resting_qty P1 j = resting_qty P j" for j by (simp add: resting_qty_def F(1))
    have R1: "resting_ok (r # os) P1" using ok' F(1) by (simp add: paper_ok_def resting_ok_def)
    have left: "qty_saturating_sub D (rq_quantity r) q = rq_quantity r - q"
      using q by (simp add: saturating_sub_exact)
    have "ledger_ok (r # os) (fs @ [f]) P2"
      by (rule ledger_fill [OF ok' _ q(1,3) rec])
        (use q zero P1 in \<open>auto simp: P2_def rest_order_qty left\<close>)
    moreover have "resting_ok (r # os) P2"
      using rest_order_ok [OF R1, of r "rq_quantity r - q"] q R1 left by (simp add: P2_def)
    ultimately have "paper_ok (r # os) (fs @ [f]) P2" using ok' by (simp add: paper_ok_def)
    then show ?thesis using res by simp
  next
    case SimResting
    with sub book have res: "P' = fst (next_venue_id (rest_order P r (rq_quantity r)))"
      "ak_immediate_fills a = []" "ak_order_id a = rq_order_id r"
      by (auto simp: paper_submit_def Let_def split: prod.splits)
    have ne: "x \<in> set os \<Longrightarrow> rq_order_id x \<noteq> rq_order_id r" for x using fresh by (metis imageI)
    have "paper_ok (r # os) fs (rest_order P r (rq_quantity r))"
      using ok' ne fresh_order [OF ok fresh] rq
      by (auto simp: paper_ok_def ledger_ok_def rest_order_qty rest_order_fields request_ok_def
          intro!: rest_order_ok)
    then show ?thesis using res by simp
  qed (use sub book in \<open>auto simp: paper_submit_def\<close>)
qed

lemma book_step_ok:
  assumes ok: "paper_ok os fs P" and lv: "valid_levels book" and cand: "get (pp_resting P) i = Some r"
    and draw: "fraction_draw D (dr_frac (fx_draws (ev i)))"
    and step: "book_step D uuid book ev (P, fills) (i, r) = (P', fills')"
  shows "\<exists>new. fills' = fills @ new \<and> paper_ok os (fs @ new) P' \<and>
           (\<forall>j. j \<noteq> i \<longrightarrow> get (pp_resting P') j = get (pp_resting P) j) \<and>
           list_all (\<lambda>f. fi_order_id f = i \<and> fi_token_id f = rq_token_id (ro_request r)) new"
proof (cases "is_marketable (ro_request r) book \<and>
    (\<exists>q p fee mk. match_order D ((ro_request r)\<lparr>rq_quantity := ro_remaining r\<rparr>) book (pp_params P)
       (fx_draws (ev i)) = SimFilled q p fee mk)")
  case False
  with step ok show ?thesis by (auto simp: book_step_def split: sim_outcome.splits)
next
  case True
  let ?probe = "(ro_request r)\<lparr>rq_quantity := ro_remaining r\<rparr>"
  from True obtain q p fee mk where m: "is_marketable (ro_request r) book"
    "match_order D ?probe book (pp_params P) (fx_draws (ev i)) = SimFilled q p fee mk" by blast
  have R: "ro_request r \<in> set os" "rq_order_id (ro_request r) = i" "0 < ro_remaining r"
    using ok cand by (auto simp: paper_ok_def resting_ok_def)
  then have rq: "request_ok (ro_request r)" using ok by (auto simp: paper_ok_def orders_ok_def)
  have q: "0 < q" "q \<le> ro_remaining r" "valid_price p"
    using match_order_sound [OF lv _ _ draw m(2)] rq R by (auto simp: request_ok_def)
  obtain P1 f where rec: "record_fill D uuid P (ro_request r) q p fee True (ev i) = (P1, f)" by force
  note F = record_fill_fields [OF rec]
  have left: "qty_saturating_sub D (ro_remaining r) q = ro_remaining r - q"
    using q by (simp add: saturating_sub_exact)
  define P2 where "P2 = (if ro_remaining r - q = 0 then P1\<lparr>pp_resting := AList.delete i (pp_resting P1)\<rparr>
      else P1\<lparr>pp_resting := adjust (pp_resting P1) i (\<lambda>e. e\<lparr>ro_remaining := ro_remaining r - q\<rparr>)\<rparr>)"
  have res: "P' = P2" "fills' = fills @ [f]"
    using step m rec left by (auto simp: book_step_def P2_def Let_def)
  have G: "get (pp_resting P2) j = (if j = i then
      (if ro_remaining r - q = 0 then None else Some (r\<lparr>ro_remaining := ro_remaining r - q\<rparr>))
      else get (pp_resting P) j)" for j
    using cand F(1) by (auto simp: P2_def get_delete get_adjust)
  have Q: "resting_qty P2 j = (if j = i then ro_remaining r - q else resting_qty P j)" for j
    by (simp add: resting_qty_def G)
  have "order_filled i fs + ro_remaining r \<le> rq_quantity (ro_request r)"
    using ok R cand by (force simp: paper_ok_def ledger_ok_def resting_qty_def)
  then have "ledger_ok os (fs @ [f]) P2"
    using Q R(2) by (intro ledger_fill [OF ok R(1) q(1,3) rec]) (simp_all add: P2_def)
  moreover have "resting_ok os P2"
  proof -
    have "keys_ok (pp_resting P2)" using ok F(1) by (simp add: P2_def paper_ok_def resting_ok_def)
    then show ?thesis using ok G R q by (auto simp: paper_ok_def resting_ok_def split: if_splits)
  qed
  ultimately show ?thesis using ok res G F R(2) by (auto simp: paper_ok_def)
qed

lemma book_loop_ok:
  assumes "paper_ok os fs P" and "valid_levels book" and "distinct (map fst cs)"
    and "\<forall>(i, r)\<in>set cs. get (pp_resting P) i = Some r"
    and "\<forall>i. fraction_draw D (dr_frac (fx_draws (ev i)))"
    and "foldl (book_step D uuid book ev) (P, fills) cs = (P', fills')"
  shows "\<exists>new. fills' = fills @ new \<and> paper_ok os (fs @ new) P' \<and>
           list_all (\<lambda>f. fi_token_id f \<in> (\<lambda>c. rq_token_id (ro_request (snd c))) ` set cs) new"
  using assms
proof (induction cs arbitrary: fs P fills)
  case (Cons c cs)
  obtain i r where c: "c = (i, r)" by (cases c)
  obtain P1 fills1 where st: "book_step D uuid book ev (P, fills) (i, r) = (P1, fills1)" by force
  from book_step_ok [OF Cons.prems(1,2) _ _ st] Cons.prems(4,5) c obtain new where
    new: "fills1 = fills @ new" "paper_ok os (fs @ new) P1"
      "\<forall>j. j \<noteq> i \<longrightarrow> get (pp_resting P1) j = get (pp_resting P) j"
      "list_all (\<lambda>f. fi_order_id f = i \<and> fi_token_id f = rq_token_id (ro_request r)) new" by auto
  have "\<forall>(j, x)\<in>set cs. get (pp_resting P1) j = Some x"
  proof clarify
    fix j x assume jx: "(j, x) \<in> set cs"
    with Cons.prems(3) c have "j \<noteq> i" by force
    with new(3) jx Cons.prems(4) c show "get (pp_resting P1) j = Some x" by auto
  qed
  from Cons.IH [OF new(2) Cons.prems(2) _ this Cons.prems(5)] Cons.prems(3,6) st c
  obtain new2 where "fills' = fills1 @ new2" "paper_ok os ((fs @ new) @ new2) P'"
    "list_all (\<lambda>f. fi_token_id f \<in> (\<lambda>c. rq_token_id (ro_request (snd c))) ` set cs) new2" by auto
  with new show ?case by (intro exI [of _ "new @ new2"]) (auto simp: c list_all_iff)
qed simp

lemma book_update_ok:
  assumes "paper_ok os fs P" and "valid_levels book"
    and "\<forall>i. fraction_draw D (dr_frac (fx_draws (ev i)))"
    and "on_book_update D uuid P book ev = (P', new)"
  shows "paper_ok os (fs @ new) P'"
proof -
  have k: "keys_ok (pp_resting P)" using assms(1) by (simp add: paper_ok_def resting_ok_def)
  have "distinct (map fst (resting_candidates P book))"
    using k by (auto simp: keys_ok_def resting_candidates_def distinct_map_filter)
  moreover have "\<forall>(i, r)\<in>set (resting_candidates P book). get (pp_resting P) i = Some r"
    using k by (auto simp: resting_candidates_def keys_ok_get)
  moreover obtain P1 where "foldl (book_step D uuid book ev) (P, []) (resting_candidates P book) = (P1, new)"
    and P': "P' = P1 \<or> P' = P1\<lparr>pp_pending_fills := pp_pending_fills P1 @ new\<rparr>"
    using assms(4) by (auto simp: on_book_update_def Let_def split: prod.splits if_splits)
  ultimately have "paper_ok os (fs @ new) P1"
    using book_loop_ok [OF assms(1,2) _ _ assms(3)] by fastforce
  with P' show ?thesis by (auto simp: paper_ok_def resting_ok_def ledger_ok_def resting_qty_def)
qed

lemma cancel_ok:
  assumes "paper_ok os fs P"
  shows "paper_ok os fs (fst (paper_cancel P i))"
proof (cases "get (pp_resting P) i")
  case (Some x)
  let ?P = "P\<lparr>pp_resting := AList.delete i (pp_resting P)\<rparr>"
  have Q: "resting_qty ?P j \<le> resting_qty P j" for j
    using assms by (auto simp: resting_qty_def get_delete paper_ok_def resting_ok_def less_imp_le
        split: option.splits)
  have "ledger_ok os fs ?P"
    using assms Q unfolding paper_ok_def ledger_ok_def
    by (auto intro: order_trans [OF add_left_mono])
  with assms Some show ?thesis
    by (auto simp: paper_cancel_def paper_ok_def resting_ok_def get_delete split: if_splits)
qed (use assms in \<open>simp add: paper_cancel_def\<close>)

end

subsection \<open>Histories\<close>

text \<open>
  Everything that can happen to the simulated venue, in any order: books arrive, orders are
  submitted under fresh ids, refused, filled, cancelled, polled, and the venue is reset. The lists
  are the accepted orders and all the fills reported since the last reset.
\<close>

inductive paper_run ::
    "decimal_ops \<Rightarrow> (nat \<Rightarrow> string) \<Rightarrow> paper \<Rightarrow> book_cache \<Rightarrow> order_request list \<Rightarrow> fill list \<Rightarrow> bool"
  for D uuid where
  start: "paper_run D uuid (paper_new params latency jitter) [] [] []"
| cached: "paper_run D uuid P c os fs \<Longrightarrow> valid_levels b \<Longrightarrow> paper_run D uuid P (cache_put c b) os fs"
| accepted: "paper_run D uuid P c os fs \<Longrightarrow> request_ok r \<Longrightarrow> rq_order_id r \<notin> rq_order_id ` set os \<Longrightarrow>
    fraction_draw D (dr_frac (fx_draws fx)) \<Longrightarrow> paper_submit D uuid c P r fx = (P', Inr a) \<Longrightarrow>
    paper_run D uuid P' c (r # os) (fs @ ak_immediate_fills a)"
| refused: "paper_run D uuid P c os fs \<Longrightarrow> paper_submit D uuid c P r fx = (P', Inl e) \<Longrightarrow>
    paper_run D uuid P' c os fs"
| traded: "paper_run D uuid P c os fs \<Longrightarrow> valid_levels b \<Longrightarrow>
    \<forall>i. fraction_draw D (dr_frac (fx_draws (ev i))) \<Longrightarrow>
    on_book_update D uuid P b ev = (P', new) \<Longrightarrow> paper_run D uuid P' c os (fs @ new)"
| cancelled: "paper_run D uuid P c os fs \<Longrightarrow> paper_run D uuid (fst (paper_cancel P i)) c os fs"
| polled: "paper_run D uuid P c os fs \<Longrightarrow> paper_run D uuid (fst (poll_fills P)) c os fs"
| reset: "paper_run D uuid P c os fs \<Longrightarrow> paper_run D uuid (paper_reset P) c [] []"

lemma submit_refused: "paper_submit D uuid c P r fx = (P', Inl e) \<Longrightarrow> P' = P"
  by (auto simp: paper_submit_def Let_def split: option.splits sim_outcome.splits prod.splits)

lemma paper_ok_empty:
  "pp_resting P = [] \<Longrightarrow> pp_positions P = [] \<Longrightarrow> paper_ok [] [] P"
  by (simp add: paper_ok_def orders_ok_def resting_ok_def ledger_ok_def get_or_def)

lemma paper_run_ok:
  assumes "decimal_exact D" and "paper_run D uuid P c os fs"
  shows "paper_ok os fs P \<and> cache_ok c"
  using assms(2)
proof (induction rule: paper_run.induct)
  case (start params latency jitter)
  show ?case by (simp add: paper_new_def paper_ok_empty cache_ok_def cache_get_def)
next
  case (accepted P c os fs r fx P' a)
  then show ?case using decimal_exact.submit_ok [OF assms(1)] by blast
next
  case (traded P c os fs b ev P' new)
  then show ?case using decimal_exact.book_update_ok [OF assms(1)] by blast
next
  case (cancelled P c os fs i)
  then show ?case using decimal_exact.cancel_ok [OF assms(1)] by blast
next
  case (polled P c os fs)
  then show ?case by (simp add: poll_fills_def paper_ok_def resting_ok_def ledger_ok_def resting_qty_def)
next
  case (reset P c os fs)
  then show ?case by (simp add: paper_reset_def paper_ok_empty)
qed (auto simp: cache_ok_put dest: submit_refused)

subsection \<open>The paper venue keeps the contract\<close>

text \<open>The venue as an adapter: its books, and the inputs of the submissions to come.\<close>

type_synonym paper_venue = "paper \<times> book_cache \<times> (nat \<Rightarrow> fill_inputs)"

definition paper_venue_ok :: "decimal_ops \<Rightarrow> paper_venue \<Rightarrow> bool" where
  "paper_venue_ok D s \<longleftrightarrow>
     (case s of (P, c, ev) \<Rightarrow> cache_ok c \<and> (\<forall>n. fraction_draw D (dr_frac (fx_draws (ev n)))))"

definition venue_submit ::
    "decimal_ops \<Rightarrow> (nat \<Rightarrow> string) \<Rightarrow> paper_venue \<Rightarrow> order_request \<Rightarrow>
     paper_venue \<times> (execution_error + acknowledgement)" where
  "venue_submit D uuid s r =
     (case s of (P, c, ev) \<Rightarrow>
        (let (P', x) = paper_submit D uuid c P r (ev 0) in ((P', c, ev \<circ> Suc), x)))"

definition venue_cancel ::
    "paper_venue \<Rightarrow> order_id \<Rightarrow> string option \<Rightarrow> paper_venue \<times> (execution_error + unit)" where
  "venue_cancel s i v =
     (case s of (P, c, ev) \<Rightarrow> (let (P', x) = paper_cancel P i in ((P', c, ev), x)))"

lemma paper_adapter:
  assumes "decimal_exact D"
  shows "execution_adapter (paper_venue_ok D) (venue_submit D uuid) venue_cancel"
proof
  fix s s' r a assume "paper_venue_ok D s" "request_ok r" "venue_submit D uuid s r = (s', Inr a)"
  then show "ack_ok r a"
    by (auto simp: paper_venue_ok_def venue_submit_def Let_def split: prod.splits
        dest!: decimal_exact.submit_ack_ok [OF assms])
qed (auto simp: paper_venue_ok_def venue_submit_def venue_cancel_def Let_def split: prod.splits)

lemma paper_cooperative:
  assumes "decimal_exact D"
  shows "cooperative_adapter (paper_venue_ok D) (venue_submit D uuid) venue_cancel"
  by (intro cooperative_adapter.intro paper_adapter assms cooperative_adapter_axioms.intro)
    (auto simp: venue_cancel_def paper_cancel_def split: prod.splits option.splits)

interpretation paper: cooperative_adapter "paper_venue_ok exact_decimal"
    "venue_submit exact_decimal uuid" venue_cancel for uuid
  by (rule paper_cooperative [OF exact_dec.decimal_exact_axioms])

subsection \<open>Properties\<close>


definition sample_inputs :: fill_inputs where
  "sample_inputs = \<lparr>fx_draws = sample_draws, fx_fill_id = 1, fx_venue_fill_id = 2,
     fx_filled_at = 0, fx_now = 0\<rparr>"

definition sample_gtc :: order_request where
  "sample_gtc = sample_request\<lparr>rq_time_in_force := Gtc\<rparr>"

lemma sample_gtc_fields:
  "rq_token_id sample_gtc = TokenId ''7''" "rq_order_id sample_gtc = 1" "rq_quantity sample_gtc = 100"
  "rq_side sample_gtc = Buy" "rq_time_in_force sample_gtc = Gtc" "request_ok sample_gtc"
  by (simp_all add: sample_gtc_def sample_request_def request_ok_def valid_price_def)

lemma sample_inputs_draw: "fraction_draw exact_decimal (dr_frac (fx_draws sample_inputs))"
  by (simp add: fraction_draw_def sample_inputs_def sample_draws_def)

lemma sample_cache: "cache_put [] sample_book = [(TokenId ''7'', sample_book)]"
  by (simp add: cache_put_def sample_book_def)

lemma sample_submit:
  "\<exists>P a f. paper_submit exact_decimal (\<lambda>_. []) [(TokenId ''7'', sample_book)]
       (paper_new sample_params 0 0) sample_gtc sample_inputs = (P, Inr a) \<and>
     ak_immediate_fills a = [f] \<and> fi_quantity f = 50 \<and>
     get_or (pp_positions P) (TokenId ''7'') 0 = 50"
proof -
  have m: "match_order exact_decimal sample_gtc sample_book sample_params sample_draws =
      SimFilled 50 (61/100) 0 False"
    unfolding sample_gtc_def by (rule sample_match)
  then show ?thesis
    by (auto simp: paper_submit_def cache_get_def get_def paper_new_def sample_inputs_def
        record_fill_def rest_order_def next_venue_id_def qty_saturating_sub_def upsert_def get_or_def
        Let_def sample_gtc_fields)
qed

lemma sample_paper_run:
  "\<exists>P f. paper_run exact_decimal (\<lambda>_. []) P [(TokenId ''7'', sample_book)] [sample_gtc] [f] \<and>
     get_or (pp_positions P) (TokenId ''7'') 0 = 50"
proof -
  obtain P a f where sub: "paper_submit exact_decimal (\<lambda>_. []) [(TokenId ''7'', sample_book)]
      (paper_new sample_params 0 0) sample_gtc sample_inputs = (P, Inr a)"
    "ak_immediate_fills a = [f]" "get_or (pp_positions P) (TokenId ''7'') 0 = 50"
    using sample_submit by blast
  have "paper_run exact_decimal (\<lambda>_. []) (paper_new sample_params 0 0) [(TokenId ''7'', sample_book)] [] []"
    unfolding sample_cache [symmetric] by (intro paper_run.cached paper_run.start sample_book_valid)
  from paper_run.accepted [OF this sample_gtc_fields(6) _ sample_inputs_draw sub(1)] sub(2,3)
  show ?thesis by auto
qed


end
