(* ===== verification/OrderManager.thy ===== *)
theory OrderManager
  imports Paper
begin

section \<open>Order lifecycle management (crates/execution/src/order_manager.rs)\<close>

text \<open>
  The order manager keeps one order per id and the events it broadcast, and drives the venue. Its
  two asynchronous calls are split where the code awaits the venue: what runs before the call
  (\<open>submit_begin\<close>, \<open>cancel_begin\<close>) returns the local copy of the order the code keeps across the
  wait, and what runs after it (\<open>submit_finish\<close>, \<open>cancel_finish\<close>) works on that copy. Each part is
  one step; \<open>om_submit\<close> and \<open>om_cancel\<close> run both parts with nothing in between. The strings of
  the outcomes are the errors themselves, the stored reject reason is their text.
\<close>

subsection \<open>State and observers\<close>

datatype om_failure =
    OmUnknownOrder
  | OmOrderError order_error
  | OmVenueError execution_error
  | OmFillForUnknown order_id

datatype submit_outcome =
    SubAcknowledged order_id "fill list"
  | SubRejected order_id om_failure
  | SubAmbiguous order_id execution_error

record order_manager =
  om_orders :: "(order_id, order) hashmap"
  om_events :: "system_event list"

definition om_new :: order_manager where
  "om_new = \<lparr>om_orders = [], om_events = []\<rparr>"

definition emit :: "order_manager \<Rightarrow> system_event \<Rightarrow> order_manager" where
  "emit om e = om\<lparr>om_events := om_events om @ [e]\<rparr>"

definition store :: "order_manager \<Rightarrow> order \<Rightarrow> order_manager" where
  "store om o' = om\<lparr>om_orders := AList.update (order_id_of o') o' (om_orders om)\<rparr>"

definition om_get :: "order_manager \<Rightarrow> order_id \<Rightarrow> order option" where
  "om_get om i = get (om_orders om) i"

definition om_values :: "order_manager \<Rightarrow> order list" where
  "om_values om = map snd (om_orders om)"

definition om_all :: "order_manager \<Rightarrow> order list" where
  "om_all om = sort_key (\<lambda>o'. - rq_created_at (or_request o')) (om_values om)"

definition open_orders :: "order_manager \<Rightarrow> order list" where
  "open_orders om = filter (\<lambda>o'. is_open (or_state o')) (om_values om)"

definition open_count :: "order_manager \<Rightarrow> nat" where
  "open_count om = length (open_orders om) mod 2 ^ 32"

definition unknown_orders :: "order_manager \<Rightarrow> order list" where
  "unknown_orders om = filter (\<lambda>o'. or_state o' = Unknown) (om_values om)"

definition filled_exposure :: "decimal_ops \<Rightarrow> order_manager \<Rightarrow> (token_id, rat) hashmap" where
  "filled_exposure D om =
     foldl (\<lambda>m o'. if or_filled_qty o' = 0 then m
                   else upsert m (rq_token_id (or_request o')) 0
                          (\<lambda>e. d_add D e (d_mul D (side_sign (rq_side (or_request o'))) (or_filled_qty o'))))
       [] (om_values om)"

definition om_total_fees :: "decimal_ops \<Rightarrow> order_manager \<Rightarrow> usd" where
  "om_total_fees D om = d_sum D (map or_fees_paid (om_values om))"

definition om_total_filled :: "decimal_ops \<Rightarrow> order_manager \<Rightarrow> qty" where
  "om_total_filled D om = d_sum D (map or_filled_qty (om_values om))"

definition om_restore :: "order_manager \<Rightarrow> order list \<Rightarrow> order_manager" where
  "om_restore om os = foldl store om os"

subsection \<open>Placing an order\<close>

definition register_validated ::
    "order_manager \<Rightarrow> order_request \<Rightarrow> latency_stamps \<Rightarrow> timestamp \<Rightarrow>
     order_manager \<times> (order_error + order_id)" where
  "register_validated om req latency now =
     (case and_then (order_new req latency) (\<lambda>o'. transition o' Validated now) of
        Inl e \<Rightarrow> (om, Inl e)
      | Inr o' \<Rightarrow> (store om o', Inr (order_id_of o')))"

text \<open>\<open>let _ = order.transition(..)\<close>: a refused transition leaves the order alone.\<close>

definition try_transition :: "order \<Rightarrow> order_state \<Rightarrow> timestamp \<Rightarrow> order" where
  "try_transition o' n now = (case transition o' n now of Inr o'' \<Rightarrow> o'' | Inl _ \<Rightarrow> o')"

definition stamp_fill :: "order \<Rightarrow> timestamp \<Rightarrow> order" where
  "stamp_fill o' t =
     (if lt_fill (or_latency o') = None
      then o'\<lparr>or_latency := (or_latency o')\<lparr>lt_fill := Some t\<rparr>\<rparr> else o')"

definition submit_begin ::
    "order_manager \<Rightarrow> order_id \<Rightarrow> timestamp \<Rightarrow> order_manager \<times> (submit_outcome + order)" where
  "submit_begin om i now =
     (case om_get om i of
        None \<Rightarrow> (om, Inl (SubRejected i OmUnknownOrder))
      | Some order \<Rightarrow>
          (case transition order Submitted now of
             Inl e \<Rightarrow> (om, Inl (SubRejected i (OmOrderError e)))
           | Inr o1 \<Rightarrow>
               (let o2 = o1\<lparr>or_latency := (or_latency o1)\<lparr>lt_submission := Some now\<rparr>\<rparr>
                in (emit (store om o2) (OrderSubmitted i (rq_correlation_id (or_request o2)) now),
                    Inr o2))))"

text \<open>The fills of the acknowledgement, in order; the clock is read for each one that is refused.\<close>

fun ack_fills ::
    "decimal_ops \<Rightarrow> (nat \<Rightarrow> timestamp) \<Rightarrow> fill list \<Rightarrow> order \<Rightarrow> fill list \<Rightarrow> order \<times> fill list" where
  "ack_fills D clock [] o' applied = (o', applied)"
| "ack_fills D clock (f # fs) o' applied =
     (let o1 = stamp_fill o' (fi_filled_at f)
      in case apply_fill D o1 (fi_quantity f) (fi_price f) (fi_fee f) (fi_filled_at f) of
           Inr o2 \<Rightarrow> ack_fills D clock fs o2 (applied @ [f])
         | Inl _ \<Rightarrow> ack_fills D clock fs (try_transition o1 Unknown (clock (length fs))) applied)"

definition fill_event :: "order \<Rightarrow> order_id \<Rightarrow> fill \<Rightarrow> system_event" where
  "fill_event o' i f =
     (if or_state o' = Filled then OrderFilled i (rq_correlation_id (or_request o')) f
      else OrderPartiallyFilled i (rq_correlation_id (or_request o')) f)"

definition submit_finish ::
    "decimal_ops \<Rightarrow> (nat \<Rightarrow> string) \<Rightarrow> order_manager \<Rightarrow> order_id \<Rightarrow> order \<Rightarrow>
     execution_error + acknowledgement \<Rightarrow> timestamp \<Rightarrow> (nat \<Rightarrow> timestamp) \<Rightarrow>
     order_manager \<times> submit_outcome" where
  "submit_finish D uuid om i order result now clock =
     (case result of
        Inr ack \<Rightarrow>
          (let o1 = order\<lparr>or_latency := (or_latency order)\<lparr>lt_ack := Some now\<rparr>,
                          or_venue_order_id := ak_venue_order_id ack\<rparr>;
               o2 = try_transition o1 Acknowledged now;
               om1 = emit om (OrderAcknowledged i (rq_correlation_id (or_request o2))
                                (ak_venue_order_id ack) now);
               (o3, applied) = ack_fills D clock (ak_immediate_fills ack) o2 [];
               om2 = store om1 o3
           in (foldl (\<lambda>m f. emit m (fill_event o3 i f)) om2 applied, SubAcknowledged i applied))
      | Inl e \<Rightarrow>
          (if requires_reconciliation e then
             (store om ((try_transition order Unknown now)
                \<lparr>or_reject_reason := Some (execution_error_text uuid e)\<rparr>), SubAmbiguous i e)
           else
             (let o1 = (try_transition order Rejected now)
                    \<lparr>or_reject_reason := Some (execution_error_text uuid e)\<rparr>
              in (emit (store om o1) (OrderRejected i (rq_correlation_id (or_request o1))
                    (execution_error_text uuid e) now),
                  SubRejected i (OmVenueError e)))))"

definition om_submit ::
    "decimal_ops \<Rightarrow> (nat \<Rightarrow> string) \<Rightarrow> ('s \<Rightarrow> order_request \<Rightarrow> 's \<times> (execution_error + acknowledgement)) \<Rightarrow>
     order_manager \<Rightarrow> 's \<Rightarrow> order_id \<Rightarrow> timestamp \<Rightarrow> timestamp \<Rightarrow> (nat \<Rightarrow> timestamp) \<Rightarrow>
     order_manager \<times> 's \<times> submit_outcome" where
  "om_submit D uuid submit om s i t1 t2 clock =
     (case submit_begin om i t1 of
        (om1, Inl out) \<Rightarrow> (om1, s, out)
      | (om1, Inr order) \<Rightarrow>
          (let (s', result) = submit s (or_request order);
               (om2, out) = submit_finish D uuid om1 i order result t2 clock
           in (om2, s', out)))"

subsection \<open>Fills and cancellations\<close>

definition apply_external_fill :: "decimal_ops \<Rightarrow> order_manager \<Rightarrow> fill \<Rightarrow> order_manager \<times> (om_failure + unit)" where
  "apply_external_fill D om f =
     (case om_get om (fi_order_id f) of
        None \<Rightarrow> (om, Inl (OmFillForUnknown (fi_order_id f)))
      | Some o' \<Rightarrow>
          (case apply_fill D (stamp_fill o' (fi_filled_at f)) (fi_quantity f) (fi_price f) (fi_fee f)
                  (fi_filled_at f) of
             Inl e \<Rightarrow> (om, Inl (OmOrderError e))
           | Inr o1 \<Rightarrow> (emit (store om o1) (fill_event o1 (fi_order_id f) f), Inr ())))"

definition cancel_begin :: "order_manager \<Rightarrow> order_id \<Rightarrow> timestamp \<Rightarrow> order_manager \<times> (om_failure + order)" where
  "cancel_begin om i now =
     (case om_get om i of
        None \<Rightarrow> (om, Inl OmUnknownOrder)
      | Some o' \<Rightarrow>
          (case transition o' CancelRequested now of
             Inl e \<Rightarrow> (om, Inl (OmOrderError e))
           | Inr o1 \<Rightarrow> (store om o1, Inr o1)))"

definition cancel_finish ::
    "order_manager \<Rightarrow> order_id \<Rightarrow> order \<Rightarrow> execution_error + unit \<Rightarrow> timestamp \<Rightarrow>
     order_manager \<times> (om_failure + unit)" where
  "cancel_finish om i o' result now =
     (case result of
        Inr _ \<Rightarrow>
          (case transition o' Cancelled now of
             Inr o1 \<Rightarrow> (emit (store om o1) (OrderCancelled i (rq_correlation_id (or_request o1)) now), Inr ())
           | Inl _ \<Rightarrow> (om, Inr ()))
      | Inl (UnknownAtVenue _) \<Rightarrow>
          (case transition o' Cancelled now of
             Inr o1 \<Rightarrow> (store om o1, Inr ())
           | Inl _ \<Rightarrow> (om, Inr ()))
      | Inl e \<Rightarrow> (om, Inl (OmVenueError e)))"

definition om_cancel ::
    "('s \<Rightarrow> order_id \<Rightarrow> string option \<Rightarrow> 's \<times> (execution_error + unit)) \<Rightarrow>
     order_manager \<Rightarrow> 's \<Rightarrow> order_id \<Rightarrow> timestamp \<Rightarrow> timestamp \<Rightarrow> order_manager \<times> 's \<times> (om_failure + unit)" where
  "om_cancel cancel om s i t1 t2 =
     (case cancel_begin om i t1 of
        (om1, Inl e) \<Rightarrow> (om1, s, Inl e)
      | (om1, Inr o') \<Rightarrow>
          (let (s', result) = cancel s i (or_venue_order_id o');
               (om2, out) = cancel_finish om1 i o' result t2
           in (om2, s', out)))"

text \<open>Cancels every order that is open when it starts, and counts.\<close>

definition cancel_all_step ::
    "('s \<Rightarrow> order_id \<Rightarrow> string option \<Rightarrow> 's \<times> (execution_error + unit)) \<Rightarrow> (order_id \<Rightarrow> timestamp \<times> timestamp) \<Rightarrow>
     order_manager \<times> 's \<times> nat \<times> nat \<Rightarrow> order \<Rightarrow> order_manager \<times> 's \<times> nat \<times> nat" where
  "cancel_all_step cancel clock acc o' =
     (let (om, s, done, failed) = acc;
          i = order_id_of o'; (t1, t2) = clock i;
          (om', s', r) = om_cancel cancel om s i t1 t2
      in case r of Inr _ \<Rightarrow> (om', s', done + 1, failed) | Inl _ \<Rightarrow> (om', s', done, failed + 1))"

definition cancel_all ::
    "('s \<Rightarrow> order_id \<Rightarrow> string option \<Rightarrow> 's \<times> (execution_error + unit)) \<Rightarrow> (order_id \<Rightarrow> timestamp \<times> timestamp) \<Rightarrow>
     order_manager \<Rightarrow> 's \<Rightarrow> order_manager \<times> 's \<times> nat \<times> nat" where
  "cancel_all cancel clock om s = foldl (cancel_all_step cancel clock) (om, s, 0, 0) (open_orders om)"

subsection \<open>What the pieces keep\<close>

lemma emit_get [simp]: "om_get (emit om e) i = om_get om i" "om_orders (emit om e) = om_orders om"
  by (simp_all add: om_get_def emit_def)

lemma store_get: "om_get (store om o') i = (if order_id_of o' = i then Some o' else om_get om i)"
  by (simp add: om_get_def store_def get_update)

lemma foldl_emit [simp]: "om_orders (foldl (\<lambda>m f. emit m (g f)) om fs) = om_orders om"
  by (induction fs arbitrary: om) simp_all

lemma foldl_emit_get [simp]: "om_get (foldl (\<lambda>m f. emit m (g f)) om fs) i = om_get om i"
  by (simp add: om_get_def)

lemma stamp_fill_fields [simp]:
  "or_request (stamp_fill o' t) = or_request o'" "or_state (stamp_fill o' t) = or_state o'"
  "or_filled_qty (stamp_fill o' t) = or_filled_qty o'" "order_id_of (stamp_fill o' t) = order_id_of o'"
  "or_fees_paid (stamp_fill o' t) = or_fees_paid o'"
  by (simp_all add: stamp_fill_def order_id_of_def)

lemma try_transition_fields [simp]:
  "or_request (try_transition o' n t) = or_request o'"
  "or_filled_qty (try_transition o' n t) = or_filled_qty o'"
  "order_id_of (try_transition o' n t) = order_id_of o'"
  "or_fees_paid (try_transition o' n t) = or_fees_paid o'"
  by (auto simp: try_transition_def transition_def order_id_of_def)

lemma try_transition_state:
  "or_state (try_transition o' n t) = (if can_transition_to (or_state o') n then n else or_state o')"
  by (simp add: try_transition_def transition_def)

lemma order_id_of_update [simp]:
  "order_id_of (o'\<lparr>or_latency := l\<rparr>) = order_id_of o'" "order_id_of (o'\<lparr>or_venue_order_id := v\<rparr>) = order_id_of o'"
  "order_id_of (o'\<lparr>or_reject_reason := r\<rparr>) = order_id_of o'" "order_id_of (o'\<lparr>or_state := st\<rparr>) = order_id_of o'"
  "order_id_of (o'\<lparr>or_updated_at := u\<rparr>) = order_id_of o'"
  by (simp_all add: order_id_of_def)

text \<open>An order that was given to the venue: it is past validation, and stays past it.\<close>

definition sent_copy :: "order \<Rightarrow> bool" where
  "sent_copy o' \<longleftrightarrow> order_ok o' \<and> or_state o' \<noteq> Created \<and> or_state o' \<noteq> Validated"

lemma sent_copy_update [simp]:
  "sent_copy (o'\<lparr>or_latency := l\<rparr>) = sent_copy o'" "sent_copy (o'\<lparr>or_venue_order_id := v\<rparr>) = sent_copy o'"
  "sent_copy (o'\<lparr>or_reject_reason := r\<rparr>) = sent_copy o'" "sent_copy (stamp_fill o' t) = sent_copy o'"
  by (simp_all add: sent_copy_def order_ok_def)

lemma sent_copy_transition:
  "sent_copy o' \<Longrightarrow> transition o' n t = Inr o'' \<Longrightarrow> sent_copy o'' \<and> order_id_of o'' = order_id_of o'"
  by (cases n) (auto simp: transition_Inr sent_copy_def order_ok_def to_Validated to_Created order_id_of_def)

lemma sent_copy_try [simp]: "sent_copy o' \<Longrightarrow> sent_copy (try_transition o' n t)"
  by (auto simp: try_transition_def split: sum.splits dest: sent_copy_transition)

context decimal_additive
begin

lemma sent_copy_fill:
  "sent_copy o' \<Longrightarrow> valid_qty q \<Longrightarrow> apply_fill D o' q p fee t = Inr o'' \<Longrightarrow>
     sent_copy o'' \<and> order_id_of o'' = order_id_of o'"
  using apply_fill_ok [of o' q p fee t o''] apply_fill_fields(1,5) [of D o' q p fee t o'']
  by (auto simp: sent_copy_def order_id_of_def)

lemma ack_fills_sent:
  "sent_copy o' \<Longrightarrow> list_all (\<lambda>f. valid_qty (fi_quantity f)) fs \<Longrightarrow>
     ack_fills D clock fs o' applied = (o'', applied') \<Longrightarrow>
     sent_copy o'' \<and> order_id_of o'' = order_id_of o'"
proof (induction fs arbitrary: o' applied)
  case (Cons f fs)
  show ?case
  proof (cases "apply_fill D (stamp_fill o' (fi_filled_at f)) (fi_quantity f) (fi_price f) (fi_fee f) (fi_filled_at f)")
    case (Inl e)
    with Cons.prems Cons.IH [of "try_transition (stamp_fill o' (fi_filled_at f)) Unknown (clock (length fs))" applied]
    show ?thesis by simp
  next
    case (Inr o1)
    with Cons.prems(1,2) sent_copy_fill [of "stamp_fill o' (fi_filled_at f)"]
    have "sent_copy o1" "order_id_of o1 = order_id_of o'" by auto
    with Inr Cons.prems Cons.IH [of o1 "applied @ [f]"] show ?thesis by simp
  qed
qed simp

end

subsection \<open>Every interleaving\<close>

text \<open>
  Any number of submissions and cancellations can be waiting for the venue, each with its local
  copy, while other calls run. The machine records the ids handed to the venue. A registration
  uses a fresh UUID, and the venue may answer anything, with non-negative fill quantities as the
  type has them.
\<close>

record om_machine =
  mc_om :: order_manager
  mc_submits :: "order list"
  mc_cancels :: "order list"
  mc_sent :: "order_id list"

definition machine_new :: om_machine where
  "machine_new = \<lparr>mc_om = om_new, mc_submits = [], mc_cancels = [], mc_sent = []\<rparr>"

fun result_ok :: "execution_error + acknowledgement \<Rightarrow> bool" where
  "result_ok (Inl _) = True"
| "result_ok (Inr a) = list_all (\<lambda>f. valid_qty (fi_quantity f)) (ak_immediate_fills a)"

inductive om_reach :: "decimal_ops \<Rightarrow> (nat \<Rightarrow> string) \<Rightarrow> om_machine \<Rightarrow> bool" for D uuid where
  start: "om_reach D uuid machine_new"
| registered: "om_reach D uuid m \<Longrightarrow> valid_qty (rq_quantity req) \<Longrightarrow>
    om_get (mc_om m) (rq_order_id req) = None \<Longrightarrow>
    register_validated (mc_om m) req lat now = (om', r) \<Longrightarrow> om_reach D uuid (m\<lparr>mc_om := om'\<rparr>)"
| submitting: "om_reach D uuid m \<Longrightarrow> submit_begin (mc_om m) i now = (om', Inr o') \<Longrightarrow>
    om_reach D uuid (m\<lparr>mc_om := om', mc_submits := o' # mc_submits m, mc_sent := i # mc_sent m\<rparr>)"
| submitted: "om_reach D uuid m \<Longrightarrow> o' \<in> set (mc_submits m) \<Longrightarrow> result_ok res \<Longrightarrow>
    submit_finish D uuid (mc_om m) (order_id_of o') o' res now clock = (om', out) \<Longrightarrow>
    om_reach D uuid (m\<lparr>mc_om := om', mc_submits := remove1 o' (mc_submits m)\<rparr>)"
| filled: "om_reach D uuid m \<Longrightarrow> valid_qty (fi_quantity f) \<Longrightarrow>
    apply_external_fill D (mc_om m) f = (om', r) \<Longrightarrow> om_reach D uuid (m\<lparr>mc_om := om'\<rparr>)"
| cancelling: "om_reach D uuid m \<Longrightarrow> cancel_begin (mc_om m) i now = (om', Inr o') \<Longrightarrow>
    om_reach D uuid (m\<lparr>mc_om := om', mc_cancels := o' # mc_cancels m\<rparr>)"
| cancelled: "om_reach D uuid m \<Longrightarrow> o' \<in> set (mc_cancels m) \<Longrightarrow>
    cancel_finish (mc_om m) (order_id_of o') o' cres now = (om', out) \<Longrightarrow>
    om_reach D uuid (m\<lparr>mc_om := om', mc_cancels := remove1 o' (mc_cancels m)\<rparr>)"

definition om_ok :: "order_id list \<Rightarrow> order_manager \<Rightarrow> bool" where
  "om_ok sent om \<longleftrightarrow> keys_ok (om_orders om) \<and> (\<forall>i\<in>set sent. om_get om i \<noteq> None) \<and>
     (\<forall>i o'. om_get om i = Some o' \<longrightarrow> order_id_of o' = i \<and>
        (if i \<in> set sent then sent_copy o' else order_ok o' \<and> or_state o' = Validated))"

definition machine_ok :: "om_machine \<Rightarrow> bool" where
  "machine_ok m \<longleftrightarrow> om_ok (mc_sent m) (mc_om m) \<and> distinct (mc_sent m) \<and>
     (\<forall>o'\<in>set (mc_submits m) \<union> set (mc_cancels m). sent_copy o' \<and> order_id_of o' \<in> set (mc_sent m))"

lemma om_ok_emit [simp]: "om_ok sent (emit om e) = om_ok sent om"
  by (simp add: om_ok_def)

lemma om_ok_cong: "om_orders om' = om_orders om \<Longrightarrow> om_ok sent om' = om_ok sent om"
  by (simp add: om_ok_def om_get_def)

lemma om_ok_store:
  "om_ok sent om \<Longrightarrow> sent_copy o' \<Longrightarrow> order_id_of o' \<in> set sent \<Longrightarrow> om_ok sent (store om o')"
  by (auto simp: om_ok_def store_get) (simp add: store_def)

lemma om_ok_get:
  "om_ok sent om \<Longrightarrow> om_get om i = Some o' \<Longrightarrow> or_state o' \<noteq> Validated \<Longrightarrow>
     sent_copy o' \<and> order_id_of o' = i \<and> i \<in> set sent"
  by (auto simp: om_ok_def split: if_splits)

lemma om_ok_register:
  assumes "om_ok sent om" and "valid_qty (rq_quantity req)" and "om_get om (rq_order_id req) = None"
    and "register_validated om req lat now = (om', r)"
  shows "om_ok sent om'"
proof (cases r)
  case (Inl e)
  with assms(1,4) show ?thesis by (auto simp: register_validated_def split: sum.splits)
next
  case (Inr j)
  then obtain o1 where o1: "order_new req lat = Inr o1" "om' = store om (o1\<lparr>or_state := Validated, or_updated_at := now\<rparr>)"
    using assms(4) by (auto simp: register_validated_def transition_Inr and_then_Inr split: sum.splits)
  have id: "order_id_of o1 = rq_order_id req" "order_ok o1"
    using o1(1) assms(2) order_ok_new by (auto simp: order_new_fields order_id_of_def)
  have "rq_order_id req \<notin> set sent" using assms(1,3) by (auto simp: om_ok_def)
  moreover have "order_ok (o1\<lparr>or_state := Validated, or_updated_at := now\<rparr>)"
    using id(2) by (simp add: order_ok_def)
  ultimately show ?thesis
    using assms(1) id(1) unfolding o1(2) by (auto simp: om_ok_def store_get) (simp add: store_def)
qed

lemma submit_begin_Inr:
  "submit_begin om i now = (om', Inr o') \<longleftrightarrow>
     (\<exists>o1. om_get om i = Some o1 \<and> or_state o1 = Validated \<and>
        o' = o1\<lparr>or_state := Submitted, or_updated_at := now, or_latency := (or_latency o1)\<lparr>lt_submission := Some now\<rparr>\<rparr> \<and>
        om' = emit (store om o') (OrderSubmitted i (rq_correlation_id (or_request o')) now))"
  by (auto simp: submit_begin_def transition_def to_Submitted Let_def split: option.splits sum.splits if_splits)

lemma om_ok_submit_begin:
  assumes "om_ok sent om" and "submit_begin om i now = (om', Inr o')"
  shows "om_ok (i # sent) om' \<and> i \<notin> set sent \<and> sent_copy o' \<and> order_id_of o' = i"
proof -
  from assms(2) obtain o1 where o1: "om_get om i = Some o1" "or_state o1 = Validated"
    "o' = o1\<lparr>or_state := Submitted, or_updated_at := now, or_latency := (or_latency o1)\<lparr>lt_submission := Some now\<rparr>\<rparr>"
    "om' = emit (store om o') (OrderSubmitted i (rq_correlation_id (or_request o')) now)"
    unfolding submit_begin_Inr by blast
  from assms(1) o1(1,2) have n: "i \<notin> set sent" "order_id_of o1 = i" "order_ok o1"
    by (auto simp: om_ok_def sent_copy_def split: if_splits)
  then have "sent_copy o'" "order_id_of o' = i" by (simp_all add: o1(3) sent_copy_def order_ok_def)
  moreover have "om_ok (i # sent) (store om o')"
    using assms(1) \<open>sent_copy o'\<close> \<open>order_id_of o' = i\<close>
    by (auto simp: om_ok_def store_get) (simp add: store_def)
  ultimately show ?thesis using n o1(4) by simp
qed

lemma om_ok_cancel_begin:
  assumes "om_ok sent om" and "cancel_begin om i now = (om', Inr o')"
  shows "om_ok sent om' \<and> sent_copy o' \<and> order_id_of o' \<in> set sent"
proof -
  from assms(2) obtain o1 where o1: "om_get om i = Some o1" "transition o1 CancelRequested now = Inr o'"
    "om' = store om o'"
    by (auto simp: cancel_begin_def split: option.splits sum.splits)
  then have "or_state o1 \<noteq> Validated" by (auto simp: transition_Inr state_tests)
  from om_ok_get [OF assms(1) o1(1) this] sent_copy_transition [OF _ o1(2)] om_ok_store [OF assms(1)] o1(3)
  show ?thesis by auto
qed

lemma om_ok_cancel_finish:
  assumes "om_ok sent om" and "sent_copy o'" and "order_id_of o' \<in> set sent"
    and "cancel_finish om i o' res now = (om', out)"
  shows "om_ok sent om'"
  using assms(4) om_ok_store [OF assms(1)] sent_copy_transition [OF assms(2)] assms(1,3)
  by (auto simp: cancel_finish_def split: sum.splits execution_error.splits)

context decimal_additive
begin

lemma om_ok_submit_finish:
  assumes "om_ok sent om" and "sent_copy o'" and "order_id_of o' \<in> set sent" and "result_ok res"
    and "submit_finish D uuid om i o' res now clock = (om', out)"
  shows "om_ok sent om'"
proof (cases res)
  case (Inl e)
  with assms show ?thesis
    by (auto simp: submit_finish_def Let_def intro!: om_ok_store split: if_splits)
next
  case (Inr a)
  define o2 where "o2 = try_transition (o'\<lparr>or_latency := (or_latency o')\<lparr>lt_ack := Some now\<rparr>,
      or_venue_order_id := ak_venue_order_id a\<rparr>) Acknowledged now"
  obtain o3 fs where f: "ack_fills D clock (ak_immediate_fills a) o2 [] = (o3, fs)" by force
  have "sent_copy o2" "order_id_of o2 = order_id_of o'" using assms(2) by (simp_all add: o2_def)
  with ack_fills_sent [OF _ _ f] assms(4) Inr have "sent_copy o3" "order_id_of o3 = order_id_of o'" by auto
  then have "om_ok sent (store (emit om e) o3)" for e using assms(1,3) by (simp add: om_ok_store)
  moreover have "\<exists>e. om_orders om' = om_orders (store (emit om e) o3)"
    using assms(5) Inr f by (auto simp: submit_finish_def o2_def [symmetric] Let_def)
  ultimately show ?thesis using om_ok_cong by blast
qed

lemma om_ok_external:
  assumes "om_ok sent om" and "valid_qty (fi_quantity f)" and "apply_external_fill D om f = (om', r)"
  shows "om_ok sent om'"
proof (cases r)
  case (Inl e)
  with assms(1,3) show ?thesis by (auto simp: apply_external_fill_def split: option.splits sum.splits)
next
  case (Inr u)
  then obtain o1 o2 where o12: "om_get om (fi_order_id f) = Some o1"
    "apply_fill D (stamp_fill o1 (fi_filled_at f)) (fi_quantity f) (fi_price f) (fi_fee f) (fi_filled_at f) = Inr o2"
    "om' = emit (store om o2) (fill_event o2 (fi_order_id f) f)"
    using assms(3) by (auto simp: apply_external_fill_def split: option.splits sum.splits)
  from apply_fill_fields(10) [OF o12(2)] have "or_state o1 \<noteq> Validated" by (auto simp: state_tests)
  from om_ok_get [OF assms(1) o12(1) this] sent_copy_fill [OF _ assms(2) o12(2)] om_ok_store [OF assms(1)] o12(3)
  show ?thesis by auto
qed

theorem machine_reach_ok: "om_reach D uuid m \<Longrightarrow> machine_ok m"
proof (induction rule: om_reach.induct)
  case start
  show ?case by (simp add: machine_ok_def machine_new_def om_ok_def om_new_def om_get_def)
next
  case (registered m req lat now om' r)
  then show ?case using om_ok_register by (auto simp: machine_ok_def)
next
  case (submitting m i now om' o')
  then show ?case using om_ok_submit_begin [of "mc_sent m" "mc_om m" i now om' o'] by (auto simp: machine_ok_def)
next
  case (submitted m o' res now clock om' out)
  then show ?case using om_ok_submit_finish [of "mc_sent m" "mc_om m" o' res]
    by (auto simp: machine_ok_def dest: set_remove1_subset [THEN subsetD])
next
  case (filled m f om' r)
  then show ?case using om_ok_external by (auto simp: machine_ok_def)
next
  case (cancelling m i now om' o')
  then show ?case using om_ok_cancel_begin [of "mc_sent m" "mc_om m" i now om' o'] by (auto simp: machine_ok_def)
next
  case (cancelled m o' cres now om' out)
  then show ?case using om_ok_cancel_finish [of "mc_sent m" "mc_om m" o']
    by (auto simp: machine_ok_def dest: set_remove1_subset [THEN subsetD])
qed

end

subsection \<open>A lawful venue\<close>

text \<open>The fills of a lawful acknowledgement are all applied.\<close>

definition filled_state :: "order \<Rightarrow> rat \<Rightarrow> order_state" where
  "filled_state o' q = (if q = rq_quantity (or_request o') then Filled else PartiallyFilled)"

context decimal_additive
begin

lemma ack_fills_all:
  assumes "order_ok o'" and "may_have_executed (or_state o')" and "list_all (fill_of r) fs"
    and "or_filled_qty o' + filled_by fs \<le> rq_quantity (or_request o')"
  shows "\<exists>o''. ack_fills D clock fs o' applied = (o'', applied @ fs) \<and> or_request o'' = or_request o' \<and>
           or_filled_qty o'' = or_filled_qty o' + filled_by fs \<and>
           or_state o'' = (if fs = [] then or_state o' else filled_state o' (or_filled_qty o'')) \<and>
           order_ok o''"
  using assms
proof (induction fs arbitrary: o' applied)
  case (Cons f fs)
  let ?o = "stamp_fill o' (fi_filled_at f)"
  have q: "0 < fi_quantity f" "0 \<le> filled_by fs"
    using Cons.prems(3) filled_by_nonneg [of r fs] by (auto simp: fill_of_def [of r f])
  have ok: "order_ok ?o" using Cons.prems(1) by (simp add: order_ok_def)
  have "fi_quantity f \<le> remaining D ?o" using Cons.prems(4) q by (simp add: remaining_ok [OF ok])
  then obtain o1 where o1: "apply_fill D ?o (fi_quantity f) (fi_price f) (fi_fee f) (fi_filled_at f) = Inr o1"
    using Cons.prems(2) apply_fill_succeeds [of D ?o "fi_quantity f" "fi_price f" "fi_fee f" "fi_filled_at f"]
    by auto
  note F = apply_fill_fields(1,2) [OF o1]
  have vq: "valid_qty (fi_quantity f)" using q by (simp add: valid_qty_def)
  have st: "or_state o1 = filled_state o' (or_filled_qty o' + fi_quantity f)"
    using apply_fill_complete [OF ok vq o1] by (simp add: filled_state_def)
  have "may_have_executed (or_state o1)" by (simp add: st filled_state_def state_tests)
  then obtain o2 where o2: "ack_fills D clock fs o1 (applied @ [f]) = (o2, (applied @ [f]) @ fs)"
    "or_request o2 = or_request o1" "or_filled_qty o2 = or_filled_qty o1 + filled_by fs"
    "or_state o2 = (if fs = [] then or_state o1 else filled_state o1 (or_filled_qty o2))" "order_ok o2"
    using Cons.IH [OF apply_fill_ok [OF ok vq o1], of "applied @ [f]"] Cons.prems(3,4) F
    by (auto simp: add_exact add.assoc)
  have sum: "or_filled_qty o2 = or_filled_qty o' + filled_by (f # fs)"
    using o2(3) F by (simp add: add_exact)
  moreover have "or_state o2 = filled_state o' (or_filled_qty o2)"
  proof (cases "fs = []")
    case True
    with o2(4) st sum show ?thesis by simp
  next
    case False
    with o2(4) F show ?thesis by (simp add: filled_state_def)
  qed
  ultimately show ?case using o1 o2 F by simp
qed simp

end

context execution_adapter
begin

text \<open>
  Submitting a validated order to a lawful venue: the stored order says exactly what the venue
  did, in each of the three outcomes.
\<close>

lemma lawful_submit:
  assumes D: "decimal_additive D" and s: "venue_ok s" and o1: "om_get om i = Some o'"
    and st: "or_state o' = Validated" and id: "order_id_of o' = i" and z: "or_filled_qty o' = 0"
    and rq: "request_ok (or_request o')"
    and sub: "om_submit D uuid submit om s i t1 t2 clock = (om', s', out)"
  shows "venue_ok s' \<and> (\<exists>o2. om_get om' i = Some o2 \<and> or_request o2 = or_request o' \<and>
     (case snd (submit s (or_request o')) of
        Inr a \<Rightarrow> out = SubAcknowledged i (ak_immediate_fills a) \<and>
          or_filled_qty o2 = filled_by (ak_immediate_fills a) \<and>
          or_state o2 = (if ak_immediate_fills a = [] then Acknowledged
                         else filled_state o' (filled_by (ak_immediate_fills a)))
      | Inl e \<Rightarrow> or_filled_qty o2 = 0 \<and>
          (if requires_reconciliation e then out = SubAmbiguous i e \<and> or_state o2 = Unknown
           else out = SubRejected i (OmVenueError e) \<and> or_state o2 = Rejected)))"
proof -
  obtain om1 o1 where b: "submit_begin om i t1 = (om1, Inr o1)" "or_request o1 = or_request o'"
    "or_state o1 = Submitted" "or_filled_qty o1 = 0" "order_id_of o1 = i"
    using o1 st z id by (auto simp: submit_begin_def transition_def state_tests Let_def)
  obtain s2 res where v: "submit s (or_request o') = (s2, res)" by force
  obtain om2 out2 where f: "submit_finish D uuid om1 i o1 res t2 clock = (om2, out2)" by force
  have eq: "om' = om2" "s' = s2" "out = out2" using sub b v f by (auto simp: om_submit_def)
  have ok: "order_ok o1" using rq b by (simp add: order_ok_def request_ok_def)
  have "\<exists>o2. om_get om2 i = Some o2 \<and> or_request o2 = or_request o' \<and>
     (case res of
        Inr a \<Rightarrow> out2 = SubAcknowledged i (ak_immediate_fills a) \<and>
          or_filled_qty o2 = filled_by (ak_immediate_fills a) \<and>
          or_state o2 = (if ak_immediate_fills a = [] then Acknowledged
                         else filled_state o' (filled_by (ak_immediate_fills a)))
      | Inl e \<Rightarrow> or_filled_qty o2 = 0 \<and>
          (if requires_reconciliation e then out2 = SubAmbiguous i e \<and> or_state o2 = Unknown
           else out2 = SubRejected i (OmVenueError e) \<and> or_state o2 = Rejected))"
  proof (cases res)
    case (Inl e)
    with f b show ?thesis
      by (auto simp: submit_finish_def store_get Let_def try_transition_state state_tests split: if_splits)
  next
    case (Inr a)
    define o2 where "o2 = try_transition (o1\<lparr>or_latency := (or_latency o1)\<lparr>lt_ack := Some t2\<rparr>,
        or_venue_order_id := ak_venue_order_id a\<rparr>) Acknowledged t2"
    have o2: "or_state o2 = Acknowledged" "or_request o2 = or_request o'" "or_filled_qty o2 = 0"
      "order_ok o2" "order_id_of o2 = i"
      using b ok by (simp_all add: o2_def try_transition_state state_tests order_ok_def)
    have ack: "ack_ok (or_request o') a" using submit_acks [OF s rq] v Inr by blast
    have "\<exists>o3. ack_fills D clock (ak_immediate_fills a) o2 [] = (o3, [] @ ak_immediate_fills a) \<and>
        or_request o3 = or_request o2 \<and>
        or_filled_qty o3 = or_filled_qty o2 + filled_by (ak_immediate_fills a) \<and>
        or_state o3 = (if ak_immediate_fills a = [] then or_state o2 else filled_state o2 (or_filled_qty o3)) \<and>
        order_ok o3"
      by (rule decimal_additive.ack_fills_all [OF D o2(4)]) (use ack o2 in \<open>auto simp: ack_ok_def state_tests\<close>)
    then obtain o3 where o3: "ack_fills D clock (ak_immediate_fills a) o2 [] = (o3, ak_immediate_fills a)"
      "or_request o3 = or_request o'" "or_filled_qty o3 = filled_by (ak_immediate_fills a)"
      "or_state o3 = (if ak_immediate_fills a = [] then Acknowledged
                      else filled_state o' (filled_by (ak_immediate_fills a)))"
      using o2 by (auto simp: filled_state_def)
    have "order_id_of o3 = i" using o3(2) id by (simp add: order_id_of_def)
    with f Inr o3 show ?thesis by (auto simp: submit_finish_def o2_def [symmetric] store_get Let_def)
  qed
  moreover have "venue_ok s2" using submit_keeps [OF s rq] v by (metis fst_conv)
  ultimately show ?thesis unfolding eq v snd_conv by simp
qed

end

subsection \<open>Cancelling everything\<close>

definition cancellable :: "order \<Rightarrow> bool" where
  "cancellable o' \<longleftrightarrow> or_state o' = Acknowledged \<or> or_state o' = PartiallyFilled"

definition cancelled_at :: "(order_id \<Rightarrow> timestamp \<times> timestamp) \<Rightarrow> order \<Rightarrow> order" where
  "cancelled_at clock o' =
     o'\<lparr>or_state := Cancelled, or_updated_at := snd (clock (order_id_of o'))\<rparr>"

lemma find_Some_in: "find Q xs = Some y \<Longrightarrow> y \<in> set xs \<and> Q y"
  by (induction xs) (auto split: if_splits)

lemma cancellable_iff: "can_transition_to (or_state o') CancelRequested \<longleftrightarrow> cancellable o'"
  by (cases "or_state o'") (simp_all add: cancellable_def state_tests)

context cooperative_adapter
begin

lemma cancel_one:
  assumes "venue_ok s" and "om_get om (order_id_of o') = Some o'"
    and "om_cancel cancel om s (order_id_of o') t1 t2 = (om', s', r)"
  shows "venue_ok s' \<and>
    (if cancellable o'
     then r = Inr () \<and> (\<forall>j. om_get om' j = (if j = order_id_of o' then Some (o'\<lparr>or_state := Cancelled, or_updated_at := t2\<rparr>) else om_get om j))
     else om' = om \<and> (\<exists>e. r = Inl e))"
proof (cases "cancellable o'")
  case False
  with assms show ?thesis
    by (auto simp: om_cancel_def cancel_begin_def transition_def cancellable_iff)
next
  case True
  let ?o = "o'\<lparr>or_state := CancelRequested, or_updated_at := t1\<rparr>"
  have b: "cancel_begin om (order_id_of o') t1 = (store om ?o, Inr ?o)"
    using True assms(2) by (simp add: cancel_begin_def transition_def cancellable_iff)
  obtain s2 res where c: "cancel s (order_id_of o') (or_venue_order_id ?o) = (s2, res)" by force
  have "venue_ok s2" using cancel_keeps [OF assms(1)] c by (metis fst_conv)
  moreover have "res = Inr () \<or> res = Inl (UnknownAtVenue (order_id_of o'))"
    using cancel_answers [OF assms(1)] c by (cases res) auto
  ultimately show ?thesis
    using assms(3) True b c
    by (auto simp: om_cancel_def cancel_finish_def transition_def state_tests store_get split: prod.splits)
qed

lemma cancel_loop:
  assumes "venue_ok s" and "distinct (map order_id_of os)"
    and "\<forall>o'\<in>set os. om_get om (order_id_of o') = Some o'"
    and "foldl (cancel_all_step cancel clock) (om, s, d, f) os = (om', s', d', f')"
  shows "d' = d + length (filter cancellable os) \<and> f' = f + length (filter (\<lambda>o'. \<not> cancellable o') os) \<and>
    (\<forall>j. om_get om' j = (case find (\<lambda>o'. order_id_of o' = j \<and> cancellable o') os of
       Some o' \<Rightarrow> Some (cancelled_at clock o') | None \<Rightarrow> om_get om j))"
  using assms
proof (induction os arbitrary: om s d f)
  case (Cons o1 os)
  obtain t1 t2 where t: "clock (order_id_of o1) = (t1, t2)" by force
  obtain om1 s1 r where c: "om_cancel cancel om s (order_id_of o1) t1 t2 = (om1, s1, r)" by (metis prod_cases3)
  have "om_get om (order_id_of o1) = Some o1" using Cons.prems(3) by simp
  note one = cancel_one [OF Cons.prems(1) this c]
  have others: "om_get om1 (order_id_of x) = Some x" if "x \<in> set os" for x
  proof -
    from that Cons.prems(2) have "order_id_of x \<noteq> order_id_of o1"
      by (metis distinct.simps(2) imageI list.map(2) set_map)
    with one that Cons.prems(3) show ?thesis by (auto split: if_splits)
  qed
  define d1 f1 where "d1 = (if cancellable o1 then d + 1 else d)" and "f1 = (if cancellable o1 then f else f + 1)"
  have "foldl (cancel_all_step cancel clock) (om1, s1, d1, f1) os = (om', s', d', f')"
    using Cons.prems(4) one
    by (auto simp: cancel_all_step_def [of cancel clock "(om, s, d, f)" o1] t c d1_def f1_def Let_def split: if_splits)
  from Cons.IH [OF _ _ _ this] one Cons.prems(2) others
  have ih: "d' = d1 + length (filter cancellable os)" "f' = f1 + length (filter (\<lambda>o'. \<not> cancellable o') os)"
    "\<forall>j. om_get om' j = (case find (\<lambda>o'. order_id_of o' = j \<and> cancellable o') os of
       Some o' \<Rightarrow> Some (cancelled_at clock o') | None \<Rightarrow> om_get om1 j)" by auto
  have nf: "find (\<lambda>o'. order_id_of o' = order_id_of o1 \<and> cancellable o') os = None"
    using Cons.prems(2) by (auto simp: find_None_iff) (metis imageI)
  have "om_get om' j = (case find (\<lambda>o'. order_id_of o' = j \<and> cancellable o') (o1 # os) of
       Some o' \<Rightarrow> Some (cancelled_at clock o') | None \<Rightarrow> om_get om j)" for j
    using ih(3) [rule_format, of j] one nf by (auto simp: cancelled_at_def t split: if_splits option.splits)
  with ih(1,2) show ?case by (simp add: d1_def f1_def)
qed simp

lemma cancel_all_exact:
  assumes "venue_ok s" and "keys_ok (om_orders om)" and "list_all (\<lambda>(i, o'). order_id_of o' = i) (om_orders om)"
    and "cancel_all cancel clock om s = (om', s', d, f)"
  shows "om_get om' j = map_option (\<lambda>o'. if cancellable o' then cancelled_at clock o' else o') (om_get om j)"
    and "d = length (filter cancellable (open_orders om))" and "d + f = length (open_orders om)"
proof -
  have ids: "map order_id_of (om_values om) = map fst (om_orders om)"
    using assms(3) by (auto simp: om_values_def list_all_iff)
  have dist: "distinct (map order_id_of (om_values om))" using assms(2) unfolding ids keys_ok_def .
  have mem: "om_get om (order_id_of x) = Some x" if "x \<in> set (om_values om)" for x
    using that assms(2,3) by (auto simp: om_values_def om_get_def list_all_iff keys_ok_get [symmetric])
  have "distinct (map order_id_of (open_orders om))"
    using dist by (simp add: open_orders_def distinct_map_filter)
  moreover have "\<forall>x\<in>set (open_orders om). om_get om (order_id_of x) = Some x"
    using mem by (auto simp: open_orders_def)
  moreover have "foldl (cancel_all_step cancel clock) (om, s, 0, 0) (open_orders om) = (om', s', d, f)"
    using assms(4) by (simp add: cancel_all_def)
  ultimately have L: "d = 0 + length (filter cancellable (open_orders om))"
    "f = 0 + length (filter (\<lambda>o'. \<not> cancellable o') (open_orders om))"
    "om_get om' j = (case find (\<lambda>o'. order_id_of o' = j \<and> cancellable o') (open_orders om) of
       Some o' \<Rightarrow> Some (cancelled_at clock o') | None \<Rightarrow> om_get om j)"
    using cancel_loop [OF assms(1)] by blast+
  then show "d = length (filter cancellable (open_orders om))" "d + f = length (open_orders om)"
    using sum_length_filter_compl [of cancellable "open_orders om"] by simp_all
  show "om_get om' j = map_option (\<lambda>o'. if cancellable o' then cancelled_at clock o' else o') (om_get om j)"
  proof (cases "om_get om j")
    case None
    then have "find (\<lambda>o'. order_id_of o' = j \<and> cancellable o') (open_orders om) = None"
      using mem by (fastforce simp: find_None_iff open_orders_def)
    with L(3) None show ?thesis by simp
  next
    case (Some x)
    then have x: "x \<in> set (om_values om)" "order_id_of x = j"
      using assms(3) get_in [of "om_orders om" j x] by (force simp: om_get_def om_values_def list_all_iff)+
    show ?thesis
    proof (cases "cancellable x")
      case True
      then have "x \<in> set (open_orders om)" using x by (auto simp: open_orders_def cancellable_def is_open_def)
      then obtain y where y: "find (\<lambda>o'. order_id_of o' = j \<and> cancellable o') (open_orders om) = Some y"
        using x(2) True by (cases "find (\<lambda>o'. order_id_of o' = j \<and> cancellable o') (open_orders om)")
          (auto simp: find_None_iff)
      from find_Some_in [OF this] have "y \<in> set (om_values om)" "order_id_of y = j"
        by (auto simp: open_orders_def)
      with mem Some have "y = x" by fastforce
      with y L(3) Some True show ?thesis by simp
    next
      case False
      then have "find (\<lambda>o'. order_id_of o' = j \<and> cancellable o') (open_orders om) = None"
        using Some mem by (fastforce simp: find_None_iff open_orders_def)
      with L(3) Some False show ?thesis by simp
    qed
  qed
qed

end

subsection \<open>Properties\<close>


lemma om_get_new: "om_get om_new i = None"
  by (simp add: om_new_def om_get_def)

definition registered_om :: order_manager where
  "registered_om = fst (register_validated om_new sample_gtc (stamps_begin 0) 0)"

lemma registered_eq:
  "register_validated om_new sample_gtc (stamps_begin 0) 0 = (registered_om, Inr 1)"
  by (simp add: registered_om_def register_validated_def order_new_def transition_def state_tests
      sample_gtc_def sample_request_def order_id_of_def)

lemma registered_order:
  "\<exists>o'. om_get registered_om 1 = Some o' \<and> or_state o' = Validated \<and> order_id_of o' = 1 \<and>
     or_filled_qty o' = 0 \<and> or_request o' = sample_gtc"
  by (simp add: registered_om_def register_validated_def order_new_def transition_def state_tests
      sample_gtc_def sample_request_def order_id_of_def om_get_def get_def store_def om_new_def)


text \<open>C31: What the venue answered is what the book of orders says. Submitting a validated order to any
  venue that keeps the adapter contract leaves the order with exactly the acknowledged fills,
  filled or partially filled or merely acknowledged accordingly; a refusal leaves it rejected and
  unfilled; and an outcome that may have left an order at the venue is recorded as unknown, never
  as a failure.\<close>

theorem venue_outcome_recorded:
  assumes "decimal_additive D" and "execution_adapter venue_ok submit cancel" and "venue_ok s"
    and "om_get om i = Some o'" and "or_state o' = Validated" and "order_id_of o' = i"
    and "or_filled_qty o' = 0" and "request_ok (or_request o')"
    and "om_submit D uuid submit om s i t1 t2 clock = (om', s', out)"
  shows "\<exists>o2. om_get om' i = Some o2 \<and> or_request o2 = or_request o' \<and>
     (case snd (submit s (or_request o')) of
        Inr a \<Rightarrow> out = SubAcknowledged i (ak_immediate_fills a) \<and>
          or_filled_qty o2 = filled_by (ak_immediate_fills a) \<and>
          or_state o2 = (if ak_immediate_fills a = [] then Acknowledged
                         else filled_state o' (filled_by (ak_immediate_fills a)))
      | Inl e \<Rightarrow> or_filled_qty o2 = 0 \<and>
          (if requires_reconciliation e then out = SubAmbiguous i e \<and> or_state o2 = Unknown
           else out = SubRejected i (OmVenueError e) \<and> or_state o2 = Rejected))"
  using execution_adapter.lawful_submit [OF assms(2,1,3-9)] by blast

theorem venue_outcome_recorded_witness:
  "\<exists>om' s' out o2. om_submit exact_decimal (\<lambda>_. []) (venue_submit exact_decimal (\<lambda>_. [])) registered_om
       (paper_new sample_params 0 0, [(TokenId ''7'', sample_book)], \<lambda>_. sample_inputs) 1 0 0 (\<lambda>_. 0)
       = (om', s', out) \<and>
     om_get om' 1 = Some o2 \<and> or_filled_qty o2 = 50 \<and> or_state o2 = PartiallyFilled"
proof -
  let ?s = "(paper_new sample_params 0 0, [(TokenId ''7'', sample_book)], \<lambda>_. sample_inputs)"
  obtain o' where o': "om_get registered_om 1 = Some o'" "or_state o' = Validated" "order_id_of o' = 1"
    "or_filled_qty o' = 0" "or_request o' = sample_gtc" using registered_order by blast
  have ok: "paper_venue_ok exact_decimal ?s"
    using cache_ok_put [OF _ sample_book_valid, of "[]"] sample_inputs_draw
    by (simp add: paper_venue_ok_def sample_cache cache_ok_def cache_get_def)
  obtain a f where snd: "snd (venue_submit exact_decimal (\<lambda>_. []) ?s sample_gtc) = Inr a"
    "ak_immediate_fills a = [f]" "fi_quantity f = 50"
    using sample_submit by (auto simp: venue_submit_def)
  obtain om' s' out where sub: "om_submit exact_decimal (\<lambda>_. []) (venue_submit exact_decimal (\<lambda>_. []))
      registered_om ?s 1 0 0 (\<lambda>_. 0) = (om', s', out)" by (metis prod_cases3)
  from venue_outcome_recorded [OF exact_dec.decimal_additive_axioms paper.execution_adapter_axioms
      ok o'(1-4) _ sub] o'(5) snd
  show ?thesis using sub by (cases s') (auto simp: sample_gtc_fields filled_state_def)
qed

text \<open>C36: Cancelling everything does what it can and counts it. With a venue whose cancellations end
  (the order is gone or was not there), every order that is acknowledged or partially filled
  becomes cancelled with its fills intact and nothing else in the book of orders moves; the first
  count is the number of those orders, and the two counts add up to the orders that were open.\<close>

theorem cancel_all_exactly:
  assumes "cooperative_adapter venue_ok submit cancel" and "venue_ok s"
    and "keys_ok (om_orders om)" and "list_all (\<lambda>(i, o'). order_id_of o' = i) (om_orders om)"
    and "cancel_all cancel clock om s = (om', s', d, f)"
  shows "om_get om' j = map_option (\<lambda>o'. if cancellable o' then cancelled_at clock o' else o') (om_get om j) \<and>
         d = length (filter cancellable (open_orders om)) \<and> d + f = length (open_orders om)"
  using cooperative_adapter.cancel_all_exact [OF assms] by blast

definition sample_partial :: order where
  "sample_partial = sample_order PartiallyFilled 40 (244/10)"

lemma sample_partial_fields:
  "order_id_of sample_partial = 1" "or_state sample_partial = PartiallyFilled"
  "or_filled_qty sample_partial = 40" "rq_quantity (or_request sample_partial) = 100"
  by (simp_all add: sample_partial_def sample_order_def sample_request_def order_id_of_def)

definition open_om :: order_manager where
  "open_om = store om_new sample_partial"

theorem cancel_all_exactly_witness:
  "\<exists>om' s'. cancel_all venue_cancel (\<lambda>_. (0, 9)) open_om (paper_new sample_params 0 0, [], \<lambda>_. sample_inputs)
       = (om', s', 1, 0) \<and> map_option or_state (om_get om' 1) = Some Cancelled"
proof -
  let ?s = "(paper_new sample_params 0 0, [], \<lambda>_. sample_inputs)"
  have ok: "paper_venue_ok exact_decimal ?s"
    using sample_inputs_draw by (simp add: paper_venue_ok_def cache_ok_def cache_get_def)
  have om: "om_orders open_om = [(1, sample_partial)]"
    by (simp add: open_om_def store_def om_new_def sample_partial_fields)
  have o: "open_orders open_om = [sample_partial]"
    by (simp add: open_orders_def om_values_def om is_open_def sample_partial_fields)
  obtain om' s' d f where c: "cancel_all venue_cancel (\<lambda>_. (0, 9)) open_om ?s = (om', s', d, f)"
    by (metis prod_cases4)
  from cancel_all_exactly [OF paper.cooperative_adapter_axioms ok _ _ c, of 1] om o c show ?thesis
    by (cases s') (auto simp: om_get_def get_def keys_ok_def cancellable_def cancelled_at_def
        sample_partial_fields)
qed

text \<open>A fill that races a cancellation is lost. The cancellation keeps its own copy of the order
  while it waits for the venue; a fill that the order manager accepts and announces in the meantime
  is overwritten when that copy is stored, so the stored order ends cancelled with the filled
  quantity it had before the fill.\<close>

theorem racing_fill_is_lost:
  assumes "cancel_begin om i t1 = (om1, Inr o')" and "om_get om i = Some o1" and "order_id_of o1 = i"
    and "apply_external_fill D om1 f = (om2, Inr ())" and "fi_order_id f = i"
    and "cancel_finish om2 i o' (Inr ()) t2 = (om3, out)"
  shows "out = Inr () \<and> map_option or_state (om_get om3 i) = Some Cancelled \<and>
         map_option or_filled_qty (om_get om3 i) = Some (or_filled_qty o1) \<and>
         map_option or_filled_qty (om_get om2 i) = Some (d_add D (or_filled_qty o1) (fi_quantity f))"
proof -
  have o': "transition o1 CancelRequested t1 = Inr o'" "om1 = store om o'"
    using assms(1,2) by (auto simp: cancel_begin_def split: sum.splits)
  then have o'': "or_state o' = CancelRequested" "or_filled_qty o' = or_filled_qty o1" "order_id_of o' = i"
    using assms(3) by (auto simp: transition_Inr)
  have g: "om_get om1 i = Some o'" using o'(2) o''(3) by (simp add: store_get)
  obtain o2 where o2: "apply_fill D (stamp_fill o' (fi_filled_at f)) (fi_quantity f) (fi_price f) (fi_fee f)
      (fi_filled_at f) = Inr o2" "om2 = emit (store om1 o2) (fill_event o2 i f)"
    using assms(4,5) g by (auto simp: apply_external_fill_def split: sum.splits)
  note F = apply_fill_fields(1,2) [OF o2(1)]
  have id2: "order_id_of o2 = i" using F(1) o''(3) by (simp add: order_id_of_def)
  have "map_option or_filled_qty (om_get om2 i) = Some (d_add D (or_filled_qty o1) (fi_quantity f))"
    using o2(2) id2 F(2) o''(2) by (simp add: store_get)
  moreover have "transition o' Cancelled t2 = Inr (o'\<lparr>or_state := Cancelled, or_updated_at := t2\<rparr>)"
    using o''(1) by (simp add: transition_def state_tests)
  ultimately show ?thesis using assms(6) o'' by (auto simp: cancel_finish_def store_get)
qed

definition racing_fill :: fill where
  "racing_fill = make_fill 5 1 2 (MarketId ''m'') (TokenId ''7'') Buy 60 (61/100) 0 3"

theorem racing_fill_is_lost_witness:
  "\<exists>om1 o' om2 om3 out. cancel_begin open_om 1 0 = (om1, Inr o') \<and>
     apply_external_fill exact_decimal om1 racing_fill = (om2, Inr ()) \<and>
     cancel_finish om2 1 o' (Inr ()) 1 = (om3, out) \<and>
     map_option or_filled_qty (om_get om2 1) = Some 100 \<and>
     map_option or_filled_qty (om_get om3 1) = Some 40"
proof -
  have g: "om_get open_om 1 = Some sample_partial"
    by (simp add: open_om_def store_get sample_partial_fields)
  let ?o = "sample_partial\<lparr>or_state := CancelRequested, or_updated_at := 0\<rparr>"
  have b: "cancel_begin open_om 1 0 = (store open_om ?o, Inr ?o)"
    using g by (simp add: cancel_begin_def transition_def sample_partial_fields state_tests del: One_nat_def)
  have f: "fi_order_id racing_fill = 1" "fi_quantity racing_fill = 60"
    by (simp_all add: racing_fill_def make_fill_def)
  have "\<exists>om2. apply_external_fill exact_decimal (store open_om ?o) racing_fill = (om2, Inr ())"
    by (simp add: apply_external_fill_def store_get f apply_fill_def remaining_def
        qty_saturating_sub_def sample_partial_fields state_tests Let_def)
  then obtain om2 where a: "apply_external_fill exact_decimal (store open_om ?o) racing_fill = (om2, Inr ())" ..
  obtain om3 out where c: "cancel_finish om2 1 ?o (Inr ()) 1 = (om3, out)" by force
  from racing_fill_is_lost [OF b g sample_partial_fields(1) a f(1) c] b a c show ?thesis
    by (auto simp: f sample_partial_fields)
qed

end
