(* ===== verification/Reconciliation.thy ===== *)
theory Reconciliation
  imports OrderManager
begin

section \<open>Position reconciliation (crates/execution/src/reconciliation.rs)\<close>

text \<open>
  Our positions are a signed quantity per token, the venue's a list of quantities. A disagreement
  is reported, never corrected.
\<close>

record mismatch =
  mm_token_id :: token_id
  mm_internal :: rat
  mm_venue :: rat
  mm_difference :: rat
  mm_at :: timestamp

definition relative :: "decimal_ops \<Rightarrow> mismatch \<Rightarrow> rat" where
  "relative D m =
     (let d = max \<bar>mm_internal m\<bar> \<bar>mm_venue m\<bar>
      in if d = 0 then 0 else min (d_div D \<bar>mm_difference m\<bar> d) 1)"

record reconciliation_report =
  rr_at :: timestamp
  rr_checked :: nat
  rr_mismatches :: "mismatch list"
  rr_unexpected_venue_positions :: "token_id list"
  rr_missing_at_venue :: "token_id list"

definition is_clean :: "reconciliation_report \<Rightarrow> bool" where
  "is_clean r \<longleftrightarrow> rr_mismatches r = [] \<and> rr_unexpected_venue_positions r = [] \<and> rr_missing_at_venue r = []"

definition warrants_halt :: "reconciliation_report \<Rightarrow> rat \<Rightarrow> bool" where
  "warrants_halt r tolerance \<longleftrightarrow>
     rr_unexpected_venue_positions r \<noteq> [] \<or>
     list_ex (\<lambda>m. \<bar>mm_difference m\<bar> > tolerance) (rr_mismatches r)"

definition summary :: "reconciliation_report \<Rightarrow> string" where
  "summary r =
     (if is_clean r then ''clean: '' @ nat_text (rr_checked r) @ '' positions agree''
      else nat_text (length (rr_mismatches r)) @ '' mismatches, '' @
           nat_text (length (rr_unexpected_venue_positions r)) @ '' unexpected at venue, '' @
           nat_text (length (rr_missing_at_venue r)) @ '' missing at venue'')"

text \<open>Collecting into a map keeps the last entry of a token.\<close>

definition venue_map :: "venue_position list \<Rightarrow> (token_id, rat) hashmap" where
  "venue_map venue = foldl (\<lambda>m p. AList.update (vp_token_id p) (vp_quantity p) m) [] venue"

definition compare_token ::
    "decimal_ops \<Rightarrow> (token_id, rat) hashmap \<Rightarrow> rat \<Rightarrow> timestamp \<Rightarrow>
     mismatch list \<times> token_id list \<Rightarrow> token_id \<times> rat \<Rightarrow> mismatch list \<times> token_id list" where
  "compare_token D vm tolerance now acc entry =
     (let (mismatches, missing) = acc; (token, ours) = entry in
      case get vm token of
        Some theirs \<Rightarrow>
          (let diff = d_sub D ours theirs
           in if \<bar>diff\<bar> > tolerance
              then (mismatches @ [\<lparr>mm_token_id = token, mm_internal = ours, mm_venue = theirs,
                                   mm_difference = diff, mm_at = now\<rparr>], missing)
              else (mismatches, missing))
      | None \<Rightarrow> (if \<bar>ours\<bar> > tolerance then (mismatches, missing @ [token]) else (mismatches, missing)))"

definition reconcile ::
    "decimal_ops \<Rightarrow> (token_id, rat) hashmap \<Rightarrow> venue_position list \<Rightarrow> rat \<Rightarrow> timestamp \<Rightarrow> reconciliation_report" where
  "reconcile D internal venue tolerance now =
     (let vm = venue_map venue;
          (mismatches, missing) = foldl (compare_token D vm tolerance now) ([], []) internal;
          unexpected = map fst (filter (\<lambda>(t, q). t \<notin> set (map fst internal) \<and> \<bar>q\<bar> > tolerance) vm)
      in \<lparr>rr_at = now, rr_checked = max (length internal) (length vm), rr_mismatches = mismatches,
          rr_unexpected_venue_positions = unexpected, rr_missing_at_venue = missing\<rparr>)"

definition resolves_unknown_order ::
    "decimal_ops \<Rightarrow> token_id \<Rightarrow> rat \<Rightarrow> venue_position list \<Rightarrow> qty \<Rightarrow> rat \<Rightarrow> bool" where
  "resolves_unknown_order D token booked venue order_qty tolerance \<longleftrightarrow>
     (let v = (case find (\<lambda>p. vp_token_id p = token) venue of Some p \<Rightarrow> vp_quantity p | None \<Rightarrow> 0)
      in \<bar>d_sub D v booked\<bar> \<ge> d_sub D order_qty tolerance \<and> order_qty > 0)"

subsection \<open>What a report says\<close>

lemma foldl_update_keys:
  "keys_ok m \<Longrightarrow> keys_ok (foldl (\<lambda>m p. AList.update (f p) (g p) m) m ps)"
  by (induction ps arbitrary: m) simp_all

lemma venue_map_keys: "keys_ok (venue_map venue)"
  by (simp add: venue_map_def foldl_update_keys)

text \<open>What one of our tokens adds to the report.\<close>

definition token_mismatch ::
    "decimal_ops \<Rightarrow> (token_id, rat) hashmap \<Rightarrow> rat \<Rightarrow> timestamp \<Rightarrow> token_id \<times> rat \<Rightarrow> mismatch list" where
  "token_mismatch D vm tol now e =
     (case get vm (fst e) of
        Some v \<Rightarrow> (if \<bar>d_sub D (snd e) v\<bar> > tol
                  then [\<lparr>mm_token_id = fst e, mm_internal = snd e, mm_venue = v,
                         mm_difference = d_sub D (snd e) v, mm_at = now\<rparr>] else [])
      | None \<Rightarrow> [])"

definition token_missing :: "(token_id, rat) hashmap \<Rightarrow> rat \<Rightarrow> token_id \<times> rat \<Rightarrow> bool" where
  "token_missing vm tol e \<longleftrightarrow> get vm (fst e) = None \<and> \<bar>snd e\<bar> > tol"

lemma compare_token_eq:
  "compare_token D vm tol now (ms, mi) e =
     (ms @ token_mismatch D vm tol now e, if token_missing vm tol e then mi @ [fst e] else mi)"
  by (cases e) (simp add: compare_token_def token_mismatch_def token_missing_def Let_def split: option.splits)

lemma compare_fold:
  "foldl (compare_token D vm tol now) (ms, mi) es =
     (ms @ concat (map (token_mismatch D vm tol now) es), mi @ map fst (filter (token_missing vm tol) es))"
  by (induction es arbitrary: ms mi) (simp_all add: compare_token_eq)

lemma reconcile_fields:
  "rr_mismatches (reconcile D internal venue tol now) =
     concat (map (token_mismatch D (venue_map venue) tol now) internal)"
  "rr_missing_at_venue (reconcile D internal venue tol now) =
     map fst (filter (token_missing (venue_map venue) tol) internal)"
  "rr_unexpected_venue_positions (reconcile D internal venue tol now) =
     map fst (filter (\<lambda>(t, q). t \<notin> set (map fst internal) \<and> \<bar>q\<bar> > tol) (venue_map venue))"
  by (simp_all add: reconcile_def compare_fold Let_def)

text \<open>Where the two books disagree, an absent token counting as zero.\<close>

definition disagree :: "decimal_ops \<Rightarrow> (token_id, rat) hashmap \<Rightarrow> venue_position list \<Rightarrow> rat \<Rightarrow> token_id \<Rightarrow> bool" where
  "disagree D internal venue tol t \<longleftrightarrow>
     \<bar>get_or internal t 0 - get_or (venue_map venue) t 0\<bar> > tol"

context decimal_additive
begin

lemma keys_ok_ball:
  "keys_ok m \<Longrightarrow> (\<forall>e\<in>set m. Q (fst e) (snd e)) \<longleftrightarrow> (\<forall>k v. get m k = Some v \<longrightarrow> Q k v)"
  by (metis fst_conv keys_ok_get prod.collapse snd_conv)

lemma not_missing: "\<not> token_missing vm tol e \<longleftrightarrow> (get vm (fst e) = None \<longrightarrow> \<bar>snd e\<bar> \<le> tol)"
  by (auto simp: token_missing_def)

lemma token_mismatch_Nil:
  "token_mismatch D vm tol now e = [] \<longleftrightarrow> (\<forall>v. get vm (fst e) = Some v \<longrightarrow> \<bar>snd e - v\<bar> \<le> tol)"
  by (auto simp: token_mismatch_def sub_exact split: option.splits)

lemma clean_iff:
  assumes "keys_ok internal" and "0 \<le> tol"
  shows "is_clean (reconcile D internal venue tol now) \<longleftrightarrow> (\<forall>t. \<not> disagree D internal venue tol t)"
proof -
  let ?vm = "venue_map venue"
  have dom: "t \<notin> fst ` set internal \<longleftrightarrow> get internal t = None" for t
    by (simp add: get_def map_of_eq_None_iff)
  have u: "(\<lambda>(t, q). t \<notin> set (map fst internal) \<and> \<bar>q\<bar> > tol) = token_missing internal tol"
    using dom by (auto simp: token_missing_def fun_eq_iff)
  have 1: "rr_mismatches (reconcile D internal venue tol now) = [] \<longleftrightarrow>
      (\<forall>t q v. get internal t = Some q \<longrightarrow> get ?vm t = Some v \<longrightarrow> \<bar>q - v\<bar> \<le> tol)"
    using keys_ok_ball [OF assms(1), of "\<lambda>t q. \<forall>v. get ?vm t = Some v \<longrightarrow> \<bar>q - v\<bar> \<le> tol"]
    by (auto simp: reconcile_fields token_mismatch_Nil)
  have 2: "rr_missing_at_venue (reconcile D internal venue tol now) = [] \<longleftrightarrow>
      (\<forall>t q. get internal t = Some q \<longrightarrow> get ?vm t = None \<longrightarrow> \<bar>q\<bar> \<le> tol)"
    unfolding reconcile_fields map_is_Nil_conv filter_empty_conv not_missing
    by (rule keys_ok_ball [OF assms(1)])
  have 3: "rr_unexpected_venue_positions (reconcile D internal venue tol now) = [] \<longleftrightarrow>
      (\<forall>t q. get ?vm t = Some q \<longrightarrow> get internal t = None \<longrightarrow> \<bar>q\<bar> \<le> tol)"
    unfolding reconcile_fields u map_is_Nil_conv filter_empty_conv not_missing
    by (rule keys_ok_ball [OF venue_map_keys])
  show ?thesis
  proof
    assume "is_clean (reconcile D internal venue tol now)"
    with 1 2 3 assms(2) show "\<forall>t. \<not> disagree D internal venue tol t"
      by (auto simp: is_clean_def disagree_def get_or_def not_less split: option.splits)
  next
    assume A: "\<forall>t. \<not> disagree D internal venue tol t"
    have "\<bar>get_or internal t 0 - get_or ?vm t 0\<bar> \<le> tol" for t
      using A by (simp add: disagree_def not_less)
    note B = this [unfolded get_or_def]
    show "is_clean (reconcile D internal venue tol now)"
      unfolding is_clean_def 1 2 3
    proof (intro conjI allI impI)
      fix t q v assume "get internal t = Some q" "get ?vm t = Some v"
      with B [of t] show "\<bar>q - v\<bar> \<le> tol" by simp
    next
      fix t q assume "get ?vm t = Some q" "get internal t = None"
      with B [of t] show "\<bar>q\<bar> \<le> tol" by simp
    next
      fix t q assume "get internal t = Some q" "get ?vm t = None"
      with B [of t] show "\<bar>q\<bar> \<le> tol" by simp
    qed
  qed
qed

end

subsection \<open>Properties\<close>

text \<open>C32: A clean report means agreement everywhere. The reconciler reports nothing exactly when our
  quantity and the venue's differ by at most the tolerance in every token there is, a token that
  one side does not know counting as zero: no disagreement can hide in a missing entry.\<close>

theorem clean_report_exactly:
  assumes "decimal_additive D" and "keys_ok internal" and "0 \<le> tol"
  shows "is_clean (reconcile D internal venue tol now) \<longleftrightarrow>
         (\<forall>t. \<bar>get_or internal t 0 - get_or (venue_map venue) t 0\<bar> \<le> tol)"
  using decimal_additive.clean_iff [OF assms] by (simp add: disagree_def not_less)

theorem clean_report_exactly_witness:
  "\<not> is_clean (reconcile exact_decimal [(TokenId ''1'', 100)] [] (1/100) 0)"
proof -
  have "keys_ok [(TokenId ''1'', 100 :: rat)]" by (simp add: keys_ok_def)
  from clean_report_exactly [OF exact_dec.decimal_additive_axioms this, of "1/100" "[]" 0] show ?thesis
    by (auto simp: get_or_def get_def venue_map_def intro!: exI [of _ "TokenId ''1''"])
qed

text \<open>A short position can never be reconciled. The simulated venue reports the absolute value of a
  position, our side is signed: a short of 100 shares held by both is reported as a difference of
  200, serious enough to halt trading.\<close>

theorem short_position_is_a_mismatch:
  "let P = (paper_new sample_params 0 0)\<lparr>pp_positions := [(TokenId ''1'', - 100)]\<rparr>;
       r = reconcile exact_decimal (pp_positions P) (paper_positions P) (1/1000000) 0
   in map mm_difference (rr_mismatches r) = [- 200] \<and> warrants_halt r 1"
  by (simp add: paper_new_def paper_positions_def reconcile_def compare_token_def venue_map_def
      warrants_halt_def get_def qty_new_def Let_def)

text \<open>A position that is missing at the venue never halts trading, whatever its size: only
  unexpected positions and differing quantities are looked at.\<close>

theorem missing_position_never_halts:
  "let r = reconcile exact_decimal [(TokenId ''1'', 100000)] [] (1/1000000) 0
   in rr_missing_at_venue r = [TokenId ''1''] \<and> \<not> is_clean r \<and> \<not> warrants_halt r tolerance"
  by (simp add: reconcile_def compare_token_def venue_map_def warrants_halt_def is_clean_def get_def
      Let_def)

end
