(* ===== verification/BookStream.thy ===== *)
theory BookStream
  imports Reconciliation
begin

section \<open>Streaming order books (crates/market_data/src/market_ws.rs, market_stream.rs)\<close>

text \<open>
  The market channel sends snapshots and single-level changes; the builder keeps one book per
  token and drops a book that no longer agrees with the best prices the venue announces. JSON
  decoding is a parameter: one function for the array-shaped first frame, one for the objects that
  follow. The wire form of a level is the one of the REST book.
\<close>

subsection \<open>Frames\<close>

record wire_price_change =
  wc_asset_id :: string
  wc_price :: string
  wc_size :: string
  wc_side :: string
  wc_best_bid :: "string option"
  wc_best_ask :: "string option"

record wire_frame =
  wf_event_type :: string
  wf_market :: string
  wf_asset_id :: string
  wf_timestamp :: "string option"
  wf_bids :: "clob_level list"
  wf_asks :: "clob_level list"
  wf_tick_size :: "string option"
  wf_price_changes :: "wire_price_change list"
  wf_new_tick_size :: "string option"

datatype market_event =
    Snapshot order_book
  | LevelChange token_id side price rat "price option" "price option"
  | TickSizeChanged token_id rat
  | IgnoredEvent

definition ws_levels :: "decimal_ops \<Rightarrow> clob_level list \<Rightarrow> level list" where
  "ws_levels D raw = List.map_filter (parse_level D) raw"

definition to_book ::
    "decimal_ops \<Rightarrow> timestamp_opt \<Rightarrow> wire_frame \<Rightarrow> nat \<Rightarrow> timestamp \<Rightarrow> order_book option" where
  "to_book D ts_opt b seq fallback =
     Option.bind (ok (market_id_new (wf_market b))) (\<lambda>market.
     Option.bind (ok (token_id_new (wf_asset_id b))) (\<lambda>token.
       Some \<lparr>bk_market = market, bk_token = token,
         bk_bids = sort_key (\<lambda>l. - lv_price l) (ws_levels D (wf_bids b)),
         bk_asks = sort_key lv_price (ws_levels D (wf_asks b)),
         bk_tick_size = (case Option.bind (wf_tick_size b) (d_parse D) of Some t \<Rightarrow> t | None \<Rightarrow> default_tick),
         bk_min_order_size = default_min_size,
         bk_timestamp =
           (case Option.bind (Option.bind (wf_timestamp b) parse_i64) (epoch_to_utc ts_opt) of
              Some t \<Rightarrow> t | None \<Rightarrow> fallback),
         bk_seq = seq\<rparr>))"

definition wire_price :: "decimal_ops \<Rightarrow> string \<Rightarrow> price option" where
  "wire_price D s = Option.bind (d_parse D s) (\<lambda>d. ok (price_new d))"

definition price_change_event :: "decimal_ops \<Rightarrow> wire_price_change \<Rightarrow> market_event option" where
  "price_change_event D c =
     Option.bind (ok (token_id_new (wc_asset_id c))) (\<lambda>token.
     Option.bind (wire_price D (wc_price c)) (\<lambda>price.
     Option.bind (d_parse D (wc_size c)) (\<lambda>sz.
     Option.bind (if to_ascii_uppercase (wc_side c) = ''BUY'' then Some Buy
                  else if to_ascii_uppercase (wc_side c) = ''SELL'' then Some Sell else None) (\<lambda>sd.
       Some (LevelChange token sd price sz (Option.bind (wc_best_bid c) (wire_price D))
               (Option.bind (wc_best_ask c) (wire_price D)))))))"

definition frame_events ::
    "decimal_ops \<Rightarrow> timestamp_opt \<Rightarrow> nat \<Rightarrow> timestamp \<Rightarrow> wire_frame \<Rightarrow> market_event list" where
  "frame_events D ts_opt seq received_at f =
     (if wf_event_type f = ''book'' then
        (case to_book D ts_opt f seq received_at of Some ob \<Rightarrow> [Snapshot ob] | None \<Rightarrow> [])
      else if wf_event_type f = ''price_change'' then
        List.map_filter (price_change_event D) (wf_price_changes f)
      else if wf_event_type f = ''tick_size_change'' then
        (case (ok (token_id_new (wf_asset_id f)), Option.bind (wf_new_tick_size f) (d_parse D)) of
           (Some token, Some t) \<Rightarrow> [TickSizeChanged token t]
         | _ \<Rightarrow> [])
      else [IgnoredEvent])"

text \<open>A frame is an array or an object; anything else is a keepalive.\<close>

definition parse_market_frame ::
    "decimal_ops \<Rightarrow> timestamp_opt \<Rightarrow> (string \<Rightarrow> wire_frame list option) \<Rightarrow> (string \<Rightarrow> wire_frame option) \<Rightarrow>
     string \<Rightarrow> nat \<Rightarrow> timestamp \<Rightarrow> parse_error + market_event list" where
  "parse_market_frame D ts_opt decode_array decode_object raw seq received_at =
     (let t = trim raw
      in if t = [] \<or> (hd t \<noteq> CHR 0x7B \<and> hd t \<noteq> CHR 0x5B) then Inr [IgnoredEvent]
         else
           and_then (ok_or JsonError
               (if hd t = CHR 0x5B then decode_array t else map_option (\<lambda>f. [f]) (decode_object t)))
             (\<lambda>frames.
               let out = concat (map (\<lambda>(i, f). frame_events D ts_opt (seq + i) received_at f)
                                   (enumerate 0 frames))
               in Inr (if out = [] then [IgnoredEvent] else out)))"

subsection \<open>The book builder\<close>

record book_builder =
  bb_books :: "(token_id, order_book) hashmap"
  bb_min_order_size :: "(token_id, rat) hashmap"
  bb_integrity_failures :: nat

definition builder_new :: book_builder where
  "builder_new = \<lparr>bb_books = [], bb_min_order_size = [], bb_integrity_failures = 0\<rparr>"

definition set_min_order_size :: "book_builder \<Rightarrow> token_id \<Rightarrow> rat \<Rightarrow> book_builder" where
  "set_min_order_size B t v = B\<lparr>bb_min_order_size := AList.update t v (bb_min_order_size B)\<rparr>"

definition builder_get :: "book_builder \<Rightarrow> token_id \<Rightarrow> order_book option" where
  "builder_get B t = get (bb_books B) t"

text \<open>The new aggregate size replaces the level; zero deletes it; the side is sorted again.\<close>

definition set_level :: "side \<Rightarrow> price \<Rightarrow> rat \<Rightarrow> level list \<Rightarrow> level list" where
  "set_level s price sz ls =
     (let kept = filter (\<lambda>l. lv_price l \<noteq> price) ls;
          ls' = (if sz > 0 then
                   (case ok (qty_new sz) of
                      Some q \<Rightarrow> kept @ [\<lparr>lv_price = price, lv_size = q\<rparr>] | None \<Rightarrow> kept)
                 else kept)
      in case s of Buy \<Rightarrow> sort_key (\<lambda>l. - lv_price l) ls' | Sell \<Rightarrow> sort_key lv_price ls')"

definition change_level :: "order_book \<Rightarrow> side \<Rightarrow> price \<Rightarrow> rat \<Rightarrow> timestamp \<Rightarrow> order_book" where
  "change_level b s price sz now =
     (case s of
        Buy \<Rightarrow> b\<lparr>bk_bids := set_level s price sz (bk_bids b)\<rparr>
      | Sell \<Rightarrow> b\<lparr>bk_asks := set_level s price sz (bk_asks b)\<rparr>)
     \<lparr>bk_timestamp := now, bk_seq := bk_seq b + 1\<rparr>"

definition drifted :: "order_book \<Rightarrow> price option \<Rightarrow> price option \<Rightarrow> bool" where
  "drifted b bb ba \<longleftrightarrow>
     (bb \<noteq> None \<and> map_option lv_price (best_bid b) \<noteq> bb) \<or>
     (ba \<noteq> None \<and> map_option lv_price (best_ask b) \<noteq> ba)"

fun builder_apply :: "book_builder \<Rightarrow> market_event \<Rightarrow> timestamp \<Rightarrow> book_builder \<times> token_id option" where
  "builder_apply B IgnoredEvent now = (B, None)"
| "builder_apply B (Snapshot b) now =
     (let b' = (case get (bb_min_order_size B) (bk_token b) of
                  Some m \<Rightarrow> b\<lparr>bk_min_order_size := m\<rparr> | None \<Rightarrow> b)
      in (B\<lparr>bb_books := AList.update (bk_token b) b' (bb_books B)\<rparr>, Some (bk_token b)))"
| "builder_apply B (TickSizeChanged t tick) now =
     (B\<lparr>bb_books := adjust (bb_books B) t (\<lambda>b. b\<lparr>bk_tick_size := tick, bk_timestamp := now\<rparr>)\<rparr>, Some t)"
| "builder_apply B (LevelChange t s price sz bb ba) now =
     (case get (bb_books B) t of
        None \<Rightarrow> (B, None)
      | Some b \<Rightarrow>
          (let b' = change_level b s price sz now
           in if drifted b' bb ba
              then (B\<lparr>bb_integrity_failures := bb_integrity_failures B + 1,
                      bb_books := AList.delete t (bb_books B)\<rparr>, Some t)
              else (B\<lparr>bb_books := AList.update t b' (bb_books B)\<rparr>, Some t)))"

subsection \<open>The stream\<close>

text \<open>The set of followed tokens is ordered and capped; \<open>dirty\<close> tells the stream it has grown.\<close>

definition MAX_SUBSCRIBED_TOKENS :: nat where
  "MAX_SUBSCRIBED_TOKENS = 400"

record subscriptions =
  su_tokens :: "token_id list"
  su_dirty :: bool

definition subs_new :: subscriptions where
  "subs_new = \<lparr>su_tokens = [], su_dirty = False\<rparr>"

definition subs_add :: "subscriptions \<Rightarrow> token_id \<Rightarrow> subscriptions \<times> bool" where
  "subs_add s t =
     (if length (su_tokens s) \<ge> MAX_SUBSCRIBED_TOKENS \<or> t \<in> set (su_tokens s) then (s, False)
      else (s\<lparr>su_tokens := insort t (su_tokens s), su_dirty := True\<rparr>, True))"

definition subs_extend :: "subscriptions \<Rightarrow> token_id list \<Rightarrow> subscriptions" where
  "subs_extend s ts = foldl (\<lambda>s t. fst (subs_add s t)) s ts"

definition take_dirty :: "subscriptions \<Rightarrow> subscriptions \<times> bool" where
  "take_dirty s = (s\<lparr>su_dirty := False\<rparr>, su_dirty s)"

record stream_stats =
  ss_snapshots :: nat
  ss_level_changes :: nat
  ss_tick_changes :: nat
  ss_reconnects :: nat
  ss_integrity_resyncs :: nat

text \<open>What a connection keeps, and the books it published so far.\<close>

record stream_state =
  st_seq :: nat
  st_stats :: stream_stats
  st_builder :: book_builder
  st_published :: "order_book list"

fun count_event :: "stream_stats \<Rightarrow> market_event \<Rightarrow> stream_stats" where
  "count_event s (Snapshot _) = s\<lparr>ss_snapshots := ss_snapshots s + 1\<rparr>"
| "count_event s (LevelChange _ _ _ _ _ _) = s\<lparr>ss_level_changes := ss_level_changes s + 1\<rparr>"
| "count_event s (TickSizeChanged _ _) = s\<lparr>ss_tick_changes := ss_tick_changes s + 1\<rparr>"
| "count_event s IgnoredEvent = s"

definition stream_event :: "timestamp \<Rightarrow> stream_state \<Rightarrow> market_event \<Rightarrow> stream_state" where
  "stream_event now S ev =
     (let stats = count_event (st_stats S) ev;
          (B, tok) = builder_apply (st_builder S) ev now;
          stats' = (if tok \<noteq> None \<and> bb_integrity_failures B > bb_integrity_failures (st_builder S)
                    then stats\<lparr>ss_integrity_resyncs := ss_integrity_resyncs stats + 1\<rparr> else stats)
      in \<lparr>st_seq = st_seq S + 1, st_stats = stats', st_builder = B,
          st_published = st_published S @
            (case Option.bind tok (builder_get B) of Some b \<Rightarrow> [b] | None \<Rightarrow> [])\<rparr>)"

text \<open>A text message: a frame that does not parse changes nothing.\<close>

definition stream_text ::
    "decimal_ops \<Rightarrow> timestamp_opt \<Rightarrow> (string \<Rightarrow> wire_frame list option) \<Rightarrow> (string \<Rightarrow> wire_frame option) \<Rightarrow>
     stream_state \<Rightarrow> string \<times> timestamp \<Rightarrow> stream_state" where
  "stream_text D ts_opt decode_array decode_object S msg =
     (case parse_market_frame D ts_opt decode_array decode_object (fst msg) (st_seq S) (snd msg) of
        Inl _ \<Rightarrow> S
      | Inr events \<Rightarrow> foldl (stream_event (snd msg)) S events)"

subsection \<open>Books are best-first\<close>

definition level_ok :: "level \<Rightarrow> bool" where
  "level_ok l \<longleftrightarrow> valid_level l \<and> 0 < lv_size l"

definition best_first :: "order_book \<Rightarrow> bool" where
  "best_first b \<longleftrightarrow> sorted_wrt (\<ge>) (map lv_price (bk_bids b)) \<and> sorted (map lv_price (bk_asks b)) \<and>
     list_all level_ok (bk_bids b) \<and> list_all level_ok (bk_asks b)"

fun event_ok :: "market_event \<Rightarrow> bool" where
  "event_ok (Snapshot b) = best_first b"
| "event_ok (LevelChange _ _ p _ _ _) = valid_price p"
| "event_ok _ = True"

definition builder_ok :: "book_builder \<Rightarrow> bool" where
  "builder_ok B \<longleftrightarrow> (\<forall>t b. builder_get B t = Some b \<longrightarrow> best_first b)"

lemma ws_levels_ok: "list_all level_ok (ws_levels D raw)"
  using parse_levels_ok [of D raw] by (simp add: ws_levels_def parse_levels_def level_ok_def [abs_def])

lemma to_book_ok: "to_book D ts_opt f seq now = Some b \<Longrightarrow> best_first b"
  using ws_levels_ok [of D "wf_bids f"] ws_levels_ok [of D "wf_asks f"]
  by (auto simp: to_book_def bind_eq_Some_conv best_first_def sort_key_sorted_wrt list_all_iff)

lemma map_filter_ok: "(\<And>x y. f x = Some y \<Longrightarrow> Q y) \<Longrightarrow> list_all Q (List.map_filter f xs)"
  by (induction xs) (auto simp: List.map_filter_simps split: option.splits)

lemma price_change_event_ok: "price_change_event D c = Some e \<Longrightarrow> event_ok e"
  using price_new_valid by (auto simp: price_change_event_def wire_price_def bind_eq_Some_conv)

lemma frame_events_ok: "list_all event_ok (frame_events D ts_opt seq now f)"
  using to_book_ok map_filter_ok [of "price_change_event D" event_ok] price_change_event_ok
  by (auto simp: frame_events_def split: option.splits)

lemma parse_market_frame_ok:
  "parse_market_frame D ts_opt da dob raw seq now = Inr evs \<Longrightarrow> list_all event_ok evs"
  using frame_events_ok [of D ts_opt]
  by (auto simp: parse_market_frame_def Let_def and_then_Inr list_all_iff split: if_splits)

lemma set_level_set:
  "set (set_level s p sz ls) = {l \<in> set ls. lv_price l \<noteq> p} \<union>
     (if 0 < sz then {\<lparr>lv_price = p, lv_size = sz\<rparr>} else {})"
  by (cases s) (auto simp: set_level_def Let_def qty_new_def)

lemma set_level_ok: "valid_price p \<Longrightarrow> list_all level_ok ls \<Longrightarrow> list_all level_ok (set_level s p sz ls)"
  by (auto simp: list_all_iff set_level_set level_ok_def valid_level_def valid_qty_def split: if_splits)

lemma set_level_sorted:
  "sorted_wrt (\<ge>) (map lv_price (set_level Buy p sz ls))" "sorted (map lv_price (set_level Sell p sz ls))"
  by (simp_all add: set_level_def Let_def sort_key_sorted_wrt split: option.splits)

lemma change_level_ok: "best_first b \<Longrightarrow> valid_price p \<Longrightarrow> best_first (change_level b s p sz now)"
  using set_level_sorted set_level_ok by (cases s) (auto simp: change_level_def best_first_def)

lemma builder_apply_ok: "builder_ok B \<Longrightarrow> event_ok ev \<Longrightarrow> builder_ok (fst (builder_apply B ev now))"
proof (cases ev)
  case (LevelChange t s p sz bb ba)
  assume "builder_ok B" "event_ok ev"
  with LevelChange show ?thesis
    using change_level_ok
    by (auto simp: builder_ok_def builder_get_def get_update get_delete Let_def split: option.splits if_splits)
next
  case (TickSizeChanged t tick)
  assume "builder_ok B" "event_ok ev"
  with TickSizeChanged show ?thesis
    by (auto simp: builder_ok_def builder_get_def get_adjust best_first_def split: if_splits)
qed (auto simp: builder_ok_def builder_get_def get_update best_first_def Let_def split: option.splits if_splits)

definition stream_ok :: "stream_state \<Rightarrow> bool" where
  "stream_ok S \<longleftrightarrow> builder_ok (st_builder S) \<and> list_all best_first (st_published S)"

lemma stream_event_ok:
  assumes "stream_ok S" and "event_ok ev"
  shows "stream_ok (stream_event now S ev)"
proof -
  obtain B tok where b: "builder_apply (st_builder S) ev now = (B, tok)" by force
  with builder_apply_ok [of "st_builder S" ev now] assms have "builder_ok B" by (simp add: stream_ok_def)
  with assms b show ?thesis
    by (auto simp: stream_ok_def stream_event_def Let_def builder_ok_def bind_eq_Some_conv split: option.splits)
qed

lemma stream_text_ok: "stream_ok S \<Longrightarrow> stream_ok (stream_text D ts_opt da dob S msg)"
proof -
  have "stream_ok S \<Longrightarrow> list_all event_ok evs \<Longrightarrow> stream_ok (foldl (stream_event now) S evs)" for now evs
    by (induction evs arbitrary: S) (simp_all add: stream_event_ok)
  then show "stream_ok S \<Longrightarrow> stream_ok (stream_text D ts_opt da dob S msg)"
    using parse_market_frame_ok by (auto simp: stream_text_def split: sum.splits)
qed

subsection \<open>The book is the feed\<close>

text \<open>
  The reference: for each side, the size that rests at each price. A snapshot sets it, a change
  overwrites one price, and nothing else matters. A book with several levels at one price counts
  them together.
\<close>

definition size_at :: "level list \<Rightarrow> price \<Rightarrow> rat" where
  "size_at ls p = sum_list (map lv_size (filter (\<lambda>l. lv_price l = p) ls))"

type_synonym ladder = "(price \<Rightarrow> rat) \<times> (price \<Rightarrow> rat)"

definition ladder_of :: "order_book \<Rightarrow> ladder" where
  "ladder_of b = (size_at (bk_bids b), size_at (bk_asks b))"

fun spec_event :: "token_id \<Rightarrow> ladder option \<Rightarrow> market_event \<Rightarrow> ladder option" where
  "spec_event t l (Snapshot b) = (if bk_token b = t then Some (ladder_of b) else l)"
| "spec_event t l (LevelChange t' s p sz _ _) =
     (if t' = t then
        map_option (\<lambda>(B, A). case s of Buy \<Rightarrow> (B(p := max sz 0), A) | Sell \<Rightarrow> (B, A(p := max sz 0))) l
      else l)"
| "spec_event t l _ = l"

lemma size_at_mset:
  "size_at ls p = sum_mset (image_mset lv_size (filter_mset (\<lambda>l. lv_price l = p) (mset ls)))"
  by (simp add: size_at_def sum_mset_sum_list [symmetric])

lemma size_at_sort [simp]: "size_at (sort_key k ls) = size_at ls"
  by (simp add: fun_eq_iff size_at_mset)

lemma size_at_append [simp]: "size_at (ls @ ms) p = size_at ls p + size_at ms p"
  by (simp add: size_at_def)

lemma size_at_removed: "size_at (filter (\<lambda>l. lv_price l \<noteq> q) ls) p = (if p = q then 0 else size_at ls p)"
  by (induction ls) (auto simp: size_at_def)

lemma size_at_single: "size_at [\<lparr>lv_price = q, lv_size = z\<rparr>] p = (if p = q then z else 0)"
  by (simp add: size_at_def)

lemma size_at_set_level: "size_at (set_level s p sz ls) = (size_at ls)(p := max sz 0)"
  by (cases s; cases "0 < sz")
    (auto simp: fun_eq_iff set_level_def Let_def qty_new_def size_at_removed size_at_single max_def)

lemma ladder_ignores:
  "ladder_of (b\<lparr>bk_min_order_size := m\<rparr>) = ladder_of b"
  "ladder_of (b\<lparr>bk_tick_size := tk, bk_timestamp := now\<rparr>) = ladder_of b"
  by (simp_all add: ladder_of_def)

lemma ladder_change:
  "ladder_of (change_level b s p sz now) =
     (case ladder_of b of (B, A) \<Rightarrow>
        (case s of Buy \<Rightarrow> (B(p := max sz 0), A) | Sell \<Rightarrow> (B, A(p := max sz 0))))"
  by (cases s) (simp_all add: ladder_of_def change_level_def size_at_set_level)

lemma builder_failures_mono: "bb_integrity_failures B \<le> bb_integrity_failures (fst (builder_apply B ev now))"
  by (cases ev) (auto simp: Let_def split: option.splits)

lemma builder_step_refines:
  "bb_integrity_failures (fst (builder_apply B ev now)) = bb_integrity_failures B \<Longrightarrow>
     map_option ladder_of (builder_get (fst (builder_apply B ev now)) t) =
       spec_event t (map_option ladder_of (builder_get B t)) ev"
  by (cases ev)
    (auto simp: builder_get_def get_update get_adjust ladder_change ladder_ignores Let_def option.map_comp comp_def
      split: option.splits if_splits)

definition builder_run :: "book_builder \<Rightarrow> (market_event \<times> timestamp) list \<Rightarrow> book_builder" where
  "builder_run B evs = foldl (\<lambda>B (ev, now). fst (builder_apply B ev now)) B evs"

lemma builder_run_mono: "bb_integrity_failures B \<le> bb_integrity_failures (builder_run B evs)"
  unfolding builder_run_def
  by (induction evs arbitrary: B) (auto intro: order_trans [OF builder_failures_mono])

lemma builder_run_refines:
  "bb_integrity_failures (builder_run B evs) = bb_integrity_failures B \<Longrightarrow>
     map_option ladder_of (builder_get (builder_run B evs) t) =
       foldl (spec_event t) (map_option ladder_of (builder_get B t)) (map fst evs)"
proof (induction evs arbitrary: B)
  case Nil
  then show ?case by (simp add: builder_run_def)
next
  case (Cons e evs)
  obtain ev now where e: "e = (ev, now)" by force
  let ?B = "fst (builder_apply B ev now)"
  have r: "builder_run B (e # evs) = builder_run ?B evs" by (simp add: builder_run_def e)
  have "bb_integrity_failures ?B = bb_integrity_failures B"
    using Cons.prems builder_failures_mono [of B ev now] builder_run_mono [of ?B evs] by (simp add: r)
  from builder_step_refines [OF this, of t] Cons.IH [of ?B] Cons.prems this
  show ?case by (simp add: r [unfolded e] e)
qed

subsection \<open>The followed tokens\<close>

lemma subs_add_fields:
  "fst (subs_add s t) = (if length (su_tokens s) \<ge> MAX_SUBSCRIBED_TOKENS \<or> t \<in> set (su_tokens s) then s
     else s\<lparr>su_tokens := insort t (su_tokens s), su_dirty := True\<rparr>)"
  by (simp add: subs_add_def)

lemma subs_extend_ok:
  assumes "sorted (su_tokens s)" and "distinct (su_tokens s)" and "length (su_tokens s) \<le> MAX_SUBSCRIBED_TOKENS"
  shows "sorted (su_tokens (subs_extend s ts)) \<and> distinct (su_tokens (subs_extend s ts)) \<and>
     set (su_tokens (subs_extend s ts)) \<subseteq> set (su_tokens s) \<union> set ts \<and>
     length (su_tokens (subs_extend s ts)) = min MAX_SUBSCRIBED_TOKENS (card (set (su_tokens s) \<union> set ts))"
  using assms
proof (induction ts arbitrary: s)
  case Nil
  then show ?case by (simp add: subs_extend_def distinct_card)
next
  case (Cons t ts)
  let ?s = "fst (subs_add s t)"
  have c: "length (su_tokens s) = card (set (su_tokens s))" using Cons.prems(2) by (simp add: distinct_card)
  have r: "subs_extend s (t # ts) = subs_extend ?s ts" by (simp add: subs_extend_def)
  consider (full) "length (su_tokens s) \<ge> MAX_SUBSCRIBED_TOKENS" | (known) "t \<in> set (su_tokens s)"
    | (new) "length (su_tokens s) < MAX_SUBSCRIBED_TOKENS" "t \<notin> set (su_tokens s)" by linarith
  then show ?case
  proof cases
    case full
    then have same: "?s = s" by (simp add: subs_add_fields)
    have "length (su_tokens s) \<le> card (set (su_tokens s) \<union> X)" if "finite X" for X
      unfolding c by (rule card_mono) (use that in auto)
    from this [of "set ts"] this [of "insert t (set ts)"] full Cons.IH [OF Cons.prems] Cons.prems(3)
    show ?thesis unfolding r same by auto
  next
    case known
    then have same: "?s = s" by (simp add: subs_add_fields)
    have "set (su_tokens s) \<union> set (t # ts) = set (su_tokens s) \<union> set ts" using known by auto
    then show ?thesis using Cons.IH [OF Cons.prems] unfolding r same by auto
  next
    case new
    then have s': "su_tokens ?s = insort t (su_tokens s)" by (simp add: subs_add_fields)
    have "sorted (su_tokens ?s)" "distinct (su_tokens ?s)" "length (su_tokens ?s) \<le> MAX_SUBSCRIBED_TOKENS"
      using Cons.prems new by (simp_all add: s' sorted_insort distinct_insort)
    from Cons.IH [OF this] show ?thesis unfolding r s' by (auto simp: set_insort_key)
  qed
qed

subsection \<open>Minimum order sizes on the stream\<close>

lemma stream_min_size:
  assumes "bb_min_order_size (st_builder S) = []"
    and "\<forall>t b. builder_get (st_builder S) t = Some b \<longrightarrow> bk_min_order_size b = default_min_size"
    and "list_all (\<lambda>b. bk_min_order_size b = default_min_size) (st_published S)"
    and "case ev of Snapshot b \<Rightarrow> bk_min_order_size b = default_min_size | _ \<Rightarrow> True"
  shows "bb_min_order_size (st_builder (stream_event now S ev)) = [] \<and>
    (\<forall>t b. builder_get (st_builder (stream_event now S ev)) t = Some b \<longrightarrow> bk_min_order_size b = default_min_size) \<and>
    list_all (\<lambda>b. bk_min_order_size b = default_min_size) (st_published (stream_event now S ev))"
proof -
  obtain B tok where b: "builder_apply (st_builder S) ev now = (B, tok)" by force
  have m: "bk_min_order_size (change_level x s p sz now) = bk_min_order_size x" for x s p sz
    by (cases s) (simp_all add: change_level_def)
  have "bb_min_order_size B = [] \<and> (\<forall>t b. builder_get B t = Some b \<longrightarrow> bk_min_order_size b = default_min_size)"
    using b assms(1,2,4)
    by (cases ev) (auto simp: builder_get_def get_update get_delete get_adjust m Let_def split: option.splits if_splits)
  with b assms(3) show ?thesis
    by (auto simp: stream_event_def Let_def bind_eq_Some_conv split: option.splits)
qed

subsection \<open>Properties\<close>

definition stream_new :: "nat \<Rightarrow> stream_stats \<Rightarrow> stream_state" where
  "stream_new seq stats = \<lparr>st_seq = seq, st_stats = stats, st_builder = builder_new, st_published = []\<rparr>"

text \<open>C33: The maintained book is the fold of the feed. As long as no disagreement with the venue's own
  best prices was counted, the size the builder holds at every price of either side of every token
  is the one obtained by letting each snapshot set the ladder and each change overwrite one price,
  with nothing added up and nothing forgotten.\<close>

theorem books_refine_the_feed:
  assumes "bb_integrity_failures (builder_run B evs) = bb_integrity_failures B"
  shows "map_option ladder_of (builder_get (builder_run B evs) t) =
         foldl (spec_event t) (map_option ladder_of (builder_get B t)) (map fst evs)"
  using assms by (rule builder_run_refines)

definition sample_events :: "(market_event \<times> timestamp) list" where
  "sample_events = [(Snapshot sample_book, 0),
     (LevelChange (TokenId ''7'') Sell (61/100) 40 (Some (60/100)) (Some (61/100)), 1),
     (LevelChange (TokenId ''7'') Buy (60/100) 0 None (Some (61/100)), 2)]"

theorem books_refine_the_feed_witness:
  "map_option (\<lambda>l. (fst l (60/100), snd l (61/100), snd l (62/100)))
     (map_option ladder_of (builder_get (builder_run builder_new sample_events) (TokenId ''7''))) =
   Some (0, 40, 300)"
proof -
  have nf: "bb_integrity_failures (builder_run builder_new sample_events) = bb_integrity_failures builder_new"
    by (simp add: builder_run_def sample_events_def builder_new_def sample_book_def change_level_def
        set_level_def drifted_def best_bid_def best_ask_def first_level_def get_def Let_def valid_qty_def)
  show ?thesis unfolding books_refine_the_feed [OF nf]
    by (simp add: sample_events_def builder_get_def builder_new_def sample_book_def ladder_of_def
        size_at_def)
qed

text \<open>Every book the stream publishes can be traded on. Whatever text arrives, decoded or not, in
  whatever order, each published book is best-first on both sides and holds only levels with a
  valid price and a positive size.\<close>

theorem published_books_are_best_first:
  "list_all (\<lambda>b. sorted_wrt (\<ge>) (map lv_price (bk_bids b)) \<and> sorted (map lv_price (bk_asks b)) \<and>
      list_all (\<lambda>l. valid_level l \<and> 0 < lv_size l) (bk_bids b @ bk_asks b))
     (st_published (foldl (stream_text D ts_opt da dob) (stream_new seq stats) msgs))"
proof -
  have "stream_ok S \<Longrightarrow> stream_ok (foldl (stream_text D ts_opt da dob) S msgs)" for S
    by (induction msgs arbitrary: S) (simp_all add: stream_text_ok)
  moreover have "stream_ok (stream_new seq stats)"
    by (simp add: stream_ok_def stream_new_def builder_ok_def builder_new_def builder_get_def)
  ultimately have "stream_ok (foldl (stream_text D ts_opt da dob) (stream_new seq stats) msgs)" .
  then show ?thesis
    by (auto simp: stream_ok_def best_first_def level_ok_def list_all_iff)
qed

text \<open>A book that disagrees with the venue is never traded on. After a change that came with the
  venue's best prices, either the builder's book shows exactly those, or the book is gone and the
  failure was counted.\<close>

theorem drifted_book_is_dropped:
  "let B' = fst (builder_apply B (LevelChange t s p sz bb ba) now)
   in case builder_get B' t of
        None \<Rightarrow> builder_get B t = None \<or> bb_integrity_failures B' = bb_integrity_failures B + 1
      | Some b \<Rightarrow> (case bb of None \<Rightarrow> True | Some x \<Rightarrow> map_option lv_price (best_bid b) = Some x) \<and>
                  (case ba of None \<Rightarrow> True | Some x \<Rightarrow> map_option lv_price (best_ask b) = Some x)"
  by (auto simp: builder_get_def get_update get_delete drifted_def Let_def split: option.splits)

text \<open>The set of followed tokens is bounded. From any requests, at most 400 tokens are followed,
  each once and in order, all of them requested, and as many as were requested up to the cap.\<close>

theorem subscriptions_are_bounded:
  "let ts' = su_tokens (subs_extend subs_new ts)
   in sorted ts' \<and> distinct ts' \<and> set ts' \<subseteq> set ts \<and> length ts' = min 400 (card (set ts))"
  using subs_extend_ok [of subs_new ts] by (simp add: subs_new_def MAX_SUBSCRIBED_TOKENS_def)

text \<open>The venue's minimum order size never reaches the streamed books: nobody tells the builder of a
  connection about it, so every published book carries the default of 5.\<close>

theorem streamed_minimum_is_the_default:
  "list_all (\<lambda>b. bk_min_order_size b = 5)
     (st_published (foldl (stream_text D ts_opt da dob) (stream_new seq stats) msgs))"
proof -
  define I where "I S \<longleftrightarrow> bb_min_order_size (st_builder S) = [] \<and>
    (\<forall>t b. builder_get (st_builder S) t = Some b \<longrightarrow> bk_min_order_size b = default_min_size) \<and>
    list_all (\<lambda>b. bk_min_order_size b = default_min_size) (st_published S)" for S :: stream_state
  define Q where "Q ev \<longleftrightarrow> (case ev of Snapshot b \<Rightarrow> bk_min_order_size b = default_min_size | _ \<Rightarrow> True)" for ev
  have frame: "list_all Q (frame_events D ts_opt n now f)" for n now f
  proof -
    have "list_all Q (List.map_filter (price_change_event D) (wf_price_changes f))"
      by (rule map_filter_ok) (auto simp: price_change_event_def Q_def bind_eq_Some_conv)
    then show ?thesis
      by (auto simp: frame_events_def to_book_def Q_def bind_eq_Some_conv split: option.splits)
  qed
  have one: "I S \<Longrightarrow> Q ev \<Longrightarrow> I (stream_event now S ev)" for S ev now
    using stream_min_size [of S ev now] unfolding I_def Q_def by blast
  have events: "I S \<Longrightarrow> list_all Q evs \<Longrightarrow> I (foldl (stream_event now) S evs)" for S evs now
    by (induction evs arbitrary: S) (simp_all add: one)
  have step: "I (stream_text D ts_opt da dob S msg)" if "I S" for S msg
  proof (cases "parse_market_frame D ts_opt da dob (fst msg) (st_seq S) (snd msg)")
    case (Inr evs)
    then have "list_all Q evs"
      using frame by (auto simp: parse_market_frame_def Let_def and_then_Inr list_all_iff Q_def split: if_splits)
    with Inr events that show ?thesis by (simp add: stream_text_def)
  qed (use that in \<open>simp add: stream_text_def\<close>)
  have "I S \<Longrightarrow> I (foldl (stream_text D ts_opt da dob) S msgs)" for S
    by (induction msgs arbitrary: S) (simp_all add: step)
  moreover have "I (stream_new seq stats)"
    by (simp add: I_def stream_new_def builder_new_def builder_get_def)
  ultimately have "I (foldl (stream_text D ts_opt da dob) (stream_new seq stats) msgs)" .
  then show ?thesis unfolding I_def default_min_size_def by blast
qed

end
