(* ===== verification/Reconnect.thy ===== *)
theory Reconnect
  imports BookStream "HOL-Library.Word"
begin

unbundle bit_operations_syntax

section \<open>Reconnection policy (crates/market_data/src/reconnect.rs)\<close>

text \<open>
  The backoff and the circuit breaker work on \<open>u64\<close> and \<open>u32\<close>, kept at their width: the
  generator's shifts drop bits and its product wraps, while the exponent saturates. A \<open>Duration\<close>
  is its number of milliseconds.
\<close>

subsection \<open>Saturating arithmetic\<close>

definition sat_mul :: "'a::len word \<Rightarrow> 'a word \<Rightarrow> 'a word" where
  "sat_mul a b = (if unat a * unat b < 2 ^ LENGTH('a) then a * b else - 1)"

definition sat_pow :: "'a::len word \<Rightarrow> nat \<Rightarrow> 'a word" where
  "sat_pow a n = (if unat a ^ n < 2 ^ LENGTH('a) then a ^ n else - 1)"

definition sat_add :: "'a::len word \<Rightarrow> 'a word \<Rightarrow> 'a word" where
  "sat_add a b = (if unat a + unat b < 2 ^ LENGTH('a) then a + b else - 1)"

lemma unat_max: "unat (- 1 :: 'a::len word) = 2 ^ LENGTH('a) - 1"
  by (simp add: unsigned_minus_1_eq_mask mask_eq_exp_minus_1)

lemma unat_bound: "unat (x :: 'a::len word) \<le> 2 ^ LENGTH('a) - 1"
  using unsigned_less [of x, where 'a = nat] by linarith

lemma cut_min: "(if x < 2 ^ n then x mod 2 ^ n else 2 ^ n - 1) = min x (2 ^ n - (1 :: nat))"
  using zero_less_power [of "2 :: nat" n] by (auto simp: min_def simp del: zero_less_power)

lemma unat_sat_mul: "unat (sat_mul a b) = min (unat a * unat b) (2 ^ LENGTH('a) - 1)" for a b :: "'a::len word"
  unfolding cut_min [symmetric] by (simp add: sat_mul_def unat_max unat_word_ariths)

lemma unat_sat_pow: "unat (sat_pow a n) = min (unat a ^ n) (2 ^ LENGTH('a) - 1)" for a :: "'a::len word"
proof -
  have "word_of_nat (unat a ^ n) = a ^ n" by simp
  then have "unat (a ^ n) = unat a ^ n mod 2 ^ LENGTH('a)"
    using unat_of_nat [of "unat a ^ n", where 'a = 'a] by (rule subst)
  then show ?thesis unfolding cut_min [symmetric] by (simp add: sat_pow_def unat_max)
qed

lemma unat_sat_add: "unat (sat_add a b) = min (unat a + unat b) (2 ^ LENGTH('a) - 1)" for a b :: "'a::len word"
  unfolding cut_min [symmetric] by (simp add: sat_add_def unat_max unat_word_ariths)

subsection \<open>Exponential backoff\<close>

record backoff =
  bo_base_ms :: "64 word"
  bo_max_ms :: "64 word"
  bo_factor :: "32 word"
  bo_attempt :: "32 word"
  bo_seed :: "64 word"

definition backoff_new :: "64 word \<Rightarrow> 64 word \<Rightarrow> backoff" where
  "backoff_new base_ms max_ms = \<lparr>bo_base_ms = base_ms, bo_max_ms = max_ms, bo_factor = 2,
     bo_attempt = 0, bo_seed = 0x2545F4914F6CDD1D\<rparr>"

definition backoff_default :: backoff where
  "backoff_default = backoff_new 500 30000"

definition backoff_reset :: "backoff \<Rightarrow> backoff" where
  "backoff_reset B = B\<lparr>bo_attempt := 0\<rparr>"

definition exponent_ms :: "backoff \<Rightarrow> 64 word" where
  "exponent_ms B = sat_mul (bo_base_ms B) (sat_pow (ucast (bo_factor B)) (min (unat (bo_attempt B)) 16))"

definition ceiling_ms :: "backoff \<Rightarrow> 64 word" where
  "ceiling_ms B = min (exponent_ms B) (bo_max_ms B)"

definition xorshift :: "64 word \<Rightarrow> 64 word" where
  "xorshift s =
     (let s1 = s XOR drop_bit 12 s;
          s2 = s1 XOR push_bit 25 s1
      in s2 XOR drop_bit 27 s2)"

definition next_delay :: "backoff \<Rightarrow> backoff \<times> 64 word" where
  "next_delay B =
     (let ceiling = max (min (exponent_ms B) (bo_max_ms B)) 1;
          seed = xorshift (bo_seed B);
          r = seed * 0x2545F4914F6CDD1D
      in (B\<lparr>bo_attempt := sat_add (bo_attempt B) 1, bo_seed := seed\<rparr>, r mod ceiling))"

subsection \<open>Circuit breaker\<close>

datatype breaker_state = BreakerClosed | BreakerOpen | BreakerHalfOpen

record circuit_breaker =
  br_failure_threshold :: "32 word"
  br_consecutive_failures :: "32 word"
  br_cooldown_ms :: "64 word"
  br_state :: breaker_state
  br_opened_for_ms :: "64 word"

definition breaker_new :: "32 word \<Rightarrow> 64 word \<Rightarrow> circuit_breaker" where
  "breaker_new threshold cooldown = \<lparr>br_failure_threshold = max threshold 1,
     br_consecutive_failures = 0, br_cooldown_ms = cooldown, br_state = BreakerClosed,
     br_opened_for_ms = 0\<rparr>"

definition on_success :: "circuit_breaker \<Rightarrow> circuit_breaker" where
  "on_success b = b\<lparr>br_consecutive_failures := 0, br_state := BreakerClosed, br_opened_for_ms := 0\<rparr>"

definition on_failure :: "circuit_breaker \<Rightarrow> circuit_breaker" where
  "on_failure b =
     (let n = sat_add (br_consecutive_failures b) 1
      in if n \<ge> br_failure_threshold b
         then b\<lparr>br_consecutive_failures := n, br_state := BreakerOpen, br_opened_for_ms := 0\<rparr>
         else b\<lparr>br_consecutive_failures := n\<rparr>)"

definition breaker_tick :: "circuit_breaker \<Rightarrow> 64 word \<Rightarrow> circuit_breaker" where
  "breaker_tick b elapsed =
     (if br_state b = BreakerOpen then
        (let opened = br_opened_for_ms b + elapsed
         in if opened \<ge> br_cooldown_ms b
            then b\<lparr>br_opened_for_ms := opened, br_state := BreakerHalfOpen\<rparr>
            else b\<lparr>br_opened_for_ms := opened\<rparr>)
      else b)"

definition allows_request :: "circuit_breaker \<Rightarrow> bool" where
  "allows_request b \<longleftrightarrow> br_state b = BreakerClosed \<or> br_state b = BreakerHalfOpen"

subsection \<open>The generator never dies\<close>

lemma xor_eq_0: "x XOR y = 0 \<longleftrightarrow> x = y" for x y :: "'a::len word"
  by (metis xor.assoc xor.right_neutral xor_self_eq)

lemma shift_right_fixed: "x = drop_bit k x \<Longrightarrow> 0 < k \<Longrightarrow> x = 0" for x :: "'a::len word"
proof -
  assume "x = drop_bit k x" "0 < k"
  then have "unat x = unat x div 2 ^ k" by (metis drop_bit_eq_div unat_drop_bit_eq)
  moreover have "(1::nat) < 2 ^ k" using \<open>0 < k\<close> by (metis one_less_numeral_iff one_less_power semiring_norm(76))
  ultimately have "unat x = 0" by (metis div_less_dividend less_irrefl not_gr_zero)
  then show ?thesis by (simp add: unat_eq_0)
qed

lemma shift_left_fixed: "x = push_bit k x \<Longrightarrow> 0 < k \<Longrightarrow> x = 0" for x :: "'a::len word"
proof -
  assume x: "x = push_bit k x" "0 < k"
  have "\<not> bit x n" for n
  proof (induction n rule: less_induct)
    case (less n)
    show ?case
    proof
      assume "bit x n"
      then have "bit (push_bit k x) n" using x(1) by simp
      then have "k \<le> n" "bit x (n - k)" by (auto simp: bit_push_bit_iff)
      with less [of "n - k"] x(2) show False by auto
    qed
  qed
  then show ?thesis by (simp add: bit_eq_iff)
qed

lemma xorshift_nonzero: "s \<noteq> 0 \<Longrightarrow> xorshift s \<noteq> 0"
  unfolding xorshift_def Let_def xor_eq_0
  using shift_right_fixed [of _ 12] shift_right_fixed [of _ 27] shift_left_fixed [of _ 25]
  by (metis xor_eq_0 zero_less_numeral)

subsection \<open>Properties\<close>

lemma exponent_exact:
  "bo_factor B = 2 \<Longrightarrow>
     unat (ceiling_ms B) = min (unat (bo_max_ms B)) (unat (bo_base_ms B) * 2 ^ min (unat (bo_attempt B)) 16)"
proof -
  assume f: "bo_factor B = 2"
  have "unat (sat_pow (ucast (bo_factor B) :: 64 word) (min (unat (bo_attempt B)) 16)) =
      2 ^ min (unat (bo_attempt B)) 16"
  proof -
    have "(2::nat) ^ min (unat (bo_attempt B)) 16 \<le> 2 ^ 16" by (intro power_increasing) auto
    then show ?thesis by (simp add: unat_sat_pow f)
  qed
  then have "unat (exponent_ms B) = min (unat (bo_base_ms B) * 2 ^ min (unat (bo_attempt B)) 16) (2 ^ 64 - 1)"
    by (simp add: exponent_ms_def unat_sat_mul)
  moreover have "unat (bo_max_ms B) \<le> 2 ^ 64 - 1" using unat_bound [of "bo_max_ms B"] by simp
  moreover have "unat (min a b) = min (unat a) (unat b)" for a b :: "64 word"
    by (simp add: min_def word_le_nat_alt)
  ultimately show ?thesis by (simp add: ceiling_ms_def min_def)
qed

definition backoff_after :: "nat \<Rightarrow> backoff \<Rightarrow> backoff" where
  "backoff_after n B = ((\<lambda>B. fst (next_delay B)) ^^ n) B"

lemma next_delay_fields [simp]:
  "bo_base_ms (fst (next_delay B)) = bo_base_ms B" "bo_max_ms (fst (next_delay B)) = bo_max_ms B"
  "bo_factor (fst (next_delay B)) = bo_factor B"
  "bo_attempt (fst (next_delay B)) = sat_add (bo_attempt B) 1"
  "bo_seed (fst (next_delay B)) = xorshift (bo_seed B)"
  by (simp_all add: next_delay_def Let_def)

lemma backoff_after_fields:
  "bo_base_ms (backoff_after n (backoff_new b m)) = b \<and> bo_max_ms (backoff_after n (backoff_new b m)) = m \<and>
   bo_factor (backoff_after n (backoff_new b m)) = 2 \<and>
   unat (bo_attempt (backoff_after n (backoff_new b m))) = min n (2 ^ 32 - 1) \<and>
   bo_seed (backoff_after n (backoff_new b m)) \<noteq> 0"
proof (induction n)
  case 0
  show ?case by (simp add: backoff_after_def backoff_new_def)
next
  case (Suc n)
  have "backoff_after (Suc n) (backoff_new b m) = fst (next_delay (backoff_after n (backoff_new b m)))"
    by (simp add: backoff_after_def)
  with Suc show ?case by (simp add: unat_sat_add xorshift_nonzero)
qed

lemma delay_below_ceiling: "unat (snd (next_delay B)) < max 1 (unat (ceiling_ms B))"
proof -
  have m: "unat (max c 1) = max 1 (unat c)" for c :: "64 word"
    by (simp add: max_def word_le_nat_alt)
  have "unat (x mod max c 1) < unat (max c 1)" for x c :: "64 word"
    unfolding unat_mod_distrib m by (rule mod_less_divisor) simp
  then show ?thesis by (simp add: next_delay_def Let_def ceiling_ms_def m)
qed

lemma failure_threshold_kept [simp]:
  "br_failure_threshold (on_failure b) = br_failure_threshold b"
  "br_failure_threshold ((on_failure ^^ k) b) = br_failure_threshold b"
  "br_failure_threshold (on_success b) = br_failure_threshold b"
proof -
  show *: "br_failure_threshold (on_failure b) = br_failure_threshold b" for b
    by (simp add: on_failure_def Let_def)
  show "br_failure_threshold ((on_failure ^^ k) b) = br_failure_threshold b"
    by (induction k) (simp_all add: *)
qed (simp add: on_success_def)

lemma breaker_failures:
  "unat (br_consecutive_failures ((on_failure ^^ k) (on_success b))) = min k (2 ^ 32 - 1) \<and>
   (br_failure_threshold b \<noteq> 0 \<longrightarrow>
     br_state ((on_failure ^^ k) (on_success b)) =
       (if k < unat (br_failure_threshold b) then BreakerClosed else BreakerOpen))"
proof (induction k)
  case 0
  then show ?case by (simp add: on_success_def unat_gt_0)
next
  case (Suc k)
  let ?b = "(on_failure ^^ k) (on_success b)"
  have "unat (br_failure_threshold b) \<le> 2 ^ 32 - 1" using unat_bound [of "br_failure_threshold b"] by simp
  then have "br_failure_threshold b \<le> sat_add (br_consecutive_failures ?b) 1 \<longleftrightarrow> unat (br_failure_threshold b) \<le> Suc k"
    using Suc by (auto simp: word_le_nat_alt unat_sat_add)
  with Suc show ?case by (auto simp: on_failure_def [of ?b] Let_def unat_sat_add)
qed

datatype breaker_op = BrSuccess | BrFailure | BrTick "64 word"

fun breaker_do :: "circuit_breaker \<Rightarrow> breaker_op \<Rightarrow> circuit_breaker" where
  "breaker_do b BrSuccess = on_success b"
| "breaker_do b BrFailure = on_failure b"
| "breaker_do b (BrTick e) = breaker_tick b e"

lemma breaker_threshold_kept: "br_failure_threshold (foldl breaker_do b ops) = br_failure_threshold b"
proof (induction ops arbitrary: b)
  case (Cons x ops)
  then show ?case
    by (cases x) (simp_all add: on_success_def on_failure_def breaker_tick_def Let_def)
qed simp

lemma ticks_open:
  assumes "br_state b = BreakerOpen" and "br_opened_for_ms b < br_cooldown_ms b"
    and "unat (br_opened_for_ms b) + sum_list (map unat es) < 2 ^ 64"
  shows "br_state (foldl breaker_tick b es) =
     (if unat (br_cooldown_ms b) \<le> unat (br_opened_for_ms b) + sum_list (map unat es)
      then BreakerHalfOpen else BreakerOpen)"
  using assms
proof (induction es arbitrary: b)
  case Nil
  then show ?case by (simp add: word_less_nat_alt)
next
  case (Cons e es)
  have u: "unat (br_opened_for_ms b + e) = unat (br_opened_for_ms b) + unat e"
    using Cons.prems(3) by (simp add: unat_word_ariths)
  have idle: "br_state b' = BreakerHalfOpen \<Longrightarrow> br_state (foldl breaker_tick b' es) = BreakerHalfOpen" for b'
    by (induction es) (simp_all add: breaker_tick_def)
  show ?case
  proof (cases "br_cooldown_ms b \<le> br_opened_for_ms b + e")
    case True
    then have "unat (br_cooldown_ms b) \<le> unat (br_opened_for_ms b) + unat e" by (simp add: word_le_nat_alt u)
    with True Cons.prems(1) show ?thesis by (simp add: breaker_tick_def [of b e] idle)
  next
    case False
    with Cons.IH [of "b\<lparr>br_opened_for_ms := br_opened_for_ms b + e\<rparr>"] Cons.prems show ?thesis
      by (simp add: breaker_tick_def [of b e] u add.assoc)
  qed
qed

text \<open>Retries back off and stay random. After \<open>n\<close> attempts the ceiling is the base doubled \<open>n\<close> times
  (at most 16), cut to the maximum with no overflow in between; the delay handed out is below that
  ceiling; and the generator's state is never zero, so the jitter never dies out.\<close>

theorem backoff_bounded_and_alive:
  "let B = backoff_after n (backoff_new base mx)
   in unat (ceiling_ms B) = min (unat mx) (unat base * 2 ^ min n 16) \<and>
      unat (snd (next_delay B)) < max 1 (unat (ceiling_ms B)) \<and>
      bo_seed B \<noteq> 0 \<and> unat (bo_attempt B) = min n (2 ^ 32 - 1)"
proof -
  let ?B = "backoff_after n (backoff_new base mx)"
  note F = backoff_after_fields [of n base mx]
  have "min (min n (2 ^ 32 - 1)) 16 = min n (16 :: nat)" by (simp add: min_def)
  with F have "unat (ceiling_ms ?B) = min (unat mx) (unat base * 2 ^ min n 16)"
    by (simp add: exponent_exact)
  with F delay_below_ceiling [of ?B] show ?thesis by simp
qed

text \<open>The breaker opens after exactly the configured number of failures in a row. Whatever happened
  before, after a success \<open>k\<close> consecutive failures leave requests allowed exactly when \<open>k\<close> is below
  the threshold (at least one).\<close>

theorem breaker_trips_exactly:
  "allows_request ((on_failure ^^ k) (on_success (foldl breaker_do (breaker_new threshold cooldown) ops)))
     \<longleftrightarrow> k < max 1 (unat threshold)"
proof -
  let ?b = "foldl breaker_do (breaker_new threshold cooldown) ops"
  have t: "br_failure_threshold ?b = max threshold 1"
    by (simp add: breaker_threshold_kept breaker_new_def)
  have m: "unat (max threshold 1) = max 1 (unat threshold)" by (simp add: max_def word_le_nat_alt)
  then have "max threshold 1 \<noteq> 0" by (metis max_def not_one_le_zero unat_0 unat_1 max.cobounded1)
  with breaker_failures [of k ?b] t m show ?thesis by (simp add: allows_request_def)
qed

text \<open>An open breaker stays open for the cooldown and not longer: as the clock ticks, it lets a probe
  through exactly when the time since it opened has reached the cooldown.\<close>

theorem breaker_cooldown_exact:
  assumes "br_state b = BreakerOpen" and "br_opened_for_ms b = 0" and "0 < br_cooldown_ms b"
    and "sum_list (map unat es) < 2 ^ 64"
  shows "allows_request (foldl breaker_tick b es) \<longleftrightarrow> unat (br_cooldown_ms b) \<le> sum_list (map unat es)"
  using ticks_open [of b es] assms by (simp add: allows_request_def)

theorem breaker_cooldown_exact_witness:
  "let b = on_failure (breaker_new 1 1000)
   in \<not> allows_request (foldl breaker_tick b [400, 500]) \<and> allows_request (foldl breaker_tick b [400, 600])"
proof -
  let ?b = "on_failure (breaker_new 1 1000)"
  have b: "br_state ?b = BreakerOpen" "br_opened_for_ms ?b = 0" "br_cooldown_ms ?b = 1000"
    by (simp_all add: on_failure_def breaker_new_def sat_add_def Let_def)
  then have "0 < br_cooldown_ms ?b" by simp
  from breaker_cooldown_exact [OF b(1,2) this, of "[400, 500]"]
    breaker_cooldown_exact [OF b(1,2) this, of "[400, 600]"] b(3)
  show ?thesis by simp
qed

end
