(* ===== verification/Metrics.thy ===== *)
theory Metrics
  imports Reconnect Events
begin

section \<open>Metrics and health (crates/metrics/src/registry.rs, health.rs)\<close>

text \<open>
  The registry of counters and gauges with its text rendering, and the health monitor. The atomics
  and locks are sequential state passing. A counter is a \<open>u64\<close> that wraps, a gauge an \<open>i64\<close> of
  millionths. The decimal text of a float is a parameter, \<open>show_f64\<close>, given the float's value.
\<close>

subsection \<open>Counters and gauges\<close>

type_synonym counter = "64 word"

definition counter_inc :: "counter \<Rightarrow> counter" where
  "counter_inc c = c + 1"

definition counter_add :: "counter \<Rightarrow> nat \<Rightarrow> counter" where
  "counter_add c n = c + of_nat n"

text \<open>\<open>Decimal::to_i64\<close> cuts the fraction and fails out of range.\<close>

definition decimal_to_i64 :: "rat \<Rightarrow> int option" where
  "decimal_to_i64 x =
     (let t = (if 0 \<le> x then \<lfloor>x\<rfloor> else \<lceil>x\<rceil>)
      in if - (2 ^ 63) \<le> t \<and> t < 2 ^ 63 then Some t else None)"

definition gauge_of_decimal :: "decimal_ops \<Rightarrow> rat \<Rightarrow> int" where
  "gauge_of_decimal D v =
     (case decimal_to_i64 (d_mul D v 1000000) of Some t \<Rightarrow> t | None \<Rightarrow> 0)"

text \<open>Conversions to \<open>f64\<close> round, and so does each division.\<close>

definition f64_of :: "rat \<Rightarrow> rat" where
  "f64_of x = (if x < 0 then - f64_round (- x) else f64_round x)"

definition gauge_decimal :: "int \<Rightarrow> rat" where
  "gauge_decimal g = f64_of (f64_of (of_int g) / 1000000)"

record metrics =
  mt_market_events_total :: counter
  mt_source_trades_total :: counter
  mt_source_trades_skipped_total :: counter
  mt_duplicates_suppressed_total :: counter
  mt_copy_signals_total :: counter
  mt_orders_submitted_total :: counter
  mt_orders_acknowledged_total :: counter
  mt_orders_filled_total :: counter
  mt_orders_rejected_total :: counter
  mt_orders_cancelled_total :: counter
  mt_risk_rejections_total :: counter
  mt_feed_reconnects_total :: counter
  mt_reconciliation_mismatches_total :: counter
  mt_kill_switch_activations_total :: counter
  mt_pnl_total :: int
  mt_daily_pnl :: int
  mt_fees_total :: int
  mt_equity :: int
  mt_gross_exposure :: int
  mt_active_positions :: int
  mt_open_orders :: int
  mt_tracked_wallets :: int
  mt_kill_switch_engaged :: int
  mt_feed_connected :: int
  mt_rejections_by_code :: "(string, counter) hashmap"
  mt_latency :: recorder

definition metrics_new :: metrics where
  "metrics_new = \<lparr>mt_market_events_total = 0, mt_source_trades_total = 0,
     mt_source_trades_skipped_total = 0, mt_duplicates_suppressed_total = 0,
     mt_copy_signals_total = 0, mt_orders_submitted_total = 0, mt_orders_acknowledged_total = 0,
     mt_orders_filled_total = 0, mt_orders_rejected_total = 0, mt_orders_cancelled_total = 0,
     mt_risk_rejections_total = 0, mt_feed_reconnects_total = 0,
     mt_reconciliation_mismatches_total = 0, mt_kill_switch_activations_total = 0,
     mt_pnl_total = 0, mt_daily_pnl = 0, mt_fees_total = 0, mt_equity = 0, mt_gross_exposure = 0,
     mt_active_positions = 0, mt_open_orders = 0, mt_tracked_wallets = 0,
     mt_kill_switch_engaged = 0, mt_feed_connected = 0, mt_rejections_by_code = [],
     mt_latency = recorder_new\<rparr>"

definition record_rejection :: "metrics \<Rightarrow> string \<Rightarrow> metrics" where
  "record_rejection M code = M\<lparr>mt_risk_rejections_total := counter_inc (mt_risk_rejections_total M),
     mt_rejections_by_code := upsert (mt_rejections_by_code M) code 0 (\<lambda>n. n + 1)\<rparr>"

text \<open>The ordered map, read from its smallest code on.\<close>

definition rejection_breakdown :: "metrics \<Rightarrow> (string \<times> counter) list" where
  "rejection_breakdown M = sort_key fst (mt_rejections_by_code M)"

subsection \<open>The text exposition\<close>

definition newline :: string where
  "newline = [char_of (10 :: nat)]"

definition quote :: string where
  "quote = [char_of (34 :: nat)]"

definition counter_text :: "counter \<Rightarrow> string" where
  "counter_text c = nat_text (unat c)"

definition render_header :: "string \<Rightarrow> string \<Rightarrow> string \<Rightarrow> string" where
  "render_header name help kind =
     ''# HELP '' @ name @ '' '' @ help @ newline @ ''# TYPE '' @ name @ '' '' @ kind @ newline"

definition render_counter :: "string \<times> string \<times> counter \<Rightarrow> string" where
  "render_counter c =
     (case c of (name, help, v) \<Rightarrow>
        render_header name help ''counter'' @ name @ '' '' @ counter_text v @ newline)"

definition render_gauge :: "(rat \<Rightarrow> string) \<Rightarrow> string \<times> string \<times> rat \<Rightarrow> string" where
  "render_gauge show_f64 g =
     (case g of (name, help, v) \<Rightarrow>
        render_header name help ''gauge'' @ name @ '' '' @ show_f64 v @ newline)"

definition counter_rows :: "metrics \<Rightarrow> (string \<times> string \<times> counter) list" where
  "counter_rows M =
     [(''market_events_total'', ''Order book updates ingested'', mt_market_events_total M),
      (''source_trades_total'', ''Target-wallet trades detected'', mt_source_trades_total M),
      (''source_trades_skipped_total'', ''Detected trades deliberately not copied'',
         mt_source_trades_skipped_total M),
      (''duplicates_suppressed_total'', ''Re-delivered source fills suppressed by dedup'',
         mt_duplicates_suppressed_total M),
      (''copy_signals_total'', ''Copy signals generated'', mt_copy_signals_total M),
      (''orders_submitted_total'', ''Orders sent to the execution adapter'', mt_orders_submitted_total M),
      (''orders_acknowledged_total'', ''Orders acknowledged by the venue'', mt_orders_acknowledged_total M),
      (''orders_filled_total'', ''Orders fully filled'', mt_orders_filled_total M),
      (''orders_rejected_total'', ''Orders rejected by the venue'', mt_orders_rejected_total M),
      (''orders_cancelled_total'', ''Orders cancelled'', mt_orders_cancelled_total M),
      (''risk_rejections_total'', ''Orders refused by the risk engine'', mt_risk_rejections_total M),
      (''feed_reconnects_total'', ''Source feed reconnections'', mt_feed_reconnects_total M),
      (''reconciliation_mismatches_total'', ''Position mismatches against the venue'',
         mt_reconciliation_mismatches_total M),
      (''kill_switch_activations_total'', ''Kill switch engagements'', mt_kill_switch_activations_total M)]"

definition gauge_rows :: "metrics \<Rightarrow> (string \<times> string \<times> rat) list" where
  "gauge_rows M =
     [(''pnl_total'', ''Total PnL in USD'', gauge_decimal (mt_pnl_total M)),
      (''daily_pnl'', ''PnL since the start of the UTC day'', gauge_decimal (mt_daily_pnl M)),
      (''fees_total'', ''Fees paid in USD'', gauge_decimal (mt_fees_total M)),
      (''equity'', ''Portfolio equity in USD'', gauge_decimal (mt_equity M)),
      (''gross_exposure'', ''Sum of absolute position notionals'', gauge_decimal (mt_gross_exposure M)),
      (''active_positions'', ''Open positions'', f64_of (of_int (mt_active_positions M))),
      (''open_orders'', ''Working orders'', f64_of (of_int (mt_open_orders M))),
      (''tracked_wallets'', ''Configured target wallets'', f64_of (of_int (mt_tracked_wallets M))),
      (''kill_switch_engaged'', ''1 when the kill switch is engaged'', f64_of (of_int (mt_kill_switch_engaged M))),
      (''feed_connected'', ''1 when the source feed is connected'', f64_of (of_int (mt_feed_connected M)))]"

definition render_rejections :: "metrics \<Rightarrow> string" where
  "render_rejections M =
     (let b = rejection_breakdown M
      in if b = [] then []
         else render_header ''risk_rejections_by_reason'' ''Risk rejections by reason code'' ''counter'' @
              concat (map (\<lambda>(code, n). ''risk_rejections_by_reason{reason='' @ quote @ code @ quote @
                ''} '' @ counter_text n @ newline) b))"

fun stage_str :: "latency_stage \<Rightarrow> string" where
  "stage_str Detection = ''detection''"
| "stage_str Strategy = ''strategy''"
| "stage_str Risk = ''risk''"
| "stage_str Submission = ''submission''"
| "stage_str Ack = ''ack''"
| "stage_str Execution = ''execution''"
| "stage_str Internal = ''internal''"
| "stage_str EndToEnd = ''end_to_end''"

definition millis :: "int \<Rightarrow> rat" where
  "millis us = f64_of (f64_of (of_int us) / 1000)"

definition render_stage :: "(rat \<Rightarrow> string) \<Rightarrow> latency_stage \<times> latency_stats \<Rightarrow> string" where
  "render_stage show_f64 x =
     (let (stage, s) = x; n = stage_str stage @ ''_latency_ms''
      in render_header n (''Measured '' @ stage_str stage @ '' latency'') ''summary'' @
         concat (map (\<lambda>(q, v). n @ ''{quantile='' @ quote @ q @ quote @ ''} '' @ show_f64 (millis v) @ newline)
           [(''0.5'', st_p50 s), (''0.95'', st_p95 s), (''0.99'', st_p99 s)]) @
         n @ ''_count '' @ nat_text (st_count s) @ newline @
         n @ ''_max '' @ show_f64 (millis (st_max s)) @ newline)"

definition render_prometheus :: "(rat \<Rightarrow> string) \<Rightarrow> metrics \<Rightarrow> string" where
  "render_prometheus show_f64 M =
     concat (map render_counter (counter_rows M)) @ render_rejections M @
     concat (map (render_gauge show_f64) (gauge_rows M)) @
     concat (map (render_stage show_f64) (all_stats (mt_latency M)))"

subsection \<open>Health\<close>

record component_status =
  co_name :: string
  co_state :: health_state
  co_detail :: string
  co_last_ok :: "timestamp option"
  co_last_change :: timestamp

record health_report =
  hr_state :: health_state
  hr_components :: "component_status list"
  hr_mode :: string
  hr_at :: timestamp

record health_monitor =
  hm_components :: "component_status list"
  hm_mode :: string

definition health_new :: "string \<Rightarrow> health_monitor" where
  "health_new mode = \<lparr>hm_components = [], hm_mode = mode\<rparr>"

definition set_component :: "health_state \<Rightarrow> string \<Rightarrow> timestamp \<Rightarrow> component_status \<Rightarrow> component_status" where
  "set_component state detail now c =
     c\<lparr>co_last_change := (if co_state c \<noteq> state then now else co_last_change c),
       co_state := state, co_detail := detail,
       co_last_ok := (if state = Healthy then Some now else co_last_ok c)\<rparr>"

definition health_get :: "health_monitor \<Rightarrow> string \<Rightarrow> component_status option" where
  "health_get H name = find (\<lambda>c. co_name c = name) (hm_components H)"

definition health_set :: "health_monitor \<Rightarrow> string \<Rightarrow> health_state \<Rightarrow> string \<Rightarrow> timestamp \<Rightarrow> health_monitor" where
  "health_set H name state detail now =
     (case health_get H name of
        Some _ \<Rightarrow> H\<lparr>hm_components :=
          update_first (\<lambda>c. co_name c = name) (set_component state detail now) (hm_components H)\<rparr>
      | None \<Rightarrow> H\<lparr>hm_components := hm_components H @ [\<lparr>co_name = name, co_state = state,
          co_detail = detail, co_last_ok = (if state = Healthy then Some now else None),
          co_last_change = now\<rparr>]\<rparr>)"

definition int_text :: "int \<Rightarrow> string" where
  "int_text i = (if i < 0 then ''-'' @ nat_text (nat (- i)) else nat_text (nat i))"

definition expire_component :: "int \<Rightarrow> timestamp \<Rightarrow> component_status \<Rightarrow> component_status" where
  "expire_component stale_after now c =
     (if co_state c = Healthy then
        (case co_last_ok c of
           Some t \<Rightarrow>
             (if now - t > stale_after
              then c\<lparr>co_state := Degraded,
                     co_detail := ''no update for '' @ int_text (num_seconds (now - t)) @ ''s'',
                     co_last_change := now\<rparr>
              else c)
         | None \<Rightarrow> c)
      else c)"

definition expire_stale :: "health_monitor \<Rightarrow> int \<Rightarrow> timestamp \<Rightarrow> health_monitor" where
  "expire_stale H stale_after now =
     H\<lparr>hm_components := map (expire_component stale_after now) (hm_components H)\<rparr>"

definition overall :: "component_status list \<Rightarrow> health_state" where
  "overall cs =
     (if list_ex (\<lambda>c. co_state c = Down) cs then Down
      else if list_ex (\<lambda>c. co_state c = Degraded) cs then Degraded else Healthy)"

definition health_report_of :: "health_monitor \<Rightarrow> timestamp \<Rightarrow> health_report" where
  "health_report_of H now = \<lparr>hr_state = overall (hm_components H), hr_components = hm_components H,
     hr_mode = hm_mode H, hr_at = now\<rparr>"

definition report_healthy :: "health_report \<Rightarrow> bool" where
  "report_healthy r \<longleftrightarrow> hr_state r = Healthy"

subsection \<open>What a health report can be trusted for\<close>

datatype health_op = HSet string health_state string timestamp | HExpire int timestamp

fun health_do :: "health_monitor \<Rightarrow> health_op \<Rightarrow> health_monitor" where
  "health_do H (HSet name state detail now) = health_set H name state detail now"
| "health_do H (HExpire stale_after now) = expire_stale H stale_after now"

definition health_run :: "string \<Rightarrow> health_op list \<Rightarrow> health_monitor" where
  "health_run mode ops = foldl health_do (health_new mode) ops"

text \<open>Healthy means that somebody said so, and when is what \<open>last_ok\<close> tells.\<close>

definition vouched :: "health_op list \<Rightarrow> component_status \<Rightarrow> bool" where
  "vouched ops c \<longleftrightarrow>
     (case co_last_ok c of
        Some t \<Rightarrow> \<exists>detail. HSet (co_name c) Healthy detail t \<in> set ops
      | None \<Rightarrow> co_state c \<noteq> Healthy)"

definition health_ok :: "health_op list \<Rightarrow> health_monitor \<Rightarrow> bool" where
  "health_ok ops H \<longleftrightarrow> distinct (map co_name (hm_components H)) \<and> (\<forall>c\<in>set (hm_components H). vouched ops c)"

lemma set_component_name [simp]: "co_name (set_component state detail now c) = co_name c"
  by (simp add: set_component_def)

lemma expire_component_fields [simp]:
  "co_name (expire_component stale now c) = co_name c"
  "co_last_ok (expire_component stale now c) = co_last_ok c"
  by (simp_all add: expire_component_def split: option.splits)

lemma update_first_map:
  "(\<And>x. g (f x) = g x) \<Longrightarrow> map g (update_first P f xs) = map g xs"
  by (induction xs) simp_all

lemma update_first_set: "x \<in> set (update_first P f xs) \<Longrightarrow> x \<in> set xs \<or> (\<exists>y\<in>set xs. P y \<and> x = f y)"
  by (induction xs) (auto split: if_splits)

lemma vouched_mono: "vouched ops c \<Longrightarrow> vouched (ops @ new) c"
  by (auto simp: vouched_def split: option.splits)

lemma health_ok_set:
  assumes "health_ok ops H"
  shows "health_ok (ops @ [HSet name state detail now]) (health_set H name state detail now)"
proof (cases "health_get H name")
  case None
  then have "name \<notin> co_name ` set (hm_components H)" by (auto simp: health_get_def find_None_iff)
  with assms None show ?thesis
    by (auto simp: health_ok_def health_set_def vouched_mono) (auto simp: vouched_def)
next
  case (Some c0)
  have "vouched (ops @ [HSet name state detail now]) (set_component state detail now c)"
    if "vouched ops c" "co_name c = name" for c
    using that by (auto simp: vouched_def set_component_def split: option.splits)
  with assms Some show ?thesis
    by (auto simp: health_ok_def health_set_def update_first_map vouched_mono dest!: update_first_set)
qed

lemma health_ok_expire:
  assumes "health_ok ops H"
  shows "health_ok (ops @ [HExpire stale now]) (expire_stale H stale now)"
proof -
  have "vouched (ops @ [HExpire stale now]) (expire_component stale now c)" if "vouched ops c" for c
    using that by (auto simp: vouched_def expire_component_def split: option.splits)
  with assms show ?thesis by (auto simp: health_ok_def expire_stale_def comp_def)
qed

lemma health_run_ok: "health_ok ops (health_run mode ops)"
proof (induction ops rule: rev_induct)
  case Nil
  show ?case by (simp add: health_run_def health_new_def health_ok_def)
next
  case (snoc x ops)
  then show ?case by (cases x) (simp_all add: health_run_def health_ok_set health_ok_expire)
qed

lemma expired_healthy:
  "co_state (expire_component stale now c) = Healthy \<longleftrightarrow>
     co_state c = Healthy \<and> (case co_last_ok c of Some t \<Rightarrow> now - t \<le> stale | None \<Rightarrow> True)"
  by (auto simp: expire_component_def split: option.splits)

lemma overall_healthy: "overall cs = Healthy \<longleftrightarrow> list_all (\<lambda>c. co_state c = Healthy) cs"
proof -
  have "x = Healthy \<longleftrightarrow> x \<noteq> Down \<and> x \<noteq> Degraded" for x by (cases x) simp_all
  then show ?thesis by (auto simp: overall_def list_ex_iff list_all_iff)
qed

subsection \<open>Counting rejections\<close>

lemma upsert_sum:
  "keys_ok m \<Longrightarrow> sum_list (map snd (upsert m k 0 (\<lambda>n. n + 1))) = sum_list (map snd m) + (1 :: counter)"
proof (induction m)
  case Nil
  then show ?case by (simp add: upsert_def get_or_def)
next
  case (Cons a m)
  obtain k' v where a: "a = (k', v)" by (cases a)
  show ?case
  proof (cases "k' = k")
    case True
    with a show ?thesis by (simp add: upsert_def get_or_def get_def)
  next
    case False
    with a Cons show ?thesis by (simp add: upsert_def get_or_def get_def keys_ok_def add.assoc)
  qed
qed

lemma sum_list_sort_key: "sum_list (map snd (sort_key f m)) = (sum_list (map snd m) :: 'a::comm_monoid_add)"
  by (simp flip: sum_mset_sum_list add: mset_map)

lemma record_rejection_fields:
  "mt_risk_rejections_total (record_rejection M code) = mt_risk_rejections_total M + 1"
  "mt_rejections_by_code (record_rejection M code) = upsert (mt_rejections_by_code M) code 0 (\<lambda>n. n + 1)"
  by (simp_all add: record_rejection_def counter_inc_def)

lemma rejections_counted:
  "let M = foldl record_rejection metrics_new codes
   in keys_ok (mt_rejections_by_code M) \<and>
      mt_risk_rejections_total M = sum_list (map snd (mt_rejections_by_code M)) \<and>
      mt_risk_rejections_total M = of_nat (length codes) \<and>
      get_or (mt_rejections_by_code M) c 0 = of_nat (count_list codes c)"
proof (induction codes rule: rev_induct)
  case Nil
  show ?case by (simp add: metrics_new_def get_or_def)
next
  case (snoc x codes)
  then show ?case
    by (auto simp: Let_def record_rejection_fields upsert_sum get_or_def get_upsert split: option.splits)
qed

subsection \<open>Properties\<close>

text \<open>C24: A healthy report is a fresh one. Whatever was reported before, once stale components are
  expired every component that still counts as healthy was reported healthy, under its own name, at
  most the given time ago, and the whole is healthy exactly when every component is.\<close>

theorem healthy_is_vouched_for:
  "let H = expire_stale (health_run mode ops) stale now
   in distinct (map co_name (hm_components H)) \<and>
      list_all (\<lambda>c. case co_last_ok c of
          Some t \<Rightarrow> now - t \<le> stale \<and> (\<exists>detail. HSet (co_name c) Healthy detail t \<in> set ops)
        | None \<Rightarrow> False) (filter (\<lambda>c. co_state c = Healthy) (hm_components H)) \<and>
      (report_healthy (health_report_of H now) \<longleftrightarrow>
         list_all (\<lambda>c. co_state c = Healthy) (hm_components H))"
proof -
  let ?H = "expire_stale (health_run mode ops) stale now"
  have ok: "health_ok ops (health_run mode ops)" by (rule health_run_ok)
  have "case co_last_ok c of Some t \<Rightarrow> now - t \<le> stale \<and> (\<exists>detail. HSet (co_name c) Healthy detail t \<in> set ops)
      | None \<Rightarrow> False" if "c \<in> set (hm_components ?H)" "co_state c = Healthy" for c
    using that ok by (auto simp: expire_stale_def expired_healthy health_ok_def vouched_def split: option.splits)
  with ok show ?thesis
    by (auto simp: health_ok_def expire_stale_def comp_def list_all_iff report_healthy_def
        health_report_of_def overall_healthy)
qed

text \<open>The rejections add up. After any rejections, the count under each code is the number of times it
  was given, and the breakdown adds up to the total.\<close>

theorem rejections_add_up:
  "let M = foldl record_rejection metrics_new codes
   in sum_list (map snd (rejection_breakdown M)) = mt_risk_rejections_total M \<and>
      mt_risk_rejections_total M = of_nat (length codes) \<and>
      get_or (rejection_breakdown M) c 0 = of_nat (count_list codes c)"
proof -
  let ?M = "foldl record_rejection metrics_new codes"
  note R = rejections_counted [of codes c, unfolded Let_def]
  have "set (rejection_breakdown ?M) = set (mt_rejections_by_code ?M)" by (simp add: rejection_breakdown_def)
  moreover have "keys_ok (rejection_breakdown ?M)"
    using R mset_eq_imp_distinct_iff [of "map fst (rejection_breakdown ?M)" "map fst (mt_rejections_by_code ?M)"]
    by (simp add: keys_ok_def rejection_breakdown_def)
  ultimately have "get (rejection_breakdown ?M) c = get (mt_rejections_by_code ?M) c"
    using R by (metis keys_ok_get option.collapse)
  with R show ?thesis by (auto simp: get_or_def rejection_breakdown_def sum_list_sort_key)
qed

end
