(* ===== verification/Storage.thy ===== *)
theory Storage
  imports Metrics
begin

section \<open>Durable state (crates/persistence/src/store.rs, repositories.rs)\<close>

text \<open>
  The tables of the schema and the statements the repositories send. A table with a primary key is
  an association list from the key to its row; a row is the domain record it was bound from, its
  amounts rounded as the column's \<open>NUMERIC(20, s)\<close> rounds (half away from zero, an error when the
  integer part does not fit). Each statement is written as what PostgreSQL documents of it: the
  \<open>ON CONFLICT\<close> clause, the unique constraints and the foreign keys. \<open>db_up\<close> says whether the
  server answers. A store with no database is \<open>None\<close>.
\<close>

subsection \<open>Values and tables\<close>

definition round_half_away :: "rat \<Rightarrow> int" where
  "round_half_away x = (if 0 \<le> x then \<lfloor>x + 1/2\<rfloor> else \<lceil>x - 1/2\<rceil>)"

definition numeric20 :: "nat \<Rightarrow> rat \<Rightarrow> rat option" where
  "numeric20 s x =
     (let r = round_half_away (x * 10 ^ s) in if \<bar>r\<bar> < 10 ^ 20 then Some (of_int r / 10 ^ s) else None)"

datatype store_error = ConnectionFailed | UniqueViolation | ForeignKeyViolation | NumericOverflow

record db =
  db_up :: bool
  db_source_events :: "(source_event_id, source_trade \<times> usd) hashmap"
  db_signals :: "(signal_id, copy_signal) hashmap"
  db_orders :: "(order_id, order \<times> string) hashmap"
  db_fills :: "(fill_id, fill) hashmap"
  db_positions :: "(token_id, position) hashmap"
  db_pnl_snapshots :: "pnl_snapshot list"
  db_markets :: "(market_id, market) hashmap"
  db_risk_events :: "(correlation_id option \<times> signal_id option \<times> risk_rejection) list"
  db_system_events :: "(string \<times> bool \<times> system_event) list"
  db_latency_metrics :: "(correlation_id option \<times> string \<times> int) list"
  db_audit_logs :: "(string \<times> string \<times> string option \<times> json) list"
  db_wallets :: "(address, target_wallet) hashmap"

definition db_empty :: db where
  "db_empty = \<lparr>db_up = True, db_source_events = [], db_signals = [], db_orders = [], db_fills = [],
     db_positions = [], db_pnl_snapshots = [], db_markets = [], db_risk_events = [],
     db_system_events = [], db_latency_metrics = [], db_audit_logs = [], db_wallets = []\<rparr>"

type_synonym store = "db option"

definition is_ephemeral :: "store \<Rightarrow> bool" where
  "is_ephemeral S \<longleftrightarrow> S = None"

definition store_ping :: "store \<Rightarrow> bool" where
  "store_ping S = (case S of None \<Rightarrow> False | Some d \<Rightarrow> db_up d)"

text \<open>Running a statement: nothing to do without a database, and a duplicate is a success.\<close>

definition exec :: "(db \<Rightarrow> store_error + db) \<Rightarrow> store \<Rightarrow> store \<times> (store_error + unit)" where
  "exec q S =
     (case S of
        None \<Rightarrow> (S, Inr ())
      | Some d \<Rightarrow>
          (if \<not> db_up d then (S, Inl ConnectionFailed)
           else case q d of
             Inr d' \<Rightarrow> (Some d', Inr ())
           | Inl e \<Rightarrow> (S, if e = UniqueViolation then Inr () else Inl e)))"

text \<open>A query that reads.\<close>

definition fetch :: "'a \<Rightarrow> (db \<Rightarrow> 'a) \<Rightarrow> store \<Rightarrow> store_error + 'a" where
  "fetch none q S =
     (case S of None \<Rightarrow> Inr none | Some d \<Rightarrow> if db_up d then Inr (q d) else Inl ConnectionFailed)"

subsection \<open>Source events\<close>

definition event_row :: "decimal_ops \<Rightarrow> source_trade \<Rightarrow> (source_trade \<times> usd) option" where
  "event_row D t =
     (case (numeric20 10 (so_price t), numeric20 10 (so_quantity t), numeric20 6 (source_notional D t)) of
        (Some p, Some q, Some n) \<Rightarrow> Some (t\<lparr>so_price := p, so_quantity := q\<rparr>, n)
      | _ \<Rightarrow> None)"

definition event_content :: "source_trade \<Rightarrow> tx_hash \<times> address \<times> token_id \<times> side \<times> price \<times> qty" where
  "event_content t = (so_tx_hash t, so_trader t, so_token_id t, so_side t, so_price t, so_quantity t)"

definition source_event_statement :: "decimal_ops \<Rightarrow> source_trade \<Rightarrow> db \<Rightarrow> store_error + db \<times> bool" where
  "source_event_statement D t d =
     (case event_row D t of
        None \<Rightarrow> Inl NumericOverflow
      | Some row \<Rightarrow>
          (if get (db_source_events d) (so_event_id t) \<noteq> None then Inr (d, False)
           else if list_ex (\<lambda>(_, r, _). event_content r = event_content (fst row) \<and>
                     so_occurrence r = so_occurrence t) (db_source_events d)
             then Inl UniqueViolation
           else Inr (d\<lparr>db_source_events := AList.update (so_event_id t) row (db_source_events d)\<rparr>, True)))"

definition insert_source_event :: "decimal_ops \<Rightarrow> source_trade \<Rightarrow> store \<Rightarrow> store \<times> (store_error + bool)" where
  "insert_source_event D t S =
     (case S of
        None \<Rightarrow> (S, Inr True)
      | Some d \<Rightarrow>
          (if \<not> db_up d then (S, Inl ConnectionFailed)
           else case source_event_statement D t d of
             Inl e \<Rightarrow> (S, Inl e)
           | Inr (d', new) \<Rightarrow> (Some d', Inr new)))"

definition source_event_exists :: "source_event_id \<Rightarrow> store \<Rightarrow> store_error + bool" where
  "source_event_exists e = fetch False (\<lambda>d. get (db_source_events d) e \<noteq> None)"

record dedup_row =
  dr_tx_hash :: string
  dr_trader :: string
  dr_token_id :: string
  dr_side :: string
  dr_price :: rat
  dr_size :: rat
  dr_occurrences :: nat
  dr_last_seen :: timestamp

text \<open>The rows of the window, grouped by content; a group is named by its first row.\<close>

definition window_rows :: "timestamp \<Rightarrow> db \<Rightarrow> source_trade list" where
  "window_rows since d = filter (\<lambda>t. so_source_ts t \<ge> since) (map (fst \<circ> snd) (db_source_events d))"

definition dedup_group :: "source_trade list \<Rightarrow> tx_hash \<times> address \<times> token_id \<times> side \<times> price \<times> qty \<Rightarrow> dedup_row" where
  "dedup_group rows c =
     (case c of (tx, trader, token, s, p, q) \<Rightarrow>
        let members = filter (\<lambda>t. event_content t = c) rows
        in \<lparr>dr_tx_hash = tx_str tx, dr_trader = address_str trader, dr_token_id = token_str token,
            dr_side = side_str s, dr_price = p, dr_size = q, dr_occurrences = length members,
            dr_last_seen = Max (set (map so_detected_ts members))\<rparr>)"

definition load_dedup_window :: "timestamp \<Rightarrow> store \<Rightarrow> store_error + dedup_row list" where
  "load_dedup_window since = fetch []
     (\<lambda>d. let rows = window_rows since d in map (dedup_group rows) (remdups (map event_content rows)))"

definition parse_side_str :: "string \<Rightarrow> side option" where
  "parse_side_str s = (if s = ''BUY'' then Some Buy else if s = ''SELL'' then Some Sell else None)"

definition dedup_row_to_key :: "decimal_ops \<Rightarrow> dedup_row \<Rightarrow> content_key option" where
  "dedup_row_to_key D r =
     Option.bind (ok (tx_hash_new (dr_tx_hash r))) (\<lambda>tx.
     Option.bind (ok (address_new (dr_trader r))) (\<lambda>trader.
     Option.bind (ok (token_id_new (dr_token_id r))) (\<lambda>token.
     Option.bind (parse_side_str (dr_side r)) (\<lambda>s.
       Some \<lparr>ck_tx_hash = tx, ck_trader = trader, ck_token_id = token, ck_side = s,
         ck_price = d_text D (dr_price r), ck_size = d_text D (dr_size r)\<rparr>))))"

subsection \<open>Signals, orders and fills\<close>

definition signal_statement :: "copy_signal \<Rightarrow> db \<Rightarrow> store_error + db" where
  "signal_statement s d =
     (case (numeric20 10 (cs_target_price s), numeric20 10 (cs_target_quantity s),
            numeric20 6 (cs_target_notional s), numeric20 10 (cs_copy_quantity s),
            numeric20 6 (cs_copy_notional s), numeric20 10 (cs_limit_price s)) of
        (Some tp, Some tq, Some tn, Some cq, Some cn, Some lp) \<Rightarrow>
          (if list_ex (\<lambda>(_, r). cs_source_event_id r = cs_source_event_id s) (db_signals d) then Inr d
           else if get (db_signals d) (cs_signal_id s) \<noteq> None then Inl UniqueViolation
           else if get (db_source_events d) (cs_source_event_id s) = None then Inl ForeignKeyViolation
           else Inr (d\<lparr>db_signals := AList.update (cs_signal_id s)
             (s\<lparr>cs_target_price := tp, cs_target_quantity := tq, cs_target_notional := tn,
                cs_copy_quantity := cq, cs_copy_notional := cn, cs_limit_price := lp\<rparr>) (db_signals d)\<rparr>))
      | _ \<Rightarrow> Inl NumericOverflow)"

definition insert_signal :: "copy_signal \<Rightarrow> store \<Rightarrow> store \<times> (store_error + unit)" where
  "insert_signal s = exec (signal_statement s)"

definition order_row :: "order \<Rightarrow> order option" where
  "order_row o' =
     (let r = or_request o'
      in case (numeric20 10 (rq_quantity r), numeric20 10 (rq_limit_price r), numeric20 10 (rq_reference_price r),
               numeric20 10 (or_filled_qty o'), numeric20 6 (or_filled_notional o'), numeric20 6 (or_fees_paid o')) of
           (Some q, Some lp, Some rp, Some fq, Some fn, Some fee) \<Rightarrow>
             Some (o'\<lparr>or_request := r\<lparr>rq_quantity := q, rq_limit_price := lp, rq_reference_price := rp\<rparr>,
                      or_filled_qty := fq, or_filled_notional := fn, or_fees_paid := fee\<rparr>)
         | _ \<Rightarrow> None)"

text \<open>On conflict only the columns that move are taken from the new row.\<close>

definition order_statement :: "order \<Rightarrow> string \<Rightarrow> db \<Rightarrow> store_error + db" where
  "order_statement o' mode d =
     (case order_row o' of
        None \<Rightarrow> Inl NumericOverflow
      | Some row \<Rightarrow>
          (case get (db_orders d) (order_id_of o') of
             Some (old, m) \<Rightarrow>
               Inr (d\<lparr>db_orders := AList.update (order_id_of o')
                 (old\<lparr>or_venue_order_id := or_venue_order_id row, or_state := or_state row,
                      or_filled_qty := or_filled_qty row, or_filled_notional := or_filled_notional row,
                      or_fees_paid := or_fees_paid row, or_reject_reason := or_reject_reason row,
                      or_latency := or_latency row, or_updated_at := or_updated_at row\<rparr>, m) (db_orders d)\<rparr>)
           | None \<Rightarrow>
               (case rq_signal_id (or_request o') of
                  Some s \<Rightarrow>
                    (if get (db_signals d) s = None then Inl ForeignKeyViolation
                     else Inr (d\<lparr>db_orders := AList.update (order_id_of o') (row, mode) (db_orders d)\<rparr>))
                | None \<Rightarrow> Inr (d\<lparr>db_orders := AList.update (order_id_of o') (row, mode) (db_orders d)\<rparr>))))"

definition upsert_order :: "order \<Rightarrow> string \<Rightarrow> store \<Rightarrow> store \<times> (store_error + unit)" where
  "upsert_order o' mode = exec (order_statement o' mode)"

text \<open>A bare \<open>ON CONFLICT DO NOTHING\<close> covers the fill id and the venue's fill id.\<close>

definition fill_statement :: "fill \<Rightarrow> db \<Rightarrow> store_error + db" where
  "fill_statement f d =
     (case (numeric20 10 (fi_quantity f), numeric20 10 (fi_price f), numeric20 6 (fi_fee f)) of
        (Some q, Some p, Some fee) \<Rightarrow>
          (if get (db_fills d) (fi_fill_id f) \<noteq> None \<or>
              (fi_venue_fill_id f \<noteq> None \<and>
               list_ex (\<lambda>(_, r). fi_venue_fill_id r = fi_venue_fill_id f) (db_fills d)) then Inr d
           else if get (db_orders d) (fi_order_id f) = None then Inl ForeignKeyViolation
           else Inr (d\<lparr>db_fills := AList.update (fi_fill_id f)
             (f\<lparr>fi_quantity := q, fi_price := p, fi_fee := fee\<rparr>) (db_fills d)\<rparr>))
      | _ \<Rightarrow> Inl NumericOverflow)"

definition insert_fill :: "fill \<Rightarrow> store \<Rightarrow> store \<times> (store_error + unit)" where
  "insert_fill f = exec (fill_statement f)"

record stored_order =
  sw_order_id :: order_id
  sw_state :: string
  sw_venue_order_id :: "string option"
  sw_filled_qty :: rat
  sw_filled_notional :: rat
  sw_fees_paid :: rat

definition open_state_strs :: "string list" where
  "open_state_strs = [''CREATED'', ''VALIDATED'', ''SUBMITTED'', ''ACKNOWLEDGED'',
     ''PARTIALLY_FILLED'', ''CANCEL_REQUESTED'', ''UNKNOWN'']"

definition load_open_orders :: "store \<Rightarrow> store_error + stored_order list" where
  "load_open_orders = fetch []
     (\<lambda>d. map (\<lambda>(i, r, _). \<lparr>sw_order_id = i, sw_state = order_state_str (or_state r),
            sw_venue_order_id = or_venue_order_id r, sw_filled_qty = or_filled_qty r,
            sw_filled_notional = or_filled_notional r, sw_fees_paid = or_fees_paid r\<rparr>)
        (filter (\<lambda>(_, r, _). order_state_str (or_state r) \<in> set open_state_strs) (db_orders d)))"

definition needs_reconciliation :: "stored_order \<Rightarrow> bool" where
  "needs_reconciliation w \<longleftrightarrow> sw_state w \<in> set [''SUBMITTED'', ''ACKNOWLEDGED'', ''PARTIALLY_FILLED'',
     ''CANCEL_REQUESTED'', ''UNKNOWN'']"

definition parsed_state :: "stored_order \<Rightarrow> order_state option" where
  "parsed_state w =
     (let s = sw_state w
      in if s = ''CREATED'' then Some Created
         else if s = ''VALIDATED'' then Some Validated
         else if s = ''SUBMITTED'' then Some Submitted
         else if s = ''ACKNOWLEDGED'' then Some Acknowledged
         else if s = ''PARTIALLY_FILLED'' then Some PartiallyFilled
         else if s = ''FILLED'' then Some Filled
         else if s = ''CANCEL_REQUESTED'' then Some CancelRequested
         else if s = ''CANCELLED'' then Some Cancelled
         else if s = ''REJECTED'' then Some Rejected
         else if s = ''FAILED'' then Some Failed
         else if s = ''UNKNOWN'' then Some Unknown
         else None)"

subsection \<open>Positions and snapshots\<close>

fun numeric_opt :: "nat \<Rightarrow> rat option \<Rightarrow> rat option option" where
  "numeric_opt n None = Some None"
| "numeric_opt n (Some x) = map_option Some (numeric20 n x)"

definition position_row :: "position \<Rightarrow> position option" where
  "position_row p =
     (case (numeric20 10 (ps_net_quantity p), numeric20 10 (ps_avg_entry p), numeric20 6 (ps_realized_pnl p),
            numeric20 6 (ps_fees_paid p), numeric_opt 10 (ps_mark_price p)) of
        (Some n, Some a, Some r, Some f, Some m) \<Rightarrow>
          Some (p\<lparr>ps_net_quantity := n, ps_avg_entry := a, ps_realized_pnl := r, ps_fees_paid := f,
                  ps_mark_price := m\<rparr>)
      | _ \<Rightarrow> None)"

text \<open>On conflict the market and the outcome of the row stay.\<close>

definition position_statement :: "position \<Rightarrow> db \<Rightarrow> store_error + db" where
  "position_statement p d =
     (case position_row p of
        None \<Rightarrow> Inl NumericOverflow
      | Some row \<Rightarrow>
          Inr (d\<lparr>db_positions := AList.update (ps_token_id p)
            (case get (db_positions d) (ps_token_id p) of
               None \<Rightarrow> row
             | Some old \<Rightarrow> row\<lparr>ps_market_id := ps_market_id old, ps_outcome := ps_outcome old\<rparr>)
            (db_positions d)\<rparr>))"

definition upsert_position :: "position \<Rightarrow> store \<Rightarrow> store \<times> (store_error + unit)" where
  "upsert_position p = exec (position_statement p)"

definition loaded_position :: "position \<Rightarrow> position option" where
  "loaded_position r =
     Option.bind (ok (market_id_new (market_str (ps_market_id r)))) (\<lambda>m.
     Option.bind (ok (token_id_new (token_str (ps_token_id r)))) (\<lambda>t.
       Some (r\<lparr>ps_market_id := m, ps_token_id := t,
               ps_mark_price := Option.bind (ps_mark_price r) (\<lambda>x. ok (price_new x))\<rparr>)))"

definition load_positions :: "store \<Rightarrow> store_error + position list" where
  "load_positions = fetch []
     (\<lambda>d. List.map_filter loaded_position
        (filter (\<lambda>r. ps_net_quantity r \<noteq> 0) (map snd (db_positions d))))"

definition snapshot_row :: "pnl_snapshot \<Rightarrow> pnl_snapshot option" where
  "snapshot_row s =
     (case (numeric20 6 (pn_cash s), numeric20 6 (pn_position_value s), numeric20 6 (pn_equity s),
            numeric20 6 (pn_realized_pnl s), numeric_opt 6 (pn_unrealized_pnl s), numeric20 6 (pn_fees_paid s),
            numeric20 6 (pn_gross_exposure s), numeric20 6 (pn_daily_pnl s), numeric20 6 (pn_peak_equity s)) of
        (Some c, Some v, Some e, Some r, Some u, Some f, Some g, Some dp, Some pk) \<Rightarrow>
          Some (s\<lparr>pn_cash := c, pn_position_value := v, pn_equity := e, pn_realized_pnl := r,
                  pn_unrealized_pnl := u, pn_fees_paid := f, pn_gross_exposure := g, pn_daily_pnl := dp,
                  pn_peak_equity := pk\<rparr>)
      | _ \<Rightarrow> None)"

definition insert_pnl_snapshot :: "pnl_snapshot \<Rightarrow> store \<Rightarrow> store \<times> (store_error + unit)" where
  "insert_pnl_snapshot s = exec
     (\<lambda>d. case snapshot_row s of
            None \<Rightarrow> Inl NumericOverflow
          | Some row \<Rightarrow> Inr (d\<lparr>db_pnl_snapshots := db_pnl_snapshots d @ [row]\<rparr>))"

text \<open>The latest by time; of several at the same time, the one inserted last.\<close>

fun latest_by :: "('a \<Rightarrow> int) \<Rightarrow> 'a list \<Rightarrow> 'a option" where
  "latest_by f [] = None"
| "latest_by f (x # xs) =
     (case latest_by f xs of None \<Rightarrow> Some x | Some y \<Rightarrow> if f x > f y then Some x else Some y)"

definition latest_pnl_snapshot :: "store \<Rightarrow> store_error + (usd \<times> usd \<times> usd) option" where
  "latest_pnl_snapshot = fetch None
     (\<lambda>d. map_option (\<lambda>s. (pn_cash s, pn_realized_pnl s, pn_fees_paid s)) (latest_by pn_at (db_pnl_snapshots d)))"

subsection \<open>Markets, events and the audit log\<close>

definition market_statement :: "market \<Rightarrow> db \<Rightarrow> store_error + db" where
  "market_statement m d =
     (case (let r = round_half_away (mk_tick_size m * 10 ^ 6)
            in if \<bar>r\<bar> < 10 ^ 12 then Some (of_int r / 10 ^ 6) else None,
            numeric20 6 (mk_min_order_size m)) of
        (Some tick, Some least) \<Rightarrow>
          (let row = m\<lparr>mk_tick_size := tick, mk_min_order_size := least\<rparr>
           in Inr (d\<lparr>db_markets := AList.update (mk_id m)
                (case get (db_markets d) (mk_id m) of
                   None \<Rightarrow> row | Some old \<Rightarrow> row\<lparr>mk_neg_risk := mk_neg_risk old\<rparr>) (db_markets d)\<rparr>))
      | _ \<Rightarrow> Inl NumericOverflow)"

definition upsert_market :: "market \<Rightarrow> store \<Rightarrow> store \<times> (store_error + unit)" where
  "upsert_market m = exec (market_statement m)"

definition insert_risk_event ::
    "correlation_id option \<Rightarrow> signal_id option \<Rightarrow> risk_rejection \<Rightarrow> store \<Rightarrow> store \<times> (store_error + unit)" where
  "insert_risk_event c s r = exec (\<lambda>d. Inr (d\<lparr>db_risk_events := db_risk_events d @ [(c, s, r)]\<rparr>))"

definition insert_system_event :: "system_event \<Rightarrow> store \<Rightarrow> store \<times> (store_error + unit)" where
  "insert_system_event e = exec
     (\<lambda>d. Inr (d\<lparr>db_system_events := db_system_events d @ [(event_kind e, is_critical e, e)]\<rparr>))"

definition insert_latency :: "correlation_id option \<Rightarrow> string \<Rightarrow> int \<Rightarrow> store \<Rightarrow> store \<times> (store_error + unit)" where
  "insert_latency c stage micros = exec
     (\<lambda>d. Inr (d\<lparr>db_latency_metrics := db_latency_metrics d @ [(c, stage, micros)]\<rparr>))"

definition audit :: "string \<Rightarrow> string \<Rightarrow> string option \<Rightarrow> json \<Rightarrow> store \<Rightarrow> store \<times> (store_error + unit)" where
  "audit actor action target detail = exec
     (\<lambda>d. Inr (d\<lparr>db_audit_logs := db_audit_logs d @ [(actor, action, target, detail)]\<rparr>))"

subsection \<open>Wallets\<close>

definition wallet_row :: "target_wallet \<Rightarrow> target_wallet option" where
  "wallet_row w =
     (case (numeric20 6 (tw_max_trade_usd w), numeric20 6 (tw_max_exposure_usd w), numeric20 6 (tw_min_trade_usd w),
            numeric20 6 (tw_min_source_notional_usd w)) of
        (Some a, Some b, Some c, Some e) \<Rightarrow>
          Some (w\<lparr>tw_max_trade_usd := a, tw_max_exposure_usd := b, tw_min_trade_usd := c,
                  tw_min_source_notional_usd := e\<rparr>)
      | _ \<Rightarrow> None)"

definition save_wallet :: "target_wallet \<Rightarrow> store \<Rightarrow> store \<times> (store_error + unit)" where
  "save_wallet w = exec
     (\<lambda>d. case wallet_row w of
            None \<Rightarrow> Inl NumericOverflow
          | Some row \<Rightarrow> Inr (d\<lparr>db_wallets := AList.update (tw_address w) row (db_wallets d)\<rparr>))"

definition delete_wallet :: "address \<Rightarrow> store \<Rightarrow> store \<times> (store_error + unit)" where
  "delete_wallet a = exec (\<lambda>d. Inr (d\<lparr>db_wallets := AList.delete a (db_wallets d)\<rparr>))"

text \<open>
  A wallet read back starts from the defaults. Its sizing mode is a JSON value: \<open>reread\<close> is what the
  JSON library gives for the value it wrote, and the default sizing stays when it gives nothing.
\<close>

definition reparsed_markets :: "market_id list \<Rightarrow> market_id list" where
  "reparsed_markets ms = List.map_filter (\<lambda>m. ok (market_id_new (market_str m))) ms"

definition loaded_wallet :: "(sizing_mode \<Rightarrow> sizing_mode option) \<Rightarrow> target_wallet \<Rightarrow> target_wallet option" where
  "loaded_wallet reread r =
     Option.bind (ok (address_new (address_str (tw_address r)))) (\<lambda>a.
       (let w = target_wallet_new a (tw_nickname r)
        in Some (w\<lparr>tw_enabled := tw_enabled r,
             tw_sizing := (case reread (tw_sizing r) of Some s \<Rightarrow> s | None \<Rightarrow> tw_sizing w),
             tw_max_trade_usd := tw_max_trade_usd r, tw_max_exposure_usd := tw_max_exposure_usd r,
             tw_min_trade_usd := tw_min_trade_usd r,
             tw_min_source_notional_usd := tw_min_source_notional_usd r,
             tw_allowed_markets := reparsed_markets (tw_allowed_markets r),
             tw_blocked_markets := reparsed_markets (tw_blocked_markets r)\<rparr>)))"

definition load_wallets :: "(sizing_mode \<Rightarrow> sizing_mode option) \<Rightarrow> store \<Rightarrow> store_error + target_wallet list" where
  "load_wallets reread = fetch [] (\<lambda>d. List.map_filter (loaded_wallet reread) (map snd (db_wallets d)))"

subsection \<open>Recovery\<close>

record recovered_state =
  rv_orders :: "order list"
  rv_positions :: "position list"
  rv_cash :: "usd option"
  rv_realized_pnl :: usd
  rv_fees_paid :: usd
  rv_dedup_entries :: "dedup_row list"
  rv_wallets :: "target_wallet list"

definition recovered_default :: recovered_state where
  "recovered_default = \<lparr>rv_orders = [], rv_positions = [], rv_cash = None, rv_realized_pnl = 0,
     rv_fees_paid = 0, rv_dedup_entries = [], rv_wallets = []\<rparr>"

definition recover_state ::
    "(sizing_mode \<Rightarrow> sizing_mode option) \<Rightarrow> timestamp \<Rightarrow> store \<Rightarrow> store_error + recovered_state" where
  "recover_state reread dedup_since S =
     (if is_ephemeral S then Inr recovered_default
      else
        and_then (load_positions S) (\<lambda>ps.
        and_then (load_dedup_window dedup_since S) (\<lambda>entries.
        and_then (load_wallets reread S) (\<lambda>ws.
        and_then (latest_pnl_snapshot S) (\<lambda>snap.
          let (cash, realized, fees) =
                (case snap of Some (c, r, f) \<Rightarrow> (Some c, r, f) | None \<Rightarrow> (None, 0, 0))
          in Inr \<lparr>rv_orders = [], rv_positions = ps, rv_cash = cash, rv_realized_pnl = realized,
                  rv_fees_paid = fees, rv_dedup_entries = entries, rv_wallets = ws\<rparr>)))))"

subsection \<open>Repeating a statement\<close>

text \<open>A statement repeats safely when doing it again on what it left changes nothing more.\<close>

definition repeatable :: "(db \<Rightarrow> store_error + db) \<Rightarrow> bool" where
  "repeatable q \<longleftrightarrow> (\<forall>d d'. q d = Inr d' \<longrightarrow> db_up d' = db_up d \<and> (q d' = Inr d' \<or> q d' = Inl UniqueViolation))"

lemma repeatableI:
  "(\<And>d d'. q d = Inr d' \<Longrightarrow> db_up d' = db_up d \<and> (q d' = Inr d' \<or> q d' = Inl UniqueViolation)) \<Longrightarrow> repeatable q"
  by (simp add: repeatable_def)

lemma exec_repeat:
  "repeatable q \<Longrightarrow> fst (exec q (fst (exec q S))) = fst (exec q S) \<and>
     (snd (exec q (fst (exec q S))) = Inr () \<longleftrightarrow> snd (exec q S) = Inr ())"
proof (cases S)
  case (Some d)
  assume "repeatable q"
  with Some show ?thesis
  proof (cases "q d")
    case (Inr d')
    with \<open>repeatable q\<close> have "db_up d' = db_up d" "q d' = Inr d' \<or> q d' = Inl UniqueViolation"
      by (simp_all add: repeatable_def)
    with Some Inr show ?thesis by (auto simp: exec_def)
  qed (simp add: exec_def)
qed (simp add: exec_def)

lemma update_update [simp]: "AList.update k v (AList.update k w m) = AList.update k v m"
  by (induction m) auto

lemma repeat_signal: "repeatable (signal_statement s)"
proof (rule repeatableI)
  fix d d' assume "signal_statement s d = Inr d'"
  then show "db_up d' = db_up d \<and> (signal_statement s d' = Inr d' \<or> signal_statement s d' = Inl UniqueViolation)"
    by (auto simp: signal_statement_def get_update split: option.splits if_splits)
qed

lemma repeat_order: "repeatable (order_statement o' mode)"
  by (rule repeatableI) (auto simp: order_statement_def get_update split: option.splits if_splits)

lemma repeat_fill: "repeatable (fill_statement f)"
  by (rule repeatableI) (auto simp: fill_statement_def get_update split: option.splits if_splits)

lemma repeat_position: "repeatable (position_statement p)"
  by (rule repeatableI) (auto simp: position_statement_def get_update split: option.splits)

lemma repeat_market: "repeatable (market_statement m)"
  by (rule repeatableI)
    (auto simp: market_statement_def get_update Let_def split: option.splits if_splits)

lemma repeat_source_event:
  "source_event_statement D t d = Inr (d', new) \<Longrightarrow>
     db_up d' = db_up d \<and> source_event_statement D t d' = Inr (d', False)"
  by (auto simp: source_event_statement_def get_update split: option.splits if_splits)

lemma insert_source_event_again:
  "fst (insert_source_event D t (fst (insert_source_event D t S))) = fst (insert_source_event D t S) \<and>
     (S \<noteq> None \<longrightarrow> snd (insert_source_event D t (fst (insert_source_event D t S))) \<noteq> Inr True)"
proof (cases S)
  case (Some d)
  then show ?thesis
  proof (cases "source_event_statement D t d")
    case (Inr r)
    obtain d' new where r: "r = (d', new)" by force
    from repeat_source_event [OF Inr [unfolded r]] Some Inr r show ?thesis
      by (auto simp: insert_source_event_def)
  qed (simp add: insert_source_event_def)
qed (simp add: insert_source_event_def)

subsection \<open>Properties\<close>


text \<open>The stored name of a state is the state. Every order state written to the database is read back
  as itself, the query for open orders finds exactly the states that are open, and a recovered
  order asks for reconciliation exactly when it is open and may have executed.\<close>

theorem stored_states_agree:
  "let w' = w\<lparr>sw_state := order_state_str s\<rparr>
   in parsed_state w' = Some s \<and> (order_state_str s \<in> set open_state_strs \<longleftrightarrow> is_open s) \<and>
      (needs_reconciliation w' \<longleftrightarrow> is_open s \<and> may_have_executed s)"
  by (cases s) (simp_all add: parsed_state_def open_state_strs_def needs_reconciliation_def is_open_def
      may_have_executed_def)

end
