(* ===== verification/AppState.thy ===== *)
theory AppState
  imports Storage
begin

section \<open>Application state (crates/api/src/state.rs)\<close>

text \<open>
  The state that the pipeline, the background tasks and the HTTP layer share, and the bounded
  activity lists of the dashboard. The locks are sequential state passing. The event bus is one
  broadcast channel that the order manager and the pipeline both hold: it is the event list of the
  order manager. The adapter the order manager was built with is the field \<open>ap_venue\<close>, of any type.
\<close>

subsection \<open>Recent activity\<close>

record copy_row =
  cr_correlation_id :: string
  cr_source_event_id :: string
  cr_wallet :: string
  cr_wallet_nickname :: string
  cr_market_title :: string
  cr_outcome :: string
  cr_side :: string
  cr_source_notional :: string
  cr_copy_notional :: string
  cr_source_price :: string
  cr_copy_price :: "string option"
  cr_slippage_bps :: "int option"
  cr_status :: string
  cr_detection_latency_ms :: "rat option"
  cr_execution_latency_ms :: "rat option"
  cr_end_to_end_latency_ms :: "rat option"
  cr_at :: timestamp

record recent_activity =
  ra_source_trades :: "source_trade list"
  ra_signals :: "copy_signal list"
  ra_copies :: "copy_row list"
  ra_events :: "system_event list"
  ra_cap :: nat

definition recent_new :: "nat \<Rightarrow> recent_activity" where
  "recent_new bound = \<lparr>ra_source_trades = [], ra_signals = [], ra_copies = [], ra_events = [], ra_cap = bound\<rparr>"

definition recent_push :: "nat \<Rightarrow> 'a \<Rightarrow> 'a list \<Rightarrow> 'a list" where
  "recent_push bound item xs = take bound (item # xs)"

definition add_source_trade :: "source_trade \<Rightarrow> recent_activity \<Rightarrow> recent_activity" where
  "add_source_trade t R = R\<lparr>ra_source_trades := recent_push (ra_cap R) t (ra_source_trades R)\<rparr>"

definition add_signal :: "copy_signal \<Rightarrow> recent_activity \<Rightarrow> recent_activity" where
  "add_signal s R = R\<lparr>ra_signals := recent_push (ra_cap R) s (ra_signals R)\<rparr>"

definition add_copy :: "copy_row \<Rightarrow> recent_activity \<Rightarrow> recent_activity" where
  "add_copy c R = R\<lparr>ra_copies := recent_push (ra_cap R) c (ra_copies R)\<rparr>"

definition add_event :: "system_event \<Rightarrow> recent_activity \<Rightarrow> recent_activity" where
  "add_event e R = R\<lparr>ra_events := recent_push (ra_cap R) e (ra_events R)\<rparr>"

definition update_copy :: "string \<Rightarrow> (copy_row \<Rightarrow> copy_row) \<Rightarrow> recent_activity \<Rightarrow> recent_activity \<times> bool" where
  "update_copy corr f R =
     (R\<lparr>ra_copies := update_first (\<lambda>c. cr_correlation_id c = corr) f (ra_copies R)\<rparr>,
      list_ex (\<lambda>c. cr_correlation_id c = corr) (ra_copies R))"

definition recent_copies :: "nat \<Rightarrow> recent_activity \<Rightarrow> copy_row list" where
  "recent_copies n R = take n (ra_copies R)"

definition recent_events :: "nat \<Rightarrow> recent_activity \<Rightarrow> system_event list" where
  "recent_events n R = take n (ra_events R)"

subsection \<open>The shared state\<close>

record 's app_state =
  ap_last_source_data_ms :: int
  ap_mode :: app_mode
  ap_config :: app_config
  ap_portfolio :: portfolio
  ap_orders :: order_manager
  ap_tracker :: wallet_tracker
  ap_kill_switch :: kill_switch
  ap_risk :: risk_engine
  ap_metrics :: metrics
  ap_health :: health_monitor
  ap_store :: store
  ap_recent :: recent_activity
  ap_started_at :: timestamp
  ap_venue :: 's

definition timestamp_millis :: "timestamp \<Rightarrow> int" where
  "timestamp_millis t = t div 1000000"

definition mark_source_data :: "timestamp \<Rightarrow> 's app_state \<Rightarrow> 's app_state" where
  "mark_source_data now A = A\<lparr>ap_last_source_data_ms := timestamp_millis now\<rparr>"

definition source_data_age_ms :: "'s app_state \<Rightarrow> timestamp \<Rightarrow> int option" where
  "source_data_age_ms A now =
     (let v = ap_last_source_data_ms A in if v > 0 then Some (timestamp_millis now - v) else None)"

definition uptime_seconds :: "'s app_state \<Rightarrow> timestamp \<Rightarrow> int" where
  "uptime_seconds A now = num_seconds (now - ap_started_at A)"

text \<open>Parts of the state that several operations touch.\<close>

definition bus_send :: "system_event \<Rightarrow> 's app_state \<Rightarrow> 's app_state" where
  "bus_send e A = A\<lparr>ap_orders := emit (ap_orders A) e\<rparr>"

definition metric :: "(metrics \<Rightarrow> metrics) \<Rightarrow> 's app_state \<Rightarrow> 's app_state" where
  "metric f A = A\<lparr>ap_metrics := f (ap_metrics A)\<rparr>"

definition persist :: "(store \<Rightarrow> store \<times> 'r) \<Rightarrow> 's app_state \<Rightarrow> 's app_state" where
  "persist f A = A\<lparr>ap_store := fst (f (ap_store A))\<rparr>"

definition recent :: "(recent_activity \<Rightarrow> recent_activity) \<Rightarrow> 's app_state \<Rightarrow> 's app_state" where
  "recent f A = A\<lparr>ap_recent := f (ap_recent A)\<rparr>"

definition app_snapshot :: "decimal_ops \<Rightarrow> (timestamp \<Rightarrow> nat) \<Rightarrow> 's app_state \<Rightarrow> timestamp \<Rightarrow> pnl_snapshot" where
  "app_snapshot D ordinal A now = snapshot D ordinal (ap_portfolio A) (open_count (ap_orders A)) now"

subsection \<open>Properties\<close>

lemma recent_push_take: "foldl (\<lambda>xs x. recent_push bound x xs) [] items = take bound (rev items)"
proof (induction items rule: rev_induct)
  case (snoc x xs)
  then show ?case by (cases bound) (simp_all add: recent_push_def)
qed (simp add: recent_push_def)

lemma add_copies:
  "ra_copies (foldl (\<lambda>R c. add_copy c R) (recent_new bound) cs) = take bound (rev cs) \<and>
     ra_cap (foldl (\<lambda>R c. add_copy c R) (recent_new bound) cs) = bound"
proof (induction cs rule: rev_induct)
  case (snoc c cs)
  then show ?case
    using recent_push_take [of bound "cs @ [c]"] recent_push_take [of bound cs] by (simp add: add_copy_def)
qed (simp add: recent_new_def)

end
