(* ===== verification/Pipeline.thy ===== *)
theory Pipeline
  imports AppState
begin

section \<open>The trading pipeline (crates/app/src/pipeline.rs)\<close>

text \<open>
  One detected trade is carried from the strategy through the risk checks to the venue. What a call
  takes from the outside is its argument: the text of UUIDs, the day of a timestamp, the adapter's
  \<open>submit\<close>, which may read the shared book cache, and per call the clock, the fresh ids and the
  answer of the REST client. The clock is read at several points; each has its name.
\<close>

subsection \<open>State and inputs\<close>

record 's pipeline =
  pl_state :: "'s app_state"
  pl_trader :: strategy_config
  pl_books :: book_cache
  pl_has_rest :: bool
  pl_subs :: "subscriptions option"
  pl_book_seq :: nat
  pl_books_on_demand :: nat
  pl_books_unavailable :: nat
  pl_books_from_stream :: nat

definition pipeline_new :: "'s app_state \<Rightarrow> strategy_config \<Rightarrow> book_cache \<Rightarrow> 's pipeline" where
  "pipeline_new st trader books = \<lparr>pl_state = st, pl_trader = trader, pl_books = books,
     pl_has_rest = False, pl_subs = None, pl_book_seq = 1000000, pl_books_on_demand = 0,
     pl_books_unavailable = 0, pl_books_from_stream = 0\<rparr>"

definition with_rest :: "'s pipeline \<Rightarrow> 's pipeline" where
  "with_rest P = P\<lparr>pl_has_rest := True\<rparr>"

definition with_subscriptions :: "subscriptions \<Rightarrow> 's pipeline \<Rightarrow> 's pipeline" where
  "with_subscriptions subs P = P\<lparr>pl_subs := Some subs\<rparr>"

datatype clock_point =
    AtBook | AtContext | AtSignal | AtSkip | AtCopyRow | AtOrder | AtRiskSnapshot | AtRiskCheck
  | AtRiskStamp | AtRefusal | AtHalt | AtHaltEvent | AtApproval | AtRegister | AtSubmit | AtVenue
  | AtFill | AtPosition | AtPnl

record 's pipe_env =
  pe_ordinal :: "timestamp \<Rightarrow> nat"
  pe_uuid :: "nat \<Rightarrow> string"
  pe_submit :: "book_cache \<Rightarrow> 's \<Rightarrow> order_request \<Rightarrow> 's \<times> (execution_error + acknowledgement)"

record call_inputs =
  ci_clock :: "clock_point \<Rightarrow> timestamp"
  ci_fill_clock :: "nat \<Rightarrow> timestamp"
  ci_signal_id :: signal_id
  ci_order_id :: order_id
  ci_rest_book :: "token_id \<Rightarrow> nat \<Rightarrow> order_book option"

definition on_state :: "('s app_state \<Rightarrow> 's app_state) \<Rightarrow> 's pipeline \<Rightarrow> 's pipeline" where
  "on_state f P = P\<lparr>pl_state := f (pl_state P)\<rparr>"

definition pipe_emit :: "system_event \<Rightarrow> 's app_state \<Rightarrow> 's app_state" where
  "pipe_emit e A = recent (add_event e) (bus_send e A)"

subsection \<open>The book and the sizing context\<close>

definition follow_token :: "token_id \<Rightarrow> 's pipeline \<Rightarrow> 's pipeline" where
  "follow_token token P = P\<lparr>pl_subs := map_option (\<lambda>s. fst (subs_add s token)) (pl_subs P)\<rparr>"

definition book_for :: "call_inputs \<Rightarrow> 's pipeline \<Rightarrow> token_id \<Rightarrow> 's pipeline \<times> order_book option" where
  "book_for ci P token =
     (let fresh = (\<lambda>b. num_milliseconds (ci_clock ci AtBook - bk_timestamp b)
                     \<le> rc_max_market_data_age_ms (ac_risk (ap_config (pl_state P))))
      in case Option.bind (cache_get (pl_books P) token) (\<lambda>b. if fresh b then Some b else None) of
        Some b \<Rightarrow> (P\<lparr>pl_books_from_stream := pl_books_from_stream P + 1\<rparr>, Some b)
      | None \<Rightarrow>
          (let P1 = follow_token token P
           in if \<not> pl_has_rest P1 then (P1, None)
              else let seq = pl_book_seq P1; P2 = P1\<lparr>pl_book_seq := seq + 1\<rparr>
                in case ci_rest_book ci token seq of
                  Some b \<Rightarrow> (P2\<lparr>pl_books_on_demand := pl_books_on_demand P2 + 1,
                               pl_books := cache_put (pl_books P2) b\<rparr>, Some b)
                | None \<Rightarrow> (P2\<lparr>pl_books_unavailable := pl_books_unavailable P2 + 1\<rparr>, None)))"

definition sizing_context_of ::
    "decimal_ops \<Rightarrow> 's pipe_env \<Rightarrow> call_inputs \<Rightarrow> 's app_state \<Rightarrow> source_trade \<Rightarrow> sizing_context" where
  "sizing_context_of D E ci A t =
     (let s = app_snapshot D (pe_ordinal E) A (ci_clock ci AtContext);
          limits = re_limits (ap_risk A);
          lost_today = max (- pn_daily_pnl s) 0
      in \<lparr>sx_equity = pn_equity s,
          sx_current_market_exposure = market_exposure D (ap_portfolio A) (so_market_id t),
          sx_max_position_usd = rl_max_position_usd limits, sx_max_trade_usd = rl_max_trade_usd limits,
          sx_min_trade_usd = rl_min_trade_usd limits, sx_available_liquidity = 0,
          sx_remaining_daily_risk = max (d_sub D (rl_max_daily_loss_usd limits) lost_today) 0,
          sx_min_order_size = 0\<rparr>)"

subsection \<open>The stages\<close>

text \<open>Recording the trade, before anything is decided.\<close>

definition note_trade :: "decimal_ops \<Rightarrow> source_trade \<Rightarrow> 's app_state \<Rightarrow> 's app_state" where
  "note_trade D t A =
     (let A1 = metric (\<lambda>M. M\<lparr>mt_source_trades_total := counter_inc (mt_source_trades_total M)\<rparr>) A;
          A2 = recent (add_source_trade t) A1;
          A3 = persist (insert_source_event D t) A2;
          A4 = pipe_emit (SourceTradeDetected t) A3
      in metric (\<lambda>M. M\<lparr>mt_latency := record_all (mt_latency M)
           (stamps_from_source (so_source_ts t) False (so_detected_ts t))\<rparr>) A4)"

definition skip_trade :: "call_inputs \<Rightarrow> source_trade \<Rightarrow> 's app_state \<Rightarrow> 's app_state" where
  "skip_trade ci t A =
     pipe_emit (SourceTradeSkipped (so_event_id t) (so_correlation_id t) SizedToZero (ci_clock ci AtSkip))
       (metric (\<lambda>M. M\<lparr>mt_source_trades_skipped_total := counter_inc (mt_source_trades_skipped_total M)\<rparr>) A)"

definition new_copy_row ::
    "decimal_ops \<Rightarrow> 's pipe_env \<Rightarrow> call_inputs \<Rightarrow> source_trade \<Rightarrow> target_wallet \<Rightarrow> copy_signal \<Rightarrow> copy_row" where
  "new_copy_row D E ci t wallet s = \<lparr>cr_correlation_id = pe_uuid E (cs_correlation_id s),
     cr_source_event_id = event_str (cs_source_event_id s), cr_wallet = address_str (cs_target_wallet s),
     cr_wallet_nickname = tw_nickname wallet, cr_market_title = so_market_title t,
     cr_outcome = cs_outcome s, cr_side = side_str (cs_side s),
     cr_source_notional = d_cents D (cs_target_notional s),
     cr_copy_notional = d_cents D (cs_copy_notional s), cr_source_price = d_show D (cs_target_price s),
     cr_copy_price = None, cr_slippage_bps = None, cr_status = ''SIGNAL'',
     cr_detection_latency_ms = map_option millis
       (detection_us (stamps_from_source (so_source_ts t) False (so_detected_ts t))),
     cr_execution_latency_ms = None, cr_end_to_end_latency_ms = None, cr_at = ci_clock ci AtCopyRow\<rparr>"

definition note_signal ::
    "decimal_ops \<Rightarrow> 's pipe_env \<Rightarrow> call_inputs \<Rightarrow> source_trade \<Rightarrow> target_wallet \<Rightarrow> copy_signal \<Rightarrow> 's app_state \<Rightarrow> 's app_state" where
  "note_signal D E ci t wallet s A =
     (let A1 = metric (\<lambda>M. M\<lparr>mt_copy_signals_total := counter_inc (mt_copy_signals_total M)\<rparr>) A;
          A2 = recent (add_signal s) A1;
          A3 = persist (insert_signal s) A2;
          A4 = pipe_emit (CopySignalGenerated s) A3
      in recent (add_copy (new_copy_row D E ci t wallet s)) A4)"

text \<open>A marketable limit that takes what it can and cancels the rest.\<close>

definition build_order :: "call_inputs \<Rightarrow> copy_signal \<Rightarrow> rat \<Rightarrow> order_request" where
  "build_order ci s tick = \<lparr>rq_order_id = ci_order_id ci, rq_correlation_id = cs_correlation_id s,
     rq_signal_id = Some (cs_signal_id s), rq_market_id = cs_market_id s, rq_token_id = cs_token_id s,
     rq_side = cs_side s, rq_order_type = MarketOrder, rq_time_in_force = Ioc,
     rq_quantity = cs_copy_quantity s, rq_limit_price = cs_limit_price s,
     rq_reference_price = cs_target_price s, rq_tick_size = tick, rq_created_at = ci_clock ci AtOrder\<rparr>"

definition risk_snapshot_of ::
    "decimal_ops \<Rightarrow> 's pipe_env \<Rightarrow> call_inputs \<Rightarrow> 's app_state \<Rightarrow> order_request \<Rightarrow> risk_snapshot" where
  "risk_snapshot_of D E ci A order =
     (let snap = app_snapshot D (pe_ordinal E) A (ci_clock ci AtRiskSnapshot)
      in \<lparr>rs_daily_pnl = pn_daily_pnl snap, rs_gross_exposure = pn_gross_exposure snap,
          rs_market_exposure = market_exposure D (ap_portfolio A) (rq_market_id order),
          rs_wallet_exposure = 0,
          rs_token_exposure = token_exposure D (ap_portfolio A) (rq_token_id order),
          rs_open_orders = pn_open_orders snap, rs_equity = pn_equity snap\<rparr>)"

definition pipe_verdict ::
    "decimal_ops \<Rightarrow> 's pipe_env \<Rightarrow> call_inputs \<Rightarrow> 's app_state \<Rightarrow> order_request \<Rightarrow> order_book option \<Rightarrow>
     target_wallet \<Rightarrow> risk_verdict" where
  "pipe_verdict D E ci A order book wallet =
     check D (ap_risk A) order (risk_snapshot_of D E ci A order)
       \<lparr>ss_market_data_healthy = True, ss_source_feed_healthy = True, ss_execution_ready = True,
        ss_database_healthy = (\<not> is_ephemeral (ap_store A))\<rparr>
       (ap_kill_switch A) book (tw_enabled wallet) (tw_nickname wallet) None None (ci_clock ci AtRiskCheck)"

definition set_status :: "string \<Rightarrow> string \<Rightarrow> recent_activity \<Rightarrow> recent_activity" where
  "set_status corr status R = fst (update_copy corr (\<lambda>c. c\<lparr>cr_status := status\<rparr>) R)"

definition refuse_order :: "'s pipe_env \<Rightarrow> call_inputs \<Rightarrow> copy_signal \<Rightarrow> risk_rejection \<Rightarrow> 's app_state \<Rightarrow> 's app_state" where
  "refuse_order E ci s r A =
     (let A1 = metric (\<lambda>M. record_rejection M (rejection_code r)) A;
          A2 = persist (insert_risk_event (Some (cs_correlation_id s)) (Some (cs_signal_id s)) r) A1;
          A3 = pipe_emit (OrderRiskRejected (cs_correlation_id s) (Some (cs_signal_id s)) r
                            (ci_clock ci AtRefusal)) A2;
          reason = ''auto: '' @ rejection_code r;
          A4 = (if should_auto_engage_kill_switch r then
                  pipe_emit (KillSwitchActivated reason ''risk-engine'' (ci_clock ci AtHaltEvent))
                    (metric (\<lambda>M. M\<lparr>mt_kill_switch_activations_total :=
                               counter_inc (mt_kill_switch_activations_total M)\<rparr>)
                      (A3\<lparr>ap_kill_switch := engage (ap_kill_switch A3) reason ''risk-engine'' (ci_clock ci AtHalt)\<rparr>))
                else A3)
      in recent (set_status (pe_uuid E (cs_correlation_id s)) (''REJECTED:'' @ rejection_code r)) A4)"

subsection \<open>Execution and its outcome\<close>

definition persist_latency :: "correlation_id \<Rightarrow> latency_stamps \<Rightarrow> 's app_state \<Rightarrow> 's app_state" where
  "persist_latency corr l A =
     foldl (\<lambda>B (st, us). persist (insert_latency (Some corr) (stage_str st) us) B) A (samples l)"

definition note_order :: "correlation_id \<Rightarrow> order \<Rightarrow> 's app_state \<Rightarrow> 's app_state" where
  "note_order corr o' A =
     persist_latency corr (or_latency o')
       (persist (upsert_order o' (app_mode_str (ap_mode A)))
         (metric (\<lambda>M. M\<lparr>mt_latency := record_all (mt_latency M) (or_latency o')\<rparr>) A))"

definition book_fill ::
    "decimal_ops \<Rightarrow> 's pipe_env \<Rightarrow> call_inputs \<Rightarrow> string \<Rightarrow> 's app_state \<Rightarrow> fill \<Rightarrow> 's app_state" where
  "book_fill D E ci outcome_name A f =
     metric (\<lambda>M. M\<lparr>mt_orders_filled_total := counter_inc (mt_orders_filled_total M)\<rparr>)
       (persist (insert_fill f)
         (A\<lparr>ap_portfolio := fst (portfolio_apply_fill D (pe_ordinal E) (ap_portfolio A) f outcome_name
              (ci_clock ci AtFill))\<rparr>))"

definition show_order :: "decimal_ops \<Rightarrow> copy_signal \<Rightarrow> order \<Rightarrow> copy_row \<Rightarrow> copy_row" where
  "show_order D s o' c =
     (let avg = avg_fill_price D o'
      in c\<lparr>cr_status := order_state_str (or_state o'), cr_copy_price := map_option (d_show D) avg,
           cr_slippage_bps := Option.bind avg (\<lambda>p.
             decimal_to_i64 (of_int (round_half_even (bps_slippage D (cs_target_price s) p (cs_side s))))),
           cr_execution_latency_ms := map_option millis (execution_us (or_latency o')),
           cr_end_to_end_latency_ms := map_option millis (end_to_end_us (or_latency o'))\<rparr>)"

definition settle_acknowledged ::
    "decimal_ops \<Rightarrow> 's pipe_env \<Rightarrow> call_inputs \<Rightarrow> copy_signal \<Rightarrow> fill list \<Rightarrow> 's app_state \<Rightarrow> 's app_state" where
  "settle_acknowledged D E ci s fills A =
     (let corr = cs_correlation_id s;
          A1 = metric (\<lambda>M. M\<lparr>mt_orders_acknowledged_total := counter_inc (mt_orders_acknowledged_total M)\<rparr>) A;
          row = om_get (ap_orders A1) (ci_order_id ci);
          A2 = (case row of Some o' \<Rightarrow> note_order corr o' A1 | None \<Rightarrow> A1);
          A3 = foldl (book_fill D E ci (cs_outcome s)) A2 fills;
          A4 = (case row of
                  Some o' \<Rightarrow> recent (\<lambda>R. fst (update_copy (pe_uuid E corr) (show_order D s o') R)) A3
                | None \<Rightarrow> A3);
          A5 = (case position_of (ap_portfolio A4) (cs_token_id s) of
                  Some p \<Rightarrow> pipe_emit (PositionUpdated p (ci_clock ci AtPosition)) A4
                | None \<Rightarrow> A4);
          snap = app_snapshot D (pe_ordinal E) A5 (ci_clock ci AtPnl)
      in pipe_emit (PnlUpdated snap) (persist (insert_pnl_snapshot snap) A5))"

definition persist_order_row :: "order_id \<Rightarrow> 's app_state \<Rightarrow> 's app_state" where
  "persist_order_row i A =
     (case om_get (ap_orders A) i of
        Some o' \<Rightarrow> persist (upsert_order o' (app_mode_str (ap_mode A))) A
      | None \<Rightarrow> A)"

definition settle_outcome ::
    "decimal_ops \<Rightarrow> 's pipe_env \<Rightarrow> call_inputs \<Rightarrow> copy_signal \<Rightarrow> submit_outcome \<Rightarrow> 's app_state \<Rightarrow> 's app_state" where
  "settle_outcome D E ci s outcome A =
     (case outcome of
        SubAcknowledged _ fills \<Rightarrow> settle_acknowledged D E ci s fills A
      | SubRejected _ _ \<Rightarrow>
          persist_order_row (ci_order_id ci)
            (recent (set_status (pe_uuid E (cs_correlation_id s)) ''REJECTED'')
              (metric (\<lambda>M. M\<lparr>mt_orders_rejected_total := counter_inc (mt_orders_rejected_total M)\<rparr>) A))
      | SubAmbiguous _ _ \<Rightarrow>
          persist_order_row (ci_order_id ci)
            (recent (set_status (pe_uuid E (cs_correlation_id s)) ''UNKNOWN'') A))"

text \<open>The submission sees the book cache as it is now.\<close>

definition execute_order ::
    "decimal_ops \<Rightarrow> 's pipe_env \<Rightarrow> call_inputs \<Rightarrow> book_cache \<Rightarrow> source_trade \<Rightarrow> copy_signal \<Rightarrow>
     order_request \<Rightarrow> 's app_state \<Rightarrow> 's app_state" where
  "execute_order D E ci books t s order A =
     (let stamps = (stamps_from_source (so_source_ts t) False (so_detected_ts t))
            \<lparr>lt_signal := lt_signal (cs_latency s), lt_risk_check := Some (ci_clock ci AtRiskStamp)\<rparr>;
          A1 = pipe_emit (OrderRiskApproved (rq_order_id order) (cs_correlation_id s) (cs_signal_id s)
                            (ci_clock ci AtApproval)) A;
          A2 = A1\<lparr>ap_portfolio := attribute_order (ap_portfolio A1) (rq_order_id order) (cs_target_wallet s)\<rparr>
      in case register_validated (ap_orders A2) order stamps (ci_clock ci AtRegister) of
           (om, Inl _) \<Rightarrow> A2\<lparr>ap_orders := om\<rparr>
         | (om, Inr i) \<Rightarrow>
             (let A3 = metric (\<lambda>M. M\<lparr>mt_orders_submitted_total := counter_inc (mt_orders_submitted_total M)\<rparr>)
                         (A2\<lparr>ap_orders := om\<rparr>);
                  (om', v, outcome) = om_submit D (pe_uuid E) (pe_submit E books) (ap_orders A3) (ap_venue A3) i
                     (ci_clock ci AtSubmit) (ci_clock ci AtVenue) (ci_fill_clock ci)
              in settle_outcome D E ci s outcome (A3\<lparr>ap_orders := om', ap_venue := v\<rparr>)))"

subsection \<open>The whole path\<close>

text \<open>The decision on a priced trade, and the call itself.\<close>

definition decide ::
    "decimal_ops \<Rightarrow> 's pipe_env \<Rightarrow> call_inputs \<Rightarrow> strategy_config \<Rightarrow> book_cache \<Rightarrow> source_trade \<Rightarrow> target_wallet \<Rightarrow>
     order_book option \<Rightarrow> 's app_state \<Rightarrow> 's app_state" where
  "decide D E ci trader books t wallet book A =
     (let tick = (case book of Some b \<Rightarrow> bk_tick_size b | None \<Rightarrow> default_tick)
      in case strategy_on_source_trade D trader t wallet book (sizing_context_of D E ci A t) tick
             (ci_clock ci AtSignal) (ci_signal_id ci) of
           Inl _ \<Rightarrow> skip_trade ci t A
         | Inr s \<Rightarrow>
             (let A1 = note_signal D E ci t wallet s A;
                  order = build_order ci s tick
              in case pipe_verdict D E ci A1 order book wallet of
                   VerdictRejected r \<Rightarrow> refuse_order E ci s r A1
                 | Approved \<Rightarrow> execute_order D E ci books t s order A1))"

definition on_source_trade ::
    "decimal_ops \<Rightarrow> 's pipe_env \<Rightarrow> call_inputs \<Rightarrow> 's pipeline \<Rightarrow> source_trade \<Rightarrow> 's pipeline" where
  "on_source_trade D E ci P t =
     (let P1 = on_state (note_trade D t) P
      in case get_wallet (ap_tracker (pl_state P1)) (so_trader t) of
           None \<Rightarrow> P1
         | Some wallet \<Rightarrow>
             (let (P2, book) = book_for ci P1 (so_token_id t)
              in on_state (decide D E ci (pl_trader P2) (pl_books P2) t wallet book) P2))"

subsection \<open>What each stage leaves alone\<close>

text \<open>Recording touches the counters, the database, the dashboard and the event bus, nothing else.\<close>

lemma bus_send_fields [simp]:
  "ap_portfolio (bus_send e A) = ap_portfolio A" "ap_venue (bus_send e A) = ap_venue A"
  "ap_kill_switch (bus_send e A) = ap_kill_switch A" "ap_risk (bus_send e A) = ap_risk A"
  "ap_tracker (bus_send e A) = ap_tracker A" "ap_mode (bus_send e A) = ap_mode A"
  "ap_config (bus_send e A) = ap_config A" "om_orders (ap_orders (bus_send e A)) = om_orders (ap_orders A)"
  "ap_store (bus_send e A) = ap_store A" "ap_health (bus_send e A) = ap_health A"
  "ap_metrics (bus_send e A) = ap_metrics A" "ap_recent (bus_send e A) = ap_recent A"
  by (simp_all add: bus_send_def)

lemma metric_fields [simp]:
  "ap_portfolio (metric f A) = ap_portfolio A" "ap_venue (metric f A) = ap_venue A"
  "ap_kill_switch (metric f A) = ap_kill_switch A" "ap_risk (metric f A) = ap_risk A"
  "ap_tracker (metric f A) = ap_tracker A" "ap_mode (metric f A) = ap_mode A"
  "ap_config (metric f A) = ap_config A" "ap_orders (metric f A) = ap_orders A"
  "ap_store (metric f A) = ap_store A" "ap_health (metric f A) = ap_health A"
  "ap_metrics (metric f A) = f (ap_metrics A)" "ap_recent (metric f A) = ap_recent A"
  by (simp_all add: metric_def)

lemma persist_fields [simp]:
  "ap_portfolio (persist f A) = ap_portfolio A" "ap_venue (persist f A) = ap_venue A"
  "ap_kill_switch (persist f A) = ap_kill_switch A" "ap_risk (persist f A) = ap_risk A"
  "ap_tracker (persist f A) = ap_tracker A" "ap_mode (persist f A) = ap_mode A"
  "ap_config (persist f A) = ap_config A" "ap_orders (persist f A) = ap_orders A"
  "ap_store (persist f A) = fst (f (ap_store A))" "ap_health (persist f A) = ap_health A"
  "ap_metrics (persist f A) = ap_metrics A" "ap_recent (persist f A) = ap_recent A"
  by (simp_all add: persist_def)

lemma recent_fields [simp]:
  "ap_portfolio (recent f A) = ap_portfolio A" "ap_venue (recent f A) = ap_venue A"
  "ap_kill_switch (recent f A) = ap_kill_switch A" "ap_risk (recent f A) = ap_risk A"
  "ap_tracker (recent f A) = ap_tracker A" "ap_mode (recent f A) = ap_mode A"
  "ap_config (recent f A) = ap_config A" "ap_orders (recent f A) = ap_orders A"
  "ap_store (recent f A) = ap_store A" "ap_health (recent f A) = ap_health A"
  "ap_metrics (recent f A) = ap_metrics A" "ap_recent (recent f A) = f (ap_recent A)"
  by (simp_all add: recent_def)

lemma pipe_emit_fields [simp]:
  "ap_portfolio (pipe_emit e A) = ap_portfolio A" "ap_venue (pipe_emit e A) = ap_venue A"
  "ap_kill_switch (pipe_emit e A) = ap_kill_switch A" "ap_risk (pipe_emit e A) = ap_risk A"
  "ap_tracker (pipe_emit e A) = ap_tracker A" "ap_mode (pipe_emit e A) = ap_mode A"
  "ap_config (pipe_emit e A) = ap_config A" "om_orders (ap_orders (pipe_emit e A)) = om_orders (ap_orders A)"
  "ap_store (pipe_emit e A) = ap_store A" "ap_health (pipe_emit e A) = ap_health A"
  "ap_metrics (pipe_emit e A) = ap_metrics A"
  by (simp_all add: pipe_emit_def)

text \<open>The part of the state that trading is about.\<close>

definition same_desk :: "'s app_state \<Rightarrow> 's app_state \<Rightarrow> bool" where
  "same_desk A B \<longleftrightarrow> ap_portfolio A = ap_portfolio B \<and> ap_venue A = ap_venue B \<and> ap_risk A = ap_risk B \<and>
     ap_tracker A = ap_tracker B \<and> ap_mode A = ap_mode B \<and> ap_config A = ap_config B \<and>
     om_orders (ap_orders A) = om_orders (ap_orders B)"

lemma note_trade_desk:
  "same_desk (note_trade D t A) A" "ap_kill_switch (note_trade D t A) = ap_kill_switch A"
  "ap_store (note_trade D t A) = fst (insert_source_event D t (ap_store A))"
  by (simp_all add: same_desk_def note_trade_def Let_def)

lemma skip_trade_desk: "same_desk (skip_trade ci t A) A" "ap_kill_switch (skip_trade ci t A) = ap_kill_switch A"
  by (simp_all add: same_desk_def skip_trade_def Let_def)

lemma note_signal_desk:
  "same_desk (note_signal D E ci t w s A) A" "ap_kill_switch (note_signal D E ci t w s A) = ap_kill_switch A"
  "ap_store (note_signal D E ci t w s A) = fst (insert_signal s (ap_store A))"
  by (simp_all add: same_desk_def note_signal_def Let_def)

lemmas note_simps =
  note_trade_desk(1) [unfolded same_desk_def] note_trade_desk(2,3)
  note_signal_desk(1) [unfolded same_desk_def] note_signal_desk(2,3)

lemma refuse_order_desk:
  "same_desk (refuse_order E ci s r A) A"
  "\<not> should_auto_engage_kill_switch r \<Longrightarrow> ap_kill_switch (refuse_order E ci s r A) = ap_kill_switch A"
  by (simp_all add: same_desk_def refuse_order_def Let_def)

lemma book_for_state: "pl_state (fst (book_for ci P token)) = pl_state P"
  "pl_trader (fst (book_for ci P token)) = pl_trader P"
  by (simp_all add: book_for_def follow_token_def Let_def split: option.splits)

lemma same_desk_snapshot:
  "same_desk A B \<Longrightarrow> app_snapshot D ordinal A now = app_snapshot D ordinal B now"
  by (simp add: same_desk_def app_snapshot_def open_count_def open_orders_def om_values_def)

lemma persist_latency_desk:
  "same_desk (persist_latency corr l A) A" "ap_kill_switch (persist_latency corr l A) = ap_kill_switch A"
  "ap_orders (persist_latency corr l A) = ap_orders A"
proof -
  have "same_desk (foldl (\<lambda>B (st, us). persist (insert_latency (Some corr) (stage_str st) us) B) A xs) A \<and>
      ap_kill_switch (foldl (\<lambda>B (st, us). persist (insert_latency (Some corr) (stage_str st) us) B) A xs) = ap_kill_switch A \<and>
      ap_orders (foldl (\<lambda>B (st, us). persist (insert_latency (Some corr) (stage_str st) us) B) A xs) = ap_orders A" for xs
    by (induction xs arbitrary: A) (simp add: same_desk_def, auto simp: same_desk_def)
  then show "same_desk (persist_latency corr l A) A" "ap_kill_switch (persist_latency corr l A) = ap_kill_switch A"
    "ap_orders (persist_latency corr l A) = ap_orders A"
    by (simp_all add: persist_latency_def)
qed

lemma note_order_desk:
  "same_desk (note_order corr o' A) A" "ap_kill_switch (note_order corr o' A) = ap_kill_switch A"
  "ap_orders (note_order corr o' A) = ap_orders A"
  by (simp_all add: note_order_def same_desk_def persist_latency_desk [unfolded same_desk_def])

text \<open>Settling an acknowledgement books its fills, one by one, and nothing else.\<close>

lemma book_fills_fields:
  "ap_venue (foldl (book_fill D E ci oc) A fs) = ap_venue A \<and>
   ap_kill_switch (foldl (book_fill D E ci oc) A fs) = ap_kill_switch A \<and>
   ap_risk (foldl (book_fill D E ci oc) A fs) = ap_risk A \<and>
   ap_orders (foldl (book_fill D E ci oc) A fs) = ap_orders A \<and>
   ap_portfolio (foldl (book_fill D E ci oc) A fs) =
     foldl (\<lambda>pf f. fst (portfolio_apply_fill D (pe_ordinal E) pf f oc (ci_clock ci AtFill))) (ap_portfolio A) fs"
  by (induction fs arbitrary: A) (simp_all add: book_fill_def)

lemma settle_acknowledged_fields:
  "ap_venue (settle_acknowledged D E ci s fs A) = ap_venue A"
  "ap_kill_switch (settle_acknowledged D E ci s fs A) = ap_kill_switch A"
  "ap_risk (settle_acknowledged D E ci s fs A) = ap_risk A"
  "om_orders (ap_orders (settle_acknowledged D E ci s fs A)) = om_orders (ap_orders A)"
  "ap_portfolio (settle_acknowledged D E ci s fs A) =
     foldl (\<lambda>pf f. fst (portfolio_apply_fill D (pe_ordinal E) pf f (cs_outcome s) (ci_clock ci AtFill)))
       (ap_portfolio A) fs"
  by (simp_all add: settle_acknowledged_def Let_def book_fills_fields note_order_desk [unfolded same_desk_def]
      split: option.splits)

lemma settle_outcome_fields:
  "ap_venue (settle_outcome D E ci s out A) = ap_venue A"
  "ap_kill_switch (settle_outcome D E ci s out A) = ap_kill_switch A"
  "ap_risk (settle_outcome D E ci s out A) = ap_risk A"
  "om_orders (ap_orders (settle_outcome D E ci s out A)) = om_orders (ap_orders A)"
  "ap_portfolio (settle_outcome D E ci s out A) =
     (case out of
        SubAcknowledged _ fs \<Rightarrow>
          foldl (\<lambda>pf f. fst (portfolio_apply_fill D (pe_ordinal E) pf f (cs_outcome s) (ci_clock ci AtFill)))
            (ap_portfolio A) fs
      | _ \<Rightarrow> ap_portfolio A)"
  by (simp_all add: settle_outcome_def settle_acknowledged_fields persist_order_row_def
      split: submit_outcome.splits option.splits)

lemma execute_order_kill: "ap_kill_switch (execute_order D E ci books t s order A) = ap_kill_switch A"
  by (simp add: execute_order_def Let_def settle_outcome_fields split: prod.splits sum.splits)

lemma store_nonempty: "om_orders (store om o') \<noteq> []"
  by (cases "om_orders om") (auto simp: store_def)

text \<open>An order with a quantity is registered and submitted, and the outcome is settled.\<close>

lemma execute_order_result:
  assumes "rq_quantity order \<noteq> 0" and "rq_order_id order = ci_order_id ci"
  obtains om o' om' v out where
    "om_get om (rq_order_id order) = Some o'" "or_state o' = Validated" "order_id_of o' = rq_order_id order"
    "or_filled_qty o' = 0" "or_request o' = order"
    "om_submit D (pe_uuid E) (pe_submit E books) om (ap_venue A) (rq_order_id order) (ci_clock ci AtSubmit)
       (ci_clock ci AtVenue) (ci_fill_clock ci) = (om', v, out)"
    "ap_venue (execute_order D E ci books t s order A) = v"
    "om_orders (ap_orders (execute_order D E ci books t s order A)) = om_orders om'"
    "ap_portfolio (execute_order D E ci books t s order A) =
       (let pf = attribute_order (ap_portfolio A) (rq_order_id order) (cs_target_wallet s)
        in case out of
             SubAcknowledged _ fs \<Rightarrow>
               foldl (\<lambda>pf f. fst (portfolio_apply_fill D (pe_ordinal E) pf f (cs_outcome s) (ci_clock ci AtFill))) pf fs
           | _ \<Rightarrow> pf)"
proof -
  define A1 where "A1 = pipe_emit (OrderRiskApproved (rq_order_id order) (cs_correlation_id s) (cs_signal_id s)
    (ci_clock ci AtApproval)) A"
  define stamps where "stamps = (stamps_from_source (so_source_ts t) False (so_detected_ts t))
    \<lparr>lt_signal := lt_signal (cs_latency s), lt_risk_check := Some (ci_clock ci AtRiskStamp)\<rparr>"
  obtain o1 where o1: "order_new order stamps = Inr o1" "or_request o1 = order" "or_filled_qty o1 = 0"
    "or_state o1 = Created" using assms(1) by (simp add: order_new_def)
  then obtain o' where o': "transition o1 Validated (ci_clock ci AtRegister) = Inr o'" "or_request o' = order"
    "or_filled_qty o' = 0" "or_state o' = Validated"
    by (simp add: transition_def state_tests)
  let ?om = "store (ap_orders A1) o'"
  have id: "order_id_of o' = rq_order_id order" using o' by (simp add: order_id_of_def)
  have reg: "register_validated (ap_orders A1) order stamps (ci_clock ci AtRegister) = (?om, Inr (rq_order_id order))"
    using o1 o' id by (simp add: register_validated_def)
  obtain om' v out where sub: "om_submit D (pe_uuid E) (pe_submit E books) ?om (ap_venue A) (rq_order_id order)
      (ci_clock ci AtSubmit) (ci_clock ci AtVenue) (ci_fill_clock ci) = (om', v, out)" by (metis prod_cases3)
  have eq: "execute_order D E ci books t s order A = settle_outcome D E ci s out
      ((metric (\<lambda>M. M\<lparr>mt_orders_submitted_total := counter_inc (mt_orders_submitted_total M)\<rparr>)
          (A1\<lparr>ap_portfolio := attribute_order (ap_portfolio A1) (rq_order_id order) (cs_target_wallet s),
              ap_orders := ?om\<rparr>))\<lparr>ap_orders := om', ap_venue := v\<rparr>)"
    using sub reg by (simp add: execute_order_def Let_def A1_def [symmetric] stamps_def [symmetric])
      (simp add: A1_def)
  show ?thesis
    by (rule that [of ?om o', OF _ o'(4) id o'(3,2) sub], unfold eq settle_outcome_fields)
      (simp_all add: store_get id A1_def Let_def split: submit_outcome.split)
qed

subsection \<open>What a decision depends on\<close>

lemma same_desk_verdict:
  assumes "same_desk A B" and "ap_kill_switch A = ap_kill_switch B"
    and "is_ephemeral (ap_store A) = is_ephemeral (ap_store B)"
  shows "pipe_verdict D E ci A order book w = pipe_verdict D E ci B order book w"
  using assms same_desk_snapshot [OF assms(1), of D "pe_ordinal E"]
  by (simp add: pipe_verdict_def risk_snapshot_of_def same_desk_def Let_def)

lemma exec_ephemeral:
  "is_ephemeral (fst (exec q S)) = is_ephemeral S"
  "is_ephemeral (fst (insert_source_event D t S)) = is_ephemeral S"
  by (cases S; auto simp: exec_def insert_source_event_def is_ephemeral_def split: sum.splits prod.splits)+

text \<open>A decision on a state: the refusal, the rejection, or the order.\<close>

lemma decide_cases:
  obtains (skipped) "decide D E ci tr books t w book A = skip_trade ci t A"
  | (refused) s tick r where
      "strategy_on_source_trade D tr t w book (sizing_context_of D E ci A t) tick (ci_clock ci AtSignal)
         (ci_signal_id ci) = Inr s"
      "pipe_verdict D E ci A (build_order ci s tick) book w = VerdictRejected r"
      "decide D E ci tr books t w book A = refuse_order E ci s r (note_signal D E ci t w s A)"
  | (placed) s tick where
      "strategy_on_source_trade D tr t w book (sizing_context_of D E ci A t) tick (ci_clock ci AtSignal)
         (ci_signal_id ci) = Inr s"
      "pipe_verdict D E ci A (build_order ci s tick) book w = Approved"
      "decide D E ci tr books t w book A =
         execute_order D E ci books t s (build_order ci s tick) (note_signal D E ci t w s A)"
proof -
  define tick where "tick = (case book of Some b \<Rightarrow> bk_tick_size b | None \<Rightarrow> default_tick)"
  have v: "pipe_verdict D E ci (note_signal D E ci t w s A) order book w = pipe_verdict D E ci A order book w"
    for s order
    by (rule same_desk_verdict) (simp_all add: note_signal_desk insert_signal_def exec_ephemeral)
  show ?thesis
  proof (cases "strategy_on_source_trade D tr t w book (sizing_context_of D E ci A t) tick
      (ci_clock ci AtSignal) (ci_signal_id ci)")
    case (Inl e)
    then show ?thesis using skipped by (simp add: decide_def tick_def Let_def)
  next
    case (Inr s)
    show ?thesis
    proof (cases "pipe_verdict D E ci A (build_order ci s tick) book w")
      case Approved
      with placed [OF Inr] Inr show ?thesis by (simp add: decide_def tick_def Let_def v)
    next
      case (VerdictRejected r)
      with refused [OF Inr] Inr show ?thesis by (simp add: decide_def tick_def Let_def v)
    qed
  qed
qed

text \<open>A call either stops at an untracked wallet or decides, on the trading state it found.\<close>

lemma on_source_trade_cases:
  obtains (untracked) "get_wallet (ap_tracker (pl_state P)) (so_trader t) = None"
      "pl_state (on_source_trade D E ci P t) = note_trade D t (pl_state P)"
  | (tracked) w books book where
      "get_wallet (ap_tracker (pl_state P)) (so_trader t) = Some w"
      "pl_state (on_source_trade D E ci P t) =
         decide D E ci (pl_trader P) books t w book (note_trade D t (pl_state P))"
proof -
  let ?P = "on_state (note_trade D t) P"
  have tr: "ap_tracker (pl_state ?P) = ap_tracker (pl_state P)"
    using note_trade_desk(1) [of D t "pl_state P"] by (simp add: on_state_def same_desk_def)
  show ?thesis
  proof (cases "get_wallet (ap_tracker (pl_state P)) (so_trader t)")
    case None
    with untracked show ?thesis by (simp add: on_source_trade_def Let_def tr) (simp add: on_state_def)
  next
    case (Some w)
    obtain P2 book where b: "book_for ci ?P (so_token_id t) = (P2, book)" by force
    have "pl_state P2 = note_trade D t (pl_state P)" "pl_trader P2 = pl_trader P"
      using book_for_state [of ci ?P "so_token_id t"] unfolding b by (simp_all add: on_state_def)
    with Some b tracked [of w "pl_books P2" book] show ?thesis
      by (simp add: on_source_trade_def Let_def tr) (simp add: on_state_def)
  qed
qed

lemma note_trade_context:
  "sizing_context_of D E ci (note_trade D t A) t' = sizing_context_of D E ci A t'"
  "risk_snapshot_of D E ci (note_trade D t A) order = risk_snapshot_of D E ci A order"
  using note_trade_desk(1) [of D t A]
  by (simp_all add: sizing_context_of_def risk_snapshot_of_def same_desk_snapshot [OF note_trade_desk(1)]
      same_desk_def Let_def)

text \<open>Sizing refuses once the daily loss limit is used up.\<close>

lemma strategy_needs_daily_risk:
  assumes "decimal_additive D"
    and "strategy_on_source_trade D tr t w book (sizing_context_of D E ci A t) tick now i = Inr s"
  shows "- rl_max_daily_loss_usd (re_limits (ap_risk A)) <
           daily_pnl (pe_ordinal E) (ap_portfolio A) (ci_clock ci AtContext)"
proof -
  have "sx_remaining_daily_risk (price_context D book s l c) = sx_remaining_daily_risk c" for s l c
    by (cases book) (simp_all add: price_context_def Let_def)
  with signal_fields [OF assms(2)]
  have "0 < sx_remaining_daily_risk (sizing_context_of D E ci A t)"
    using size_order_Inr(5) by metis
  then show ?thesis
    by (simp add: sizing_context_of_def app_snapshot_def snapshot_def Let_def
        decimal_additive.sub_exact [OF assms(1)] split: if_splits)
qed

subsection \<open>Properties\<close>

text \<open>C2: No order without an approval. If a call changes the order book, the venue or the portfolio, then
  the trader is a tracked and enabled wallet, the kill switch is off, a live engine is armed, the
  strategy produced a signal for this very trade, and the order built from it respects every limit
  of the risk engine on the state before the call: the size of a trade, the position in the token,
  the exposure to the market and of the portfolio, the open orders and the loss of the day.\<close>

theorem orders_need_approval:
  assumes "A = pl_state P" and "A' = pl_state (on_source_trade D E ci P t)"
    and "om_orders (ap_orders A') \<noteq> om_orders (ap_orders A) \<or> ap_venue A' \<noteq> ap_venue A \<or>
         ap_portfolio A' \<noteq> ap_portfolio A"
  shows "\<exists>w s book tick n. get_wallet (ap_tracker A) (so_trader t) = Some w \<and> tw_enabled w \<and>
     \<not> ks_engaged (ap_kill_switch A) \<and> (is_live (re_mode (ap_risk A)) \<longrightarrow> re_live_armed (ap_risk A)) \<and>
     strategy_on_source_trade D (pl_trader P) t w book (sizing_context_of D E ci A t) tick
       (ci_clock ci AtSignal) (ci_signal_id ci) = Inr s \<and>
     n = request_notional D (build_order ci s tick) \<and>
     rl_min_trade_usd (re_limits (ap_risk A)) \<le> n \<and> n \<le> rl_max_trade_usd (re_limits (ap_risk A)) \<and>
     d_add D (token_exposure D (ap_portfolio A) (so_token_id t)) n \<le> rl_max_position_usd (re_limits (ap_risk A)) \<and>
     d_add D (market_exposure D (ap_portfolio A) (so_market_id t)) n
       \<le> rl_max_market_exposure_usd (re_limits (ap_risk A)) \<and>
     d_add D (gross_exposure D (ap_portfolio A)) n \<le> rl_max_portfolio_exposure_usd (re_limits (ap_risk A)) \<and>
     open_count (ap_orders A) < rl_max_open_orders (re_limits (ap_risk A)) \<and>
     - rl_max_daily_loss_usd (re_limits (ap_risk A)) \<le>
       daily_pnl (pe_ordinal E) (ap_portfolio A) (ci_clock ci AtRiskSnapshot)"
proof (cases rule: on_source_trade_cases [of P t D E ci])
  case untracked
  with assms note_trade_desk(1) [of D t A] show ?thesis by (simp add: same_desk_def)
next
  case (tracked w books book)
  let ?N = "note_trade D t A"
  have N: "same_desk ?N A" "ap_kill_switch ?N = ap_kill_switch A" by (rule note_trade_desk)+
  have A': "A' = decide D E ci (pl_trader P) books t w book ?N" using tracked(2) assms(1,2) by simp
  show ?thesis
  proof (cases rule: decide_cases [of D E ci "pl_trader P" books t w book ?N])
    case skipped
    with A' N skip_trade_desk(1) [of ci t ?N] assms(3) show ?thesis by (simp add: same_desk_def)
  next
    case (refused s tick r)
    with A' N refuse_order_desk(1) [of E ci s r "note_signal D E ci t w s ?N"]
      note_signal_desk(1) [of D E ci t w s ?N] assms(3)
    show ?thesis by (simp add: same_desk_def)
  next
    case (placed s tick)
    have o': "rq_token_id (build_order ci s tick) = so_token_id t" "rq_market_id (build_order ci s tick) = so_market_id t"
      using signal_fields [OF placed(1)] by (auto simp: build_order_def)
    from placed(2) N show ?thesis
      unfolding pipe_verdict_def check_Approved check_gates_Approved check_amounts_Approved Let_def
        note_trade_context
      using placed(1) tracked(1) assms(1)
      by (intro exI [of _ w] exI [of _ s] exI [of _ book] exI [of _ tick] exI [of _ "request_notional D (build_order ci s tick)"])
        (simp add: o' same_desk_def risk_snapshot_of_def app_snapshot_def snapshot_def note_trade_context Let_def)
  qed
qed

text \<open>A trading day that lost too much is never halted by the pipeline. The pipeline engages the kill
  switch when the risk engine reports the daily loss limit, but the strategy sizes the same trade
  first, and sizing refuses once the limit is used up: as long as a call does not straddle midnight,
  it never touches the kill switch. The losses only ever make trades be skipped.\<close>

theorem pipeline_never_halts:
  assumes "decimal_additive D"
    and "pe_ordinal E (ci_clock ci AtContext) = pe_ordinal E (ci_clock ci AtRiskSnapshot)"
  shows "ap_kill_switch (pl_state (on_source_trade D E ci P t)) = ap_kill_switch (pl_state P)"
proof (cases rule: on_source_trade_cases [of P t D E ci])
  case untracked
  then show ?thesis by (simp add: note_trade_desk)
next
  case (tracked w books book)
  let ?N = "note_trade D t (pl_state P)"
  have "ap_kill_switch (decide D E ci (pl_trader P) books t w book ?N) = ap_kill_switch ?N"
  proof (cases rule: decide_cases [of D E ci "pl_trader P" books t w book ?N])
    case skipped
    then show ?thesis by (simp add: skip_trade_desk)
  next
    case (refused s tick r)
    have "- rl_max_daily_loss_usd (re_limits (ap_risk ?N)) <
        rs_daily_pnl (risk_snapshot_of D E ci ?N (build_order ci s tick))"
      using strategy_needs_daily_risk [OF assms(1) refused(1)] assms(2)
      by (simp add: risk_snapshot_of_def app_snapshot_def snapshot_def daily_pnl_def Let_def)
    then have "\<not> should_auto_engage_kill_switch r"
      using refused(2) gates_not_loss market_not_kill(2) amounts_loss
      unfolding pipe_verdict_def check_def
      by (cases r) (fastforce split: risk_verdict.splits)+
    with refused(3) show ?thesis by (simp add: refuse_order_desk note_signal_desk)
  next
    case (placed s tick)
    then show ?thesis by (simp add: execute_order_kill note_signal_desk)
  qed
  with tracked show ?thesis by (simp add: note_trade_desk)
qed

definition sample_state :: "'s \<Rightarrow> 's app_state" where
  "sample_state v = \<lparr>ap_last_source_data_ms = 0, ap_mode = PaperMode, ap_config = app_default,
     ap_portfolio = portfolio_new (\<lambda>_. 0) 10000 0, ap_orders = om_new,
     ap_tracker = tracker_new [sample_wallet], ap_kill_switch = kill_switch_new,
     ap_risk = engine_new limits_default PaperMode False, ap_metrics = metrics_new,
     ap_health = health_new ''paper'', ap_store = None, ap_recent = recent_new 500, ap_started_at = 0,
     ap_venue = v\<rparr>"

definition sample_call :: call_inputs where
  "sample_call = \<lparr>ci_clock = (\<lambda>_. 9), ci_fill_clock = (\<lambda>_. 9), ci_signal_id = 7, ci_order_id = 1,
     ci_rest_book = (\<lambda>_ _. None)\<rparr>"

text \<open>A venue that is not ready.\<close>

definition closed_env :: "unit pipe_env" where
  "closed_env = \<lparr>pe_ordinal = (\<lambda>_. 0), pe_uuid = (\<lambda>_. []),
     pe_submit = (\<lambda>_ v _. (v, Inl (AdapterNotReady [])))\<rparr>"

definition sample_pipe :: "unit pipeline" where
  "sample_pipe = pipeline_new (sample_state ()) strategy_default []"

lemma sample_source_fields:
  "so_price sample_source = 1/2" "so_quantity sample_source = 2000" "so_side sample_source = Buy"
  "so_trader sample_source = Address ''w''" "so_token_id sample_source = TokenId ''7''"
  "so_market_id sample_source = MarketId ''m''" "source_notional exact_decimal sample_source = 1000"
  by (simp_all add: sample_source_def into_source_trade_def sample_trade_def source_notional_def
      qty_notional_def)

lemma sample_portfolio:
  "pf_positions (ap_portfolio (sample_state v)) = []" "pf_cash (ap_portfolio (sample_state v)) = 10000"
  "pf_daily (ap_portfolio (sample_state v)) = (0, 0)" "om_orders (ap_orders (sample_state v)) = []"
  by (simp_all add: sample_state_def portfolio_new_def om_new_def)

lemma sample_portfolio_values:
  "gross_exposure exact_decimal (ap_portfolio (sample_state v)) = 0"
  "token_exposure exact_decimal (ap_portfolio (sample_state v)) tok = 0"
  "market_exposure exact_decimal (ap_portfolio (sample_state v)) m = 0"
  "equity exact_decimal (ap_portfolio (sample_state v)) = 10000"
  "open_count (ap_orders (sample_state v)) = 0"
  by (simp_all add: gross_exposure_def token_exposure_def market_exposure_def position_values_def get_def
      equity_def position_value_def held_def open_count_def open_orders_def om_values_def d_sum_def
      sample_portfolio)

lemma sample_sizing:
  "sizing_context_of exact_decimal closed_env sample_call (sample_state v) sample_source =
     \<lparr>sx_equity = 10000, sx_current_market_exposure = 0, sx_max_position_usd = 1000,
       sx_max_trade_usd = 100, sx_min_trade_usd = 5, sx_available_liquidity = 0,
       sx_remaining_daily_risk = 100, sx_min_order_size = 0\<rparr>"
  by (simp add: sizing_context_of_def app_snapshot_def snapshot_def sample_portfolio_values daily_pnl_def
      sample_portfolio Let_def) (simp add: sample_state_def engine_new_def limits_default_def
      limits_from_config_def risk_default_def)

lemma sample_strategy:
  "\<exists>s. strategy_on_source_trade exact_decimal strategy_default sample_source sample_wallet None
      (sizing_context_of exact_decimal closed_env sample_call (sample_state v) sample_source) default_tick 9 7 = Inr s \<and>
    cs_copy_quantity s = 200 \<and> cs_limit_price s = 1/2 \<and> cs_side s = Buy \<and> cs_target_price s = 1/2 \<and>
    cs_token_id s = TokenId ''7'' \<and> cs_market_id s = MarketId ''m''"
proof -
  have "size_order exact_decimal sample_wallet 1000 (1/2)
      (price_context exact_decimal None Buy (1/2)
        (sizing_context_of exact_decimal closed_env sample_call (sample_state v) sample_source)) =
    Inr \<lparr>sz_quantity = 200, sz_notional = 100, sz_mode = ''fixed_ratio'',
          sz_binding_constraint = Some ''wallet_max_trade''\<rparr>"
    by (simp add: size_order_def sample_sizing price_context_def sample_wallet_def target_wallet_new_def
        default_sizing_mode_def finish_size_def usd_shares_at_def qty_floor_to_def qty_notional_def
        d_floor_def Let_def)
  then show ?thesis
    by (simp add: strategy_on_source_trade_def reference_price_def strategy_default_def
        sample_source_fields sample_limit default_tick_def Let_def)
qed

lemma sample_verdict:
  assumes "cs_copy_quantity s = 200" and "cs_limit_price s = 1/2"
  shows "pipe_verdict exact_decimal closed_env sample_call (sample_state ()) (build_order sample_call s tick)
           None sample_wallet = Approved"
  unfolding pipe_verdict_def check_Approved check_gates_Approved check_amounts_Approved check_market_Approved
  by (simp add: risk_snapshot_of_def app_snapshot_def snapshot_def sample_portfolio_values daily_pnl_def
      sample_portfolio first_problem_def request_notional_def qty_notional_def build_order_def assms Let_def)
    (simp add: sample_state_def engine_new_def limits_default_def limits_from_config_def risk_default_def
      kill_switch_new_def is_live_def sample_wallet_def target_wallet_new_def)

lemma sample_call_tracked:
  "\<exists>books. pl_state (on_source_trade exact_decimal closed_env sample_call sample_pipe sample_source) =
     decide exact_decimal closed_env sample_call strategy_default books sample_source sample_wallet None
       (note_trade exact_decimal sample_source (sample_state ()))"
proof -
  have "get_wallet (ap_tracker (sample_state ())) (Address ''w'') = Some sample_wallet"
    using sample_observations(1) by (simp add: sample_state_def get_wallet_def)
  then show ?thesis
    by (simp add: on_source_trade_def on_state_def sample_pipe_def pipeline_new_def book_for_def
        cache_get_def get_def [of "[]"] follow_token_def sample_source_fields note_trade_desk [unfolded same_desk_def]
        Let_def) auto
qed

lemma sample_order_placed:
  "om_orders (ap_orders (pl_state (on_source_trade exact_decimal closed_env sample_call sample_pipe sample_source))) \<noteq> []"
proof -
  let ?N = "note_trade exact_decimal sample_source (sample_state ())"
  obtain s where s: "strategy_on_source_trade exact_decimal strategy_default sample_source sample_wallet None
      (sizing_context_of exact_decimal closed_env sample_call (sample_state ()) sample_source) default_tick 9 7 = Inr s"
    "cs_copy_quantity s = 200" "cs_limit_price s = 1/2" using sample_strategy by blast
  have v: "pipe_verdict exact_decimal closed_env sample_call
      (note_signal exact_decimal closed_env sample_call sample_source sample_wallet s ?N)
      (build_order sample_call s default_tick) None sample_wallet = Approved"
    unfolding sample_verdict [OF s(2,3), of default_tick, symmetric]
    by (rule same_desk_verdict)
      (simp_all add: same_desk_def note_simps insert_signal_def exec_ephemeral)
  obtain books where "pl_state (on_source_trade exact_decimal closed_env sample_call sample_pipe sample_source) =
      decide exact_decimal closed_env sample_call strategy_default books sample_source sample_wallet None ?N"
    using sample_call_tracked by blast
  also have "\<dots> = execute_order exact_decimal closed_env sample_call books sample_source s
      (build_order sample_call s default_tick)
      (note_signal exact_decimal closed_env sample_call sample_source sample_wallet s ?N)"
    using s(1) v by (simp add: decide_def note_trade_context sample_call_def Let_def)
  finally have eq: "pl_state (on_source_trade exact_decimal closed_env sample_call sample_pipe sample_source) =
      execute_order exact_decimal closed_env sample_call books sample_source s
        (build_order sample_call s default_tick)
        (note_signal exact_decimal closed_env sample_call sample_source sample_wallet s ?N)" .
  have "rq_quantity (build_order sample_call s default_tick) \<noteq> 0"
    "rq_order_id (build_order sample_call s default_tick) = ci_order_id sample_call"
    by (simp_all add: build_order_def s)
  from execute_order_result [OF this] obtain om o' om' v out where
    "om_get om (rq_order_id (build_order sample_call s default_tick)) = Some o'" "or_state o' = Validated"
    "om_submit exact_decimal (pe_uuid closed_env) (pe_submit closed_env books) om
       (ap_venue (note_signal exact_decimal closed_env sample_call sample_source sample_wallet s ?N))
       (rq_order_id (build_order sample_call s default_tick)) (ci_clock sample_call AtSubmit)
       (ci_clock sample_call AtVenue) (ci_fill_clock sample_call) = (om', v, out)"
    "om_orders (ap_orders (execute_order exact_decimal closed_env sample_call books sample_source s
        (build_order sample_call s default_tick)
        (note_signal exact_decimal closed_env sample_call sample_source sample_wallet s ?N))) = om_orders om'"
    by metis
  then show ?thesis unfolding eq
    by (auto simp: om_submit_def submit_begin_def submit_finish_def transition_def state_tests closed_env_def
        store_nonempty Let_def)
qed

theorem orders_need_approval_witness:
  "\<exists>s n. n = request_notional exact_decimal (build_order sample_call s default_tick) \<and>
     n \<le> (100 :: rat) \<and> om_orders (ap_orders (pl_state
       (on_source_trade exact_decimal closed_env sample_call sample_pipe sample_source))) \<noteq> []"
proof -
  have "om_orders (ap_orders (pl_state sample_pipe)) = []"
    by (simp add: sample_pipe_def pipeline_new_def sample_portfolio)
  with orders_need_approval [OF refl refl, of exact_decimal closed_env sample_call sample_pipe sample_source]
    sample_order_placed
  obtain s tick n where "n = request_notional exact_decimal (build_order sample_call s tick)"
    "n \<le> rl_max_trade_usd (re_limits (ap_risk (pl_state sample_pipe)))"
    by auto
  then have "n = request_notional exact_decimal (build_order sample_call s default_tick) \<and> n \<le> 100"
    by (simp add: sample_pipe_def pipeline_new_def sample_state_def engine_new_def limits_default_def
        limits_from_config_def risk_default_def request_notional_def build_order_def)
  with sample_order_placed show ?thesis by blast
qed

text \<open>A desk that lost 500 dollars today, five times its limit, with the switch off.\<close>

definition losing_pipe :: "unit pipeline" where
  "losing_pipe = sample_pipe\<lparr>pl_state := (sample_state ())\<lparr>ap_portfolio :=
     (ap_portfolio (sample_state ()))\<lparr>pf_daily := (0, - 500)\<rparr>\<rparr>\<rparr>"

theorem pipeline_never_halts_witness:
  "daily_pnl (\<lambda>_. 0) (ap_portfolio (pl_state losing_pipe)) 9 <
     - rl_max_daily_loss_usd (re_limits (ap_risk (pl_state losing_pipe))) \<and>
   \<not> ks_engaged (ap_kill_switch (pl_state
       (on_source_trade exact_decimal closed_env sample_call losing_pipe sample_source)))"
  using pipeline_never_halts [OF exact_dec.decimal_additive_axioms, of closed_env sample_call losing_pipe sample_source]
  by (simp add: closed_env_def losing_pipe_def sample_pipe_def pipeline_new_def daily_pnl_def)
    (simp add: sample_state_def kill_switch_new_def engine_new_def limits_default_def limits_from_config_def
      risk_default_def)

end
