(* ===== verification/Feed.thy ===== *)
theory Feed
  imports Pipeline
begin

section \<open>The venue clients (crates/market_data/src/rtds.rs, rest.rs)\<close>

text \<open>
  The activity feed as a state machine over what its socket and its connection attempts answer, and
  the REST client over the answer of \<open>get\<close>. The HTTP and websocket libraries and the decoding of
  JSON are parameters: an attempt to connect, a message, and the decoded body are inputs.
\<close>

subsection \<open>The activity feed\<close>

definition SUBSCRIBE_TRADES :: string where
  "SUBSCRIBE_TRADES =
     ''{'' @ quote @ ''action'' @ quote @ '':'' @ quote @ ''subscribe'' @ quote @ '','' @ quote @ ''subscriptions''
       @ quote @ '':[{'' @ quote @ ''topic'' @ quote @ '':'' @ quote @ ''activity'' @ quote @ '','' @ quote @ ''type''
       @ quote @ '':'' @ quote @ ''trades'' @ quote @ ''}]}''"

datatype feed_message =
    FeedTrade parsed_trade
  | FeedUp timestamp
  | FeedDown timestamp "timestamp option" string

text \<open>What one turn of the inner loop sees; a text carries the time of its arrival.\<close>

datatype socket_event =
    SockShutdown bool
  | SockEnd
  | SockError string
  | SockClose
  | SockPing
  | SockText string timestamp
  | SockOther

text \<open>
  The inner loop: it ends with a reason, or is still running when the events are used up. The
  receiver of the messages is alive as long as the application runs.
\<close>

fun feed_session ::
    "(string \<Rightarrow> timestamp \<Rightarrow> parse_error + rtds_frame) \<Rightarrow> timestamp option \<Rightarrow> socket_event list \<Rightarrow>
     feed_message list \<times> timestamp option \<times> string option" where
  "feed_session parse seen [] = ([], seen, None)"
| "feed_session parse seen (ev # evs) =
     (case ev of
        SockShutdown s \<Rightarrow> if s then ([], seen, Some ''shutdown'') else feed_session parse seen evs
      | SockEnd \<Rightarrow> ([], seen, Some ''stream ended'')
      | SockError e \<Rightarrow> ([], seen, Some (''ws error: '' @ e))
      | SockClose \<Rightarrow> ([], seen, Some ''server closed'')
      | SockPing \<Rightarrow> feed_session parse seen evs
      | SockOther \<Rightarrow> feed_session parse seen evs
      | SockText t ts \<Rightarrow>
          (case parse t ts of
             Inr (TradeFrame tr) \<Rightarrow>
               (let (ms, seen', r) = feed_session parse (Some (pt_source_ts tr)) evs
                in (FeedTrade tr # ms, seen', r))
           | _ \<Rightarrow> feed_session parse seen evs))"

datatype connect_attempt =
    ConnectTimeout timestamp
  | ConnectFailed string timestamp
  | SubscribeFailed string timestamp
  | ConnectedTo timestamp "socket_event list" timestamp

record feed_client =
  fc_backoff :: backoff
  fc_last_trade_at :: "timestamp option"

definition feed_client_new :: feed_client where
  "feed_client_new = \<lparr>fc_backoff = backoff_new 500 30000, fc_last_trade_at = None\<rparr>"

definition feed_wait :: "feed_client \<Rightarrow> feed_client \<times> 64 word" where
  "feed_wait C = (let (b, d) = next_delay (fc_backoff C) in (C\<lparr>fc_backoff := b\<rparr>, d))"

text \<open>
  One turn of the outer loop: the messages it sends, and how long it then waits; with no delay, the
  task has returned on a shutdown or the connection still stands.
\<close>

definition feed_turn ::
    "(string \<Rightarrow> timestamp \<Rightarrow> parse_error + rtds_frame) \<Rightarrow> feed_client \<Rightarrow> connect_attempt \<Rightarrow>
     feed_client \<times> feed_message list \<times> 64 word option" where
  "feed_turn parse C attempt =
     (let failed = (\<lambda>reason ts. let (C', d) = feed_wait C in
             (C', [FeedDown ts (fc_last_trade_at C) reason], Some d))
      in case attempt of
        ConnectTimeout ts \<Rightarrow> failed ''connect timeout'' ts
      | ConnectFailed e ts \<Rightarrow> failed (''connect: '' @ e) ts
      | SubscribeFailed e ts \<Rightarrow> failed (''subscribe: '' @ e) ts
      | ConnectedTo ts evs down \<Rightarrow>
          (let (ms, seen, r) = feed_session parse (fc_last_trade_at C) evs;
               C1 = C\<lparr>fc_backoff := backoff_reset (fc_backoff C), fc_last_trade_at := seen\<rparr>
           in case r of
                None \<Rightarrow> (C1, FeedUp ts # ms, None)
              | Some reason \<Rightarrow>
                  (if reason = ''shutdown'' then (C1, FeedUp ts # ms, None)
                   else let (C2, d) = feed_wait C1
                        in (C2, FeedUp ts # ms @ [FeedDown down seen reason], Some d))))"

fun feed_run ::
    "(string \<Rightarrow> timestamp \<Rightarrow> parse_error + rtds_frame) \<Rightarrow> feed_client \<Rightarrow> connect_attempt list \<Rightarrow> feed_message list" where
  "feed_run parse C [] = []"
| "feed_run parse C (a # attempts) =
     (let (C', ms, d) = feed_turn parse C a
      in case d of None \<Rightarrow> ms | Some _ \<Rightarrow> ms @ feed_run parse C' attempts)"

subsection \<open>The REST client\<close>

datatype rest_error =
    RestHttp string
  | RestParse parse_error
  | RestStatus string nat string

text \<open>A response has a status and a body; the body of an error is cut to 300 characters.\<close>

definition get_text :: "(string \<Rightarrow> string + nat \<times> string) \<Rightarrow> string \<Rightarrow> rest_error + string" where
  "get_text http url =
     (case http url of
        Inl e \<Rightarrow> Inl (RestHttp e)
      | Inr (status, body) \<Rightarrow>
          (if 200 \<le> status \<and> status < 300 then Inr body else Inl (RestStatus url status (take 300 body))))"

definition decoded :: "(string \<Rightarrow> 'a option) \<Rightarrow> string \<Rightarrow> rest_error + 'a" where
  "decoded decode body = ok_or (RestParse JsonError) (decode body)"

definition rest_book ::
    "decimal_ops \<Rightarrow> timestamp_opt \<Rightarrow> (string \<Rightarrow> string + nat \<times> string) \<Rightarrow> (string \<Rightarrow> clob_book option) \<Rightarrow>
     string \<Rightarrow> token_id \<Rightarrow> nat \<Rightarrow> timestamp \<Rightarrow> rest_error + order_book" where
  "rest_book D ts_opt http decode clob_url token seq now =
     and_then (get_text http (clob_url @ ''/book?token_id='' @ token_str token)) (\<lambda>body.
     and_then (decoded decode body) (\<lambda>raw. map_err RestParse (parse_book_value D ts_opt raw seq now)))"

definition backfill_wallet_trades ::
    "decimal_ops \<Rightarrow> timestamp_opt \<Rightarrow> (string \<Rightarrow> string + nat \<times> string) \<Rightarrow> (string \<Rightarrow> data_api_trade list option) \<Rightarrow>
     string \<Rightarrow> address \<Rightarrow> timestamp \<Rightarrow> nat \<Rightarrow> timestamp \<Rightarrow> rest_error + parsed_trade list" where
  "backfill_wallet_trades D ts_opt http decode data_url wallet since limit now =
     and_then (get_text http (data_url @ ''/trades?user='' @ address_str wallet @ ''&takerOnly=false&limit='' @
                 nat_text (min limit 1000))) (\<lambda>body.
     and_then (decoded decode body) (\<lambda>raw.
       Inr (List.map_filter (\<lambda>t. ok (parse_data_api_trade D ts_opt t now))
              (filter (\<lambda>t. da_timestamp t \<ge> since div 1000000000) raw))))"

definition server_time :: "(string \<Rightarrow> string + nat \<times> string) \<Rightarrow> string \<Rightarrow> rest_error + int" where
  "server_time http clob_url =
     and_then (get_text http (clob_url @ ''/time'')) (\<lambda>body.
       Inr (case parse_i64 (trim body) of Some i \<Rightarrow> i | None \<Rightarrow> 0))"

subsection \<open>Markets\<close>

definition json_get :: "json \<Rightarrow> string \<Rightarrow> json option" where
  "json_get v key = (case v of JObj kvs \<Rightarrow> map_of kvs key | _ \<Rightarrow> None)"

definition json_str :: "json \<Rightarrow> string option" where
  "json_str v = (case v of JStr s \<Rightarrow> Some s | _ \<Rightarrow> None)"

definition json_bool :: "json \<Rightarrow> bool option" where
  "json_bool v = (case v of JBool b \<Rightarrow> Some b | _ \<Rightarrow> None)"

text \<open>An integer is read as the nearest double.\<close>

definition json_f64 :: "json \<Rightarrow> f64 option" where
  "json_f64 v = (case v of JFloat f \<Rightarrow> Some f | JInt i \<Rightarrow> Some (Finite (f64_round (of_int i))) | _ \<Rightarrow> None)"

definition str_field :: "json \<Rightarrow> string \<Rightarrow> string" where
  "str_field v key = (case Option.bind (json_get v key) json_str of Some s \<Rightarrow> s | None \<Rightarrow> [])"

definition bool_field :: "json \<Rightarrow> string \<Rightarrow> bool \<Rightarrow> bool" where
  "bool_field v key d = (case Option.bind (json_get v key) json_bool of Some b \<Rightarrow> b | None \<Rightarrow> d)"

definition clob_outcome :: "json \<Rightarrow> outcome option" where
  "clob_outcome t =
     Option.bind (Option.bind (json_get t ''token_id'') json_str) (\<lambda>i.
     Option.bind (ok (token_id_new i)) (\<lambda>token.
     Option.bind (Option.bind (json_get t ''outcome'') json_str) (\<lambda>name.
       Some \<lparr>oc_token = token, oc_name = name\<rparr>)))"

definition clob_market_to_domain :: "decimal_ops \<Rightarrow> json \<Rightarrow> parse_error + market" where
  "clob_market_to_domain D v =
     and_then (id_field ''condition_id'' (market_id_new (str_field v ''condition_id''))) (\<lambda>market.
       Inr \<lparr>mk_id = market, mk_slug = str_field v ''market_slug'', mk_title = str_field v ''question'',
         mk_outcomes = (case json_get v ''tokens'' of
             Some (JArr ts) \<Rightarrow> List.map_filter clob_outcome ts | _ \<Rightarrow> []),
         mk_tick_size = decimal_of_float D (Option.bind (json_get v ''minimum_tick_size'') json_f64) default_tick,
         mk_min_order_size =
           decimal_of_float D (Option.bind (json_get v ''minimum_order_size'') json_f64) default_min_size,
         mk_neg_risk = bool_field v ''neg_risk'' False, mk_active = bool_field v ''active'' False,
         mk_closed = bool_field v ''closed'' True,
         mk_accepting_orders = bool_field v ''accepting_orders'' False\<rparr>)"

definition sampling_markets ::
    "decimal_ops \<Rightarrow> (string \<Rightarrow> string + nat \<times> string) \<Rightarrow> (string \<Rightarrow> json list option) \<Rightarrow> string \<Rightarrow>
     rest_error + market list" where
  "sampling_markets D http decode clob_url =
     and_then (get_text http (clob_url @ ''/sampling-markets'')) (\<lambda>body.
     and_then (decoded decode body) (\<lambda>rows. Inr (List.map_filter (\<lambda>v. ok (clob_market_to_domain D v)) rows)))"

definition top_markets ::
    "decimal_ops \<Rightarrow> (string \<Rightarrow> string list option) \<Rightarrow> (string \<Rightarrow> string + nat \<times> string) \<Rightarrow>
     (string \<Rightarrow> gamma_market list option) \<Rightarrow> string \<Rightarrow> nat \<Rightarrow> rest_error + market list" where
  "top_markets D nested http decode gamma_url limit =
     and_then (get_text http (gamma_url @ ''/markets?closed=false&order=volumeNum&ascending=false&limit='' @ nat_text limit))
       (\<lambda>body. and_then (decoded decode body) (\<lambda>rows.
         Inr (List.map_filter (\<lambda>g. ok (parse_gamma_market D nested g)) rows)))"

definition market_by_condition ::
    "decimal_ops \<Rightarrow> (string \<Rightarrow> string list option) \<Rightarrow> (string \<Rightarrow> string + nat \<times> string) \<Rightarrow>
     (string \<Rightarrow> gamma_market list option) \<Rightarrow> string \<Rightarrow> market_id \<Rightarrow> rest_error + market option" where
  "market_by_condition D nested http decode gamma_url i =
     and_then (get_text http (gamma_url @ ''/markets?condition_ids='' @ market_str i)) (\<lambda>body.
     and_then (decoded decode body) (\<lambda>rows.
       Inr (case rows of [] \<Rightarrow> None | g # _ \<Rightarrow> ok (parse_gamma_market D nested g))))"

subsection \<open>Properties\<close>

text \<open>The time of the last trade a list of messages carries.\<close>

fun last_trade :: "timestamp option \<Rightarrow> feed_message list \<Rightarrow> timestamp option" where
  "last_trade seen [] = seen"
| "last_trade seen (FeedTrade t # ms) = last_trade (Some (pt_source_ts t)) ms"
| "last_trade seen (_ # ms) = last_trade seen ms"

text \<open>Every loss of the connection reports the time of the last trade before it.\<close>

fun gaps_ok :: "timestamp option \<Rightarrow> feed_message list \<Rightarrow> bool" where
  "gaps_ok seen [] \<longleftrightarrow> True"
| "gaps_ok seen (FeedTrade t # ms) \<longleftrightarrow> gaps_ok (Some (pt_source_ts t)) ms"
| "gaps_ok seen (FeedUp _ # ms) \<longleftrightarrow> gaps_ok seen ms"
| "gaps_ok seen (FeedDown _ gap _ # ms) \<longleftrightarrow> gap = seen \<and> gaps_ok seen ms"

lemma last_trade_append: "last_trade seen (xs @ ys) = last_trade (last_trade seen xs) ys"
  by (induction seen xs rule: last_trade.induct) simp_all

lemma gaps_ok_append: "gaps_ok seen (xs @ ys) \<longleftrightarrow> gaps_ok seen xs \<and> gaps_ok (last_trade seen xs) ys"
  by (induction seen xs rule: gaps_ok.induct) auto

lemma feed_session_gaps:
  "feed_session parse seen evs = (ms, seen', r) \<Longrightarrow> gaps_ok seen ms \<and> last_trade seen ms = seen'"
  by (induction parse seen evs arbitrary: ms rule: feed_session.induct)
    (auto split: socket_event.splits if_splits sum.splits rtds_frame.splits prod.splits)

lemma feed_turn_gaps:
  "feed_turn parse C a = (C', ms, d) \<Longrightarrow>
     gaps_ok (fc_last_trade_at C) ms \<and> last_trade (fc_last_trade_at C) ms = fc_last_trade_at C'"
  by (cases a) (auto simp: feed_turn_def feed_wait_def Let_def gaps_ok_append last_trade_append
      split: prod.splits option.splits if_splits dest!: feed_session_gaps)

lemma feed_run_gaps: "gaps_ok (fc_last_trade_at C) (feed_run parse C attempts)"
proof (induction attempts arbitrary: C)
  case (Cons a attempts)
  obtain C' ms d where t: "feed_turn parse C a = (C', ms, d)" by (metis prod_cases3)
  from feed_turn_gaps [OF t] Cons [of C'] t show ?case
    by (simp add: gaps_ok_append split: option.splits)
qed simp

lemma gaps_ok_nth:
  "gaps_ok seen ms \<Longrightarrow> i < length ms \<Longrightarrow> ms ! i = FeedDown ts gap r \<Longrightarrow> gap = last_trade seen (take i ms)"
proof (induction seen ms arbitrary: i rule: gaps_ok.induct)
  case (2 seen t ms)
  then show ?case by (cases i) auto
next
  case (3 seen u ms)
  then show ?case by (cases i) auto
next
  case (4 seen u gap' v ms)
  then show ?case by (cases i) auto
qed simp


text \<open>Incomplete metadata never makes a market look tradable: the three flags must be there.\<close>

lemma bool_field_set: "bool_field v key (\<not> b) = b \<Longrightarrow> json_get v key = Some (JBool b)"
  by (cases "json_get v key") (auto simp: bool_field_def json_bool_def split: json.splits)

lemma tradable_needs_flags:
  assumes "clob_market_to_domain D v = Inr m" and "is_tradable m"
  shows "json_get v ''active'' = Some (JBool True) \<and> json_get v ''closed'' = Some (JBool False) \<and>
         json_get v ''accepting_orders'' = Some (JBool True)"
proof -
  have "bool_field v ''active'' False" "\<not> bool_field v ''closed'' True" "bool_field v ''accepting_orders'' False"
    using assms by (auto simp: clob_market_to_domain_def and_then_Inr is_tradable_def)
  then show ?thesis
    using bool_field_set [of v _ True] bool_field_set [of v _ False] by simp
qed

end
