(* ===== verification/Tasks.thy ===== *)
theory Tasks
  imports Feed
begin

section \<open>Background tasks (crates/app/src/tasks.rs, main.rs)\<close>

text \<open>
  What runs beside the pipeline, each turn of a loop as one operation on the shared state: recovery,
  the feed handler with its backfill, the two sources of books, housekeeping, the event log and the
  reconciler. Timers and the shutdown signal only say which turn comes next. \<open>paper\<close> is the handle
  to the simulated venue that \<open>main\<close> keeps beside the adapter: \<open>None\<close> in live mode, otherwise what a
  book does to the venue. The answers of the venue's clients are inputs.
\<close>

type_synonym 's paper_handle = "('s \<Rightarrow> order_book \<Rightarrow> 's \<times> fill list) option"

definition set_health :: "string \<Rightarrow> health_state \<Rightarrow> string \<Rightarrow> timestamp \<Rightarrow> 's app_state \<Rightarrow> 's app_state" where
  "set_health name st detail now A = A\<lparr>ap_health := health_set (ap_health A) name st detail now\<rparr>"

subsection \<open>Recovery after a restart\<close>

definition dedup_entries :: "decimal_ops \<Rightarrow> dedup_row list \<Rightarrow> (content_key \<times> nat \<times> timestamp) list" where
  "dedup_entries D rows = List.map_filter
     (\<lambda>r. map_option (\<lambda>k. (k, dr_occurrences r, dr_last_seen r)) (dedup_row_to_key D r)) rows"

definition recover ::
    "decimal_ops \<Rightarrow> (sizing_mode \<Rightarrow> sizing_mode option) \<Rightarrow> timestamp \<Rightarrow> 's app_state \<Rightarrow> 's app_state" where
  "recover D reread now A =
     (if is_ephemeral (ap_store A) then A
      else case recover_state reread (now - hours DEFAULT_RETENTION_HOURS) (ap_store A) of
        Inl _ \<Rightarrow> A
      | Inr r \<Rightarrow>
          (let cash = (case rv_cash r of Some c \<Rightarrow> c
                       | None \<Rightarrow> sc_starting_cash_usd (ac_simulation (ap_config A)));
               T1 = restore_dedup (ap_tracker A) (dedup_entries D (rv_dedup_entries r))
           in A\<lparr>ap_tracker := foldl upsert_wallet T1 (rv_wallets r),
                ap_portfolio := portfolio_restore D (ap_portfolio A) cash (rv_positions r)
                                  (rv_realized_pnl r) (rv_fees_paid r)\<rparr>))"

text \<open>The unresolved orders are counted for the log; the count is all that is done with them.\<close>

definition unresolved_orders :: "store \<Rightarrow> nat" where
  "unresolved_orders S =
     (case load_open_orders S of Inr os \<Rightarrow> length (filter needs_reconciliation os) | Inl _ \<Rightarrow> 0)"

definition warm_target_markets ::
    "(address \<Rightarrow> rest_error + parsed_trade list) \<Rightarrow> wallet_tracker \<Rightarrow> subscriptions \<Rightarrow> subscriptions \<times> nat" where
  "warm_target_markets answer T subs =
     foldl (\<lambda>acc w. case answer (tw_address w) of
              Inl _ \<Rightarrow> acc
            | Inr rows \<Rightarrow>
                foldl (\<lambda>(s, n) t. let (s', added) = subs_add s (pt_token_id t)
                                  in (s', if added then n + 1 else n)) acc rows)
       (subs, 0) (filter tw_enabled (list_wallets T))"

subsection \<open>The source feed\<close>

definition on_connected :: "timestamp \<Rightarrow> timestamp \<Rightarrow> 's app_state \<Rightarrow> 's app_state" where
  "on_connected t now A =
     bus_send (FeedReconnected ''rtds'' 0 t)
       (metric (\<lambda>M. M\<lparr>mt_feed_connected := 1\<rparr>) (set_health ''source_feed'' Healthy ''connected'' now A))"

definition on_disconnected ::
    "timestamp \<Rightarrow> timestamp option \<Rightarrow> string \<Rightarrow> timestamp \<Rightarrow> 's app_state \<Rightarrow> 's app_state" where
  "on_disconnected t seen reason now A =
     bus_send (FeedDisconnected ''rtds'' (case seen of Some g \<Rightarrow> g | None \<Rightarrow> t) t)
       (metric (\<lambda>M. M\<lparr>mt_feed_connected := 0, mt_feed_reconnects_total := counter_inc (mt_feed_reconnects_total M)\<rparr>)
         (set_health ''source_feed'' Down reason now A))"

definition set_tracker :: "wallet_tracker \<Rightarrow> 's pipeline \<Rightarrow> 's pipeline" where
  "set_tracker T = on_state (\<lambda>A. A\<lparr>ap_tracker := T\<rparr>)"

text \<open>One trade of the feed.\<close>

definition on_feed_trade ::
    "decimal_ops \<Rightarrow> (string \<Rightarrow> string) \<Rightarrow> 's pipe_env \<Rightarrow> call_inputs \<Rightarrow> correlation_id \<Rightarrow> timestamp \<Rightarrow>
     's pipeline \<Rightarrow> parsed_trade \<Rightarrow> 's pipeline" where
  "on_feed_trade D sha E ci corr now P t =
     (let P1 = on_state (\<lambda>A. mark_source_data now
            (metric (\<lambda>M. M\<lparr>mt_market_events_total := counter_inc (mt_market_events_total M)\<rparr>) A)) P;
          (T, det) = tracker_observe_live D sha (ap_tracker (pl_state P1)) t corr;
          P2 = set_tracker T P1
      in case det of
           NotTracked \<Rightarrow> P2
         | Skipped _ reason \<Rightarrow>
             on_state (\<lambda>A. metric (\<lambda>M. M\<lparr>mt_source_trades_skipped_total := counter_inc (mt_source_trades_skipped_total M),
                 mt_duplicates_suppressed_total :=
                   (if reason = DuplicateEvent then counter_inc (mt_duplicates_suppressed_total M)
                    else mt_duplicates_suppressed_total M)\<rparr>) A) P2
         | Actionable s \<Rightarrow> on_source_trade D E ci P2 s)"

text \<open>The rows of one wallet, and the wallets of a gap; each call has its own inputs.\<close>

definition backfill_row ::
    "decimal_ops \<Rightarrow> (string \<Rightarrow> string) \<Rightarrow> 's pipe_env \<Rightarrow> (nat \<Rightarrow> call_inputs \<times> correlation_id) \<Rightarrow>
     's pipeline \<times> batch_ordinals \<times> nat \<Rightarrow> nat \<times> parsed_trade \<Rightarrow> 's pipeline \<times> batch_ordinals \<times> nat" where
  "backfill_row D sha E ins acc row =
     (let (P, batch, count) = acc; (i, t) = row; (ci, corr) = ins i;
          (T, batch', det) = tracker_observe_backfill D sha (ap_tracker (pl_state P)) t batch corr;
          P1 = set_tracker T P
      in case det of
           Actionable s \<Rightarrow> (on_source_trade D E ci P1 s, batch', count + 1)
         | _ \<Rightarrow> (on_state (metric (\<lambda>M. M\<lparr>mt_duplicates_suppressed_total :=
                     counter_inc (mt_duplicates_suppressed_total M)\<rparr>)) P1, batch', count))"

definition backfill_wallet ::
    "decimal_ops \<Rightarrow> (string \<Rightarrow> string) \<Rightarrow> 's pipe_env \<Rightarrow> (address \<Rightarrow> nat \<Rightarrow> call_inputs \<times> correlation_id) \<Rightarrow>
     (address \<Rightarrow> rest_error + parsed_trade list) \<Rightarrow> 's pipeline \<times> nat \<Rightarrow> target_wallet \<Rightarrow> 's pipeline \<times> nat" where
  "backfill_wallet D sha E ins answer acc w =
     (case answer (tw_address w) of
        Inl _ \<Rightarrow> acc
      | Inr rows \<Rightarrow>
          (let (P, _, n) = foldl (backfill_row D sha E (ins (tw_address w))) (fst acc, [], snd acc)
                 (List.enumerate 0 rows)
           in (P, n)))"

definition backfill_gap ::
    "decimal_ops \<Rightarrow> (string \<Rightarrow> string) \<Rightarrow> 's pipe_env \<Rightarrow> (address \<Rightarrow> nat \<Rightarrow> call_inputs \<times> correlation_id) \<Rightarrow>
     (address \<Rightarrow> rest_error + parsed_trade list) \<Rightarrow> 's pipeline \<Rightarrow> 's pipeline \<times> nat" where
  "backfill_gap D sha E ins answer P =
     foldl (backfill_wallet D sha E ins answer) (P, 0) (filter tw_enabled (list_wallets (ap_tracker (pl_state P))))"

text \<open>What the handler does with a message; the gap is filled when the feed goes down.\<close>

record feed_inputs =
  fd_now :: timestamp
  fd_call :: call_inputs
  fd_corr :: correlation_id
  fd_rest :: "(timestamp \<Rightarrow> address \<Rightarrow> rest_error + parsed_trade list) option"
  fd_rows :: "address \<Rightarrow> nat \<Rightarrow> call_inputs \<times> correlation_id"
  fd_filled_at :: timestamp

definition on_feed_message ::
    "decimal_ops \<Rightarrow> (string \<Rightarrow> string) \<Rightarrow> 's pipe_env \<Rightarrow> feed_inputs \<Rightarrow> 's pipeline \<Rightarrow> feed_message \<Rightarrow> 's pipeline" where
  "on_feed_message D sha E fd P msg =
     (case msg of
        FeedUp t \<Rightarrow> on_state (on_connected t (fd_now fd)) P
      | FeedDown t seen reason \<Rightarrow>
          (let P1 = on_state (on_disconnected t seen reason (fd_now fd)) P
           in case fd_rest fd of
                None \<Rightarrow> P1
              | Some rest \<Rightarrow>
                  (let (P2, n) = backfill_gap D sha E (fd_rows fd) (rest (case seen of Some g \<Rightarrow> g | None \<Rightarrow> t)) P1
                   in if n > 0 then on_state (bus_send (FeedReconnected ''rtds-backfill'' n (fd_filled_at fd))) P2
                      else P2))
      | FeedTrade t \<Rightarrow> on_feed_trade D sha E (fd_call fd) (fd_corr fd) (fd_now fd) P t)"

subsection \<open>Books\<close>

definition count_market_event :: "'s app_state \<Rightarrow> 's app_state" where
  "count_market_event = metric (\<lambda>M. M\<lparr>mt_market_events_total := counter_inc (mt_market_events_total M)\<rparr>)"

definition mark_book :: "decimal_ops \<Rightarrow> order_book \<Rightarrow> timestamp \<Rightarrow> 's app_state \<Rightarrow> 's app_state" where
  "mark_book D b now A =
     (case book_mid D b of
        Some m \<Rightarrow> A\<lparr>ap_portfolio := portfolio_mark D (ap_portfolio A) (bk_token b) m now\<rparr>
      | None \<Rightarrow> A)"

text \<open>A fill of a resting order: the stream only counts it, the polling task also stores it.\<close>

definition resting_fill ::
    "decimal_ops \<Rightarrow> 's pipe_env \<Rightarrow> bool \<Rightarrow> timestamp \<Rightarrow> 's app_state \<Rightarrow> fill \<Rightarrow> 's app_state" where
  "resting_fill D E durable now A f =
     (case apply_external_fill D (ap_orders A) f of
        (om, Inl _) \<Rightarrow> A\<lparr>ap_orders := om\<rparr>
      | (om, Inr _) \<Rightarrow>
          (let A1 = metric (\<lambda>M. M\<lparr>mt_orders_filled_total := counter_inc (mt_orders_filled_total M)\<rparr>)
                 (A\<lparr>ap_orders := om,
                    ap_portfolio := fst (portfolio_apply_fill D (pe_ordinal E) (ap_portfolio A) f [] now)\<rparr>)
           in if durable then persist (insert_fill f) (persist_order_row (fi_order_id f) A1) else A1))"

definition offer_book ::
    "decimal_ops \<Rightarrow> 's pipe_env \<Rightarrow> 's paper_handle \<Rightarrow> bool \<Rightarrow> order_book \<Rightarrow> timestamp \<Rightarrow> 's app_state \<Rightarrow> 's app_state" where
  "offer_book D E paper durable b now A =
     (case paper of
        None \<Rightarrow> A
      | Some book_update \<Rightarrow>
          (let (v, fills) = book_update (ap_venue A) b
           in foldl (resting_fill D E durable now) (A\<lparr>ap_venue := v\<rparr>) fills))"

definition put_book :: "order_book \<Rightarrow> 's pipeline \<Rightarrow> 's pipeline" where
  "put_book b P = P\<lparr>pl_books := cache_put (pl_books P) b\<rparr>"

definition on_stream_book ::
    "decimal_ops \<Rightarrow> 's pipe_env \<Rightarrow> 's paper_handle \<Rightarrow> timestamp \<Rightarrow> 's pipeline \<Rightarrow> order_book \<Rightarrow> 's pipeline" where
  "on_stream_book D E paper now P b =
     on_state count_market_event (put_book b
       (on_state (\<lambda>A. offer_book D E paper False b now (mark_book D b now A)) P))"

definition on_polled_book ::
    "decimal_ops \<Rightarrow> 's pipe_env \<Rightarrow> 's paper_handle \<Rightarrow> timestamp \<Rightarrow> 's pipeline \<Rightarrow> order_book \<Rightarrow> 's pipeline" where
  "on_polled_book D E paper now P b =
     put_book b (on_state (\<lambda>A. offer_book D E paper True b now (mark_book D b now (count_market_event A))) P)"

record market_task =
  pk_tokens :: "token_id list"
  pk_seq :: nat

definition poll_token ::
    "decimal_ops \<Rightarrow> 's pipe_env \<Rightarrow> 's paper_handle \<Rightarrow> (token_id \<Rightarrow> nat \<Rightarrow> order_book option) \<Rightarrow> (nat \<Rightarrow> timestamp) \<Rightarrow>
     's pipeline \<times> nat \<times> nat \<Rightarrow> token_id \<Rightarrow> 's pipeline \<times> nat \<times> nat" where
  "poll_token D E paper answer clock acc token =
     (let (P, seq, good) = acc; seq' = seq + 1
      in case answer token seq' of
           Some b \<Rightarrow> (on_polled_book D E paper (clock seq') P b, seq', good + 1)
         | None \<Rightarrow> (P, seq', good))"

definition rotate_tokens :: "token_id list \<Rightarrow> token_id list" where
  "rotate_tokens ts = (let step = min 20 (length ts) in drop step ts @ take step ts)"

definition market_tick ::
    "decimal_ops \<Rightarrow> 's pipe_env \<Rightarrow> 's paper_handle \<Rightarrow> (token_id \<Rightarrow> nat \<Rightarrow> order_book option) \<Rightarrow> (nat \<Rightarrow> timestamp) \<Rightarrow>
     timestamp \<Rightarrow> market_task \<times> 's pipeline \<Rightarrow> market_task \<times> 's pipeline" where
  "market_tick D E paper answer clock now st =
     (let (K, P) = st;
          (P1, seq, good) = foldl (poll_token D E paper answer clock) (P, pk_seq K, 0) (take 20 (pk_tokens K));
          P2 = (if good > 0
                then on_state (set_health ''market_data'' Healthy (nat_text good @ '' books refreshed'') now) P1
                else if pk_tokens K \<noteq> []
                then on_state (set_health ''market_data'' Degraded ''no books refreshed'' now) P1
                else P1)
      in (\<lparr>pk_tokens = rotate_tokens (pk_tokens K), pk_seq = seq\<rparr>, P2))"

definition seed_markets ::
    "(rest_error \<Rightarrow> string) \<Rightarrow> rest_error + market list \<Rightarrow> timestamp \<Rightarrow> 's pipeline \<Rightarrow> market_task \<times> 's pipeline" where
  "seed_markets show answer now P =
     (case answer of
        Inr ms \<Rightarrow>
          (let seeds = take 40 (filter is_tradable ms);
               tokens = concat (map (map oc_token \<circ> mk_outcomes) seeds);
               P1 = on_state (\<lambda>A. foldl (\<lambda>B m. persist (upsert_market m) B) A seeds) P;
               P2 = P1\<lparr>pl_subs := map_option (\<lambda>s. subs_extend s (take (MAX_SUBSCRIBED_TOKENS div 2) tokens)) (pl_subs P1)\<rparr>
           in (\<lparr>pk_tokens = tokens, pk_seq = 0\<rparr>, on_state (set_health ''market_data'' Healthy ''seeded'' now) P2))
      | Inl e \<Rightarrow> (\<lparr>pk_tokens = [], pk_seq = 0\<rparr>, on_state (set_health ''market_data'' Degraded (show e) now) P))"

subsection \<open>The event log, housekeeping and reconciliation\<close>

definition is_logged :: "system_event \<Rightarrow> bool" where
  "is_logged e \<longleftrightarrow> is_critical e \<or> event_kind e \<in> set [''kill_switch_reset'', ''health_changed'', ''feed_reconnected'']"

definition log_event :: "'s app_state \<Rightarrow> system_event \<Rightarrow> 's app_state" where
  "log_event A e = (if is_logged e then persist (insert_system_event e) A else A)"

datatype tick_point = TkSnapshot | TkDatabase | TkExecution | TkExpire | TkAge | TkUptime | TkSilent

definition persist_books :: "decimal_ops \<Rightarrow> pnl_snapshot \<Rightarrow> 's app_state \<Rightarrow> 's app_state" where
  "persist_books D snap A =
     foldl (\<lambda>B p. persist (upsert_position p) B) (persist (insert_pnl_snapshot snap) A) (positions D (ap_portfolio A))"

definition SILENT_FEED_MS :: int where
  "SILENT_FEED_MS = 90000"

definition check_silence :: "(tick_point \<Rightarrow> timestamp) \<Rightarrow> 's app_state \<Rightarrow> 's app_state" where
  "check_silence clock A =
     (let silent = (\<lambda>detail. metric (\<lambda>M. M\<lparr>mt_feed_connected := 0\<rparr>)
            (set_health ''source_feed'' Degraded detail (clock TkSilent) A))
      in case source_data_age_ms A (clock TkAge) of
           Some age \<Rightarrow>
             (if age > SILENT_FEED_MS then silent (''connected but silent for '' @ int_text (age div 1000) @ ''s'') else A)
         | None \<Rightarrow>
             (if uptime_seconds A (clock TkUptime) > SILENT_FEED_MS div 1000
              then silent ''connected but no trade has ever arrived'' else A))"

definition housekeeping_tick ::
    "decimal_ops \<Rightarrow> (timestamp \<Rightarrow> nat) \<Rightarrow> string \<Rightarrow> (tick_point \<Rightarrow> timestamp) \<Rightarrow> 's app_state \<Rightarrow> 's app_state" where
  "housekeeping_tick D ordinal adapter_name clock A =
     (let snap = app_snapshot D ordinal A (clock TkSnapshot);
          A1 = bus_send (PnlUpdated snap) (persist_books D snap A);
          A2 = (if is_ephemeral (ap_store A1)
                then set_health ''database'' Degraded ''ephemeral: no durable audit'' (clock TkDatabase) A1
                else set_health ''database'' Healthy ''ok'' (clock TkDatabase) A1);
          A3 = set_health ''execution'' Healthy adapter_name (clock TkExecution) A2;
          A4 = A3\<lparr>ap_health := expire_stale (ap_health A3) (120 * 1000000000) (clock TkExpire)\<rparr>
      in check_silence clock A4)"

definition evict_tick :: "timestamp \<Rightarrow> 's app_state \<Rightarrow> 's app_state" where
  "evict_tick now A = A\<lparr>ap_tracker := evict_stale (ap_tracker A) now\<rparr>"

definition absolute_qty :: "rat \<Rightarrow> qty" where
  "absolute_qty x = (case ok (qty_new \<bar>x\<bar>) of Some q \<Rightarrow> q | None \<Rightarrow> 0)"

text \<open>The position query is answered by the adapter; \<open>t\<close> is the time of the report and of its events.\<close>

definition reconciliation_tick ::
    "decimal_ops \<Rightarrow> ('s \<Rightarrow> order_id \<Rightarrow> string option \<Rightarrow> 's \<times> (execution_error + unit)) \<Rightarrow>
     (order_id \<Rightarrow> timestamp \<times> timestamp) \<Rightarrow> execution_error + venue_position list \<Rightarrow> timestamp \<Rightarrow>
     's app_state \<Rightarrow> 's app_state" where
  "reconciliation_tick D cancel clock answer t A =
     (case answer of
        Inl _ \<Rightarrow> A
      | Inr venue \<Rightarrow>
          (let report = reconcile D (exposure_map (ap_portfolio A)) venue (1/1000000) t
           in if is_clean report then A
              else
                let A1 = metric (\<lambda>M. M\<lparr>mt_reconciliation_mismatches_total :=
                        counter_add (mt_reconciliation_mismatches_total M) (length (rr_mismatches report))\<rparr>) A;
                    A2 = foldl (\<lambda>B m. bus_send (ReconciliationMismatch (mm_token_id m) (absolute_qty (mm_internal m))
                                 (absolute_qty (mm_venue m)) t) B) A1 (rr_mismatches report)
                in if ap_mode A2 = LiveMode \<and> warrants_halt report 1 then
                     let reason = ''reconciliation mismatch: '' @ summary report;
                         A3 = metric (\<lambda>M. M\<lparr>mt_kill_switch_activations_total :=
                                  counter_inc (mt_kill_switch_activations_total M)\<rparr>)
                                (A2\<lparr>ap_kill_switch := engage (ap_kill_switch A2) reason ''reconciler'' t\<rparr>);
                         A4 = bus_send (KillSwitchActivated reason ''reconciler'' t) A3;
                         (om, v, _, _) = cancel_all cancel clock (ap_orders A4) (ap_venue A4)
                     in A4\<lparr>ap_orders := om, ap_venue := v\<rparr>
                   else A2))"

subsection \<open>Start and stop (main.rs)\<close>

text \<open>
  The state that \<open>run\<close> builds: the wallets of the configuration and of the demo, and a kill switch
  that is already engaged when the live adapter still misses something.
\<close>

fun joined :: "string \<Rightarrow> string list \<Rightarrow> string" where
  "joined sep [] = []"
| "joined sep [x] = x"
| "joined sep (x # y # xs) = x @ sep @ joined sep (y # xs)"

definition startup_switch :: "app_mode \<Rightarrow> string list \<Rightarrow> timestamp \<Rightarrow> kill_switch" where
  "startup_switch mode gaps now =
     (if is_live mode \<and> gaps \<noteq> [] then
        engage kill_switch_new (''live adapter not ready: '' @ joined '', '' gaps) ''startup'' now
      else kill_switch_new)"

definition initial_state ::
    "(timestamp \<Rightarrow> nat) \<Rightarrow> app_config \<Rightarrow> target_wallet list \<Rightarrow> string list \<Rightarrow> store \<Rightarrow> 's \<Rightarrow> timestamp \<Rightarrow> 's app_state" where
  "initial_state ordinal cfg demo_wallets gaps S v now = \<lparr>ap_last_source_data_ms = 0, ap_mode = ac_mode cfg,
     ap_config = cfg, ap_portfolio = portfolio_new ordinal (sc_starting_cash_usd (ac_simulation cfg)) now,
     ap_orders = om_new, ap_tracker = tracker_new (ac_wallets cfg @ demo_wallets),
     ap_kill_switch = startup_switch (ac_mode cfg) gaps now,
     ap_risk = engine_new (limits_from_config (ac_risk cfg) (lc_max_live_order_usd (ac_live cfg)) (is_live (ac_mode cfg)))
       (ac_mode cfg) (live_execution_armed cfg),
     ap_metrics = metrics_new, ap_health = health_new (app_mode_str (ac_mode cfg)), ap_store = S,
     ap_recent = recent_new 500, ap_started_at = now, ap_venue = v\<rparr>"

definition persist_wallets :: "'s app_state \<Rightarrow> 's app_state" where
  "persist_wallets A = foldl (\<lambda>B w. persist (save_wallet w) B) A (list_wallets (ap_tracker A))"

definition start ::
    "decimal_ops \<Rightarrow> (sizing_mode \<Rightarrow> sizing_mode option) \<Rightarrow> bool \<Rightarrow> timestamp \<Rightarrow> 's app_state \<Rightarrow> 's pipeline" where
  "start D reread rest now A =
     (let A1 = persist_wallets (recover D reread now A); cfg = ap_config A;
          trader = \<lparr>sg_max_slippage_bps = rc_max_slippage_bps (ac_risk cfg),
                    sg_max_book_age_ms = rc_max_market_data_age_ms (ac_risk cfg),
                    sg_allow_pricing_without_book = \<not> is_live (ac_mode cfg)\<rparr>;
          P = pipeline_new A1 trader []
      in with_subscriptions subs_new (if rest then with_rest P else P))"

definition shut_down :: "decimal_ops \<Rightarrow> (timestamp \<Rightarrow> nat) \<Rightarrow> timestamp \<Rightarrow> 's app_state \<Rightarrow> 's app_state" where
  "shut_down D ordinal now A = persist_books D (app_snapshot D ordinal A now) A"

end
