(* ===== verification/Desk.thy ===== *)
theory Desk
  imports Tasks
begin

section \<open>The desk and its venue\<close>

text \<open>
  The composition of the tasks with the simulated venue. Every operation that trades, books, marks
  or cleans up is one step of the machine \<open>paper_desk\<close>; the invariant is that the portfolio and the
  venue hold the same position in every token.
\<close>

subsection \<open>Net positions\<close>

definition net_of :: "portfolio \<Rightarrow> token_id \<Rightarrow> rat" where
  "net_of pf t = (case position_of pf t of Some p \<Rightarrow> ps_net_quantity p | None \<Rightarrow> 0)"

lemma net_of_exposure: "get_or (exposure_map pf) t 0 = net_of pf t"
  by (simp add: get_or_def get_def exposure_map_def net_of_def position_of_def map_of_map
      split: option.splits)

lemma keys_ok_exposure: "keys_ok (exposure_map pf) \<longleftrightarrow> keys_ok (pf_positions pf)"
  by (simp add: keys_ok_def exposure_map_def comp_def case_prod_beta)

lemma net_of_cong: "pf_positions pf = pf_positions pf' \<Longrightarrow> net_of pf t = net_of pf' t"
  by (simp add: net_of_def position_of_def)

lemma net_of_attribute [simp]:
  "net_of (attribute_order pf i w) t = net_of pf t"
  "pf_positions (attribute_order pf i w) = pf_positions pf"
  by (simp_all add: attribute_order_def net_of_def position_of_def)

lemma net_of_mark:
  "net_of (portfolio_mark D pf tok m now) t = net_of pf t"
  "keys_ok (pf_positions pf) \<Longrightarrow> keys_ok (pf_positions (portfolio_mark D pf tok m now))"
  by (auto simp: portfolio_mark_def net_of_def position_of_def adjust_def get_update split: option.splits)

context decimal_exact
begin

lemma net_of_fill:
  "net_of (fst (portfolio_apply_fill D ordinal pf f oc now)) t =
     net_of pf t + (if fi_token_id f = t then signed_qty f else 0)"
  "keys_ok (pf_positions pf) \<Longrightarrow> keys_ok (pf_positions (fst (portfolio_apply_fill D ordinal pf f oc now)))"
  by (auto simp: portfolio_apply_fill_def net_of_def position_of_def get_update book_position_def get_or_def
      position_apply_fields position_new_def signed_qty_def Let_def case_prod_beta split: option.splits)

lemma net_of_fills:
  "net_of (foldl (\<lambda>pf f. fst (portfolio_apply_fill D ordinal pf f oc now)) pf fs) t = net_of pf t + token_net t fs"
  by (induction fs arbitrary: pf) (simp_all add: net_of_fill)

lemma keys_of_fills:
  "keys_ok (pf_positions pf) \<Longrightarrow>
     keys_ok (pf_positions (foldl (\<lambda>pf f. fst (portfolio_apply_fill D ordinal pf f oc now)) pf fs))"
  by (induction fs arbitrary: pf) (simp_all add: net_of_fill)

text \<open>What an accepted submission does to the venue: exactly its fills, and an order that is not
  good-till-cancelled leaves nothing resting.\<close>

lemma submit_net:
  assumes "paper_submit D uuid c v r fx = (v', Inr a)"
  shows "get_or (pp_positions v') t 0 = get_or (pp_positions v) t 0 + token_net t (ak_immediate_fills a)"
    and "rq_time_in_force r \<noteq> Gtc \<Longrightarrow> pp_resting v' = pp_resting v"
    and "keys_ok (pp_positions v) \<Longrightarrow> keys_ok (pp_positions v')"
proof -
  obtain book where b: "cache_get c (rq_token_id r) = Some book"
    using assms by (auto simp: paper_submit_def split: option.splits)
  have "get_or (pp_positions v') t 0 = get_or (pp_positions v) t 0 + token_net t (ak_immediate_fills a) \<and>
      (rq_time_in_force r \<noteq> Gtc \<longrightarrow> pp_resting v' = pp_resting v) \<and>
      (keys_ok (pp_positions v) \<longrightarrow> keys_ok (pp_positions v'))"
  proof (cases "match_order D r book (pp_params v) (fx_draws fx)")
    case (SimFilled q p fee mk)
    obtain v1 f where rec: "record_fill D uuid v r q p fee mk fx = (v1, f)" by force
    have k: "keys_ok (pp_positions v) \<longrightarrow> keys_ok (pp_positions v1)"
      using rec by (auto simp: record_fill_def upsert_def split: option.splits)
    define v2 where "v2 = (if \<not> q \<ge> rq_quantity r \<and> rq_time_in_force r = Gtc
      then rest_order v1 r (qty_saturating_sub D (rq_quantity r) q) else v1)"
    have "v' = fst (next_venue_id v2)" "ak_immediate_fills a = [f]"
      using assms b SimFilled rec by (auto simp: paper_submit_def v2_def Let_def split: prod.splits)
    then show ?thesis
      using record_fill_net [OF rec, of t] record_fill_fields(1) [OF rec] k by (simp add: v2_def)
  next
    case SimResting
    then have "rq_time_in_force r = Gtc"
      by (auto simp: match_order_def Let_def split: if_splits option.splits time_in_force.splits prod.splits)
    with SimResting assms b show ?thesis
      by (auto simp: paper_submit_def Let_def rest_order_def next_venue_id_def split: prod.splits)
  qed (use assms b in \<open>auto simp: paper_submit_def\<close>)
  then show "get_or (pp_positions v') t 0 = get_or (pp_positions v) t 0 + token_net t (ak_immediate_fills a)"
    "rq_time_in_force r \<noteq> Gtc \<Longrightarrow> pp_resting v' = pp_resting v"
    "keys_ok (pp_positions v) \<Longrightarrow> keys_ok (pp_positions v')" by auto
qed

lemma paper_as_adapter:
  assumes "cache_ok c" and "\<And>i. fraction_draw D (dr_frac (fx_draws (fx i)))"
  shows "execution_adapter (\<lambda>_. True) (\<lambda>v r. paper_submit D uuid c v r (fx (rq_order_id r)))
           (\<lambda>v i _. paper_cancel v i)"
  using submit_ack_ok [OF assms(1) _ assms(2)] by unfold_locales auto

end

lemma om_submit_venue:
  assumes "om_get om i = Some o'" and "or_state o' = Validated"
    and "om_submit D uuid submit om v i t1 t2 clock = (om', v', out)"
  shows "v' = fst (submit v (or_request o'))"
  using assms by (auto simp: om_submit_def submit_begin_def transition_def state_tests Let_def
      split: prod.splits)

subsection \<open>A call of the pipeline\<close>

text \<open>Both sides hold the same, and nothing rests at the venue.\<close>

definition books_agree :: "paper app_state \<Rightarrow> bool" where
  "books_agree A \<longleftrightarrow> keys_ok (pf_positions (ap_portfolio A)) \<and> keys_ok (pp_positions (ap_venue A)) \<and>
     pp_resting (ap_venue A) = [] \<and>
     (\<forall>t. net_of (ap_portfolio A) t = get_or (pp_positions (ap_venue A)) t 0)"

lemma books_agree_cong:
  "ap_portfolio A = ap_portfolio B \<Longrightarrow> ap_venue A = ap_venue B \<Longrightarrow> books_agree A = books_agree B"
  by (simp add: books_agree_def)

lemma same_desk_agree: "same_desk A B \<Longrightarrow> books_agree A = books_agree B"
  by (rule books_agree_cong) (simp_all add: same_desk_def)

text \<open>The adapter of an environment is the simulated venue, with lawful draws.\<close>

definition paper_env :: "decimal_ops \<Rightarrow> paper pipe_env \<Rightarrow> bool" where
  "paper_env D E \<longleftrightarrow> (\<exists>fx. pe_submit E = (\<lambda>c v r. paper_submit D (pe_uuid E) c v r (fx (rq_order_id r))) \<and>
     (\<forall>i. fraction_draw D (dr_frac (fx_draws (fx i)))))"

definition call_ok :: "call_inputs \<Rightarrow> bool" where
  "call_ok ci \<longleftrightarrow> (\<forall>token seq b. ci_rest_book ci token seq = Some b \<longrightarrow> valid_levels b)"

context decimal_exact
begin

lemma execute_order_agrees:
  assumes E: "paper_env D E" and c: "cache_ok books" and A: "books_agree A"
    and r: "request_ok order" "rq_order_id order = ci_order_id ci" "rq_time_in_force order = Ioc"
  shows "books_agree (execute_order D E ci books t s order A)"
proof -
  obtain fx where fx: "pe_submit E = (\<lambda>c v r. paper_submit D (pe_uuid E) c v r (fx (rq_order_id r)))"
    "\<And>i. fraction_draw D (dr_frac (fx_draws (fx i)))" using E by (auto simp: paper_env_def)
  have q: "rq_quantity order \<noteq> 0" using r(1) by (simp add: request_ok_def)
  obtain om o' om' v out where x: "om_get om (rq_order_id order) = Some o'" "or_state o' = Validated"
    "order_id_of o' = rq_order_id order" "or_filled_qty o' = 0" "or_request o' = order"
    "om_submit D (pe_uuid E) (pe_submit E books) om (ap_venue A) (rq_order_id order) (ci_clock ci AtSubmit)
       (ci_clock ci AtVenue) (ci_fill_clock ci) = (om', v, out)"
    "ap_venue (execute_order D E ci books t s order A) = v"
    "ap_portfolio (execute_order D E ci books t s order A) =
       (let pf = attribute_order (ap_portfolio A) (rq_order_id order) (cs_target_wallet s)
        in case out of
             SubAcknowledged _ fs \<Rightarrow>
               foldl (\<lambda>pf f. fst (portfolio_apply_fill D (pe_ordinal E) pf f (cs_outcome s) (ci_clock ci AtFill))) pf fs
           | _ \<Rightarrow> pf)"
    by (rule execute_order_result [OF q r(2), of D E books A t s]) metis
  obtain res where sub: "paper_submit D (pe_uuid E) books (ap_venue A) order (fx (rq_order_id order)) = (v, res)"
    using om_submit_venue [OF x(1,2,6)] x(5) by (simp add: fx(1) prod_eq_iff)
  note L = execution_adapter.lawful_submit [OF paper_as_adapter [OF c fx(2)] decimal_additive_axioms TrueI x(1-4)
      _ x(6) [unfolded fx(1)]]
  show ?thesis
  proof (cases res)
    case (Inl e)
    then have "v = ap_venue A" using submit_refused sub by blast
    moreover have "\<not> (\<exists>i fs. out = SubAcknowledged i fs)"
      using L r(1) x(5) sub Inl by (auto split: if_splits)
    ultimately show ?thesis using A x(7,8)
      by (cases out) (simp_all add: books_agree_def)
  next
    case (Inr a)
    then have out: "out = SubAcknowledged (rq_order_id order) (ak_immediate_fills a)"
      using L r(1) x(5) sub by auto
    show ?thesis
      using A x(7,8) out submit_net [OF sub [unfolded Inr]] r(3)
      by (simp add: books_agree_def net_of_fills keys_of_fills)
  qed
qed

lemma built_order_ok:
  assumes "strategy_on_source_trade D tr t w book ctx tick now i = Inr s"
  shows "request_ok (build_order ci s tick')"
proof -
  obtain reference so where f: "cs_limit_price s = limit_price D reference (so_side t) (sg_max_slippage_bps tr) tick"
    "size_order D w (source_notional D t) (cs_limit_price s)
       (price_context D book (so_side t) (cs_limit_price s) ctx) = Inr so" "cs_copy_quantity s = sz_quantity so"
    using signal_fields [OF assms] by blast
  have v: "valid_price (cs_limit_price s)" unfolding f(1) by (simp add: limit_price_def Let_def)
  then have "0 < cs_limit_price s" by (simp add: valid_price_def)
  with size_order_bounds(1) [OF f(2)] v f(3) show ?thesis by (simp add: request_ok_def build_order_def)
qed

end

lemma book_for_cache:
  assumes "call_ok ci" and "cache_ok (pl_books P)"
  shows "cache_ok (pl_books (fst (book_for ci P token)))"
  using assms cache_ok_put
  by (auto simp: book_for_def follow_token_def call_ok_def Let_def split: option.splits)

definition desk_ok :: "paper pipeline \<Rightarrow> bool" where
  "desk_ok P \<longleftrightarrow> cache_ok (pl_books P) \<and> books_agree (pl_state P)"

lemma desk_ok_state:
  "desk_ok P \<Longrightarrow> books_agree (f (pl_state P)) \<Longrightarrow> desk_ok (on_state f P)"
  by (simp add: desk_ok_def on_state_def)

lemma desk_ok_keep:
  "desk_ok P \<Longrightarrow> (\<And>A. ap_portfolio (f A) = ap_portfolio A) \<Longrightarrow> (\<And>A. ap_venue (f A) = ap_venue A) \<Longrightarrow>
     desk_ok (on_state f P)"
  using books_agree_cong [of "f (pl_state P)" "pl_state P"] by (simp add: desk_ok_def on_state_def)

context decimal_exact
begin

lemma decide_agrees:
  assumes "paper_env D E" and "cache_ok books" and "books_agree A"
  shows "books_agree (decide D E ci tr books t w book A)"
proof (cases rule: decide_cases [of D E ci tr books t w book A])
  case skipped
  then show ?thesis using assms(3) same_desk_agree [OF skip_trade_desk(1)] by metis
next
  case (refused s tick r)
  then show ?thesis
    using assms(3) same_desk_agree [OF refuse_order_desk(1)] same_desk_agree [OF note_signal_desk(1)] by metis
next
  case (placed s tick)
  have "books_agree (note_signal D E ci t w s A)" using assms(3) same_desk_agree [OF note_signal_desk(1)] by metis
  from execute_order_agrees [OF assms(1,2) this built_order_ok [OF placed(1)]] placed(3) show ?thesis
    by (simp add: build_order_def)
qed

lemma on_source_trade_agrees:
  assumes "paper_env D E" and "call_ok ci" and "desk_ok P"
  shows "desk_ok (on_source_trade D E ci P t)"
proof -
  let ?P = "on_state (note_trade D t) P"
  have 1: "desk_ok ?P"
    using assms(3) by (rule desk_ok_keep) (simp_all add: note_simps)
  obtain P2 book where b: "book_for ci ?P (so_token_id t) = (P2, book)" by force
  have 2: "cache_ok (pl_books P2)" "pl_state P2 = pl_state ?P"
    using book_for_cache [OF assms(2), of ?P "so_token_id t"] book_for_state(1) [of ci ?P "so_token_id t"] 1
    unfolding b by (simp_all add: desk_ok_def)
  then have "desk_ok P2" using 1 by (simp add: desk_ok_def)
  then have "desk_ok (on_state (decide D E ci (pl_trader P2) (pl_books P2) t w book) P2)" for w
    by (rule desk_ok_state) (rule decide_agrees [OF assms(1) 2(1)], use 1 2 in \<open>simp add: desk_ok_def\<close>)
  with 1 b show ?thesis by (simp add: on_source_trade_def Let_def split: option.split)
qed

end

subsection \<open>The feed\<close>

lemma keep_fields [simp]:
  "ap_portfolio (set_health n st d now A) = ap_portfolio A" "ap_venue (set_health n st d now A) = ap_venue A"
  "ap_portfolio (mark_source_data now A) = ap_portfolio A" "ap_venue (mark_source_data now A) = ap_venue A"
  "ap_portfolio (on_connected t now A) = ap_portfolio A" "ap_venue (on_connected t now A) = ap_venue A"
  "ap_portfolio (on_disconnected t seen r now A) = ap_portfolio A"
  "ap_venue (on_disconnected t seen r now A) = ap_venue A"
  "ap_portfolio (count_market_event A) = ap_portfolio A" "ap_venue (count_market_event A) = ap_venue A"
  by (simp_all add: set_health_def mark_source_data_def on_connected_def on_disconnected_def
      count_market_event_def)

lemma set_tracker_ok: "desk_ok P \<Longrightarrow> desk_ok (set_tracker T P)"
  unfolding set_tracker_def by (erule desk_ok_keep) simp_all

lemma foldl_keep: "(\<And>a x. Q (g a) \<Longrightarrow> Q (g (f a x))) \<Longrightarrow> Q (g a) \<Longrightarrow> Q (g (foldl f a xs))"
  by (induction xs arbitrary: a) auto

text \<open>The inputs of a feed message are lawful.\<close>

definition feed_ok :: "feed_inputs \<Rightarrow> bool" where
  "feed_ok fd \<longleftrightarrow> call_ok (fd_call fd) \<and> (\<forall>w i. call_ok (fst (fd_rows fd w i)))"

context decimal_exact
begin

lemma on_feed_trade_agrees:
  assumes "paper_env D E" and "call_ok ci" and "desk_ok P"
  shows "desk_ok (on_feed_trade D sha E ci corr now P t)"
proof -
  define P1 where "P1 = on_state (\<lambda>A. mark_source_data now
    (metric (\<lambda>M. M\<lparr>mt_market_events_total := counter_inc (mt_market_events_total M)\<rparr>) A)) P"
  obtain T det where o': "tracker_observe_live D sha (ap_tracker (pl_state P1)) t corr = (T, det)" by force
  have "desk_ok P1" unfolding P1_def using assms(3) by (rule desk_ok_keep) simp_all
  then have 2: "desk_ok (set_tracker T P1)" by (rule set_tracker_ok)
  then have "desk_ok (on_state (\<lambda>A. metric f A) (set_tracker T P1))" for f by (rule desk_ok_keep) simp_all
  with 2 on_source_trade_agrees [OF assms(1,2) 2] show ?thesis
    unfolding on_feed_trade_def by (simp add: P1_def [symmetric] o' Let_def split: detection.split)
qed

lemma backfill_row_agrees:
  assumes "paper_env D E" and "\<And>i. call_ok (fst (ins i))" and "desk_ok (fst acc)"
  shows "desk_ok (fst (backfill_row D sha E ins acc row))"
proof -
  obtain P batch n where acc: "acc = (P, batch, n)" by (metis prod_cases3)
  obtain i t where row: "row = (i, t)" by force
  obtain ci corr where ins: "ins i = (ci, corr)" by force
  obtain T b det where o': "tracker_observe_backfill D sha (ap_tracker (pl_state P)) t batch corr = (T, b, det)"
    by (metis prod_cases3)
  have 2: "desk_ok (set_tracker T P)" using assms(3) acc by (simp add: set_tracker_ok)
  then have 3: "desk_ok (on_state (metric f) (set_tracker T P))" for f by (rule desk_ok_keep) simp_all
  have "call_ok ci" using assms(2) [of i] ins by simp
  from on_source_trade_agrees [OF assms(1) this 2] 3 show ?thesis
    by (simp add: backfill_row_def acc row ins o' Let_def split: detection.split)
qed

lemma backfill_gap_agrees:
  assumes "paper_env D E" and "\<And>w i. call_ok (fst (ins w i))" and "desk_ok P"
  shows "desk_ok (fst (backfill_gap D sha E ins answer P))"
proof -
  have "desk_ok (fst (backfill_wallet D sha E ins answer acc w))" if a: "desk_ok (fst acc)" for acc w
  proof (cases "answer (tw_address w)")
    case (Inr rows)
    have "desk_ok (fst (foldl (backfill_row D sha E (ins (tw_address w))) (fst acc, [], snd acc) xs))" for xs
      by (rule foldl_keep [of desk_ok fst]) (use assms(2) a in \<open>auto intro: backfill_row_agrees [OF assms(1)]\<close>)
    with Inr show ?thesis by (simp add: backfill_wallet_def split: prod.split) (metis fst_conv)
  qed (use a in \<open>simp add: backfill_wallet_def\<close>)
  then show ?thesis unfolding backfill_gap_def by (rule foldl_keep [of desk_ok fst]) (simp_all add: assms(3))
qed

lemma on_feed_message_agrees:
  assumes "paper_env D E" and "feed_ok fd" and "desk_ok P"
  shows "desk_ok (on_feed_message D sha E fd P msg)"
proof (cases msg)
  case (FeedTrade t)
  with on_feed_trade_agrees [OF assms(1) _ assms(3)] assms(2) show ?thesis
    by (simp add: on_feed_message_def feed_ok_def)
next
  case (FeedUp t)
  with assms(3) show ?thesis by (simp add: on_feed_message_def desk_ok_keep)
next
  case (FeedDown t seen reason)
  define P1 where "P1 = on_state (on_disconnected t seen reason (fd_now fd)) P"
  have 1: "desk_ok P1" unfolding P1_def using assms(3) by (rule desk_ok_keep) simp_all
  show ?thesis
  proof (cases "fd_rest fd")
    case (Some rest)
    obtain P2 n where g: "backfill_gap D sha E (fd_rows fd) (rest (case seen of Some g \<Rightarrow> g | None \<Rightarrow> t)) P1 = (P2, n)"
      by force
    have "desk_ok P2"
      using backfill_gap_agrees [OF assms(1) _ 1, of "fd_rows fd"] assms(2) g by (metis feed_ok_def fst_conv)
    then have "desk_ok (on_state (bus_send e) P2)" for e by (rule desk_ok_keep) simp_all
    with \<open>desk_ok P2\<close> Some FeedDown g show ?thesis
      by (simp add: on_feed_message_def P1_def [symmetric] Let_def)
  qed (use FeedDown 1 in \<open>simp add: on_feed_message_def P1_def Let_def\<close>)
qed

end

subsection \<open>Books, housekeeping and reconciliation\<close>

text \<open>The handle that \<open>main\<close> keeps to the simulated venue, and its cancellation.\<close>

definition paper_books :: "decimal_ops \<Rightarrow> (nat \<Rightarrow> string) \<Rightarrow> (order_id \<Rightarrow> fill_inputs) \<Rightarrow> paper paper_handle" where
  "paper_books D uuid fx = Some (\<lambda>v b. on_book_update D uuid v b fx)"

definition paper_cancels :: "paper \<Rightarrow> order_id \<Rightarrow> string option \<Rightarrow> paper \<times> (execution_error + unit)" where
  "paper_cancels v i venue_id = paper_cancel v i"

lemma offer_book_agrees:
  "books_agree A \<Longrightarrow> books_agree (offer_book D E (paper_books D uuid fx) durable b now A)"
  by (simp add: books_agree_def offer_book_def paper_books_def on_book_update_def resting_candidates_def Let_def)

lemma mark_book_agrees: "books_agree A \<Longrightarrow> books_agree (mark_book D b now A)"
  by (auto simp: books_agree_def mark_book_def net_of_mark split: option.split)

lemma put_book_ok: "desk_ok P \<Longrightarrow> valid_levels b \<Longrightarrow> desk_ok (put_book b P)"
  by (simp add: desk_ok_def put_book_def cache_ok_put)

lemma on_stream_book_agrees:
  assumes "desk_ok P" and "valid_levels b"
  shows "desk_ok (on_stream_book D E (paper_books D uuid fx) now P b)"
proof -
  have "desk_ok (on_state (\<lambda>A. offer_book D E (paper_books D uuid fx) False b now (mark_book D b now A)) P)"
    using assms(1) by (intro desk_ok_state) (simp_all add: offer_book_agrees mark_book_agrees desk_ok_def)
  from desk_ok_keep [OF put_book_ok [OF this assms(2)], of count_market_event] show ?thesis
    by (simp add: on_stream_book_def)
qed

lemma on_polled_book_agrees:
  assumes "desk_ok P" and "valid_levels b"
  shows "desk_ok (on_polled_book D E (paper_books D uuid fx) now P b)"
proof -
  have "books_agree (count_market_event (pl_state P))"
    using assms(1) books_agree_cong [of "count_market_event (pl_state P)" "pl_state P"] by (simp add: desk_ok_def)
  then show ?thesis unfolding on_polled_book_def
    by (intro put_book_ok desk_ok_state assms offer_book_agrees mark_book_agrees)
qed

lemma market_tick_agrees:
  assumes "desk_ok P" and "\<And>token seq b. answer token seq = Some b \<Longrightarrow> valid_levels b"
    and "market_tick D E (paper_books D uuid fx) answer clock now (K, P) = (K', P')"
  shows "desk_ok P'"
proof -
  obtain P1 seq n where p: "foldl (poll_token D E (paper_books D uuid fx) answer clock) (P, pk_seq K, 0)
      (take 20 (pk_tokens K)) = (P1, seq, n)" by (metis prod_cases3)
  have "desk_ok (fst (foldl (poll_token D E (paper_books D uuid fx) answer clock) (P, pk_seq K, 0) ts))" for ts
    by (rule foldl_keep [of desk_ok fst])
      (auto simp: poll_token_def assms Let_def intro!: on_polled_book_agrees split: prod.splits option.splits)
  then have "desk_ok P1" using p by (metis fst_conv)
  moreover from this have "desk_ok (on_state (set_health h st d now) P1)" for h st d
    by (rule desk_ok_keep) simp_all
  ultimately show ?thesis using assms(3) p by (auto simp: market_tick_def Let_def split: if_splits)
qed

lemma persist_list_keep:
  "ap_portfolio (foldl (\<lambda>B x. persist (f x) B) A xs) = ap_portfolio A \<and>
   ap_venue (foldl (\<lambda>B x. persist (f x) B) A xs) = ap_venue A"
  by (induction xs arbitrary: A) simp_all

lemma seed_markets_agrees:
  "desk_ok P \<Longrightarrow> seed_markets show answer now P = (K, P') \<Longrightarrow> desk_ok P'"
  by (auto simp: seed_markets_def Let_def on_state_def desk_ok_def persist_list_keep
      cong: books_agree_cong split: sum.splits)

lemma check_silence_keep [simp]:
  "ap_portfolio (check_silence clock A) = ap_portfolio A" "ap_venue (check_silence clock A) = ap_venue A"
  by (simp_all add: check_silence_def Let_def split: option.split)

lemma housekeeping_keep [simp]:
  "ap_portfolio (housekeeping_tick D ordinal name clock A) = ap_portfolio A"
  "ap_venue (housekeeping_tick D ordinal name clock A) = ap_venue A"
  by (simp_all add: housekeeping_tick_def persist_books_def persist_list_keep Let_def)

lemma log_event_keep [simp]:
  "ap_portfolio (log_event A e) = ap_portfolio A" "ap_venue (log_event A e) = ap_venue A"
  by (simp_all add: log_event_def)

text \<open>With nothing resting, cancelling everything finds nothing at the venue.\<close>

lemma cancel_all_venue:
  assumes "pp_resting v = []"
  shows "fst (snd (cancel_all paper_cancels clock om v)) = v"
proof -
  have "fst (snd (cancel_all_step paper_cancels clock acc o')) = v" if "fst (snd acc) = v" for acc o'
    using that assms by (auto simp: cancel_all_step_def om_cancel_def paper_cancels_def paper_cancel_def get_def
        Let_def split: prod.splits sum.splits)
  then show ?thesis unfolding cancel_all_def by (intro foldl_keep [of "\<lambda>x. x = v" "\<lambda>acc. fst (snd acc)"]) auto
qed

lemma bus_list_keep:
  "ap_portfolio (foldl (\<lambda>B x. bus_send (f x) B) A xs) = ap_portfolio A \<and>
   ap_venue (foldl (\<lambda>B x. bus_send (f x) B) A xs) = ap_venue A"
  by (induction xs arbitrary: A) simp_all

lemma reconciliation_agrees:
  assumes "books_agree A"
  shows "books_agree (reconciliation_tick D paper_cancels clock answer t A)"
proof -
  have "ap_portfolio (reconciliation_tick D paper_cancels clock answer t A) = ap_portfolio A \<and>
      ap_venue (reconciliation_tick D paper_cancels clock answer t A) = ap_venue A"
  proof (cases answer)
    case (Inr venue)
    define r where "r = reconcile D (exposure_map (ap_portfolio A)) venue (1/1000000) t"
    define A2 where "A2 = foldl (\<lambda>B m. bus_send (ReconciliationMismatch (mm_token_id m) (absolute_qty (mm_internal m))
        (absolute_qty (mm_venue m)) t) B)
      (metric (\<lambda>M. M\<lparr>mt_reconciliation_mismatches_total :=
         counter_add (mt_reconciliation_mismatches_total M) (length (rr_mismatches r))\<rparr>) A) (rr_mismatches r)"
    have 2: "ap_portfolio A2 = ap_portfolio A" "ap_venue A2 = ap_venue A" by (simp_all add: A2_def bus_list_keep)
    define A4 where "A4 = bus_send (KillSwitchActivated (''reconciliation mismatch: '' @ summary r) ''reconciler'' t)
      (metric (\<lambda>M. M\<lparr>mt_kill_switch_activations_total := counter_inc (mt_kill_switch_activations_total M)\<rparr>)
        (A2\<lparr>ap_kill_switch := engage (ap_kill_switch A2) (''reconciliation mismatch: '' @ summary r) ''reconciler'' t\<rparr>))"
    have 4: "ap_portfolio A4 = ap_portfolio A" "ap_venue A4 = ap_venue A" by (simp_all add: A4_def 2)
    obtain om v n m where c: "cancel_all paper_cancels clock (ap_orders A4) (ap_venue A4) = (om, v, n, m)"
      by (metis prod_cases4)
    have "pp_resting (ap_venue A) = []" using assms by (simp add: books_agree_def)
    from cancel_all_venue [OF this, of clock "ap_orders A4"] c have v: "v = ap_venue A" by (simp add: 4)
    have "reconciliation_tick D paper_cancels clock answer t A =
        (if is_clean r then A
         else if ap_mode A2 = LiveMode \<and> warrants_halt r 1 then A4\<lparr>ap_orders := om, ap_venue := v\<rparr> else A2)"
      unfolding reconciliation_tick_def Inr sum.case Let_def r_def [symmetric] A2_def [symmetric]
        A4_def [symmetric] c prod.case ..
    then show ?thesis by (simp add: 2 4 v)
  qed (simp add: reconciliation_tick_def)
  then show ?thesis using assms books_agree_cong by blast
qed

definition reset_desk :: "(timestamp \<Rightarrow> nat) \<Rightarrow> timestamp \<Rightarrow> paper app_state \<Rightarrow> paper app_state" where
  "reset_desk ordinal now A =
     A\<lparr>ap_venue := paper_reset (ap_venue A), ap_portfolio := portfolio_reset ordinal (ap_portfolio A) now\<rparr>"

lemma reset_agrees: "books_agree (reset_desk ordinal now A)"
  by (simp add: books_agree_def reset_desk_def paper_reset_def portfolio_reset_def net_of_def position_of_def
      get_or_def get_def keys_ok_def)

subsection \<open>The machine\<close>

text \<open>
  A desk starts with an empty portfolio and an empty venue. A setting replaces what an operator may
  change: the tracked wallets, the kill switch and the risk engine.
\<close>

definition new_settings :: "wallet_tracker \<Rightarrow> kill_switch \<Rightarrow> risk_engine \<Rightarrow> 's app_state \<Rightarrow> 's app_state" where
  "new_settings T K R A = A\<lparr>ap_tracker := T, ap_kill_switch := K, ap_risk := R\<rparr>"

inductive paper_desk :: "decimal_ops \<Rightarrow> paper pipeline \<Rightarrow> bool" for D where
  opened: "pf_positions (ap_portfolio (pl_state P)) = [] \<Longrightarrow> pp_positions (ap_venue (pl_state P)) = [] \<Longrightarrow>
     pp_resting (ap_venue (pl_state P)) = [] \<Longrightarrow> pl_books P = [] \<Longrightarrow> paper_desk D P"
| traded: "paper_desk D P \<Longrightarrow> paper_env D E \<Longrightarrow> call_ok ci \<Longrightarrow> paper_desk D (on_source_trade D E ci P t)"
| message: "paper_desk D P \<Longrightarrow> paper_env D E \<Longrightarrow> feed_ok fd \<Longrightarrow> paper_desk D (on_feed_message D sha E fd P msg)"
| streamed: "paper_desk D P \<Longrightarrow> valid_levels b \<Longrightarrow>
     paper_desk D (on_stream_book D E (paper_books D uuid fx) now P b)"
| polled: "paper_desk D P \<Longrightarrow> (\<And>token seq b. answer token seq = Some b \<Longrightarrow> valid_levels b) \<Longrightarrow>
     market_tick D E (paper_books D uuid fx) answer clock now (K, P) = (K', P') \<Longrightarrow> paper_desk D P'"
| seeded: "paper_desk D P \<Longrightarrow> seed_markets show answer now P = (K, P') \<Longrightarrow> paper_desk D P'"
| housekept: "paper_desk D P \<Longrightarrow> paper_desk D (on_state (housekeeping_tick D ordinal name tclock) P)"
| evicted: "paper_desk D P \<Longrightarrow> paper_desk D (on_state (evict_tick now) P)"
| logged: "paper_desk D P \<Longrightarrow> paper_desk D (on_state (\<lambda>A. log_event A e) P)"
| reconciled: "paper_desk D P \<Longrightarrow>
     paper_desk D (on_state (reconciliation_tick D paper_cancels cclock venue now) P)"
| set_up: "paper_desk D P \<Longrightarrow> paper_desk D (on_state (new_settings T K R) P)"
| reset: "paper_desk D P \<Longrightarrow> paper_desk D (on_state (reset_desk ordinal now) P)"

lemma paper_desk_ok:
  assumes "decimal_exact D" and "paper_desk D P"
  shows "desk_ok P"
  using assms(2)
proof induction
  case (opened P)
  then show ?case
    by (simp add: desk_ok_def books_agree_def cache_ok_def cache_get_def get_def net_of_def position_of_def
        get_or_def keys_ok_def)
next
  case (traded P E ci t)
  then show ?case using decimal_exact.on_source_trade_agrees [OF assms(1)] by blast
next
  case (message P E fd sha msg)
  then show ?case using decimal_exact.on_feed_message_agrees [OF assms(1)] by blast
next
  case (streamed P b E uuid fx now)
  then show ?case by (intro on_stream_book_agrees)
next
  case (polled P answer E uuid fx clock now K K' P')
  then show ?case using market_tick_agrees by blast
next
  case (seeded P sh answer now K P')
  then show ?case using seed_markets_agrees by blast
next
  case (reconciled P cclock venue now)
  then show ?case by (intro desk_ok_state reconciliation_agrees) (simp_all add: desk_ok_def)
next
  case (reset P ordinal now)
  then show ?case by (intro desk_ok_state reset_agrees)
next
  case (evicted P now)
  from this(2) show ?case by (rule desk_ok_keep) (simp_all add: evict_tick_def)
next
  case (set_up P T K R)
  from this(2) show ?case by (rule desk_ok_keep) (simp_all add: new_settings_def)
next
  case (housekept P ordinal name tclock)
  from this(2) show ?case by (rule desk_ok_keep) simp_all
next
  case (logged P e)
  from this(2) show ?case by (rule desk_ok_keep) simp_all
qed

text \<open>What the reconciler sees of the venue is the absolute position.\<close>

lemma venue_map_paper:
  assumes "keys_ok (pp_positions v)"
  shows "get_or (venue_map (paper_positions v)) t 0 = \<bar>get_or (pp_positions v) t 0\<bar>"
proof -
  have abs: "(case ok (qty_new \<bar>q\<bar>) of Some a \<Rightarrow> a | None \<Rightarrow> 0) = \<bar>q\<bar>" for q :: rat
    by (simp add: qty_new_def)
  have "get_or (foldl (\<lambda>m p. AList.update (vp_token_id p) (vp_quantity p) m) m0
      (map (\<lambda>(t, q). \<lparr>vp_token_id = t, vp_quantity = \<bar>q\<bar>\<rparr>) (filter (\<lambda>(_, q). q \<noteq> 0) xs))) t 0 =
      (if get_or xs t 0 = 0 then get_or m0 t 0 else \<bar>get_or xs t 0\<bar>)" if "keys_ok xs" for xs m0
    using that
  proof (induction xs arbitrary: m0)
    case (Cons x xs)
    obtain k q where x: "x = (k, q)" by force
    have "get xs k = None" using Cons.prems x
      by (simp add: keys_ok_def get_def map_of_eq_None_iff)
    with Cons x show ?case
      by (auto simp: get_or_def get_update keys_ok_def) (auto simp: get_def)
  qed (simp add: get_or_def get_def)
  from this [OF assms, of "[]"] show ?thesis
    by (auto simp: venue_map_def paper_positions_def abs case_prod_beta get_or_def get_def)
qed

subsection \<open>Properties\<close>


text \<open>A copied trade: 160 shares at 0.61, of which the book has 100.\<close>

definition copied_trade :: source_trade where
  "copied_trade = sample_source\<lparr>so_price := 61/100\<rparr>"

definition desk_venue :: paper where
  "desk_venue = paper_new (sample_params\<lparr>mp_fill_probability := 1\<rparr>) 0 0"

definition desk_env :: "paper pipe_env" where
  "desk_env = \<lparr>pe_ordinal = (\<lambda>_. 0), pe_uuid = (\<lambda>_. []),
     pe_submit = (\<lambda>c v r. paper_submit exact_decimal (\<lambda>_. []) c v r sample_inputs)\<rparr>"

definition desk_call :: call_inputs where
  "desk_call = sample_call\<lparr>ci_rest_book := (\<lambda>_ _. Some sample_book)\<rparr>"

definition open_desk :: "paper pipeline" where
  "open_desk = with_rest (pipeline_new (sample_state desk_venue) strategy_default [])"

lemma copied_fields:
  "so_price copied_trade = 61/100" "so_quantity copied_trade = 2000" "so_side copied_trade = Buy"
  "so_trader copied_trade = Address ''w''" "so_token_id copied_trade = TokenId ''7''"
  "so_market_id copied_trade = MarketId ''m''" "source_notional exact_decimal copied_trade = 1220"
  using sample_source_fields by (simp_all add: copied_trade_def source_notional_def qty_notional_def)

lemma copied_limit: "limit_price exact_decimal (61/100) Buy 50 (1/100) = 61/100"
  by (simp add: limit_price_def price_saturating_def clamp_def PRICE_MIN_def PRICE_MAX_def
      price_round_to_tick_def d_floor_def Let_def)

lemma copied_book:
  "bk_tick_size sample_book = 1/100" "bk_min_order_size sample_book = 5" "bk_timestamp sample_book = 0"
  "bk_token sample_book = TokenId ''7''" "map_option lv_price (best_ask sample_book) = Some (61/100)"
  "notional_within exact_decimal sample_book Buy (61/100) = 61"
  "sweep_vwap exact_decimal sample_book Buy 160 (61/100) = Some (61/100, 100)"
  by (simp_all add: sample_book_def best_ask_def first_level_def notional_within_def taking_side_def
      within_limit_def d_sum_def qty_notional_def sweep_vwap_def valid_price_def valid_qty_def Let_def)

lemma copied_sizing:
  "sizing_context_of exact_decimal desk_env desk_call (sample_state v) copied_trade =
     \<lparr>sx_equity = 10000, sx_current_market_exposure = 0, sx_max_position_usd = 1000,
       sx_max_trade_usd = 100, sx_min_trade_usd = 5, sx_available_liquidity = 0,
       sx_remaining_daily_risk = 100, sx_min_order_size = 0\<rparr>"
  by (simp add: sizing_context_of_def app_snapshot_def snapshot_def sample_portfolio_values daily_pnl_def
      sample_portfolio Let_def) (simp add: sample_state_def engine_new_def limits_default_def
      limits_from_config_def risk_default_def)

lemma copied_signal:
  "\<exists>s. strategy_on_source_trade exact_decimal strategy_default copied_trade sample_wallet (Some sample_book)
      (sizing_context_of exact_decimal desk_env desk_call (sample_state v) copied_trade) (1/100) 9 7 = Inr s \<and>
    cs_copy_quantity s = 160 \<and> cs_limit_price s = 61/100 \<and> cs_side s = Buy \<and> cs_target_price s = 61/100 \<and>
    cs_token_id s = TokenId ''7'' \<and> cs_market_id s = MarketId ''m''"
proof -
  have "size_order exact_decimal sample_wallet 1220 (61/100)
      (price_context exact_decimal (Some sample_book) Buy (61/100)
        (sizing_context_of exact_decimal desk_env desk_call (sample_state v) copied_trade)) =
    Inr \<lparr>sz_quantity = 160, sz_notional = 488/5, sz_mode = ''fixed_ratio'',
          sz_binding_constraint = Some ''wallet_max_trade''\<rparr>"
    by (simp add: size_order_def copied_sizing price_context_def sample_wallet_def target_wallet_new_def
        default_sizing_mode_def finish_size_def usd_shares_at_def qty_floor_to_def qty_notional_def
        d_floor_def copied_book Let_def)
  then show ?thesis
    by (simp add: strategy_on_source_trade_def reference_price_def strategy_default_def
        copied_fields copied_limit copied_book num_milliseconds_def tdiv_def Let_def)
qed

lemma copied_verdict:
  assumes "cs_copy_quantity s = 160" and "cs_limit_price s = 61/100" and "cs_side s = Buy" and "cs_target_price s = 61/100"
  shows "pipe_verdict exact_decimal desk_env desk_call (sample_state v) (build_order desk_call s tick)
           (Some sample_book) sample_wallet = Approved"
  unfolding pipe_verdict_def check_Approved check_gates_Approved check_amounts_Approved check_market_Approved
  by (simp add: risk_snapshot_of_def app_snapshot_def snapshot_def sample_portfolio_values daily_pnl_def
      sample_portfolio first_problem_def request_notional_def qty_notional_def build_order_def assms copied_book
      num_milliseconds_def tdiv_def bps_slippage_def Let_def)
    (simp add: sample_state_def engine_new_def limits_default_def limits_from_config_def risk_default_def
      kill_switch_new_def is_live_def sample_wallet_def target_wallet_new_def desk_env_def desk_call_def
      sample_call_def copied_book)

lemma copied_fill:
  assumes "rq_quantity r = 160" and "rq_limit_price r = 61/100" and "rq_side r = Buy"
    and "rq_order_type r = MarketOrder" and "rq_token_id r = TokenId ''7''" and "rq_time_in_force r = Ioc"
  shows "get_or (pp_positions (fst (paper_submit exact_decimal (\<lambda>_. []) [(TokenId ''7'', sample_book)] desk_venue r
           sample_inputs))) (TokenId ''7'') 0 = 100"
proof -
  have "match_order exact_decimal r sample_book (sample_params\<lparr>mp_fill_probability := 1\<rparr>) sample_draws =
      SimFilled 100 (61/100) 0 False"
    by (simp add: match_order_def sample_params_def sample_draws_def assms copied_book is_marketable_def
        clip_to_limit_def apply_slippage_def fill_fee_def qty_notional_def Let_def)
  then show ?thesis
    by (simp add: paper_submit_def cache_get_def get_def desk_venue_def paper_new_def sample_inputs_def
        record_fill_def rest_order_def next_venue_id_def upsert_def get_or_def assms Let_def split: prod.split)
qed

lemma open_desk_call:
  "pl_state (on_source_trade exact_decimal desk_env desk_call open_desk copied_trade) =
     decide exact_decimal desk_env desk_call strategy_default [(TokenId ''7'', sample_book)] copied_trade
       sample_wallet (Some sample_book) (note_trade exact_decimal copied_trade (sample_state desk_venue))"
proof -
  have "get_wallet (ap_tracker (sample_state desk_venue)) (Address ''w'') = Some sample_wallet"
    using sample_observations(1) by (simp add: sample_state_def get_wallet_def)
  moreover have "cache_put [] sample_book = [(TokenId ''7'', sample_book)]"
    by (simp add: cache_put_def copied_book)
  ultimately show ?thesis
    by (simp add: on_source_trade_def on_state_def open_desk_def with_rest_def pipeline_new_def book_for_def
        cache_get_def get_def [of "[]"] follow_token_def copied_fields note_simps desk_call_def Let_def)
qed

lemma open_desk_copied:
  "get_or (pp_positions (ap_venue (pl_state (on_source_trade exact_decimal desk_env desk_call open_desk copied_trade))))
     (TokenId ''7'') 0 = 100"
proof -
  let ?N = "note_trade exact_decimal copied_trade (sample_state desk_venue)"
  let ?c = "[(TokenId ''7'', sample_book)]"
  obtain s where s: "strategy_on_source_trade exact_decimal strategy_default copied_trade sample_wallet (Some sample_book)
      (sizing_context_of exact_decimal desk_env desk_call (sample_state desk_venue) copied_trade) (1/100) 9 7 = Inr s"
    "cs_copy_quantity s = 160" "cs_limit_price s = 61/100" "cs_side s = Buy" "cs_target_price s = 61/100"
    "cs_token_id s = TokenId ''7''" using copied_signal by blast
  let ?r = "build_order desk_call s (1/100)" and ?S = "note_signal exact_decimal desk_env desk_call copied_trade sample_wallet s ?N"
  have v: "pipe_verdict exact_decimal desk_env desk_call ?S ?r (Some sample_book) sample_wallet = Approved"
    unfolding copied_verdict [OF s(2-5), of desk_venue "1/100", symmetric]
    by (rule same_desk_verdict) (simp_all add: same_desk_def note_simps insert_signal_def exec_ephemeral)
  have eq: "pl_state (on_source_trade exact_decimal desk_env desk_call open_desk copied_trade) =
      execute_order exact_decimal desk_env desk_call ?c copied_trade s ?r ?S"
    unfolding open_desk_call using s(1) v
    by (simp add: decide_def note_trade_context copied_book Let_def) (simp add: desk_call_def sample_call_def)
  have r: "rq_quantity ?r \<noteq> 0" "rq_order_id ?r = ci_order_id desk_call" by (simp_all add: build_order_def s)
  obtain om o' om' w out where x: "om_get om (rq_order_id ?r) = Some o'" "or_state o' = Validated" "or_request o' = ?r"
    "om_submit exact_decimal (pe_uuid desk_env) (pe_submit desk_env ?c) om (ap_venue ?S) (rq_order_id ?r)
       (ci_clock desk_call AtSubmit) (ci_clock desk_call AtVenue) (ci_fill_clock desk_call) = (om', w, out)"
    "ap_venue (execute_order exact_decimal desk_env desk_call ?c copied_trade s ?r ?S) = w"
    by (rule execute_order_result [OF r, of exact_decimal desk_env ?c ?S copied_trade s]) metis
  have "ap_venue ?S = desk_venue" by (simp add: note_simps sample_state_def)
  then have "w = fst (paper_submit exact_decimal (\<lambda>_. []) ?c desk_venue ?r sample_inputs)"
    using om_submit_venue [OF x(1,2,4)] x(3) by (simp add: desk_env_def)
  with copied_fill [of ?r] x(5) show ?thesis by (simp add: eq build_order_def s)
qed


end
