(* ===== verification/Views.thy ===== *)
theory Views
  imports Desk
begin

section \<open>What the HTTP interface shows (crates/api/src/handlers.rs)\<close>

text \<open>
  The bodies of the read endpoints, field by field. The text of a UUID and of a time stamp, the day of
  a time stamp and the text of a float are parameters, collected in \<open>api_env\<close> with what the adapter
  says of itself. The order of the keys is that of the source; a decimal is shown as its value.
\<close>

record api_env =
  ae_time :: "timestamp \<Rightarrow> string"
  ae_uuid :: "nat \<Rightarrow> string"
  ae_ordinal :: "timestamp \<Rightarrow> nat"
  ae_show_f64 :: "rat \<Rightarrow> string"
  ae_debug :: "string \<Rightarrow> string"
  ae_adapter_name :: string
  ae_capabilities :: adapter_capabilities

subsection \<open>Serialised records\<close>

definition json_opt :: "('a \<Rightarrow> json) \<Rightarrow> 'a option \<Rightarrow> json" where
  "json_opt f x = (case x of Some a \<Rightarrow> f a | None \<Rightarrow> JNull)"

definition time_json :: "api_env \<Rightarrow> timestamp \<Rightarrow> json" where
  "time_json W t = JStr (ae_time W t)"

definition float_json :: "rat \<Rightarrow> json" where
  "float_json x = JFloat (Finite x)"

definition millis_json :: "int \<Rightarrow> json" where
  "millis_json us = float_json (millis us)"

definition nat_json :: "nat \<Rightarrow> json" where
  "nat_json n = JInt (int n)"

fun health_state_json :: "health_state \<Rightarrow> json" where
  "health_state_json Healthy = JStr ''HEALTHY''"
| "health_state_json Degraded = JStr ''DEGRADED''"
| "health_state_json Down = JStr ''DOWN''"

definition component_json :: "api_env \<Rightarrow> component_status \<Rightarrow> json" where
  "component_json W c = JObj
     [(''name'', JStr (co_name c)), (''state'', health_state_json (co_state c)), (''detail'', JStr (co_detail c)),
      (''last_ok'', json_opt (time_json W) (co_last_ok c)), (''last_change'', time_json W (co_last_change c))]"

definition health_report_json :: "api_env \<Rightarrow> health_report \<Rightarrow> json" where
  "health_report_json W r = JObj
     [(''state'', health_state_json (hr_state r)), (''components'', JArr (map (component_json W) (hr_components r))),
      (''mode'', JStr (hr_mode r)), (''at'', time_json W (hr_at r))]"

definition kill_switch_json :: "api_env \<Rightarrow> kill_switch \<Rightarrow> json" where
  "kill_switch_json W k = JObj
     [(''engaged'', JBool (ks_engaged k)), (''reason'', json_opt JStr (ks_reason k)),
      (''engaged_by'', json_opt JStr (ks_engaged_by k)), (''engaged_at'', json_opt (time_json W) (ks_engaged_at k)),
      (''cancel_open_orders'', JBool (ks_cancel_open_orders k)), (''activations'', nat_json (ks_activations k))]"

definition snapshot_json :: "api_env \<Rightarrow> pnl_snapshot \<Rightarrow> json" where
  "snapshot_json W s = JObj
     [(''at'', time_json W (pn_at s)), (''cash'', JDecimal (pn_cash s)),
      (''position_value'', JDecimal (pn_position_value s)), (''equity'', JDecimal (pn_equity s)),
      (''realized_pnl'', JDecimal (pn_realized_pnl s)), (''unrealized_pnl'', json_opt JDecimal (pn_unrealized_pnl s)),
      (''fees_paid'', JDecimal (pn_fees_paid s)), (''gross_exposure'', JDecimal (pn_gross_exposure s)),
      (''daily_pnl'', JDecimal (pn_daily_pnl s)), (''peak_equity'', JDecimal (pn_peak_equity s)),
      (''open_orders'', nat_json (pn_open_orders s)), (''active_positions'', nat_json (pn_active_positions s))]"

definition limits_json :: "risk_limits \<Rightarrow> json" where
  "limits_json l = JObj
     [(''max_trade_usd'', JDecimal (rl_max_trade_usd l)), (''min_trade_usd'', JDecimal (rl_min_trade_usd l)),
      (''max_position_usd'', JDecimal (rl_max_position_usd l)),
      (''max_market_exposure_usd'', JDecimal (rl_max_market_exposure_usd l)),
      (''max_portfolio_exposure_usd'', JDecimal (rl_max_portfolio_exposure_usd l)),
      (''max_daily_loss_usd'', JDecimal (rl_max_daily_loss_usd l)), (''max_open_orders'', nat_json (rl_max_open_orders l)),
      (''max_slippage_bps'', nat_json (rl_max_slippage_bps l)), (''min_liquidity_usd'', JDecimal (rl_min_liquidity_usd l)),
      (''max_market_data_age_ms'', JInt (rl_max_market_data_age_ms l)),
      (''max_live_order_usd'', JDecimal (rl_max_live_order_usd l)),
      (''require_market_data'', JBool (rl_require_market_data l))]"

definition copy_row_json :: "api_env \<Rightarrow> copy_row \<Rightarrow> json" where
  "copy_row_json W c = JObj
     [(''correlation_id'', JStr (cr_correlation_id c)), (''source_event_id'', JStr (cr_source_event_id c)),
      (''wallet'', JStr (cr_wallet c)), (''wallet_nickname'', JStr (cr_wallet_nickname c)),
      (''market_title'', JStr (cr_market_title c)), (''outcome'', JStr (cr_outcome c)), (''side'', JStr (cr_side c)),
      (''source_notional'', JStr (cr_source_notional c)), (''copy_notional'', JStr (cr_copy_notional c)),
      (''source_price'', JStr (cr_source_price c)), (''copy_price'', json_opt JStr (cr_copy_price c)),
      (''slippage_bps'', json_opt JInt (cr_slippage_bps c)), (''status'', JStr (cr_status c)),
      (''detection_latency_ms'', json_opt float_json (cr_detection_latency_ms c)),
      (''execution_latency_ms'', json_opt float_json (cr_execution_latency_ms c)),
      (''end_to_end_latency_ms'', json_opt float_json (cr_end_to_end_latency_ms c)), (''at'', time_json W (cr_at c))]"

fun sizing_json :: "sizing_mode \<Rightarrow> json" where
  "sizing_json (FixedRatio r) = JObj [(''mode'', JStr ''fixed_ratio''), (''ratio'', JDecimal r)]"
| "sizing_json (FixedUsd a) = JObj [(''mode'', JStr ''fixed_usd''), (''amount'', JDecimal a)]"
| "sizing_json (PortfolioPercent p) = JObj [(''mode'', JStr ''portfolio_percent''), (''pct'', JDecimal p)]"
| "sizing_json (RiskAdjusted r c) = JObj [(''mode'', JStr ''risk_adjusted''), (''base_ratio'', JDecimal r),
     (''liquidity_cap_pct'', JDecimal c)]"

definition wallet_json :: "target_wallet \<Rightarrow> json" where
  "wallet_json w = JObj
     [(''address'', JStr (address_str (tw_address w))), (''nickname'', JStr (tw_nickname w)),
      (''enabled'', JBool (tw_enabled w)), (''sizing'', sizing_json (tw_sizing w)),
      (''max_trade_usd'', JDecimal (tw_max_trade_usd w)), (''max_exposure_usd'', JDecimal (tw_max_exposure_usd w)),
      (''min_trade_usd'', JDecimal (tw_min_trade_usd w)),
      (''min_source_notional_usd'', JDecimal (tw_min_source_notional_usd w)),
      (''allowed_markets'', JArr (map (\<lambda>m. JStr (market_str m)) (tw_allowed_markets w))),
      (''blocked_markets'', JArr (map (\<lambda>m. JStr (market_str m)) (tw_blocked_markets w)))]"

subsection \<open>Status endpoints\<close>

definition is_real_money :: "api_env \<Rightarrow> bool" where
  "is_real_money W = cp_is_real_money (ae_capabilities W)"

definition health_view :: "api_env \<Rightarrow> timestamp \<Rightarrow> 's app_state \<Rightarrow> json" where
  "health_view W now A =
     (let r = health_report_of (ap_health A) now
      in JObj [(''status'', JStr (case hr_state r of Healthy \<Rightarrow> ''ok'' | Degraded \<Rightarrow> ''degraded'' | Down \<Rightarrow> ''down'')),
         (''mode'', JStr (app_mode_str (ap_mode A))), (''uptime_seconds'', JInt (uptime_seconds A now)),
         (''components'', JArr (map (component_json W) (hr_components r)))])"

definition status_view :: "decimal_ops \<Rightarrow> api_env \<Rightarrow> timestamp \<Rightarrow> 's app_state \<Rightarrow> json" where
  "status_view D W now A =
     (let t = tk_stats (ap_tracker A)
      in JObj [(''mode'', JStr (app_mode_str (ap_mode A))), (''real_money'', JBool (is_real_money W)),
         (''execution_adapter'', JStr (ae_adapter_name W)), (''uptime_seconds'', JInt (uptime_seconds A now)),
         (''kill_switch'', kill_switch_json W (ap_kill_switch A)),
         (''health'', health_report_json W (health_report_of (ap_health A) now)),
         (''pnl'', snapshot_json W (app_snapshot D (ae_ordinal W) A now)),
         (''tracker'', JObj
            [(''wallets'', nat_json (wallet_count (ap_tracker A))), (''frames_examined'', nat_json (ts_frames_examined t)),
             (''wallet_matches'', nat_json (ts_wallet_matches t)), (''actionable'', nat_json (ts_actionable t)),
             (''skipped'', nat_json (ts_skipped t)), (''duplicates_suppressed'', nat_json (ts_duplicates_suppressed t)),
             (''dedup_contents'', nat_json (tracked_contents (tk_dedup (ap_tracker A))))]),
         (''storage'', JObj [(''ephemeral'', JBool (is_ephemeral (ap_store A)))])])"

definition mode_view :: "api_env \<Rightarrow> 's app_state \<Rightarrow> json" where
  "mode_view W A = JObj
     [(''mode'', JStr (app_mode_str (ap_mode A))), (''real_money'', JBool (is_real_money W)),
      (''live_execution_armed'', JBool (live_execution_armed (ap_config A))),
      (''execution_adapter'', JStr (ae_adapter_name W)), (''demo_data'', JBool (ac_demo_data (ap_config A)))]"

definition config_view :: "'s app_state \<Rightarrow> json" where
  "config_view A = public_view (ap_config A)"

text \<open>The gauges are refreshed when they are read.\<close>

definition refresh_gauges :: "decimal_ops \<Rightarrow> api_env \<Rightarrow> timestamp \<Rightarrow> 's app_state \<Rightarrow> 's app_state" where
  "refresh_gauges D W now A =
     (let p = app_snapshot D (ae_ordinal W) A now;
          total = d_add D (pn_realized_pnl p) (case pn_unrealized_pnl p of Some u \<Rightarrow> u | None \<Rightarrow> 0)
      in metric (\<lambda>M. M\<lparr>mt_pnl_total := gauge_of_decimal D total, mt_daily_pnl := gauge_of_decimal D (pn_daily_pnl p),
           mt_fees_total := gauge_of_decimal D (pn_fees_paid p), mt_equity := gauge_of_decimal D (pn_equity p),
           mt_gross_exposure := gauge_of_decimal D (pn_gross_exposure p),
           mt_active_positions := int (pn_active_positions p), mt_open_orders := int (pn_open_orders p),
           mt_tracked_wallets := int (wallet_count (ap_tracker A)),
           mt_kill_switch_engaged := (if ks_engaged (ap_kill_switch A) then 1 else 0)\<rparr>) A)"

definition metrics_prometheus :: "decimal_ops \<Rightarrow> api_env \<Rightarrow> timestamp \<Rightarrow> 's app_state \<Rightarrow> 's app_state \<times> string" where
  "metrics_prometheus D W now A =
     (let A1 = refresh_gauges D W now A in (A1, render_prometheus (ae_show_f64 W) (ap_metrics A1)))"

subsection \<open>Trading data\<close>

definition position_json :: "decimal_ops \<Rightarrow> api_env \<Rightarrow> position \<Rightarrow> json" where
  "position_json D W p = JObj
     [(''market_id'', JStr (market_str (ps_market_id p))), (''token_id'', JStr (token_str (ps_token_id p))),
      (''outcome'', JStr (ps_outcome p)), (''quantity'', JDecimal (ps_net_quantity p)),
      (''avg_entry'', JDecimal (ps_avg_entry p)), (''mark_price'', json_opt JDecimal (ps_mark_price p)),
      (''exposure'', JDecimal (exposure D p)), (''unrealized_pnl'', json_opt JDecimal (unrealized_pnl D p)),
      (''realized_pnl'', JDecimal (ps_realized_pnl p)), (''total_pnl'', JDecimal (position_total_pnl D p)),
      (''fees_paid'', JDecimal (ps_fees_paid p)), (''updated_at'', time_json W (ps_updated_at p))]"

definition counted :: "string \<Rightarrow> json list \<Rightarrow> (string \<times> json) list" where
  "counted name rows = [(name, JArr rows), (''count'', nat_json (length rows))]"

definition positions_view :: "decimal_ops \<Rightarrow> api_env \<Rightarrow> 's app_state \<Rightarrow> json" where
  "positions_view D W A =
     JObj (counted ''positions'' (map (position_json D W) (positions D (ap_portfolio A))))"

definition order_type_text :: "order_type \<Rightarrow> string" where
  "order_type_text t = to_ascii_uppercase (case t of MarketOrder \<Rightarrow> ''Market'' | LimitOrder \<Rightarrow> ''Limit'')"

definition order_json :: "decimal_ops \<Rightarrow> api_env \<Rightarrow> app_mode \<Rightarrow> order \<Rightarrow> json" where
  "order_json D W mode o' =
     (let r = or_request o'; l = or_latency o'
      in JObj
        [(''order_id'', JStr (ae_uuid W (order_id_of o'))), (''correlation_id'', JStr (ae_uuid W (rq_correlation_id r))),
         (''venue_order_id'', json_opt JStr (or_venue_order_id o')), (''market_id'', JStr (market_str (rq_market_id r))),
         (''token_id'', JStr (token_str (rq_token_id r))), (''side'', JStr (side_str (rq_side r))),
         (''type'', JStr (order_type_text (rq_order_type r))), (''quantity'', JDecimal (rq_quantity r)),
         (''limit_price'', JDecimal (rq_limit_price r)), (''state'', JStr (order_state_str (or_state o'))),
         (''filled_qty'', JDecimal (or_filled_qty o')), (''avg_fill_price'', json_opt JDecimal (avg_fill_price D o')),
         (''fees_paid'', JDecimal (or_fees_paid o')), (''reject_reason'', json_opt JStr (or_reject_reason o')),
         (''mode'', JStr (app_mode_str mode)), (''created_at'', time_json W (rq_created_at r)),
         (''updated_at'', time_json W (or_updated_at o')),
         (''latency_ms'', JObj
            [(''detection'', json_opt millis_json (detection_us l)), (''internal'', json_opt millis_json (internal_us l)),
             (''ack'', json_opt millis_json (ack_us l)), (''execution'', json_opt millis_json (execution_us l)),
             (''end_to_end'', json_opt millis_json (end_to_end_us l))])])"

definition orders_view :: "decimal_ops \<Rightarrow> api_env \<Rightarrow> nat \<Rightarrow> 's app_state \<Rightarrow> json" where
  "orders_view D W limit A =
     JObj (counted ''orders'' (map (order_json D W (ap_mode A)) (take limit (om_all (ap_orders A)))) @
           [(''open'', nat_json (open_count (ap_orders A)))])"

definition fill_json :: "decimal_ops \<Rightarrow> api_env \<Rightarrow> order \<Rightarrow> json" where
  "fill_json D W o' =
     (let r = or_request o'
      in JObj
        [(''order_id'', JStr (ae_uuid W (order_id_of o'))), (''correlation_id'', JStr (ae_uuid W (rq_correlation_id r))),
         (''market_id'', JStr (market_str (rq_market_id r))), (''side'', JStr (side_str (rq_side r))),
         (''quantity'', JDecimal (or_filled_qty o')), (''price'', json_opt JDecimal (avg_fill_price D o')),
         (''fee'', JDecimal (or_fees_paid o')), (''at'', time_json W (or_updated_at o'))])"

definition fills_view :: "decimal_ops \<Rightarrow> api_env \<Rightarrow> nat \<Rightarrow> 's app_state \<Rightarrow> json" where
  "fills_view D W limit A =
     JObj (counted ''fills'' (map (fill_json D W)
       (take limit (filter (\<lambda>o'. or_filled_qty o' \<noteq> 0) (om_all (ap_orders A))))))"

definition source_trade_json :: "decimal_ops \<Rightarrow> api_env \<Rightarrow> source_trade \<Rightarrow> json" where
  "source_trade_json D W t = JObj
     [(''event_id'', JStr (event_str (so_event_id t))), (''correlation_id'', JStr (ae_uuid W (so_correlation_id t))),
      (''trader'', JStr (address_str (so_trader t))), (''market_title'', JStr (so_market_title t)),
      (''outcome'', JStr (so_outcome t)), (''side'', JStr (side_str (so_side t))), (''price'', JDecimal (so_price t)),
      (''quantity'', JDecimal (so_quantity t)), (''notional'', JDecimal (source_notional D t)),
      (''tx_hash'', JStr (tx_str (so_tx_hash t))), (''occurrence'', nat_json (so_occurrence t)),
      (''source'', JStr (trade_source_str (so_source t))), (''source_ts'', time_json W (so_source_ts t)),
      (''detected_ts'', time_json W (so_detected_ts t))]"

definition trades_view :: "decimal_ops \<Rightarrow> api_env \<Rightarrow> nat \<Rightarrow> 's app_state \<Rightarrow> json" where
  "trades_view D W limit A = JObj
     [(''copies'', JArr (map (copy_row_json W) (recent_copies limit (ap_recent A)))),
      (''source_trades'', JArr (map (source_trade_json D W) (take limit (ra_source_trades (ap_recent A)))))]"

definition pnl_view :: "decimal_ops \<Rightarrow> api_env \<Rightarrow> timestamp \<Rightarrow> 's app_state \<Rightarrow> json" where
  "pnl_view D W now A =
     (let snap = app_snapshot D (ae_ordinal W) A now
      in JObj [(''snapshot'', snapshot_json W snap), (''total_pnl'', JDecimal (total_pnl D (ap_portfolio A))),
         (''return_pct'', JDecimal (return_pct D (ap_portfolio A))), (''drawdown_pct'', JDecimal (drawdown_pct D snap)),
         (''available_capital'', JDecimal (available_capital D snap))])"

definition stage_json :: "latency_stage \<times> latency_stats \<Rightarrow> json" where
  "stage_json x =
     (let (stage, st) = x
      in JObj [(''stage'', JStr (stage_str stage)), (''count'', nat_json (st_count st)),
         (''min_ms'', millis_json (st_min st)), (''mean_ms'', millis_json (st_mean st)),
         (''p50_ms'', millis_json (st_p50 st)), (''p95_ms'', millis_json (st_p95 st)),
         (''p99_ms'', millis_json (st_p99 st)), (''max_ms'', millis_json (st_max st))])"

definition latency_view :: "'s app_state \<Rightarrow> json" where
  "latency_view A = JObj
     [(''stages'', JArr (map stage_json (all_stats (mt_latency (ap_metrics A))))),
      (''note'', JStr ''only stages with real observations are reported'')]"

definition utilisation :: "decimal_ops \<Rightarrow> rat \<Rightarrow> rat \<Rightarrow> rat" where
  "utilisation D used limit = (if limit = 0 then 0 else clamp 0 10 (f64_of (d_div D used limit)))"

definition risk_view :: "decimal_ops \<Rightarrow> api_env \<Rightarrow> timestamp \<Rightarrow> 's app_state \<Rightarrow> json" where
  "risk_view D W now A =
     (let snap = app_snapshot D (ae_ordinal W) A now; l = re_limits (ap_risk A)
      in JObj [(''kill_switch'', kill_switch_json W (ap_kill_switch A)), (''limits'', limits_json l),
         (''current'', JObj
            [(''daily_pnl'', JDecimal (pn_daily_pnl snap)), (''gross_exposure'', JDecimal (pn_gross_exposure snap)),
             (''open_orders'', nat_json (pn_open_orders snap)), (''equity'', JDecimal (pn_equity snap)),
             (''drawdown_pct'', JDecimal (drawdown_pct D snap))]),
         (''utilisation'', JObj
            [(''daily_loss'', float_json (utilisation D (- pn_daily_pnl snap) (rl_max_daily_loss_usd l))),
             (''exposure'', float_json (utilisation D (pn_gross_exposure snap) (rl_max_portfolio_exposure_usd l))),
             (''open_orders'', float_json (utilisation D (of_nat (pn_open_orders snap)) (of_nat (rl_max_open_orders l))))]),
         (''rejections'', JObj (map (\<lambda>(code, n). (code, JInt (uint n))) (rejection_breakdown (ap_metrics A)))),
         (''rejections_total'', JInt (uint (mt_risk_rejections_total (ap_metrics A))))])"

definition wallet_pnl_json :: "portfolio \<Rightarrow> target_wallet \<Rightarrow> json" where
  "wallet_pnl_json P w =
     (case wallet_json w of JObj kvs \<Rightarrow> JObj (kvs @ [(''pnl'', JDecimal (wallet_pnl P (tw_address w)))]) | v \<Rightarrow> v)"

definition wallets_view :: "'s app_state \<Rightarrow> json" where
  "wallets_view A =
     JObj (counted ''wallets'' (map (wallet_pnl_json (ap_portfolio A)) (list_wallets (ap_tracker A))))"

end
