(* ===== verification/Recovery.thy ===== *)
theory Recovery
  imports Desk
begin

section \<open>Crashes and restarts\<close>

text \<open>
  What of a desk survives a restart: the rows the operations leave in the database against what
  \<open>recover\<close> rebuilds from them. A crash is a restart from the store as the last operation left it.
\<close>

subsection \<open>What a call of the pipeline stores\<close>

text \<open>The part of the database that recovery rebuilds the books from.\<close>

definition book_rows :: "store \<Rightarrow> (bool \<times> (token_id, position) hashmap \<times> pnl_snapshot list \<times> (address, target_wallet) hashmap) option" where
  "book_rows = map_option (\<lambda>d. (db_up d, db_positions d, db_pnl_snapshots d, db_wallets d))"

lemma book_rows_exec:
  assumes "\<And>d d'. q d = Inr d' \<Longrightarrow> book_rows (Some d') = book_rows (Some d)"
  shows "book_rows (fst (exec q S)) = book_rows S"
  using assms by (cases S) (auto simp: exec_def split: sum.split)

lemma book_rows_inserts [simp]:
  "book_rows (fst (insert_source_event D t S)) = book_rows S"
  "book_rows (fst (insert_signal s S)) = book_rows S"
  "book_rows (fst (insert_risk_event c i r S)) = book_rows S"
  "book_rows (fst (upsert_order o' mode S)) = book_rows S"
  "book_rows (fst (insert_fill f S)) = book_rows S"
  "book_rows (fst (insert_latency c' stage us S)) = book_rows S"
proof -
  show "book_rows (fst (insert_source_event D t S)) = book_rows S"
    by (auto simp: insert_source_event_def source_event_statement_def book_rows_def
        split: option.splits sum.splits prod.splits if_splits)
  show "book_rows (fst (insert_signal s S)) = book_rows S" unfolding insert_signal_def
    by (rule book_rows_exec) (auto simp: signal_statement_def book_rows_def split: option.splits if_splits)
  show "book_rows (fst (upsert_order o' mode S)) = book_rows S" unfolding upsert_order_def
    by (rule book_rows_exec) (auto simp: order_statement_def book_rows_def split: option.splits if_splits)
  show "book_rows (fst (insert_fill f S)) = book_rows S" unfolding insert_fill_def
    by (rule book_rows_exec) (auto simp: fill_statement_def book_rows_def split: option.splits if_splits)
  show "book_rows (fst (insert_risk_event c i r S)) = book_rows S"
    "book_rows (fst (insert_latency c' stage us S)) = book_rows S"
    unfolding insert_risk_event_def insert_latency_def
    by (rule book_rows_exec; simp add: book_rows_def; blast?; auto)+
qed

lemma book_rows_persist_latency [simp]: "book_rows (ap_store (persist_latency c l A)) = book_rows (ap_store A)"
proof -
  have "book_rows (ap_store (foldl (\<lambda>B (st, us). persist (insert_latency (Some c) (stage_str st) us) B) A xs)) =
      book_rows (ap_store A)" for xs
    by (induction xs arbitrary: A) auto
  then show ?thesis by (simp add: persist_latency_def)
qed

lemma book_rows_order [simp]:
  "book_rows (ap_store (note_order c o' A)) = book_rows (ap_store A)"
  "book_rows (ap_store (persist_order_row i A)) = book_rows (ap_store A)"
  by (simp_all add: note_order_def persist_order_row_def split: option.split)

lemma book_rows_fills [simp]:
  "book_rows (ap_store (foldl (book_fill D E ci oc) A fs)) = book_rows (ap_store A)"
  by (induction fs arbitrary: A) (simp_all add: book_fill_def)

text \<open>A settled acknowledgement adds the snapshot of the books it leaves.\<close>

lemma book_rows_settled:
  assumes "A' = settle_outcome D E ci s out A"
  shows "book_rows (ap_store A') = book_rows (ap_store A) \<or>
    book_rows (ap_store A') =
      book_rows (fst (insert_pnl_snapshot (app_snapshot D (pe_ordinal E) A' (ci_clock ci AtPnl)) (ap_store A)))"
proof (cases out)
  case (SubAcknowledged i fs)
  have cong: "book_rows (fst (insert_pnl_snapshot snap S)) = book_rows (fst (insert_pnl_snapshot snap S'))"
    if "book_rows S = book_rows S'" for snap S S'
    using that by (cases S; cases S') (auto simp: insert_pnl_snapshot_def exec_def book_rows_def split: option.splits sum.splits)
  have "\<exists>A5. book_rows (ap_store A5) = book_rows (ap_store A) \<and>
      A' = pipe_emit (PnlUpdated (app_snapshot D (pe_ordinal E) A5 (ci_clock ci AtPnl)))
        (persist (insert_pnl_snapshot (app_snapshot D (pe_ordinal E) A5 (ci_clock ci AtPnl))) A5)"
    unfolding assms SubAcknowledged settle_outcome_def settle_acknowledged_def submit_outcome.case Let_def
    by (rule exI, rule conjI [OF _ refl]) (simp split: option.split)
  then obtain A5 where 5: "book_rows (ap_store A5) = book_rows (ap_store A)"
    "A' = pipe_emit (PnlUpdated (app_snapshot D (pe_ordinal E) A5 (ci_clock ci AtPnl)))
        (persist (insert_pnl_snapshot (app_snapshot D (pe_ordinal E) A5 (ci_clock ci AtPnl))) A5)" by blast
  have "same_desk A' A5" by (simp add: 5(2) same_desk_def)
  from same_desk_snapshot [OF this] cong [OF 5(1)] show ?thesis by (simp add: 5(2))
qed (simp_all add: assms settle_outcome_def)


lemma execute_order_settles:
  "ap_store (execute_order D E ci books t s order A) = ap_store A \<or>
   (\<exists>out B. execute_order D E ci books t s order A = settle_outcome D E ci s out B \<and> ap_store B = ap_store A)"
  unfolding execute_order_def Let_def
  by (auto split: prod.split sum.split intro!: exI conjI refl)

lemma book_rows_trade:
  fixes P :: "'s pipeline"
  assumes "A = pl_state P" and "A' = pl_state (on_source_trade D E ci P t)"
  shows "book_rows (ap_store A') = book_rows (ap_store A) \<or>
    book_rows (ap_store A') =
      book_rows (fst (insert_pnl_snapshot (app_snapshot D (pe_ordinal E) A' (ci_clock ci AtPnl)) (ap_store A)))"
proof (cases rule: on_source_trade_cases [of P t D E ci])
  case untracked
  with assms show ?thesis by (simp add: note_simps)
next
  case (tracked w books book)
  let ?N = "note_trade D t (pl_state P)"
  have cong: "book_rows (fst (insert_pnl_snapshot snap S)) = book_rows (fst (insert_pnl_snapshot snap S'))"
    if "book_rows S = book_rows S'" for snap S S'
    using that by (cases S; cases S') (auto simp: insert_pnl_snapshot_def exec_def book_rows_def split: option.splits sum.splits)
  show ?thesis
  proof (cases rule: decide_cases [of D E ci "pl_trader P" books t w book ?N])
    case skipped
    with tracked(2) assms show ?thesis by (simp add: skip_trade_def note_simps)
  next
    case (refused s tick r)
    with tracked(2) assms show ?thesis by (simp add: refuse_order_def note_simps Let_def)
  next
    case (placed s tick)
    let ?S = "note_signal D E ci t w s ?N"
    have S: "book_rows (ap_store ?S) = book_rows (ap_store A)" using assms(1) by (simp add: note_simps)
    have "ap_store A' = ap_store ?S \<or> (\<exists>out B. A' = settle_outcome D E ci s out B \<and> ap_store B = ap_store ?S)"
      using execute_order_settles [of D E ci books t s "build_order ci s tick" ?S] tracked(2) placed(3) assms(2)
      by simp
    then show ?thesis
    proof
      assume "\<exists>out B. A' = settle_outcome D E ci s out B \<and> ap_store B = ap_store ?S"
      then obtain out B where "A' = settle_outcome D E ci s out B" "ap_store B = ap_store ?S" by blast
      from book_rows_settled [OF this(1)] this(2) S cong [OF S] show ?thesis by simp
    qed (use S in simp)
  qed
qed

subsection \<open>What recovery depends on\<close>

lemma recover_portfolio:
  "ap_portfolio (recover D reread now A) =
     (case ap_store A of
        None \<Rightarrow> ap_portfolio A
      | Some d \<Rightarrow>
          (if db_up d then
             let snap = latest_by pn_at (db_pnl_snapshots d)
             in portfolio_restore D (ap_portfolio A)
                  (case snap of Some s \<Rightarrow> pn_cash s | None \<Rightarrow> sc_starting_cash_usd (ac_simulation (ap_config A)))
                  (List.map_filter loaded_position (filter (\<lambda>r. ps_net_quantity r \<noteq> 0) (map snd (db_positions d))))
                  (case snap of Some s \<Rightarrow> pn_realized_pnl s | None \<Rightarrow> 0)
                  (case snap of Some s \<Rightarrow> pn_fees_paid s | None \<Rightarrow> 0)
           else ap_portfolio A))"
proof (cases "ap_store A")
  case (Some d)
  then show ?thesis
    by (cases "latest_by pn_at (db_pnl_snapshots d)")
      (simp_all add: recover_def is_ephemeral_def recover_state_def load_positions_def load_dedup_window_def
        load_wallets_def latest_pnl_snapshot_def fetch_def Let_def)
qed (simp add: recover_def is_ephemeral_def)

lemma restore_fields [simp]:
  "pf_daily (portfolio_restore D pf cash ps r f) = pf_daily pf"
  "pf_cash (portfolio_restore D pf cash ps r f) = cash"
  "pf_realized (portfolio_restore D pf cash ps r f) = r"
  "pf_fees (portfolio_restore D pf cash ps r f) = f"
  "pf_positions (portfolio_restore D pf cash ps r f) = foldl (\<lambda>m p. AList.update (ps_token_id p) p m) [] ps"
  by (simp_all add: portfolio_restore_def refresh_peak_def Let_def)

lemma latest_by_snoc:
  "latest_by f (xs @ [x]) =
     (case latest_by f xs of None \<Rightarrow> Some x | Some y \<Rightarrow> if f y > f x then Some y else Some x)"
  by (induction xs) (auto split: option.splits)

lemma latest_by_last: "list_all (\<lambda>y. f y \<le> f x) xs \<Longrightarrow> latest_by f (xs @ [x]) = Some x"
  by (induction xs) (auto split: option.splits)

subsection \<open>A crash after a copy\<close>


subsection \<open>A clean restart\<close>

text \<open>A position that the columns hold exactly and whose ids the constructors accept.\<close>

definition storable :: "position \<Rightarrow> bool" where
  "storable p \<longleftrightarrow> position_row p = Some p \<and> loaded_position p = Some p"

lemma stored_positions:
  assumes "db_up d" and "distinct (map ps_token_id ps)" and "list_all storable ps"
    and "\<And>p r. p \<in> set ps \<Longrightarrow> get (db_positions d) (ps_token_id p) = Some r \<Longrightarrow>
      ps_market_id r = ps_market_id p \<and> ps_outcome r = ps_outcome p"
  shows "\<exists>m. ap_store (foldl (\<lambda>B p. persist (upsert_position p) B) (A\<lparr>ap_store := Some d\<rparr>) ps) =
      Some (d\<lparr>db_positions := m\<rparr>) \<and> (keys_ok (db_positions d) \<longrightarrow> keys_ok m) \<and>
      (\<forall>t. get m t = (case find (\<lambda>p. ps_token_id p = t) ps of Some p \<Rightarrow> Some p | None \<Rightarrow> get (db_positions d) t))"
  using assms
proof (induction ps arbitrary: d A)
  case Nil
  then show ?case by (intro exI [of _ "db_positions d"]) simp
next
  case (Cons p ps)
  have row: "position_row p = Some p" using Cons.prems(3) by (simp add: storable_def)
  have stm: "position_statement p d = Inr (d\<lparr>db_positions := AList.update (ps_token_id p) p (db_positions d)\<rparr>)"
  proof (cases "get (db_positions d) (ps_token_id p)")
    case (Some r)
    with Cons.prems(4) [of p r] have "p\<lparr>ps_market_id := ps_market_id r, ps_outcome := ps_outcome r\<rparr> = p"
      by simp
    with Some show ?thesis by (simp add: position_statement_def row)
  qed (simp add: position_statement_def row)
  let ?d = "d\<lparr>db_positions := AList.update (ps_token_id p) p (db_positions d)\<rparr>"
  have step: "persist (upsert_position p) (A\<lparr>ap_store := Some d\<rparr>) = A\<lparr>ap_store := Some ?d\<rparr>"
    using Cons.prems(1) by (simp add: persist_def upsert_position_def exec_def stm)
  have "\<exists>m. ap_store (foldl (\<lambda>B p. persist (upsert_position p) B) (A\<lparr>ap_store := Some ?d\<rparr>) ps) =
      Some (?d\<lparr>db_positions := m\<rparr>) \<and> (keys_ok (db_positions ?d) \<longrightarrow> keys_ok m) \<and>
      (\<forall>t. get m t = (case find (\<lambda>p. ps_token_id p = t) ps of Some p \<Rightarrow> Some p | None \<Rightarrow> get (db_positions ?d) t))"
  proof (rule Cons.IH)
    fix q r assume q: "q \<in> set ps" "get (db_positions ?d) (ps_token_id q) = Some r"
    then have "ps_token_id p \<noteq> ps_token_id q" using Cons.prems(2) by auto
    with q Cons.prems(4) [of q r] show "ps_market_id r = ps_market_id q \<and> ps_outcome r = ps_outcome q"
      by (simp add: get_update)
  qed (use Cons.prems in simp_all)
  then obtain m where m: "ap_store (foldl (\<lambda>B p. persist (upsert_position p) B) (A\<lparr>ap_store := Some ?d\<rparr>) ps) =
      Some (?d\<lparr>db_positions := m\<rparr>)" "keys_ok (db_positions ?d) \<Longrightarrow> keys_ok m"
      "\<And>t. get m t = (case find (\<lambda>p. ps_token_id p = t) ps of Some p \<Rightarrow> Some p | None \<Rightarrow> get (db_positions ?d) t)"
    by blast
  have none: "find (\<lambda>q. ps_token_id q = ps_token_id p) ps = None"
    using Cons.prems(2) unfolding find_None_iff by (auto simp: image_iff)
  have "get m t = (case find (\<lambda>p. ps_token_id p = t) (p # ps) of Some p \<Rightarrow> Some p
      | None \<Rightarrow> get (db_positions d) t)" for t
    using none by (cases "ps_token_id p = t") (auto simp: m(3) get_update split: option.split)
  with m(1,2) show ?case by (intro exI [of _ m]) (simp add: step)
qed

lemma restored_get:
  assumes "keys_ok m" and "list_all (\<lambda>(t, p). ps_token_id p = t \<and> loaded_position p = Some p) m"
  shows "get (foldl (\<lambda>m p. AList.update (ps_token_id p) p m) m0
      (List.map_filter loaded_position (filter (\<lambda>r. ps_net_quantity r \<noteq> 0) (map snd m)))) t =
    (case get m t of Some p \<Rightarrow> if ps_net_quantity p \<noteq> 0 then Some p else get m0 t | None \<Rightarrow> get m0 t)"
  using assms
proof (induction m arbitrary: m0)
  case (Cons x m)
  obtain k p where x: "x = (k, p)" by force
  have "get m k = None" using Cons.prems(1) x by (simp add: keys_ok_def get_def map_of_eq_None_iff)
  with Cons x show ?case
    by (auto simp: keys_ok_def map_filter_simps get_update) (auto simp: get_def update_conv' split: option.splits)
qed (simp add: map_filter_simps)

lemma find_position:
  assumes "keys_ok m" and "list_all (\<lambda>(t, p). ps_token_id p = t) m"
  shows "find (\<lambda>p. ps_token_id p = t) (sort_key f (map snd m)) = get m t"
proof -
  have key: "get m (ps_token_id p) = Some p" if "p \<in> snd ` set m" for p
  proof -
    from that obtain t where t: "(t, p) \<in> set m" by auto
    with assms(2) have "ps_token_id p = t" by (auto simp: list_all_iff)
    with t keys_ok_get [OF assms(1)] show ?thesis by simp
  qed
  have one: "p = q" if "p \<in> snd ` set m" "q \<in> snd ` set m" "ps_token_id p = ps_token_id q" for p q
    using key [OF that(1)] key [OF that(2)] that(3) by (metis option.inject)
  show ?thesis
  proof (cases "get m t")
    case None
    then have "ps_token_id p \<noteq> t" if "p \<in> snd ` set m" for p
      using key [OF that] by auto
    with None show ?thesis by (auto simp: find_None_iff)
  next
    case (Some p)
    then have p: "p \<in> snd ` set m" "ps_token_id p = t"
      using assms by (force simp: list_all_iff dest: get_in)+
    then obtain q where q: "find (\<lambda>p. ps_token_id p = t) (sort_key f (map snd m)) = Some q"
      by (cases "find (\<lambda>p. ps_token_id p = t) (sort_key f (map snd m))") (auto simp: find_None_iff)
    then have "q \<in> set (sort_key f (map snd m)) \<and> ps_token_id q = t"
      using find_Some_in [OF q] by auto
    with one [of q p] p Some q show ?thesis by auto
  qed
qed


text \<open>A desk that bought 100 shares at a half, paid a fee of one cent and shuts down at time 5.\<close>

definition held_position :: position where
  "held_position = (position_new (MarketId (''0x'' @ replicate 64 (CHR ''7''))) (TokenId ''42'') ''Yes'' 3)
     \<lparr>ps_net_quantity := 100, ps_avg_entry := 1/2, ps_fees_paid := 1/100\<rparr>"

definition closing_desk :: "unit app_state" where
  "closing_desk = (sample_state ())\<lparr>ap_store := Some db_empty, ap_portfolio :=
     (ap_portfolio (sample_state ()))\<lparr>pf_cash := 994999/100, pf_fees := 1/100,
        pf_positions := [(TokenId ''42'', held_position)]\<rparr>\<rparr>"

lemma held_storable: "storable held_position"
proof -
  have "loaded_position held_position = Some held_position"
    unfolding loaded_position_def held_position_def position_new_def
    by (simp del: replicate.simps append.simps
        add: market_id_new_fixed [OF normal_hex_sevens] token_id_new_fixed [OF normal_token_42])
  then show ?thesis
    by (simp add: storable_def position_row_def held_position_def position_new_def numeric20_def
        round_half_away_def Let_def)
qed

lemma closing_snapshot:
  "snapshot_row (app_snapshot exact_decimal (\<lambda>_. 0) closing_desk 5) =
     Some (app_snapshot exact_decimal (\<lambda>_. 0) closing_desk 5)"
  by (simp add: snapshot_row_def app_snapshot_def snapshot_def closing_desk_def held_position_def
      position_new_def sample_state_def portfolio_new_def position_value_def equity_def gross_exposure_def
      portfolio_unrealized_def position_values_def held_def is_flat_def exposure_def
      unrealized_pnl_def daily_pnl_def d_sum_def numeric20_def round_half_away_def Let_def)


subsection \<open>The dedup index after a restart\<close>

text \<open>The content key of a stored row, as the recovery spells it.\<close>

definition stored_key :: "decimal_ops \<Rightarrow> source_trade \<Rightarrow> content_key" where
  "stored_key D t = content_key_new D (so_tx_hash t) (so_trader t) (so_token_id t) (so_side t)
     (so_price t) (so_quantity t)"

definition stored_ids_ok :: "source_trade \<Rightarrow> bool" where
  "stored_ids_ok t \<longleftrightarrow> tx_hash_new (tx_str (so_tx_hash t)) = Inr (so_tx_hash t) \<and>
     address_new (address_str (so_trader t)) = Inr (so_trader t) \<and>
     token_id_new (token_str (so_token_id t)) = Inr (so_token_id t)"

lemma row_key:
  assumes "stored_ids_ok t"
  shows "dedup_row_to_key D (dedup_group rows (event_content t)) = Some (stored_key D t)"
proof -
  have s: "parse_side_str (side_str (so_side t)) = Some (so_side t)"
    by (cases "so_side t") (simp_all add: parse_side_str_def)
  from assms show ?thesis
    by (simp add: dedup_row_to_key_def dedup_group_def event_content_def stored_ids_ok_def s stored_key_def
        content_key_new_def Let_def)
qed

lemma stored_key_content:
  assumes "inj_on (d_text D) V" and "{so_price t, so_quantity t, so_price u, so_quantity u} \<subseteq> V"
  shows "stored_key D t = stored_key D u \<longleftrightarrow> event_content t = event_content u"
  using assms by (auto simp: stored_key_def content_key_new_def event_content_def inj_on_def)

lemma map_filter_map_total: "(\<And>x. x \<in> set xs \<Longrightarrow> f (g x) = Some (h x)) \<Longrightarrow> List.map_filter f (map g xs) = map h xs"
  by (induction xs) (simp_all add: map_filter_simps)

lemma restored_count:
  "distinct (map fst es) \<Longrightarrow>
     count_of (foldl (\<lambda>d (k, n, t). dedup_restore d k n t) d es) k =
       max (count_of d k) (case map_of es k of Some (n, _) \<Rightarrow> n | None \<Rightarrow> 0)"
proof (induction es arbitrary: d)
  case (Cons e es)
  obtain k' n t where e: "e = (k', n, t)" by (cases e)
  have "map_of es k' = None" using Cons.prems e by (simp add: map_of_eq_None_iff)
  with Cons e show ?case by (cases "k' = k") (simp_all add: restore_counts)
qed simp

lemma upsert_wallets_dedup: "tk_dedup (foldl upsert_wallet T ws) = tk_dedup T"
  by (induction ws arbitrary: T) (simp_all add: upsert_wallet_def)

lemma recover_dedup:
  assumes "ap_store A = Some d" and "db_up d"
  shows "tk_dedup (ap_tracker (recover D reread now A)) =
    foldl (\<lambda>d (k, n, t). dedup_restore d k n t) (tk_dedup (ap_tracker A)) (dedup_entries D
      (let rows = window_rows (now - hours DEFAULT_RETENTION_HOURS) d
       in map (dedup_group rows) (remdups (map event_content rows))))"
  using assms
  by (cases "latest_by pn_at (db_pnl_snapshots d)")
    (simp_all add: recover_def is_ephemeral_def recover_state_def load_positions_def load_dedup_window_def
      load_wallets_def latest_pnl_snapshot_def fetch_def upsert_wallets_dedup restore_dedup_def Let_def)

lemma restored_count_of:
  assumes "ap_store A = Some d" and "db_up d" and "di_counts (tk_dedup (ap_tracker A)) = []"
    and "rows = window_rows (now - hours DEFAULT_RETENTION_HOURS) d" and "list_all stored_ids_ok rows"
    and "inj_on (d_text D) (set (map so_price rows @ map so_quantity rows))"
    and "X = tk_dedup (ap_tracker (recover D reread now A))"
  shows "count_of X k = length (filter (\<lambda>u. stored_key D u = k) rows)"
proof -
  define cs where "cs = remdups (map event_content rows)"
  define pick where "pick = (\<lambda>c. SOME t. t \<in> set rows \<and> event_content t = c)"
  have pick: "pick c \<in> set rows \<and> event_content (pick c) = c" if "c \<in> set cs" for c
    using that someI_ex [of "\<lambda>t. t \<in> set rows \<and> event_content t = c"] by (auto simp: pick_def cs_def)
  have same: "stored_key D t = stored_key D u \<longleftrightarrow> event_content t = event_content u"
    if "t \<in> set rows" "u \<in> set rows" for t u
    by (rule stored_key_content [OF assms(6)]) (use that in auto)
  define f where "f = (\<lambda>c. (stored_key D (pick c), length (filter (\<lambda>t. event_content t = c) rows),
      Max (set (map so_detected_ts (filter (\<lambda>t. event_content t = c) rows)))))"
  have "map_option (\<lambda>k. (k, dr_occurrences (dedup_group rows c), dr_last_seen (dedup_group rows c)))
      (dedup_row_to_key D (dedup_group rows c)) = Some (f c)" if "c \<in> set cs" for c
    using row_key [of "pick c" D rows] pick [OF that] assms(5)
    by (auto simp: f_def list_all_iff dedup_group_def Let_def split: prod.split)
  then have "dedup_entries D (map (dedup_group rows) cs) = map f cs"
    unfolding dedup_entries_def by (intro map_filter_map_total) blast
  then have X: "X = foldl (\<lambda>d (k, n, t). dedup_restore d k n t) (tk_dedup (ap_tracker A)) (map f cs)"
    using recover_dedup [OF assms(1,2), of D reread now] by (simp add: assms(7) assms(4) [symmetric] cs_def Let_def)
  have dist: "distinct (map fst (map f cs))"
  proof -
    have "inj_on (\<lambda>c. stored_key D (pick c)) (set cs)"
    proof (rule inj_onI)
      fix c c' assume c: "c \<in> set cs" "c' \<in> set cs" and eq: "stored_key D (pick c) = stored_key D (pick c')"
      from same [of "pick c" "pick c'"] pick [OF c(1)] pick [OF c(2)] eq show "c = c'" by simp
    qed
    moreover have "distinct cs" by (simp add: cs_def)
    ultimately show ?thesis by (simp add: f_def comp_def distinct_map)
  qed
  have zero: "count_of (tk_dedup (ap_tracker A)) k = 0" by (simp add: count_of_def assms(3) get_or_def)
  have "(case map_of (map f cs) k of Some (n, _) \<Rightarrow> n | None \<Rightarrow> 0) = length (filter (\<lambda>u. stored_key D u = k) rows)"
  proof (cases "\<exists>u \<in> set rows. stored_key D u = k")
    case True
    then obtain u where u: "u \<in> set rows" "stored_key D u = k" by blast
    then have c: "event_content u \<in> set cs" by (simp add: cs_def)
    have fc: "f (event_content u) = (k, snd (f (event_content u)))"
      using same [OF u(1), of "pick (event_content u)"] pick [OF c] u(2) by (simp add: f_def)
    have "f (event_content u) \<in> set (map f cs)" using c by simp
    then have "map_of (map f cs) k = Some (snd (f (event_content u)))"
      using fc dist by (metis map_of_is_SomeI)
    moreover have "filter (\<lambda>t. event_content t = event_content u) rows = filter (\<lambda>t. stored_key D t = k) rows"
      by (rule filter_cong [OF refl]) (use same u in metis)
    ultimately show ?thesis by (simp add: f_def)
  next
    case False
    then have "map_of (map f cs) k = None"
      using pick by (auto simp: map_of_eq_None_iff f_def)
    moreover have "filter (\<lambda>u. stored_key D u = k) rows = []" using False by (auto simp: filter_empty_conv)
    ultimately show ?thesis by simp
  qed
  with restored_count [OF dist, of "tk_dedup (ap_tracker A)" k] zero X show ?thesis by simp
qed

text \<open>C7: After a restart the index counts every stored fill of the last six hours, and no other. For
  every content key the count is the number of rows of the window that spell that key, so a
  backfilled row is new exactly from that ordinal on: no fill that was stored is copied again. But
  a row keeps only ten decimals of the price and of the quantity: a fill whose key was spelled from
  a longer number is not counted under it.\<close>

theorem restart_counts_the_stored_fills:
  assumes "ap_store A = Some d" and "db_up d" and "di_counts (tk_dedup (ap_tracker A)) = []"
    and "rows = window_rows (now - hours DEFAULT_RETENTION_HOURS) d" and "list_all stored_ids_ok rows"
    and "inj_on (d_text D) (set (map so_price rows @ map so_quantity rows))"
    and "X = tk_dedup (ap_tracker (recover D reread now A))"
  shows "count_of X k = length (filter (\<lambda>u. stored_key D u = k) rows) \<and>
    (is_new (snd (observe_backfill sha X k i later)) \<longleftrightarrow>
       length (filter (\<lambda>u. stored_key D u = k) rows) \<le> i \<and> i < MAX_OCCURRENCES_PER_CONTENT)"
  using restored_count_of [OF assms, of k] backfill_verdict [of sha X k i later]
  by (auto simp: is_new_def split: if_splits)

text \<open>Two stored fills of the same content, and a decimal that spells its numbers apart.\<close>

definition spelled_decimal :: decimal_ops where
  "spelled_decimal = exact_decimal\<lparr>d_text := (\<lambda>x. if x = 1/2 then ''0.5'' else if x = 10 then ''10'' else ''0.50000000001'')\<rparr>"

definition stored_fill :: "nat \<Rightarrow> source_trade" where
  "stored_fill n = sample_source\<lparr>so_event_id := SourceEventId (replicate n (CHR ''a'')), so_quantity := 10,
     so_tx_hash := TxHash (''0x'' @ replicate 64 (CHR ''7'')), so_trader := Address (''0x'' @ replicate 40 (CHR ''7'')),
     so_token_id := TokenId ''42'', so_occurrence := n, so_source_ts := 0\<rparr>"

definition filled_store :: db where
  "filled_store = db_empty\<lparr>db_source_events :=
     map (\<lambda>n. (so_event_id (stored_fill n), stored_fill n, 5)) [0, 1]\<rparr>"

lemma stored_fill_fields:
  "so_price (stored_fill n) = 1/2" "so_quantity (stored_fill n) = 10" "so_source_ts (stored_fill n) = 0"
  "stored_ids_ok (stored_fill n)" "stored_key D (stored_fill n) = stored_key D (stored_fill 0)"
proof -
  show "so_price (stored_fill n) = 1/2" "so_quantity (stored_fill n) = 10" "so_source_ts (stored_fill n) = 0"
    by (simp_all add: stored_fill_def sample_source_fields)
  show "stored_key D (stored_fill n) = stored_key D (stored_fill 0)" by (simp add: stored_key_def stored_fill_def)
  show "stored_ids_ok (stored_fill n)"
    unfolding stored_ids_ok_def stored_fill_def
    by (simp del: replicate.simps append.simps add: address_new_fixed [OF normal_hex_sevens]
        tx_hash_new_fixed [OF normal_hex_sevens] token_id_new_fixed [OF normal_token_42])
qed

lemma filled_window: "window_rows (1 - hours DEFAULT_RETENTION_HOURS) filled_store = [stored_fill 0, stored_fill 1]"
  by (simp add: window_rows_def filled_store_def stored_fill_fields hours_def DEFAULT_RETENTION_HOURS_def)

theorem restart_counts_the_stored_fills_witness:
  "let X = tk_dedup (ap_tracker (recover spelled_decimal Some 1 ((sample_state ())\<lparr>ap_store := Some filled_store\<rparr>)));
       k = stored_key spelled_decimal (stored_fill 0)
   in count_of X k = 2 \<and> \<not> is_new (snd (observe_backfill (\<lambda>s. s) X k 1 7)) \<and>
      is_new (snd (observe_backfill (\<lambda>s. s) X k 2 7))"
proof -
  have D: "inj_on (d_text spelled_decimal)
      (set (map so_price [stored_fill 0, stored_fill 1] @ map so_quantity [stored_fill 0, stored_fill 1]))"
    by (simp add: stored_fill_fields spelled_decimal_def)
  have "ap_store ((sample_state ())\<lparr>ap_store := Some filled_store\<rparr>) = Some filled_store" "db_up filled_store"
    "di_counts (tk_dedup (ap_tracker ((sample_state ())\<lparr>ap_store := Some filled_store\<rparr>))) = []"
    by (simp_all add: filled_store_def db_empty_def sample_state_def tracker_new_def dedup_default_def dedup_new_def)
  note A = this
  have ids: "list_all stored_ids_ok [stored_fill 0, stored_fill 1]" by (simp add: stored_fill_fields(4))
  note R = restart_counts_the_stored_fills [OF A filled_window [symmetric] ids D refl,
      where k = "stored_key spelled_decimal (stored_fill 0)" and reread = Some and sha = "\<lambda>s. s" and later = 7]
  have "length (filter (\<lambda>u. stored_key spelled_decimal u = stored_key spelled_decimal (stored_fill 0))
      [stored_fill 0, stored_fill 1]) = 2"
    using stored_fill_fields(5) [of spelled_decimal 1] by simp
  note R = R [unfolded this]
  from R [where i = 1] R [where i = 2] show ?thesis
    by (simp add: MAX_OCCURRENCES_PER_CONTENT_def Let_def)
qed

text \<open>A fill at a price of eleven decimals is stored, but after a restart the backfill copies it again.\<close>

lemma long_price_is_copied_again:
  "let t = (stored_fill 0)\<lparr>so_price := 1/2 + 1 / 10 ^ 11\<rparr>;
       S = fst (insert_source_event spelled_decimal t (Some db_empty));
       X = tk_dedup (ap_tracker (recover spelled_decimal Some 1 ((sample_state ())\<lparr>ap_store := S\<rparr>)))
   in S = Some (db_empty\<lparr>db_source_events := [(so_event_id t, stored_fill 0, 5)]\<rparr>) \<and>
      is_new (snd (observe_backfill sha X (stored_key spelled_decimal t) 0 later))"
proof -
  define t where "t = (stored_fill 0)\<lparr>so_price := 1/2 + 1 / 10 ^ 11\<rparr>"
  define d where "d = db_empty\<lparr>db_source_events := [(so_event_id t, stored_fill 0, 5)]\<rparr>"
  have price: "(stored_fill 0)\<lparr>so_price := 1/2\<rparr> = stored_fill 0"
    using stored_fill_fields(1) [of 0] by (metis source_trade.surjective source_trade.update_convs(8))
  have "event_row spelled_decimal t = Some (stored_fill 0, 5)"
    using price by (simp add: event_row_def t_def stored_fill_fields source_notional_def qty_notional_def
        spelled_decimal_def numeric20_def round_half_away_def Let_def)
  then have S: "fst (insert_source_event spelled_decimal t (Some db_empty)) = Some d"
    by (simp add: insert_source_event_def source_event_statement_def db_empty_def d_def get_def)
  have rows: "[stored_fill 0] = window_rows (1 - hours DEFAULT_RETENTION_HOURS) d"
    by (simp add: window_rows_def d_def stored_fill_fields hours_def DEFAULT_RETENTION_HOURS_def)
  have key: "stored_key spelled_decimal (stored_fill 0) \<noteq> stored_key spelled_decimal t"
    by (simp add: stored_key_def content_key_new_def t_def stored_fill_fields spelled_decimal_def)
  have "count_of (tk_dedup (ap_tracker (recover spelled_decimal Some 1 ((sample_state ())\<lparr>ap_store := Some d\<rparr>))))
      (stored_key spelled_decimal t) = length (filter (\<lambda>u. stored_key spelled_decimal u = stored_key spelled_decimal t) [stored_fill 0])"
    by (rule restored_count_of [OF _ _ _ rows _ _ refl])
      (simp_all add: d_def db_empty_def sample_state_def tracker_new_def dedup_default_def dedup_new_def
        stored_fill_fields spelled_decimal_def)
  then have "count_of (tk_dedup (ap_tracker (recover spelled_decimal Some 1 ((sample_state ())\<lparr>ap_store := Some d\<rparr>))))
      (stored_key spelled_decimal t) = 0" using key by simp
  then show ?thesis unfolding t_def [symmetric] Let_def S
    by (simp add: backfill_verdict is_new_def MAX_OCCURRENCES_PER_CONTENT_def d_def)
qed

end
