(* ===== verification/Signing.thy ===== *)
theory Signing
  imports Orders "HOL-Library.Word"
begin

unbundle bit_operations_syntax

section \<open>Order signing (crates/execution/src/signing.rs)\<close>

text \<open>
  The EIP-712 encoding of an order, its digest and the signer. Bytes are 8-bit words and machine
  integers keep their width. Keccak-256 and the secp256k1 library are parameters: \<open>keccak\<close> hashes a
  byte string, and \<open>ec_ops\<close> holds what the code calls of the curve. The random salt and the clock
  are inputs.
\<close>

type_synonym bytes = "8 word list"

definition ascii_bytes :: "string \<Rightarrow> bytes" where
  "ascii_bytes s = map (\<lambda>c. of_nat (byte c)) s"

definition EXCHANGE_ADDRESS :: string where
  "EXCHANGE_ADDRESS = ''0xe3333700ca9d93003f00f0f71f8515005f6c00aa''"

definition DOMAIN_NAME :: string where
  "DOMAIN_NAME = ''Polymarket CTF Exchange''"

definition DOMAIN_VERSION :: string where
  "DOMAIN_VERSION = ''3''"

definition CHAIN_ID :: "64 word" where
  "CHAIN_ID = 137"

definition ORDER_TYPE :: string where
  "ORDER_TYPE = ''Order(uint256 salt,address maker,address signer,uint256 tokenId,'' @
     ''uint256 makerAmount,uint256 takerAmount,uint8 side,uint8 signatureType,uint256 timestamp,'' @
     ''bytes32 metadata,bytes32 builder)''"

definition DOMAIN_TYPE :: string where
  "DOMAIN_TYPE = ''EIP712Domain(string name,string version,uint256 chainId,address verifyingContract)''"

definition USDC_DECIMALS :: nat where
  "USDC_DECIMALS = 6"

datatype signing_error =
    BadKey string
  | BadSigningAddress string
  | BadAmount string
  | UnsupportedSignatureType nat
  | EcdsaError string

fun signing_error_text :: "signing_error \<Rightarrow> string" where
  "signing_error_text (BadKey s) = ''invalid private key: '' @ s"
| "signing_error_text (BadSigningAddress s) = ''invalid address '' @ s"
| "signing_error_text (BadAmount s) = ''amount '' @ s @ '' does not fit a uint256 base-unit value''"
| "signing_error_text (UnsupportedSignatureType n) = ''signature type '' @ nat_text n @
     '' is not supported by this signer (only EOA=0 and POLY_PROXY=1 are verified)''"
| "signing_error_text (EcdsaError s) = ''signing failed: '' @ s"

subsection \<open>Words of the ABI\<close>

text \<open>\<open>to_be_bytes\<close> of an integer of \<open>n\<close> bytes.\<close>

definition to_be_bytes :: "nat \<Rightarrow> 'a::len word \<Rightarrow> bytes" where
  "to_be_bytes n v = map (\<lambda>i. ucast (drop_bit (8 * i) v)) (rev [0..<n])"

definition word_u256 :: "bytes \<Rightarrow> bytes" where
  "word_u256 v = (let n = min (length v) 32 in replicate (32 - n) 0 @ drop (length v - n) v)"

definition word_from_u128 :: "128 word \<Rightarrow> bytes" where
  "word_from_u128 v = replicate 16 0 @ to_be_bytes 16 v"

definition word_from_u8 :: "8 word \<Rightarrow> bytes" where
  "word_from_u8 v = replicate 31 0 @ [v]"

definition hex_digit :: "char \<Rightarrow> nat option" where
  "hex_digit c =
     (if is_ascii_digit c then Some (byte c - 48)
      else if 97 \<le> byte c \<and> byte c \<le> 102 then Some (byte c - 87)
      else if 65 \<le> byte c \<and> byte c \<le> 70 then Some (byte c - 55)
      else None)"

text \<open>\<open>hex::decode\<close>: an even number of hexadecimal digits, two per byte.\<close>

fun hex_decode :: "string \<Rightarrow> bytes option" where
  "hex_decode [] = Some []"
| "hex_decode [c] = None"
| "hex_decode (c # d # cs) =
     (case (hex_digit c, hex_digit d, hex_decode cs) of
        (Some h, Some l, Some bs) \<Rightarrow> Some (of_nat (16 * h + l) # bs)
      | _ \<Rightarrow> None)"

definition hex_encode :: "bytes \<Rightarrow> string" where
  "hex_encode bs = concat (map (\<lambda>b. [hex_char (unat b div 16), hex_char (unat b mod 16)]) bs)"

text \<open>\<open>trim_start_matches\<close> removes the prefix as often as it is there.\<close>

fun trim_start_matches :: "char \<Rightarrow> char \<Rightarrow> string \<Rightarrow> string" where
  "trim_start_matches a b (c # d # s) = (if c = a \<and> d = b then trim_start_matches a b s else c # d # s)"
| "trim_start_matches a b s = s"

definition word_from_address :: "string \<Rightarrow> signing_error + bytes" where
  "word_from_address a =
     (let s = trim_start_matches (CHR ''0'') (CHR ''X'') (trim_start_matches (CHR ''0'') (CHR ''x'') a)
      in if length s \<noteq> 40 then Inl (BadSigningAddress a)
         else case hex_decode s of
           None \<Rightarrow> Inl (BadSigningAddress a)
         | Some bs \<Rightarrow> Inr (replicate 12 0 @ bs))"

text \<open>The inner loop: the bytes are multiplied by ten from the last to the first, with a carry.\<close>

fun ten_times_plus :: "bytes \<Rightarrow> 16 word \<Rightarrow> bytes \<times> 16 word" where
  "ten_times_plus [] carry = ([], carry)"
| "ten_times_plus (b # bs) carry =
     (let (bs', c) = ten_times_plus bs carry; v = ucast b * 10 + c
      in (ucast (v AND 0xff) # bs', drop_bit 8 v))"

fun decimal_bytes :: "bytes \<Rightarrow> string \<Rightarrow> bytes option" where
  "decimal_bytes acc [] = Some acc"
| "decimal_bytes acc (c # cs) =
     (if is_ascii_digit c then
        let (acc', carry) = ten_times_plus acc (of_nat (byte c - 48))
        in if carry \<noteq> 0 then None else decimal_bytes acc' cs
      else None)"

definition word_from_decimal_string :: "string \<Rightarrow> signing_error + bytes" where
  "word_from_decimal_string s =
     (case decimal_bytes (replicate 32 0) s of None \<Rightarrow> Inl (BadAmount s) | Some w \<Rightarrow> Inr w)"

subsection \<open>Big-endian values\<close>

definition be_value :: "bytes \<Rightarrow> nat" where
  "be_value bs = foldl (\<lambda>a b. a * 256 + unat b) 0 bs"

lemma be_value_simps:
  "be_value [] = 0" "be_value (bs @ [b]) = be_value bs * 256 + unat b"
  by (simp_all add: be_value_def)

lemma be_value_foldl: "foldl (\<lambda>a b. a * 256 + unat b) a bs = a * 256 ^ length bs + be_value bs"
proof (induction bs rule: rev_induct)
  case (snoc b bs)
  have "foldl (\<lambda>a b. a * 256 + unat b) a (bs @ [b]) = (a * 256 ^ length bs + be_value bs) * 256 + unat b"
    using snoc by simp
  then show ?case by (simp add: be_value_simps(2) distrib_right)
qed (simp add: be_value_simps)

lemma be_value_Cons: "be_value (b # bs) = unat b * 256 ^ length bs + be_value bs"
  using be_value_foldl [of "unat b" bs] by (simp add: be_value_def)

lemma unat_byte: "unat (b :: 8 word) < 256"
  using unsigned_less [of b, where 'a = nat] by simp

lemma be_value_less: "be_value bs < 256 ^ length bs"
proof (induction bs)
  case (Cons b bs)
  have "unat b * 256 ^ length bs \<le> 255 * 256 ^ length bs" using unat_byte [of b] by (intro mult_le_mono1) simp
  moreover have "256 ^ length (b # bs) = 255 * 256 ^ length bs + (256 :: nat) ^ length bs" by simp
  ultimately show ?case using Cons be_value_Cons [of b bs] by linarith
qed (simp add: be_value_def)

lemma be_value_zeros: "be_value (replicate n 0) = 0"
  by (induction n) (simp_all add: be_value_Cons be_value_simps)

lemma be_value_inject: "length a = length b \<Longrightarrow> be_value a = be_value b \<Longrightarrow> a = b"
proof (induction a b rule: list_induct2)
  case (Cons x xs y ys)
  have l: "be_value xs < 256 ^ length ys" "be_value ys < 256 ^ length ys"
    using be_value_less [of xs] be_value_less [of ys] Cons.hyps by simp_all
  have e: "unat x * 256 ^ length ys + be_value xs = unat y * 256 ^ length ys + be_value ys"
    using Cons.prems Cons.hyps by (simp add: be_value_Cons)
  from arg_cong [OF e, of "\<lambda>n. n div 256 ^ length ys"] arg_cong [OF e, of "\<lambda>n. n mod 256 ^ length ys"] l
  have "unat x = unat y" "be_value xs = be_value ys" by simp_all
  with Cons.IH show ?case by (simp add: word_unat_eq_iff)
qed simp

text \<open>One step of the loop is exact: the value times ten plus the carry, split at the word's end.\<close>

lemma ten_times_plus_value:
  "ten_times_plus bs c = (bs', c') \<Longrightarrow> unat c < 10 \<Longrightarrow>
     length bs' = length bs \<and> unat c' < 10 \<and>
     be_value bs' + unat c' * 256 ^ length bs = be_value bs * 10 + unat c"
proof (induction bs arbitrary: bs' c')
  case (Cons b bs)
  obtain r k where r: "ten_times_plus bs c = (r, k)" by force
  define v where "v = (ucast b * 10 + k :: 16 word)"
  define X where "X = (256 :: nat) ^ length bs"
  have ih: "length r = length bs" "unat k < 10" "be_value r + unat k * X = be_value bs * 10 + unat c"
    using Cons.IH [OF r Cons.prems(2)] by (simp_all add: X_def)
  have ub: "unat (ucast b :: 16 word) = unat b"
    using unat_byte [of b] by (simp add: unsigned_ucast_eq take_bit_nat_eq_self)
  have v: "unat v = unat b * 10 + unat k"
    using unat_byte [of b] ih(2) by (simp add: v_def unat_word_ariths ub)
  have low: "unat (ucast (v AND 0xff) :: 8 word) = unat v mod 256"
  proof -
    have "v AND 0xff = take_bit 8 v" by (simp add: take_bit_eq_mask mask_eq_exp_minus_1)
    then show ?thesis by (simp only: unsigned_ucast_eq unsigned_take_bit_eq take_bit_take_bit) (simp add: take_bit_eq_mod)
  qed
  have high: "unat (drop_bit 8 v) = unat v div 256"
    using unsigned_less [of v, where 'a = nat]
    by (simp only: unsigned_drop_bit_eq) (simp add: drop_bit_eq_div take_bit_nat_eq_self)
  have out: "bs' = ucast (v AND 0xff) # r" "c' = drop_bit 8 v"
    using Cons.prems(1) by (simp_all add: r v_def Let_def)
  have "be_value bs' + unat c' * 256 ^ length (b # bs) =
      unat v mod 256 * X + be_value r + unat v div 256 * 256 * X"
    unfolding out be_value_Cons low high ih(1) X_def by simp
  also have "\<dots> = (unat v mod 256 + unat v div 256 * 256) * X + be_value r"
    by (simp only: distrib_right add.assoc add.left_commute add.commute)
  also have "\<dots> = unat v * X + be_value r" by simp
  also have "\<dots> = unat b * X * 10 + (be_value r + unat k * X)" unfolding v by (simp add: distrib_right)
  also have "\<dots> = unat b * X * 10 + (be_value bs * 10 + unat c)" by (simp only: ih(3))
  also have "\<dots> = be_value (b # bs) * 10 + unat c"
    unfolding be_value_Cons X_def by (simp add: distrib_right)
  finally have exact: "be_value bs' + unat c' * 256 ^ length (b # bs) = be_value (b # bs) * 10 + unat c" .
  have "length bs' = length (b # bs)" "unat c' < 10" using out ih(1,2) unat_byte [of b] by (simp_all add: high v)
  with exact show ?case by blast
qed (simp add: be_value_simps)

lemma digits_value_Cons: "digits_value (c # s) = (byte c - 48) * 10 ^ length s + digits_value s"
proof -
  have "foldl (\<lambda>a c. a * 10 + (byte c - 48)) a s = a * 10 ^ length s + digits_value s" for a
  proof (induction s rule: rev_induct)
    case (snoc b s)
    have "foldl (\<lambda>a c. a * 10 + (byte c - 48)) a (s @ [b]) = (a * 10 ^ length s + digits_value s) * 10 + (byte b - 48)"
      using snoc by simp
    then show ?case by (simp add: digits_value_append distrib_right)
  qed (simp add: digits_value_def)
  from this [of "byte c - 48"] show ?thesis by (simp add: digits_value_def)
qed

text \<open>A carry that is left means that the number no longer fits, and later digits cannot mend it.\<close>

lemma decimal_bytes_iff:
  "length acc = 32 \<Longrightarrow>
     decimal_bytes acc s = Some w \<longleftrightarrow>
       list_all is_ascii_digit s \<and> length w = 32 \<and> be_value w = be_value acc * 10 ^ length s + digits_value s"
proof (induction s arbitrary: acc)
  case Nil
  then show ?case using be_value_inject [of acc w] by (auto simp: digits_value_def)
next
  case (Cons c s)
  define d where "d = byte c - 48"
  define T where "T = (10 :: nat) ^ length s"
  have T: "1 \<le> T" by (simp add: T_def)
  obtain acc' k where k: "ten_times_plus acc (of_nat d) = (acc', k)" by force
  have val: "be_value acc * 10 ^ length (c # s) + digits_value (c # s) = (be_value acc * 10 + d) * T + digits_value s"
    by (simp add: digits_value_Cons d_def T_def distrib_right)
  show ?case
  proof (cases "is_ascii_digit c")
    case True
    then have d: "d < 10" unfolding d_def is_ascii_digit_def by linarith
    then have ud: "unat (of_nat d :: 16 word) = d" by (simp add: unat_of_nat)
    have step: "length acc' = 32" "be_value acc' + unat k * 256 ^ 32 = be_value acc * 10 + d"
      using ten_times_plus_value [OF k] d ud Cons.prems by simp_all
    show ?thesis
    proof (cases "k = 0")
      case True
      then have v: "be_value acc' = be_value acc * 10 + d" using step(2) by simp
      have "decimal_bytes acc (c # s) = decimal_bytes acc' s"
        using True \<open>is_ascii_digit c\<close> k by (simp add: d_def [symmetric])
      then show ?thesis using Cons.IH [OF step(1)] \<open>is_ascii_digit c\<close> unfolding val v T_def by simp
    next
      case False
      then have "1 * 256 ^ 32 \<le> unat k * 256 ^ 32" by (intro mult_le_mono1) (simp add: Suc_le_eq unat_gt_0)
      then have "256 ^ 32 \<le> be_value acc * 10 + d" using step(2) by linarith
      from mult_le_mono [OF this T] have "256 ^ 32 \<le> (be_value acc * 10 + d) * T + digits_value s" by simp
      moreover have "decimal_bytes acc (c # s) = None"
        using False \<open>is_ascii_digit c\<close> k by (simp add: d_def [symmetric])
      ultimately show ?thesis unfolding val using be_value_less [of w] by (metis leD option.distinct(1))
    qed
  qed simp
qed

lemma word_from_decimal_string_Inr:
  "word_from_decimal_string s = Inr w \<longleftrightarrow>
     list_all is_ascii_digit s \<and> length w = 32 \<and> be_value w = digits_value s"
  using decimal_bytes_iff [of "replicate 32 0" s w]
  by (auto simp: word_from_decimal_string_def be_value_zeros split: option.split)

subsection \<open>The order that is signed\<close>

datatype signature_type = Eoa | PolyProxy

fun as_u8 :: "signature_type \<Rightarrow> 8 word" where
  "as_u8 Eoa = 0"
| "as_u8 PolyProxy = 1"

record polymarket_order =
  po_salt :: "128 word"
  po_maker :: string
  po_signer :: string
  po_token_id :: string
  po_maker_amount :: "128 word"
  po_taker_amount :: "128 word"
  po_side :: "8 word"
  po_signature_type :: signature_type
  po_timestamp :: "64 word"
  po_metadata :: bytes
  po_builder :: bytes

text \<open>\<open>Decimal::to_u128\<close> of a whole number.\<close>

definition to_u128 :: "rat \<Rightarrow> nat option" where
  "to_u128 x = (if 0 \<le> x \<and> x < 2 ^ 128 then Some (nat \<lfloor>x\<rfloor>) else None)"

definition to_base :: "decimal_ops \<Rightarrow> rat \<Rightarrow> rat \<Rightarrow> bool \<Rightarrow> signing_error + nat" where
  "to_base D scale d round_up =
     (let scaled = d_mul D d scale; r = (if round_up then d_ceil scaled else d_floor scaled)
      in ok_or (BadAmount (d_show D d)) (to_u128 r))"

definition from_request ::
    "decimal_ops \<Rightarrow> order_request \<Rightarrow> string \<Rightarrow> string \<Rightarrow> signature_type \<Rightarrow> 128 word \<Rightarrow> 64 word \<Rightarrow> nat \<Rightarrow>
     signing_error + polymarket_order" where
  "from_request D req maker signer sigtype salt stamp decimals =
     (let scale = 10 ^ decimals; quant = rq_quantity req; px = rq_limit_price req;
          notional = d_mul D quant px
      in and_then
           (case rq_side req of
              Buy \<Rightarrow> and_then (to_base D scale notional False) (\<lambda>m.
                     and_then (to_base D scale quant False) (\<lambda>t. Inr (m, t, 0 :: 8 word)))
            | Sell \<Rightarrow> and_then (to_base D scale quant False) (\<lambda>m.
                      and_then (to_base D scale notional True) (\<lambda>t. Inr (m, t, 1))))
           (\<lambda>(maker_amount, taker_amount, sd).
              if maker_amount = 0 \<or> taker_amount = 0 then
                Inl (BadAmount (''order rounds to zero base units at '' @ nat_text decimals @ '' decimals''))
              else Inr \<lparr>po_salt = salt, po_maker = maker, po_signer = signer,
                po_token_id = token_str (rq_token_id req), po_maker_amount = of_nat maker_amount,
                po_taker_amount = of_nat taker_amount, po_side = sd, po_signature_type = sigtype,
                po_timestamp = stamp, po_metadata = replicate 32 0, po_builder = replicate 32 0\<rparr>))"

definition struct_message :: "(bytes \<Rightarrow> bytes) \<Rightarrow> polymarket_order \<Rightarrow> signing_error + bytes" where
  "struct_message keccak po =
     and_then (word_from_address (po_maker po)) (\<lambda>maker.
     and_then (word_from_address (po_signer po)) (\<lambda>signer.
     and_then (word_from_decimal_string (po_token_id po)) (\<lambda>token.
       Inr (concat [keccak (ascii_bytes ORDER_TYPE), word_from_u128 (po_salt po), maker, signer, token,
         word_from_u128 (po_maker_amount po), word_from_u128 (po_taker_amount po), word_from_u8 (po_side po),
         word_from_u8 (as_u8 (po_signature_type po)), word_from_u128 (ucast (po_timestamp po)),
         po_metadata po, po_builder po]))))"

definition struct_hash :: "(bytes \<Rightarrow> bytes) \<Rightarrow> polymarket_order \<Rightarrow> signing_error + bytes" where
  "struct_hash keccak po = and_then (struct_message keccak po) (\<lambda>m. Inr (keccak m))"

definition digest_message :: "bytes \<Rightarrow> bytes \<Rightarrow> bytes" where
  "digest_message separator sh = [0x19, 0x01] @ separator @ sh"

definition order_digest :: "(bytes \<Rightarrow> bytes) \<Rightarrow> bytes \<Rightarrow> polymarket_order \<Rightarrow> signing_error + bytes" where
  "order_digest keccak separator po =
     and_then (struct_hash keccak po) (\<lambda>sh. Inr (keccak (digest_message separator sh)))"

definition domain_separator :: "(bytes \<Rightarrow> bytes) \<Rightarrow> string \<Rightarrow> 64 word \<Rightarrow> signing_error + bytes" where
  "domain_separator keccak contract chain_id =
     and_then (word_from_address contract) (\<lambda>a.
       Inr (keccak (concat [keccak (ascii_bytes DOMAIN_TYPE), keccak (ascii_bytes DOMAIN_NAME),
         keccak (ascii_bytes DOMAIN_VERSION), word_u256 (to_be_bytes 8 chain_id), a])))"

subsection \<open>The signer\<close>

text \<open>The curve: reading a secret key, its public key as an uncompressed point, signing a digest with
  the recovery id, whether 64 bytes are a signature, and recovering the public key.\<close>

record 'k ec_ops =
  ec_key :: "bytes \<Rightarrow> string + 'k"
  ec_public :: "'k \<Rightarrow> bytes"
  ec_sign :: "'k \<Rightarrow> bytes \<Rightarrow> string + bytes \<times> nat"
  ec_signature_ok :: "bytes \<Rightarrow> string + unit"
  ec_recover :: "bytes \<Rightarrow> bytes \<Rightarrow> nat \<Rightarrow> string + bytes"

definition address_of :: "(bytes \<Rightarrow> bytes) \<Rightarrow> bytes \<Rightarrow> string" where
  "address_of keccak point = ''0x'' @ hex_encode (drop 12 (keccak (drop 1 point)))"

record 'k eoa_signer =
  es_key :: 'k
  es_address :: string
  es_maker :: string
  es_signature_type :: signature_type
  es_domain_separator :: bytes

text \<open>\<open>hex_error\<close> is the text of the hex library's error.\<close>

definition eoa_signer_new ::
    "'k ec_ops \<Rightarrow> (bytes \<Rightarrow> bytes) \<Rightarrow> (string \<Rightarrow> string) \<Rightarrow> string \<Rightarrow> string option \<Rightarrow> signature_type \<Rightarrow>
     signing_error + 'k eoa_signer" where
  "eoa_signer_new C keccak hex_error private_key_hex maker sigtype =
     (let raw = trim_start_matches (CHR ''0'') (CHR ''x'') (trim private_key_hex)
      in and_then (ok_or (BadKey (hex_error raw)) (hex_decode raw)) (\<lambda>bs.
         if length bs \<noteq> 32 then Inl (BadKey (''expected 32 bytes, got '' @ nat_text (length bs)))
         else and_then (map_err BadKey (ec_key C bs)) (\<lambda>key.
           let addr = address_of keccak (ec_public C key)
           in and_then (domain_separator keccak EXCHANGE_ADDRESS CHAIN_ID) (\<lambda>separator.
             Inr \<lparr>es_key = key, es_address = addr,
               es_maker = (case maker of Some m \<Rightarrow> m | None \<Rightarrow> addr),
               es_signature_type = sigtype, es_domain_separator = separator\<rparr>))))"

definition sign_order ::
    "'k ec_ops \<Rightarrow> (bytes \<Rightarrow> bytes) \<Rightarrow> 'k eoa_signer \<Rightarrow> polymarket_order \<Rightarrow> signing_error + bytes" where
  "sign_order C keccak S po =
     and_then (order_digest keccak (es_domain_separator S) po) (\<lambda>dg.
     and_then (map_err EcdsaError (ec_sign C (es_key S) dg)) (\<lambda>(sig, rec).
       Inr (sig @ [of_nat (rec + 27)])))"

definition sign_to_json ::
    "'k ec_ops \<Rightarrow> (bytes \<Rightarrow> bytes) \<Rightarrow> 'k eoa_signer \<Rightarrow> polymarket_order \<Rightarrow> signing_error + json" where
  "sign_to_json C keccak S po =
     and_then (sign_order C keccak S po) (\<lambda>sig. Inr (JObj [
       (''salt'', JStr (nat_text (unat (po_salt po)))),
       (''maker'', JStr (po_maker po)),
       (''signer'', JStr (po_signer po)),
       (''tokenId'', JStr (po_token_id po)),
       (''makerAmount'', JStr (nat_text (unat (po_maker_amount po)))),
       (''takerAmount'', JStr (nat_text (unat (po_taker_amount po)))),
       (''side'', JStr (if po_side po = 0 then ''BUY'' else ''SELL'')),
       (''signatureType'', JInt (uint (as_u8 (po_signature_type po)))),
       (''timestamp'', JStr (nat_text (unat (po_timestamp po)))),
       (''metadata'', JStr (''0x'' @ hex_encode (po_metadata po))),
       (''builder'', JStr (''0x'' @ hex_encode (po_builder po))),
       (''signature'', JStr (''0x'' @ hex_encode sig))]))"

definition recover_signer ::
    "'k ec_ops \<Rightarrow> (bytes \<Rightarrow> bytes) \<Rightarrow> bytes \<Rightarrow> bytes \<Rightarrow> signing_error + string" where
  "recover_signer C keccak dg sig65 =
     (if length sig65 \<noteq> 65 then Inl (EcdsaError (''expected 65 bytes, got '' @ nat_text (length sig65)))
      else and_then (map_err EcdsaError (ec_signature_ok C (take 64 sig65))) (\<lambda>_.
        let v = unat (sig65 ! 64); rec = (if v \<ge> 27 then v - 27 else v)
        in if rec \<ge> 4 then Inl (EcdsaError (''bad recovery id '' @ nat_text v))
           else and_then (map_err EcdsaError (ec_recover C dg (take 64 sig65) rec)) (\<lambda>point.
             Inr (address_of keccak point))))"

record signed_order =
  so_body :: json
  so_signed_address :: string

text \<open>The adapter's seam; \<open>salt\<close> is a random 64-bit number and \<open>now\<close> the clock in seconds.\<close>

definition sign_request ::
    "decimal_ops \<Rightarrow> 'k ec_ops \<Rightarrow> (bytes \<Rightarrow> bytes) \<Rightarrow> 64 word \<Rightarrow> int \<Rightarrow> 'k eoa_signer \<Rightarrow> order_request \<Rightarrow>
     string + signed_order" where
  "sign_request D C keccak salt now S req =
     map_err signing_error_text
       (and_then (from_request D req (es_maker S) (es_address S) (es_signature_type S) (ucast salt)
                    (of_int (max now 0)) USDC_DECIMALS) (\<lambda>po.
        and_then (sign_to_json C keccak S po) (\<lambda>body.
          Inr \<lparr>so_body = body, so_signed_address = es_address S\<rparr>)))"

subsection \<open>Encodings are injective\<close>

lemma to_be_bytes_Suc: "to_be_bytes (Suc n) v = ucast (drop_bit (8 * n) v) # to_be_bytes n v"
  by (simp add: to_be_bytes_def)

lemma length_to_be_bytes [simp]: "length (to_be_bytes n v) = n"
  by (simp add: to_be_bytes_def)

lemma be_value_to_be_bytes: "be_value (to_be_bytes n v) = unat v mod 256 ^ n"
proof (induction n)
  case 0
  then show ?case by (simp add: to_be_bytes_def be_value_def)
next
  case (Suc n)
  have "unat v < 2 ^ LENGTH('a)" by (rule unsigned_less)
  then have "unat (drop_bit (8 * n) v) = unat v div 256 ^ n"
    by (simp only: unsigned_drop_bit_eq)
      (simp add: drop_bit_eq_div take_bit_nat_eq_self power_mult)
  then have "unat (ucast (drop_bit (8 * n) v) :: 8 word) = unat v div 256 ^ n mod 256"
    by (simp only: unsigned_ucast_eq) (simp add: take_bit_eq_mod)
  moreover have "unat v mod 256 ^ Suc n = 256 ^ n * (unat v div 256 ^ n mod 256) + unat v mod 256 ^ n"
    by (simp only: power_Suc2 mod_mult2_eq)
  ultimately show ?case by (simp add: to_be_bytes_Suc be_value_Cons Suc mult.commute)
qed

lemma to_be_bytes_inject:
  assumes "2 ^ LENGTH('a) \<le> (256 :: nat) ^ n" and "to_be_bytes n v = to_be_bytes n (w :: 'a::len word)"
  shows "v = w"
proof -
  have "unat x mod 256 ^ n = unat x" for x :: "'a word"
    using unsigned_less [of x, where 'a = nat] assms(1) by (intro mod_less) linarith
  with arg_cong [OF assms(2), of be_value] show ?thesis
    by (simp add: be_value_to_be_bytes word_unat_eq_iff)
qed

lemma word_from_u128_inject [simp]: "word_from_u128 v = word_from_u128 w \<longleftrightarrow> v = w"
  by (auto simp: word_from_u128_def intro: to_be_bytes_inject [of 16])

lemma hex_decode_length: "hex_decode s = Some bs \<Longrightarrow> length s = 2 * length bs"
  by (induction s arbitrary: bs rule: hex_decode.induct) (auto split: option.splits)

lemma abi_lengths:
  "length (word_from_u128 v) = 32" "length (word_from_u8 b) = 32"
  "word_from_address a = Inr x \<Longrightarrow> length x = 32"
  "word_from_decimal_string t = Inr y \<Longrightarrow> length y = 32"
  by (auto simp: word_from_u128_def word_from_u8_def word_from_address_def Let_def word_from_decimal_string_Inr
      dest: hex_decode_length split: if_splits option.splits)

subsection \<open>Properties\<close>

text \<open>C20: Token ids are signed exactly. The byte loop accepts a string exactly when it is decimal digits
  whose number fits 256 bits, and gives the 32 bytes of that number; a longer number is refused, never
  truncated, and the text of a number gives back the number.\<close>

theorem token_ids_are_signed_exactly:
  "(word_from_decimal_string s = Inr w \<longleftrightarrow>
     list_all is_ascii_digit s \<and> length w = 32 \<and> be_value w = digits_value s) \<and>
   (word_from_decimal_string s = Inl (BadAmount s) \<longleftrightarrow> \<not> (list_all is_ascii_digit s \<and> digits_value s < 2 ^ 256)) \<and>
   word_from_decimal_string (nat_text n) =
     (if n < 2 ^ 256 then Inr (to_be_bytes 32 (word_of_nat n :: 256 word)) else Inl (BadAmount (nat_text n)))"
proof -
  have fits: "be_value (to_be_bytes 32 (word_of_nat m :: 256 word)) = m" if "m < 2 ^ 256" for m
    using that by (simp add: be_value_to_be_bytes unat_of_nat)
  have gives: "word_from_decimal_string t =
      (if list_all is_ascii_digit t \<and> digits_value t < 2 ^ 256
       then Inr (to_be_bytes 32 (word_of_nat (digits_value t) :: 256 word)) else Inl (BadAmount t))" for t
  proof (cases "list_all is_ascii_digit t \<and> digits_value t < 2 ^ 256")
    case True
    then have "word_from_decimal_string t = Inr (to_be_bytes 32 (word_of_nat (digits_value t) :: 256 word))"
      unfolding word_from_decimal_string_Inr using fits by simp
    with True show ?thesis by simp
  next
    case False
    have none: "word_from_decimal_string t \<noteq> Inr x" for x
      using False be_value_less [of x] unfolding word_from_decimal_string_Inr by auto
    have "word_from_decimal_string t = Inl (BadAmount t)"
    proof (cases "decimal_bytes (replicate 32 0) t")
      case (Some x)
      with none [of x] show ?thesis by (simp add: word_from_decimal_string_def)
    qed (simp add: word_from_decimal_string_def)
    then show ?thesis using False by simp
  qed
  show ?thesis
    using word_from_decimal_string_Inr [of s w] gives [of s] gives [of "nat_text n"] nat_text_digits [of n]
    by (auto simp: digits_value_nat_text)
qed

text \<open>The metadata and the builder are 32 bytes, as their types say.\<close>

definition fixed_fields :: "polymarket_order \<Rightarrow> bool" where
  "fixed_fields po \<longleftrightarrow> length (po_metadata po) = 32 \<and> length (po_builder po) = 32"

definition signed_messages :: "(bytes \<Rightarrow> bytes) \<Rightarrow> bytes \<Rightarrow> polymarket_order \<Rightarrow> bytes list" where
  "signed_messages keccak separator po =
     (case struct_message keccak po of Inr m \<Rightarrow> [m, digest_message separator (keccak m)] | Inl _ \<Rightarrow> [])"

text \<open>C21: A digest binds every field of the order. Two orders with the same digest, whose messages the
  hash tells apart, agree in salt, amounts, side, signature type, time, metadata and builder, in the
  twenty bytes of maker and signer, and in the number of the token.\<close>

theorem digest_binds_the_order:
  assumes "order_digest keccak separator a = Inr h" and "order_digest keccak separator b = Inr h"
    and "fixed_fields a" and "fixed_fields b"
    and "inj_on keccak (set (signed_messages keccak separator a @ signed_messages keccak separator b))"
  shows "po_salt a = po_salt b \<and> po_maker_amount a = po_maker_amount b \<and> po_taker_amount a = po_taker_amount b \<and>
    po_side a = po_side b \<and> po_signature_type a = po_signature_type b \<and> po_timestamp a = po_timestamp b \<and>
    po_metadata a = po_metadata b \<and> po_builder a = po_builder b \<and>
    word_from_address (po_maker a) = word_from_address (po_maker b) \<and>
    word_from_address (po_signer a) = word_from_address (po_signer b) \<and>
    digits_value (po_token_id a) = digits_value (po_token_id b)"
proof -
  obtain ma mb where m: "struct_message keccak a = Inr ma" "struct_message keccak b = Inr mb"
    "h = keccak (digest_message separator (keccak ma))" "h = keccak (digest_message separator (keccak mb))"
    using assms(1,2) by (auto simp: order_digest_def struct_hash_def and_then_Inr)
  have "ma = mb"
  proof -
    have mem: "{ma, mb, digest_message separator (keccak ma), digest_message separator (keccak mb)} \<subseteq>
        set (signed_messages keccak separator a @ signed_messages keccak separator b)"
      using m(1,2) by (simp add: signed_messages_def)
    have "digest_message separator (keccak ma) = digest_message separator (keccak mb)"
      by (rule inj_onD [OF assms(5)]) (use m(3,4) mem in simp_all)
    then have "keccak ma = keccak mb" by (simp add: digest_message_def)
    then show ?thesis by (rule inj_onD [OF assms(5)]) (use mem in simp_all)
  qed
  obtain x y t x' y' t' where p: "word_from_address (po_maker a) = Inr x" "word_from_address (po_signer a) = Inr y"
      "word_from_decimal_string (po_token_id a) = Inr t" "word_from_address (po_maker b) = Inr x'"
      "word_from_address (po_signer b) = Inr y'" "word_from_decimal_string (po_token_id b) = Inr t'"
    using m(1,2) by (auto simp: struct_message_def and_then_Inr)
  note len = abi_lengths(1,2) abi_lengths(3) [OF p(1)] abi_lengths(3) [OF p(2)] abi_lengths(4) [OF p(3)]
    abi_lengths(3) [OF p(4)] abi_lengths(3) [OF p(5)] abi_lengths(4) [OF p(6)]
  define fields where "fields = (\<lambda>(po :: polymarket_order) x y t. [keccak (ascii_bytes ORDER_TYPE), word_from_u128 (po_salt po), x, y, t,
     word_from_u128 (po_maker_amount po), word_from_u128 (po_taker_amount po), word_from_u8 (po_side po),
     word_from_u8 (as_u8 (po_signature_type po)), word_from_u128 (ucast (po_timestamp po)),
     po_metadata po, po_builder po])"
  have "concat (fields a x y t) = concat (fields b x' y' t')"
    using m(1,2) \<open>ma = mb\<close> unfolding struct_message_def p and_then.simps fields_def by (metis sum.inject(2))
  moreover have "length (fields a x y t) = length (fields b x' y' t')" by (simp add: fields_def)
  moreover have "\<forall>(u, v) \<in> set (zip (fields a x y t) (fields b x' y' t')). length u = length v"
    using assms(3,4) by (simp add: fields_def len fixed_fields_def)
  ultimately have "fields a x y t = fields b x' y' t'" by (rule concat_injective)
  then have e: "po_salt a = po_salt b" "x = x'" "y = y'" "t = t'" "po_maker_amount a = po_maker_amount b"
    "po_taker_amount a = po_taker_amount b" "po_side a = po_side b"
    "as_u8 (po_signature_type a) = as_u8 (po_signature_type b)"
    "(ucast (po_timestamp a) :: 128 word) = ucast (po_timestamp b)"
    "po_metadata a = po_metadata b" "po_builder a = po_builder b"
    by (simp_all add: fields_def word_from_u8_def)
  have "po_signature_type a = po_signature_type b"
    using e(8) by (cases "po_signature_type a"; cases "po_signature_type b") simp_all
  moreover have "po_timestamp a = po_timestamp b"
  proof -
    have "unat (ucast x :: 128 word) = unat x" for x :: "64 word"
      using unsigned_less [of x, where 'a = nat] by (simp add: unsigned_ucast_eq take_bit_nat_eq_self)
    with e(9) show ?thesis by (metis word_unat_eq_iff)
  qed
  moreover have "digits_value (po_token_id a) = digits_value (po_token_id b)"
    using p(3,6) e(4) unfolding word_from_decimal_string_Inr by simp
  ultimately show ?thesis using e p by simp
qed

text \<open>The same order, its maker in capitals and its token with leading zeros.\<close>

definition sample_signable :: polymarket_order where
  "sample_signable = \<lparr>po_salt = 5, po_maker = ''0xabb89972b21b304c1bed2bf26f35c8741ac9bba3'',
     po_signer = EXCHANGE_ADDRESS, po_token_id = ''12345'', po_maker_amount = 60000000,
     po_taker_amount = 100000000, po_side = 0, po_signature_type = PolyProxy, po_timestamp = 1787112360,
     po_metadata = replicate 32 0, po_builder = replicate 32 0\<rparr>"

definition respelled :: polymarket_order where
  "respelled = sample_signable\<lparr>po_maker := ''0xABB89972B21B304C1BED2BF26F35C8741AC9BBA3'', po_token_id := ''0012345''\<rparr>"

lemma respelled_message: "\<exists>m. struct_message keccak sample_signable = Inr m \<and> struct_message keccak respelled = Inr m"
proof -
  have "\<exists>x. word_from_address (po_maker sample_signable) = Inr x \<and> word_from_address (po_maker respelled) = Inr x"
    by (simp add: sample_signable_def respelled_def word_from_address_def hex_digit_def is_ascii_digit_def byte_def)
  moreover have "\<exists>y. word_from_address (po_signer sample_signable) = Inr y"
    by (simp add: sample_signable_def EXCHANGE_ADDRESS_def word_from_address_def hex_digit_def is_ascii_digit_def byte_def)
  moreover have "\<exists>t. word_from_decimal_string ''12345'' = Inr t \<and> word_from_decimal_string ''0012345'' = Inr t"
  proof -
    have "be_value (to_be_bytes 32 (12345 :: 256 word)) = 12345" by (simp add: be_value_to_be_bytes)
    then have "word_from_decimal_string ''12345'' = Inr (to_be_bytes 32 (12345 :: 256 word)) \<and>
        word_from_decimal_string ''0012345'' = Inr (to_be_bytes 32 (12345 :: 256 word))"
      unfolding word_from_decimal_string_Inr by (simp add: digits_value_def is_ascii_digit_def byte_def)
    then show ?thesis by blast
  qed
  moreover have "po_signer respelled = po_signer sample_signable" "po_token_id sample_signable = ''12345''"
    "po_token_id respelled = ''0012345''" "po_salt respelled = po_salt sample_signable"
    "po_maker_amount respelled = po_maker_amount sample_signable" "po_taker_amount respelled = po_taker_amount sample_signable"
    "po_side respelled = po_side sample_signable" "po_signature_type respelled = po_signature_type sample_signable"
    "po_timestamp respelled = po_timestamp sample_signable" "po_metadata respelled = po_metadata sample_signable"
    "po_builder respelled = po_builder sample_signable"
    by (simp_all add: respelled_def sample_signable_def)
  ultimately show ?thesis by (auto simp: struct_message_def)
qed

text \<open>With the identity in the place of the hash.\<close>

theorem digest_binds_the_order_witness:
  "\<exists>h. order_digest (\<lambda>m. m) [] sample_signable = Inr h \<and> order_digest (\<lambda>m. m) [] respelled = Inr h \<and>
     word_from_address (po_maker sample_signable) = word_from_address (po_maker respelled) \<and>
     digits_value (po_token_id sample_signable) = digits_value (po_token_id respelled)"
proof -
  obtain m where m: "struct_message (\<lambda>m. m) sample_signable = Inr m" "struct_message (\<lambda>m. m) respelled = Inr m"
    using respelled_message by blast
  then have d: "order_digest (\<lambda>m. m) [] sample_signable = Inr (digest_message [] m)"
    "order_digest (\<lambda>m. m) [] respelled = Inr (digest_message [] m)"
    by (simp_all add: order_digest_def struct_hash_def)
  have "fixed_fields sample_signable" "fixed_fields respelled"
    by (simp_all add: fixed_fields_def respelled_def sample_signable_def)
  from digest_binds_the_order [OF d this] d show ?thesis by simp
qed

subsection \<open>Amounts\<close>

context decimal_exact
begin

lemma to_base_Inr:
  assumes "to_base D scale d up = Inr n"
  shows "rat_of_nat n = (if up then d_ceil (d * scale) else d_floor (d * scale)) \<and> n < 2 ^ 128"
proof -
  define z where "z = (if up then \<lceil>d * scale\<rceil> else \<lfloor>d * scale\<rfloor>)"
  have "to_u128 (of_int z) = Some n"
    using assms by (simp add: to_base_def mul_exact d_ceil_def d_floor_def z_def Let_def split: if_splits)
  then have "0 \<le> z" "(of_int z :: rat) < 2 ^ 128" "n = nat z" by (auto simp: to_u128_def split: if_splits)
  moreover from this(2) have "z < 2 ^ 128" by (metis of_int_less_iff of_int_numeral of_int_power)
  ultimately show ?thesis by (simp add: z_def d_ceil_def d_floor_def nat_less_iff)
qed

lemma from_request_amounts:
  assumes "from_request D r maker signer st salt stamp decimals = Inr po"
    and "q = rq_quantity r * 10 ^ decimals"
  obtains m t where "m \<noteq> 0" "t \<noteq> 0" "unat (po_maker_amount po) = m" "unat (po_taker_amount po) = t"
    "rat_of_nat m = (if rq_side r = Buy then d_floor (rq_limit_price r * q) else d_floor q)"
    "rat_of_nat t = (if rq_side r = Buy then d_floor q else d_ceil (rq_limit_price r * q))"
proof -
  have n: "rq_quantity r * rq_limit_price r * 10 ^ decimals = rq_limit_price r * q" by (simp add: assms(2))
  obtain m t sd where a: "m \<noteq> 0" "t \<noteq> 0" "po_maker_amount po = of_nat m" "po_taker_amount po = of_nat t"
    "if rq_side r = Buy
     then to_base D (10 ^ decimals) (rq_quantity r * rq_limit_price r) False = Inr m \<and> to_base D (10 ^ decimals) (rq_quantity r) False = Inr t
     else to_base D (10 ^ decimals) (rq_quantity r) False = Inr m \<and> to_base D (10 ^ decimals) (rq_quantity r * rq_limit_price r) True = Inr t"
    using assms(1) by (cases "rq_side r")
      (auto simp: from_request_def and_then_Inr mul_exact Let_def split: if_splits)
  have "m < 2 ^ 128" "t < 2 ^ 128" using a(5) to_base_Inr by (metis (full_types))+
  then have "unat (po_maker_amount po) = m" "unat (po_taker_amount po) = t"
    using a(3,4) by (simp_all add: unat_of_nat)
  moreover have "rat_of_nat m = (if rq_side r = Buy then d_floor (rq_limit_price r * q) else d_floor q)"
    "rat_of_nat t = (if rq_side r = Buy then d_floor q else d_ceil (rq_limit_price r * q))"
    using a(5) to_base_Inr [of "10 ^ decimals"] by (auto simp: n [unfolded assms(2)] assms(2) split: if_splits)
  ultimately show ?thesis using that a(1,2) by blast
qed

lemma amounts_respect_the_limit:
  assumes "0 < rq_limit_price r" and "0 \<le> rq_quantity r"
    and "from_request D r maker signer st salt stamp decimals = Inr po"
    and "m = rat_of_nat (unat (po_maker_amount po))" and "t = rat_of_nat (unat (po_taker_amount po))"
    and "q = rq_quantity r * 10 ^ decimals"
  shows "0 < m \<and> 0 < t \<and>
    (case rq_side r of
       Sell \<Rightarrow> m \<le> q \<and> rq_limit_price r * q \<le> t \<and> rq_limit_price r * m \<le> t
     | Buy \<Rightarrow> m \<le> rq_limit_price r * q \<and> t \<le> q \<and> m < rq_limit_price r * (t + 1) \<and>
              (q = of_int \<lfloor>q\<rfloor> \<longrightarrow> m \<le> rq_limit_price r * t))"
proof -
  obtain m' t' where a: "m' \<noteq> 0" "t' \<noteq> 0" "unat (po_maker_amount po) = m'" "unat (po_taker_amount po) = t'"
    "rat_of_nat m' = (if rq_side r = Buy then d_floor (rq_limit_price r * q) else d_floor q)"
    "rat_of_nat t' = (if rq_side r = Buy then d_floor q else d_ceil (rq_limit_price r * q))"
    by (rule from_request_amounts [OF assms(3,6)])
  have pos: "0 < m" "0 < t" using a(1-4) assms(4,5) by simp_all
  show ?thesis
  proof (cases "rq_side r")
    case Buy
    then have m: "m = d_floor (rq_limit_price r * q)" "t = d_floor q" using a assms(4,5) by simp_all
    have "q < t + 1" unfolding m d_floor_def by linarith
    then have "rq_limit_price r * q < rq_limit_price r * (t + 1)" using assms(1) by simp
    then show ?thesis using Buy pos d_floor_le [of q] d_floor_le [of "rq_limit_price r * q"]
      by (simp add: m) (auto simp: d_floor_def)
  next
    case Sell
    then have m: "m = d_floor q" "t = d_ceil (rq_limit_price r * q)" using a assms(4,5) by simp_all
    have "rq_limit_price r * m \<le> rq_limit_price r * q" using assms(1) d_floor_le [of q] by (simp add: m(1))
    then show ?thesis using Sell pos d_floor_le [of q] le_d_ceil [of "rq_limit_price r * q"] m by simp
  qed
qed

end

text \<open>The amounts of a signed order keep to the request. A buy offers at most the notional and asks for
  at most the quantity; a sell gives at most the quantity and asks for at least the notional, so the
  price it implies is never below the limit. The price a buy implies is not above the limit when the
  quantity is whole in base units, and otherwise by less than one base unit of tokens.\<close>

theorem signed_amounts_respect_the_limit:
  assumes "decimal_exact D" and "0 < rq_limit_price r" and "0 \<le> rq_quantity r"
    and "from_request D r maker signer st salt stamp decimals = Inr po"
    and "m = rat_of_nat (unat (po_maker_amount po))" and "t = rat_of_nat (unat (po_taker_amount po))"
    and "q = rq_quantity r * 10 ^ decimals"
  shows "0 < m \<and> 0 < t \<and>
    (case rq_side r of
       Sell \<Rightarrow> m \<le> q \<and> rq_limit_price r * q \<le> t \<and> rq_limit_price r * m \<le> t
     | Buy \<Rightarrow> m \<le> rq_limit_price r * q \<and> t \<le> q \<and> m < rq_limit_price r * (t + 1) \<and>
              (q = of_int \<lfloor>q\<rfloor> \<longrightarrow> m \<le> rq_limit_price r * t))"
  using decimal_exact.amounts_respect_the_limit [OF assms] .

definition buy_request :: "rat \<Rightarrow> order_request" where
  "buy_request quantity = \<lparr>rq_order_id = 1, rq_correlation_id = 1, rq_signal_id = None,
     rq_market_id = MarketId ''m'', rq_token_id = TokenId ''42'', rq_side = Buy, rq_order_type = MarketOrder,
     rq_time_in_force = Ioc, rq_quantity = quantity, rq_limit_price = 3/5, rq_reference_price = 3/5,
     rq_tick_size = 1/100, rq_created_at = 0\<rparr>"

lemma bought_amounts:
  "\<exists>po. from_request exact_decimal (buy_request 100) w w Eoa 1 1 6 = Inr po \<and>
     po_maker_amount po = 60000000 \<and> po_taker_amount po = 100000000"
  by (simp add: from_request_def buy_request_def to_base_def to_u128_def d_floor_def Let_def)

theorem signed_amounts_respect_the_limit_witness:
  "\<exists>po. from_request exact_decimal (buy_request 100) ''w'' ''w'' Eoa 1 1 6 = Inr po \<and>
     rat_of_nat (unat (po_maker_amount po)) \<le> 3/5 * rat_of_nat (unat (po_taker_amount po))"
proof -
  obtain po where po: "from_request exact_decimal (buy_request 100) ''w'' ''w'' Eoa 1 1 6 = Inr po"
    using bought_amounts by blast
  from signed_amounts_respect_the_limit [OF exact_dec.decimal_exact_axioms _ _ po refl refl refl] po
  show ?thesis by (simp add: buy_request_def)
qed

text \<open>A buy of 1.9 base units at 0.60: rounding the tokens down raises the implied price to 1.\<close>

lemma buy_price_can_exceed_the_limit:
  "\<exists>po. from_request exact_decimal (buy_request (19 / 10 ^ 7)) w w Eoa 1 1 6 = Inr po \<and>
     unat (po_maker_amount po) = 1 \<and> unat (po_taker_amount po) = 1 \<and> rq_limit_price (buy_request (19 / 10 ^ 7)) < 1"
  by (simp add: from_request_def buy_request_def to_base_def to_u128_def d_floor_def Let_def)

subsection \<open>Signatures\<close>

text \<open>What the code relies on of the curve: a signature it makes is 64 bytes, well formed, with a
  recovery id below four, and recovering from it gives the public key of the signing key.\<close>

definition ec_lawful :: "'k ec_ops \<Rightarrow> bool" where
  "ec_lawful C \<longleftrightarrow> (\<forall>k dg sig rec. ec_sign C k dg = Inr (sig, rec) \<longrightarrow>
     length sig = 64 \<and> rec < 4 \<and> ec_signature_ok C sig = Inr () \<and> ec_recover C dg sig rec = Inr (ec_public C k))"

text \<open>C22: A signed order recovers to the address it was signed for. Whatever key the signer was built from,
  the 65 bytes it makes for an order, checked against the digest of that order and of the deployed
  exchange, give the signer's own address, and the last byte is at least 27.\<close>

theorem signature_recovers_the_signer:
  assumes "ec_lawful C" and "eoa_signer_new C keccak hex_error pk maker st = Inr S"
    and "sign_order C keccak S po = Inr sig"
  shows "\<exists>sep dg. domain_separator keccak EXCHANGE_ADDRESS CHAIN_ID = Inr sep \<and> order_digest keccak sep po = Inr dg \<and>
    recover_signer C keccak dg sig = Inr (es_address S) \<and> length sig = 65 \<and> 27 \<le> unat (last sig)"
proof -
  obtain sep where S: "es_address S = address_of keccak (ec_public C (es_key S))"
    "domain_separator keccak EXCHANGE_ADDRESS CHAIN_ID = Inr sep" "es_domain_separator S = sep"
    using assms(2) by (auto simp: eoa_signer_new_def and_then_Inr Let_def split: if_splits)
  obtain dg s rec where d: "order_digest keccak sep po = Inr dg" "ec_sign C (es_key S) dg = Inr (s, rec)"
    "sig = s @ [of_nat (rec + 27)]"
    using assms(3) S(3) by (auto simp: sign_order_def and_then_Inr)
  have l: "length s = 64" "rec < 4" "ec_signature_ok C s = Inr ()" "ec_recover C dg s rec = Inr (ec_public C (es_key S))"
    using assms(1) d(2) unfolding ec_lawful_def by blast+
  have v: "unat (of_nat (rec + 27) :: 8 word) = rec + 27" using l(2) by (simp only: unat_of_nat) simp
  have "sig ! 64 = of_nat (rec + 27)" "take 64 sig = s" "length sig = 65" using d(3) l(1) by (simp_all add: nth_append)
  then have "recover_signer C keccak dg sig = Inr (es_address S)"
    unfolding recover_signer_def using l v S(1) by (simp add: Let_def)
  with S(2) d(1,3) \<open>length sig = 65\<close> v show ?thesis by simp
qed

text \<open>A toy curve: a key is a number, its public key the number's bytes, and a signature carries them.\<close>

definition toy_curve :: "256 word ec_ops" where
  "toy_curve = \<lparr>ec_key = (\<lambda>bs. Inr (of_nat (be_value bs))), ec_public = to_be_bytes 32,
     ec_sign = (\<lambda>k dg. Inr (replicate 32 0 @ to_be_bytes 32 k, 1)), ec_signature_ok = (\<lambda>_. Inr ()),
     ec_recover = (\<lambda>dg sig r. Inr (drop 32 sig))\<rparr>"

lemma toy_curve_lawful: "ec_lawful toy_curve"
  by (auto simp: ec_lawful_def toy_curve_def)

lemma hex_decode_sevens: "hex_decode (replicate (2 * n) (CHR ''7'')) = Some (replicate n 0x77)"
proof (induction n)
  case (Suc n)
  have "replicate (2 * Suc n) (CHR ''7'') = CHR ''7'' # CHR ''7'' # replicate (2 * n) (CHR ''7'')" by simp
  with Suc show ?case by (simp add: hex_digit_def is_ascii_digit_def byte_def)
qed simp

lemma sevens_key: "trim_start_matches (CHR ''0'') (CHR ''x'') (trim (replicate 64 (CHR ''7''))) = replicate 64 (CHR ''7'')"
proof -
  have "list_all is_ascii_hexdigit (replicate 64 (CHR ''7''))"
    by (auto simp: list_all_iff is_ascii_hexdigit_def is_ascii_digit_def byte_def simp del: replicate.simps)
  then have "trim (replicate 64 (CHR ''7'')) = replicate 64 (CHR ''7'')"
    by (intro trim_plain) (simp_all add: hex_no_edge list_all_iff del: replicate.simps)
  moreover have "replicate 64 (CHR ''7'') = CHR ''7'' # CHR ''7'' # replicate 62 (CHR ''7'')" by (simp add: numeral_eq_Suc)
  ultimately show ?thesis by simp
qed

theorem signature_recovers_the_signer_witness:
  "\<exists>S sig sep dg. eoa_signer_new toy_curve (\<lambda>m. m) (\<lambda>s. s) (replicate 64 (CHR ''7'')) None Eoa = Inr S \<and>
     sign_order toy_curve (\<lambda>m. m) S sample_signable = Inr sig \<and>
     order_digest (\<lambda>m. m) sep sample_signable = Inr dg \<and>
     recover_signer toy_curve (\<lambda>m. m) dg sig = Inr (es_address S)"
proof -
  have "\<exists>y. word_from_address EXCHANGE_ADDRESS = Inr y"
    by (simp add: EXCHANGE_ADDRESS_def word_from_address_def hex_digit_def is_ascii_digit_def byte_def)
  then obtain sep where sep: "domain_separator (\<lambda>m. m) EXCHANGE_ADDRESS CHAIN_ID = Inr sep"
    by (auto simp: domain_separator_def)
  have "hex_decode (replicate 64 (CHR ''7'')) = Some (replicate 32 0x77)" using hex_decode_sevens [of 32] by simp
  then obtain S where S: "eoa_signer_new toy_curve (\<lambda>m. m) (\<lambda>s. s) (replicate 64 (CHR ''7'')) None Eoa = Inr S"
    unfolding eoa_signer_new_def sevens_key Let_def
    by (simp add: sep toy_curve_def del: replicate.simps)
  obtain m where "struct_message (\<lambda>m. m) sample_signable = Inr m" using respelled_message by blast
  then obtain sig where sig: "sign_order toy_curve (\<lambda>m. m) S sample_signable = Inr sig"
    by (auto simp: sign_order_def order_digest_def struct_hash_def toy_curve_def)
  from signature_recovers_the_signer [OF toy_curve_lawful S sig] S sig show ?thesis by metis
qed

end
