(* ===== verification/Handlers.thy ===== *)
theory Handlers
  imports Views Recovery Signing
begin

unbundle bit_operations_syntax

section \<open>The HTTP interface (crates/api/src/auth.rs, handlers.rs, routes.rs)\<close>

text \<open>
  The guard of the mutating routes, the handlers that change the desk, and the router as one
  operation: a request with its \<open>Authorization\<close> header is answered with a status and a body. Decoding
  the body and the query is the web framework's; the decoded values are the request. The header is
  what \<open>to_str\<close> gives of it. The adapter's cancel, whether there is a paper adapter, the clock and
  the texts are arguments.
\<close>

subsection \<open>The guard\<close>

definition secure_eq :: "string \<Rightarrow> string \<Rightarrow> bool" where
  "secure_eq a b =
     (if length a \<noteq> length b then False
      else foldl (\<lambda>diff (x, y). diff OR (x XOR y)) 0 (zip (ascii_bytes a) (ascii_bytes b)) = 0)"

fun split_once :: "char \<Rightarrow> string \<Rightarrow> (string \<times> string) option" where
  "split_once c [] = None"
| "split_once c (d # s) =
     (if d = c then Some ([], s) else map_option (\<lambda>(a, b). (d # a, b)) (split_once c s))"

definition eq_ignore_ascii_case :: "string \<Rightarrow> string \<Rightarrow> bool" where
  "eq_ignore_ascii_case a b \<longleftrightarrow> to_ascii_lowercase a = to_ascii_lowercase b"

definition bearer :: "string option \<Rightarrow> string option" where
  "bearer h =
     Option.bind h (\<lambda>v. Option.bind (split_once (CHR '' '') v) (\<lambda>(scheme, token).
       if eq_ignore_ascii_case scheme ''bearer'' then Some (trim token) else None))"

text \<open>Whether the guard lets the request through; otherwise the answer is 401.\<close>

definition require_auth :: "'s app_state \<Rightarrow> string option \<Rightarrow> bool" where
  "require_auth A supplied =
     (let configured = expose (sv_api_token (ac_server (ap_config A)))
      in if configured = [] then \<not> is_live (ap_mode A)
         else (case bearer supplied of Some t \<Rightarrow> secure_eq t configured | None \<Rightarrow> False))"

subsection \<open>Requests\<close>

record kill_switch_body =
  kb_reason :: "string option"
  kb_cancel_open_orders :: bool

text \<open>A body without the flag asks for the cancellation.\<close>

definition kill_switch_body_of :: "string option \<Rightarrow> bool option \<Rightarrow> kill_switch_body" where
  "kill_switch_body_of reason flag =
     \<lparr>kb_reason = reason, kb_cancel_open_orders = (case flag of Some b \<Rightarrow> b | None \<Rightarrow> True)\<rparr>"

record wallet_body =
  wb_address :: string
  wb_nickname :: "string option"
  wb_enabled :: "bool option"
  wb_copy_ratio :: "rat option"
  wb_fixed_usd :: "rat option"
  wb_portfolio_pct :: "rat option"
  wb_max_trade_usd :: "rat option"
  wb_max_exposure_usd :: "rat option"
  wb_min_source_notional_usd :: "rat option"
  wb_allowed_markets :: "string list option"
  wb_blocked_markets :: "string list option"

definition default_limit :: nat where
  "default_limit = 100"

definition query_limit :: "nat option \<Rightarrow> nat" where
  "query_limit n = (case n of Some k \<Rightarrow> k | None \<Rightarrow> default_limit)"

type_synonym answer = "nat \<times> json"

definition http_error :: "nat \<Rightarrow> string \<Rightarrow> answer" where
  "http_error code msg = (code, JObj [(''error'', JStr msg)])"

text \<open>What a request takes from outside the repository.\<close>

record 's api_inputs =
  ai_now :: timestamp
  ai_event_at :: timestamp
  ai_cancel :: "'s \<Rightarrow> order_id \<Rightarrow> string option \<Rightarrow> 's \<times> (execution_error + unit)"
  ai_cancel_clock :: "order_id \<Rightarrow> timestamp \<times> timestamp"
  ai_paper_reset :: "('s \<Rightarrow> 's) option"

subsection \<open>Kill switch\<close>

definition kill_switch_engage :: "api_env \<Rightarrow> 's api_inputs \<Rightarrow> kill_switch_body \<Rightarrow> 's app_state \<Rightarrow> 's app_state \<times> answer" where
  "kill_switch_engage W I b A =
     (let reason = (case kb_reason b of Some r \<Rightarrow> r | None \<Rightarrow> ''manual activation via API'');
          st = engage (set_cancel_open_orders (ap_kill_switch A) (kb_cancel_open_orders b)) reason ''api'' (ai_now I);
          A1 = metric (\<lambda>M. M\<lparr>mt_kill_switch_activations_total := counter_inc (mt_kill_switch_activations_total M),
                 mt_kill_switch_engaged := 1\<rparr>) (A\<lparr>ap_kill_switch := st\<rparr>);
          A2 = bus_send (KillSwitchActivated reason ''api'' (ai_event_at I)) A1;
          A3 = persist (audit ''api'' ''kill_switch_engage'' None (JObj [(''reason'', JStr reason)])) A2
      in if kb_cancel_open_orders b then
           (let (om, v, done, failed) = cancel_all (ai_cancel I) (ai_cancel_clock I) (ap_orders A3) (ap_venue A3)
            in (A3\<lparr>ap_orders := om, ap_venue := v\<rparr>,
                200, JObj [(''kill_switch'', kill_switch_json W st),
                  (''open_orders'', JObj [(''cancelled'', nat_json done), (''failed'', nat_json failed)])]))
         else (A3, 200, JObj [(''kill_switch'', kill_switch_json W st),
                (''open_orders'', JObj [(''cancelled'', JInt 0), (''failed'', JInt 0), (''skipped'', JBool True)])]))"

definition kill_switch_release :: "api_env \<Rightarrow> 's api_inputs \<Rightarrow> 's app_state \<Rightarrow> 's app_state \<times> answer" where
  "kill_switch_release W I A =
     (let st = kill_switch_reset (ap_kill_switch A) ''api'';
          A1 = metric (\<lambda>M. M\<lparr>mt_kill_switch_engaged := 0\<rparr>) (A\<lparr>ap_kill_switch := st\<rparr>);
          A2 = bus_send (KillSwitchReset ''api'' (ai_event_at I)) A1;
          A3 = persist (audit ''api'' ''kill_switch_reset'' None (JObj [])) A2
      in (A3, 200, JObj [(''kill_switch'', kill_switch_json W st)]))"

subsection \<open>Wallets\<close>

fun id_error_text :: "api_env \<Rightarrow> id_error \<Rightarrow> string" where
  "id_error_text W (BadAddress s) = ''address must be 0x + 40 hex chars, got '' @ ae_debug W s"
| "id_error_text W (BadConditionId s) = ''condition id must be 0x + 64 hex chars, got '' @ ae_debug W s"
| "id_error_text W (BadTxHash s) = ''tx hash must be 0x + 64 hex chars, got '' @ ae_debug W s"
| "id_error_text W (BadTokenId s) = ''token id must be a non-empty decimal uint256 string, got '' @ ae_debug W s"

definition parsed_markets :: "string list \<Rightarrow> market_id list" where
  "parsed_markets ms = List.map_filter (\<lambda>m. ok (market_id_new m)) ms"

text \<open>The plain fields, each set when the body gives it.\<close>

definition set_sizing :: "wallet_body \<Rightarrow> target_wallet \<Rightarrow> target_wallet" where
  "set_sizing b w =
     (let w1 = (case wb_fixed_usd b of Some a \<Rightarrow> w\<lparr>tw_sizing := FixedUsd a\<rparr> | None \<Rightarrow> w)
      in case wb_portfolio_pct b of Some p \<Rightarrow> w1\<lparr>tw_sizing := PortfolioPercent p\<rparr> | None \<Rightarrow> w1)"

definition set_rest :: "wallet_body \<Rightarrow> target_wallet \<Rightarrow> target_wallet" where
  "set_rest b w = w\<lparr>
     tw_max_exposure_usd := (case wb_max_exposure_usd b of Some v \<Rightarrow> v | None \<Rightarrow> tw_max_exposure_usd w),
     tw_min_source_notional_usd :=
       (case wb_min_source_notional_usd b of Some v \<Rightarrow> v | None \<Rightarrow> tw_min_source_notional_usd w),
     tw_allowed_markets := (case wb_allowed_markets b of Some ms \<Rightarrow> parsed_markets ms | None \<Rightarrow> tw_allowed_markets w),
     tw_blocked_markets := (case wb_blocked_markets b of Some ms \<Rightarrow> parsed_markets ms | None \<Rightarrow> tw_blocked_markets w)\<rparr>"

definition set_ratio :: "decimal_ops \<Rightarrow> wallet_body \<Rightarrow> target_wallet \<Rightarrow> string + target_wallet" where
  "set_ratio D b w =
     (case wb_copy_ratio b of
        None \<Rightarrow> Inr w
      | Some r \<Rightarrow>
          (if r \<le> 0 \<or> r > 10 then Inl (''copy_ratio '' @ d_show D r @ '' must be within (0, 10]'')
           else Inr (w\<lparr>tw_sizing := FixedRatio r\<rparr>)))"

definition set_max_trade :: "decimal_ops \<Rightarrow> risk_limits \<Rightarrow> wallet_body \<Rightarrow> target_wallet \<Rightarrow> string + target_wallet" where
  "set_max_trade D l b w =
     (case wb_max_trade_usd b of
        None \<Rightarrow> Inr w
      | Some v \<Rightarrow>
          (if v > rl_max_trade_usd l then
             Inl (''max_trade_usd '' @ d_show D v @ '' exceeds the global limit '' @ d_cents D (rl_max_trade_usd l))
           else Inr (w\<lparr>tw_max_trade_usd := v\<rparr>)))"

definition apply_body :: "decimal_ops \<Rightarrow> risk_limits \<Rightarrow> wallet_body \<Rightarrow> target_wallet \<Rightarrow> string + target_wallet" where
  "apply_body D l b w =
     (let w1 = w\<lparr>tw_nickname := (case wb_nickname b of Some n \<Rightarrow> n | None \<Rightarrow> tw_nickname w),
                 tw_enabled := (case wb_enabled b of Some e \<Rightarrow> e | None \<Rightarrow> tw_enabled w)\<rparr>
      in and_then (set_ratio D b w1) (\<lambda>w2.
         and_then (set_max_trade D l b (set_sizing b w2)) (\<lambda>w3. Inr (set_rest b w3))))"

definition save_and_audit :: "string \<Rightarrow> target_wallet \<Rightarrow> 's app_state \<Rightarrow> 's app_state" where
  "save_and_audit action w A =
     persist (audit ''api'' action (Some (address_str (tw_address w))) (wallet_json w))
       (persist (save_wallet w) (A\<lparr>ap_tracker := upsert_wallet (ap_tracker A) w\<rparr>))"

definition add_wallet :: "decimal_ops \<Rightarrow> api_env \<Rightarrow> wallet_body \<Rightarrow> 's app_state \<Rightarrow> 's app_state \<times> answer" where
  "add_wallet D W b A =
     (case address_new (wb_address b) of
        Inl e \<Rightarrow> (A, http_error 400 (''invalid address: '' @ id_error_text W e))
      | Inr addr \<Rightarrow>
          (if get_wallet (ap_tracker A) addr \<noteq> None then (A, http_error 409 ''wallet already tracked'')
           else
             (let nickname = (case wb_nickname b of Some n \<Rightarrow> n
                   | None \<Rightarrow> take 8 (address_str addr) @ map char_of [0xE2, 0x80, 0xA6 :: nat])
              in case apply_body D (re_limits (ap_risk A)) b (target_wallet_new addr nickname) of
                   Inl e \<Rightarrow> (A, http_error 400 e)
                 | Inr w \<Rightarrow> (save_and_audit ''wallet_add'' w A, 200, wallet_json w))))"

definition update_wallet :: "decimal_ops \<Rightarrow> api_env \<Rightarrow> string \<Rightarrow> wallet_body \<Rightarrow> 's app_state \<Rightarrow> 's app_state \<times> answer" where
  "update_wallet D W raw b A =
     (case address_new raw of
        Inl e \<Rightarrow> (A, http_error 400 (id_error_text W e))
      | Inr addr \<Rightarrow>
          (case get_wallet (ap_tracker A) addr of
             None \<Rightarrow> (A, http_error 404 ''wallet not tracked'')
           | Some w0 \<Rightarrow>
               (case apply_body D (re_limits (ap_risk A)) b w0 of
                  Inl e \<Rightarrow> (A, http_error 400 e)
                | Inr w \<Rightarrow> (save_and_audit ''wallet_update'' w A, 200, wallet_json w))))"

definition remove_target :: "api_env \<Rightarrow> string \<Rightarrow> 's app_state \<Rightarrow> 's app_state \<times> answer" where
  "remove_target W raw A =
     (case address_new raw of
        Inl e \<Rightarrow> (A, http_error 400 (id_error_text W e))
      | Inr addr \<Rightarrow>
          (case remove_wallet (ap_tracker A) addr of
             (T, None) \<Rightarrow> (A\<lparr>ap_tracker := T\<rparr>, http_error 404 ''wallet not tracked'')
           | (T, Some _) \<Rightarrow>
               (persist (audit ''api'' ''wallet_delete'' (Some (address_str addr)) (JObj []))
                  (persist (delete_wallet addr) (A\<lparr>ap_tracker := T\<rparr>)),
                200, JObj [(''deleted'', JStr (address_str addr))])))"

subsection \<open>Paper reset\<close>

definition reset_paper :: "api_env \<Rightarrow> 's api_inputs \<Rightarrow> 's app_state \<Rightarrow> 's app_state \<times> answer" where
  "reset_paper W I A =
     (if is_live (ap_mode A) then (A, http_error 403 ''paper reset is refused in LIVE mode'')
      else case ai_paper_reset I of
        None \<Rightarrow> (A, http_error 400 ''no paper adapter is active'')
      | Some f \<Rightarrow>
          (let A1 = A\<lparr>ap_venue := f (ap_venue A),
                      ap_portfolio := portfolio_reset (ae_ordinal W) (ap_portfolio A) (ai_now I)\<rparr>;
               A2 = persist (audit ''api'' ''paper_reset'' None (JObj [])) A1
           in (A2, 200, JObj [(''reset'', JBool True), (''cash'', JDecimal (pf_cash (ap_portfolio A2)))])))"

subsection \<open>The router\<close>

datatype api_request =
    GetHealth | GetStatus | GetMode | GetConfig | GetApiMetrics | GetMetrics | GetPositions
  | GetOrders "nat option" | GetFills "nat option" | GetTrades "nat option"
  | GetPnl | GetLatency | GetRisk | GetWallets
  | PostKillSwitch kill_switch_body | PostKillSwitchReset
  | PostWallet wallet_body | PatchWallet string wallet_body | DeleteWallet string | PostPaperReset

fun is_protected :: "api_request \<Rightarrow> bool" where
  "is_protected (PostKillSwitch _) = True"
| "is_protected PostKillSwitchReset = True"
| "is_protected (PostWallet _) = True"
| "is_protected (PatchWallet _ _) = True"
| "is_protected (DeleteWallet _) = True"
| "is_protected PostPaperReset = True"
| "is_protected _ = False"

fun request_route :: "api_request \<Rightarrow> string \<times> string" where
  "request_route GetHealth = (''GET'', ''/api/health'')"
| "request_route GetStatus = (''GET'', ''/api/status'')"
| "request_route GetMode = (''GET'', ''/api/mode'')"
| "request_route GetConfig = (''GET'', ''/api/config'')"
| "request_route GetApiMetrics = (''GET'', ''/api/metrics'')"
| "request_route GetMetrics = (''GET'', ''/metrics'')"
| "request_route GetPositions = (''GET'', ''/api/positions'')"
| "request_route (GetOrders _) = (''GET'', ''/api/orders'')"
| "request_route (GetFills _) = (''GET'', ''/api/fills'')"
| "request_route (GetTrades _) = (''GET'', ''/api/trades'')"
| "request_route GetPnl = (''GET'', ''/api/pnl'')"
| "request_route GetLatency = (''GET'', ''/api/latency'')"
| "request_route GetRisk = (''GET'', ''/api/risk'')"
| "request_route GetWallets = (''GET'', ''/api/target-wallets'')"
| "request_route (PostKillSwitch _) = (''POST'', ''/api/risk/kill-switch'')"
| "request_route PostKillSwitchReset = (''POST'', ''/api/risk/kill-switch/reset'')"
| "request_route (PostWallet _) = (''POST'', ''/api/target-wallets'')"
| "request_route (PatchWallet _ _) = (''PATCH'', ''/api/target-wallets/:id'')"
| "request_route (DeleteWallet _) = (''DELETE'', ''/api/target-wallets/:id'')"
| "request_route PostPaperReset = (''POST'', ''/api/paper/reset'')"

definition ROUTES :: "(string \<times> string \<times> bool) list" where
  "ROUTES =
     [(''GET'', ''/api/health'', False), (''GET'', ''/api/status'', False), (''GET'', ''/api/mode'', False),
      (''GET'', ''/api/config'', False), (''GET'', ''/api/metrics'', False), (''GET'', ''/api/positions'', False),
      (''GET'', ''/api/orders'', False), (''GET'', ''/api/fills'', False), (''GET'', ''/api/trades'', False),
      (''GET'', ''/api/pnl'', False), (''GET'', ''/api/latency'', False), (''GET'', ''/api/risk'', False),
      (''GET'', ''/api/target-wallets'', False), (''GET'', ''/ws'', False),
      (''POST'', ''/api/risk/kill-switch'', True), (''POST'', ''/api/risk/kill-switch/reset'', True),
      (''POST'', ''/api/target-wallets'', True), (''PATCH'', ''/api/target-wallets/:id'', True),
      (''DELETE'', ''/api/target-wallets/:id'', True), (''POST'', ''/api/paper/reset'', True)]"

fun handle_request :: "decimal_ops \<Rightarrow> api_env \<Rightarrow> 's api_inputs \<Rightarrow> api_request \<Rightarrow> 's app_state \<Rightarrow> 's app_state \<times> answer" where
  "handle_request D W I GetHealth A = (A, 200, health_view W (ai_now I) A)"
| "handle_request D W I GetStatus A = (A, 200, status_view D W (ai_now I) A)"
| "handle_request D W I GetMode A = (A, 200, mode_view W A)"
| "handle_request D W I GetConfig A = (A, 200, config_view A)"
| "handle_request D W I GetApiMetrics A =
     (let (A1, text) = metrics_prometheus D W (ai_now I) A in (A1, 200, JStr text))"
| "handle_request D W I GetMetrics A =
     (let (A1, text) = metrics_prometheus D W (ai_now I) A in (A1, 200, JStr text))"
| "handle_request D W I GetPositions A = (A, 200, positions_view D W A)"
| "handle_request D W I (GetOrders n) A = (A, 200, orders_view D W (query_limit n) A)"
| "handle_request D W I (GetFills n) A = (A, 200, fills_view D W (query_limit n) A)"
| "handle_request D W I (GetTrades n) A = (A, 200, trades_view D W (query_limit n) A)"
| "handle_request D W I GetPnl A = (A, 200, pnl_view D W (ai_now I) A)"
| "handle_request D W I GetLatency A = (A, 200, latency_view A)"
| "handle_request D W I GetRisk A = (A, 200, risk_view D W (ai_now I) A)"
| "handle_request D W I GetWallets A = (A, 200, wallets_view A)"
| "handle_request D W I (PostKillSwitch b) A = kill_switch_engage W I b A"
| "handle_request D W I PostKillSwitchReset A = kill_switch_release W I A"
| "handle_request D W I (PostWallet b) A = add_wallet D W b A"
| "handle_request D W I (PatchWallet raw b) A = update_wallet D W raw b A"
| "handle_request D W I (DeleteWallet raw) A = remove_target W raw A"
| "handle_request D W I PostPaperReset A = reset_paper W I A"

text \<open>The guard stands before the protected routes only.\<close>

definition serve ::
    "decimal_ops \<Rightarrow> api_env \<Rightarrow> 's api_inputs \<Rightarrow> string option \<Rightarrow> api_request \<Rightarrow> 's app_state \<Rightarrow> 's app_state \<times> answer" where
  "serve D W I supplied req A =
     (if is_protected req \<and> \<not> require_auth A supplied then (A, 401, JNull) else handle_request D W I req A)"

subsection \<open>What the pieces do\<close>

lemma ascii_bytes_inject: "ascii_bytes a = ascii_bytes b \<longleftrightarrow> a = b"
proof -
  have "c = d" if "(of_nat (byte c) :: 8 word) = of_nat (byte d)" for c d
  proof -
    have "unat (of_nat (byte c) :: 8 word) = byte c" for c
      using byte_less [of c] by (simp add: unat_of_nat)
    then have "byte c = byte d" using that by metis
    then show ?thesis by (simp add: byte_def)
  qed
  then show ?thesis by (auto simp: ascii_bytes_def intro: map_injective injI)
qed

lemma or_fold_zero:
  "foldl (\<lambda>diff (x, y). diff OR (x XOR y)) (z :: 8 word) ps = 0 \<longleftrightarrow> z = 0 \<and> list_all (\<lambda>(x, y). x = y) ps"
proof (induction ps arbitrary: z)
  case (Cons p ps)
  obtain x y where "p = (x, y)" by force
  moreover have "x XOR y = 0 \<longleftrightarrow> x = y" by (auto simp: bit_eq_iff bit_simps)
  ultimately show ?case using Cons by (auto simp: or_eq_0_iff)
qed simp

lemma secure_eq_exact: "secure_eq a b \<longleftrightarrow> a = b"
proof (cases "length a = length b")
  case True
  then have len: "length (ascii_bytes a) = length (ascii_bytes b)" by (simp add: ascii_bytes_def)
  then have "list_all (\<lambda>(x, y). x = y) (zip (ascii_bytes a) (ascii_bytes b)) \<longleftrightarrow> ascii_bytes a = ascii_bytes b"
    by (auto simp: list_all_length list_eq_iff_nth_eq)
  with True show ?thesis by (simp add: secure_eq_def or_fold_zero ascii_bytes_inject)
qed (auto simp: secure_eq_def)

lemma split_once_Some: "split_once c s = Some (a, b) \<longleftrightarrow> s = a @ c # b \<and> c \<notin> set a"
proof (induction s arbitrary: a)
  case (Cons d s)
  show ?case
  proof (cases a)
    case (Cons x xs)
    with Cons.IH [of xs] show ?thesis by auto
  qed auto
qed simp

lemma lowercase_bearer: "to_ascii_lowercase ''bearer'' = ''bearer''"
  by (simp add: to_ascii_lowercase_def ascii_lower_def byte_def)

lemma bearer_Some:
  "bearer h = Some t \<longleftrightarrow> (\<exists>scheme rest. h = Some (scheme @ CHR '' '' # rest) \<and> CHR '' '' \<notin> set scheme \<and>
     to_ascii_lowercase scheme = ''bearer'' \<and> trim rest = t)"
proof
  assume "bearer h = Some t"
  then obtain v scheme rest where h: "h = Some v" "split_once (CHR '' '') v = Some (scheme, rest)"
    "eq_ignore_ascii_case scheme ''bearer''" "trim rest = t"
    by (auto simp: bearer_def bind_eq_Some_conv split: if_splits)
  moreover note lowercase_bearer
  ultimately show "\<exists>scheme rest. h = Some (scheme @ CHR '' '' # rest) \<and> CHR '' '' \<notin> set scheme \<and>
      to_ascii_lowercase scheme = ''bearer'' \<and> trim rest = t"
    by (intro exI [of _ scheme] exI [of _ rest]) (simp add: eq_ignore_ascii_case_def split_once_Some)
next
  assume "\<exists>scheme rest. h = Some (scheme @ CHR '' '' # rest) \<and> CHR '' '' \<notin> set scheme \<and>
      to_ascii_lowercase scheme = ''bearer'' \<and> trim rest = t"
  then obtain scheme rest where h: "h = Some (scheme @ CHR '' '' # rest)" "CHR '' '' \<notin> set scheme"
    "to_ascii_lowercase scheme = ''bearer''" "trim rest = t" by blast
  moreover from h(2) have "split_once (CHR '' '') (scheme @ CHR '' '' # rest) = Some (scheme, rest)"
    by (simp add: split_once_Some)
  moreover note lowercase_bearer
  ultimately show "bearer h = Some t" by (simp add: bearer_def eq_ignore_ascii_case_def)
qed

lemma handle_status: "fst (snd (handle_request D W I req A)) \<noteq> 401"
  by (cases req)
    (auto simp: kill_switch_engage_def kill_switch_release_def add_wallet_def update_wallet_def remove_target_def
      reset_paper_def metrics_prometheus_def http_error_def Let_def
      split: sum.split option.split prod.split)

lemma handle_reads:
  "\<not> is_protected req \<Longrightarrow> (fst (handle_request D W I req A))\<lparr>ap_metrics := ap_metrics A\<rparr> = A"
  by (cases req) (simp_all add: metrics_prometheus_def refresh_gauges_def metric_def Let_def)

lemma require_auth_exact:
  "require_auth A supplied \<longleftrightarrow>
     (let token = expose (sv_api_token (ac_server (ap_config A)))
      in if token = [] then \<not> is_live (ap_mode A)
         else \<exists>scheme rest. supplied = Some (scheme @ CHR '' '' # rest) \<and> CHR '' '' \<notin> set scheme \<and>
                to_ascii_lowercase scheme = ''bearer'' \<and> trim rest = token)"
proof -
  have "(case bearer supplied of Some t \<Rightarrow> secure_eq t token | None \<Rightarrow> False) \<longleftrightarrow> bearer supplied = Some token" for token
    by (simp add: secure_eq_exact split: option.split)
  then show ?thesis by (simp add: require_auth_def Let_def bearer_Some)
qed

subsection \<open>Properties\<close>

text \<open>C11: Nobody changes anything without the token. A request is answered with 401 exactly when its route
  is a mutating one and it is not allowed: with a configured token that means a header with a bearer
  scheme, in any case, and exactly that token; without one, that the desk is not live. A request that
  was refused, and every request to a read route, leaves the whole state as it was but for the
  metrics.\<close>

theorem unauthorised_requests_change_nothing:
  "case serve D W I supplied req A of (A', code, body) \<Rightarrow>
     let token = expose (sv_api_token (ac_server (ap_config A)));
         allowed = (if token = [] then \<not> is_live (ap_mode A)
                    else \<exists>scheme rest. supplied = Some (scheme @ CHR '' '' # rest) \<and> CHR '' '' \<notin> set scheme \<and>
                           to_ascii_lowercase scheme = ''bearer'' \<and> trim rest = token)
     in (code = 401 \<longleftrightarrow> is_protected req \<and> \<not> allowed) \<and>
        (if is_protected req \<and> allowed then True else A'\<lparr>ap_metrics := ap_metrics A\<rparr> = A)"
proof -
  obtain A' code body where s: "serve D W I supplied req A = (A', code, body)" by (rule prod_cases3)
  have "(code = 401 \<longleftrightarrow> is_protected req \<and> \<not> require_auth A supplied) \<and>
      (if is_protected req \<and> require_auth A supplied then True else A'\<lparr>ap_metrics := ap_metrics A\<rparr> = A)"
    using s handle_status [of D W I req A] handle_reads [where req = req and D = D and W = W and I = I and A = A]
    by (auto simp: serve_def split: if_splits)
  then show ?thesis by (simp add: s require_auth_exact Let_def)
qed

text \<open>A sequence of requests, each with its inputs and its header.\<close>

definition serve_all ::
    "decimal_ops \<Rightarrow> api_env \<Rightarrow> ('s api_inputs \<times> string option \<times> api_request) list \<Rightarrow> 's app_state \<Rightarrow> 's app_state" where
  "serve_all D W reqs A = foldl (\<lambda>B (I, supplied, req). fst (serve D W I supplied req B)) A reqs"

definition wallet_settings_ok :: "usd \<Rightarrow> address \<times> target_wallet \<Rightarrow> bool" where
  "wallet_settings_ok bound aw \<longleftrightarrow>
     (case aw of (a, w) \<Rightarrow> tw_address w = a \<and> tw_max_trade_usd w \<le> bound \<and>
        (case tw_sizing w of FixedRatio r \<Rightarrow> 0 < r \<and> r \<le> 10 | _ \<Rightarrow> True))"

lemma set_update: "set (AList.update k v m) \<subseteq> insert (k, v) (set m)"
  by (induction m) auto

lemma apply_body_settings:
  assumes "apply_body D l b w = Inr w'" and "wallet_settings_ok bound (a, w)" and "rl_max_trade_usd l \<le> bound"
  shows "wallet_settings_ok bound (a, w')"
proof -
  have set_rest: "wallet_settings_ok bound (a, set_rest b v) = wallet_settings_ok bound (a, v)" for v
    by (simp add: wallet_settings_ok_def set_rest_def)
  have sizing: "wallet_settings_ok bound (a, set_sizing b v)" if "wallet_settings_ok bound (a, v)" for v
    using that by (simp add: wallet_settings_ok_def set_sizing_def Let_def split: option.split)
  let ?w1 = "w\<lparr>tw_nickname := (case wb_nickname b of Some n \<Rightarrow> n | None \<Rightarrow> tw_nickname w),
      tw_enabled := (case wb_enabled b of Some e \<Rightarrow> e | None \<Rightarrow> tw_enabled w)\<rparr>"
  obtain w2 w3 where w: "set_ratio D b ?w1 = Inr w2" "set_max_trade D l b (set_sizing b w2) = Inr w3" "w' = set_rest b w3"
    using assms(1) by (auto simp: apply_body_def and_then_Inr Let_def)
  have "wallet_settings_ok bound (a, ?w1)" using assms(2) by (simp add: wallet_settings_ok_def)
  then have "wallet_settings_ok bound (a, w2)"
    using w(1) by (auto simp: set_ratio_def wallet_settings_ok_def split: option.splits if_splits)
  from sizing [OF this] have "wallet_settings_ok bound (a, w3)"
    using w(2) assms(3) by (auto simp: set_max_trade_def wallet_settings_ok_def split: option.splits if_splits)
  then show ?thesis by (simp add: w(3) set_rest)
qed

lemma save_and_audit_fields [simp]:
  "ap_tracker (save_and_audit action w A) = upsert_wallet (ap_tracker A) w"
  "ap_risk (save_and_audit action w A) = ap_risk A"
  by (simp_all add: save_and_audit_def)

lemma handle_risk: "ap_risk (fst (handle_request D W I req A)) = ap_risk A"
  by (cases req)
    (auto simp: kill_switch_engage_def kill_switch_release_def add_wallet_def update_wallet_def remove_target_def
      reset_paper_def metrics_prometheus_def refresh_gauges_def Let_def
      split: sum.split option.split prod.split)

definition wallets_ok :: "usd \<Rightarrow> 's app_state \<Rightarrow> bool" where
  "wallets_ok bound A \<longleftrightarrow> list_all (wallet_settings_ok bound) (tk_wallets (ap_tracker A)) \<and>
     keys_ok (tk_wallets (ap_tracker A)) \<and> max 100 (rl_max_trade_usd (re_limits (ap_risk A))) \<le> bound"

lemma upsert_settings:
  assumes "wallets_ok bound A" and "wallet_settings_ok bound (tw_address w, w)"
  shows "list_all (wallet_settings_ok bound) (tk_wallets (upsert_wallet (ap_tracker A) w)) \<and>
    keys_ok (tk_wallets (upsert_wallet (ap_tracker A) w))"
  using assms set_update [of "tw_address w" w "tk_wallets (ap_tracker A)"]
  by (auto simp: wallets_ok_def upsert_wallet_def list_all_iff keys_ok_def intro!: distinct_update)

lemma apply_body_address: "apply_body D l b w = Inr w' \<Longrightarrow> tw_address w' = tw_address w"
proof -
  assume "apply_body D l b w = Inr w'"
  then obtain w2 w3 where "set_ratio D b (w\<lparr>tw_nickname := (case wb_nickname b of Some n \<Rightarrow> n | None \<Rightarrow> tw_nickname w),
      tw_enabled := (case wb_enabled b of Some e \<Rightarrow> e | None \<Rightarrow> tw_enabled w)\<rparr>) = Inr w2"
    "set_max_trade D l b (set_sizing b w2) = Inr w3" "w' = set_rest b w3"
    by (auto simp: apply_body_def and_then_Inr Let_def)
  moreover from this have "tw_address w2 = tw_address w"
    by (auto simp: set_ratio_def split: option.splits if_splits)
  moreover have "tw_address (set_sizing b w2) = tw_address w2"
    by (simp add: set_sizing_def Let_def split: option.split)
  ultimately show "tw_address w' = tw_address w"
    by (auto simp: set_max_trade_def set_rest_def split: option.splits if_splits)
qed

lemma handle_tracker:
  "ap_tracker (fst (handle_request D W I req A)) =
     (case req of
        PostWallet b \<Rightarrow>
          (case address_new (wb_address b) of Inl _ \<Rightarrow> ap_tracker A
           | Inr addr \<Rightarrow>
               (if get_wallet (ap_tracker A) addr \<noteq> None then ap_tracker A
                else case apply_body D (re_limits (ap_risk A)) b (target_wallet_new addr (case wb_nickname b of Some n \<Rightarrow> n
                     | None \<Rightarrow> take 8 (address_str addr) @ map char_of [0xE2, 0x80, 0xA6 :: nat])) of
                   Inl _ \<Rightarrow> ap_tracker A | Inr w \<Rightarrow> upsert_wallet (ap_tracker A) w))
      | PatchWallet raw b \<Rightarrow>
          (case address_new raw of Inl _ \<Rightarrow> ap_tracker A
           | Inr addr \<Rightarrow>
               (case get_wallet (ap_tracker A) addr of None \<Rightarrow> ap_tracker A
                | Some w0 \<Rightarrow>
                    (case apply_body D (re_limits (ap_risk A)) b w0 of
                       Inl _ \<Rightarrow> ap_tracker A | Inr w \<Rightarrow> upsert_wallet (ap_tracker A) w)))
      | DeleteWallet raw \<Rightarrow>
          (case address_new raw of Inl _ \<Rightarrow> ap_tracker A | Inr addr \<Rightarrow> fst (remove_wallet (ap_tracker A) addr))
      | _ \<Rightarrow> ap_tracker A)"
proof (cases req)
  case (PostWallet b)
  then show ?thesis by (simp add: add_wallet_def Let_def split: sum.split)
next
  case (PatchWallet raw b)
  then show ?thesis by (simp add: update_wallet_def split: sum.split option.split)
next
  case (DeleteWallet raw)
  then show ?thesis by (simp add: remove_target_def split: sum.split option.split prod.split)
qed (simp_all add: kill_switch_engage_def kill_switch_release_def reset_paper_def metrics_prometheus_def
    refresh_gauges_def Let_def split: option.split prod.split)

lemma set_delete_subset: "set (AList.delete k m) \<subseteq> set m"
  by (induction m) auto

lemma handle_wallets_ok:
  assumes "wallets_ok bound A"
  shows "wallets_ok bound (fst (handle_request D W I req A))"
proof -
  have limit: "rl_max_trade_usd (re_limits (ap_risk A)) \<le> bound" "100 \<le> bound"
    using assms by (simp_all add: wallets_ok_def)
  let ?T = "ap_tracker A" and ?T' = "ap_tracker (fst (handle_request D W I req A))"
  have up: "list_all (wallet_settings_ok bound) (tk_wallets (upsert_wallet ?T w)) \<and> keys_ok (tk_wallets (upsert_wallet ?T w))"
    if "apply_body D (re_limits (ap_risk A)) b w0 = Inr w" "wallet_settings_ok bound (tw_address w0, w0)" for b w0 w
    using upsert_settings [OF assms] apply_body_settings [OF that limit(1)] apply_body_address [OF that(1)] by simp
  have same: "list_all (wallet_settings_ok bound) (tk_wallets ?T) \<and> keys_ok (tk_wallets ?T)"
    using assms by (simp add: wallets_ok_def)
  have "list_all (wallet_settings_ok bound) (tk_wallets ?T') \<and> keys_ok (tk_wallets ?T')"
  proof (cases req)
    case (PostWallet b)
    have "wallet_settings_ok bound (tw_address (target_wallet_new a n), target_wallet_new a n)" for a n
      using limit(2) by (simp add: wallet_settings_ok_def target_wallet_new_def default_sizing_mode_def)
    with PostWallet same up show ?thesis unfolding handle_tracker by (simp split: sum.split)
  next
    case (PatchWallet raw b)
    have "wallet_settings_ok bound (tw_address w0, w0)" if "get_wallet ?T a = Some w0" for a w0
    proof -
      have "(a, w0) \<in> set (tk_wallets ?T)" using that by (simp add: get_wallet_def get_def map_of_SomeD)
      with same have "wallet_settings_ok bound (a, w0)" by (auto simp: list_all_iff)
      then show ?thesis by (simp add: wallet_settings_ok_def)
    qed
    with PatchWallet same up show ?thesis unfolding handle_tracker by (simp split: sum.split option.split)
  next
    case (DeleteWallet raw)
    have "list_all (wallet_settings_ok bound) (AList.delete a (tk_wallets ?T)) \<and> keys_ok (AList.delete a (tk_wallets ?T))" for a
      using same set_delete_subset [of a "tk_wallets ?T"] by (auto simp: list_all_iff)
    with DeleteWallet same show ?thesis unfolding handle_tracker by (simp add: remove_wallet_def split: sum.split)
  qed (use same in \<open>simp_all only: handle_tracker api_request.simps\<close>)
  with limit show ?thesis by (simp add: wallets_ok_def handle_risk)
qed

text \<open>C13: Requests keep the wallets within their limits. Whatever requests a desk serves, no tracked wallet
  has a trade limit above the larger of the risk engine's and the default of 100 dollars, a fixed ratio
  stays in (0, 10], and every wallet stays filed under its own address, once. The default counts:
  a wallet that is added without a limit of its own is not held to the engine's.\<close>

theorem wallet_limits_hold:
  assumes "list_all (wallet_settings_ok bound) (tk_wallets (ap_tracker A))"
    and "distinct (map fst (tk_wallets (ap_tracker A)))"
    and "bound = max 100 (rl_max_trade_usd (re_limits (ap_risk A)))"
    and "A' = serve_all D W reqs A"
  shows "list_all (wallet_settings_ok bound) (tk_wallets (ap_tracker A')) \<and>
    distinct (map fst (tk_wallets (ap_tracker A'))) \<and> ap_risk A' = ap_risk A"
proof -
  have "wallets_ok bound (serve_all D W reqs A) \<and> ap_risk (serve_all D W reqs A) = ap_risk A"
    unfolding serve_all_def
  proof (induction reqs rule: rev_induct)
    case Nil
    then show ?case using assms(1-3) by (simp add: wallets_ok_def keys_ok_def)
  next
    case (snoc x xs)
    obtain I h r where "x = (I, h, r)" by (rule prod_cases3)
    with snoc handle_wallets_ok [of bound _ D W I r] handle_risk [of D W I r] show ?case
      by (simp add: serve_def)
  qed
  with assms(4) show ?thesis by (simp add: wallets_ok_def keys_ok_def)
qed

text \<open>Plain inputs: no adapter to reset, nothing to cancel.\<close>

definition plain_api :: api_env where
  "plain_api = \<lparr>ae_time = (\<lambda>_. []), ae_uuid = (\<lambda>_. []), ae_ordinal = (\<lambda>_. 0), ae_show_f64 = (\<lambda>_. []),
     ae_debug = (\<lambda>s. s), ae_adapter_name = ''paper'',
     ae_capabilities = \<lparr>cp_supports_cancel = True, cp_supports_position_query = True, cp_is_real_money = False\<rparr>\<rparr>"

definition plain_inputs :: "unit api_inputs" where
  "plain_inputs = \<lparr>ai_now = 4, ai_event_at = 4, ai_cancel = (\<lambda>v _ _. (v, Inr ())), ai_cancel_clock = (\<lambda>_. (4, 4)),
     ai_paper_reset = Some (\<lambda>v. v)\<rparr>"

definition sevens :: string where
  "sevens = ''0x'' @ replicate 40 (CHR ''7'')"

definition bare_body :: wallet_body where
  "bare_body = \<lparr>wb_address = sevens, wb_nickname = None, wb_enabled = None, wb_copy_ratio = None,
     wb_fixed_usd = None, wb_portfolio_pct = None, wb_max_trade_usd = None, wb_max_exposure_usd = None,
     wb_min_source_notional_usd = None, wb_allowed_markets = None, wb_blocked_markets = None\<rparr>"

lemma sevens_address: "address_new sevens = Inr (Address sevens)"
proof -
  have "normal_hex 40 sevens" by (simp add: sevens_def normal_hex_def list_all_iff is_lower_hexdigit_def is_ascii_digit_def byte_def)
  then show ?thesis by (rule address_new_fixed)
qed

lemma bare_body_applied: "\<exists>w'. apply_body D l bare_body w = Inr w' \<and> tw_max_trade_usd w' = tw_max_trade_usd w"
  by (simp add: apply_body_def set_ratio_def set_max_trade_def set_sizing_def set_rest_def bare_body_def)

lemma bare_added:
  assumes "get_wallet (ap_tracker A) (Address sevens) = None"
  shows "\<exists>w. ap_tracker (fst (add_wallet D W bare_body A)) = upsert_wallet (ap_tracker A) w \<and>
    tw_address w = Address sevens \<and> tw_max_trade_usd w = 100"
proof -
  obtain w where w: "apply_body D (re_limits (ap_risk A)) bare_body
      (target_wallet_new (Address sevens) (take 8 sevens @ map char_of [0xE2, 0x80, 0xA6 :: nat])) = Inr w"
    "tw_max_trade_usd w = 100"
    using bare_body_applied [of D "re_limits (ap_risk A)"] by (fastforce simp: target_wallet_new_def)
  have "wb_address bare_body = sevens" "wb_nickname bare_body = None" by (simp_all add: bare_body_def)
  with w assms sevens_address have "ap_tracker (fst (add_wallet D W bare_body A)) = upsert_wallet (ap_tracker A) w"
    by (simp add: add_wallet_def Let_def)
  with w apply_body_address [OF w(1)] show ?thesis
    by (intro exI [of _ w]) (simp add: target_wallet_new_def)
qed

theorem wallet_limits_hold_witness:
  "let A' = serve_all exact_decimal plain_api [(plain_inputs, None, PostWallet bare_body)] (sample_state ())
   in tk_wallets (ap_tracker A') \<noteq> tk_wallets (ap_tracker (sample_state ())) \<and>
      list_all (wallet_settings_ok 100) (tk_wallets (ap_tracker A'))"
proof -
  let ?A = "sample_state ()"
  have T: "tk_wallets (ap_tracker ?A) = [(Address ''w'', sample_wallet)]"
    by (simp add: sample_state_def tracker_new_def sample_wallet_def target_wallet_new_def)
  have start: "list_all (wallet_settings_ok 100) (tk_wallets (ap_tracker ?A))"
    "distinct (map fst (tk_wallets (ap_tracker ?A)))"
    unfolding T by (simp_all add: wallet_settings_ok_def sample_wallet_def target_wallet_new_def default_sizing_mode_def)
  have limit: "100 = max 100 (rl_max_trade_usd (re_limits (ap_risk ?A)))"
    by (simp add: sample_state_def engine_new_def limits_default_def limits_from_config_def risk_default_def)
  have "get_wallet (ap_tracker ?A) (Address sevens) = None" by (simp add: T get_wallet_def get_def sevens_def)
  then obtain w' where w': "ap_tracker (fst (add_wallet exact_decimal plain_api bare_body ?A)) = upsert_wallet (ap_tracker ?A) w'"
    "tw_address w' = Address sevens"
    using bare_added by blast
  have "require_auth ?A None"
    by (simp add: require_auth_def sample_state_def app_default_def server_default_def is_live_def)
  with w'(1) have "ap_tracker (serve_all exact_decimal plain_api [(plain_inputs, None, PostWallet bare_body)] ?A) =
      upsert_wallet (ap_tracker ?A) w'"
    by (simp add: serve_all_def serve_def)
  then show ?thesis
    using wallet_limits_hold [OF start limit refl, of exact_decimal plain_api "[(plain_inputs, None, PostWallet bare_body)]"] w'(2)
    by (simp add: Let_def upsert_wallet_def T sevens_def)
qed

text \<open>A limit below the default: a wallet that is added with an address only may trade five times the limit.\<close>

lemma added_wallet_exceeds_the_limit:
  assumes "get_wallet (ap_tracker A) (Address sevens) = None" and "rl_max_trade_usd (re_limits (ap_risk A)) = 20"
  shows "\<exists>w. get_wallet (ap_tracker (fst (add_wallet D W bare_body A))) (Address sevens) = Some w \<and>
    tw_max_trade_usd w = 5 * rl_max_trade_usd (re_limits (ap_risk A))"
proof -
  obtain w where "ap_tracker (fst (add_wallet D W bare_body A)) = upsert_wallet (ap_tracker A) w"
    "tw_address w = Address sevens" "tw_max_trade_usd w = 100"
    using bare_added [OF assms(1)] by blast
  with assms(2) show ?thesis
    by (intro exI [of _ w]) (simp add: upsert_wallet_def get_wallet_def get_update)
qed

subsection \<open>The kill switch\<close>

text \<open>An engaged switch makes the pipeline a recorder.\<close>

lemma halted_trade:
  assumes "ks_engaged (ap_kill_switch (pl_state P))"
  shows "same_desk (pl_state (on_source_trade D E ci P t)) (pl_state P) \<and>
    ap_kill_switch (pl_state (on_source_trade D E ci P t)) = ap_kill_switch (pl_state P)"
proof (cases rule: on_source_trade_cases [of P t D E ci])
  case untracked
  then show ?thesis by (simp add: note_trade_desk)
next
  case (tracked w books book)
  let ?N = "note_trade D t (pl_state P)"
  have N: "same_desk ?N (pl_state P)" "ap_kill_switch ?N = ap_kill_switch (pl_state P)" by (rule note_trade_desk)+
  have "same_desk (decide D E ci (pl_trader P) books t w book ?N) ?N \<and>
      ap_kill_switch (decide D E ci (pl_trader P) books t w book ?N) = ap_kill_switch ?N"
  proof (cases rule: decide_cases [of D E ci "pl_trader P" books t w book ?N])
    case skipped
    then show ?thesis by (simp add: skip_trade_desk)
  next
    case (refused s tick r)
    let ?S = "note_signal D E ci t w s ?N"
    have "ap_kill_switch (refuse_order E ci s r ?S) = ap_kill_switch ?S"
      using assms N(2) by (simp add: refuse_order_def engage_def note_signal_desk Let_def)
    with refused(3) refuse_order_desk(1) [of E ci s r ?S] note_signal_desk(1,2) [of D E ci t w s ?N]
    show ?thesis by (simp add: same_desk_def)
  next
    case (placed s tick)
    then have False using assms N(2)
      unfolding pipe_verdict_def check_Approved check_gates_Approved Let_def by simp
    then show ?thesis ..
  qed
  with tracked(2) N show ?thesis by (simp add: same_desk_def)
qed

datatype 's desk_op =
    CopyTrade call_inputs source_trade
  | ServeRequest "'s api_inputs" "string option" api_request

fun desk_do :: "decimal_ops \<Rightarrow> api_env \<Rightarrow> 's pipe_env \<Rightarrow> 's pipeline \<Rightarrow> 's desk_op \<Rightarrow> 's pipeline" where
  "desk_do D W E P (CopyTrade ci t) = on_source_trade D E ci P t"
| "desk_do D W E P (ServeRequest I supplied req) = on_state (\<lambda>A. fst (serve D W I supplied req A)) P"

fun releases :: "'s app_state \<Rightarrow> 's desk_op \<Rightarrow> bool" where
  "releases A (ServeRequest I supplied PostKillSwitchReset) \<longleftrightarrow> require_auth A supplied"
| "releases A _ \<longleftrightarrow> False"

text \<open>What tells who halted the desk, when and why.\<close>

definition same_halt :: "kill_switch \<Rightarrow> kill_switch \<Rightarrow> bool" where
  "same_halt k k' \<longleftrightarrow> ks_engaged k' \<and> ks_reason k' = ks_reason k \<and> ks_engaged_by k' = ks_engaged_by k \<and>
     ks_engaged_at k' = ks_engaged_at k"

lemma handle_config:
  "ap_config (fst (handle_request D W I req A)) = ap_config A \<and> ap_mode (fst (handle_request D W I req A)) = ap_mode A"
  by (cases req)
    (auto simp: kill_switch_engage_def kill_switch_release_def add_wallet_def update_wallet_def remove_target_def
      reset_paper_def metrics_prometheus_def refresh_gauges_def save_and_audit_def Let_def
      split: sum.split option.split prod.split)

lemma handle_kill_switch:
  "ap_kill_switch (fst (handle_request D W I req A)) =
     (case req of
        PostKillSwitch b \<Rightarrow> engage (set_cancel_open_orders (ap_kill_switch A) (kb_cancel_open_orders b))
          (case kb_reason b of Some r \<Rightarrow> r | None \<Rightarrow> ''manual activation via API'') ''api'' (ai_now I)
      | PostKillSwitchReset \<Rightarrow> kill_switch_reset (ap_kill_switch A) ''api''
      | _ \<Rightarrow> ap_kill_switch A)"
proof (cases req)
  case (PostKillSwitch b)
  then show ?thesis by (simp add: kill_switch_engage_def Let_def split: prod.split)
qed (simp_all add: kill_switch_release_def add_wallet_def update_wallet_def remove_target_def
    reset_paper_def metrics_prometheus_def refresh_gauges_def save_and_audit_def Let_def
    split: sum.split option.split prod.split)

lemma desk_do_halted:
  assumes "ks_engaged (ap_kill_switch (pl_state P))" and "\<not> releases (pl_state P) op"
  shows "same_halt (ap_kill_switch (pl_state P)) (ap_kill_switch (pl_state (desk_do D W E P op))) \<and>
    ap_config (pl_state (desk_do D W E P op)) = ap_config (pl_state P) \<and>
    ap_mode (pl_state (desk_do D W E P op)) = ap_mode (pl_state P)"
proof (cases op)
  case (CopyTrade ci t)
  with halted_trade [OF assms(1), of D E ci t] assms(1) show ?thesis
    by (simp add: same_halt_def same_desk_def)
next
  case (ServeRequest I supplied req)
  then show ?thesis
    using assms handle_config [of D W I req "pl_state P"]
    by (cases req) (simp_all add: serve_def on_state_def handle_kill_switch same_halt_def engage_def set_cancel_open_orders_def
        del: handle_request.simps)
qed

lemma run_halted:
  assumes "ks_engaged (ap_kill_switch (pl_state P))" and "list_all (\<lambda>op. \<not> releases (pl_state P) op) ops"
  shows "same_halt (ap_kill_switch (pl_state P)) (ap_kill_switch (pl_state (foldl (desk_do D W E) P ops)))"
  using assms
proof (induction ops arbitrary: P)
  case Nil
  then show ?case by (simp add: same_halt_def)
next
  case (Cons op ops)
  let ?Q = "desk_do D W E P op"
  have step: "same_halt (ap_kill_switch (pl_state P)) (ap_kill_switch (pl_state ?Q))"
    "ap_config (pl_state ?Q) = ap_config (pl_state P)" "ap_mode (pl_state ?Q) = ap_mode (pl_state P)"
    using desk_do_halted [of P op D W E] Cons.prems by simp_all
  have "releases (pl_state ?Q) x = releases (pl_state P) x" for x
    using step(2,3) by (cases "(pl_state P, x)" rule: releases.cases) (simp_all add: require_auth_def)
  with Cons.IH [of ?Q] Cons.prems step(1) show ?case by (simp add: same_halt_def list_all_iff)
qed

text \<open>C12: A halt holds until somebody with the token lifts it. After the kill switch request of an allowed
  caller, whatever trades arrive and whatever other requests are served, other callers' resets
  included, the switch stays engaged with the cause it was first engaged for, and a further trade
  changes no order, nothing at the venue and nothing in the portfolio.\<close>

theorem halt_holds_until_reset:
  assumes "require_auth (pl_state P) supplied"
    and "Q = desk_do D W E P (ServeRequest I supplied (PostKillSwitch b))"
    and "list_all (\<lambda>op. \<not> releases (pl_state Q) op) ops"
    and "R = pl_state (foldl (desk_do D W E) Q ops)"
    and "R' = pl_state (on_source_trade D E ci (foldl (desk_do D W E) Q ops) t)"
  shows "ks_engaged (ap_kill_switch R') \<and>
    (if ks_engaged (ap_kill_switch (pl_state P)) then ks_reason (ap_kill_switch R') = ks_reason (ap_kill_switch (pl_state P))
     else ks_engaged_by (ap_kill_switch R') = Some ''api'' \<and> ks_engaged_at (ap_kill_switch R') = Some (ai_now I)) \<and>
    om_orders (ap_orders R') = om_orders (ap_orders R) \<and> ap_venue R' = ap_venue R \<and> ap_portfolio R' = ap_portfolio R"
proof -
  have Q: "ap_kill_switch (pl_state Q) =
      engage (set_cancel_open_orders (ap_kill_switch (pl_state P)) (kb_cancel_open_orders b))
        (case kb_reason b of Some r \<Rightarrow> r | None \<Rightarrow> ''manual activation via API'') ''api'' (ai_now I)"
    using assms(1) handle_kill_switch [of D W I "PostKillSwitch b" "pl_state P"]
    by (simp add: assms(2) serve_def on_state_def)
  then have on: "ks_engaged (ap_kill_switch (pl_state Q))" by (simp add: engage_def)
  have R: "same_halt (ap_kill_switch (pl_state Q)) (ap_kill_switch R)"
    unfolding assms(4) by (rule run_halted [OF on assms(3)])
  then have "same_desk R' R \<and> ap_kill_switch R' = ap_kill_switch R"
    using halted_trade [of "foldl (desk_do D W E) Q ops" D E ci t] by (simp add: assms(4,5) same_halt_def)
  with R Q show ?thesis by (auto simp: same_halt_def same_desk_def engage_def set_cancel_open_orders_def)
qed

text \<open>The sample desk has no token and is not live, so anybody may halt it; the trade that follows would
  otherwise have been copied.\<close>

theorem halt_holds_until_reset_witness:
  "let Q = desk_do exact_decimal plain_api closed_env sample_pipe (ServeRequest plain_inputs None
         (PostKillSwitch (kill_switch_body_of None None)));
       R' = pl_state (on_source_trade exact_decimal closed_env sample_call Q sample_source)
   in om_orders (ap_orders R') = om_orders (ap_orders (pl_state Q)) \<and> ks_engaged_by (ap_kill_switch R') = Some ''api'' \<and>
      om_orders (ap_orders (pl_state (on_source_trade exact_decimal closed_env sample_call sample_pipe sample_source))) \<noteq> []"
proof -
  have auth: "require_auth (pl_state sample_pipe) None" "\<not> ks_engaged (ap_kill_switch (pl_state sample_pipe))"
    by (simp_all add: sample_pipe_def pipeline_new_def)
      (simp_all add: require_auth_def sample_state_def app_default_def server_default_def is_live_def kill_switch_new_def)
  have none: "list_all (\<lambda>op. \<not> releases A op) []" for A :: "unit app_state" by simp
  from halt_holds_until_reset [OF auth(1) refl none refl refl, where D = exact_decimal and W = plain_api and
      E = closed_env and I = plain_inputs and b = "kill_switch_body_of None None" and ci = sample_call and
      t = sample_source] auth(2) sample_order_placed
  show ?thesis by (simp add: Let_def)
qed

subsection \<open>Paper reset and restart\<close>

text \<open>C14: A reset forgets the positions in memory only. After a paper reset the portfolio is empty and its
  cash is the starting cash, but the rows of the positions stay in the database: a restart after a clean
  shutdown brings every one of them back, beside the starting cash that the reset wrote.\<close>

theorem reset_book_comes_back:
  assumes "ap_store A = Some d" and "db_up d" and "keys_ok (db_positions d)"
    and "list_all (\<lambda>(t, p). ps_token_id p = t \<and> loaded_position p = Some p) (db_positions d)"
    and "\<not> is_live (ap_mode A)" and "ai_paper_reset I = Some f"
    and "A1 = fst (handle_request D W I PostPaperReset A)"
    and "list_all (\<lambda>s. pn_at s \<le> now) (db_pnl_snapshots d)"
    and "snapshot_row (app_snapshot D ordinal A1 now) = Some (app_snapshot D ordinal A1 now)"
    and "B' = ap_portfolio (recover D reread later (B\<lparr>ap_store := ap_store (shut_down D ordinal now A1)\<rparr>))"
  shows "pf_positions (ap_portfolio A1) = [] \<and> pf_cash (ap_portfolio A1) = pf_starting_cash (ap_portfolio A) \<and>
    pf_cash B' = pf_starting_cash (ap_portfolio A) \<and>
    position_of B' t =
      (case get (db_positions d) t of Some p \<Rightarrow> if ps_net_quantity p \<noteq> 0 then Some p else None | None \<Rightarrow> None)"
proof -
  define d1 where "d1 = d\<lparr>db_audit_logs := db_audit_logs d @ [(''api'', ''paper_reset'', None, JObj [])]\<rparr>"
  define snap where "snap = app_snapshot D ordinal A1 now"
  have A1: "ap_portfolio A1 = portfolio_reset (ae_ordinal W) (ap_portfolio A) (ai_now I)" "ap_store A1 = Some d1"
    using assms(1,2,5,6) by (simp_all add: assms(7) reset_paper_def Let_def audit_def exec_def d1_def)
  have pf: "pf_positions (ap_portfolio A1) = []" "pf_cash (ap_portfolio A1) = pf_starting_cash (ap_portfolio A)"
    by (simp_all add: A1(1) portfolio_reset_def)
  have snap: "pn_at snap = now" "pn_cash snap = pf_starting_cash (ap_portfolio A)"
    by (simp_all add: snap_def app_snapshot_def snapshot_def pf)
  have sd: "ap_store (shut_down D ordinal now A1) = Some (d1\<lparr>db_pnl_snapshots := db_pnl_snapshots d @ [snap]\<rparr>)"
    using assms(2,9) A1(2) pf(1)
    by (simp add: shut_down_def persist_books_def positions_def position_values_def persist_def insert_pnl_snapshot_def
        exec_def snap_def d1_def)
  have last: "latest_by pn_at (db_pnl_snapshots d @ [snap]) = Some snap"
    using assms(8) by (simp add: latest_by_last snap)
  note get = restored_get [OF assms(3,4), of "[]"]
  show ?thesis
    unfolding assms(10) recover_portfolio sd using assms(2) pf
    by (simp add: position_of_def get last snap d1_def Let_def) (simp add: get_def split: option.split)
qed

definition reset_desk_state :: "unit app_state" where
  "reset_desk_state = closing_desk\<lparr>ap_store := Some (db_empty\<lparr>db_positions := [(TokenId ''42'', held_position)]\<rparr>)\<rparr>"

theorem reset_book_comes_back_witness:
  "let A1 = fst (handle_request exact_decimal plain_api plain_inputs PostPaperReset reset_desk_state);
       B' = ap_portfolio (recover exact_decimal Some 6 ((sample_state ())\<lparr>ap_store :=
              ap_store (shut_down exact_decimal (\<lambda>_. 0) 5 A1)\<rparr>))
   in pf_positions (ap_portfolio A1) = [] \<and> position_of B' (TokenId ''42'') = Some held_position \<and> pf_cash B' = 10000"
proof -
  let ?A1 = "fst (handle_request exact_decimal plain_api plain_inputs PostPaperReset reset_desk_state)"
  let ?d = "db_empty\<lparr>db_positions := [(TokenId ''42'', held_position)]\<rparr>"
  have d: "ap_store reset_desk_state = Some ?d" "db_up ?d" "keys_ok (db_positions ?d)" "db_pnl_snapshots ?d = []"
    "list_all (\<lambda>(t, p). ps_token_id p = t \<and> loaded_position p = Some p) (db_positions ?d)"
    using held_storable by (simp_all add: reset_desk_state_def keys_ok_def db_empty_def storable_def)
      (simp add: held_position_def position_new_def)
  have A: "\<not> is_live (ap_mode reset_desk_state)" "ai_paper_reset plain_inputs = Some (\<lambda>v. v)"
    "pf_starting_cash (ap_portfolio reset_desk_state) = 10000" "ps_net_quantity held_position = 100"
    by (simp_all add: reset_desk_state_def closing_desk_def sample_state_def is_live_def plain_inputs_def
        portfolio_new_def held_position_def)
  have "ap_portfolio ?A1 = portfolio_reset (\<lambda>_. 0) (ap_portfolio reset_desk_state) 4" "om_orders (ap_orders ?A1) = []"
    using A(1) by (simp_all add: reset_paper_def A(2) plain_api_def)
      (simp_all add: plain_inputs_def reset_desk_state_def closing_desk_def sample_portfolio)
  then have "snapshot_row (app_snapshot exact_decimal (\<lambda>_. 0) ?A1 5) = Some (app_snapshot exact_decimal (\<lambda>_. 0) ?A1 5)"
    using A(3) by (simp add: snapshot_row_def app_snapshot_def snapshot_def portfolio_reset_def position_value_def equity_def
        gross_exposure_def portfolio_unrealized_def position_values_def held_def daily_pnl_def d_sum_def
        open_count_def open_orders_def om_values_def numeric20_def round_half_away_def Let_def)
  from reset_book_comes_back [OF d(1,2,3,5) A(1,2) refl _ this refl, of Some 6 "sample_state ()" "TokenId ''42''"] A d(4)
  show ?thesis by (simp add: Let_def get_def)
qed

subsection \<open>Secrets\<close>

text \<open>A configuration with other secrets.\<close>

definition other_secrets :: "secret \<Rightarrow> secret \<Rightarrow> secret \<Rightarrow> secret \<Rightarrow> secret \<Rightarrow> secret \<Rightarrow> app_config \<Rightarrow> app_config" where
  "other_secrets k a b p t u c =
     c\<lparr>ac_live := (ac_live c)\<lparr>lc_private_key := k, lc_api_key := a, lc_api_secret := b, lc_api_passphrase := p\<rparr>,
       ac_server := (ac_server c)\<lparr>sv_api_token := t\<rparr>,
       ac_storage := (ac_storage c)\<lparr>sr_database_url := u\<rparr>\<rparr>"

lemma app_snapshot_config [simp]: "app_snapshot D ordinal (A\<lparr>ap_config := c\<rparr>) now = app_snapshot D ordinal A now"
  by (simp add: app_snapshot_def)

text \<open>No answer depends on a secret. Whatever the private key, the API credentials, the API token and the
  database URL are, a request that is let through gets the same status and the same body, on every
  route.\<close>

theorem no_answer_depends_on_a_secret:
  "snd (handle_request D W I req (A\<lparr>ap_config := other_secrets k a b p t u (ap_config A)\<rparr>)) =
   snd (handle_request D W I req A)"
proof (cases req)
  case GetConfig
  then show ?thesis
    by (simp add: config_view_def public_view_def live_execution_armed_def other_secrets_def)
next
  case GetMode
  then show ?thesis by (simp add: mode_view_def live_execution_armed_def other_secrets_def)
next
  case (PostWallet x)
  then show ?thesis by (simp add: add_wallet_def Let_def split: sum.split)
next
  case (PatchWallet x y)
  then show ?thesis by (simp add: update_wallet_def split: sum.split option.split)
next
  case (DeleteWallet x)
  then show ?thesis by (simp add: remove_target_def split: sum.split prod.split option.split)
next
  case (PostKillSwitch x)
  then show ?thesis by (simp add: kill_switch_engage_def metric_def bus_send_def persist_def Let_def split: prod.split)
next
  case PostPaperReset
  then show ?thesis by (simp add: reset_paper_def Let_def split: option.split)
qed (simp_all add: health_view_def status_view_def uptime_seconds_def metrics_prometheus_def refresh_gauges_def
    metric_def positions_view_def orders_view_def fills_view_def trades_view_def pnl_view_def latency_view_def
    risk_view_def wallets_view_def kill_switch_release_def bus_send_def persist_def Let_def)

subsection \<open>The route table\<close>

text \<open>The documented table has every route of the router but the second metrics route.\<close>

lemma documented_routes:
  "request_route req = (m, path) \<Longrightarrow> req \<noteq> GetMetrics \<Longrightarrow> (m, path, is_protected req) \<in> set ROUTES"
  unfolding ROUTES_def by (cases req) simp_all

lemma undocumented_route: "list_all (\<lambda>(m, path, p). (m, path) \<noteq> request_route GetMetrics) ROUTES"
  unfolding ROUTES_def by simp
end
