(* ===== verification/Dashboard.thy ===== *)
theory Dashboard
  imports Views
begin

section \<open>The dashboard socket (crates/api/src/websocket.rs)\<close>

text \<open>
  What one connected dashboard is sent: a snapshot first, then one envelope for every event its
  receiver hands over, and a notice with the count when it fell behind. The select of the loop and the
  outcomes of the sends are inputs; the JSON of an event is a parameter, with no value where the encoder fails.
\<close>

definition envelope :: "(system_event \<Rightarrow> json option) \<Rightarrow> api_env \<Rightarrow> timestamp \<Rightarrow> system_event \<Rightarrow> json option" where
  "envelope payload W now e =
     map_option (\<lambda>p. JObj [(''kind'', JStr (event_kind e)), (''critical'', JBool (is_critical e)),
                         (''at'', time_json W now), (''payload'', p)]) (payload e)"

definition snapshot_frame :: "decimal_ops \<Rightarrow> api_env \<Rightarrow> timestamp \<Rightarrow> 's app_state \<Rightarrow> json" where
  "snapshot_frame D W now A = JObj
     [(''kind'', JStr ''snapshot''), (''critical'', JBool False), (''at'', time_json W now),
      (''payload'', JObj
         [(''mode'', JStr (app_mode_str (ap_mode A))), (''real_money'', JBool (is_real_money W)),
          (''kill_switch'', kill_switch_json W (ap_kill_switch A)),
          (''pnl'', snapshot_json W (app_snapshot D (ae_ordinal W) A now)),
          (''health'', health_report_json W (health_report_of (ap_health A) now))])]"

definition lag_notice :: "api_env \<Rightarrow> timestamp \<Rightarrow> nat \<Rightarrow> json" where
  "lag_notice W now n = JObj
     [(''kind'', JStr ''lagged''), (''critical'', JBool False), (''at'', time_json W now),
      (''payload'', JObj [(''skipped'', nat_json n), (''action'', JStr ''resync via REST'')])]"

text \<open>What the select sees: the client, or the receiver of the bus. An event and a lag carry the time and
  whether the send succeeds.\<close>

datatype dashboard_input =
    ClientGone
  | ClientClose
  | ClientMessage
  | BusEvent system_event timestamp bool
  | BusLagged nat timestamp bool
  | BusClosed

text \<open>The frames that reach the dashboard, and whether the loop still runs.\<close>

fun dashboard_loop :: "(system_event \<Rightarrow> json option) \<Rightarrow> api_env \<Rightarrow> dashboard_input list \<Rightarrow> json list \<times> bool" where
  "dashboard_loop payload W [] = ([], True)"
| "dashboard_loop payload W (ClientGone # xs) = ([], False)"
| "dashboard_loop payload W (ClientClose # xs) = ([], False)"
| "dashboard_loop payload W (ClientMessage # xs) = dashboard_loop payload W xs"
| "dashboard_loop payload W (BusClosed # xs) = ([], False)"
| "dashboard_loop payload W (BusEvent e now sent # xs) =
     (case envelope payload W now e of
        None \<Rightarrow> dashboard_loop payload W xs
      | Some f \<Rightarrow>
          (if sent then (let (fs, run) = dashboard_loop payload W xs in (f # fs, run)) else ([], False)))"
| "dashboard_loop payload W (BusLagged n now sent # xs) =
     (if sent then (let (fs, run) = dashboard_loop payload W xs in (lag_notice W now n # fs, run)) else ([], False))"

definition dashboard_session ::
    "decimal_ops \<Rightarrow> (system_event \<Rightarrow> json option) \<Rightarrow> api_env \<Rightarrow> timestamp \<Rightarrow> bool \<Rightarrow> 's app_state \<Rightarrow>
     dashboard_input list \<Rightarrow> json list \<times> bool" where
  "dashboard_session D payload W now sent A xs =
     (if sent then (let (fs, run) = dashboard_loop payload W xs in (snapshot_frame D W now A # fs, run)) else ([], False))"

subsection \<open>Nothing is lost silently\<close>

text \<open>The events a dashboard was shown, and those it was told it missed.\<close>

fun frame_key :: "json \<Rightarrow> string \<Rightarrow> json" where
  "frame_key (JObj kvs) k = (case map_of kvs k of Some v \<Rightarrow> v | None \<Rightarrow> JNull)"
| "frame_key _ k = JNull"

definition told_missed :: "json \<Rightarrow> int" where
  "told_missed f = (if frame_key f ''kind'' = JStr ''lagged''
     then (case frame_key (frame_key f ''payload'') ''skipped'' of JInt i \<Rightarrow> i | _ \<Rightarrow> 0) else 0)"

fun input_events :: "dashboard_input \<Rightarrow> nat" where
  "input_events (BusEvent _ _ _) = 1"
| "input_events (BusLagged n _ _) = n"
| "input_events _ = 0"

lemma event_kind_not_lagged: "event_kind e \<noteq> ''lagged''"
  by (cases e) simp_all

lemma told_missed_envelope: "envelope payload W now e = Some f \<Longrightarrow> told_missed f = 0 \<and> frame_key f ''kind'' = JStr (event_kind e)"
  using event_kind_not_lagged [of e] by (auto simp: envelope_def told_missed_def)

lemma told_missed_notice: "told_missed (lag_notice W now n) = int n" "frame_key (lag_notice W now n) ''kind'' = JStr ''lagged''"
  by (simp_all add: told_missed_def lag_notice_def nat_json_def)

lemma dashboard_accounts:
  assumes "\<And>e. payload e \<noteq> None" and "dashboard_loop payload W xs = (fs, True)"
  shows "int (length (filter (\<lambda>f. frame_key f ''kind'' \<noteq> JStr ''lagged'') fs)) + sum_list (map told_missed fs) =
    int (sum_list (map input_events xs))"
  using assms(2)
proof (induction xs arbitrary: fs)
  case (Cons x xs)
  show ?case
  proof (cases x)
    case (BusEvent e now sent)
    obtain f where f: "envelope payload W now e = Some f" using assms(1) [of e] by (auto simp: envelope_def)
    with Cons.prems BusEvent obtain gs where "fs = f # gs" "dashboard_loop payload W xs = (gs, True)"
      by (auto split: if_splits prod.splits)
    with Cons.IH told_missed_envelope [OF f] event_kind_not_lagged [of e] BusEvent show ?thesis by simp
  next
    case (BusLagged n now sent)
    with Cons.prems obtain gs where "fs = lag_notice W now n # gs" "dashboard_loop payload W xs = (gs, True)"
      by (auto split: if_splits prod.splits)
    with Cons.IH told_missed_notice BusLagged show ?thesis by simp
  qed (use Cons in auto)
qed simp

end
