(* ===== verification/Streams.thy ===== *)
theory Streams
  imports Desk
begin

section \<open>The market stream's task (crates/market_data/src/market_stream.rs run_market_stream)\<close>

text \<open>
  The task that keeps the live books, as a state machine over what its connection attempts and its
  socket answer. What the trading path adds to the subscriptions meanwhile is part of the input, as
  is the clock of the debounce, in nanoseconds. The books handed to the callback are the list of
  published books.
\<close>

subsection \<open>The session\<close>

definition quoted :: "string \<Rightarrow> string" where
  "quoted s = quote @ s @ quote"

definition subscribe_frame :: "token_id list \<Rightarrow> string" where
  "subscribe_frame ts =
     ''{'' @ quoted ''assets_ids'' @ '':['' @ joined '','' (map (quoted \<circ> token_str) ts) @ ''],'' @
     quoted ''type'' @ '':'' @ quoted ''market'' @ ''}''"

definition RESUBSCRIBE_DEBOUNCE :: nat where
  "RESUBSCRIBE_DEBOUNCE = 5 * 10 ^ 9"

text \<open>One pass of the inner loop: the tokens added before its head, the clock there, and what the select
  sees; no event is the timer of one second.\<close>

record stream_pass =
  sp_added :: "token_id list"
  sp_clock :: nat
  sp_event :: "socket_event option"

text \<open>How a session ends: the task returns on a shutdown, or the connection is given up for a reason, or
  it still stands when the passes are used up.\<close>

datatype session_end = Standing | ShutDown | BrokenOff string

text \<open>What the task shares and keeps over its connections. The builder is that of the connection.\<close>

record stream_task =
  mt_subs :: subscriptions
  mt_stream :: stream_state

definition read_text ::
    "decimal_ops \<Rightarrow> timestamp_opt \<Rightarrow> (string \<Rightarrow> wire_frame list option) \<Rightarrow> (string \<Rightarrow> wire_frame option) \<Rightarrow>
     string \<times> timestamp \<Rightarrow> stream_task \<Rightarrow> stream_task" where
  "read_text D ts_opt da dob msg M = M\<lparr>mt_stream := stream_text D ts_opt da dob (mt_stream M) msg\<rparr>"

definition pass_head :: "stream_pass \<Rightarrow> nat \<Rightarrow> stream_task \<Rightarrow> stream_task \<times> nat" where
  "pass_head x since M =
     (let (s, dirty) = take_dirty (subs_extend (mt_subs M) (sp_added x))
      in (M\<lparr>mt_subs := s\<rparr>, if dirty then sp_clock x else since))"

text \<open>The inner loop: how many tokens the connection was subscribed to, since when the set has not
  changed, and the passes.\<close>

fun market_session ::
    "decimal_ops \<Rightarrow> timestamp_opt \<Rightarrow> (string \<Rightarrow> wire_frame list option) \<Rightarrow> (string \<Rightarrow> wire_frame option) \<Rightarrow> nat \<Rightarrow>
     nat \<Rightarrow> stream_task \<Rightarrow> stream_pass list \<Rightarrow> stream_task \<times> session_end" where
  "market_session D ts_opt da dob followed since M [] = (M, Standing)"
| "market_session D ts_opt da dob followed since M (x # xs) =
     (let (M1, since1) = pass_head x since M
      in if RESUBSCRIBE_DEBOUNCE < sp_clock x - since1 \<and> length (su_tokens (mt_subs M1)) \<noteq> followed
         then (M1, BrokenOff ''resubscribing for new tokens'')
         else case sp_event x of
           None \<Rightarrow> market_session D ts_opt da dob followed since1 M1 xs
         | Some (SockShutdown s) \<Rightarrow>
             (if s then (M1, ShutDown) else market_session D ts_opt da dob followed since1 M1 xs)
         | Some SockEnd \<Rightarrow> (M1, BrokenOff ''stream ended'')
         | Some (SockError e) \<Rightarrow> (M1, BrokenOff (''ws error: '' @ e))
         | Some SockClose \<Rightarrow> (M1, BrokenOff ''server closed'')
         | Some SockPing \<Rightarrow> market_session D ts_opt da dob followed since1 M1 xs
         | Some SockOther \<Rightarrow> market_session D ts_opt da dob followed since1 M1 xs
         | Some (SockText t at_) \<Rightarrow>
             market_session D ts_opt da dob followed since1 (read_text D ts_opt da dob (t, at_) M1) xs)"

subsection \<open>The outer loop\<close>

text \<open>One turn: the tokens added before the snapshot, and what the attempt to connect meets. A subscribed
  connection tells the tokens added while it was being made, its time, and its passes.\<close>

datatype market_attempt =
    MarketTimeout
  | MarketRefused string
  | MarketNotSubscribed
  | MarketConnected "token_id list" nat "stream_pass list"

definition count_reconnect :: "stream_task \<Rightarrow> stream_task" where
  "count_reconnect M =
     M\<lparr>mt_stream := (mt_stream M)\<lparr>st_stats := (st_stats (mt_stream M))\<lparr>ss_reconnects := ss_reconnects (st_stats (mt_stream M)) + 1\<rparr>\<rparr>\<rparr>"

text \<open>After the subscription was sent: the dirty flag is cleared and the books start afresh.\<close>

definition open_session :: "token_id list \<Rightarrow> stream_task \<Rightarrow> stream_task" where
  "open_session added M =
     M\<lparr>mt_subs := fst (take_dirty (subs_extend (mt_subs M) added)), mt_stream := (mt_stream M)\<lparr>st_builder := builder_new\<rparr>\<rparr>"

datatype market_end = MarketWaits "64 word" | MarketIdles | MarketReturned | MarketStands

definition market_wait :: "backoff \<times> stream_task \<Rightarrow> (backoff \<times> stream_task) \<times> market_end" where
  "market_wait BM = (let (B, d) = next_delay (fst BM) in ((B, count_reconnect (snd BM)), MarketWaits d))"

definition market_turn ::
    "decimal_ops \<Rightarrow> timestamp_opt \<Rightarrow> (string \<Rightarrow> wire_frame list option) \<Rightarrow> (string \<Rightarrow> wire_frame option) \<Rightarrow>
     backoff \<times> stream_task \<Rightarrow> token_id list \<times> market_attempt \<Rightarrow> (backoff \<times> stream_task) \<times> string option \<times> market_end" where
  "market_turn D ts_opt da dob BM x =
     (let (B, M) = BM; M0 = M\<lparr>mt_subs := subs_extend (mt_subs M) (fst x)\<rparr>; tokens = su_tokens (mt_subs M0)
      in if tokens = [] then ((B, M0), None, MarketIdles)
         else case snd x of
           MarketConnected added now passes \<Rightarrow>
             (let (M1, r) = market_session D ts_opt da dob (length tokens) now (open_session added M0) passes
              in case r of
                   Standing \<Rightarrow> ((backoff_reset B, M1), Some (subscribe_frame tokens), MarketStands)
                 | ShutDown \<Rightarrow> ((backoff_reset B, M1), Some (subscribe_frame tokens), MarketReturned)
                 | BrokenOff _ \<Rightarrow>
                     (let (BM', w) = market_wait (backoff_reset B, M1) in (BM', Some (subscribe_frame tokens), w)))
         | _ \<Rightarrow> (let (BM', w) = market_wait (B, M0) in (BM', None, w)))"

fun market_run ::
    "decimal_ops \<Rightarrow> timestamp_opt \<Rightarrow> (string \<Rightarrow> wire_frame list option) \<Rightarrow> (string \<Rightarrow> wire_frame option) \<Rightarrow>
     backoff \<times> stream_task \<Rightarrow> (token_id list \<times> market_attempt) list \<Rightarrow> (backoff \<times> stream_task) \<times> string list" where
  "market_run D ts_opt da dob BM [] = (BM, [])"
| "market_run D ts_opt da dob BM (x # xs) =
     (let (BM1, frame, w) = market_turn D ts_opt da dob BM x; sent = (case frame of Some f \<Rightarrow> [f] | None \<Rightarrow> [])
      in case w of
           MarketReturned \<Rightarrow> (BM1, sent)
         | MarketStands \<Rightarrow> (BM1, sent)
         | _ \<Rightarrow> (let (BM2, frames) = market_run D ts_opt da dob BM1 xs in (BM2, sent @ frames)))"

definition no_stream_stats :: stream_stats where
  "no_stream_stats = \<lparr>ss_snapshots = 0, ss_level_changes = 0, ss_tick_changes = 0, ss_reconnects = 0, ss_integrity_resyncs = 0\<rparr>"

definition run_market_stream ::
    "decimal_ops \<Rightarrow> timestamp_opt \<Rightarrow> (string \<Rightarrow> wire_frame list option) \<Rightarrow> (string \<Rightarrow> wire_frame option) \<Rightarrow>
     subscriptions \<Rightarrow> (token_id list \<times> market_attempt) list \<Rightarrow> (backoff \<times> stream_task) \<times> string list" where
  "run_market_stream D ts_opt da dob subs xs =
     market_run D ts_opt da dob (backoff_new 500 20000, \<lparr>mt_subs = subs, mt_stream = stream_new 0 no_stream_stats\<rparr>) xs"

subsection \<open>The subscriptions\<close>

definition subs_ok :: "subscriptions \<Rightarrow> bool" where
  "subs_ok s \<longleftrightarrow> sorted (su_tokens s) \<and> distinct (su_tokens s) \<and> length (su_tokens s) \<le> MAX_SUBSCRIBED_TOKENS"

lemma subs_extend_inv: "subs_ok s \<Longrightarrow> subs_ok (subs_extend s ts)"
  using subs_extend_ok [of s ts] by (auto simp: subs_ok_def)

lemma subs_extend_mono: "set (su_tokens s) \<subseteq> set (su_tokens (subs_extend s ts))"
proof (induction ts arbitrary: s)
  case (Cons t ts)
  have "set (su_tokens s) \<subseteq> set (su_tokens (fst (subs_add s t)))" by (auto simp: subs_add_def set_insort_key)
  with Cons show ?case by (force simp: subs_extend_def)
qed (simp add: subs_extend_def)

lemma take_dirty_tokens [simp]: "su_tokens (fst (take_dirty s)) = su_tokens s" "subs_ok (fst (take_dirty s)) = subs_ok s"
  by (simp_all add: take_dirty_def subs_ok_def)

lemma pass_head_stream: "mt_stream (fst (pass_head x since M)) = mt_stream M"
  by (simp add: pass_head_def case_prod_beta)

lemma pass_head_subs:
  "su_tokens (mt_subs (fst (pass_head x since M))) = su_tokens (subs_extend (mt_subs M) (sp_added x))"
  "subs_ok (mt_subs M) \<Longrightarrow> subs_ok (mt_subs (fst (pass_head x since M)))"
  by (simp_all add: pass_head_def case_prod_beta subs_extend_inv)

lemma pass_head_quiet:
  assumes "sp_added x = []"
  shows "su_tokens (mt_subs (fst (pass_head x since M))) = su_tokens (mt_subs M)"
    and "su_dirty (mt_subs (fst (pass_head x since M))) = False"
    and "snd (pass_head x since M) = (if su_dirty (mt_subs M) then sp_clock x else since)"
  using assms by (simp_all add: pass_head_def case_prod_beta subs_extend_def take_dirty_def)

lemma read_text_subs [simp]: "mt_subs (read_text D ts_opt da dob msg M) = mt_subs M"
  by (simp add: read_text_def)

subsection \<open>Whatever the stream publishes can be traded on\<close>

definition task_ok :: "stream_task \<Rightarrow> bool" where
  "task_ok M \<longleftrightarrow> subs_ok (mt_subs M) \<and> stream_ok (mt_stream M)"

lemma read_text_ok: "task_ok M \<Longrightarrow> task_ok (read_text D ts_opt da dob msg M)"
  by (simp add: task_ok_def read_text_def stream_text_ok)

lemma pass_head_ok: "task_ok M \<Longrightarrow> task_ok (fst (pass_head x since M))"
  by (simp add: task_ok_def pass_head_stream pass_head_subs)

lemma market_session_ok: "task_ok M \<Longrightarrow> task_ok (fst (market_session D ts_opt da dob n since M xs))"
proof (induction xs arbitrary: since M)
  case (Cons x xs)
  obtain M1 since1 where h: "pass_head x since M = (M1, since1)" by force
  then have "task_ok M1" using pass_head_ok [OF Cons.prems, of x since] by simp
  with Cons.IH read_text_ok [of M1] show ?case
    by (auto simp: h split: option.splits socket_event.splits)
qed simp

lemma open_session_ok: "task_ok M \<Longrightarrow> task_ok (open_session added M)"
  by (simp add: task_ok_def open_session_def subs_extend_inv stream_ok_def builder_ok_def builder_get_def builder_new_def)

lemma market_wait_ok: "task_ok (snd BM) \<Longrightarrow> task_ok (snd (fst (market_wait BM)))"
  by (simp add: market_wait_def case_prod_beta task_ok_def count_reconnect_def stream_ok_def)

lemma market_turn_ok:
  assumes "task_ok (snd BM)"
  shows "task_ok (snd (fst (market_turn D ts_opt da dob BM x)))"
proof -
  define M0 where "M0 = (snd BM)\<lparr>mt_subs := subs_extend (mt_subs (snd BM)) (fst x)\<rparr>"
  have M0: "task_ok M0" using assms by (simp add: M0_def task_ok_def subs_extend_inv)
  show ?thesis
    using M0 market_session_ok [OF open_session_ok [OF M0]] market_wait_ok
    by (simp add: market_turn_def case_prod_beta M0_def [symmetric] Let_def split: market_attempt.split session_end.split)
qed

lemma market_run_ok: "task_ok (snd BM) \<Longrightarrow> task_ok (snd (fst (market_run D ts_opt da dob BM xs)))"
proof (induction xs arbitrary: BM)
  case (Cons x xs)
  with market_turn_ok [OF Cons.prems, of D ts_opt da dob x] show ?case
    by (simp add: case_prod_beta Let_def split: market_end.split)
qed simp

subsection \<open>New tokens and the debounce\<close>

text \<open>With nothing added, the set stays, and the session cannot outlast the debounce.\<close>

lemma market_session_quiet:
  assumes "list_all (\<lambda>x. sp_added x = []) xs"
  shows "su_tokens (mt_subs (fst (market_session D ts_opt da dob n since M xs))) = su_tokens (mt_subs M)"
  using assms
proof (induction xs arbitrary: since M)
  case (Cons x xs)
  obtain M1 since1 where h: "pass_head x since M = (M1, since1)" by force
  then have "su_tokens (mt_subs M1) = su_tokens (mt_subs M)" using pass_head_quiet(1) [of x since M] Cons.prems by simp
  with Cons h show ?case by (auto split: option.splits socket_event.splits)
qed simp

lemma market_session_ends:
  assumes "list_all (\<lambda>x. sp_added x = []) xs" and "\<not> su_dirty (mt_subs M)" and "length (su_tokens (mt_subs M)) \<noteq> n"
    and "x \<in> set xs" and "since + RESUBSCRIBE_DEBOUNCE < sp_clock x"
  shows "snd (market_session D ts_opt da dob n since M xs) \<noteq> Standing"
  using assms
proof (induction xs arbitrary: M)
  case (Cons y ys)
  obtain M1 since1 where h: "pass_head y since M = (M1, since1)" by force
  have q: "su_tokens (mt_subs M1) = su_tokens (mt_subs M)" "\<not> su_dirty (mt_subs M1)" "since1 = since"
    using pass_head_quiet [of y since M] Cons.prems(1,2) by (simp_all add: h)
  show ?case
  proof (cases "y = x")
    case True
    with h Cons.prems(3,5) q show ?thesis by (simp add: less_diff_conv add.commute)
  next
    case False
    with Cons.IH [of M1] Cons.IH [of "read_text D ts_opt da dob _ M1"] Cons.prems q show ?thesis
      by (auto simp: h split: option.splits socket_event.splits)
  qed
qed simp

text \<open>A steady trickle of new tokens: one every debounce.\<close>

fun trickle :: "nat \<Rightarrow> token_id list \<Rightarrow> stream_pass list" where
  "trickle now [] = []"
| "trickle now (t # ts) =
     \<lparr>sp_added = [t], sp_clock = now + RESUBSCRIBE_DEBOUNCE, sp_event = None\<rparr> # trickle (now + RESUBSCRIBE_DEBOUNCE) ts"

lemma trickle_session:
  assumes "distinct ts" and "set ts \<inter> set (su_tokens (mt_subs M)) = {}"
    and "length (su_tokens (mt_subs M)) + length ts \<le> MAX_SUBSCRIBED_TOKENS"
  shows "snd (market_session D ts_opt da dob n now M (trickle now ts)) = Standing \<and>
    set (su_tokens (mt_subs (fst (market_session D ts_opt da dob n now M (trickle now ts))))) = set (su_tokens (mt_subs M)) \<union> set ts \<and>
    mt_stream (fst (market_session D ts_opt da dob n now M (trickle now ts))) = mt_stream M"
  using assms
proof (induction ts arbitrary: now M)
  case (Cons t ts)
  let ?x = "\<lparr>sp_added = [t], sp_clock = now + RESUBSCRIBE_DEBOUNCE, sp_event = None\<rparr>"
  obtain M1 since1 where h: "pass_head ?x now M = (M1, since1)" by force
  have "subs_add (mt_subs M) t = ((mt_subs M)\<lparr>su_tokens := insort t (su_tokens (mt_subs M)), su_dirty := True\<rparr>, True)"
    using Cons.prems by (auto simp: subs_add_def)
  with h have p: "since1 = now + RESUBSCRIBE_DEBOUNCE" "su_tokens (mt_subs M1) = insort t (su_tokens (mt_subs M))"
    "mt_stream M1 = mt_stream M" by (auto simp: pass_head_def subs_extend_def take_dirty_def)
  with Cons.IH [of M1 "now + RESUBSCRIBE_DEBOUNCE"] Cons.prems h show ?case by (auto simp: set_insort_key)
qed simp

subsection \<open>Properties\<close>

text \<open>Over all its connections the task publishes only books that can be traded on: whatever the attempts meet,
  whatever the sockets deliver and whatever tokens are added, every published book is best-first with valid prices
  and positive sizes, and the subscriptions stay ordered, free of repetitions and at most 400.\<close>

theorem stream_task_is_sound:
  assumes "subs_ok subs"
  shows "let M = snd (fst (run_market_stream D ts_opt da dob subs xs))
    in list_all best_first (st_published (mt_stream M)) \<and> subs_ok (mt_subs M)"
proof -
  have "task_ok \<lparr>mt_subs = subs, mt_stream = stream_new 0 no_stream_stats\<rparr>"
    using assms by (simp add: task_ok_def stream_ok_def stream_new_def builder_ok_def builder_new_def builder_get_def)
  from market_run_ok [of "(backoff_new 500 20000, _)", simplified, OF this] show ?thesis
    by (simp add: run_market_stream_def task_ok_def stream_ok_def Let_def)
qed

theorem stream_task_is_sound_witness: "let M = snd (fst (run_market_stream exact_decimal (\<lambda>_ _. None) (\<lambda>_. None) (\<lambda>_. None)
    (subs_extend subs_new [TokenId ''7'']) [([], MarketTimeout), ([TokenId ''8''], MarketConnected [] 0 [])]))
   in list_all best_first (st_published (mt_stream M)) \<and> subs_ok (mt_subs M)"
  by (rule stream_task_is_sound) (intro subs_extend_inv, simp add: subs_ok_def subs_new_def)

text \<open>C35: A new token is subscribed once the discoveries pause. When a connection follows another number of tokens than
  is wanted, and none is added for longer than the debounce, the session does not stand: it is given up,
  unless the program is shut down, and the subscription that the next connection sends names every token
  that was wanted, whatever is added until then.\<close>

theorem new_tokens_are_subscribed:
  assumes "length (su_tokens (mt_subs M)) \<noteq> followed" and "\<not> su_dirty (mt_subs M)"
    and "list_all (\<lambda>x. sp_added x = []) xs" and "x \<in> set xs" and "now + RESUBSCRIBE_DEBOUNCE < sp_clock x"
    and "market_session D ts_opt da dob followed now M xs = (M', r)"
    and "market_turn D ts_opt da dob (B, M') (later, MarketConnected added now' ys) = (BM, frame, w)"
    and "t \<in> set (su_tokens (mt_subs M))"
  shows "r \<noteq> Standing \<and> (\<exists>ts. frame = Some (subscribe_frame ts) \<and> t \<in> set ts)"
proof -
  have "r \<noteq> Standing"
    using market_session_ends [OF assms(3,2,1,4,5), of D ts_opt da dob] assms(6) by simp
  moreover have "su_tokens (mt_subs M') = su_tokens (mt_subs M)"
    using market_session_quiet [OF assms(3), of D ts_opt da dob followed now M] assms(6) by simp
  then have t: "t \<in> set (su_tokens (subs_extend (mt_subs M') later))"
    using subs_extend_mono [of "mt_subs M'" later] assms(8) by auto
  then have "su_tokens (subs_extend (mt_subs M') later) \<noteq> []" by auto
  with t assms(7) have "\<exists>ts. frame = Some (subscribe_frame ts) \<and> t \<in> set ts"
    by (auto simp: market_turn_def Let_def case_prod_beta split: session_end.splits)
  ultimately show ?thesis by simp
qed

definition two_tokens :: stream_task where
  "two_tokens = \<lparr>mt_subs = \<lparr>su_tokens = [TokenId ''7'', TokenId ''8''], su_dirty = False\<rparr>,
     mt_stream = stream_new 0 no_stream_stats\<rparr>"

theorem new_tokens_are_subscribed_witness:
  "let (M', r) = market_session exact_decimal (\<lambda>_ _. None) (\<lambda>_. None) (\<lambda>_. None) 1 0 two_tokens
         [\<lparr>sp_added = [], sp_clock = 6 * 10 ^ 9, sp_event = None\<rparr>];
       (_, frame, _) = market_turn exact_decimal (\<lambda>_ _. None) (\<lambda>_. None) (\<lambda>_. None) (backoff_new 500 20000, M')
         ([], MarketConnected [] 0 [])
   in r \<noteq> Standing \<and> (\<exists>ts. frame = Some (subscribe_frame ts) \<and> TokenId ''8'' \<in> set ts)"
proof -
  let ?x = "\<lparr>sp_added = [], sp_clock = 6 * 10 ^ 9, sp_event = None\<rparr>"
  obtain M' r where s: "market_session exact_decimal (\<lambda>_ _. None) (\<lambda>_. None) (\<lambda>_. None) 1 0 two_tokens [?x] = (M', r)"
    by force
  obtain BM frame w where u: "market_turn exact_decimal (\<lambda>_ _. None) (\<lambda>_. None) (\<lambda>_. None) (backoff_new 500 20000, M')
      ([], MarketConnected [] 0 []) = (BM, frame, w)" by (rule prod_cases3)
  have "r \<noteq> Standing \<and> (\<exists>ts. frame = Some (subscribe_frame ts) \<and> TokenId ''8'' \<in> set ts)"
    by (rule new_tokens_are_subscribed [OF _ _ _ _ _ s u, of ?x])
      (simp_all add: two_tokens_def RESUBSCRIBE_DEBOUNCE_def)
  then show ?thesis by (simp only: s u prod.case Let_def simp_thms)
qed

text \<open>A steady trickle of discoveries keeps the stream from picking any of them up. When a new token appears every
  five seconds, as many as the cap allows, the session stands, no book is published, and none of the new tokens is
  ever subscribed.\<close>

theorem trickle_starves_the_stream:
  assumes "distinct ts" and "set ts \<inter> set (su_tokens (mt_subs M)) = {}"
    and "length (su_tokens (mt_subs M)) + length ts \<le> 400"
    and "market_session D ts_opt da dob followed now M (trickle now ts) = (M', r)"
  shows "r = Standing \<and> set (su_tokens (mt_subs M')) = set (su_tokens (mt_subs M)) \<union> set ts \<and>
    st_published (mt_stream M') = st_published (mt_stream M)"
  using trickle_session [OF assms(1,2), of D ts_opt da dob followed now] assms(3,4) by (simp add: MAX_SUBSCRIBED_TOKENS_def)

theorem trickle_starves_the_stream_witness:
  "let (M', r) = market_session exact_decimal (\<lambda>_ _. None) (\<lambda>_. None) (\<lambda>_. None) 2 0 two_tokens (trickle 0 [TokenId ''9'', TokenId ''1''])
   in r = Standing \<and> TokenId ''9'' \<in> set (su_tokens (mt_subs M'))"
proof -
  obtain M' r where s: "market_session exact_decimal (\<lambda>_ _. None) (\<lambda>_. None) (\<lambda>_. None) 2 0 two_tokens
      (trickle 0 [TokenId ''9'', TokenId ''1'']) = (M', r)" by force
  have "r = Standing \<and> TokenId ''9'' \<in> set (su_tokens (mt_subs M'))"
    using trickle_starves_the_stream [OF _ _ _ s] by (simp add: two_tokens_def)
  then show ?thesis by (simp only: s prod.case Let_def simp_thms)
qed

text \<open>C34: A book the venue contradicts stays in the cache the trading path reads. When a change shows that the builder has
  drifted, the builder drops its book and publishes nothing; what the callback was given before is still in the cache,
  and a trade is priced with it as long as it is fresh.\<close>

theorem drifted_book_is_still_traded_on:
  assumes "builder_get (st_builder S) t = Some b" and "drifted (change_level b s p sz now) bb ba"
    and "S' = stream_event now S (LevelChange t s p sz bb ba)"
    and "P' = foldl (on_stream_book D E paper now) P (drop (length (st_published S)) (st_published S'))"
    and "cache_get (pl_books P) t = Some c"
    and "num_milliseconds (ci_clock ci AtBook - bk_timestamp c) \<le> rc_max_market_data_age_ms (ac_risk (ap_config (pl_state P)))"
  shows "builder_get (st_builder S') t = None \<and> snd (book_for ci P' t) = Some c"
proof -
  have S': "st_published S' = st_published S" "builder_get (st_builder S') t = None"
    using assms(1,2) by (simp_all add: assms(3) stream_event_def builder_get_def get_delete Let_def)
  then have "P' = P" by (simp add: assms(4))
  with S'(2) assms(5,6) show ?thesis by (simp add: book_for_def Let_def)
qed

text \<open>The venue says that its best bid is a cent below the one the builder holds.\<close>

definition drifting_stream :: stream_state where
  "drifting_stream = (stream_new 0 no_stream_stats)\<lparr>st_builder := builder_new\<lparr>bb_books := [(TokenId ''7'', sample_book)]\<rparr>,
     st_published := [sample_book]\<rparr>"

theorem drifted_book_is_still_traded_on_witness:
  "let S' = stream_event 5 drifting_stream (LevelChange (TokenId ''7'') Buy (60/100) 40 (Some (59/100)) None);
       P = sample_pipe\<lparr>pl_books := [(TokenId ''7'', sample_book)]\<rparr>;
       P' = foldl (on_stream_book exact_decimal closed_env None 5) P (drop 1 (st_published S'))
   in builder_get (st_builder S') (TokenId ''7'') = None \<and> snd (book_for sample_call P' (TokenId ''7'')) = Some sample_book"
proof -
  let ?S' = "stream_event 5 drifting_stream (LevelChange (TokenId ''7'') Buy (60/100) 40 (Some (59/100)) None)"
  let ?P = "sample_pipe\<lparr>pl_books := [(TokenId ''7'', sample_book)]\<rparr>"
  have g: "builder_get (st_builder drifting_stream) (TokenId ''7'') = Some sample_book"
    by (simp add: drifting_stream_def builder_get_def get_def)
  have d: "drifted (change_level sample_book Buy (60/100) 40 5) (Some (59/100)) None"
    by (simp add: drifted_def change_level_def sample_book_def set_level_def best_bid_def first_level_def valid_qty_def)
  have c: "cache_get (pl_books ?P) (TokenId ''7'') = Some sample_book"
    by (simp add: cache_get_def get_def)
  have f: "num_milliseconds (ci_clock sample_call AtBook - bk_timestamp sample_book) \<le>
      rc_max_market_data_age_ms (ac_risk (ap_config (pl_state ?P)))"
    by (simp add: sample_call_def sample_book_def sample_pipe_def pipeline_new_def sample_state_def app_default_def
        risk_default_def num_milliseconds_def tdiv_def)
  have one: "length (st_published drifting_stream) = 1" by (simp add: drifting_stream_def)
  show ?thesis
    using drifted_book_is_still_traded_on [OF g d refl refl c f, of exact_decimal closed_env None]
    by (simp only: one Let_def simp_thms)
qed

end
