(* ===== verification/Live.thy ===== *)
theory Live
  imports Signing Desk
begin

section \<open>Live execution (crates/execution/src/live.rs)\<close>

text \<open>
  The adapter for the venue's HTTP interface: credentials and their HMAC headers, the base64 of the
  secret, and the requests. SHA-256, the JSON text, the text of an HTTP status and the rule for header
  values are parameters, and so is the signer. A request is returned beside the result, and the answer
  is a function of the request: a timeout, another failure, or a status with a body. The client that
  sends is not state.
\<close>

subsection \<open>Base64\<close>

definition base64_table :: string where
  "base64_table = ''ABCDEFGHIJKLMNOPQRSTUVWXYZabcdefghijklmnopqrstuvwxyz0123456789-_''"

text \<open>\<open>chunks(n)\<close> of a slice.\<close>

function chunks :: "nat \<Rightarrow> 'a list \<Rightarrow> 'a list list" where
  "chunks n xs = (if n = 0 \<or> xs = [] then [] else take n xs # chunks n (drop n xs))"
  by pat_completeness auto
termination
  by (relation "measure (\<lambda>(n, xs). length xs)") auto

declare chunks.simps [simp del]

definition base64_group :: "bytes \<Rightarrow> string" where
  "base64_group c =
     (let b = (\<lambda>i. if i < length c then c ! i else 0);
          n = push_bit 16 (ucast (b 0)) OR push_bit 8 (ucast (b 1)) OR ucast (b 2) :: 32 word;
          digit = (\<lambda>k. base64_table ! unat (drop_bit k n AND 63))
      in [digit 18, digit 12, if length c > 1 then digit 6 else CHR ''='',
          if length c > 2 then digit 0 else CHR ''=''])"

definition b64url_encode :: "bytes \<Rightarrow> string" where
  "b64url_encode b = concat (map base64_group (chunks 3 b))"

definition base64_val :: "char \<Rightarrow> 32 word option" where
  "base64_val c =
     (if 65 \<le> byte c \<and> byte c \<le> 90 then Some (of_nat (byte c - 65))
      else if 97 \<le> byte c \<and> byte c \<le> 122 then Some (of_nat (byte c - 97 + 26))
      else if 48 \<le> byte c \<and> byte c \<le> 57 then Some (of_nat (byte c - 48 + 52))
      else if c = CHR ''+'' \<or> c = CHR ''-'' then Some 62
      else if c = CHR ''/'' \<or> c = CHR ''_'' then Some 63
      else None)"

fun base64_word :: "nat \<Rightarrow> string \<Rightarrow> 32 word \<Rightarrow> 32 word option" where
  "base64_word i [] n = Some n"
| "base64_word i (c # cs) n =
     (case base64_val c of
        None \<Rightarrow> None
      | Some v \<Rightarrow> base64_word (i + 1) cs (n OR push_bit (18 - 6 * i) v))"

fun base64_chunks :: "string list \<Rightarrow> bytes option" where
  "base64_chunks [] = Some []"
| "base64_chunks (chunk # rest) =
     (case base64_word 0 chunk 0 of
        None \<Rightarrow> None
      | Some n \<Rightarrow> map_option
          (\<lambda>bs. take (length chunk - 1) [ucast (drop_bit 16 n), ucast (drop_bit 8 n), ucast n] @ bs)
          (base64_chunks rest))"

definition is_ascii_whitespace :: "char \<Rightarrow> bool" where
  "is_ascii_whitespace c \<longleftrightarrow> byte c \<in> {9, 10, 12, 13, 32}"

definition b64url_decode :: "string \<Rightarrow> bytes option" where
  "b64url_decode s =
     base64_chunks (chunks 4 (filter (\<lambda>c. c \<noteq> CHR ''='' \<and> \<not> is_ascii_whitespace c) s))"

subsection \<open>HMAC and headers\<close>

definition xor_bytes :: "8 word \<Rightarrow> bytes \<Rightarrow> bytes" where
  "xor_bytes p k = map (\<lambda>b. p XOR b) k"

definition hmac_sha256_b64 :: "(bytes \<Rightarrow> bytes) \<Rightarrow> string \<Rightarrow> string \<Rightarrow> string" where
  "hmac_sha256_b64 sha secret msg =
     (let key = (case b64url_decode secret of Some k \<Rightarrow> k | None \<Rightarrow> ascii_bytes secret);
          k0 = (if length key > 64 then sha key else key);
          k = take 64 (k0 @ replicate (64 - length k0) 0);
          inner = sha (xor_bytes 0x36 k @ ascii_bytes msg);
          outer = sha (xor_bytes 0x5c k @ inner)
      in b64url_encode outer)"

record l2_credentials =
  l2_api_key :: string
  l2_secret :: string
  l2_passphrase :: string

type_synonym headers = "(string, string) hashmap"

text \<open>Header names are stored in lower case; a value the library refuses is left out.\<close>

definition insert_header :: "(string \<Rightarrow> bool) \<Rightarrow> headers \<Rightarrow> string \<Rightarrow> string \<Rightarrow> headers" where
  "insert_header value_ok h k v = (if value_ok v then AList.update (to_ascii_lowercase k) v h else h)"

definition l2_headers ::
    "(bytes \<Rightarrow> bytes) \<Rightarrow> (string \<Rightarrow> bool) \<Rightarrow> l2_credentials \<Rightarrow> string \<Rightarrow> string \<Rightarrow> string \<Rightarrow> int \<Rightarrow> headers" where
  "l2_headers sha value_ok c verb path body ts =
     (let msg = int_text ts @ verb @ path @ body;
          sig = hmac_sha256_b64 sha (l2_secret c) msg;
          h1 = insert_header value_ok [] ''POLY_API_KEY'' (l2_api_key c);
          h2 = insert_header value_ok h1 ''POLY_PASSPHRASE'' (l2_passphrase c);
          h3 = insert_header value_ok h2 ''POLY_TIMESTAMP'' (int_text ts)
      in insert_header value_ok h3 ''POLY_SIGNATURE'' sig)"

definition show_l2_credentials :: "l2_credentials \<Rightarrow> string" where
  "show_l2_credentials c = ''L2Credentials(<redacted>)''"

subsection \<open>The adapter\<close>

record http_request =
  ht_verb :: string
  ht_url :: string
  ht_headers :: headers
  ht_body :: string

datatype http_answer = HttpTimeout string | HttpFailure string | HttpAnswer nat string

text \<open>What the adapter is built from outside the repository.\<close>

record clob_env =
  le_sha :: "bytes \<Rightarrow> bytes"
  le_value_ok :: "string \<Rightarrow> bool"
  le_show_json :: "json \<Rightarrow> string"
  le_parse_json :: "string \<Rightarrow> json option"
  le_status :: "nat \<Rightarrow> string"
  le_uuid :: "nat \<Rightarrow> string"

record live_execution =
  lx_clob_url :: string
  lx_creds :: "l2_credentials option"
  lx_signer :: "(order_request \<Rightarrow> rat \<Rightarrow> string + signed_order) option"
  lx_armed :: bool
  lx_funder_address :: "string option"

definition live_execution_new :: "string \<Rightarrow> bool \<Rightarrow> live_execution" where
  "live_execution_new url armed = \<lparr>lx_clob_url = url, lx_creds = None, lx_signer = None,
     lx_armed = armed, lx_funder_address = None\<rparr>"

definition with_credentials :: "l2_credentials \<Rightarrow> live_execution \<Rightarrow> live_execution" where
  "with_credentials c L = L\<lparr>lx_creds := Some c\<rparr>"

definition with_signer :: "(order_request \<Rightarrow> rat \<Rightarrow> string + signed_order) \<Rightarrow> live_execution \<Rightarrow> live_execution" where
  "with_signer s L = L\<lparr>lx_signer := Some s\<rparr>"

definition with_funder :: "string \<Rightarrow> live_execution \<Rightarrow> live_execution" where
  "with_funder a L = L\<lparr>lx_funder_address := Some a\<rparr>"

definition readiness_gaps :: "live_execution \<Rightarrow> string list" where
  "readiness_gaps L =
     (if lx_armed L then [] else [''APP_MODE=live and LIVE_TRADING_ENABLED=true'']) @
     (if lx_creds L = None then [''L2 API credentials (key/secret/passphrase)''] else []) @
     (if lx_signer L = None then [''an OrderSigner implementation (EIP-712 L1 signing)''] else []) @
     (if lx_funder_address L = None then [''POLYMARKET_FUNDER_ADDRESS''] else [])"

definition live_capabilities :: adapter_capabilities where
  "live_capabilities = \<lparr>cp_supports_cancel = True, cp_supports_position_query = True, cp_is_real_money = True\<rparr>"

definition live_is_ready :: "live_execution \<Rightarrow> bool" where
  "live_is_ready L \<longleftrightarrow> readiness_gaps L = []"

definition is_success :: "nat \<Rightarrow> bool" where
  "is_success status \<longleftrightarrow> 200 \<le> status \<and> status < 300"

text \<open>Text that is not JSON reads as \<open>null\<close>.\<close>

definition reply_order_id :: "clob_env \<Rightarrow> string \<Rightarrow> string option" where
  "reply_order_id V text =
     (let v = (case le_parse_json V text of Some j \<Rightarrow> j | None \<Rightarrow> JNull);
          found = (case json_get v ''orderID'' of Some x \<Rightarrow> Some x | None \<Rightarrow>
                   (case json_get v ''orderId'' of Some x \<Rightarrow> Some x | None \<Rightarrow> json_get v ''id''))
      in Option.bind found json_str)"

definition order_post :: "clob_env \<Rightarrow> live_execution \<Rightarrow> l2_credentials \<Rightarrow> signed_order \<Rightarrow> int \<Rightarrow> http_request" where
  "order_post V L creds sgd ts =
     (let body = le_show_json V (so_body sgd);
          h = l2_headers (le_sha V) (le_value_ok V) creds ''POST'' ''/order'' body ts
      in \<lparr>ht_verb = ''POST'', ht_url = lx_clob_url L @ ''/order'',
          ht_headers = AList.update ''content-type'' ''application/json''
            (insert_header (le_value_ok V) h ''poly_address'' (so_signed_address sgd)),
          ht_body = body\<rparr>)"

definition live_submit ::
    "clob_env \<Rightarrow> (http_request \<Rightarrow> http_answer) \<Rightarrow> timestamp \<Rightarrow> timestamp \<Rightarrow> live_execution \<Rightarrow> order_request \<Rightarrow>
     http_request option \<times> (execution_error + acknowledgement)" where
  "live_submit V answer stamp sent_at L order =
     (let gaps = readiness_gaps L
      in case (gaps, lx_signer L, lx_creds L) of
        ([], Some signer, Some creds) \<Rightarrow>
          (case signer order (rq_tick_size order) of
             Inl e \<Rightarrow> (None, Inl (NotAuthenticated (''order signing failed: '' @ e)))
           | Inr sgd \<Rightarrow>
               (let post = order_post V L creds sgd (stamp div 1000000000)
                in (Some post,
                    case answer post of
                      HttpTimeout _ \<Rightarrow> Inl (AmbiguousOutcome (''timeout after sending order '' @
                        le_uuid V (rq_order_id order) @ '': it may exist at the venue''))
                    | HttpFailure e \<Rightarrow> Inl (TransportFailure e)
                    | HttpAnswer status text \<Rightarrow>
                        (if \<not> is_success status then Inl (VenueRejected (''HTTP '' @ le_status V status @ '': '' @ text))
                         else Inr \<lparr>ak_order_id = rq_order_id order, ak_venue_order_id = reply_order_id V text,
                           ak_accepted_at = sent_at, ak_immediate_fills = [], ak_terminal = False\<rparr>))))
      | _ \<Rightarrow> (None, Inl (AdapterNotReady (''live execution is not configured; missing: '' @ joined '', '' gaps @
                 ''. See docs/LIVE_MODE.md '' @ map char_of [0xE2, 0x80, 0x94 :: nat] @ '' no order was sent.''))))"

definition live_cancel ::
    "clob_env \<Rightarrow> (http_request \<Rightarrow> http_answer) \<Rightarrow> timestamp \<Rightarrow> live_execution \<Rightarrow> order_id \<Rightarrow> string option \<Rightarrow>
     http_request option \<times> (execution_error + unit)" where
  "live_cancel V answer stamp L i venue_order_id =
     (case lx_creds L of
        None \<Rightarrow> (None, Inl (AdapterNotReady ''no L2 credentials''))
      | Some creds \<Rightarrow>
          (case venue_order_id of
             None \<Rightarrow> (None, Inl (UnknownAtVenue i))
           | Some vid \<Rightarrow>
               (let body = le_show_json V (JObj [(''orderID'', JStr vid)]);
                    req = \<lparr>ht_verb = ''DELETE'', ht_url = lx_clob_url L @ ''/order'',
                      ht_headers = AList.update ''content-type'' ''application/json''
                        (l2_headers (le_sha V) (le_value_ok V) creds ''DELETE'' ''/order'' body (stamp div 1000000000)),
                      ht_body = body\<rparr>
                in (Some req,
                    case answer req of
                      HttpTimeout e \<Rightarrow> Inl (TransportFailure e)
                    | HttpFailure e \<Rightarrow> Inl (TransportFailure e)
                    | HttpAnswer status _ \<Rightarrow>
                        (if is_success status then Inr ()
                         else Inl (VenueRejected (''cancel HTTP '' @ le_status V status)))))))"

fun f64_abs :: "f64 \<Rightarrow> f64" where
  "f64_abs (Finite x) = Finite \<bar>x\<bar>"
| "f64_abs NonFinite = NonFinite"

definition live_position :: "decimal_ops \<Rightarrow> json \<Rightarrow> venue_position option" where
  "live_position D v =
     Option.bind (Option.bind (json_get v ''asset'') json_str) (\<lambda>asset.
     Option.bind (ok (token_id_new asset)) (\<lambda>token.
     Option.bind (Option.bind (json_get v ''size'') json_f64) (\<lambda>size.
     Option.bind (ok (qty_from_feed_f64 D (f64_abs size))) (\<lambda>quantity.
       Some \<lparr>vp_token_id = token, vp_quantity = quantity\<rparr>))))"

definition live_positions ::
    "decimal_ops \<Rightarrow> clob_env \<Rightarrow> (string \<Rightarrow> http_answer) \<Rightarrow> live_execution \<Rightarrow> execution_error + venue_position list" where
  "live_positions D V answer L =
     (case lx_funder_address L of
        None \<Rightarrow> Inl (AdapterNotReady ''no funder address configured'')
      | Some addr \<Rightarrow>
          (case answer (''https://data-api.polymarket.com/positions?user='' @ addr) of
             HttpTimeout e \<Rightarrow> Inl (TransportFailure e)
           | HttpFailure e \<Rightarrow> Inl (TransportFailure e)
           | HttpAnswer status text \<Rightarrow>
               (if \<not> is_success status then Inl (TransportFailure (''positions HTTP '' @ le_status V status))
                else Inr (case le_parse_json V text of
                       Some (JArr rows) \<Rightarrow> List.map_filter (live_position D) rows
                     | _ \<Rightarrow> []))))"

definition live_poll_fills :: "execution_error + fill list" where
  "live_poll_fills = Inr []"

subsection \<open>Base64 reads back what it wrote\<close>

lemma chunks_append: "length xs = n \<Longrightarrow> n \<noteq> 0 \<Longrightarrow> chunks n (xs @ ys) = xs # chunks n ys"
  by (subst chunks.simps) auto

lemma chunks_short: "0 < length xs \<Longrightarrow> length xs \<le> n \<Longrightarrow> chunks n xs = [xs]"
  by (subst chunks.simps) (cases "n = 0"; simp add: chunks.simps [of n "[]"])

lemma chunks_Nil [simp]: "chunks n [] = []"
  by (simp add: chunks.simps)

lemma table_val:
  assumes "i < 64"
  shows "base64_val (base64_table ! i) = Some (of_nat i)" "base64_table ! i \<noteq> CHR ''=''"
    "\<not> is_ascii_whitespace (base64_table ! i)"
proof -
  have "list_all (\<lambda>i. base64_val (base64_table ! i) = Some (of_nat i) \<and> base64_table ! i \<noteq> CHR ''='' \<and>
      \<not> is_ascii_whitespace (base64_table ! i)) [0..<64]"
    by (simp add: upt_rec base64_table_def base64_val_def is_ascii_whitespace_def byte_def)
  with assms show "base64_val (base64_table ! i) = Some (of_nat i)" "base64_table ! i \<noteq> CHR ''=''"
    "\<not> is_ascii_whitespace (base64_table ! i)"
    by (simp_all add: list_all_iff)
qed

lemma sextet: "unat (drop_bit k n AND 63 :: 32 word) < 64" "word_of_nat (unat (drop_bit k n AND 63 :: 32 word)) = drop_bit k n AND 63"
proof -
  have "drop_bit k n AND 63 = take_bit 6 (drop_bit k n)" by (simp add: take_bit_eq_mask mask_eq_exp_minus_1)
  then show "unat (drop_bit k n AND 63 :: 32 word) < 64"
    by (simp only: unsigned_take_bit_eq) (simp add: take_bit_eq_mod)
qed simp

text \<open>The 24 bits of a group, cut into four sextets and put together again.\<close>

definition group_word :: "8 word \<Rightarrow> 8 word \<Rightarrow> 8 word \<Rightarrow> 32 word" where
  "group_word a b c = push_bit 16 (ucast a) OR push_bit 8 (ucast b) OR ucast c"

lemma group_word_bytes:
  "ucast (drop_bit 16 (group_word a b c)) = a" "ucast (drop_bit 8 (group_word a b c)) = b"
  "ucast (group_word a b c) = c"
  by (rule bit_word_eqI; auto simp: group_word_def bit_simps dest: bit_imp_le_length)+

lemma and_63: "(w :: 32 word) AND 63 = take_bit 6 w"
  by (simp add: take_bit_eq_mask mask_eq_exp_minus_1)

lemma sextets_join:
  fixes n :: "32 word"
  assumes "n = group_word a b c"
  shows "push_bit 18 (drop_bit 18 n AND 63) OR push_bit 12 (drop_bit 12 n AND 63) OR
     push_bit 6 (drop_bit 6 n AND 63) OR (drop_bit 0 n AND 63) = n"
  unfolding and_63
proof (rule bit_word_eqI)
  fix i assume i: "i < LENGTH(32)"
  have high: "\<not> bit n j" if "24 \<le> j" for j
    using that by (auto simp: assms group_word_def bit_simps dest: bit_imp_le_length)
  consider "i < 6" | "6 \<le> i" "i < 12" | "12 \<le> i" "i < 18" | "18 \<le> i" "i < 24" | "24 \<le> i" by linarith
  then show "bit (push_bit 18 (take_bit 6 (drop_bit 18 n)) OR push_bit 12 (take_bit 6 (drop_bit 12 n)) OR
     push_bit 6 (take_bit 6 (drop_bit 6 n)) OR take_bit 6 (drop_bit 0 n)) i = bit n i"
    by cases (use i high [of i] in \<open>simp_all add: bit_or_iff bit_push_bit_iff bit_take_bit_iff bit_drop_bit_eq less_diff_conv2\<close>)
qed

lemma group_word_low:
  "drop_bit 0 (group_word a b 0) AND 63 = 0" "drop_bit 6 (group_word a 0 0) AND 63 = 0"
  "drop_bit 0 (group_word a 0 0) AND 63 = 0"
  unfolding and_63
  by (rule bit_word_eqI; auto simp: group_word_def bit_or_iff bit_push_bit_iff bit_take_bit_iff bit_drop_bit_eq)+

text \<open>A group with its padding removed decodes to its bytes.\<close>

definition base64_kept :: "char \<Rightarrow> bool" where
  "base64_kept c \<longleftrightarrow> c \<noteq> CHR ''='' \<and> \<not> is_ascii_whitespace c"

lemma group_decodes:
  assumes "0 < length c" and "length c \<le> 3"
  defines "g \<equiv> filter base64_kept (base64_group c)"
  shows "length g = length c + 1"
    and "\<exists>n. base64_word 0 g 0 = Some n \<and>
      take (length g - 1) [ucast (drop_bit 16 n), ucast (drop_bit 8 n), ucast n] = c"
proof -
  define n where "n = group_word (c ! 0) (if 1 < length c then c ! 1 else 0) (if 2 < length c then c ! 2 else 0)"
  define dg where "dg = (\<lambda>k. base64_table ! unat (drop_bit k n AND 63))"
  have dg: "base64_val (dg k) = Some (drop_bit k n AND 63)" "base64_kept (dg k)" for k
    using table_val [OF sextet(1), of k n] sextet(2) [of k n] by (simp_all add: dg_def base64_kept_def)
  have group: "base64_group c = [dg 18, dg 12, if length c > 1 then dg 6 else CHR ''='',
      if length c > 2 then dg 0 else CHR ''='']"
    using assms(1) by (simp add: base64_group_def dg_def n_def group_word_def Let_def)
  have pad: "\<not> base64_kept (CHR ''='')" by (simp add: base64_kept_def)
  note join = sextets_join [OF n_def, unfolded or.assoc]
  consider "length c = 1" | "length c = 2" | "length c = 3" using assms(1,2) by linarith
  then have "length g = length c + 1 \<and> (\<exists>n. base64_word 0 g 0 = Some n \<and>
      take (length g - 1) [ucast (drop_bit 16 n), ucast (drop_bit 8 n), ucast n] = c)"
  proof cases
    case 3
    then have g: "g = [dg 18, dg 12, dg 6, dg 0]" by (simp add: g_def group dg(2))
    have "base64_word 0 g 0 = Some n" using join by (simp add: g dg(1) or.assoc)
    moreover obtain x y z where "c = [x, y, z]" using 3 by (auto simp: length_Suc_conv numeral_3_eq_3)
    ultimately show ?thesis using g by (simp add: n_def group_word_bytes)
  next
    case 2
    then have g: "g = [dg 18, dg 12, dg 6]" by (simp add: g_def group dg(2) pad)
    obtain x y where c: "c = [x, y]" using 2 by (auto simp: length_Suc_conv numeral_2_eq_2)
    then have "n = group_word x y 0" by (simp add: n_def)
    then have "base64_word 0 g 0 = Some n" using join group_word_low(1) [of x y] by (simp add: g dg(1) or.assoc)
    with g c show ?thesis by (simp add: n_def group_word_bytes)
  next
    case 1
    then have g: "g = [dg 18, dg 12]" by (simp add: g_def group dg(2) pad)
    obtain x where c: "c = [x]" using 1 by (auto simp: length_Suc_conv)
    then have "n = group_word x 0 0" by (simp add: n_def)
    then have "base64_word 0 g 0 = Some n" using join group_word_low(2,3) [of x] by (simp add: g dg(1) or.assoc)
    with g c show ?thesis by (simp add: n_def group_word_bytes)
  qed
  then show "length g = length c + 1" "\<exists>n. base64_word 0 g 0 = Some n \<and>
      take (length g - 1) [ucast (drop_bit 16 n), ucast (drop_bit 8 n), ucast n] = c" by blast+
qed

lemma encode_step: "b \<noteq> [] \<Longrightarrow> b64url_encode b = base64_group (take 3 b) @ b64url_encode (drop 3 b)"
  by (simp add: b64url_encode_def chunks.simps [of 3 b])

lemma decode_kept: "b64url_decode s = base64_chunks (chunks 4 (filter base64_kept s))"
proof -
  have "base64_kept = (\<lambda>c. c \<noteq> CHR ''='' \<and> \<not> is_ascii_whitespace c)" by (simp add: fun_eq_iff base64_kept_def)
  then show ?thesis by (simp add: b64url_decode_def)
qed

lemma decode_encode: "b64url_decode (b64url_encode b) = Some b \<and> length (b64url_encode b) = 4 * ((length b + 2) div 3)"
proof (induction b rule: length_induct)
  case (1 b)
  show ?case
  proof (cases "b = []")
    case True
    then show ?thesis by (simp add: decode_kept b64url_encode_def)
  next
    case False
    define g where "g = filter base64_kept (base64_group (take 3 b))"
    define r where "r = filter base64_kept (b64url_encode (drop 3 b))"
    have t: "0 < length (take 3 b)" "length (take 3 b) \<le> 3" using False by simp_all
    obtain n where n: "base64_word 0 g 0 = Some n"
      "take (length g - 1) [ucast (drop_bit 16 n), ucast (drop_bit 8 n), ucast n] = take 3 b"
      using group_decodes(2) [OF t] unfolding g_def by blast
    have len: "length g = length (take 3 b) + 1" unfolding g_def by (rule group_decodes(1) [OF t])
    have rest: "base64_chunks (chunks 4 r) = Some (drop 3 b)" "length (b64url_encode (drop 3 b)) = 4 * ((length b - 3 + 2) div 3)"
      using 1 False by (simp_all add: decode_kept [symmetric] r_def)
    have "chunks 4 (g @ r) = g # chunks 4 r"
    proof (cases "3 \<le> length b")
      case True
      then show ?thesis using len by (intro chunks_append) simp_all
    next
      case False
      then have "r = []" by (simp add: r_def b64url_encode_def)
      then show ?thesis using len False by (simp add: chunks_short)
    qed
    then have "b64url_decode (b64url_encode b) = Some b"
      using n rest(1) by (simp add: decode_kept encode_step [OF False] g_def [symmetric] r_def [symmetric])
    moreover have "length (base64_group (take 3 b)) = 4" by (simp add: base64_group_def Let_def)
    then have "length (b64url_encode b) = 4 + 4 * ((length b - 3 + 2) div 3)"
      using rest(2) by (simp add: encode_step [OF False])
    moreover have "4 + 4 * ((length b - 3 + 2) div 3) = 4 * ((length b + 2) div 3)"
    proof (cases "3 \<le> length b")
      case True
      then obtain k where "length b = k + 3" by (metis le_add_diff_inverse2)
      moreover have "4 + 4 * ((k + 2) div 3) = 4 * ((k + 5) div 3)" by presburger
      ultimately show ?thesis by (simp add: add.commute)
    next
      case F: False
      have "length b \<noteq> 0" using False by simp
      with F have "length b = 1 \<or> length b = 2" by linarith
      then show ?thesis by auto
    qed
    ultimately show ?thesis by simp
  qed
qed

subsection \<open>Live orders\<close>

lemma live_submit_cases:
  obtains (unready) m where "live_submit V answer stamp sent_at L r = (None, Inl (AdapterNotReady m))"
      "readiness_gaps L \<noteq> []"
  | (unsigned) m where "live_submit V answer stamp sent_at L r = (None, Inl (NotAuthenticated m))"
      "readiness_gaps L = []"
  | (posted) signer creds sgd post where "readiness_gaps L = []" "lx_signer L = Some signer" "lx_creds L = Some creds"
      "signer r (rq_tick_size r) = Inr sgd" "post = order_post V L creds sgd (stamp div 1000000000)"
      "live_submit V answer stamp sent_at L r = (Some post, case answer post of
         HttpTimeout _ \<Rightarrow> Inl (AmbiguousOutcome (''timeout after sending order '' @
           le_uuid V (rq_order_id r) @ '': it may exist at the venue''))
       | HttpFailure e \<Rightarrow> Inl (TransportFailure e)
       | HttpAnswer status text \<Rightarrow>
           (if \<not> is_success status then Inl (VenueRejected (''HTTP '' @ le_status V status @ '': '' @ text))
            else Inr \<lparr>ak_order_id = rq_order_id r, ak_venue_order_id = reply_order_id V text,
              ak_accepted_at = sent_at, ak_immediate_fills = [], ak_terminal = False\<rparr>))"
proof (cases "readiness_gaps L")
  case Nil
  then obtain signer creds where s: "lx_signer L = Some signer" "lx_creds L = Some creds"
    by (auto simp: readiness_gaps_def split: if_splits)
  show ?thesis
  proof (cases "signer r (rq_tick_size r)")
    case (Inl e)
    with Nil s unsigned show ?thesis by (simp add: live_submit_def)
  next
    case (Inr sgd)
    show ?thesis
      by (rule posted [OF Nil s Inr refl]) (simp add: live_submit_def Nil s Inr Let_def)
  qed
next
  case (Cons g gs)
  show ?thesis by (rule unready) (simp_all add: live_submit_def Cons Let_def)
qed

text \<open>An acknowledgement of the live venue never carries a fill.\<close>

lemma live_ack_empty: "snd (live_submit V answer stamp sent_at L r) = Inr a \<Longrightarrow>
    ak_immediate_fills a = [] \<and> ak_order_id a = rq_order_id r"
  by (cases rule: live_submit_cases [of V answer stamp sent_at L r])
    (auto split: http_answer.splits if_splits)

text \<open>The live venue keeps the contract of an adapter too.\<close>

interpretation live: execution_adapter "\<lambda>_ :: unit. True"
  "\<lambda>s r. (s, snd (live_submit V answer (stamp r) (sent_at r) L r))"
  "\<lambda>s i v. (s, snd (live_cancel V answer' stamp' L i v))"
  for V answer stamp sent_at L answer' stamp'
  by unfold_locales (auto dest!: live_ack_empty simp: ack_ok_def request_ok_def)

lemma om_submit_no_fills:
  assumes "\<And>v r v' a. submit v r = (v', Inr a) \<Longrightarrow> ak_immediate_fills a = []"
    and "om_submit D uuid submit om s i t1 t2 clock = (om', s', SubAcknowledged j fs)"
  shows "fs = []"
  using assms by (auto simp: om_submit_def submit_begin_def submit_finish_def Let_def
      split: option.splits sum.splits prod.splits if_splits)

text \<open>What trading can change of the portfolio when the venue reports no fills.\<close>

definition same_books :: "portfolio \<Rightarrow> portfolio \<Rightarrow> bool" where
  "same_books p q \<longleftrightarrow> pf_positions p = pf_positions q \<and> pf_cash p = pf_cash q \<and> pf_realized p = pf_realized q \<and>
     pf_fees p = pf_fees q \<and> pf_daily p = pf_daily q"

lemma same_books_attribute: "same_books (attribute_order pf i w) pf"
  by (simp add: same_books_def attribute_order_def)

lemma execute_order_no_fills:
  fixes A :: "'s app_state"
  assumes "\<And>books v r v' a. pe_submit E books v r = (v', Inr a) \<Longrightarrow> ak_immediate_fills a = []"
  shows "same_books (ap_portfolio (execute_order D E ci books t s order A)) (ap_portfolio A)"
  using om_submit_no_fills [of "pe_submit E books"] assms
  by (auto simp: execute_order_def Let_def settle_outcome_fields same_books_attribute
      split: prod.split sum.split submit_outcome.split)
    (metis foldl_Nil same_books_attribute)+

lemma same_desk_books: "same_desk A B \<Longrightarrow> same_books (ap_portfolio A) (ap_portfolio B)"
  by (simp add: same_desk_def same_books_def)

lemma same_books_trans: "same_books a b \<Longrightarrow> same_books b c \<Longrightarrow> same_books a c"
  by (simp add: same_books_def)

lemma on_source_trade_no_fills:
  fixes P :: "'s pipeline"
  assumes "\<And>books v r v' a. pe_submit E books v r = (v', Inr a) \<Longrightarrow> ak_immediate_fills a = []"
  shows "same_books (ap_portfolio (pl_state (on_source_trade D E ci P t))) (ap_portfolio (pl_state P))"
proof (cases rule: on_source_trade_cases [of P t D E ci])
  case untracked
  then show ?thesis using same_desk_books [OF note_trade_desk(1)] by metis
next
  case (tracked w books book)
  let ?N = "note_trade D t (pl_state P)"
  have "same_books (ap_portfolio (decide D E ci (pl_trader P) books t w book ?N)) (ap_portfolio ?N)"
  proof (cases rule: decide_cases [of D E ci "pl_trader P" books t w book ?N])
    case skipped
    then show ?thesis using same_desk_books [OF skip_trade_desk(1)] by metis
  next
    case (refused s tick r)
    then show ?thesis
      using same_books_trans [OF same_desk_books [OF refuse_order_desk(1)] same_desk_books [OF note_signal_desk(1)]]
      by metis
  next
    case (placed s tick)
    show ?thesis unfolding placed(3)
      by (rule same_books_trans [OF execute_order_no_fills same_desk_books [OF note_signal_desk(1)]]) (rule assms)
  qed
  then show ?thesis
    using same_books_trans [OF _ same_desk_books [OF note_trade_desk(1)]] tracked(2) by metis
qed

lemma same_books_exposure:
  "same_books p q \<Longrightarrow> gross_exposure D p = gross_exposure D q \<and> token_exposure D p k = token_exposure D q k \<and>
     market_exposure D p m = market_exposure D q m \<and> daily_pnl ordinal p now = daily_pnl ordinal q now"
  by (simp add: same_books_def gross_exposure_def token_exposure_def market_exposure_def position_values_def
      daily_pnl_def)

text \<open>A call never changes the mode.\<close>

lemma persist_latency_mode [simp]: "ap_mode (persist_latency c l A) = ap_mode A"
  using persist_latency_desk(1) [of c l A] by (simp add: same_desk_def)

lemma book_fills_mode: "ap_mode (foldl (book_fill D E ci oc) A fs) = ap_mode A"
  by (induction fs arbitrary: A) (simp_all add: book_fill_def)

lemma settle_outcome_mode [simp]: "ap_mode (settle_outcome D E ci s out A) = ap_mode A"
  by (simp add: settle_outcome_def settle_acknowledged_def persist_order_row_def note_order_def book_fills_mode Let_def
      split: submit_outcome.split option.split)

lemma on_source_trade_mode: "ap_mode (pl_state (on_source_trade D E ci P t)) = ap_mode (pl_state P)"
proof (cases rule: on_source_trade_cases [of P t D E ci])
  case untracked
  then show ?thesis by (simp add: note_simps)
next
  case (tracked w books book)
  let ?N = "note_trade D t (pl_state P)"
  have "ap_mode (decide D E ci (pl_trader P) books t w book ?N) = ap_mode ?N"
  proof (cases rule: decide_cases [of D E ci "pl_trader P" books t w book ?N])
    case skipped
    then show ?thesis using skip_trade_desk(1) [of ci t ?N] by (simp add: same_desk_def)
  next
    case (refused s tick r)
    then show ?thesis
      using refuse_order_desk(1) [of E ci s r "note_signal D E ci t w s ?N"] note_signal_desk(1) [of D E ci t w s ?N]
      by (simp add: same_desk_def)
  next
    case (placed s tick)
    then show ?thesis by (simp add: execute_order_def note_simps Let_def split: prod.split sum.split)
  qed
  with tracked show ?thesis by (simp add: note_simps)
qed

subsection \<open>Properties\<close>

text \<open>Base64 loses nothing. Every byte string is read back from its encoding, padded or not, and the
  encoding is padded to whole groups of four.\<close>

theorem base64_roundtrip:
  "b64url_decode (b64url_encode b) = Some b \<and> length (b64url_encode b) = 4 * ((length b + 2) div 3) \<and>
   b64url_decode (filter (\<lambda>c. c \<noteq> CHR ''='') (b64url_encode b)) = Some b"
proof -
  have "filter base64_kept (filter (\<lambda>c. c \<noteq> CHR ''='') s) = filter base64_kept s" for s
    by (induction s) (simp_all add: base64_kept_def)
  with decode_encode [of b] show ?thesis by (simp add: decode_kept)
qed


text \<open>Live fills are never booked. An acknowledgement of the live venue carries no fills and nothing
  else in the program asks the venue for them, so however many trades the pipeline copies live, the
  positions, the cash, the profit and the loss of the day stay what they were, and every exposure that
  the risk limits are checked against stays the one from before the first copy.\<close>

theorem live_fills_are_never_booked:
  fixes P :: "unit pipeline"
  assumes "pe_submit E = (\<lambda>_ v r. (v, snd (live_submit V answer (stamp r) (sent_at r) L r)))"
    and "P' = foldl (\<lambda>P (ci, t). on_source_trade D E ci P t) P calls"
  shows "pf_positions (ap_portfolio (pl_state P')) = pf_positions (ap_portfolio (pl_state P)) \<and>
    pf_cash (ap_portfolio (pl_state P')) = pf_cash (ap_portfolio (pl_state P)) \<and>
    gross_exposure D (ap_portfolio (pl_state P')) = gross_exposure D (ap_portfolio (pl_state P)) \<and>
    token_exposure D (ap_portfolio (pl_state P')) k = token_exposure D (ap_portfolio (pl_state P)) k \<and>
    market_exposure D (ap_portfolio (pl_state P')) m = market_exposure D (ap_portfolio (pl_state P)) m \<and>
    daily_pnl ordinal (ap_portfolio (pl_state P')) now = daily_pnl ordinal (ap_portfolio (pl_state P)) now"
proof -
  have none: "ak_immediate_fills a = []" if "pe_submit E books v r = (v', Inr a)" for books v r v' a
    using that assms(1) live_ack_empty [of V answer "stamp r" "sent_at r" L r a] by simp
  have step: "same_books (ap_portfolio (pl_state (on_source_trade D E ci Q t))) (ap_portfolio (pl_state Q))" for ci Q t
    by (rule on_source_trade_no_fills) (rule none)
  have "same_books (ap_portfolio (pl_state (foldl (\<lambda>P (ci, t). on_source_trade D E ci P t) P calls)))
      (ap_portfolio (pl_state P))"
  proof (induction calls rule: rev_induct)
    case (snoc c cs)
    obtain ci t where c: "c = (ci, t)" by force
    from same_books_trans [OF step snoc] show ?case by (simp add: c)
  qed (simp add: same_books_def)
  with same_books_exposure [OF this, of D k m ordinal now] show ?thesis by (simp add: assms(2) same_books_def)
qed

text \<open>An adapter with everything it asks for, and a venue that accepts every order.\<close>

definition ready_live :: live_execution where
  "ready_live = with_funder ''0xf'' (with_signer (\<lambda>r tick. Inr \<lparr>so_body = JNull, so_signed_address = ''0xs''\<rparr>)
     (with_credentials \<lparr>l2_api_key = ''k'', l2_secret = ''c2VjcmV0'', l2_passphrase = ''p''\<rparr>
       (live_execution_new ''https://clob'' True)))"

definition plain_env :: clob_env where
  "plain_env = \<lparr>le_sha = (\<lambda>m. take 32 m), le_value_ok = (\<lambda>_. True), le_show_json = (\<lambda>_. ''{}''),
     le_parse_json = (\<lambda>_. None), le_status = nat_text, le_uuid = nat_text\<rparr>"

definition live_pipe_env :: "unit pipe_env" where
  "live_pipe_env = closed_env\<lparr>pe_submit :=
     (\<lambda>_ v r. (v, snd (live_submit plain_env (\<lambda>_. HttpAnswer 200 ''{}'') 9 9 ready_live r)))\<rparr>"

theorem live_fills_are_never_booked_witness:
  "(\<exists>a. snd (live_submit plain_env (\<lambda>_. HttpAnswer 200 ''{}'') 9 9 ready_live (buy_request 100)) = Inr a) \<and>
   (let P' = foldl (\<lambda>P (ci, t). on_source_trade exact_decimal live_pipe_env ci P t) sample_pipe
      [(sample_call, sample_source), (sample_call, copied_trade)]
    in pf_cash (ap_portfolio (pl_state P')) = 10000 \<and> pf_positions (ap_portfolio (pl_state P')) = [])"
proof -
  have "readiness_gaps ready_live = []"
    by (simp add: readiness_gaps_def ready_live_def with_funder_def with_signer_def with_credentials_def
        live_execution_new_def)
  moreover have "lx_signer ready_live = Some (\<lambda>r tick. Inr \<lparr>so_body = JNull, so_signed_address = ''0xs''\<rparr>)"
    "lx_creds ready_live = Some \<lparr>l2_api_key = ''k'', l2_secret = ''c2VjcmV0'', l2_passphrase = ''p''\<rparr>"
    by (simp_all add: ready_live_def with_funder_def with_signer_def with_credentials_def)
  ultimately have "\<exists>a. snd (live_submit plain_env (\<lambda>_. HttpAnswer 200 ''{}'') 9 9 ready_live (buy_request 100)) = Inr a"
    by (simp add: live_submit_def is_success_def Let_def)
  moreover have "pe_submit live_pipe_env =
      (\<lambda>_ v r. (v, snd (live_submit plain_env (\<lambda>_. HttpAnswer 200 ''{}'') ((\<lambda>_. 9) r) ((\<lambda>_. 9) r) ready_live r)))"
    by (simp add: live_pipe_env_def)
  from live_fills_are_never_booked [OF this refl]
  have "pf_positions (ap_portfolio (pl_state (foldl (\<lambda>P (ci, t). on_source_trade exact_decimal live_pipe_env ci P t) sample_pipe
      [(sample_call, sample_source), (sample_call, copied_trade)]))) = pf_positions (ap_portfolio (pl_state sample_pipe))"
    "pf_cash (ap_portfolio (pl_state (foldl (\<lambda>P (ci, t). on_source_trade exact_decimal live_pipe_env ci P t) sample_pipe
      [(sample_call, sample_source), (sample_call, copied_trade)]))) = pf_cash (ap_portfolio (pl_state sample_pipe))"
    by blast+
  ultimately show ?thesis
    unfolding Let_def by (simp only:) (simp add: sample_pipe_def pipeline_new_def sample_portfolio)
qed

text \<open>The venue's map of distinct tokens has every entry.\<close>

lemma venue_map_get:
  assumes "distinct (map vp_token_id venue)" and "p \<in> set venue"
  shows "(vp_token_id p, vp_quantity p) \<in> set (venue_map venue)"
proof -
  have "get (foldl (\<lambda>m p. AList.update (vp_token_id p) (vp_quantity p) m) m0 venue) (vp_token_id p) = Some (vp_quantity p)" for m0
    using assms
  proof (induction venue arbitrary: m0)
    case (Cons x xs)
    have keep: "get (foldl (\<lambda>m p. AList.update (vp_token_id p) (vp_quantity p) m) m xs) k = get m k"
      if "k \<notin> vp_token_id ` set xs" for m k
      using that by (induction xs arbitrary: m) (auto simp: get_update)
    show ?case
    proof (cases "p = x")
      case True
      with Cons.prems keep [of "vp_token_id p"] show ?thesis by (simp add: get_update)
    next
      case False
      with Cons show ?thesis by simp
    qed
  qed simp
  from get_in [OF this [of "[]"]] show ?thesis by (simp add: venue_map_def case_prod_beta)
qed

text \<open>C9: A live desk halts itself. It starts with no positions, copies any number of trades, and the first
  reconciliation that finds a filled copy at the venue engages the kill switch, because the position
  is unknown to the portfolio that was never told of it.\<close>

theorem live_desk_halts_itself:
  fixes P :: "unit pipeline"
  assumes "pe_submit E = (\<lambda>_ v r. (v, snd (live_submit V answer (stamp r) (sent_at r) L r)))"
    and "pf_positions (ap_portfolio (pl_state P)) = []"
    and "A = pl_state (foldl (\<lambda>P (ci, t). on_source_trade D E ci P t) P calls)" and "ap_mode A = LiveMode"
    and "distinct (map vp_token_id venue)" and "list_ex (\<lambda>p. 1 / 1000000 < vp_quantity p) venue"
  shows "ks_engaged (ap_kill_switch (reconciliation_tick D cancel clock (Inr venue) now A))"
proof -
  have none: "ak_immediate_fills a = []" if "pe_submit E books v r = (v', Inr a)" for books v r v' a
    using that assms(1) live_ack_empty [of V answer "stamp r" "sent_at r" L r a] by simp
  have "pf_positions (ap_portfolio (pl_state (foldl (\<lambda>P (ci, t). on_source_trade D E ci P t) P calls))) = []"
  proof (induction calls rule: rev_induct)
    case (snoc c cs)
    obtain ci t where c: "c = (ci, t)" by force
    have "same_books (ap_portfolio (pl_state (on_source_trade D E ci Q t))) (ap_portfolio (pl_state Q))" for Q
      by (rule on_source_trade_no_fills) (rule none)
    with snoc show ?case by (simp add: c same_books_def)
  qed (simp add: assms(2))
  then have empty: "exposure_map (ap_portfolio A) = []" by (simp add: assms(3) exposure_map_def)
  define r where "r = reconcile D (exposure_map (ap_portfolio A)) venue (1/1000000) now"
  obtain p where p: "p \<in> set venue" "1 / 1000000 < vp_quantity p" using assms(6) by (auto simp: list_ex_iff)
  have "vp_token_id p \<in> set (rr_unexpected_venue_positions r)"
    using venue_map_get [OF assms(5) p(1)] p(2) by (force simp: r_def reconcile_def empty Let_def)
  then have halt: "\<not> is_clean r" "warrants_halt r 1" by (auto simp: is_clean_def warrants_halt_def)
  define A2 where "A2 = foldl (\<lambda>B m. bus_send (ReconciliationMismatch (mm_token_id m) (absolute_qty (mm_internal m))
      (absolute_qty (mm_venue m)) now) B)
    (metric (\<lambda>M. M\<lparr>mt_reconciliation_mismatches_total :=
       counter_add (mt_reconciliation_mismatches_total M) (length (rr_mismatches r))\<rparr>) A) (rr_mismatches r)"
  have "ap_mode (foldl (\<lambda>B m. bus_send (f m) B) B ms) = ap_mode B" for f and B :: "unit app_state" and ms :: "mismatch list"
    by (induction ms arbitrary: B) simp_all
  then have mode: "ap_mode A2 = LiveMode" by (simp add: A2_def assms(4))
  show ?thesis
    unfolding reconciliation_tick_def sum.case Let_def r_def [symmetric] A2_def [symmetric]
    using halt mode by (simp add: engage_def split: prod.split)
qed

definition live_pipe :: "unit pipeline" where
  "live_pipe = sample_pipe\<lparr>pl_state := (sample_state ())\<lparr>ap_mode := LiveMode\<rparr>\<rparr>"

theorem live_desk_halts_itself_witness:
  "\<not> ks_engaged (ap_kill_switch (pl_state live_pipe)) \<and>
   ks_engaged (ap_kill_switch (reconciliation_tick exact_decimal (\<lambda>v i r. (v, Inr ())) (\<lambda>_. (0, 0))
     (Inr [\<lparr>vp_token_id = TokenId ''7'', vp_quantity = 5\<rparr>]) 3
     (pl_state (foldl (\<lambda>P (ci, t). on_source_trade exact_decimal live_pipe_env ci P t) live_pipe [(sample_call, sample_source)]))))"
proof -
  have E: "pe_submit live_pipe_env =
      (\<lambda>_ v r. (v, snd (live_submit plain_env (\<lambda>_. HttpAnswer 200 ''{}'') ((\<lambda>_. 9) r) ((\<lambda>_. 9) r) ready_live r)))"
    by (simp add: live_pipe_env_def)
  have "pf_positions (ap_portfolio (pl_state live_pipe)) = []" "\<not> ks_engaged (ap_kill_switch (pl_state live_pipe))"
    "ap_mode (pl_state live_pipe) = LiveMode"
    by (simp_all add: live_pipe_def sample_portfolio) (simp add: sample_state_def kill_switch_new_def)
  note live = this
  have mode: "ap_mode (pl_state (on_source_trade exact_decimal live_pipe_env sample_call live_pipe sample_source)) = LiveMode"
    using on_source_trade_mode [of exact_decimal live_pipe_env sample_call live_pipe sample_source] live(3) by simp
  from live_desk_halts_itself [OF E live(1) refl, of exact_decimal "[(sample_call, sample_source)]"
      "[\<lparr>vp_token_id = TokenId ''7'', vp_quantity = 5\<rparr>]" "\<lambda>v i r. (v, Inr ())" "\<lambda>_. (0, 0)" 3] mode live(2)
  show ?thesis by simp
qed

end
