(* ===== verification/Replay.thy ===== *)
theory Replay
  imports Recovery
begin

section \<open>Replay of a recorded session (crates/app/src/replay.rs, tasks.rs run_replay)\<close>

text \<open>
  A session of recorded events becomes trades and drives the same pipeline. Reading the file and its
  JSON are parameters; the correlation ids, the clock and the inputs of each pipeline call are
  arguments, and the switch that stops the loop is read before every trade.
\<close>

subsection \<open>The recording\<close>

record replay_event =
  re_trader :: string
  re_market_id :: string
  re_token_id :: string
  re_outcome :: string
  re_side :: string
  re_price :: f64
  re_size :: f64
  re_tx_hash :: string
  re_source_ts_ms :: int
  re_title :: string
  re_slug :: string

record replay_session =
  rs_name :: string
  rs_events :: "replay_event list"

datatype replay_error = ReplayIo string string | ReplayParse string | ReplayEmpty

definition replay_load ::
    "(string \<Rightarrow> string + string) \<Rightarrow> (string \<Rightarrow> string + replay_session) \<Rightarrow> string \<Rightarrow> replay_error + replay_session" where
  "replay_load read decode path =
     and_then (map_err (ReplayIo path) (read path)) (\<lambda>raw.
     and_then (map_err ReplayParse (decode raw)) (\<lambda>s.
       if rs_events s = [] then Inl ReplayEmpty else Inr s))"

definition replay_side :: "string \<Rightarrow> side option" where
  "replay_side s =
     (let u = to_ascii_uppercase s in if u = ''BUY'' then Some Buy else if u = ''SELL'' then Some Sell else None)"

definition milliseconds :: "int \<Rightarrow> int" where
  "milliseconds n = n * 1000000"

definition replay_event_id :: "nat \<Rightarrow> replay_event \<Rightarrow> source_event_id" where
  "replay_event_id i e = from_digest (''replay-'' @ zero_padded 8 i @ ''-'' @ re_tx_hash e)"

definition replay_trade ::
    "decimal_ops \<Rightarrow> (nat \<Rightarrow> correlation_id) \<Rightarrow> timestamp \<Rightarrow> int \<Rightarrow> nat \<times> replay_event \<Rightarrow> source_trade option" where
  "replay_trade D corr now base x =
     (let (i, e) = x; source_ts = now + milliseconds (re_source_ts_ms e - base)
      in Option.bind (ok (address_new (re_trader e))) (\<lambda>trader.
         Option.bind (ok (market_id_new (re_market_id e))) (\<lambda>market.
         Option.bind (ok (token_id_new (re_token_id e))) (\<lambda>token.
         Option.bind (replay_side (re_side e)) (\<lambda>sd.
         Option.bind (ok (price_from_feed_f64 D (re_price e))) (\<lambda>px.
         Option.bind (ok (qty_from_feed_f64 D (re_size e))) (\<lambda>quant.
         Option.bind (ok (tx_hash_new (re_tx_hash e))) (\<lambda>tx.
           Some \<lparr>so_event_id = replay_event_id i e, so_correlation_id = corr i, so_trader = trader,
             so_market_id = market, so_token_id = token, so_outcome = re_outcome e, so_side = sd,
             so_price = px, so_quantity = quant, so_tx_hash = tx, so_occurrence = 0,
             so_source_ts = source_ts, so_detected_ts = source_ts + milliseconds 400,
             so_source = ReplaySource, so_market_title = re_title e, so_market_slug = re_slug e\<rparr>))))))))"

definition replay_base :: "replay_event list \<Rightarrow> int" where
  "replay_base es = (if es = [] then 0 else Min (set (map re_source_ts_ms es)))"

definition to_source_trades ::
    "decimal_ops \<Rightarrow> (nat \<Rightarrow> correlation_id) \<Rightarrow> timestamp \<Rightarrow> replay_session \<Rightarrow> source_trade list" where
  "to_source_trades D corr now s =
     List.map_filter (replay_trade D corr now (replay_base (rs_events s))) (List.enumerate 0 (rs_events s))"

subsection \<open>The run\<close>

definition replay_wallet :: "address \<Rightarrow> target_wallet" where
  "replay_wallet a =
     (target_wallet_new a (''replay-'' @ take 8 (address_str a)))\<lparr>tw_min_source_notional_usd := 0\<rparr>"

definition register_trader :: "wallet_tracker \<Rightarrow> source_trade \<Rightarrow> wallet_tracker" where
  "register_trader T t =
     (case get_wallet T (so_trader t) of Some _ \<Rightarrow> T | None \<Rightarrow> upsert_wallet T (replay_wallet (so_trader t)))"

definition replay_tick :: rat where
  "replay_tick = 1/1000"

text \<open>A book of one level a side, a tick around the price.\<close>

definition replay_book :: "decimal_ops \<Rightarrow> timestamp \<Rightarrow> source_trade \<Rightarrow> order_book option" where
  "replay_book D now t =
     (case (price_new (max (d_sub D (so_price t) replay_tick) (1/1000)),
            price_new (min (d_add D (so_price t) replay_tick) (999/1000))) of
        (Inr bid, Inr ask) \<Rightarrow>
          Some \<lparr>bk_market = so_market_id t, bk_token = so_token_id t,
            bk_bids = [\<lparr>lv_price = bid, lv_size = 100000\<rparr>], bk_asks = [\<lparr>lv_price = ask, lv_size = 100000\<rparr>],
            bk_tick_size = replay_tick, bk_min_order_size = 5, bk_timestamp = now, bk_seq = 0\<rparr>
      | _ \<Rightarrow> None)"

definition put_replay_book :: "decimal_ops \<Rightarrow> timestamp \<Rightarrow> 's pipeline \<Rightarrow> source_trade \<Rightarrow> 's pipeline" where
  "put_replay_book D now P t = (case replay_book D now t of Some b \<Rightarrow> put_book b P | None \<Rightarrow> P)"

definition REPLAY_PUBLISH_DELAY_MS :: int where
  "REPLAY_PUBLISH_DELAY_MS = 400"

definition restamp :: "timestamp \<Rightarrow> source_trade \<Rightarrow> source_trade" where
  "restamp now t = t\<lparr>so_source_ts := now - milliseconds REPLAY_PUBLISH_DELAY_MS, so_detected_ts := now\<rparr>"

text \<open>One input per trade: whether the shutdown is on before it, the clock, what the call takes, and
  whether the shutdown comes in the pause after it.\<close>

fun replay_loop ::
    "decimal_ops \<Rightarrow> 's pipe_env \<Rightarrow> (bool \<times> timestamp \<times> call_inputs \<times> bool) list \<Rightarrow> 's pipeline \<Rightarrow>
     source_trade list \<Rightarrow> 's pipeline \<times> bool" where
  "replay_loop D E ins P [] = (P, True)"
| "replay_loop D E [] P (t # ts) = (P, False)"
| "replay_loop D E ((stop, now, ci, halt) # ins) P (t # ts) =
     (if stop then (P, False)
      else let P1 = on_source_trade D E ci P (restamp now t)
           in if halt then (P1, False) else replay_loop D E ins P1 ts)"

definition prepare_replay :: "decimal_ops \<Rightarrow> (source_trade \<Rightarrow> timestamp) \<Rightarrow> source_trade list \<Rightarrow> 's pipeline \<Rightarrow> 's pipeline" where
  "prepare_replay D book_at ts P =
     foldl (\<lambda>P t. put_replay_book D (book_at t) P t) (on_state (\<lambda>A. A\<lparr>ap_tracker := foldl register_trader (ap_tracker A) ts\<rparr>) P) ts"

definition run_replay ::
    "decimal_ops \<Rightarrow> 's pipe_env \<Rightarrow> (nat \<Rightarrow> correlation_id) \<Rightarrow> replay_error + replay_session \<Rightarrow> timestamp \<Rightarrow> (source_trade \<Rightarrow> timestamp) \<Rightarrow> timestamp \<Rightarrow>
     (bool \<times> timestamp \<times> call_inputs \<times> bool) list \<Rightarrow> 's pipeline \<Rightarrow> 's pipeline" where
  "run_replay D E corr loaded now book_at done_at ins P =
     (case loaded of
        Inl _ \<Rightarrow> P
      | Inr session \<Rightarrow>
          (let ts = to_source_trades D corr now session;
               (P1, done) = replay_loop D E ins (prepare_replay D book_at ts P) ts
           in if done then on_state (set_health ''source_feed'' Healthy ''replay finished'' done_at) P1 else P1))"

subsection \<open>What a replay leaves alone\<close>

lemma book_fills_tracker: "ap_tracker (foldl (book_fill D E ci oc) A fs) = ap_tracker A"
  by (induction fs arbitrary: A) (simp_all add: book_fill_def)

lemma settled_tracker: "ap_tracker (settle_outcome D E ci s out A) = ap_tracker A"
  by (simp add: settle_outcome_def settle_acknowledged_def persist_order_row_def book_fills_tracker Let_def
      note_order_desk [unfolded same_desk_def] split: submit_outcome.split option.split)

lemma trade_tracker: "ap_tracker (pl_state (on_source_trade D E ci P t)) = ap_tracker (pl_state P)"
proof (cases rule: on_source_trade_cases [of P t D E ci])
  case (tracked w books book)
  let ?N = "note_trade D t (pl_state P)"
  have "ap_tracker (decide D E ci (pl_trader P) books t w book ?N) = ap_tracker ?N"
  proof (cases rule: decide_cases [of D E ci "pl_trader P" books t w book ?N])
    case (refused s tick r)
    then show ?thesis
      using refuse_order_desk(1) [of E ci s r "note_signal D E ci t w s ?N"]
      by (simp add: same_desk_def note_simps)
  next
    case (placed s tick)
    then show ?thesis by (simp add: execute_order_def settled_tracker note_simps Let_def split: prod.split sum.split)
  qed (simp add: skip_trade_desk [unfolded same_desk_def])
  with tracked show ?thesis by (simp add: note_simps)
qed (simp add: note_simps)

text \<open>The wallets of the database.\<close>

definition wallet_rows :: "store \<Rightarrow> (address, target_wallet) hashmap option" where
  "wallet_rows = map_option db_wallets"

lemma wallet_rows_book_rows: "book_rows S = book_rows S' \<Longrightarrow> wallet_rows S = wallet_rows S'"
  by (cases S; cases S') (auto simp: book_rows_def wallet_rows_def)

lemma trade_wallet_rows:
  "wallet_rows (ap_store (pl_state (on_source_trade D E ci P t))) = wallet_rows (ap_store (pl_state P))"
proof -
  have "wallet_rows (fst (insert_pnl_snapshot snap S)) = wallet_rows S" for snap S
    by (cases S) (auto simp: insert_pnl_snapshot_def exec_def wallet_rows_def split: option.split)
  with book_rows_trade [OF refl refl, of D E ci P t] wallet_rows_book_rows show ?thesis by metis
qed

lemma replay_loop_keeps:
  "ap_tracker (pl_state (fst (replay_loop D E ins P ts))) = ap_tracker (pl_state P) \<and>
   wallet_rows (ap_store (pl_state (fst (replay_loop D E ins P ts)))) = wallet_rows (ap_store (pl_state P))"
  by (induction D E ins P ts rule: replay_loop.induct) (simp_all add: trade_tracker trade_wallet_rows Let_def)

lemma put_books_state: "pl_state (foldl (\<lambda>P t. put_replay_book D (book_at t) P t) P ts) = pl_state P"
  by (induction ts arbitrary: P) (simp_all add: put_replay_book_def put_book_def split: option.split)

lemma register_dedup: "tk_dedup (foldl register_trader T ts) = tk_dedup T"
  by (induction ts arbitrary: T) (simp_all add: register_trader_def upsert_wallet_def split: option.split)

lemma register_get:
  "get_wallet (foldl register_trader T ts) a =
     (case get_wallet T a of Some w \<Rightarrow> Some w
      | None \<Rightarrow> if a \<in> set (map so_trader ts) then Some (replay_wallet a) else None)"
proof (induction ts arbitrary: T)
  case (Cons t ts)
  have "get_wallet (register_trader T t) a =
      (case get_wallet T a of Some w \<Rightarrow> Some w | None \<Rightarrow> if a = so_trader t then Some (replay_wallet a) else None)"
    by (auto simp: register_trader_def get_wallet_def upsert_wallet_def get_update replay_wallet_def target_wallet_new_def
        split: option.split)
  with Cons show ?case by (auto split: option.split)
qed (simp split: option.split)

lemma replay_loop_done:
  "list_all (\<lambda>(stop, now, ci, halt). \<not> stop \<and> \<not> halt) ins \<Longrightarrow> length ts \<le> length ins \<Longrightarrow>
   replay_loop D E ins P ts =
     (foldl (\<lambda>P ((stop, now, ci, halt), t). on_source_trade D E ci P (restamp now t)) P (zip ins ts), True)"
  by (induction D E ins P ts rule: replay_loop.induct) (simp_all add: Let_def)

lemma find_snoc: "find Q (xs @ [c]) = (case find Q xs of Some y \<Rightarrow> Some y | None \<Rightarrow> if Q c then Some c else None)"
  by (induction xs) simp_all

lemma find_update_first:
  "(\<And>c. Q (g c) = Q c) \<Longrightarrow> find Q (update_first Q g xs) = map_option g (find Q xs)"
  by (induction xs) simp_all

lemma health_get_set:
  "\<exists>c. health_get (health_set H name st detail now) name = Some c \<and> co_name c = name \<and> co_state c = st \<and> co_detail c = detail"
proof (cases "health_get H name")
  case None
  then have "find (\<lambda>c. co_name c = name) (hm_components H @ [c]) = (if co_name c = name then Some c else None)" for c
    by (simp add: health_get_def find_snoc)
  with None show ?thesis by (simp add: health_set_def health_get_def)
next
  case (Some c)
  have "co_name (set_component st detail now c) = co_name c" for c by (simp add: set_component_def)
  with Some have "find (\<lambda>c. co_name c = name) (update_first (\<lambda>c. co_name c = name) (set_component st detail now) (hm_components H)) =
      Some (set_component st detail now c)"
    by (simp add: find_update_first health_get_def)
  moreover have "co_name c = name" using Some by (auto simp: health_get_def find_Some_iff)
  moreover have "hm_components (health_set H name st detail now) =
      update_first (\<lambda>c. co_name c = name) (set_component st detail now) (hm_components H)"
    using Some by (simp add: health_set_def)
  ultimately show ?thesis by (simp add: health_get_def set_component_def)
qed

subsection \<open>The trades of a session\<close>

lemma replay_trade_Some:
  assumes "replay_trade D corr now base (i, e) = Some t"
  shows "so_event_id t = replay_event_id i e \<and> so_source_ts t = now + 1000000 * (re_source_ts_ms e - base) \<and>
    so_detected_ts t = so_source_ts t + 400000000 \<and> valid_price (so_price t) \<and> valid_qty (so_quantity t) \<and>
    so_source t = ReplaySource"
  using assms price_from_feed_valid qty_from_feed_valid
  by (auto simp: replay_trade_def bind_eq_Some_conv milliseconds_def Let_def)

lemma zero_padded_digits: "list_all is_ascii_digit (zero_padded w n)" "digits_value (zero_padded w n) = n"
proof -
  have zero: "digits_value (replicate k (CHR ''0'') @ s) = digits_value s" for k s
    by (induction k) (simp_all add: digits_value_def byte_def)
  show "digits_value (zero_padded w n) = n" by (simp add: zero_padded_def zero digits_value_nat_text)
  show "list_all is_ascii_digit (zero_padded w n)"
    using nat_text_digits [of n] by (auto simp: zero_padded_def list_all_iff is_ascii_digit_def byte_def)
qed

lemma replay_event_id_inject: "replay_event_id i e = replay_event_id j e' \<Longrightarrow> i = j"
proof -
  assume "replay_event_id i e = replay_event_id j e'"
  then have "zero_padded 8 i @ ''-'' @ re_tx_hash e = zero_padded 8 j @ ''-'' @ re_tx_hash e'"
    by (simp add: replay_event_id_def from_digest_def)
  moreover have "takeWhile is_ascii_digit (zero_padded 8 n @ ''-'' @ x) = zero_padded 8 n" for n x
    using zero_padded_digits(1) [of 8 n] by (simp add: takeWhile_append2 list_all_iff is_ascii_digit_def byte_def)
  ultimately have "zero_padded 8 i = zero_padded 8 j" by metis
  then show "i = j" using zero_padded_digits(2) by metis
qed

lemma replay_base_least: "e \<in> set es \<Longrightarrow> replay_base es \<le> re_source_ts_ms e"
  by (auto simp: replay_base_def)



text \<open>A replay touches the wallets in memory only, and no duplicate is caught. Whatever session is
  replayed, stopped early or not, every wallet that was tracked keeps its settings, every other trader
  of the session is tracked with the default limits and no minimum, the wallets in the database stay as
  they were, and so does the dedup index: the loop never asks it, so an event that the file repeats is
  offered to the pipeline again.\<close>

theorem replay_registers_in_memory_only:
  "let ts = to_source_trades D corr now session;
       A = pl_state P; A' = pl_state (run_replay D E corr (Inr session) now book_at done_at ins P)
   in get_wallet (ap_tracker A') a =
        (case get_wallet (ap_tracker A) a of Some w \<Rightarrow> Some w
         | None \<Rightarrow> if a \<in> set (map so_trader ts)
             then Some ((target_wallet_new a (''replay-'' @ take 8 (address_str a)))\<lparr>tw_min_source_notional_usd := 0\<rparr>)
             else None) \<and>
      map_option db_wallets (ap_store A') = map_option db_wallets (ap_store A) \<and>
      tk_dedup (ap_tracker A') = tk_dedup (ap_tracker A)"
proof -
  define ts where "ts = to_source_trades D corr now session"
  have prep: "ap_tracker (pl_state (prepare_replay D book_at ts P)) = foldl register_trader (ap_tracker (pl_state P)) ts"
    "ap_store (pl_state (prepare_replay D book_at ts P)) = ap_store (pl_state P)"
    by (simp_all add: prepare_replay_def put_books_state on_state_def)
  obtain Q fin where l: "replay_loop D E ins (prepare_replay D book_at ts P) ts = (Q, fin)" by force
  have Q: "ap_tracker (pl_state Q) = foldl register_trader (ap_tracker (pl_state P)) ts"
    "wallet_rows (ap_store (pl_state Q)) = wallet_rows (ap_store (pl_state P))"
    using replay_loop_keeps [of D E ins "prepare_replay D book_at ts P" ts] by (simp_all add: l prep)
  have "ap_tracker (pl_state (run_replay D E corr (Inr session) now book_at done_at ins P)) = ap_tracker (pl_state Q)"
    "ap_store (pl_state (run_replay D E corr (Inr session) now book_at done_at ins P)) = ap_store (pl_state Q)"
    by (simp_all add: run_replay_def ts_def [symmetric] l on_state_def set_health_def Let_def)
  with Q show ?thesis
    by (simp add: Let_def ts_def [symmetric] register_get register_dedup wallet_rows_def replay_wallet_def
        split: option.split)
qed

text \<open>A session of one event.\<close>

definition one_event_session :: replay_session where
  "one_event_session = \<lparr>rs_name = [], rs_events = [\<lparr>re_trader = ''0x'' @ replicate 40 (CHR ''7''),
     re_market_id = ''0x'' @ replicate 64 (CHR ''7''), re_token_id = ''42'', re_outcome = ''Yes'', re_side = ''buy'',
     re_price = Finite (1/2), re_size = Finite 100, re_tx_hash = ''0x'' @ replicate 64 (CHR ''7''),
     re_source_ts_ms = 5000, re_title = [], re_slug = []\<rparr>]\<rparr>"


subsection \<open>The books of a replay\<close>

lemma put_replay_book_get:
  "cache_get (pl_books (put_replay_book D now P t)) tok =
     (if so_token_id t = tok \<and> replay_book D now t \<noteq> None then replay_book D now t else cache_get (pl_books P) tok)"
  by (auto simp: put_replay_book_def put_book_def cache_get_def cache_put_def get_update replay_book_def
      split: option.split sum.splits)

lemma put_replay_books_get:
  assumes "list_all (\<lambda>t. replay_book D (book_at t) t \<noteq> None) ts"
  shows "cache_get (pl_books (foldl (\<lambda>P t. put_replay_book D (book_at t) P t) P ts)) tok =
    (let us = filter (\<lambda>u. so_token_id u = tok) ts
     in if us = [] then cache_get (pl_books P) tok else replay_book D (book_at (last us)) (last us))"
  using assms
proof (induction ts rule: rev_induct)
  case (snoc t ts)
  then show ?case by (auto simp: put_replay_book_get Let_def)
qed simp

lemma replay_book_prices:
  assumes "decimal_additive D" and "valid_price (so_price t)"
  shows "\<exists>b. replay_book D now t = Some b \<and>
    map_option lv_price (best_bid b) = Some (max (so_price t - 1/1000) (1/1000)) \<and>
    map_option lv_price (best_ask b) = Some (min (so_price t + 1/1000) (999/1000))"
  using assms(2) by (auto simp: replay_book_def decimal_additive.add_exact [OF assms(1)] decimal_additive.sub_exact [OF assms(1)]
      replay_tick_def valid_price_def best_bid_def best_ask_def first_level_def max_def min_def)

text \<open>C16: Every trade of a replay meets the book of the last one. The books are put before the first trade is carried out, one over
  the other: when the run begins, the cache holds for each token the book around the price of the last
  recorded trade of that token, whatever the price of the trade about to be copied is.\<close>

theorem replay_books_are_the_last:
  assumes "decimal_additive D" and "list_all (\<lambda>t. valid_price (so_price t)) ts" and "t \<in> set ts"
    and "u = last (filter (\<lambda>v. so_token_id v = so_token_id t) ts)"
  shows "case cache_get (pl_books (prepare_replay D book_at ts P)) (so_token_id t) of
      Some b \<Rightarrow> map_option lv_price (best_bid b) = Some (max (so_price u - 1/1000) (1/1000)) \<and>
                map_option lv_price (best_ask b) = Some (min (so_price u + 1/1000) (999/1000))
    | None \<Rightarrow> False"
proof -
  have books: "list_all (\<lambda>v. replay_book D (book_at v) v \<noteq> None) ts"
    using replay_book_prices [OF assms(1)] assms(2) by (fastforce simp: list_all_iff)
  have ne: "filter (\<lambda>v. so_token_id v = so_token_id t) ts \<noteq> []" using assms(3) by (auto simp: filter_empty_conv)
  then have "u \<in> set ts" using last_in_set [OF ne] by (simp add: assms(4))
  then have "valid_price (so_price u)" using assms(2) by (simp add: list_all_iff)
  from replay_book_prices [OF assms(1) this, of "book_at u"] ne show ?thesis
    by (auto simp: prepare_replay_def put_replay_books_get [OF books] Let_def assms(4))
qed

text \<open>Two trades of one token, at thirty and at seventy cents: the first meets an ask above seventy.\<close>

theorem replay_books_are_the_last_witness:
  "case cache_get (pl_books (prepare_replay exact_decimal (\<lambda>_. 9)
         [sample_source\<lparr>so_price := 3/10\<rparr>, sample_source\<lparr>so_price := 7/10\<rparr>] sample_pipe)) (so_token_id sample_source) of
     Some b \<Rightarrow> map_option lv_price (best_ask b) = Some (701/1000)
   | None \<Rightarrow> False"
proof -
  have "list_all (\<lambda>t. valid_price (so_price t)) [sample_source\<lparr>so_price := 3/10\<rparr>, sample_source\<lparr>so_price := 7/10\<rparr>]"
    by (simp add: valid_price_def)
  from replay_books_are_the_last [OF exact_dec.decimal_additive_axioms this, of "sample_source\<lparr>so_price := 3/10\<rparr>", OF _ refl,
      of "\<lambda>_. 9" sample_pipe]
  show ?thesis by (simp add: min_def split: option.splits)
qed

end
