(* ===== verification/Demo.thy ===== *)
theory Demo
  imports Replay Signing
begin

section \<open>The demo generator (crates/app/src/demo.rs, tasks.rs run_demo)\<close>

text \<open>
  Synthetic markets, books and trades, and the task that feeds them to the pipeline. The draws of the
  random generator, the clock and the fresh ids are arguments. An \<open>unwrap\<close> that could fail is a
  result of type option: \<open>None\<close> is a panic.
\<close>

subsection \<open>Markets and wallets\<close>

record demo_market =
  dm_market_id :: market_id
  dm_yes_token :: token_id
  dm_no_token :: token_id
  dm_title :: string
  dm_slug :: string
  dm_mid :: rat
  dm_tick :: rat

record demo_generator =
  dg_markets :: "demo_market list"
  dg_wallets :: "target_wallet list"
  dg_seq :: nat

definition demo_titles :: "(string \<times> string) list" where
  "demo_titles =
     [(''DEMO: Will BTC close above $120k this month?'', ''demo-btc-120k''),
      (''DEMO: Will the Fed cut rates in Q4?'', ''demo-fed-cut-q4''),
      (''DEMO: Will Team A win the championship?'', ''demo-team-a-champ''),
      (''DEMO: Will it rain in London tomorrow?'', ''demo-london-rain''),
      (''DEMO: Will the bill pass before December?'', ''demo-bill-pass'')]"

definition demo_market_new :: "decimal_ops \<Rightarrow> (nat \<Rightarrow> nat) \<Rightarrow> nat \<times> string \<times> string \<Rightarrow> demo_market option" where
  "demo_market_new D draw x =
     (let (i, t, s) = x
      in Option.bind (ok (market_id_new (''0x'' @ hex_padded 64 (0xDE0000 + i)))) (\<lambda>m.
         Option.bind (ok (token_id_new (nat_text (900000000000 + i * 2)))) (\<lambda>yes.
         Option.bind (ok (token_id_new (nat_text (900000000001 + i * 2)))) (\<lambda>no.
           Some \<lparr>dm_market_id = m, dm_yes_token = yes, dm_no_token = no, dm_title = t, dm_slug = s,
             dm_mid = d_div D (of_nat (30 + draw i)) 100,
             dm_tick = (if i mod 2 = 0 then 1/100 else 1/1000)\<rparr>))))"

definition demo_wallets :: "(string \<times> rat \<times> nat) list" where
  "demo_wallets = [(''DEMO Whale'', 25/100, 300), (''DEMO Sharp'', 50/100, 200), (''DEMO Scalper'', 10/100, 100)]"

definition demo_wallet_new :: "nat \<times> string \<times> rat \<times> nat \<Rightarrow> target_wallet option" where
  "demo_wallet_new x =
     (let (i, name, ratio, most) = x
      in Option.bind (ok (address_new (''0x'' @ hex_padded 40 (0xDEA0 + i)))) (\<lambda>a.
           Some ((target_wallet_new a name)\<lparr>tw_sizing := FixedRatio ratio, tw_max_trade_usd := of_nat most,
             tw_max_exposure_usd := 1000, tw_min_source_notional_usd := 10\<rparr>)))"

definition demo_new :: "decimal_ops \<Rightarrow> (nat \<Rightarrow> nat) \<Rightarrow> demo_generator option" where
  "demo_new D draw =
     Option.bind (those (map (demo_market_new D draw) (List.enumerate 0 demo_titles))) (\<lambda>ms.
     Option.bind (those (map demo_wallet_new (List.enumerate 0 demo_wallets))) (\<lambda>ws.
       Some \<lparr>dg_markets = ms, dg_wallets = ws, dg_seq = 0\<rparr>))"

subsection \<open>Prices and books\<close>

definition step_market :: "decimal_ops \<Rightarrow> int \<Rightarrow> demo_market \<Rightarrow> demo_market" where
  "step_market D drift m =
     m\<lparr>dm_mid := clamp (5/100) (95/100) (d_add D (dm_mid m) (d_div D (of_int drift) 1000))\<rparr>"

definition step_prices :: "decimal_ops \<Rightarrow> (nat \<Rightarrow> int) \<Rightarrow> demo_generator \<Rightarrow> demo_generator" where
  "step_prices D drift G =
     G\<lparr>dg_markets := map (\<lambda>(i, m). step_market D (drift i) m) (List.enumerate 0 (dg_markets G))\<rparr>"

definition leg_mid :: "decimal_ops \<Rightarrow> demo_market \<Rightarrow> bool \<Rightarrow> rat" where
  "leg_mid D m yes = (if yes then dm_mid m else d_sub D 1 (dm_mid m))"

definition leg_token :: "demo_market \<Rightarrow> bool \<Rightarrow> token_id" where
  "leg_token m yes = (if yes then dm_yes_token m else dm_no_token m)"

definition demo_level :: "rat \<Rightarrow> nat \<Rightarrow> level option" where
  "demo_level px vol =
     (case (price_new px, qty_new (of_nat vol)) of
        (Inr p, Inr q) \<Rightarrow> Some \<lparr>lv_price = p, lv_size = q\<rparr>
      | _ \<Rightarrow> None)"

definition demo_bid :: "decimal_ops \<Rightarrow> rat \<Rightarrow> rat \<Rightarrow> (nat \<Rightarrow> nat \<times> nat) \<Rightarrow> nat \<Rightarrow> level option" where
  "demo_bid D mid tick vol i = demo_level (max (d_sub D mid (d_mul D tick (of_nat i))) (1/1000)) (fst (vol i))"

definition demo_ask :: "decimal_ops \<Rightarrow> rat \<Rightarrow> rat \<Rightarrow> (nat \<Rightarrow> nat \<times> nat) \<Rightarrow> nat \<Rightarrow> level option" where
  "demo_ask D mid tick vol i = demo_level (min (d_add D mid (d_mul D tick (of_nat i))) (999/1000)) (snd (vol i))"

definition demo_book ::
    "decimal_ops \<Rightarrow> (nat \<Rightarrow> nat \<times> nat) \<Rightarrow> timestamp \<Rightarrow> demo_market \<Rightarrow> bool \<Rightarrow> demo_generator \<Rightarrow> demo_generator \<times> order_book" where
  "demo_book D vol now m yes G =
     (let mid = leg_mid D m yes; n = dg_seq G + 1
      in (G\<lparr>dg_seq := n\<rparr>,
          \<lparr>bk_market = dm_market_id m, bk_token = leg_token m yes,
           bk_bids = List.map_filter (demo_bid D mid (dm_tick m) vol) [1..<6],
           bk_asks = List.map_filter (demo_ask D mid (dm_tick m) vol) [1..<6],
           bk_tick_size = dm_tick m, bk_min_order_size = 5, bk_timestamp = now, bk_seq = n\<rparr>))"

subsection \<open>Trades\<close>

record demo_draws =
  dd_market :: nat
  dd_wallet :: nat
  dd_yes :: bool
  dd_buy :: bool
  dd_qty :: nat
  dd_delay_ms :: nat

definition demo_trade ::
    "decimal_ops \<Rightarrow> demo_draws \<Rightarrow> correlation_id \<Rightarrow> timestamp \<Rightarrow> demo_generator \<Rightarrow> (demo_generator \<times> source_trade) option" where
  "demo_trade D dr corr now G =
     (if length (dg_markets G) \<le> dd_market dr \<or> length (dg_wallets G) \<le> dd_wallet dr then None
      else let m = dg_markets G ! dd_market dr; w = dg_wallets G ! dd_wallet dr;
          sd = (if dd_buy dr then Buy else Sell);
          px = price_round_to_tick D (price_saturating (leg_mid D m (dd_yes dr))) (dm_tick m) sd;
          quant = (case qty_new (of_nat (dd_qty dr)) of Inr q \<Rightarrow> q | Inl _ \<Rightarrow> 0);
          n = dg_seq G + 1
      in Option.bind (ok (tx_hash_new (''0x'' @ hex_padded 64 (0xDE00000000 + n)))) (\<lambda>tx.
           Some (G\<lparr>dg_seq := n\<rparr>,
             \<lparr>so_event_id = from_digest (''demo-'' @ hex_padded 16 n), so_correlation_id = corr,
              so_trader = tw_address w, so_market_id = dm_market_id m, so_token_id = leg_token m (dd_yes dr),
              so_outcome = (if dd_yes dr then ''Yes'' else ''No''), so_side = sd, so_price = px, so_quantity = quant,
              so_tx_hash = tx, so_occurrence = 0, so_source_ts = now - milliseconds (int (dd_delay_ms dr)),
              so_detected_ts = now, so_source = DemoSource, so_market_title = dm_title m,
              so_market_slug = dm_slug m\<rparr>)))"

subsection \<open>The task\<close>

text \<open>Every market with its two legs, in the order of the loops.\<close>

definition demo_legs :: "demo_generator \<Rightarrow> (demo_market \<times> bool) list" where
  "demo_legs G = concat (map (\<lambda>m. [(m, True), (m, False)]) (dg_markets G))"

definition seed_book ::
    "decimal_ops \<Rightarrow> (nat \<Rightarrow> nat \<Rightarrow> nat \<times> nat) \<Rightarrow> (nat \<Rightarrow> timestamp) \<Rightarrow>
     demo_generator \<times> 's pipeline \<Rightarrow> nat \<times> demo_market \<times> bool \<Rightarrow> demo_generator \<times> 's pipeline" where
  "seed_book D vol clock acc x =
     (let (G, P) = acc; (k, m, yes) = x; (G', b) = demo_book D (vol k) (clock k) m yes G in (G', put_book b P))"

definition seed_demo ::
    "decimal_ops \<Rightarrow> (nat \<Rightarrow> nat \<Rightarrow> nat \<times> nat) \<Rightarrow> (nat \<Rightarrow> timestamp) \<Rightarrow> demo_generator \<times> 's pipeline \<Rightarrow> demo_generator \<times> 's pipeline" where
  "seed_demo D vol clock GP = foldl (seed_book D vol clock) GP (List.enumerate 0 (demo_legs (fst GP)))"

definition demo_fill :: "decimal_ops \<Rightarrow> 's pipe_env \<Rightarrow> timestamp \<Rightarrow> 's app_state \<Rightarrow> fill \<Rightarrow> 's app_state" where
  "demo_fill D E now A f =
     (case apply_external_fill D (ap_orders A) f of
        (om, Inl _) \<Rightarrow> A\<lparr>ap_orders := om\<rparr>
      | (om, Inr _) \<Rightarrow>
          A\<lparr>ap_orders := om,
            ap_portfolio := fst (portfolio_apply_fill D (pe_ordinal E) (ap_portfolio A) f [] now)\<rparr>)"

definition demo_offer ::
    "decimal_ops \<Rightarrow> 's pipe_env \<Rightarrow> 's paper_handle \<Rightarrow> order_book \<Rightarrow> timestamp \<Rightarrow> 's app_state \<Rightarrow> 's app_state" where
  "demo_offer D E paper b now A =
     (case paper of
        None \<Rightarrow> A
      | Some book_update \<Rightarrow>
          (let (v, fills) = book_update (ap_venue A) b in foldl (demo_fill D E now) (A\<lparr>ap_venue := v\<rparr>) fills))"

definition demo_book_step ::
    "decimal_ops \<Rightarrow> 's pipe_env \<Rightarrow> 's paper_handle \<Rightarrow> (nat \<Rightarrow> nat \<Rightarrow> nat \<times> nat) \<Rightarrow> (nat \<Rightarrow> timestamp) \<Rightarrow>
     demo_generator \<times> 's pipeline \<Rightarrow> nat \<times> demo_market \<times> bool \<Rightarrow> demo_generator \<times> 's pipeline" where
  "demo_book_step D E paper vol clock acc x =
     (let (G, P) = acc; (k, m, yes) = x; (G', b) = demo_book D (vol k) (clock k) m yes G
      in (G', put_book b (on_state (\<lambda>A. demo_offer D E paper b (clock k) (mark_book D b (clock k) A)) P)))"

definition demo_book_tick ::
    "decimal_ops \<Rightarrow> 's pipe_env \<Rightarrow> 's paper_handle \<Rightarrow> (nat \<Rightarrow> int) \<Rightarrow> (nat \<Rightarrow> nat \<Rightarrow> nat \<times> nat) \<Rightarrow> (nat \<Rightarrow> timestamp) \<Rightarrow>
     demo_generator \<times> 's pipeline \<Rightarrow> demo_generator \<times> 's pipeline" where
  "demo_book_tick D E paper drift vol clock GP =
     (let G = step_prices D drift (fst GP)
      in foldl (demo_book_step D E paper vol clock) (G, snd GP) (List.enumerate 0 (demo_legs G)))"

definition parsed_of :: "source_trade \<Rightarrow> parsed_trade" where
  "parsed_of t = \<lparr>pt_trader = so_trader t, pt_market_id = so_market_id t, pt_token_id = so_token_id t,
     pt_outcome = so_outcome t, pt_side = so_side t, pt_price = so_price t, pt_quantity = so_quantity t,
     pt_tx_hash = so_tx_hash t, pt_source_ts = so_source_ts t, pt_source_is_coarse = False,
     pt_detected_ts = so_detected_ts t, pt_market_title = so_market_title t, pt_market_slug = so_market_slug t,
     pt_source = DemoSource\<rparr>"

definition demo_trade_tick ::
    "decimal_ops \<Rightarrow> (string \<Rightarrow> string) \<Rightarrow> 's pipe_env \<Rightarrow> call_inputs \<Rightarrow> demo_draws \<Rightarrow> correlation_id \<Rightarrow> correlation_id \<Rightarrow>
     timestamp \<Rightarrow> demo_generator \<times> 's pipeline \<Rightarrow> (demo_generator \<times> 's pipeline) option" where
  "demo_trade_tick D sha E ci dr corr corr' now GP =
     map_option (\<lambda>(G, t).
         let (T, det) = tracker_observe_live D sha (ap_tracker (pl_state (snd GP))) (parsed_of t) corr';
             P1 = set_tracker T (snd GP)
         in case det of Actionable s \<Rightarrow> (G, on_source_trade D E ci P1 s) | _ \<Rightarrow> (G, P1))
       (demo_trade D dr corr now (fst GP))"


text \<open>One turn of the select loop: the book tick fires or the trade tick does. The shutdown signal ends
  the list of turns. A panic ends the task.\<close>

datatype demo_turn =
    BookTick "nat \<Rightarrow> int" "nat \<Rightarrow> nat \<Rightarrow> nat \<times> nat" "nat \<Rightarrow> timestamp"
  | TradeTick call_inputs demo_draws correlation_id correlation_id timestamp

fun demo_step ::
    "decimal_ops \<Rightarrow> (string \<Rightarrow> string) \<Rightarrow> 's pipe_env \<Rightarrow> 's paper_handle \<Rightarrow> demo_generator \<times> 's pipeline \<Rightarrow> demo_turn \<Rightarrow>
     (demo_generator \<times> 's pipeline) option" where
  "demo_step D sha E paper GP (BookTick drift vol clock) = Some (demo_book_tick D E paper drift vol clock GP)"
| "demo_step D sha E paper GP (TradeTick ci dr corr corr' now) = demo_trade_tick D sha E ci dr corr corr' now GP"

fun demo_loop ::
    "decimal_ops \<Rightarrow> (string \<Rightarrow> string) \<Rightarrow> 's pipe_env \<Rightarrow> 's paper_handle \<Rightarrow> demo_generator \<times> 's pipeline \<Rightarrow> demo_turn list \<Rightarrow>
     (demo_generator \<times> 's pipeline) option" where
  "demo_loop D sha E paper GP [] = Some GP"
| "demo_loop D sha E paper GP (x # xs) =
     Option.bind (demo_step D sha E paper GP x) (\<lambda>GP'. demo_loop D sha E paper GP' xs)"

definition run_demo ::
    "decimal_ops \<Rightarrow> (string \<Rightarrow> string) \<Rightarrow> 's pipe_env \<Rightarrow> 's paper_handle \<Rightarrow> (nat \<Rightarrow> nat \<Rightarrow> nat \<times> nat) \<Rightarrow> (nat \<Rightarrow> timestamp) \<Rightarrow>
     demo_generator \<Rightarrow> 's pipeline \<Rightarrow> demo_turn list \<Rightarrow> (demo_generator \<times> 's pipeline) option" where
  "run_demo D sha E paper vol clock G P turns = demo_loop D sha E paper (seed_demo D vol clock (G, P)) turns"

subsection \<open>The generated identifiers are accepted\<close>

lemma hex_char_lower: "n < 16 \<Longrightarrow> is_lower_hexdigit (hex_char n)"
  by (auto simp: hex_char_def is_lower_hexdigit_def is_ascii_digit_def byte_def)

lemma hex_text_lower: "list_all is_lower_hexdigit (hex_text n)"
  by (induction n rule: hex_text.induct) (subst hex_text.simps, auto simp: hex_char_lower)

lemma hex_text_width: "n < 16 ^ k \<Longrightarrow> 0 < k \<Longrightarrow> length (hex_text n) \<le> k"
proof (induction k arbitrary: n)
  case (Suc k)
  show ?case
  proof (cases "n < 16")
    case True
    then show ?thesis by (subst hex_text.simps) simp
  next
    case False
    with Suc.prems have "n div 16 < 16 ^ k" "0 < k" by (auto simp: div_less_iff_less_mult intro: gr0I)
    with Suc.IH False show ?thesis by (subst hex_text.simps) simp
  qed
qed simp

lemma hex_padded_normal: "n < 16 ^ k \<Longrightarrow> 0 < k \<Longrightarrow> normal_hex k (''0x'' @ hex_padded k n)"
  using hex_text_width [of n k] hex_text_lower [of n]
  by (auto simp: normal_hex_def hex_padded_def list_all_iff is_lower_hexdigit_def is_ascii_digit_def byte_def)

lemma nat_text_width: "n < 10 ^ k \<Longrightarrow> 0 < k \<Longrightarrow> length (nat_text n) \<le> k"
proof (induction k arbitrary: n)
  case (Suc k)
  show ?case
  proof (cases "n < 10")
    case True
    then show ?thesis by (subst nat_text.simps) simp
  next
    case False
    with Suc.prems have "n div 10 < 10 ^ k" "0 < k" by (auto simp: div_less_iff_less_mult intro: gr0I)
    with Suc.IH False show ?thesis by (subst nat_text.simps) simp
  qed
qed simp

lemma nat_text_token: "n < 10 ^ 78 \<Longrightarrow> token_id_new (nat_text n) = Inr (TokenId (nat_text n))"
  using nat_text_width [of n 78] nat_text_digits [of n] by (intro token_id_new_fixed) (auto simp: normal_token_def)

lemma demo_hash: "n < 2 ^ 64 \<Longrightarrow>
    tx_hash_new (''0x'' @ hex_padded 64 (0xDE00000000 + n)) = Inr (TxHash (''0x'' @ hex_padded 64 (0xDE00000000 + n)))"
  by (intro tx_hash_new_fixed hex_padded_normal) auto

subsection \<open>The generator's invariant\<close>

definition demo_market_ok :: "demo_market \<Rightarrow> bool" where
  "demo_market_ok m \<longleftrightarrow> 5/100 \<le> dm_mid m \<and> dm_mid m \<le> 95/100 \<and> dm_tick m \<in> {1/100, 1/1000}"

definition demo_ok :: "demo_generator \<Rightarrow> bool" where
  "demo_ok G \<longleftrightarrow> length (dg_markets G) = 5 \<and> length (dg_wallets G) = 3 \<and> list_all demo_market_ok (dg_markets G)"

lemma those_map: "(\<And>x. x \<in> set xs \<Longrightarrow> \<exists>y. f x = Some y \<and> Q y) \<Longrightarrow>
    \<exists>ys. those (map f xs) = Some ys \<and> list_all Q ys \<and> length ys = length xs"
  by (induction xs) (simp, fastforce)

lemma demo_titles_length: "length demo_titles = 5" "length demo_wallets = 3"
  by (simp_all add: demo_titles_def demo_wallets_def)

lemma step_market_ok: "demo_market_ok m \<Longrightarrow> demo_market_ok (step_market D d m)"
  using clamp_bounds [of "5/100 :: rat" "95/100"] by (simp add: demo_market_ok_def step_market_def)

lemma step_prices_ok: "demo_ok G \<Longrightarrow> demo_ok (step_prices D d G)" "dg_seq (step_prices D d G) = dg_seq G"
  by (auto simp: demo_ok_def step_prices_def list_all_length nth_enumerate_eq step_market_ok)

context decimal_exact
begin

lemma demo_market_new_ok:
  assumes "i < 5" and "draw i < 40"
  shows "\<exists>m. demo_market_new D draw (i, x) = Some m \<and> demo_market_ok m"
proof -
  have "market_id_new (''0x'' @ hex_padded 64 (0xDE0000 + i)) = Inr (MarketId (''0x'' @ hex_padded 64 (0xDE0000 + i)))"
    using assms by (intro market_id_new_fixed hex_padded_normal) auto
  moreover have "(30 + of_nat (draw i)) / 100 \<ge> (5/100 :: rat)" "(30 + of_nat (draw i)) / 100 \<le> (95/100 :: rat)"
    using assms by (auto simp: field_simps)
  ultimately show ?thesis
    using assms by (auto simp: demo_market_new_def nat_text_token demo_market_ok_def exact split: prod.splits)
qed

lemma demo_wallet_new_ok:
  assumes "i < 3"
  shows "\<exists>w. demo_wallet_new (i, x) = Some w"
proof -
  have "address_new (''0x'' @ hex_padded 40 (0xDEA0 + i)) = Inr (Address (''0x'' @ hex_padded 40 (0xDEA0 + i)))"
    using assms by (intro address_new_fixed hex_padded_normal) auto
  then show ?thesis by (auto simp: demo_wallet_new_def split: prod.splits)
qed

lemma demo_new_ok:
  assumes "\<And>i. draw i < 40"
  shows "\<exists>G. demo_new D draw = Some G \<and> demo_ok G \<and> dg_seq G = 0"
proof -
  have "\<exists>ms. those (map (demo_market_new D draw) (List.enumerate 0 demo_titles)) = Some ms \<and>
      list_all demo_market_ok ms \<and> length ms = length (List.enumerate 0 demo_titles)"
    using assms by (intro those_map) (auto simp: in_set_enumerate_eq demo_titles_length intro!: demo_market_new_ok)
  moreover have "\<exists>ws. those (map demo_wallet_new (List.enumerate 0 demo_wallets)) = Some ws \<and>
      list_all (\<lambda>_. True) ws \<and> length ws = length (List.enumerate 0 demo_wallets)"
    using assms by (intro those_map) (auto simp: in_set_enumerate_eq demo_titles_length intro!: demo_wallet_new_ok)
  ultimately show ?thesis by (auto simp: demo_new_def demo_ok_def demo_titles_length)
qed

end

subsection \<open>The generated books\<close>

definition demo_book_ok :: "decimal_ops \<Rightarrow> order_book \<Rightarrow> bool" where
  "demo_book_ok D b \<longleftrightarrow>
     valid_levels b \<and> length (bk_bids b) = 5 \<and> length (bk_asks b) = 5 \<and>
     sorted_wrt (>) (map lv_price (bk_bids b)) \<and> sorted_wrt (<) (map lv_price (bk_asks b)) \<and>
     is_well_formed b \<and> book_mid D b \<noteq> None"

lemma demo_level_Some: "valid_price p \<Longrightarrow> demo_level p n = Some \<lparr>lv_price = p, lv_size = of_nat n\<rparr>"
  by (simp add: demo_level_def valid_qty_def)

lemma upt_six: "[Suc 0..<6] = [1, 2, 3, 4, 5]"
  by (simp add: upt_rec)

context decimal_exact
begin

lemma leg_mid_bounds: "demo_market_ok m \<Longrightarrow> 5/100 \<le> leg_mid D m yes \<and> leg_mid D m yes \<le> 95/100"
  by (auto simp: leg_mid_def demo_market_ok_def exact)

lemma demo_book_sound:
  assumes "demo_market_ok m"
  shows "demo_book_ok D (snd (demo_book D vol now m yes G))"
proof -
  define x where "x = leg_mid D m yes"
  have b: "5/100 \<le> x" "x \<le> 95/100" using leg_mid_bounds [OF assms] by (simp_all add: x_def)
  have t: "dm_tick m = 1/100 \<or> dm_tick m = 1/1000" using assms by (auto simp: demo_market_ok_def)
  then have pos: "0 \<le> dm_tick m * of_nat i" for i by auto
  have bid: "demo_bid D x (dm_tick m) vol i =
      Some \<lparr>lv_price = max (x - dm_tick m * of_nat i) (1/1000), lv_size = of_nat (fst (vol i))\<rparr>" for i
    using b pos [of i] by (auto simp: demo_bid_def exact valid_price_def max_def intro!: demo_level_Some)
  have ask: "demo_ask D x (dm_tick m) vol i =
      Some \<lparr>lv_price = min (x + dm_tick m * of_nat i) (999/1000), lv_size = of_nat (snd (vol i))\<rparr>" for i
    using b pos [of i] by (auto simp: demo_ask_def exact valid_price_def min_def intro!: demo_level_Some)
  show ?thesis
    using b t by (auto simp: demo_book_def x_def [symmetric] demo_book_ok_def upt_six bid ask List.map_filter_simps
        valid_levels_def valid_level_def valid_price_def valid_qty_def is_well_formed_def book_mid_def exact
        best_bid_def best_ask_def first_level_def max_def min_def Let_def)
qed

end

subsection \<open>The run\<close>

lemma demo_book_gen: "fst (demo_book D vol now m yes G) = G\<lparr>dg_seq := dg_seq G + 1\<rparr>"
  by (simp add: demo_book_def Let_def)

lemma seed_book_gen: "fst (seed_book D vol clock (G, P) x) = G\<lparr>dg_seq := dg_seq G + 1\<rparr>"
  by (simp add: seed_book_def demo_book_gen case_prod_beta split: prod.splits)

lemma demo_book_step_gen: "fst (demo_book_step D E paper vol clock (G, P) x) = G\<lparr>dg_seq := dg_seq G + 1\<rparr>"
  by (simp add: demo_book_step_def demo_book_gen case_prod_beta split: prod.splits)

lemma foldl_seq:
  assumes "\<And>G P x. fst (f (G, P) x) = G\<lparr>dg_seq := dg_seq G + 1\<rparr>"
  shows "fst (foldl f GP xs) = (fst GP)\<lparr>dg_seq := dg_seq (fst GP) + length xs\<rparr>"
proof (induction xs arbitrary: GP)
  case (Cons x xs)
  then show ?case using assms [of "fst GP" "snd GP" x] by simp
qed simp

lemma demo_legs_length: "length (demo_legs G) = 2 * length (dg_markets G)"
  by (simp add: demo_legs_def length_concat comp_def sum_list_triv)

lemma demo_ok_seq [simp]: "demo_ok (G\<lparr>dg_seq := n\<rparr>) = demo_ok G"
  by (simp add: demo_ok_def)

lemma seed_demo_gen:
  "demo_ok (fst GP) \<Longrightarrow> demo_ok (fst (seed_demo D vol clock GP)) \<and> dg_seq (fst (seed_demo D vol clock GP)) = dg_seq (fst GP) + 10"
  by (simp add: seed_demo_def foldl_seq [of "seed_book D vol clock", OF seed_book_gen] demo_legs_length)
    (simp add: demo_ok_def)

lemma demo_book_tick_gen:
  assumes "demo_ok (fst GP)"
  shows "demo_ok (fst (demo_book_tick D E paper drift vol clock GP)) \<and>
    dg_seq (fst (demo_book_tick D E paper drift vol clock GP)) = dg_seq (fst GP) + 10"
  using step_prices_ok(1) [OF assms] step_prices_ok(2) [of D drift "fst GP"]
  by (simp add: demo_book_tick_def Let_def demo_legs_length
      foldl_seq [of "demo_book_step D E paper vol clock", OF demo_book_step_gen]) (simp add: demo_ok_def)

definition draws_ok :: "demo_turn \<Rightarrow> bool" where
  "draws_ok x = (case x of TradeTick _ dr _ _ _ \<Rightarrow> dd_market dr < 5 \<and> dd_wallet dr < 3 | BookTick _ _ _ \<Rightarrow> True)"

lemma demo_trade_gen:
  assumes "demo_ok G" and "dd_market dr < 5" and "dd_wallet dr < 3" and "dg_seq G + 1 < 2 ^ 64"
  shows "\<exists>t. demo_trade D dr corr now G = Some (G\<lparr>dg_seq := dg_seq G + 1\<rparr>, t)"
  using assms demo_hash [of "dg_seq G + 1"] by (simp add: demo_trade_def demo_ok_def Let_def)

lemma demo_step_gen:
  assumes "demo_ok (fst GP)" and "draws_ok x" and "dg_seq (fst GP) + 1 < 2 ^ 64"
  shows "\<exists>GP'. demo_step D sha E paper GP x = Some GP' \<and> demo_ok (fst GP') \<and> dg_seq (fst GP') \<le> dg_seq (fst GP) + 10"
proof (cases x)
  case (BookTick drift vol clock)
  with demo_book_tick_gen [OF assms(1)] show ?thesis by simp
next
  case (TradeTick ci dr corr corr' now)
  with assms obtain t where "demo_trade D dr corr now (fst GP) = Some ((fst GP)\<lparr>dg_seq := dg_seq (fst GP) + 1\<rparr>, t)"
    using demo_trade_gen [of "fst GP" dr D corr now] by (auto simp: draws_ok_def)
  then show ?thesis
    using assms(1) by (auto simp: TradeTick demo_trade_tick_def Let_def case_prod_beta split: detection.splits)
qed

lemma demo_loop_gen:
  assumes "demo_ok (fst GP)" and "list_all draws_ok turns" and "dg_seq (fst GP) + 10 * length turns < 2 ^ 64"
  shows "\<exists>GP'. demo_loop D sha E paper GP turns = Some GP' \<and> demo_ok (fst GP')"
  using assms
proof (induction turns arbitrary: GP)
  case (Cons x xs)
  with demo_step_gen [of GP x D sha E paper] obtain GP' where s: "demo_step D sha E paper GP x = Some GP'"
      "demo_ok (fst GP')" "dg_seq (fst GP') \<le> dg_seq (fst GP) + 10" by auto
  with Cons.IH [of GP'] Cons.prems show ?case by auto
qed simp

subsection \<open>Properties\<close>



lemma demo_trade_id:
  "demo_trade D dr corr now G = Some (G', t) \<Longrightarrow> so_event_id t = from_digest (''demo-'' @ hex_padded 16 (dg_seq G + 1)) \<and>
     so_source t = DemoSource"
  by (auto simp: demo_trade_def Let_def bind_eq_Some_conv case_prod_beta split: if_splits option.splits sum.splits)

lemma observed_trade:
  assumes "tracker_observe_live D sha T p corr = (T', Actionable s)"
  shows "so_source s = pt_source p \<and> so_event_id s = event_id sha (trade_key D p) (so_occurrence s)"
proof -
  obtain d v where o: "observe_live sha (tk_dedup T) (trade_key D p) (pt_detected_ts p) = (d, v)" by force
  with live_verdict [of sha "tk_dedup T" "trade_key D p" "pt_detected_ts p"]
  have "v = NewFill e k \<Longrightarrow> e = event_id sha (trade_key D p) k" for e k by (auto split: if_splits)
  with assms o show ?thesis
    by (cases v) (auto simp: tracker_observe_live_def observe_def Let_def into_source_trade_def
        split: option.splits sum.splits if_splits)
qed

text \<open>Demo trades are marked as such, but not by their label: what the generator emits carries the demo
  source and an id that starts with \<open>demo-\<close>; what the tracker hands to the pipeline is still not real, but its
  id is the digest of the content key, as for a trade of the real feed.\<close>

theorem demo_trades_are_marked:
  assumes "demo_trade D dr corr now G = Some (G', t)"
    and "tracker_observe_live D sha T (parsed_of t) corr' = (T', Actionable s)"
  shows "so_event_id t = from_digest (''demo-'' @ hex_padded 16 (dg_seq G + 1)) \<and>
    so_source s = DemoSource \<and> \<not> is_real (so_source s) \<and>
    so_event_id s = event_id sha (trade_key D (parsed_of t)) (so_occurrence s)"
  using demo_trade_id [OF assms(1)] observed_trade [OF assms(2)] by (simp add: is_real_def parsed_of_def)

lemma observe_new:
  assumes "get (tk_wallets T) (pt_trader p) = Some w"
    and "admits D w (pt_market_id p) (qty_notional D (pt_quantity p) (pt_price p)) = Inr u"
    and "count_of (tk_dedup T) (trade_key D p) < MAX_OCCURRENCES_PER_CONTENT"
  shows "\<exists>T' s. tracker_observe_live D sha T p c = (T', Actionable s)"
proof -
  obtain d v where "observe_live sha (tk_dedup T) (trade_key D p) (pt_detected_ts p) = (d, v)" by force
  with assms live_verdict [of sha "tk_dedup T" "trade_key D p" "pt_detected_ts p"] show ?thesis
    by (simp add: tracker_observe_live_def observe_def Let_def)
qed

definition marked_draws :: demo_draws where
  "marked_draws = \<lparr>dd_market = 0, dd_wallet = 0, dd_yes = True, dd_buy = True, dd_qty = 200, dd_delay_ms = 400\<rparr>"

definition marked_generator :: demo_generator where
  "marked_generator = \<lparr>dg_markets = [\<lparr>dm_market_id = MarketId ''m'', dm_yes_token = TokenId ''7'', dm_no_token = TokenId ''8'',
     dm_title = ''DEMO'', dm_slug = ''demo'', dm_mid = 1/2, dm_tick = 1/100\<rparr>], dg_wallets = [sample_wallet], dg_seq = 0\<rparr>"

lemma marked_trade:
  "\<exists>t. demo_trade exact_decimal marked_draws 1 0 marked_generator = Some (marked_generator\<lparr>dg_seq := 1\<rparr>, t) \<and>
     so_trader t = Address ''w'' \<and> so_market_id t = MarketId ''m'' \<and> so_quantity t = 200 \<and> so_price t = 1/2"
  using demo_hash [of 1]
  by (simp add: demo_trade_def d_floor_def Let_def marked_draws_def marked_generator_def sample_wallet_def target_wallet_new_def leg_mid_def
      price_saturating_def clamp_def PRICE_MIN_def PRICE_MAX_def price_round_to_tick_def valid_qty_def)

theorem demo_trades_are_marked_witness:
  "\<exists>t s T'. demo_trade exact_decimal marked_draws 1 0 marked_generator = Some (marked_generator\<lparr>dg_seq := 1\<rparr>, t) \<and>
     tracker_observe_live exact_decimal (\<lambda>x. x) (tracker_new [sample_wallet]) (parsed_of t) 2 = (T', Actionable s) \<and>
     so_source s = DemoSource"
proof -
  obtain t where t: "demo_trade exact_decimal marked_draws 1 0 marked_generator = Some (marked_generator\<lparr>dg_seq := 1\<rparr>, t)"
      "so_trader t = Address ''w''" "so_market_id t = MarketId ''m''" "so_quantity t = 200" "so_price t = 1/2"
    using marked_trade by auto
  have "tk_dedup (tracker_new [sample_wallet]) = dedup_default" by (simp add: tracker_new_def)
  then have fresh: "count_of (tk_dedup (tracker_new [sample_wallet])) k = 0" for k
    by (simp add: dedup_default_def dedup_new_def count_of_def get_or_def get_def)
  have "\<exists>T' s. tracker_observe_live exact_decimal (\<lambda>x. x) (tracker_new [sample_wallet]) (parsed_of t) 2 = (T', Actionable s)"
    using fresh
    by (intro observe_new [where w = sample_wallet])
      (simp_all add: t(2-5) parsed_of_def sample_observations qty_notional_def MAX_OCCURRENCES_PER_CONTENT_def)
  then obtain T' s where o: "tracker_observe_live exact_decimal (\<lambda>x. x) (tracker_new [sample_wallet]) (parsed_of t) 2 =
      (T', Actionable s)" by blast
  from demo_trades_are_marked [OF t(1) o] o t(1) show ?thesis by blast
qed

end
