(* ===== verification/Startup.thy ===== *)
theory Startup
  imports Live Demo
begin

section \<open>Starting the program (crates/app/src/main.rs)\<close>

text \<open>
  From the command line and the environment to the running desk: the configuration, the storage, the
  venue adapter with its signer, the kill switch, the first state and the tasks that are spawned. Whether the
  HTTP clients can be built and what the database answers are arguments, like the curve and the hash; log
  lines are left out.
\<close>

subsection \<open>Command line\<close>

record cli =
  cl_mode :: "string option"
  cl_file :: "string option"
  cl_demo :: bool
  cl_port :: "nat option"
  cl_check :: bool

definition set_var :: "string \<Rightarrow> string \<Rightarrow> env \<Rightarrow> env" where
  "set_var k v e = (\<lambda>x. if x = k then Some v else e x)"

definition set_opt :: "string \<Rightarrow> string option \<Rightarrow> env \<Rightarrow> env" where
  "set_opt k v e = (case v of Some x \<Rightarrow> set_var k x e | None \<Rightarrow> e)"

definition cli_env :: "cli \<Rightarrow> env \<Rightarrow> env" where
  "cli_env c e =
     (let e1 = set_opt ''APP_MODE'' (cl_mode c) e;
          e2 = set_opt ''REPLAY_FILE'' (cl_file c) e1;
          e3 = set_opt ''SERVER_PORT'' (map_option nat_text (cl_port c)) e2
      in if cl_demo c then set_var ''DEMO_DATA'' ''true'' e3 else e3)"

subsection \<open>Storage, wallets and the venue\<close>

definition connect_or_ephemeral :: "(string \<Rightarrow> nat \<Rightarrow> string + db) \<Rightarrow> string \<Rightarrow> nat \<Rightarrow> store" where
  "connect_or_ephemeral connect url most = (case connect url most of Inr d \<Rightarrow> Some d | Inl _ \<Rightarrow> None)"

definition open_store :: "(string \<Rightarrow> nat \<Rightarrow> string + db) \<Rightarrow> app_config \<Rightarrow> store" where
  "open_store connect cfg =
     (if sr_ephemeral (ac_storage cfg) then None
      else connect_or_ephemeral connect (expose (sr_database_url (ac_storage cfg))) (sr_max_connections (ac_storage cfg)))"

text \<open>The demo generator exists only when demo data is asked for; without a value inside, building it panicked.\<close>

definition demo_gen :: "decimal_ops \<Rightarrow> (nat \<Rightarrow> nat) \<Rightarrow> app_config \<Rightarrow> demo_generator option option" where
  "demo_gen D draw cfg = (if ac_demo_data cfg then map_option Some (demo_new D draw) else Some None)"

datatype venue = LiveVenue live_execution | PaperVenue paper

definition startup_signer ::
    "'k ec_ops \<Rightarrow> (bytes \<Rightarrow> bytes) \<Rightarrow> (string \<Rightarrow> string) \<Rightarrow> app_config \<Rightarrow> 'k eoa_signer option" where
  "startup_signer C keccak hex_error cfg =
     (if secret_is_empty (lc_private_key (ac_live cfg)) then None
      else let (maker, sig_type) = (case lc_funder_address (ac_live cfg) of
                  Some a \<Rightarrow> (Some (address_str a), PolyProxy) | None \<Rightarrow> (None, Eoa))
           in ok (eoa_signer_new C keccak hex_error (expose (lc_private_key (ac_live cfg))) maker sig_type))"

text \<open>The live adapter. The salt and the time of a signature are drawn for each order.\<close>

definition startup_live ::
    "decimal_ops \<Rightarrow> 'k ec_ops \<Rightarrow> (bytes \<Rightarrow> bytes) \<Rightarrow> (string \<Rightarrow> string) \<Rightarrow> (order_request \<Rightarrow> 64 word) \<Rightarrow>
     (order_request \<Rightarrow> int) \<Rightarrow> app_config \<Rightarrow> live_execution" where
  "startup_live D C keccak hex_error salt clock cfg =
     (let l = ac_live cfg;
          live = with_credentials \<lparr>l2_api_key = expose (lc_api_key l), l2_secret = expose (lc_api_secret l),
                    l2_passphrase = expose (lc_api_passphrase l)\<rparr>
                   (live_execution_new (ep_clob_url (ac_endpoints cfg)) (live_execution_armed cfg));
          live1 = (case lc_funder_address l of Some a \<Rightarrow> with_funder (address_str a) live | None \<Rightarrow> live)
      in case startup_signer C keccak hex_error cfg of
           None \<Rightarrow> live1
         | Some S \<Rightarrow> with_signer (\<lambda>r tick. sign_request D C keccak (salt r) (clock r) S r) live1)"

text \<open>No value where a configured probability is not finite, which no configuration that loads has.\<close>

definition select_adapter ::
    "decimal_ops \<Rightarrow> 'k ec_ops \<Rightarrow> (bytes \<Rightarrow> bytes) \<Rightarrow> (string \<Rightarrow> string) \<Rightarrow> (order_request \<Rightarrow> 64 word) \<Rightarrow>
     (order_request \<Rightarrow> int) \<Rightarrow> app_config \<Rightarrow> venue option" where
  "select_adapter D C keccak hex_error salt clock cfg =
     (if is_live (ac_mode cfg) then Some (LiveVenue (startup_live D C keccak hex_error salt clock cfg))
      else map_option PaperVenue (paper_from_config (ac_simulation cfg)))"

definition venue_gaps :: "venue \<Rightarrow> string list" where
  "venue_gaps v = (case v of LiveVenue L \<Rightarrow> readiness_gaps L | PaperVenue _ \<Rightarrow> [])"

subsection \<open>Tasks\<close>

datatype task =
    ReplayTask string
  | SourceFeedTask
  | MarketDataTask
  | DemoTask demo_generator
  | MarketStreamTask
  | WarmTargetsTask
  | HousekeepingTask
  | EventLogTask
  | ReconciliationTask

definition tasks_of :: "app_config \<Rightarrow> bool \<Rightarrow> demo_generator option \<Rightarrow> task list option" where
  "tasks_of cfg rest gen =
     map_option (\<lambda>sources.
         sources @ (case gen of Some g \<Rightarrow> [DemoTask g] | None \<Rightarrow> []) @
         (if ac_mode cfg \<noteq> ReplayMode then MarketStreamTask # (if rest then [WarmTargetsTask] else []) else []) @
         [HousekeepingTask, EventLogTask, ReconciliationTask])
       (case ac_mode cfg of
          ReplayMode \<Rightarrow> map_option (\<lambda>f. [ReplayTask f]) (ac_replay_file cfg)
        | _ \<Rightarrow> Some [SourceFeedTask, MarketDataTask])"

subsection \<open>The start\<close>

datatype startup_error = ConfigInvalid config_error | ClientFailed | NoReplayFile | Panicked

record booted =
  bt_config :: app_config
  bt_venue :: venue
  bt_pipe :: "venue pipeline"
  bt_tasks :: "task list"

text \<open>What the start takes from outside.\<close>

record 'k boot_env =
  be_dec :: decimal_ops
  be_parse_f64 :: "string \<Rightarrow> f64 option"
  be_curve :: "'k ec_ops"
  be_keccak :: "bytes \<Rightarrow> bytes"
  be_hex_error :: "string \<Rightarrow> string"
  be_salt :: "order_request \<Rightarrow> 64 word"
  be_clock :: "order_request \<Rightarrow> int"
  be_draw :: "nat \<Rightarrow> nat"
  be_connect :: "string \<Rightarrow> nat \<Rightarrow> string + db"
  be_live_client :: bool
  be_rest_client :: bool
  be_ordinal :: "timestamp \<Rightarrow> nat"
  be_reread :: "sizing_mode \<Rightarrow> sizing_mode option"
  be_now :: timestamp

definition run_program :: "'k boot_env \<Rightarrow> app_config \<Rightarrow> startup_error + booted" where
  "run_program B cfg =
     (let D = be_dec B; now = be_now B
      in and_then (ok_or Panicked (demo_gen D (be_draw B) cfg)) (\<lambda>gen.
         if is_live (ac_mode cfg) \<and> \<not> be_live_client B then Inl ClientFailed
         else and_then (ok_or Panicked (select_adapter D (be_curve B) (be_keccak B) (be_hex_error B) (be_salt B) (be_clock B) cfg)) (\<lambda>v.
           let A = initial_state (be_ordinal B) cfg (case gen of Some g \<Rightarrow> dg_wallets g | None \<Rightarrow> []) (venue_gaps v)
                     (open_store (be_connect B) cfg) v now;
               P = start D (be_reread B) (be_rest_client B) now A
           in and_then (ok_or NoReplayFile (tasks_of cfg (be_rest_client B) gen)) (\<lambda>ts.
                Inr \<lparr>bt_config = cfg, bt_venue = v, bt_pipe = P, bt_tasks = ts\<rparr>))))"

text \<open>With \<open>--check\<close> the program ends after the configuration has loaded.\<close>

definition boot :: "'k boot_env \<Rightarrow> cli \<Rightarrow> env \<Rightarrow> startup_error + booted option" where
  "boot B c e =
     and_then (map_err ConfigInvalid (from_env (be_dec B) (be_parse_f64 B) (cli_env c e))) (\<lambda>cfg.
       if cl_check c then Inr None else and_then (run_program B cfg) (\<lambda>b. Inr (Some b)))"

subsection \<open>What a start gives\<close>

lemma recover_switch: "ap_kill_switch (recover D reread now A) = ap_kill_switch A"
  by (simp add: recover_def Let_def split: sum.split)

lemma persist_wallets_switch: "ap_kill_switch (persist_wallets A) = ap_kill_switch A"
proof -
  have "ap_kill_switch (foldl (\<lambda>B w. persist (save_wallet w) B) A ws) = ap_kill_switch A" for ws
    by (induction ws arbitrary: A) simp_all
  then show ?thesis by (simp add: persist_wallets_def)
qed

lemma start_switch: "ap_kill_switch (pl_state (start D reread rest now A)) = ap_kill_switch A"
  by (simp add: start_def Let_def with_subscriptions_def with_rest_def pipeline_new_def persist_wallets_switch recover_switch)

lemma startup_gaps:
  assumes "validate cfg = Inr ()" and "is_live (ac_mode cfg)"
  shows "readiness_gaps (startup_live D C keccak hex_error salt clock cfg) =
    (if startup_signer C keccak hex_error cfg = None then [''an OrderSigner implementation (EIP-712 L1 signing)''] else [])"
    and "lx_armed (startup_live D C keccak hex_error salt clock cfg)"
proof -
  from assms obtain a where a: "lc_funder_address (ac_live cfg) = Some a" "lc_trading_enabled (ac_live cfg)"
    by (auto simp: validate_Inr validate_live_Inr)
  with assms(2) show "readiness_gaps (startup_live D C keccak hex_error salt clock cfg) =
    (if startup_signer C keccak hex_error cfg = None then [''an OrderSigner implementation (EIP-712 L1 signing)''] else [])"
    by (simp add: startup_live_def readiness_gaps_def with_credentials_def live_execution_new_def with_funder_def
        with_signer_def live_execution_armed_def Let_def split: option.split)
  from a assms(2) show "lx_armed (startup_live D C keccak hex_error salt clock cfg)"
    by (simp add: startup_live_def with_credentials_def live_execution_new_def with_funder_def
        with_signer_def live_execution_armed_def Let_def split: option.split)
qed

lemma boot_Inr:
  assumes "boot B c e = Inr (Some b)"
  obtains gen where "from_env (be_dec B) (be_parse_f64 B) (cli_env c e) = Inr (bt_config b)"
    and "demo_gen (be_dec B) (be_draw B) (bt_config b) = Some gen"
    and "select_adapter (be_dec B) (be_curve B) (be_keccak B) (be_hex_error B) (be_salt B) (be_clock B) (bt_config b) = Some (bt_venue b)"
    and "tasks_of (bt_config b) (be_rest_client B) gen = Some (bt_tasks b)"
    and "ap_kill_switch (pl_state (bt_pipe b)) = startup_switch (ac_mode (bt_config b)) (venue_gaps (bt_venue b)) (be_now B)"
proof -
  from assms obtain cfg where cfg: "from_env (be_dec B) (be_parse_f64 B) (cli_env c e) = Inr cfg" "run_program B cfg = Inr b"
    by (auto simp: boot_def and_then_Inr split: if_splits)
  from cfg(2) obtain gen v ts where "demo_gen (be_dec B) (be_draw B) cfg = Some gen"
      "select_adapter (be_dec B) (be_curve B) (be_keccak B) (be_hex_error B) (be_salt B) (be_clock B) cfg = Some v"
      "tasks_of cfg (be_rest_client B) gen = Some ts" "b = \<lparr>bt_config = cfg, bt_venue = v,
         bt_pipe = start (be_dec B) (be_reread B) (be_rest_client B) (be_now B)
           (initial_state (be_ordinal B) cfg (case gen of Some g \<Rightarrow> dg_wallets g | None \<Rightarrow> []) (venue_gaps v)
              (open_store (be_connect B) cfg) v (be_now B)), bt_tasks = ts\<rparr>"
    by (auto simp: run_program_def and_then_Inr Let_def split: if_splits)
  with cfg(1) that show thesis by (simp add: start_switch) (simp add: initial_state_def)
qed

lemma no_demo_task: "tasks_of cfg rest None = Some ts \<Longrightarrow> list_all (\<lambda>t. case t of DemoTask _ \<Rightarrow> False | _ \<Rightarrow> True) ts"
  by (auto simp: tasks_of_def list_all_iff split: app_mode.splits if_splits)

subsection \<open>Properties\<close>

text \<open>C10: Real money needs every switch. When the program starts on a live venue, the mode was asked for on the command line or in the
  environment and the second switch was set, no demo generator and no replay runs, and the adapter is armed. It
  then misses at most its signer, which it has exactly when the private key can be used: without it the desk
  starts halted and no order leaves, whatever is submitted; with it nothing is missing and the switch is off. In every
  other mode the venue is simulated and the switch is off.\<close>

theorem real_money_needs_every_switch:
  assumes "boot B c e = Inr (Some b)" and "E = cli_env c e"
  shows "case bt_venue b of
      PaperVenue _ \<Rightarrow> to_ascii_lowercase (or_default (env_opt E ''APP_MODE'') ''paper'') \<noteq> ''live'' \<and>
        \<not> ks_engaged (ap_kill_switch (pl_state (bt_pipe b)))
    | LiveVenue L \<Rightarrow>
        to_ascii_lowercase (or_default (env_opt E ''APP_MODE'') ''paper'') = ''live'' \<and>
        env_bool E ''LIVE_TRADING_ENABLED'' False \<and> \<not> env_bool E ''DEMO_DATA'' False \<and> lx_armed L \<and>
        expose (sv_api_token (ac_server (bt_config b))) \<noteq> [] \<and>
        list_all (\<lambda>t. case t of DemoTask _ \<Rightarrow> False | ReplayTask _ \<Rightarrow> False | _ \<Rightarrow> True) (bt_tasks b) \<and>
        (if startup_signer (be_curve B) (be_keccak B) (be_hex_error B) (bt_config b) = None
         then ks_engaged (ap_kill_switch (pl_state (bt_pipe b))) \<and> fst (live_submit V answer stamp sent_at L order) = None
         else readiness_gaps L = [] \<and> \<not> ks_engaged (ap_kill_switch (pl_state (bt_pipe b))))"
proof -
  obtain gen where f: "from_env (be_dec B) (be_parse_f64 B) E = Inr (bt_config b)"
    and gen: "demo_gen (be_dec B) (be_draw B) (bt_config b) = Some gen"
    and v: "select_adapter (be_dec B) (be_curve B) (be_keccak B) (be_hex_error B) (be_salt B) (be_clock B) (bt_config b) = Some (bt_venue b)"
    and ts: "tasks_of (bt_config b) (be_rest_client B) gen = Some (bt_tasks b)"
    and ks: "ap_kill_switch (pl_state (bt_pipe b)) = startup_switch (ac_mode (bt_config b)) (venue_gaps (bt_venue b)) (be_now B)"
    using boot_Inr [OF assms(1)] unfolding assms(2) by metis
  note env = from_env_Inr [OF f]
  have mode: "is_live (ac_mode (bt_config b)) \<longleftrightarrow> to_ascii_lowercase (or_default (env_opt E ''APP_MODE'') ''paper'') = ''live''"
    by (rule parse_mode_live [OF env(1)])
  have off: "\<not> ks_engaged kill_switch_new" by (simp add: kill_switch_new_def)
  show ?thesis
  proof (cases "is_live (ac_mode (bt_config b))")
    case False
    then obtain p where "bt_venue b = PaperVenue p" using v by (auto simp: select_adapter_def dest: sym)
    moreover have "\<not> ks_engaged (ap_kill_switch (pl_state (bt_pipe b)))" using False off by (simp add: ks startup_switch_def)
    ultimately show ?thesis using False mode by simp
  next
    case True
    have sw: "lc_trading_enabled (ac_live (bt_config b)) = env_bool E ''LIVE_TRADING_ENABLED'' False"
    proof -
      have "lc_trading_enabled l = env_bool E ''LIVE_TRADING_ENABLED'' False" if "load_live (be_dec B) E = Inr l" for l
        using that by (auto simp: load_live_def and_then_Inr)
      from this [OF env(3)] show ?thesis .
    qed
    have ok: "lc_trading_enabled (ac_live (bt_config b))" "expose (sv_api_token (ac_server (bt_config b))) \<noteq> []"
      "\<not> ac_demo_data (bt_config b)" using env(7) True by (auto simp: validate_Inr validate_live_Inr)
    define L where "L = startup_live (be_dec B) (be_curve B) (be_keccak B) (be_hex_error B) (be_salt B) (be_clock B) (bt_config b)"
    have L: "bt_venue b = LiveVenue L" using v True by (simp add: select_adapter_def L_def)
    have "gen = None" using gen ok(3) by (simp add: demo_gen_def)
    with ts True have tasks: "list_all (\<lambda>t. case t of DemoTask _ \<Rightarrow> False | ReplayTask _ \<Rightarrow> False | _ \<Rightarrow> True) (bt_tasks b)"
      by (auto simp: tasks_of_def is_live_def dest!: sym [of _ "bt_tasks b"])
    note gaps = startup_gaps [OF env(7) True, of "be_dec B" "be_curve B" "be_keccak B" "be_hex_error B" "be_salt B" "be_clock B", folded L_def]
    have "ks_engaged (ap_kill_switch (pl_state (bt_pipe b))) \<longleftrightarrow> readiness_gaps L \<noteq> []"
      using True off by (simp add: ks startup_switch_def L venue_gaps_def engage_def)
    moreover have "readiness_gaps L \<noteq> [] \<Longrightarrow> fst (live_submit V answer stamp sent_at L order) = None"
      by (simp add: live_submit_def Let_def split: list.split)
    ultimately have "if startup_signer (be_curve B) (be_keccak B) (be_hex_error B) (bt_config b) = None
        then ks_engaged (ap_kill_switch (pl_state (bt_pipe b))) \<and> fst (live_submit V answer stamp sent_at L order) = None
        else readiness_gaps L = [] \<and> \<not> ks_engaged (ap_kill_switch (pl_state (bt_pipe b)))"
      using gaps(1) by simp
    then show ?thesis
      unfolding L venue.case using gaps(2) mode True sw ok env(6) tasks by (intro conjI) (simp_all only: simp_thms)
  qed
qed

text \<open>The sample environment asks for live trading with a key that the curve does not accept.\<close>

definition plain_boot :: "nat boot_env" where
  "plain_boot = \<lparr>be_dec = exact_decimal, be_parse_f64 = (\<lambda>_. None),
     be_curve = \<lparr>ec_key = (\<lambda>_. Inl []), ec_public = (\<lambda>_. []), ec_sign = (\<lambda>_ _. Inl []),
       ec_signature_ok = (\<lambda>_. Inl []), ec_recover = (\<lambda>_ _ _. Inl [])\<rparr>,
     be_keccak = (\<lambda>m. take 32 m), be_hex_error = (\<lambda>_. []), be_salt = (\<lambda>_. 0), be_clock = (\<lambda>_. 0), be_draw = (\<lambda>_. 0),
     be_connect = (\<lambda>_ _. Inl []), be_live_client = True, be_rest_client = True, be_ordinal = (\<lambda>_. 0), be_reread = Some, be_now = 5\<rparr>"

definition no_flags :: cli where
  "no_flags = \<lparr>cl_mode = None, cl_file = None, cl_demo = False, cl_port = None, cl_check = False\<rparr>"

lemma plain_boot_starts:
  "\<exists>b L. boot plain_boot no_flags live_env = Inr (Some b) \<and> bt_venue b = LiveVenue L \<and>
     startup_signer (be_curve plain_boot) (be_keccak plain_boot) (be_hex_error plain_boot) (bt_config b) = None"
proof -
  obtain cfg where cfg: "from_env exact_decimal (\<lambda>_. None) live_env = Inr cfg" "live_execution_armed cfg"
    using live_env_loads by blast
  from from_env_Inr(7) [OF cfg(1)] cfg(2) have m: "is_live (ac_mode cfg)" "\<not> ac_demo_data cfg"
    by (auto simp: live_execution_armed_def validate_Inr validate_live_Inr)
  have "cli_env no_flags live_env = live_env" by (simp add: cli_env_def no_flags_def set_opt_def)
  moreover have "startup_signer (be_curve plain_boot) (be_keccak plain_boot) (be_hex_error plain_boot) cfg = None"
  proof -
    have "eoa_signer_new (be_curve plain_boot) k h pk m t \<noteq> Inr S" for k h pk m t S
      by (auto simp: eoa_signer_new_def Let_def and_then_Inr map_err_Inr plain_boot_def split: if_splits)
    then have "ok (eoa_signer_new (be_curve plain_boot) k h pk m t) = None" for k h pk m t
      by (cases "eoa_signer_new (be_curve plain_boot) k h pk m t") auto
    then show ?thesis by (simp add: startup_signer_def case_prod_beta)
  qed
  moreover have "ac_mode cfg \<noteq> ReplayMode" using m(1) by (auto simp: is_live_def)
  ultimately show ?thesis
    using cfg(1) m by (auto simp: boot_def plain_boot_def no_flags_def run_program_def demo_gen_def select_adapter_def
        tasks_of_def Let_def split: app_mode.splits)
qed

theorem real_money_needs_every_switch_witness:
  "\<exists>b L. boot plain_boot no_flags live_env = Inr (Some b) \<and> bt_venue b = LiveVenue L \<and> lx_armed L \<and>
     ks_engaged (ap_kill_switch (pl_state (bt_pipe b))) \<and>
     fst (live_submit plain_env (\<lambda>_. HttpAnswer 200 []) 9 9 L (buy_request 100)) = None"
proof -
  obtain b L where b: "boot plain_boot no_flags live_env = Inr (Some b)" "bt_venue b = LiveVenue L"
      "startup_signer (be_curve plain_boot) (be_keccak plain_boot) (be_hex_error plain_boot) (bt_config b) = None"
    using plain_boot_starts by blast
  from real_money_needs_every_switch [OF b(1) refl, of plain_env "\<lambda>_. HttpAnswer 200 []" 9 9 "buy_request 100"] b
  show ?thesis by auto
qed

end
