(* ===== verification/CopyCost.thy ===== *)
theory CopyCost
  imports Desk
begin

text \<open>
  What one call of the pipeline can cost. The strategy sizes a copy, the risk engine approves its
  notional at the limit price, the book of orders submits it, the simulated venue matches it against
  the cached book and the portfolio books the fill: this theory follows the money through all of
  them. It holds no model of its own; the operations are those of \<open>Strategy\<close>, \<open>Risk\<close>, \<open>Orders\<close>,
  \<open>OrderManager\<close>, \<open>Matching\<close>, \<open>Paper\<close>, \<open>Portfolio\<close> and \<open>Pipeline\<close>.
\<close>

subsection \<open>One trade in the books\<close>

text \<open>The portfolio \<open>pf'\<close> is \<open>pf\<close> after a trade of \<open>q\<close> shares at \<open>p\<close> with a fee of \<open>bps\<close> basis
  points; \<open>q = 0\<close> says that neither the money nor the positions moved.\<close>

definition booked_trade :: "nat \<Rightarrow> side \<Rightarrow> token_id \<Rightarrow> qty \<Rightarrow> price \<Rightarrow> portfolio \<Rightarrow> portfolio \<Rightarrow> bool" where
  "booked_trade bps s token q p pf pf' \<longleftrightarrow>
     pf_cash pf' = pf_cash pf - side_sign s * (q * p) - q * p * of_nat bps / 10000 \<and>
     pf_fees pf' = pf_fees pf + q * p * of_nat bps / 10000 \<and>
     (\<forall>t. net_of pf' t = net_of pf t + (if t = token then side_sign s * q else 0))"

lemma booked_nothing:
  "pf_cash pf' = pf_cash pf \<Longrightarrow> pf_fees pf' = pf_fees pf \<Longrightarrow> pf_positions pf' = pf_positions pf \<Longrightarrow>
     booked_trade bps s token 0 p pf pf'"
  using net_of_cong [of pf' pf] by (simp add: booked_trade_def)

lemma attribute_money [simp]:
  "pf_cash (attribute_order pf i w) = pf_cash pf" "pf_fees (attribute_order pf i w) = pf_fees pf"
  by (simp_all add: attribute_order_def)

lemma refresh_peak_fees [simp]: "pf_fees (refresh_peak D P) = pf_fees P"
  by (simp add: refresh_peak_def Let_def)

text \<open>A copy that was paid for: positive, at a valid price within the limit of the order, and its
  notional at that limit price is one that the engine approved.\<close>

definition affordable :: "risk_limits \<Rightarrow> side \<Rightarrow> qty \<Rightarrow> price \<Rightarrow> bool" where
  "affordable L s q p \<longleftrightarrow> 0 \<le> q \<and> valid_price p \<and>
     (q \<noteq> 0 \<longrightarrow> s = Buy \<longrightarrow> q * p \<le> rl_max_trade_usd L)"

definition copy_affordable :: "risk_limits \<Rightarrow> nat \<Rightarrow> side \<Rightarrow> token_id \<Rightarrow> portfolio \<Rightarrow> portfolio \<Rightarrow> bool" where
  "copy_affordable L bps s token pf pf' \<longleftrightarrow> (\<exists>q p. affordable L s q p \<and> booked_trade bps s token q p pf pf')"

lemma copy_nothing:
  "pf_cash pf' = pf_cash pf \<Longrightarrow> pf_fees pf' = pf_fees pf \<Longrightarrow> pf_positions pf' = pf_positions pf \<Longrightarrow>
     copy_affordable L bps s token pf pf'"
  unfolding copy_affordable_def affordable_def
  by (rule exI [of _ 0], rule exI [of _ PRICE_MIN])
    (simp add: booked_nothing valid_price_def PRICE_MIN_def PRICE_MAX_def)

lemma copy_same: "ap_portfolio A' = ap_portfolio A \<Longrightarrow> copy_affordable L bps s token (ap_portfolio A) (ap_portfolio A')"
  by (rule copy_nothing) simp_all

context decimal_exact
begin

lemma fill_booked:
  assumes "fi_side f = s" and "fi_token_id f = token" and "fi_fee f = fi_quantity f * fi_price f * of_nat bps / 10000"
  shows "booked_trade bps s token (fi_quantity f) (fi_price f) pf
           (fst (portfolio_apply_fill D ordinal pf f oc now))"
  using assms
  by (cases s) (simp_all add: booked_trade_def net_of_fill signed_qty_def,
      simp_all add: portfolio_apply_fill_def cash_delta_def fill_notional_def qty_notional_def exact Let_def
        split: prod.split)

subsection \<open>The fills of one submission\<close>

text \<open>An immediate-or-cancel order gets at most one fill, for at most its quantity, at its limit price
  or better, and the fee is the configured share.\<close>

lemma submit_fills:
  assumes "paper_submit D uuid c v r fx = (v', Inr a)" and "cache_ok c" and "request_ok r"
    and "fraction_draw D (dr_frac (fx_draws fx))"
  shows "ak_immediate_fills a = [] \<or> (\<exists>f. ak_immediate_fills a = [f] \<and> 0 < fi_quantity f \<and>
      fi_quantity f \<le> rq_quantity r \<and> valid_price (fi_price f) \<and> fi_side f = rq_side r \<and>
      fi_token_id f = rq_token_id r \<and>
      fi_fee f = fi_quantity f * fi_price f * of_nat (mp_fee_bps (pp_params v)) / 10000 \<and>
      (case rq_side r of Buy \<Rightarrow> fi_price f \<le> rq_limit_price r | Sell \<Rightarrow> rq_limit_price r \<le> fi_price f))"
proof -
  obtain book where b: "cache_get c (rq_token_id r) = Some book"
    using assms(1) by (auto simp: paper_submit_def split: option.splits)
  have vb: "valid_levels book" using assms(2) b by (auto simp: cache_ok_def)
  have r: "0 \<le> rq_quantity r" "valid_price (rq_limit_price r)" using assms(3) by (simp_all add: request_ok_def)
  show ?thesis
  proof (cases "match_order D r book (pp_params v) (fx_draws fx)")
    case (SimFilled q p fee mk)
    obtain v1 f where rec: "record_fill D uuid v r q p fee mk fx = (v1, f)" by force
    have "ak_immediate_fills a = [f]"
      using assms(1) b SimFilled rec by (auto simp: paper_submit_def Let_def split: prod.splits)
    with match_order_sound [OF vb r assms(4) SimFilled] record_fill_fields [OF rec] show ?thesis
      by (cases "rq_side r") simp_all
  next
    case SimResting
    with assms(1) b show ?thesis by (auto simp: paper_submit_def Let_def split: prod.splits)
  qed (use assms(1) b in \<open>auto simp: paper_submit_def\<close>)
qed

subsection \<open>From the decision to the books\<close>

lemma execute_order_affordable:
  assumes E: "paper_env D E" and c: "cache_ok books" and bps: "bps = mp_fee_bps (pp_params (ap_venue A))"
    and r: "request_ok order" "rq_order_id order = ci_order_id ci" "request_notional D order \<le> rl_max_trade_usd L"
  shows "copy_affordable L bps (rq_side order) (rq_token_id order) (ap_portfolio A)
           (ap_portfolio (execute_order D E ci books t s order A))"
proof -
  obtain fx where fx: "pe_submit E = (\<lambda>c v r. paper_submit D (pe_uuid E) c v r (fx (rq_order_id r)))"
    "\<And>i. fraction_draw D (dr_frac (fx_draws (fx i)))" using E by (auto simp: paper_env_def)
  have q: "rq_quantity order \<noteq> 0" using r(1) by (simp add: request_ok_def)
  let ?pf = "attribute_order (ap_portfolio A) (rq_order_id order) (cs_target_wallet s)"
  obtain om o' om' v out where x: "om_get om (rq_order_id order) = Some o'" "or_state o' = Validated"
    "order_id_of o' = rq_order_id order" "or_filled_qty o' = 0" "or_request o' = order"
    "om_submit D (pe_uuid E) (pe_submit E books) om (ap_venue A) (rq_order_id order) (ci_clock ci AtSubmit)
       (ci_clock ci AtVenue) (ci_fill_clock ci) = (om', v, out)"
    "ap_portfolio (execute_order D E ci books t s order A) =
       (case out of
          SubAcknowledged _ fs \<Rightarrow>
            foldl (\<lambda>pf f. fst (portfolio_apply_fill D (pe_ordinal E) pf f (cs_outcome s) (ci_clock ci AtFill))) ?pf fs
        | _ \<Rightarrow> ?pf)"
    by (rule execute_order_result [OF q r(2), of D E books A t s]) (metis (no_types, lifting))
  obtain res where sub: "paper_submit D (pe_uuid E) books (ap_venue A) order (fx (rq_order_id order)) = (v, res)"
    using om_submit_venue [OF x(1,2,6)] x(5) by (simp add: fx(1) prod_eq_iff)
  note L = execution_adapter.lawful_submit [OF paper_as_adapter [OF c fx(2)] decimal_additive_axioms TrueI x(1-4)
      _ x(6) [unfolded fx(1)]]
  show ?thesis
  proof (cases res)
    case (Inl e)
    then have "\<not> (\<exists>i fs. out = SubAcknowledged i fs)"
      using L r(1) x(5) sub by (auto split: if_splits)
    with x(7) show ?thesis by (cases out) (simp_all add: copy_nothing)
  next
    case (Inr a)
    then have out: "out = SubAcknowledged (rq_order_id order) (ak_immediate_fills a)"
      using L r(1) x(5) sub by auto
    from submit_fills [OF sub [unfolded Inr] c r(1) fx(2)]
    show ?thesis
    proof (elim disjE exE conjE)
      assume "ak_immediate_fills a = []"
      with out x(7) show ?thesis by (simp add: copy_nothing)
    next
      fix f
      assume f: "ak_immediate_fills a = [f]" "0 < fi_quantity f" "fi_quantity f \<le> rq_quantity order"
        "valid_price (fi_price f)" "fi_side f = rq_side order" "fi_token_id f = rq_token_id order"
        "fi_fee f = fi_quantity f * fi_price f * of_nat (mp_fee_bps (pp_params (ap_venue A))) / 10000"
        "case rq_side order of Buy \<Rightarrow> fi_price f \<le> rq_limit_price order | Sell \<Rightarrow> rq_limit_price order \<le> fi_price f"
      have "fi_quantity f * fi_price f \<le> rl_max_trade_usd L" if "rq_side order = Buy"
      proof -
        have "fi_quantity f * fi_price f \<le> rq_quantity order * rq_limit_price order"
          using f that by (intro mult_mono) (simp_all add: valid_price_def)
        with r(3) show ?thesis by (simp add: request_notional_def qty_notional_def exact)
      qed
      then have "affordable L (rq_side order) (fi_quantity f) (fi_price f)" using f by (simp add: affordable_def)
      moreover have "booked_trade bps (rq_side order) (rq_token_id order) (fi_quantity f) (fi_price f) ?pf
          (ap_portfolio (execute_order D E ci books t s order A))"
        using fill_booked [OF f(5,6,7)] x(7) out f(1) bps by simp
      then have "booked_trade bps (rq_side order) (rq_token_id order) (fi_quantity f) (fi_price f) (ap_portfolio A)
          (ap_portfolio (execute_order D E ci books t s order A))"
        by (simp add: booked_trade_def)
      ultimately show ?thesis by (auto simp: copy_affordable_def)
    qed
  qed
qed

lemma decide_affordable:
  assumes E: "paper_env D E" and c: "cache_ok books" and bps: "bps = mp_fee_bps (pp_params (ap_venue A))"
  shows "copy_affordable (re_limits (ap_risk A)) bps (so_side t) (so_token_id t) (ap_portfolio A)
           (ap_portfolio (decide D E ci tr books t w book A))"
proof (cases rule: decide_cases [of D E ci tr books t w book A])
  case skipped
  then show ?thesis using skip_trade_desk(1) [of ci t A] by (intro copy_same) (simp add: same_desk_def)
next
  case (refused s tick r)
  then show ?thesis
    using refuse_order_desk(1) [of E ci s r "note_signal D E ci t w s A"] note_signal_desk(1) [of D E ci t w s A]
    by (intro copy_same) (simp add: same_desk_def)
next
  case (placed s tick)
  let ?r = "build_order ci s tick" and ?N = "note_signal D E ci t w s A"
  have N: "ap_portfolio ?N = ap_portfolio A" "ap_venue ?N = ap_venue A"
    using note_signal_desk(1) [of D E ci t w s A] by (simp_all add: same_desk_def)
  have s: "rq_side ?r = so_side t" "rq_token_id ?r = so_token_id t"
    using signal_fields [OF placed(1)] by (auto simp: build_order_def)
  have n: "request_notional D ?r \<le> rl_max_trade_usd (re_limits (ap_risk A))"
    using placed(2) unfolding pipe_verdict_def check_Approved check_amounts_Approved by (simp add: Let_def)
  have i: "rq_order_id ?r = ci_order_id ci" by (simp add: build_order_def)
  from execute_order_affordable [OF E c _ built_order_ok [OF placed(1)] i n, of bps ?N t s] bps
  show ?thesis by (simp add: N s placed(3))
qed

lemma call_affordable:
  assumes "paper_env D E" and "call_ok ci" and "desk_ok P"
  shows "copy_affordable (re_limits (ap_risk (pl_state P))) (mp_fee_bps (pp_params (ap_venue (pl_state P))))
           (so_side t) (so_token_id t) (ap_portfolio (pl_state P))
           (ap_portfolio (pl_state (on_source_trade D E ci P t)))"
proof -
  let ?P = "on_state (note_trade D t) P"
  have N: "ap_portfolio (note_trade D t A) = ap_portfolio A" "ap_venue (note_trade D t A) = ap_venue A"
    "ap_risk (note_trade D t A) = ap_risk A" for A :: "paper app_state"
    using note_trade_desk(1) [of D t A] by (simp_all add: same_desk_def)
  obtain P2 book where b: "book_for ci ?P (so_token_id t) = (P2, book)" by force
  have 2: "cache_ok (pl_books P2)" "pl_state P2 = note_trade D t (pl_state P)"
    using book_for_cache [OF assms(2), of ?P "so_token_id t"] book_for_state(1) [of ci ?P "so_token_id t"] assms(3)
    unfolding b by (simp_all add: desk_ok_def on_state_def)
  show ?thesis
  proof (cases "get_wallet (ap_tracker (pl_state ?P)) (so_trader t)")
    case None
    then have "on_source_trade D E ci P t = ?P" by (simp add: on_source_trade_def Let_def)
    then show ?thesis by (intro copy_same) (simp add: on_state_def N)
  next
    case (Some w)
    then have "pl_state (on_source_trade D E ci P t) =
        decide D E ci (pl_trader P2) (pl_books P2) t w book (note_trade D t (pl_state P))"
      using b by (simp add: on_source_trade_def Let_def) (simp add: on_state_def 2)
    with decide_affordable [OF assms(1) 2(1) refl, of "note_trade D t (pl_state P)" t ci "pl_trader P2" w book]
    show ?thesis by (simp add: N)
  qed
qed

end

subsection \<open>What a call does not touch\<close>

lemma submit_params:
  assumes "paper_submit D uuid c v r fx = (v', res)"
  shows "pp_params v' = pp_params v"
proof (cases "cache_get c (rq_token_id r)")
  case None
  with assms show ?thesis by (simp add: paper_submit_def)
next
  case (Some book)
  show ?thesis
  proof (cases "match_order D r book (pp_params v) (fx_draws fx)")
    case (SimFilled q p fee mk)
    obtain v1 f where rec: "record_fill D uuid v r q p fee mk fx = (v1, f)" by force
    define v2 where "v2 = (if \<not> q \<ge> rq_quantity r \<and> rq_time_in_force r = Gtc
      then rest_order v1 r (qty_saturating_sub D (rq_quantity r) q) else v1)"
    have "v' = fst (next_venue_id v2)"
      using assms Some SimFilled rec by (auto simp: paper_submit_def v2_def Let_def split: prod.splits)
    with record_fill_fields(2) [OF rec] show ?thesis by (simp add: v2_def)
  next
    case SimResting
    with assms Some show ?thesis
      by (auto simp: paper_submit_def Let_def next_venue_id_def split: prod.splits)
  qed (use assms Some in \<open>auto simp: paper_submit_def\<close>)
qed

lemma execute_order_frame:
  assumes "paper_env D E" and "rq_quantity order \<noteq> 0" and "rq_order_id order = ci_order_id ci"
  shows "ap_risk (execute_order D E ci books t s order A) = ap_risk A"
    and "pp_params (ap_venue (execute_order D E ci books t s order A)) = pp_params (ap_venue A)"
proof -
  show "ap_risk (execute_order D E ci books t s order A) = ap_risk A"
    by (simp add: execute_order_def Let_def settle_outcome_fields split: prod.splits sum.splits)
  obtain fx where fx: "pe_submit E = (\<lambda>c v r. paper_submit D (pe_uuid E) c v r (fx (rq_order_id r)))"
    using assms(1) by (auto simp: paper_env_def)
  obtain om o' om' v out where x: "om_get om (rq_order_id order) = Some o'" "or_state o' = Validated"
    "om_submit D (pe_uuid E) (pe_submit E books) om (ap_venue A) (rq_order_id order) (ci_clock ci AtSubmit)
       (ci_clock ci AtVenue) (ci_fill_clock ci) = (om', v, out)"
    "ap_venue (execute_order D E ci books t s order A) = v"
    by (rule execute_order_result [OF assms(2,3), of D E books A t s]) metis
  show "pp_params (ap_venue (execute_order D E ci books t s order A)) = pp_params (ap_venue A)"
    using om_submit_venue [OF x(1-3)] x(4) submit_params by (simp add: fx) (metis prod.collapse)
qed

lemma call_frame:
  assumes "decimal_exact D" and "paper_env D E"
  shows "ap_risk (pl_state (on_source_trade D E ci P t)) = ap_risk (pl_state P)"
    and "pp_params (ap_venue (pl_state (on_source_trade D E ci P t))) = pp_params (ap_venue (pl_state P))"
proof -
  define same where "same B \<longleftrightarrow> ap_risk B = ap_risk (pl_state P) \<and>
    pp_params (ap_venue B) = pp_params (ap_venue (pl_state P))" for B :: "paper app_state"
  have keep: "same_desk A B \<Longrightarrow> same B \<Longrightarrow> same A" for A B by (simp add: same_def same_desk_def)
  have N: "same (note_trade D t (pl_state P))" by (rule keep [OF note_trade_desk(1)]) (simp add: same_def)
  have "same (pl_state (on_source_trade D E ci P t))"
  proof (cases rule: on_source_trade_cases [of P t D E ci])
    case (tracked w books book)
    show ?thesis
    proof (cases rule: decide_cases [of D E ci "pl_trader P" books t w book "note_trade D t (pl_state P)"])
      case (placed s tick)
      let ?S = "note_signal D E ci t w s (note_trade D t (pl_state P))" and ?r = "build_order ci s tick"
      have "rq_quantity ?r \<noteq> 0" using decimal_exact.built_order_ok [OF assms(1) placed(1), of ci tick]
        by (simp add: request_ok_def)
      moreover have "rq_order_id ?r = ci_order_id ci" by (simp add: build_order_def)
      ultimately show ?thesis
        using keep [OF note_signal_desk(1) N] tracked(2) placed(3) execute_order_frame [OF assms(2)]
        by (simp add: same_def)
    qed (use tracked(2) N keep [OF skip_trade_desk(1)] keep [OF refuse_order_desk(1)] keep [OF note_signal_desk(1)]
          in simp_all)
  qed (use N in simp)
  then show "ap_risk (pl_state (on_source_trade D E ci P t)) = ap_risk (pl_state P)"
    "pp_params (ap_venue (pl_state (on_source_trade D E ci P t))) = pp_params (ap_venue (pl_state P))"
    by (simp_all add: same_def)
qed

lemma copy_cost:
  assumes "copy_affordable L bps s token pf pf'"
  obtains q p where "0 \<le> q" "valid_price p" "booked_trade bps s token q p pf pf'"
    "s = Buy \<Longrightarrow> q * p \<le> max 0 (rl_max_trade_usd L)"
    "s = Buy \<or> bps \<le> 10000 \<Longrightarrow>
       pf_cash pf - max 0 (rl_max_trade_usd L) * (1 + of_nat bps / 10000) \<le> pf_cash pf'"
proof -
  obtain q p where x: "0 \<le> q" "valid_price p" "q \<noteq> 0 \<longrightarrow> s = Buy \<longrightarrow> q * p \<le> rl_max_trade_usd L"
    "booked_trade bps s token q p pf pf'" using assms by (auto simp: copy_affordable_def affordable_def)
  define m where "m = max 0 (rl_max_trade_usd L)"
  have n: "s = Buy \<Longrightarrow> q * p \<le> m" using x(3) by (cases "q = 0") (auto simp: m_def)
  have pos: "0 \<le> q * p" "0 \<le> m" using x(1,2) by (simp_all add: valid_price_def m_def)
  define f where "f = (of_nat bps :: rat) / 10000"
  have f: "0 \<le> f" "bps \<le> 10000 \<Longrightarrow> f \<le> 1" by (simp_all add: f_def)
  have c: "pf_cash pf' = pf_cash pf - side_sign s * (q * p) - q * p * f"
    using x(4) by (simp add: booked_trade_def f_def)
  have "pf_cash pf - m * (1 + f) \<le> pf_cash pf'" if "s = Buy \<or> bps \<le> 10000"
  proof (cases s)
    case Buy
    have "q * p * (1 + f) \<le> m * (1 + f)" using n [OF Buy] f(1) by (intro mult_right_mono) simp_all
    with c Buy show ?thesis by (simp add: algebra_simps)
  next
    case Sell
    have "q * p * f \<le> q * p * 1" using that Sell f pos by (intro mult_left_mono) simp_all
    moreover have "0 \<le> m * (1 + f)" using pos f by simp
    ultimately show ?thesis using c Sell by simp
  qed
  with that [OF x(1,2,4)] n show ?thesis by (simp add: m_def f_def)
qed

subsection \<open>A run of calls\<close>

definition trade_calls ::
    "decimal_ops \<Rightarrow> 's pipe_env \<Rightarrow> 's pipeline \<Rightarrow> (call_inputs \<times> source_trade) list \<Rightarrow> 's pipeline" where
  "trade_calls D E P cs = foldl (\<lambda>P (ci, t). on_source_trade D E ci P t) P cs"

lemma trade_calls_simps [simp]:
  "trade_calls D E P [] = P"
  "trade_calls D E P ((ci, t) # cs) = trade_calls D E (on_source_trade D E ci P t) cs"
  by (simp_all add: trade_calls_def)

lemma calls_cost:
  assumes "decimal_exact D" and "paper_env D E"
    and "\<And>ci t. (ci, t) \<in> set cs \<Longrightarrow> call_ok ci \<and> (so_side t = Buy \<or> bps \<le> 10000)"
    and "desk_ok P" and "bps = mp_fee_bps (pp_params (ap_venue (pl_state P)))"
    and "c = max 0 (rl_max_trade_usd (re_limits (ap_risk (pl_state P)))) * (1 + of_nat bps / 10000)"
  shows "pf_cash (ap_portfolio (pl_state P)) - of_nat (length cs) * c
           \<le> pf_cash (ap_portfolio (pl_state (trade_calls D E P cs)))"
  using assms(3-)
proof (induction cs arbitrary: P)
  case (Cons x cs)
  obtain ci t where x: "x = (ci, t)" by force
  let ?P = "on_source_trade D E ci P t"
  have ci: "call_ok ci" "so_side t = Buy \<or> bps \<le> 10000" using Cons.prems(1) x by auto
  note frame = call_frame [OF assms(1,2), of ci P t]
  have "pf_cash (ap_portfolio (pl_state P)) - c \<le> pf_cash (ap_portfolio (pl_state ?P))"
    using copy_cost [OF decimal_exact.call_affordable [OF assms(1,2) ci(1) Cons.prems(2), of t]] ci(2) Cons.prems(3,4)
    by metis
  moreover have "pf_cash (ap_portfolio (pl_state ?P)) - of_nat (length cs) * c
      \<le> pf_cash (ap_portfolio (pl_state (trade_calls D E ?P cs)))"
    by (rule Cons.IH) (use Cons.prems frame decimal_exact.on_source_trade_agrees [OF assms(1,2) ci(1)] in auto)
  ultimately show ?case by (simp add: x algebra_simps)
qed simp

subsection \<open>Properties\<close>


lemma open_desk_reached: "paper_desk exact_decimal open_desk"
  by (rule paper_desk.opened)
    (simp_all add: open_desk_def with_rest_def pipeline_new_def sample_portfolio, simp_all add: sample_state_def
      desk_venue_def paper_new_def)

lemma desk_env_ok: "paper_env exact_decimal desk_env" "call_ok desk_call"
  by (auto simp: paper_env_def desk_env_def call_ok_def desk_call_def sample_inputs_draw sample_book_valid
      intro!: exI [of _ "\<lambda>_. sample_inputs"])

lemma open_desk_values:
  "pf_cash (ap_portfolio (pl_state open_desk)) = 10000" "net_of (ap_portfolio (pl_state open_desk)) t = 0"
  "mp_fee_bps (pp_params (ap_venue (pl_state open_desk))) = 0"
  "rl_max_trade_usd (re_limits (ap_risk (pl_state open_desk))) = 100"
  by (simp_all add: open_desk_def with_rest_def pipeline_new_def sample_portfolio net_of_def position_of_def get_def,
      simp_all add: sample_state_def desk_venue_def paper_new_def sample_params_def engine_new_def limits_default_def
        limits_from_config_def risk_default_def)

lemma open_desk_net:
  "net_of (ap_portfolio (pl_state (on_source_trade exact_decimal desk_env desk_call open_desk copied_trade))) (TokenId ''7'') = 100"
  using exact_dec.on_source_trade_agrees [OF desk_env_ok paper_desk_ok [OF exact_dec.decimal_exact_axioms open_desk_reached],
      of copied_trade] open_desk_copied
  by (simp add: desk_ok_def books_agree_def)




end
