(* ===== verification/TestKit.thy ===== *)
theory TestKit
  imports Strings "HOL-Library.Code_Target_Nat"
begin

section \<open>Replaying the unit tests\<close>

text \<open>
  The program comes with unit tests. The theories that import this one replay them on the model: a
  test is a bool-valued definition, the conjunction of its assertions in their order, and a lemma
  evaluates it. A test thus says that the definitions of the model, which the theorems are about, give the
  values that the program's own authors expect of the code. Decimals are exact rationals there (\<open>test_decimal\<close>),
  which the decimals of the tests are. Where a test reads the clock, the model reads \<open>test_now\<close>; where it draws a
  fresh identifier, the model takes a number that the test has not used yet; where it parses JSON, the model
  starts from the decoded value.
\<close>

text \<open>\<open>unwrap\<close>, \<open>is_ok\<close> and \<open>is_err\<close> of a result. A test in which \<open>unwrap\<close> fails does not
  evaluate.\<close>

definition unwrap :: "'e + 'a \<Rightarrow> 'a" where
  "unwrap r = the (ok r)"

definition is_ok :: "'e + 'a \<Rightarrow> bool" where
  "is_ok r = (case r of Inr _ \<Rightarrow> True | Inl _ \<Rightarrow> False)"

definition unwrap_err :: "'e + 'a \<Rightarrow> 'e" where
  "unwrap_err r = the (case r of Inl e \<Rightarrow> Some e | Inr _ \<Rightarrow> None)"

text \<open>The clock of the tests, in nanoseconds, and spans of it.\<close>

definition test_now :: int where
  "test_now = 1760000000000000000"

definition ms :: "int \<Rightarrow> int" where
  "ms n = n * 1000000"

text \<open>The day of a time stamp: the number of days since the epoch.\<close>

definition test_day :: "int \<Rightarrow> nat" where
  "test_day t = nat (t div 86400000000000)"

subsection \<open>The decimals of the tests\<close>

text \<open>The text of a decimal without trailing zeros, and its parser: an optional sign, digits, and at most one
  point.\<close>

function int_digits :: "int \<Rightarrow> string" where
  "int_digits n = (if n < 10 then [digit_char (nat n)] else int_digits (n div 10) @ [digit_char (nat (n mod 10))])"
  by pat_completeness auto
termination
  by (relation "measure nat") auto

declare int_digits.simps [simp del]

definition dec_scale :: "rat \<Rightarrow> nat" where
  "dec_scale x = (case find (\<lambda>k. snd (quotient_of (x * 10 ^ k)) = 1) [0..<29] of Some k \<Rightarrow> k | None \<Rightarrow> 28)"

definition dec_text :: "rat \<Rightarrow> string" where
  "dec_text x =
     (let y = \<bar>x\<bar>; k = dec_scale y; whole = \<lfloor>y\<rfloor>; digits = int_digits \<lfloor>(y - of_int whole) * 10 ^ k\<rfloor>
      in (if x < 0 then ''-'' else []) @ int_digits whole @
         (if k = 0 then [] else ''.'' @ replicate (k - length digits) (CHR ''0'') @ digits))"

definition digits_int :: "string \<Rightarrow> int" where
  "digits_int s = foldl (\<lambda>a c. a * 10 + int (byte c - 48)) 0 s"

definition dec_parse :: "string \<Rightarrow> rat option" where
  "dec_parse s =
     (let (neg, body) = (case s of c # cs \<Rightarrow> (if c = CHR ''-'' then (True, cs) else (False, s)) | [] \<Rightarrow> (False, s));
          whole = takeWhile (\<lambda>c. c \<noteq> CHR ''.'') body; rest = dropWhile (\<lambda>c. c \<noteq> CHR ''.'') body; frac = drop 1 rest
      in if whole @ frac \<noteq> [] \<and> list_all is_ascii_digit (whole @ frac)
         then (let v = of_int (digits_int (whole @ frac)) / 10 ^ length frac in Some (if neg then - v else v))
         else None)"

definition test_decimal :: decimal_ops where
  "test_decimal = exact_decimal\<lparr>d_text := dec_text, d_show := dec_text, d_parse := dec_parse\<rparr>"

abbreviation D :: decimal_ops where
  "D \<equiv> test_decimal"

subsection \<open>Evaluation of continuations\<close>

text \<open>A continuation is entered when its argument is known.\<close>

lemma and_then_case [code_unfold]: "and_then r f = (case r of Inl e \<Rightarrow> Inl e | Inr a \<Rightarrow> f a)"
  by (cases r) simp_all

lemma bind_case [code_unfold]: "Option.bind x f = (case x of None \<Rightarrow> None | Some a \<Rightarrow> f a)"
  by (cases x) simp_all

subsection \<open>Evaluation of text\<close>

text \<open>Classes of characters by their bits; text without white space at its ends is not trimmed.\<close>

lemma digit_code [code]:
  "is_ascii_digit (Char b0 b1 b2 b3 b4 b5 b6 b7) \<longleftrightarrow> \<not> b7 \<and> \<not> b6 \<and> b5 \<and> b4 \<and> (\<not> b3 \<or> (\<not> b2 \<and> \<not> b1))"
  by (cases b0; cases b1; cases b2; cases b3; cases b4; cases b5; cases b6; cases b7)
    (simp_all add: is_ascii_digit_def byte_def)

lemma hexdigit_code [code]:
  "is_ascii_hexdigit (Char b0 b1 b2 b3 b4 b5 b6 b7) \<longleftrightarrow>
     \<not> b7 \<and> (if b6 then \<not> b4 \<and> \<not> b3 \<and> (b0 \<or> b1 \<or> b2) \<and> \<not> (b0 \<and> b1 \<and> b2)
              else b5 \<and> b4 \<and> (\<not> b3 \<or> (\<not> b2 \<and> \<not> b1)))"
  by (cases b0; cases b1; cases b2; cases b3; cases b4; cases b5; cases b6; cases b7)
    (simp_all add: is_ascii_hexdigit_def is_ascii_digit_def byte_def)

lemma lower_code [code]:
  "ascii_lower (Char b0 b1 b2 b3 b4 b5 b6 b7) =
     (if \<not> b7 \<and> b6 \<and> \<not> b5 \<and> (b0 \<or> b1 \<or> b2 \<or> b3 \<or> b4) \<and> \<not> (b3 \<and> b4 \<and> (b2 \<or> (b0 \<and> b1)))
      then Char b0 b1 b2 b3 b4 True b6 b7 else Char b0 b1 b2 b3 b4 b5 b6 b7)"
  by (cases b0; cases b1; cases b2; cases b3; cases b4; cases b5; cases b6; cases b7)
    (simp_all add: ascii_lower_def byte_def char_of_eq_iff)

lemma upper_code [code]:
  "ascii_upper (Char b0 b1 b2 b3 b4 b5 b6 b7) =
     (if \<not> b7 \<and> b6 \<and> b5 \<and> (b0 \<or> b1 \<or> b2 \<or> b3 \<or> b4) \<and> \<not> (b3 \<and> b4 \<and> (b2 \<or> (b0 \<and> b1)))
      then Char b0 b1 b2 b3 b4 False b6 b7 else Char b0 b1 b2 b3 b4 b5 b6 b7)"
  by (cases b0; cases b1; cases b2; cases b3; cases b4; cases b5; cases b6; cases b7)
    (simp_all add: ascii_upper_def byte_def char_of_eq_iff)

lemma edge_code [code]:
  "ws_edge (Char b0 b1 b2 b3 b4 b5 b6 b7) \<longleftrightarrow>
     b7 \<or> (\<not> b6 \<and> \<not> b4 \<and> (if b5 then \<not> b3 \<and> \<not> b2 \<and> \<not> b1 \<and> \<not> b0
                         else b3 \<and> (if b2 then \<not> b1 else b1 \<or> b0)))"
  by (cases b0; cases b1; cases b2; cases b3; cases b4; cases b5; cases b6; cases b7)
    (simp_all add: ws_edge_def byte_def)

lemma trim_code [code]: "trim s = (if s = [] \<or> (\<not> ws_edge (hd s) \<and> \<not> ws_edge (last s)) then s else trim_end (trim_start s))"
  using trim_plain [of s] by (cases "s = []") (auto simp: trim_def [symmetric])

end
