(* ===== verification/DomainTests.thy ===== *)
theory DomainTests
  imports TestKit Events
begin

text \<open>The unit tests of the domain types, but for the one on the order of UUIDs and the one on how the decimal
  library rounds a float.\<close>

section \<open>Tests of crates/domain/src/money.rs\<close>

definition test_price_rejects_degenerate_bounds :: bool where
  "test_price_rejects_degenerate_bounds \<longleftrightarrow>
     \<not> is_ok (price_new 0) \<and> \<not> is_ok (price_new 1) \<and> \<not> is_ok (price_new (-0.5)) \<and>
     \<not> is_ok (price_new 1.5) \<and> is_ok (price_new 0.5)"

definition test_feed_float_rejects_nan_and_inf :: bool where
  "test_feed_float_rejects_nan_and_inf \<longleftrightarrow>
     \<not> is_ok (price_from_feed_f64 D NonFinite) \<and> \<not> is_ok (qty_from_feed_f64 D NonFinite) \<and>
     \<not> is_ok (usd_from_feed_f64 D NonFinite)"

definition test_tick_rounding_never_worsens_our_price :: bool where
  "test_tick_rounding_never_worsens_our_price \<longleftrightarrow>
     (let p = unwrap (price_new 0.6178)
      in price_round_to_tick D p 0.01 Buy = 0.61 \<and> price_round_to_tick D p 0.01 Sell = 0.62 \<and>
         price_round_to_tick D p 0.001 Buy = 0.617)"

definition test_complement_is_involutive :: bool where
  "test_complement_is_involutive \<longleftrightarrow>
     (let p = unwrap (price_new 0.61)
      in price_complement D p = 0.39 \<and> price_complement D (price_complement D p) = p)"

definition test_qty_cannot_be_negative_and_saturates :: bool where
  "test_qty_cannot_be_negative_and_saturates \<longleftrightarrow>
     \<not> is_ok (qty_new (-1)) \<and>
     (let a = unwrap (qty_new 5); b = unwrap (qty_new 9) in qty_saturating_sub D a b = 0)"

definition test_notional_and_shares_round_trip :: bool where
  "test_notional_and_shares_round_trip \<longleftrightarrow>
     (let q = unwrap (qty_new 250); p = unwrap (price_new 0.4)
      in qty_notional D q p = 100 \<and> usd_shares_at D 100 p = 250)"

definition test_slippage_sign_means_worse_for_us :: bool where
  "test_slippage_sign_means_worse_for_us \<longleftrightarrow>
     (let want = unwrap (price_new 0.61); worse_buy = unwrap (price_new 0.6161)
      in bps_slippage D want worse_buy Buy = 100 \<and> bps_slippage D want worse_buy Sell < 0)"

definition test_bps_applies_to_notional :: bool where
  "test_bps_applies_to_notional \<longleftrightarrow> bps_apply_to D 50 1000 = 5"

lemma money_tests:
  "test_price_rejects_degenerate_bounds" "test_feed_float_rejects_nan_and_inf"
  "test_tick_rounding_never_worsens_our_price" "test_complement_is_involutive"
  "test_qty_cannot_be_negative_and_saturates" "test_notional_and_shares_round_trip"
  "test_slippage_sign_means_worse_for_us" "test_bps_applies_to_notional"
  by code_simp+

section \<open>Tests of crates/domain/src/ids.rs\<close>

definition test_address_normalises_case :: bool where
  "test_address_normalises_case \<longleftrightarrow>
     (let mixed = unwrap (address_new ''0x8a5152d056aDB066C9E4Dc65164620cDD82CeB6f'');
          lower = unwrap (address_new ''0x8a5152d056adb066c9e4dc65164620cdd82ceb6f'')
      in mixed = lower \<and> address_str mixed = ''0x8a5152d056adb066c9e4dc65164620cdd82ceb6f'')"

definition test_address_rejects_malformed :: bool where
  "test_address_rejects_malformed \<longleftrightarrow>
     list_all (\<lambda>bad. \<not> is_ok (address_new bad))
       ['''', ''0x'', ''8a5152d056adb066c9e4dc65164620cdd82ceb6f'', ''0xZZ'', ''0x123'']"

definition test_ids_reject_wrong_length :: bool where
  "test_ids_reject_wrong_length \<longleftrightarrow>
     is_ok (market_id_new ''0x1d8720896546460a48d4f7fd5b3f0705a8d427921222de498d1cd334d4890c52'') \<and>
     \<not> is_ok (market_id_new ''0x1d87208965'') \<and>
     is_ok (tx_hash_new ''0xb6acf6859bc84216f4b3e2567fb392a2eae19d275340ad96ea17218ccfec27b7'') \<and>
     \<not> is_ok (tx_hash_new ''0xb6acf685'')"

definition test_token_id_accepts_uint256_decimal :: bool where
  "test_token_id_accepts_uint256_decimal \<longleftrightarrow>
     is_ok (token_id_new ''72551024098258542594534683942523606143014690620243023298497729957846870197074'') \<and>
     \<not> is_ok (token_id_new ''0xdeadbeef'') \<and> \<not> is_ok (token_id_new '''')"

lemma ids_tests:
  "test_address_normalises_case" "test_address_rejects_malformed" "test_ids_reject_wrong_length"
  "test_token_id_accepts_uint256_decimal"
  by code_simp+

section \<open>Tests of crates/domain/src/market.rs\<close>

definition mkt_lvl :: "rat \<Rightarrow> rat \<Rightarrow> level" where
  "mkt_lvl p s = \<lparr>lv_price = unwrap (price_new p), lv_size = unwrap (qty_new s)\<rparr>"

definition mkt_book :: order_book where
  "mkt_book = \<lparr>
     bk_market = unwrap (market_id_new ''0x1d8720896546460a48d4f7fd5b3f0705a8d427921222de498d1cd334d4890c52''),
     bk_token = unwrap (token_id_new ''7255102409825854259453468394252360614301469062024302329849''),
     bk_bids = [mkt_lvl 0.59 100, mkt_lvl 0.58 200, mkt_lvl 0.57 500],
     bk_asks = [mkt_lvl 0.61 150, mkt_lvl 0.62 300, mkt_lvl 0.63 400],
     bk_tick_size = 0.01, bk_min_order_size = 5, bk_timestamp = test_now, bk_seq = 1\<rparr>"

definition test_best_prices_come_from_the_front :: bool where
  "test_best_prices_come_from_the_front \<longleftrightarrow>
     (let b = mkt_book
      in lv_price (the (best_bid b)) = 0.59 \<and> lv_price (the (best_ask b)) = 0.61 \<and>
         the (book_mid D b) = 0.60 \<and> the (book_spread D b) = 0.02 \<and> is_well_formed b)"

definition test_malformed_books_are_detected :: bool where
  "test_malformed_books_are_detected \<longleftrightarrow>
     (let b = mkt_book\<lparr>bk_bids := rev (bk_bids mkt_book)\<rparr>; c = mkt_book\<lparr>bk_asks := rev (bk_asks mkt_book)\<rparr>;
          d = mkt_book\<lparr>bk_bids := (bk_bids mkt_book)[0 := mkt_lvl 0.70 1]\<rparr>
      in \<not> is_well_formed b \<and> \<not> is_well_formed c \<and> \<not> is_well_formed d)"

definition test_buy_takes_asks_and_sell_takes_bids :: bool where
  "test_buy_takes_asks_and_sell_takes_bids \<longleftrightarrow>
     (let b = mkt_book
      in lv_price (taking_side b Buy ! 0) = 0.61 \<and> lv_price (taking_side b Sell ! 0) = 0.59)"

definition test_liquidity_respects_the_limit_price :: bool where
  "test_liquidity_respects_the_limit_price \<longleftrightarrow>
     (let b = mkt_book
      in liquidity_within D b Buy (unwrap (price_new 0.62)) = 450 \<and>
         liquidity_within D b Buy (unwrap (price_new 0.61)) = 150 \<and>
         liquidity_within D b Buy (unwrap (price_new 0.60)) = 0)"

definition test_sweep_vwap_walks_multiple_levels :: bool where
  "test_sweep_vwap_walks_multiple_levels \<longleftrightarrow>
     (let b = mkt_book; (px, got) = the (sweep_vwap D b Buy (unwrap (qty_new 300)) (unwrap (price_new 0.63)))
      in got = 300 \<and> px = 0.615)"

definition test_sweep_stops_at_the_limit_and_reports_short_fill :: bool where
  "test_sweep_stops_at_the_limit_and_reports_short_fill \<longleftrightarrow>
     (let b = mkt_book; (px, got) = the (sweep_vwap D b Buy (unwrap (qty_new 500)) (unwrap (price_new 0.61)))
      in got = 150 \<and> px = 0.61)"

definition test_sweep_returns_none_when_nothing_is_reachable :: bool where
  "test_sweep_returns_none_when_nothing_is_reachable \<longleftrightarrow>
     (let b = mkt_book
      in Option.is_none (sweep_vwap D b Buy (unwrap (qty_new 100)) (unwrap (price_new 0.50))))"

definition test_notional_within_prices_each_level_correctly :: bool where
  "test_notional_within_prices_each_level_correctly \<longleftrightarrow>
     (let b = mkt_book in notional_within D b Buy (unwrap (price_new 0.62)) = 277.50)"

lemma market_tests:
  "test_best_prices_come_from_the_front" "test_malformed_books_are_detected"
  "test_buy_takes_asks_and_sell_takes_bids" "test_liquidity_respects_the_limit_price"
  "test_sweep_vwap_walks_multiple_levels" "test_sweep_stops_at_the_limit_and_reports_short_fill"
  "test_sweep_returns_none_when_nothing_is_reachable" "test_notional_within_prices_each_level_correctly"
  by code_simp+

section \<open>Tests of crates/domain/src/latency.rs\<close>

definition lat_t :: "timestamp \<Rightarrow> int \<Rightarrow> timestamp" where
  "lat_t base n = base + ms n"

definition test_unmeasured_stages_are_none_not_zero :: bool where
  "test_unmeasured_stages_are_none_not_zero \<longleftrightarrow>
     (let s = stamps_begin test_now
      in detection_us s = None \<and> execution_us s = None \<and> samples s = [])"

definition test_full_chain_computes_each_stage :: bool where
  "test_full_chain_computes_each_stage \<longleftrightarrow>
     (let b = test_now;
          s = \<lparr>lt_source = Some b, lt_source_is_coarse = False, lt_detection = Some (lat_t b 400),
               lt_signal = Some (lat_t b 402), lt_risk_check = Some (lat_t b 403),
               lt_submission = Some (lat_t b 405), lt_ack = Some (lat_t b 425), lt_fill = Some (lat_t b 430),
               lt_dashboard = Some (lat_t b 431)\<rparr>
      in detection_us s = Some 400000 \<and> strategy_us s = Some 2000 \<and> risk_us s = Some 1000 \<and>
         submission_us s = Some 2000 \<and> ack_us s = Some 20000 \<and> execution_us s = Some 25000 \<and>
         internal_us s = Some 5000 \<and> end_to_end_us s = Some 430000 \<and> length (samples s) = 8 \<and>
         is_monotonic s)"

definition test_end_to_end_falls_back_to_detection_when_venue_stamp_absent :: bool where
  "test_end_to_end_falls_back_to_detection_when_venue_stamp_absent \<longleftrightarrow>
     (let b = test_now; s = (stamps_begin b)\<lparr>lt_fill := Some (lat_t b 10)\<rparr>
      in end_to_end_us s = Some 10000)"

definition test_out_of_order_stamps_are_detected :: bool where
  "test_out_of_order_stamps_are_detected \<longleftrightarrow>
     (let b = test_now; s = (stamps_from_source b False (lat_t b 5))\<lparr>lt_signal := Some (lat_t b 1)\<rparr>
      in \<not> is_monotonic s)"

definition test_coarse_source_is_flagged :: bool where
  "test_coarse_source_is_flagged \<longleftrightarrow>
     (let b = test_now; s = stamps_from_source b True (lat_t b 400) in lt_source_is_coarse s)"

lemma latency_tests:
  "test_unmeasured_stages_are_none_not_zero" "test_full_chain_computes_each_stage"
  "test_end_to_end_falls_back_to_detection_when_venue_stamp_absent" "test_out_of_order_stamps_are_detected"
  "test_coarse_source_is_flagged"
  by code_simp+

section \<open>Tests of crates/domain/src/trade.rs\<close>

definition trd_fill :: "side \<Rightarrow> rat \<Rightarrow> rat \<Rightarrow> rat \<Rightarrow> fill" where
  "trd_fill s q px fee = \<lparr>fi_fill_id = 1, fi_order_id = 2, fi_correlation_id = 3,
     fi_market_id = unwrap (market_id_new ''0x1d8720896546460a48d4f7fd5b3f0705a8d427921222de498d1cd334d4890c52''),
     fi_token_id = unwrap (token_id_new ''725510240982585425945346839425236061430146906202430232984977299578468701''),
     fi_side = s, fi_quantity = unwrap (qty_new q), fi_price = unwrap (price_new px), fi_fee = fee,
     fi_venue_fill_id = None, fi_is_maker = False, fi_filled_at = test_now\<rparr>"

definition test_buy_consumes_cash_including_fee :: bool where
  "test_buy_consumes_cash_including_fee \<longleftrightarrow>
     (let f = trd_fill Buy 100 0.60 0.30 in fill_notional D f = 60 \<and> cash_delta D f = -60.30)"

definition test_sell_returns_cash_net_of_fee :: bool where
  "test_sell_returns_cash_net_of_fee \<longleftrightarrow>
     (let f = trd_fill Sell 100 0.60 0.30 in cash_delta D f = 59.70)"

definition test_demo_source_is_never_treated_as_real :: bool where
  "test_demo_source_is_never_treated_as_real \<longleftrightarrow>
     \<not> is_real DemoSource \<and> \<not> is_real ReplaySource \<and> is_real RtdsWebsocket \<and> is_real RestBackfill"

lemma trade_tests:
  "test_buy_consumes_cash_including_fee" "test_sell_returns_cash_net_of_fee"
  "test_demo_source_is_never_treated_as_real"
  by code_simp+

section \<open>Tests of crates/domain/src/wallet.rs\<close>

definition wal_addr :: address where
  "wal_addr = unwrap (address_new ''0x8a5152d056adb066c9e4dc65164620cdd82ceb6f'')"

definition wal_m :: "nat \<Rightarrow> market_id" where
  "wal_m n = unwrap (market_id_new (''0x'' @ hex_padded 64 n))"

definition test_disabled_wallet_admits_nothing :: bool where
  "test_disabled_wallet_admits_nothing \<longleftrightarrow>
     (let w = (target_wallet_new wal_addr ''A'')\<lparr>tw_enabled := False\<rparr>
      in admits D w (wal_m 1) 1000 = Inl SkipWalletDisabled)"

definition test_block_list_beats_allow_list :: bool where
  "test_block_list_beats_allow_list \<longleftrightarrow>
     (let w = (target_wallet_new wal_addr ''A'')\<lparr>tw_allowed_markets := [wal_m 1], tw_blocked_markets := [wal_m 1]\<rparr>
      in case admits D w (wal_m 1) 1000 of Inl (MarketBlocked _) \<Rightarrow> True | _ \<Rightarrow> False)"

definition test_empty_allow_list_means_all_markets :: bool where
  "test_empty_allow_list_means_all_markets \<longleftrightarrow>
     (let w = target_wallet_new wal_addr ''A'' in is_ok (admits D w (wal_m 7) 1000))"

definition test_non_empty_allow_list_excludes_others :: bool where
  "test_non_empty_allow_list_excludes_others \<longleftrightarrow>
     (let w = (target_wallet_new wal_addr ''A'')\<lparr>tw_allowed_markets := [wal_m 1]\<rparr>
      in is_ok (admits D w (wal_m 1) 1000) \<and>
         (case admits D w (wal_m 2) 1000 of Inl (MarketNotAllowed _) \<Rightarrow> True | _ \<Rightarrow> False))"

definition test_dust_source_trades_are_skipped :: bool where
  "test_dust_source_trades_are_skipped \<longleftrightarrow>
     (let w = (target_wallet_new wal_addr ''A'')\<lparr>tw_min_source_notional_usd := 50\<rparr>
      in (case admits D w (wal_m 1) 49.99 of Inl (BelowMinNotional _ _) \<Rightarrow> True | _ \<Rightarrow> False) \<and>
         is_ok (admits D w (wal_m 1) 50))"

lemma wallet_tests:
  "test_disabled_wallet_admits_nothing" "test_block_list_beats_allow_list"
  "test_empty_allow_list_means_all_markets" "test_non_empty_allow_list_excludes_others"
  "test_dust_source_trades_are_skipped"
  by code_simp+

section \<open>Tests of crates/domain/src/events.rs\<close>

definition test_every_rejection_has_a_distinct_code :: bool where
  "test_every_rejection_has_a_distinct_code \<longleftrightarrow>
     (let all = [MaxTradeSizeExceeded 0 0, MaxOpenOrdersReached 1 1, KillSwitchActive ''x'',
                 LiveExecutionNotArmed, StaleMarketData 1 1];
          codes = map rejection_code all
      in length codes = card (set codes))"

definition test_critical_events_are_flagged :: bool where
  "test_critical_events_are_flagged \<longleftrightarrow>
     (let e = KillSwitchActivated ''manual'' ''api'' test_now
      in is_critical e \<and> event_kind e = ''kill_switch_activated'')"

definition test_mode_is_explicit_about_live :: bool where
  "test_mode_is_explicit_about_live \<longleftrightarrow>
     is_live LiveMode \<and> \<not> is_live PaperMode \<and> \<not> is_live ReplayMode \<and> app_mode_str PaperMode = ''PAPER''"

lemma events_tests:
  "test_every_rejection_has_a_distinct_code" "test_critical_events_are_flagged" "test_mode_is_explicit_about_live"
  by code_simp+

section \<open>Tests of crates/domain/src/pnl.rs\<close>

definition pnl_snap :: "rat \<Rightarrow> rat \<Rightarrow> pnl_snapshot" where
  "pnl_snap eq peak = \<lparr>pn_at = test_now, pn_cash = eq, pn_position_value = 0, pn_equity = eq, pn_realized_pnl = 0,
     pn_unrealized_pnl = Some 0, pn_fees_paid = 0, pn_gross_exposure = 0, pn_daily_pnl = 0, pn_peak_equity = peak,
     pn_open_orders = 0, pn_active_positions = 0\<rparr>"

definition test_drawdown_is_zero_at_the_peak :: bool where
  "test_drawdown_is_zero_at_the_peak \<longleftrightarrow> drawdown_pct D (pnl_snap 1000 1000) = 0"

definition test_drawdown_measures_distance_below_peak :: bool where
  "test_drawdown_measures_distance_below_peak \<longleftrightarrow> drawdown_pct D (pnl_snap 900 1000) = 0.1"

definition test_equity_above_peak_is_not_negative_drawdown :: bool where
  "test_equity_above_peak_is_not_negative_drawdown \<longleftrightarrow> drawdown_pct D (pnl_snap 1100 1000) = 0"

definition test_unmarked_book_reports_unknown_unrealised :: bool where
  "test_unmarked_book_reports_unknown_unrealised \<longleftrightarrow>
     (let s = (pnl_snap 1000 1000)\<lparr>pn_unrealized_pnl := None\<rparr>
      in snapshot_total_pnl D s = 0 \<and> Option.is_none (pn_unrealized_pnl s))"

lemma pnl_tests:
  "test_drawdown_is_zero_at_the_peak" "test_drawdown_measures_distance_below_peak"
  "test_equity_above_peak_is_not_negative_drawdown" "test_unmarked_book_reports_unknown_unrealised"
  by code_simp+

section \<open>Tests of crates/domain/src/order.rs\<close>

definition ord_req :: "rat \<Rightarrow> order_request" where
  "ord_req q = \<lparr>rq_order_id = 1, rq_correlation_id = 2, rq_signal_id = None,
     rq_market_id = unwrap (market_id_new ''0x1d8720896546460a48d4f7fd5b3f0705a8d427921222de498d1cd334d4890c52''),
     rq_token_id = unwrap (token_id_new ''72551024098258542594534683942523606143014690620243023298497729957846870197074''),
     rq_side = Buy, rq_order_type = LimitOrder, rq_time_in_force = Gtc, rq_quantity = unwrap (qty_new q),
     rq_limit_price = unwrap (price_new 0.61), rq_reference_price = unwrap (price_new 0.61),
     rq_tick_size = 0.01, rq_created_at = test_now\<rparr>"

definition ord_order :: "rat \<Rightarrow> order" where
  "ord_order q = unwrap (order_new (ord_req q) (stamps_begin test_now))"

definition ord_working :: "rat \<Rightarrow> order" where
  "ord_working q =
     (let w0 = ord_order q; w1 = unwrap (transition w0 Validated test_now);
          w2 = unwrap (transition w1 Submitted test_now)
      in unwrap (transition w2 Acknowledged test_now))"

definition test_terminal_states_are_absorbing :: bool where
  "test_terminal_states_are_absorbing \<longleftrightarrow>
     list_all (\<lambda>t. is_terminal t \<and>
       list_all (\<lambda>n. \<not> can_transition_to t n)
         [Created, Validated, Submitted, Acknowledged, PartiallyFilled, Unknown])
       [Filled, Cancelled, Rejected, Failed]"

definition test_happy_path_transitions_are_allowed :: bool where
  "test_happy_path_transitions_are_allowed \<longleftrightarrow>
     can_transition_to Created Validated \<and> can_transition_to Validated Submitted \<and>
     can_transition_to Submitted Acknowledged \<and> can_transition_to Acknowledged PartiallyFilled \<and>
     can_transition_to PartiallyFilled Filled"

definition test_skipping_risk_validation_is_impossible :: bool where
  "test_skipping_risk_validation_is_impossible \<longleftrightarrow>
     \<not> can_transition_to Created Submitted \<and> \<not> can_transition_to Created Acknowledged \<and>
     \<not> can_transition_to Created Filled"

definition test_unknown_is_reachable_and_resolvable :: bool where
  "test_unknown_is_reachable_and_resolvable \<longleftrightarrow>
     list_all (\<lambda>s. can_transition_to s Unknown) [Submitted, Acknowledged, PartiallyFilled, CancelRequested] \<and>
     can_transition_to Unknown Filled \<and> can_transition_to Unknown Cancelled \<and> may_have_executed Unknown"

definition test_fill_race_after_cancel_request_is_accepted :: bool where
  "test_fill_race_after_cancel_request_is_accepted \<longleftrightarrow>
     (let w = unwrap (transition (ord_working 100) CancelRequested test_now);
          w' = unwrap (apply_fill D w (unwrap (qty_new 100)) (unwrap (price_new 0.61)) 0 test_now)
      in or_state w' = Filled)"

text \<open>A refused operation returns no order: the caller keeps the one it had.\<close>

definition test_overfill_is_rejected_not_absorbed :: bool where
  "test_overfill_is_rejected_not_absorbed \<longleftrightarrow>
     (let p = unwrap (price_new 0.6);
          w = unwrap (apply_fill D (ord_working 100) (unwrap (qty_new 60)) p 0 test_now);
          err = unwrap_err (apply_fill D w (unwrap (qty_new 41)) p 0 test_now)
      in (case err of Overfill _ _ _ \<Rightarrow> True | _ \<Rightarrow> False) \<and> or_filled_qty w = 60)"

definition test_fill_on_unsubmitted_order_is_refused_without_mutating :: bool where
  "test_fill_on_unsubmitted_order_is_refused_without_mutating \<longleftrightarrow>
     (let w = ord_order 100;
          err = unwrap_err (apply_fill D w (unwrap (qty_new 10)) (unwrap (price_new 0.6)) 0 test_now)
      in (case err of IllegalTransition f _ \<Rightarrow> f = Created | _ \<Rightarrow> False) \<and>
         or_filled_qty w = 0 \<and> or_state w = Created)"

definition test_fill_on_terminal_order_is_refused :: bool where
  "test_fill_on_terminal_order_is_refused \<longleftrightarrow>
     (let w = unwrap (transition (ord_working 100) Cancelled test_now)
      in \<not> is_ok (apply_fill D w (unwrap (qty_new 1)) (unwrap (price_new 0.6)) 0 test_now))"

definition test_avg_fill_price_is_notional_weighted :: bool where
  "test_avg_fill_price_is_notional_weighted \<longleftrightarrow>
     (let w1 = unwrap (apply_fill D (ord_working 100) (unwrap (qty_new 50)) (unwrap (price_new 0.60)) 0 test_now);
          w2 = unwrap (apply_fill D w1 (unwrap (qty_new 50)) (unwrap (price_new 0.70)) 0 test_now)
      in or_state w1 = PartiallyFilled \<and> or_state w2 = Filled \<and> the (avg_fill_price D w2) = 0.65 \<and>
         remaining D w2 = 0)"

definition test_avg_price_is_none_before_any_fill :: bool where
  "test_avg_price_is_none_before_any_fill \<longleftrightarrow> Option.is_none (avg_fill_price D (ord_order 100))"

definition test_zero_quantity_order_is_rejected_at_construction :: bool where
  "test_zero_quantity_order_is_rejected_at_construction \<longleftrightarrow>
     (let r = (ord_req 1)\<lparr>rq_quantity := 0\<rparr>
      in unwrap_err (order_new r (stamps_begin test_now)) = ZeroQuantity)"

lemma order_tests:
  "test_terminal_states_are_absorbing" "test_happy_path_transitions_are_allowed"
  "test_skipping_risk_validation_is_impossible" "test_unknown_is_reachable_and_resolvable"
  "test_fill_race_after_cancel_request_is_accepted" "test_overfill_is_rejected_not_absorbed"
  "test_fill_on_unsubmitted_order_is_refused_without_mutating" "test_fill_on_terminal_order_is_refused"
  "test_avg_fill_price_is_notional_weighted" "test_avg_price_is_none_before_any_fill"
  "test_zero_quantity_order_is_rejected_at_construction"
  by code_simp+

section \<open>Tests of crates/domain/src/position.rs\<close>

definition psn_pos :: position where
  "psn_pos = position_new
     (unwrap (market_id_new ''0x1d8720896546460a48d4f7fd5b3f0705a8d427921222de498d1cd334d4890c52''))
     (unwrap (token_id_new ''725510240982585425945346839425236061430146906202430232984977'')) ''Yes'' test_now"

definition psn_q :: "rat \<Rightarrow> qty" where
  "psn_q d = unwrap (qty_new d)"

definition psn_p :: "rat \<Rightarrow> price" where
  "psn_p d = unwrap (price_new d)"

definition test_opening_sets_average_entry :: bool where
  "test_opening_sets_average_entry \<longleftrightarrow>
     (let (x, _) = position_apply D psn_pos Buy (psn_q 100) (psn_p 0.60) 0 test_now
      in ps_net_quantity x = 100 \<and> ps_avg_entry x = 0.60 \<and> ps_realized_pnl x = 0)"

definition test_adding_rolls_the_weighted_average :: bool where
  "test_adding_rolls_the_weighted_average \<longleftrightarrow>
     (let (x1, _) = position_apply D psn_pos Buy (psn_q 100) (psn_p 0.60) 0 test_now;
          (x2, _) = position_apply D x1 Buy (psn_q 100) (psn_p 0.80) 0 test_now
      in ps_avg_entry x2 = 0.70 \<and> ps_realized_pnl x2 = 0)"

definition test_reducing_realises_but_leaves_average_alone :: bool where
  "test_reducing_realises_but_leaves_average_alone \<longleftrightarrow>
     (let (x1, _) = position_apply D psn_pos Buy (psn_q 100) (psn_p 0.60) 0 test_now;
          (x2, r) = position_apply D x1 Sell (psn_q 40) (psn_p 0.70) 0 test_now
      in r = 4 \<and> ps_net_quantity x2 = 60 \<and> ps_avg_entry x2 = 0.60 \<and> ps_realized_pnl x2 = 4)"

definition test_closing_flat_resets_average :: bool where
  "test_closing_flat_resets_average \<longleftrightarrow>
     (let (x1, _) = position_apply D psn_pos Buy (psn_q 100) (psn_p 0.60) 0 test_now;
          (x2, _) = position_apply D x1 Sell (psn_q 100) (psn_p 0.65) 0 test_now
      in is_flat x2 \<and> ps_avg_entry x2 = 0 \<and> ps_realized_pnl x2 = 5 \<and> unrealized_pnl D x2 = None)"

definition test_crossing_through_zero_reprices_the_residual :: bool where
  "test_crossing_through_zero_reprices_the_residual \<longleftrightarrow>
     (let (x1, _) = position_apply D psn_pos Buy (psn_q 50) (psn_p 0.60) 0 test_now;
          (x2, r) = position_apply D x1 Sell (psn_q 80) (psn_p 0.70) 0 test_now
      in r = 5 \<and> ps_net_quantity x2 = -30 \<and> ps_avg_entry x2 = 0.70)"

definition test_short_profits_when_price_falls :: bool where
  "test_short_profits_when_price_falls \<longleftrightarrow>
     (let (x1, _) = position_apply D psn_pos Sell (psn_q 100) (psn_p 0.60) 0 test_now;
          (x2, r) = position_apply D x1 Buy (psn_q 100) (psn_p 0.50) 0 test_now
      in ps_net_quantity x1 = -100 \<and> ps_avg_entry x1 = 0.60 \<and> r = 10)"

definition test_fees_are_realised_immediately :: bool where
  "test_fees_are_realised_immediately \<longleftrightarrow>
     (let (x, _) = position_apply D psn_pos Buy (psn_q 100) (psn_p 0.60) 0.5 test_now
      in ps_realized_pnl x = -0.5 \<and> ps_fees_paid x = 0.5)"

definition test_unrealised_requires_a_mark :: bool where
  "test_unrealised_requires_a_mark \<longleftrightarrow>
     (let (x1, _) = position_apply D psn_pos Buy (psn_q 100) (psn_p 0.60) 0 test_now;
          x2 = position_mark x1 (psn_p 0.75) test_now
      in unrealized_pnl D x1 = None \<and> the (unrealized_pnl D x2) = 15 \<and> exposure D x2 = 75)"

lemma position_tests:
  "test_opening_sets_average_entry" "test_adding_rolls_the_weighted_average"
  "test_reducing_realises_but_leaves_average_alone" "test_closing_flat_resets_average"
  "test_crossing_through_zero_reprices_the_residual" "test_short_profits_when_price_falls"
  "test_fees_are_realised_immediately" "test_unrealised_requires_a_mark"
  by code_simp+

end
