(* ===== verification/RiskTests.thy ===== *)
theory RiskTests
  imports TestKit Risk
begin

text \<open>The unit tests of the risk crate, but for the one on threads.\<close>

section \<open>Tests of crates/risk/src/kill_switch.rs\<close>

definition test_starts_disengaged :: bool where
  "test_starts_disengaged \<longleftrightarrow>
     (let k = kill_switch_new in \<not> ks_engaged k \<and> ks_activations k = 0)"

definition test_engaging_records_who_and_why :: bool where
  "test_engaging_records_who_and_why \<longleftrightarrow>
     (let s = engage kill_switch_new ''daily loss breached'' ''risk-engine'' test_now
      in ks_engaged s \<and> ks_reason s = Some ''daily loss breached'' \<and> ks_engaged_by s = Some ''risk-engine'' \<and>
         \<not> Option.is_none (ks_engaged_at s) \<and> ks_activations s = 1)"

definition test_re_engaging_preserves_the_original_cause :: bool where
  "test_re_engaging_preserves_the_original_cause \<longleftrightarrow>
     (let k = engage (engage kill_switch_new ''first cause'' ''a'' test_now) ''second cause'' ''b'' test_now
      in ks_reason k = Some ''first cause'' \<and> ks_activations k = 1)"

definition test_reset_requires_attribution_and_clears_state :: bool where
  "test_reset_requires_attribution_and_clears_state \<longleftrightarrow>
     (let s = kill_switch_reset (engage kill_switch_new ''x'' ''risk'' test_now) ''operator@api''
      in \<not> ks_engaged s \<and> Option.is_none (ks_reason s) \<and> ks_engaged_by s = Some ''operator@api'')"

definition test_engage_reset_engage_counts_both_activations :: bool where
  "test_engage_reset_engage_counts_both_activations \<longleftrightarrow>
     (let k = engage (kill_switch_reset (engage kill_switch_new ''a'' ''x'' test_now) ''x'') ''b'' ''x'' test_now
      in ks_activations k = 2 \<and> ks_reason k = Some ''b'')"

lemma kill_switch_tests:
  "test_starts_disengaged" "test_engaging_records_who_and_why" "test_re_engaging_preserves_the_original_cause"
  "test_reset_requires_attribution_and_clears_state" "test_engage_reset_engage_counts_both_activations"
  by code_simp+

section \<open>Tests of crates/risk/src/limits.rs\<close>

definition test_defaults_mirror_the_conservative_config :: bool where
  "test_defaults_mirror_the_conservative_config \<longleftrightarrow>
     (let l = limits_default
      in rl_max_trade_usd l = 100 \<and> rl_max_daily_loss_usd l = 100 \<and> rl_max_live_order_usd l = 50 \<and>
         rl_max_live_order_usd l \<le> rl_max_trade_usd l)"

lemma limits_tests: "test_defaults_mirror_the_conservative_config"
  by code_simp

section \<open>Tests of crates/risk/src/validation.rs\<close>

definition val_order :: "rat \<Rightarrow> rat \<Rightarrow> rat \<Rightarrow> order_type \<Rightarrow> side \<Rightarrow> rat \<Rightarrow> order_request" where
  "val_order q price tick ty s reference = \<lparr>rq_order_id = 1, rq_correlation_id = 2, rq_signal_id = None,
     rq_market_id = unwrap (market_id_new (''0x'' @ hex_padded 64 1)),
     rq_token_id = unwrap (token_id_new ''83208474815813611206796889197671166802498709571847428026387018914516''),
     rq_side = s, rq_order_type = ty, rq_time_in_force = Gtc, rq_quantity = unwrap (qty_new q),
     rq_limit_price = unwrap (price_new price), rq_reference_price = unwrap (price_new reference),
     rq_tick_size = tick, rq_created_at = test_now\<rparr>"

definition test_valid_order_passes :: bool where
  "test_valid_order_passes \<longleftrightarrow> is_ok (validate_order D (val_order 100 0.61 0.01 LimitOrder Buy 0.61) 5)"

definition test_off_tick_prices_are_rejected :: bool where
  "test_off_tick_prices_are_rejected \<longleftrightarrow>
     (case validate_order D (val_order 100 0.615 0.01 LimitOrder Buy 0.61) 5 of Inl (OffTick _ _) \<Rightarrow> True | _ \<Rightarrow> False) \<and>
     is_ok (validate_order D (val_order 100 0.615 0.001 LimitOrder Buy 0.61) 5)"

definition test_below_market_minimum_is_rejected :: bool where
  "test_below_market_minimum_is_rejected \<longleftrightarrow>
     (case validate_order D (val_order 2 0.61 0.01 LimitOrder Buy 0.61) 5 of Inl (BelowMinSize _ _) \<Rightarrow> True | _ \<Rightarrow> False)"

definition test_marketable_order_on_the_wrong_side_is_caught :: bool where
  "test_marketable_order_on_the_wrong_side_is_caught \<longleftrightarrow>
     (case validate_order D (val_order 100 0.50 0.01 MarketOrder Buy 0.61) 5 of
        Inl (BuyLimitBelowReference _ _) \<Rightarrow> True | _ \<Rightarrow> False) \<and>
     (case validate_order D (val_order 100 0.70 0.01 MarketOrder Sell 0.61) 5 of
        Inl (SellLimitAboveReference _ _) \<Rightarrow> True | _ \<Rightarrow> False)"

definition test_resting_limit_orders_may_sit_away_from_the_reference :: bool where
  "test_resting_limit_orders_may_sit_away_from_the_reference \<longleftrightarrow>
     is_ok (validate_order D (val_order 100 0.50 0.01 LimitOrder Buy 0.61) 5)"

definition test_tick_helper_matches_both_common_ticks :: bool where
  "test_tick_helper_matches_both_common_ticks \<longleftrightarrow>
     is_on_tick D (unwrap (price_new 0.61)) 0.01 \<and> \<not> is_on_tick D (unwrap (price_new 0.615)) 0.01 \<and>
     is_on_tick D (unwrap (price_new 0.615)) 0.001"

lemma validation_tests:
  "test_valid_order_passes" "test_off_tick_prices_are_rejected" "test_below_market_minimum_is_rejected"
  "test_marketable_order_on_the_wrong_side_is_caught" "test_resting_limit_orders_may_sit_away_from_the_reference"
  "test_tick_helper_matches_both_common_ticks"
  by code_simp+

section \<open>Tests of crates/risk/src/engine.rs\<close>

definition verdict_code :: "risk_verdict \<Rightarrow> string option" where
  "verdict_code v = (case v of VerdictRejected r \<Rightarrow> Some (rejection_code r) | Approved \<Rightarrow> None)"

definition eng_limits :: risk_limits where
  "eng_limits = \<lparr>rl_max_trade_usd = 100, rl_min_trade_usd = 5, rl_max_position_usd = 1000,
     rl_max_market_exposure_usd = 1000, rl_max_portfolio_exposure_usd = 5000, rl_max_daily_loss_usd = 100,
     rl_max_open_orders = 20, rl_max_slippage_bps = 50, rl_min_liquidity_usd = 50,
     rl_max_market_data_age_ms = 30000, rl_max_live_order_usd = 50, rl_require_market_data = False\<rparr>"

definition eng_snap :: risk_snapshot where
  "eng_snap = \<lparr>rs_daily_pnl = 0, rs_gross_exposure = 0, rs_market_exposure = 0, rs_wallet_exposure = 0,
     rs_token_exposure = 0, rs_open_orders = 0, rs_equity = 10000\<rparr>"

definition eng_market :: market_id where
  "eng_market = unwrap (market_id_new (''0x'' @ hex_padded 64 1))"

definition eng_token :: token_id where
  "eng_token = unwrap (token_id_new ''8320847481581361120679688919767116680249870957184742802638701891451667752578'')"

lemma eng_ids [code]:
  "eng_market = MarketId ''0x0000000000000000000000000000000000000000000000000000000000000001''"
  "eng_token = TokenId ''8320847481581361120679688919767116680249870957184742802638701891451667752578''"
  by code_simp+

definition eng_order :: "rat \<Rightarrow> rat \<Rightarrow> order_request" where
  "eng_order q price = \<lparr>rq_order_id = 1, rq_correlation_id = 2, rq_signal_id = None, rq_market_id = eng_market,
     rq_token_id = eng_token, rq_side = Buy, rq_order_type = LimitOrder, rq_time_in_force = Gtc,
     rq_quantity = unwrap (qty_new q), rq_limit_price = unwrap (price_new price),
     rq_reference_price = unwrap (price_new price), rq_tick_size = 0.01, rq_created_at = test_now\<rparr>"

definition eng_book :: "rat \<Rightarrow> rat \<Rightarrow> int \<Rightarrow> order_book" where
  "eng_book ask s age_ms = \<lparr>bk_market = eng_market, bk_token = eng_token,
     bk_bids = [\<lparr>lv_price = unwrap (price_new 0.5), lv_size = unwrap (qty_new s)\<rparr>],
     bk_asks = [\<lparr>lv_price = unwrap (price_new ask), lv_size = unwrap (qty_new s)\<rparr>],
     bk_tick_size = 0.01, bk_min_order_size = 1, bk_timestamp = test_now - ms age_ms, bk_seq = 1\<rparr>"

definition eng_engine :: risk_engine where
  "eng_engine = engine_new eng_limits PaperMode False"

definition eng_check ::
    "risk_engine \<Rightarrow> order_request \<Rightarrow> risk_snapshot \<Rightarrow> kill_switch \<Rightarrow> order_book option \<Rightarrow> risk_verdict" where
  "eng_check e r s k b = check D e r s status_default k b True ''W'' None None test_now"

definition test_a_clean_order_is_approved :: bool where
  "test_a_clean_order_is_approved \<longleftrightarrow>
     eng_check eng_engine (eng_order 100 0.5) eng_snap kill_switch_new (Some (eng_book 0.5 10000 0)) = Approved"

definition test_kill_switch_blocks_everything_first :: bool where
  "test_kill_switch_blocks_everything_first \<longleftrightarrow>
     (let k = engage kill_switch_new ''manual halt'' ''operator'' test_now;
          v = eng_check eng_engine (eng_order 100 0.5) eng_snap k (Some (eng_book 0.5 10000 0))
      in verdict_code v = Some ''kill_switch'')"

definition test_kill_switch_outranks_other_breaches :: bool where
  "test_kill_switch_outranks_other_breaches \<longleftrightarrow>
     (let k = engage kill_switch_new ''halt'' ''op'' test_now; s = eng_snap\<lparr>rs_open_orders := 999\<rparr>;
          v = eng_check eng_engine (eng_order 100000 0.5) s k None
      in verdict_code v = Some ''kill_switch'')"

definition test_live_mode_without_arming_is_refused :: bool where
  "test_live_mode_without_arming_is_refused \<longleftrightarrow>
     (let e = engine_new eng_limits LiveMode False;
          v = eng_check e (eng_order 50 0.5) eng_snap kill_switch_new (Some (eng_book 0.5 10000 0))
      in verdict_code v = Some ''live_not_armed'')"

definition test_live_mode_applies_a_tighter_order_cap :: bool where
  "test_live_mode_applies_a_tighter_order_cap \<longleftrightarrow>
     (let e = engine_new eng_limits LiveMode True;
          v = eng_check e (eng_order 160 0.5) eng_snap kill_switch_new (Some (eng_book 0.5 10000 0))
      in verdict_code v = Some ''max_trade_size'')"

definition test_each_limit_produces_its_own_rejection_code :: bool where
  "test_each_limit_produces_its_own_rejection_code \<longleftrightarrow>
     (let e = eng_engine; k = kill_switch_new; b = Some (eng_book 0.5 10000 0); s = eng_snap
      in verdict_code (eng_check e (eng_order 1000 0.5) s k b) = Some ''max_trade_size'' \<and>
         verdict_code (eng_check e (eng_order 2 0.5) s k b) = Some ''below_min_order_size'' \<and>
         verdict_code (eng_check e (eng_order 100 0.5) (s\<lparr>rs_open_orders := 20\<rparr>) k b) = Some ''max_open_orders'' \<and>
         verdict_code (eng_check e (eng_order 100 0.5) (s\<lparr>rs_daily_pnl := -150\<rparr>) k b) = Some ''daily_loss_limit'' \<and>
         verdict_code (eng_check e (eng_order 100 0.5) (s\<lparr>rs_token_exposure := 990\<rparr>) k b) = Some ''max_position'' \<and>
         verdict_code (eng_check e (eng_order 100 0.5) (s\<lparr>rs_gross_exposure := 4990\<rparr>) k b)
           = Some ''max_portfolio_exposure'' \<and>
         verdict_code (eng_check e (eng_order 100 0.5) s k (Some (eng_book 0.5 10000 60000)))
           = Some ''stale_market_data'' \<and>
         verdict_code (eng_check e (eng_order 100 0.5) s k (Some (eng_book 0.5 10 0))) = Some ''insufficient_liquidity'')"

definition test_duplicate_source_events_are_refused_at_the_risk_layer_too :: bool where
  "test_duplicate_source_events_are_refused_at_the_risk_layer_too \<longleftrightarrow>
     (let ev = from_digest ''deadbeef'';
          v = check D eng_engine (eng_order 100 0.5) eng_snap status_default kill_switch_new
                (Some (eng_book 0.5 10000 0)) True ''W'' None (Some ev) test_now
      in verdict_code v = Some ''duplicate_order'')"

definition test_disabled_wallet_and_untradable_market_are_refused :: bool where
  "test_disabled_wallet_and_untradable_market_are_refused \<longleftrightarrow>
     (let e = eng_engine; b = Some (eng_book 0.5 10000 0);
          v1 = check D e (eng_order 100 0.5) eng_snap status_default kill_switch_new b False ''W'' None None test_now;
          v2 = check D e (eng_order 100 0.5) eng_snap status_default kill_switch_new b True ''W''
                 (Some (eng_market, False, ''closed'')) None test_now
      in verdict_code v1 = Some ''wallet_disabled'' \<and> verdict_code v2 = Some ''market_not_tradable'')"

definition test_unhealthy_subsystems_block_trading :: bool where
  "test_unhealthy_subsystems_block_trading \<longleftrightarrow>
     list_all (\<lambda>st. verdict_code (check D eng_engine (eng_order 100 0.5) eng_snap st kill_switch_new
         (Some (eng_book 0.5 10000 0)) True ''W'' None None test_now) = Some ''system_unhealthy'')
       [status_default\<lparr>ss_execution_ready := False\<rparr>, status_default\<lparr>ss_source_feed_healthy := False\<rparr>,
        status_default\<lparr>ss_market_data_healthy := False\<rparr>]"

definition test_database_outage_degrades_but_does_not_block :: bool where
  "test_database_outage_degrades_but_does_not_block \<longleftrightarrow>
     (let st = status_default\<lparr>ss_database_healthy := False\<rparr>
      in check D eng_engine (eng_order 100 0.5) eng_snap st kill_switch_new (Some (eng_book 0.5 10000 0))
           True ''W'' None None test_now = Approved)"

definition test_wide_slippage_is_refused :: bool where
  "test_wide_slippage_is_refused \<longleftrightarrow>
     (let r = (eng_order 100 0.65)\<lparr>rq_reference_price := unwrap (price_new 0.50)\<rparr>;
          v = eng_check eng_engine r eng_snap kill_switch_new (Some (eng_book 0.60 10000 0))
      in verdict_code v = Some ''slippage_too_wide'')"

definition test_missing_book_is_refused_when_market_data_is_required :: bool where
  "test_missing_book_is_refused_when_market_data_is_required \<longleftrightarrow>
     (let e = engine_new (eng_limits\<lparr>rl_require_market_data := True\<rparr>) PaperMode False;
          v = eng_check e (eng_order 100 0.5) eng_snap kill_switch_new None
      in verdict_code v = Some ''stale_market_data'')"

definition test_only_systemic_breaches_auto_engage_the_kill_switch :: bool where
  "test_only_systemic_breaches_auto_engage_the_kill_switch \<longleftrightarrow>
     should_auto_engage_kill_switch (DailyLossLimitReached 0 0) \<and>
     \<not> should_auto_engage_kill_switch (MaxTradeSizeExceeded 0 0) \<and>
     \<not> should_auto_engage_kill_switch (InsufficientLiquidity 0 0)"

definition test_daily_budget_rolls_over_at_the_utc_day_boundary :: bool where
  "test_daily_budget_rolls_over_at_the_utc_day_boundary \<longleftrightarrow>
     (let day1 = hours 1; b0 = budget_new test_day 100 day1;
          b1 = budget_record D test_day b0 (-80) day1; b2 = budget_record D test_day b1 (-30) day1;
          day2 = day1 + hours 24; b3 = budget_record D test_day b2 0 day2
      in budget_remaining D b1 = 20 \<and> \<not> budget_breached b1 \<and> budget_breached b2 \<and> budget_remaining D b2 = 0 \<and>
         \<not> budget_breached b3 \<and> budget_remaining D b3 = 100)"

definition test_profits_do_not_expand_the_loss_budget :: bool where
  "test_profits_do_not_expand_the_loss_budget \<longleftrightarrow>
     (let now = hours 1; b = budget_record D test_day (budget_new test_day 100 now) 500 now
      in budget_remaining D b = 100)"

lemma engine_tests:
  "test_a_clean_order_is_approved" "test_kill_switch_blocks_everything_first"
  "test_kill_switch_outranks_other_breaches" "test_live_mode_without_arming_is_refused"
  "test_live_mode_applies_a_tighter_order_cap" "test_each_limit_produces_its_own_rejection_code"
  "test_duplicate_source_events_are_refused_at_the_risk_layer_too"
  "test_disabled_wallet_and_untradable_market_are_refused" "test_unhealthy_subsystems_block_trading"
  "test_database_outage_degrades_but_does_not_block" "test_wide_slippage_is_refused"
  "test_missing_book_is_refused_when_market_data_is_required"
  "test_only_systemic_breaches_auto_engage_the_kill_switch"
  "test_daily_budget_rolls_over_at_the_utc_day_boundary" "test_profits_do_not_expand_the_loss_budget"
  by code_simp+

end
