(* ===== verification/StrategyTests.thy ===== *)
theory StrategyTests
  imports TestKit Strategy
begin

text \<open>The unit tests of the strategy crate.\<close>

section \<open>Tests of crates/strategy/src/sizing.rs\<close>

definition siz_ctx :: sizing_context where
  "siz_ctx = \<lparr>sx_equity = 10000, sx_current_market_exposure = 0, sx_max_position_usd = 1000, sx_max_trade_usd = 500,
     sx_min_trade_usd = 5, sx_available_liquidity = 10000, sx_remaining_daily_risk = 1000, sx_min_order_size = 1\<rparr>"

definition siz_address :: address where
  "siz_address = unwrap (address_new ''0x8a5152d056adb066c9e4dc65164620cdd82ceb6f'')"

lemma siz_address [code]: "siz_address = Address ''0x8a5152d056adb066c9e4dc65164620cdd82ceb6f''"
  by code_simp

definition siz_wallet :: "sizing_mode \<Rightarrow> target_wallet" where
  "siz_wallet mode = (target_wallet_new siz_address ''W'')\<lparr>tw_sizing := mode, tw_max_trade_usd := 500,
     tw_max_exposure_usd := 5000, tw_min_trade_usd := 5\<rparr>"

definition siz_px :: "rat \<Rightarrow> price" where
  "siz_px d = unwrap (price_new d)"

definition test_fixed_ratio_takes_the_configured_share :: bool where
  "test_fixed_ratio_takes_the_configured_share \<longleftrightarrow>
     (let s = unwrap (size_order D (siz_wallet (FixedRatio 0.25)) 1000 (siz_px 0.5) siz_ctx)
      in sz_notional s = 250 \<and> sz_quantity s = 500 \<and> sz_mode s = ''fixed_ratio'' \<and> sz_binding_constraint s = None)"

definition test_fixed_usd_ignores_the_source_size :: bool where
  "test_fixed_usd_ignores_the_source_size \<longleftrightarrow>
     (let w = siz_wallet (FixedUsd 50); small = unwrap (size_order D w 100 (siz_px 0.5) siz_ctx);
          huge = unwrap (size_order D w 1000000 (siz_px 0.5) siz_ctx)
      in sz_notional small = 50 \<and> sz_notional huge = 50)"

definition test_portfolio_percent_scales_with_equity :: bool where
  "test_portfolio_percent_scales_with_equity \<longleftrightarrow>
     (let w = siz_wallet (PortfolioPercent 0.02); a = unwrap (size_order D w 1000 (siz_px 0.5) siz_ctx);
          b = unwrap (size_order D w 1000 (siz_px 0.5) (siz_ctx\<lparr>sx_equity := 50000\<rparr>))
      in sz_notional a = 200 \<and> sz_notional b = 500 \<and> sz_binding_constraint b = Some ''wallet_max_trade'')"

definition test_risk_adjusted_shrinks_as_the_position_fills :: bool where
  "test_risk_adjusted_shrinks_as_the_position_fills \<longleftrightarrow>
     (let w = siz_wallet (RiskAdjusted 0.5 0.1);
          empty = unwrap (size_order D w 400 (siz_px 0.5) siz_ctx);
          half = unwrap (size_order D w 400 (siz_px 0.5) (siz_ctx\<lparr>sx_current_market_exposure := 500\<rparr>))
      in sz_notional empty = 200 \<and> sz_notional half = 100 \<and> sz_notional half < sz_notional empty)"

definition test_risk_adjusted_respects_available_liquidity :: bool where
  "test_risk_adjusted_respects_available_liquidity \<longleftrightarrow>
     (let w = siz_wallet (RiskAdjusted 1 0.1);
          s = unwrap (size_order D w 400 (siz_px 0.5) (siz_ctx\<lparr>sx_available_liquidity := 300\<rparr>))
      in sz_notional s = 30 \<and> sz_binding_constraint s = Some ''liquidity'')"

definition test_risk_adjusted_refuses_an_empty_book :: bool where
  "test_risk_adjusted_refuses_an_empty_book \<longleftrightarrow>
     (let w = siz_wallet (RiskAdjusted 1 0.1)
      in size_order D w 400 (siz_px 0.5) (siz_ctx\<lparr>sx_available_liquidity := 0\<rparr>) = Inl NoLiquidity)"

definition test_caps_can_only_reduce_never_increase :: bool where
  "test_caps_can_only_reduce_never_increase \<longleftrightarrow>
     (let c = siz_ctx
      in list_all (\<lambda>src. list_all (\<lambda>ratio.
           let w = siz_wallet (FixedRatio ratio)
           in case size_order D w src (siz_px 0.5) c of
                Inr s \<Rightarrow> sz_notional s \<le> tw_max_trade_usd w \<and> sz_notional s \<le> sx_max_trade_usd c \<and>
                  sz_notional s \<le> sx_max_position_usd c \<and> sz_notional s \<le> sx_remaining_daily_risk c
              | Inl _ \<Rightarrow> True)
          [0.01, 0.25, 1, 5]) [10, 100, 1000, 10000, 1000000])"

definition test_position_headroom_binds_and_then_refuses :: bool where
  "test_position_headroom_binds_and_then_refuses \<longleftrightarrow>
     (let w = siz_wallet (FixedRatio 1);
          s = unwrap (size_order D w 400 (siz_px 0.5) (siz_ctx\<lparr>sx_current_market_exposure := 900\<rparr>))
      in sz_notional s = 100 \<and> sz_binding_constraint s = Some ''position_headroom'' \<and>
         size_order D w 400 (siz_px 0.5) (siz_ctx\<lparr>sx_current_market_exposure := 1000\<rparr>) = Inl NoPositionHeadroom)"

definition test_exhausted_daily_risk_stops_trading_entirely :: bool where
  "test_exhausted_daily_risk_stops_trading_entirely \<longleftrightarrow>
     size_order D (siz_wallet (FixedRatio 0.25)) 1000 (siz_px 0.5) (siz_ctx\<lparr>sx_remaining_daily_risk := 0\<rparr>)
       = Inl DailyRiskExhausted"

definition test_dust_results_are_refused_rather_than_rounded_up :: bool where
  "test_dust_results_are_refused_rather_than_rounded_up \<longleftrightarrow>
     (case size_order D (siz_wallet (FixedRatio 0.001)) 100 (siz_px 0.5) siz_ctx of
        Inl (BelowMinimum _ _) \<Rightarrow> True | _ \<Rightarrow> False)"

definition test_shares_round_down_to_the_size_increment :: bool where
  "test_shares_round_down_to_the_size_increment \<longleftrightarrow>
     (let s = unwrap (size_order D (siz_wallet (FixedUsd 100)) 1000 (siz_px 0.33) (siz_ctx\<lparr>sx_min_order_size := 5\<rparr>))
      in sz_quantity s = 300 \<and> sz_notional s \<le> 100)"

definition test_limit_price_widens_in_the_costly_direction :: bool where
  "test_limit_price_widens_in_the_costly_direction \<longleftrightarrow>
     (let tick = 0.001; buy = limit_price D (siz_px 0.61) Buy 50 tick; sell = limit_price D (siz_px 0.61) Sell 50 tick
      in buy = 0.613 \<and> buy > 0.61 \<and> sell = 0.607 \<and> sell < 0.61)"

definition test_zero_slippage_budget_pins_the_reference_price :: bool where
  "test_zero_slippage_budget_pins_the_reference_price \<longleftrightarrow> limit_price D (siz_px 0.61) Buy 0 0.01 = 0.61"

definition test_limit_price_stays_inside_the_tradable_range :: bool where
  "test_limit_price_stays_inside_the_tradable_range \<longleftrightarrow>
     (let p = limit_price D (siz_px 0.99) Buy 5000 0.01; q = limit_price D (siz_px 0.01) Sell 5000 0.01
      in p < 1 \<and> p > 0 \<and> q > 0 \<and> q < 1)"

lemma sizing_tests:
  "test_fixed_ratio_takes_the_configured_share" "test_fixed_usd_ignores_the_source_size"
  "test_portfolio_percent_scales_with_equity" "test_risk_adjusted_shrinks_as_the_position_fills"
  "test_risk_adjusted_respects_available_liquidity" "test_risk_adjusted_refuses_an_empty_book"
  "test_position_headroom_binds_and_then_refuses" "test_exhausted_daily_risk_stops_trading_entirely"
  "test_dust_results_are_refused_rather_than_rounded_up" "test_shares_round_down_to_the_size_increment"
  "test_limit_price_widens_in_the_costly_direction" "test_zero_slippage_budget_pins_the_reference_price"
  "test_limit_price_stays_inside_the_tradable_range"
  by code_simp+

lemma sizing_sweep_test: "test_caps_can_only_reduce_never_increase"
  by code_simp

section \<open>Tests of crates/strategy/src/copy_trader.rs\<close>

text \<open>The base confidences as binary64 values.\<close>

lemma base_confidence_code [code]:
  "base_confidence RtdsWebsocket = 4278419646001971 / 4503599627370496"
  "base_confidence RestBackfill = 5404319552844595 / 9007199254740992"
  "base_confidence ReplaySource = 8106479329266893 / 9007199254740992"
  "base_confidence DemoSource = 1 / 2"
  by (simp_all add: f64_round_def bit_length.simps round_half_even_def Let_def)

definition cpt_market :: market_id where
  "cpt_market = unwrap (market_id_new (''0x'' @ hex_padded 64 1))"

definition cpt_token :: token_id where
  "cpt_token = unwrap (token_id_new ''8320847481581361120679688919767116680249870957184742802638701891451667752578'')"

definition cpt_tx :: tx_hash where
  "cpt_tx = unwrap (tx_hash_new (''0x'' @ hex_padded 64 2))"

lemma cpt_ids [code]:
  "cpt_market = MarketId ''0x0000000000000000000000000000000000000000000000000000000000000001''"
  "cpt_token = TokenId ''8320847481581361120679688919767116680249870957184742802638701891451667752578''"
  "cpt_tx = TxHash ''0x0000000000000000000000000000000000000000000000000000000000000002''"
  by code_simp+

definition cpt_book :: "rat \<Rightarrow> rat \<Rightarrow> rat \<Rightarrow> int \<Rightarrow> order_book" where
  "cpt_book bid ask s age_ms = \<lparr>bk_market = cpt_market, bk_token = cpt_token,
     bk_bids = [\<lparr>lv_price = unwrap (price_new bid), lv_size = unwrap (qty_new s)\<rparr>],
     bk_asks = [\<lparr>lv_price = unwrap (price_new ask), lv_size = unwrap (qty_new s)\<rparr>],
     bk_tick_size = 0.01, bk_min_order_size = 1, bk_timestamp = test_now - ms age_ms, bk_seq = 1\<rparr>"

definition cpt_src :: "side \<Rightarrow> rat \<Rightarrow> rat \<Rightarrow> trade_source \<Rightarrow> source_trade" where
  "cpt_src s price q source = \<lparr>so_event_id = from_digest ''abc'', so_correlation_id = 5, so_trader = siz_address,
     so_market_id = cpt_market, so_token_id = cpt_token, so_outcome = ''Yes'', so_side = s,
     so_price = unwrap (price_new price), so_quantity = unwrap (qty_new q), so_tx_hash = cpt_tx, so_occurrence = 0,
     so_source_ts = test_now - ms 400, so_detected_ts = test_now, so_source = source, so_market_title = ''T'',
     so_market_slug = ''t''\<rparr>"

definition cpt_ctx :: sizing_context where
  "cpt_ctx = \<lparr>sx_equity = 10000, sx_current_market_exposure = 0, sx_max_position_usd = 1000, sx_max_trade_usd = 500,
     sx_min_trade_usd = 5, sx_available_liquidity = 10000, sx_remaining_daily_risk = 1000, sx_min_order_size = 1\<rparr>"

definition cpt_wallet :: target_wallet where
  "cpt_wallet = (target_wallet_new siz_address ''Whale'')\<lparr>tw_max_trade_usd := 500, tw_min_trade_usd := 5\<rparr>"

text \<open>The call of the tests; the new signal has the id 6.\<close>

definition cpt_signal ::
    "strategy_config \<Rightarrow> source_trade \<Rightarrow> target_wallet \<Rightarrow> order_book option \<Rightarrow> signal_refusal + copy_signal" where
  "cpt_signal cfg t w b = strategy_on_source_trade D cfg t w b cpt_ctx 0.01 test_now 6"

definition test_produces_a_signal_with_the_full_audit_chain :: bool where
  "test_produces_a_signal_with_the_full_audit_chain \<longleftrightarrow>
     (let trade = cpt_src Buy 0.60 1000 RtdsWebsocket;
          s = unwrap (cpt_signal strategy_default trade cpt_wallet (Some (cpt_book 0.59 0.61 10000 100)))
      in cs_correlation_id s = so_correlation_id trade \<and> cs_source_event_id s = so_event_id trade \<and>
         cs_target_notional s = 600 \<and> cs_copy_notional s \<le> 150 \<and> cs_side s = Buy \<and>
         \<not> Option.is_none (lt_signal (cs_latency s)) \<and> \<not> Option.is_none (detection_us (cs_latency s)))"

definition test_buy_prices_against_the_ask_not_the_source_fill :: bool where
  "test_buy_prices_against_the_ask_not_the_source_fill \<longleftrightarrow>
     (let trade = cpt_src Buy 0.60 1000 RtdsWebsocket;
          s = unwrap (cpt_signal strategy_default trade cpt_wallet (Some (cpt_book 0.64 0.65 10000 100)))
      in cs_limit_price s \<ge> 0.65 \<and> map_of (cs_metadata s) ''reference_price'' = Some (JStr ''0.65''))"

definition test_sell_prices_against_the_bid :: bool where
  "test_sell_prices_against_the_bid \<longleftrightarrow>
     (let trade = cpt_src Sell 0.60 1000 RtdsWebsocket;
          s = unwrap (cpt_signal strategy_default trade cpt_wallet (Some (cpt_book 0.55 0.65 10000 100)))
      in map_of (cs_metadata s) ''reference_price'' = Some (JStr ''0.55'') \<and> cs_limit_price s \<le> 0.55)"

definition test_stale_books_are_refused_rather_than_traded_on :: bool where
  "test_stale_books_are_refused_rather_than_traded_on \<longleftrightarrow>
     (case cpt_signal (strategy_default\<lparr>sg_max_book_age_ms := 5000\<rparr>) (cpt_src Buy 0.60 1000 RtdsWebsocket) cpt_wallet
             (Some (cpt_book 0.59 0.61 10000 30000)) of
        Inl (StaleBook _ _) \<Rightarrow> True | _ \<Rightarrow> False)"

definition test_missing_book_lowers_confidence_but_still_signals :: bool where
  "test_missing_book_lowers_confidence_but_still_signals \<longleftrightarrow>
     (let s = unwrap (cpt_signal strategy_default (cpt_src Buy 0.60 1000 RtdsWebsocket) cpt_wallet None)
      in cs_confidence s \<le> f64_round 0.5)"

definition test_backfilled_trades_are_less_confident_than_live_ones :: bool where
  "test_backfilled_trades_are_less_confident_than_live_ones \<longleftrightarrow>
     (let b = Some (cpt_book 0.59 0.61 10000 100);
          live = unwrap (cpt_signal strategy_default (cpt_src Buy 0.6 1000 RtdsWebsocket) cpt_wallet b);
          old = unwrap (cpt_signal strategy_default (cpt_src Buy 0.6 1000 RestBackfill) cpt_wallet b)
      in cs_confidence old < cs_confidence live)"

definition test_sizing_refusal_propagates_with_its_reason :: bool where
  "test_sizing_refusal_propagates_with_its_reason \<longleftrightarrow>
     (let w = cpt_wallet\<lparr>tw_sizing := FixedRatio 0.01\<rparr>
      in case cpt_signal strategy_default (cpt_src Buy 0.60 10 RtdsWebsocket) w (Some (cpt_book 0.59 0.61 10000 100)) of
           Inl (SizingRefused (BelowMinimum _ _)) \<Rightarrow> True | _ \<Rightarrow> False)"

definition test_liquidity_is_read_from_the_book_for_risk_adjusted_sizing :: bool where
  "test_liquidity_is_read_from_the_book_for_risk_adjusted_sizing \<longleftrightarrow>
     (let w = cpt_wallet\<lparr>tw_sizing := RiskAdjusted 1 0.5\<rparr>;
          s = unwrap (cpt_signal strategy_default (cpt_src Buy 0.60 10000 RtdsWebsocket) w
                (Some (cpt_book 0.59 0.61 100 100)))
      in cs_copy_notional s \<le> 35)"

definition test_achievable_price_walks_the_real_book :: bool where
  "test_achievable_price_walks_the_real_book \<longleftrightarrow>
     (let b0 = cpt_book 0.59 0.61 100 0;
          b = b0\<lparr>bk_asks := bk_asks b0 @ [\<lparr>lv_price = unwrap (price_new 0.62), lv_size = unwrap (qty_new 100)\<rparr>]\<rparr>
      in achievable_price D b Buy (unwrap (qty_new 200)) (unwrap (price_new 0.63)) = Some 0.615)"

lemma copy_trader_tests:
  "test_produces_a_signal_with_the_full_audit_chain \<and> test_buy_prices_against_the_ask_not_the_source_fill \<and> test_sell_prices_against_the_bid \<and> test_stale_books_are_refused_rather_than_traded_on \<and> test_missing_book_lowers_confidence_but_still_signals \<and> test_backfilled_trades_are_less_confident_than_live_ones \<and> test_sizing_refusal_propagates_with_its_reason \<and> test_liquidity_is_read_from_the_book_for_risk_adjusted_sizing \<and> test_achievable_price_walks_the_real_book"
  by code_simp

end
