(* ===== verification/PortfolioTests.thy ===== *)
theory PortfolioTests
  imports TestKit Events
begin

text \<open>The unit tests of the portfolio crate.\<close>

section \<open>Tests of crates/portfolio/src/lib.rs\<close>

definition pft_tok :: "nat \<Rightarrow> token_id" where
  "pft_tok n = unwrap (token_id_new (int_digits (5000 + int n)))"

definition pft_mkt :: "nat \<Rightarrow> market_id" where
  "pft_mkt n = unwrap (market_id_new (''0x'' @ hex_padded 64 n))"

definition pft_fill :: "nat \<Rightarrow> nat \<Rightarrow> side \<Rightarrow> rat \<Rightarrow> rat \<Rightarrow> rat \<Rightarrow> fill" where
  "pft_fill t m s q px fee = make_fill 1 2 3 (pft_mkt m) (pft_tok t) s (unwrap (qty_new q)) (unwrap (price_new px)) fee
     test_now"

definition pft_pf :: portfolio where
  "pft_pf = portfolio_new test_day 10000 test_now"

text \<open>The calls of the tests, which read the clock themselves.\<close>

definition pft_apply :: "portfolio \<Rightarrow> fill \<Rightarrow> string \<Rightarrow> portfolio" where
  "pft_apply p f name = fst (portfolio_apply_fill D test_day p f name test_now)"

definition pft_mark :: "portfolio \<Rightarrow> nat \<Rightarrow> rat \<Rightarrow> portfolio" where
  "pft_mark p t px = portfolio_mark D p (pft_tok t) (unwrap (price_new px)) test_now"

definition test_buying_moves_cash_and_creates_a_position :: bool where
  "test_buying_moves_cash_and_creates_a_position \<longleftrightarrow>
     (let p = pft_apply pft_pf (pft_fill 1 1 Buy 100 0.60 0.5) ''Yes''
      in pf_cash p = 9939.5 \<and> ps_net_quantity (the (position_of p (pft_tok 1))) = 100 \<and> pf_fees p = 0.5)"

definition test_round_trip_realises_the_spread_net_of_fees :: bool where
  "test_round_trip_realises_the_spread_net_of_fees \<longleftrightarrow>
     (let p1 = pft_apply pft_pf (pft_fill 1 1 Buy 100 0.60 0) ''Yes'';
          p = pft_apply p1 (pft_fill 1 1 Sell 100 0.70 0) ''Yes''
      in pf_realized p = 10 \<and> is_flat (the (position_of p (pft_tok 1))) \<and> pf_cash p = 10010)"

definition test_cash_and_equity_stay_consistent_through_a_round_trip :: bool where
  "test_cash_and_equity_stay_consistent_through_a_round_trip \<longleftrightarrow>
     (let p1 = pft_apply pft_pf (pft_fill 1 1 Buy 100 0.60 1) ''Yes''; p = pft_mark p1 1 0.60
      in equity D p = 9999 \<and> total_pnl D p = -1)"

definition test_unrealised_is_unknown_until_the_position_is_marked :: bool where
  "test_unrealised_is_unknown_until_the_position_is_marked \<longleftrightarrow>
     (let p1 = pft_apply pft_pf (pft_fill 1 1 Buy 100 0.60 0) ''Yes''; p = pft_mark p1 1 0.75
      in portfolio_unrealized D p1 = None \<and> position_value D p1 = None \<and>
         portfolio_unrealized D p = Some 15 \<and> position_value D p = Some 75)"

definition test_a_flat_book_has_zero_not_unknown_unrealised :: bool where
  "test_a_flat_book_has_zero_not_unknown_unrealised \<longleftrightarrow> portfolio_unrealized D pft_pf = Some 0"

definition test_partially_marked_book_reports_unknown :: bool where
  "test_partially_marked_book_reports_unknown \<longleftrightarrow>
     (let p1 = pft_apply pft_pf (pft_fill 1 1 Buy 100 0.60 0) ''Yes'';
          p2 = pft_apply p1 (pft_fill 2 2 Buy 100 0.30 0) ''No''; p = pft_mark p2 1 0.65
      in portfolio_unrealized D p = None)"

definition test_exposure_aggregates_per_token_and_per_market :: bool where
  "test_exposure_aggregates_per_token_and_per_market \<longleftrightarrow>
     (let p1 = pft_apply pft_pf (pft_fill 1 1 Buy 100 0.60 0) ''Yes'';
          p2 = pft_apply p1 (pft_fill 2 1 Buy 100 0.40 0) ''No'';
          p = pft_apply p2 (pft_fill 3 2 Buy 50 0.50 0) ''Yes''
      in token_exposure D p (pft_tok 1) = 60 \<and> market_exposure D p (pft_mkt 1) = 100 \<and> gross_exposure D p = 125)"

definition test_pnl_is_attributed_to_the_originating_wallet :: bool where
  "test_pnl_is_attributed_to_the_originating_wallet \<longleftrightarrow>
     (let w = unwrap (address_new ''0x8a5152d056adb066c9e4dc65164620cdd82ceb6f'');
          buy = pft_fill 1 1 Buy 100 0.60 0;
          sell = (pft_fill 1 1 Sell 100 0.70 0)\<lparr>fi_order_id := fi_order_id buy\<rparr>;
          p1 = attribute_order pft_pf (fi_order_id buy) w;
          p = pft_apply (pft_apply p1 buy ''Yes'') sell ''Yes''
      in wallet_pnl p w = 10 \<and> market_pnl p (pft_mkt 1) = 10)"

definition test_drawdown_is_measured_from_peak_equity :: bool where
  "test_drawdown_is_measured_from_peak_equity \<longleftrightarrow>
     (let p1 = pft_apply pft_pf (pft_fill 1 1 Buy 100 0.50 0) ''Yes''; p2 = pft_mark p1 1 0.90;
          peak = pf_peak_equity p2; p3 = pft_mark p2 1 0.20; s = snapshot D test_day p3 0 test_now
      in peak > 10000 \<and> drawdown_pct D s > 0 \<and> pn_peak_equity s = peak)"

definition test_snapshot_reports_a_coherent_view :: bool where
  "test_snapshot_reports_a_coherent_view \<longleftrightarrow>
     (let p1 = pft_apply pft_pf (pft_fill 1 1 Buy 100 0.60 0.5) ''Yes''; p = pft_mark p1 1 0.65;
          s = snapshot D test_day p 3 test_now
      in pn_open_orders s = 3 \<and> pn_active_positions s = 1 \<and> pn_fees_paid s = 0.5 \<and>
         pn_equity s = d_add D (pf_cash p) (pn_position_value s) \<and> pn_unrealized_pnl s = Some 5)"

definition test_short_positions_are_handled :: bool where
  "test_short_positions_are_handled \<longleftrightarrow>
     (let p1 = pft_apply pft_pf (pft_fill 1 1 Sell 100 0.60 0) ''Yes'';
          p = pft_apply p1 (pft_fill 1 1 Buy 100 0.50 0) ''Yes''
      in ps_net_quantity (the (position_of p1 (pft_tok 1))) = -100 \<and> pf_cash p1 = 10060 \<and> pf_realized p = 10)"

definition test_restore_rebuilds_state_after_a_restart :: bool where
  "test_restore_rebuilds_state_after_a_restart \<longleftrightarrow>
     (let pos = fst (position_apply D (position_new (pft_mkt 1) (pft_tok 1) ''Yes'' test_now) Buy (unwrap (qty_new 100))
                      (unwrap (price_new 0.6)) 0 test_now);
          p = portfolio_restore D pft_pf 5000 [pos] 42 3
      in pf_cash p = 5000 \<and> pf_realized p = 42 \<and> ps_net_quantity (the (position_of p (pft_tok 1))) = 100)"

definition test_reset_returns_to_the_starting_state :: bool where
  "test_reset_returns_to_the_starting_state \<longleftrightarrow>
     (let p = portfolio_reset test_day (pft_apply pft_pf (pft_fill 1 1 Buy 100 0.60 1) ''Yes'') test_now
      in pf_cash p = 10000 \<and> positions D p = [] \<and> pf_realized p = 0 \<and> pf_fees p = 0)"

definition test_return_pct_tracks_equity_against_inception :: bool where
  "test_return_pct_tracks_equity_against_inception \<longleftrightarrow>
     (let p = pft_mark (pft_apply pft_pf (pft_fill 1 1 Buy 1000 0.50 0) ''Yes'') 1 0.60
      in return_pct D p = 0.01)"

definition pft_step :: "portfolio \<Rightarrow> nat \<Rightarrow> portfolio" where
  "pft_step p i = pft_apply p (pft_fill (i mod 5) 1 Buy 10 0.5 0) ''Yes''"

definition test_many_fills_keep_cash_and_positions_consistent :: bool where
  "test_many_fills_keep_cash_and_positions_consistent \<longleftrightarrow>
     (let p = foldl pft_step pft_pf [1..<21];
          cost = d_sum D (map (\<lambda>x. d_mul D (ps_net_quantity x) (ps_avg_entry x)) (positions D p))
      in d_add D (pf_cash p) cost = 10000)"

lemma portfolio_tests:
  "test_buying_moves_cash_and_creates_a_position" "test_round_trip_realises_the_spread_net_of_fees"
  "test_cash_and_equity_stay_consistent_through_a_round_trip"
  "test_unrealised_is_unknown_until_the_position_is_marked" "test_a_flat_book_has_zero_not_unknown_unrealised"
  "test_partially_marked_book_reports_unknown" "test_exposure_aggregates_per_token_and_per_market"
  "test_pnl_is_attributed_to_the_originating_wallet" "test_drawdown_is_measured_from_peak_equity"
  "test_snapshot_reports_a_coherent_view" "test_short_positions_are_handled"
  "test_restore_rebuilds_state_after_a_restart" "test_reset_returns_to_the_starting_state"
  "test_return_pct_tracks_equity_against_inception"
  by code_simp+

lemma portfolio_sweep_test: "test_many_fills_keep_cash_and_positions_consistent"
  by code_simp

end
