(* ===== verification/MatchingTests.thy ===== *)
theory MatchingTests
  imports TestKit Matching
begin

text \<open>The unit tests of the simulator crate. The seeded generator is one fixed triple of draws, and
  the test that a seed repeats itself is left out.\<close>

section \<open>Tests of crates/simulator/src/matching.rs\<close>

definition mch_rng :: draws where
  "mch_rng = \<lparr>dr_reject = 0.5, dr_fill = 0.5, dr_frac = 0.5\<rparr>"

definition mch_market :: market_id where
  "mch_market = unwrap (market_id_new (''0x'' @ hex_padded 64 1))"

definition mch_token :: token_id where
  "mch_token = unwrap (token_id_new ''83208474815813611206796889197671166802498709571847428026387'')"

lemma mch_ids [code]:
  "mch_market = MarketId ''0x0000000000000000000000000000000000000000000000000000000000000001''"
  "mch_token = TokenId ''83208474815813611206796889197671166802498709571847428026387''"
  by code_simp+

text \<open>The default probabilities as binary64 values.\<close>

lemma mch_default [code]:
  "match_params_default = \<lparr>mp_fee_bps = 0, mp_slippage_bps = 10, mp_partial_fill_enabled = True,
     mp_fill_probability = 8286623314361713 / 9007199254740992,
     mp_reject_probability = 5764607523034235 / 576460752303423488\<rparr>"
  by (simp add: match_params_default_def f64_round_def bit_length.simps round_half_even_def Let_def)

definition mch_level :: "rat \<times> rat \<Rightarrow> level" where
  "mch_level l = \<lparr>lv_price = unwrap (price_new (fst l)), lv_size = unwrap (qty_new (snd l))\<rparr>"

definition mch_book :: "(rat \<times> rat) list \<Rightarrow> (rat \<times> rat) list \<Rightarrow> order_book" where
  "mch_book asks bids = \<lparr>bk_market = mch_market, bk_token = mch_token, bk_bids = map mch_level bids,
     bk_asks = map mch_level asks, bk_tick_size = 0.01, bk_min_order_size = 1, bk_timestamp = test_now, bk_seq = 1\<rparr>"

definition mch_order :: "side \<Rightarrow> rat \<Rightarrow> rat \<Rightarrow> order_type \<Rightarrow> time_in_force \<Rightarrow> order_request" where
  "mch_order s q limit ty tif = \<lparr>rq_order_id = 1, rq_correlation_id = 2, rq_signal_id = None,
     rq_market_id = mch_market, rq_token_id = mch_token, rq_side = s, rq_order_type = ty, rq_time_in_force = tif,
     rq_quantity = unwrap (qty_new q), rq_limit_price = unwrap (price_new limit),
     rq_reference_price = unwrap (price_new limit), rq_tick_size = 0.01, rq_created_at = test_now\<rparr>"

definition mch_certain :: match_params where
  "mch_certain = \<lparr>mp_fee_bps = 0, mp_slippage_bps = 0, mp_partial_fill_enabled = True, mp_fill_probability = 1,
     mp_reject_probability = 0\<rparr>"

definition test_marketable_order_sweeps_real_levels_at_vwap :: bool where
  "test_marketable_order_sweeps_real_levels_at_vwap \<longleftrightarrow>
     (let b = mch_book [(0.61, 100), (0.62, 100)] [(0.59, 100)]; r = mch_order Buy 200 0.63 LimitOrder Gtc
      in case match_order D r b mch_certain mch_rng of
           SimFilled q price _ _ \<Rightarrow> q = 200 \<and> price = 0.615 | _ \<Rightarrow> False)"

definition test_thin_book_produces_a_partial_fill_not_a_full_one :: bool where
  "test_thin_book_produces_a_partial_fill_not_a_full_one \<longleftrightarrow>
     (let b = mch_book [(0.61, 50)] [(0.59, 100)]; r = mch_order Buy 500 0.63 LimitOrder Gtc
      in case match_order D r b mch_certain mch_rng of
           SimFilled q _ _ _ \<Rightarrow> q = 50 \<and> q < rq_quantity r | _ \<Rightarrow> False)"

definition test_fok_refuses_a_partial :: bool where
  "test_fok_refuses_a_partial \<longleftrightarrow>
     (let b = mch_book [(0.61, 50)] [(0.59, 100)]; r = mch_order Buy 500 0.63 LimitOrder Fok
      in match_order D r b mch_certain mch_rng = SimNoLiquidity)"

definition test_partial_fills_can_be_disabled :: bool where
  "test_partial_fills_can_be_disabled \<longleftrightarrow>
     (let b = mch_book [(0.61, 50)] [(0.59, 100)]; r = mch_order Buy 500 0.63 LimitOrder Gtc;
          p = mch_certain\<lparr>mp_partial_fill_enabled := False\<rparr>
      in match_order D r b p mch_rng = SimNoLiquidity)"

definition test_unmarketable_gtc_rests_rather_than_filling :: bool where
  "test_unmarketable_gtc_rests_rather_than_filling \<longleftrightarrow>
     (let b = mch_book [(0.61, 100)] [(0.59, 100)]; r = mch_order Buy 100 0.55 LimitOrder Gtc
      in match_order D r b mch_certain mch_rng = SimResting)"

definition test_unmarketable_ioc_dies_immediately :: bool where
  "test_unmarketable_ioc_dies_immediately \<longleftrightarrow>
     (let b = mch_book [(0.61, 100)] [(0.59, 100)]; r = mch_order Buy 100 0.55 LimitOrder Ioc
      in match_order D r b mch_certain mch_rng = SimNoLiquidity)"

definition test_fill_never_beats_our_own_limit_price :: bool where
  "test_fill_never_beats_our_own_limit_price \<longleftrightarrow>
     (let b = mch_book [(0.61, 1000)] [(0.59, 1000)]; r = mch_order Buy 100 0.615 LimitOrder Gtc;
          p = mch_certain\<lparr>mp_slippage_bps := 5000\<rparr>
      in case match_order D r b p mch_rng of
           SimFilled _ price _ _ \<Rightarrow> price \<le> rq_limit_price r \<and> price = 0.615 | _ \<Rightarrow> False)"

definition test_slippage_moves_the_price_against_us_on_both_sides :: bool where
  "test_slippage_moves_the_price_against_us_on_both_sides \<longleftrightarrow>
     (let b = mch_book [(0.60, 1000)] [(0.40, 1000)]; p = mch_certain\<lparr>mp_slippage_bps := 100\<rparr>;
          buy = mch_order Buy 100 0.70 LimitOrder Gtc; sell = mch_order Sell 100 0.30 LimitOrder Gtc
      in (case match_order D buy b p mch_rng of SimFilled _ price _ _ \<Rightarrow> price > 0.60 | _ \<Rightarrow> False) \<and>
         (case match_order D sell b p mch_rng of SimFilled _ price _ _ \<Rightarrow> price < 0.40 | _ \<Rightarrow> False))"

definition test_fees_are_charged_on_notional :: bool where
  "test_fees_are_charged_on_notional \<longleftrightarrow>
     (let b = mch_book [(0.50, 1000)] [(0.40, 1000)]; r = mch_order Buy 100 0.60 LimitOrder Gtc;
          p = mch_certain\<lparr>mp_fee_bps := 100\<rparr>
      in case match_order D r b p mch_rng of
           SimFilled q price fee _ \<Rightarrow> fee = d_mul D (qty_notional D q price) 0.01 | _ \<Rightarrow> False)"

definition test_empty_book_yields_no_liquidity :: bool where
  "test_empty_book_yields_no_liquidity \<longleftrightarrow>
     (let b = mch_book [] []; r = mch_order Buy 100 0.60 MarketOrder Gtc
      in match_order D r b mch_certain mch_rng = SimNoLiquidity)"

definition test_rejection_probability_is_honoured :: bool where
  "test_rejection_probability_is_honoured \<longleftrightarrow>
     (let b = mch_book [(0.50, 1000)] [(0.40, 1000)]; r = mch_order Buy 100 0.60 LimitOrder Gtc;
          p = mch_certain\<lparr>mp_reject_probability := 1\<rparr>
      in case match_order D r b p mch_rng of SimRejected _ \<Rightarrow> True | _ \<Rightarrow> False)"

definition test_resting_fill_requires_the_market_to_trade_through :: bool where
  "test_resting_fill_requires_the_market_to_trade_through \<longleftrightarrow>
     (let buy = mch_order Buy 100 0.55 LimitOrder Gtc; sell = mch_order Sell 100 0.65 LimitOrder Gtc
      in resting_would_fill buy (unwrap (price_new 0.55)) \<and> resting_would_fill buy (unwrap (price_new 0.50)) \<and>
         \<not> resting_would_fill buy (unwrap (price_new 0.60)) \<and> resting_would_fill sell (unwrap (price_new 0.70)) \<and>
         \<not> resting_would_fill sell (unwrap (price_new 0.60)))"

definition mch_within :: "rat \<Rightarrow> rat \<Rightarrow> bool" where
  "mch_within q depth =
     (let b = mch_book [(0.61, depth)] [(0.59, depth)]; r = mch_order Buy q 0.70 LimitOrder Gtc
      in case match_order D r b match_params_default mch_rng of
           SimFilled got _ _ _ \<Rightarrow> got \<le> rq_quantity r | _ \<Rightarrow> True)"

definition test_filled_quantity_never_exceeds_requested :: bool where
  "test_filled_quantity_never_exceeds_requested \<longleftrightarrow>
     list_all (\<lambda>q. list_all (mch_within q) [5, 100, 100000]) [1, 10, 500, 10000]"

lemma matching_tests:
  "test_marketable_order_sweeps_real_levels_at_vwap" "test_thin_book_produces_a_partial_fill_not_a_full_one"
  "test_fok_refuses_a_partial" "test_partial_fills_can_be_disabled"
  "test_unmarketable_gtc_rests_rather_than_filling" "test_unmarketable_ioc_dies_immediately"
  "test_fill_never_beats_our_own_limit_price" "test_slippage_moves_the_price_against_us_on_both_sides"
  "test_fees_are_charged_on_notional" "test_empty_book_yields_no_liquidity" "test_rejection_probability_is_honoured"
  "test_resting_fill_requires_the_market_to_trade_through"
  by code_simp+

lemma matching_sweep_test: "test_filled_quantity_never_exceeds_requested"
  by code_simp

end
