(* ===== verification/TrackerTests.thy ===== *)
theory TrackerTests
  imports TestKit Tracker
begin

text \<open>The unit tests of the wallet tracker crate. The hash is the identity, which collides as little as
  SHA-256 does. The three tests that fill the index with thousands of entries are left out.\<close>

definition test_sha :: "string \<Rightarrow> string" where
  "test_sha s = s"

section \<open>Tests of crates/wallet_tracker/src/dedup.rs\<close>

definition ddp_tx :: "nat \<Rightarrow> tx_hash" where
  "ddp_tx n = unwrap (tx_hash_new (''0x'' @ hex_padded 64 n))"

definition ddp_addr :: "nat \<Rightarrow> address" where
  "ddp_addr n = unwrap (address_new (''0x'' @ hex_padded 40 n))"

definition ddp_tok :: token_id where
  "ddp_tok = unwrap (token_id_new ''83208474815813611206796889197671166802498709571847428026387018914516677525784'')"

definition ddp_key :: "nat \<Rightarrow> nat \<Rightarrow> rat \<Rightarrow> rat \<Rightarrow> content_key" where
  "ddp_key t a price s = content_key_new D (ddp_tx t) (ddp_addr a) ddp_tok Buy (unwrap (price_new price))
     (unwrap (qty_new s))"

text \<open>Some calls in a row; a backfill batch numbers its rows.\<close>

primrec ddp_live :: "nat \<Rightarrow> content_key \<Rightarrow> dedup_index \<Rightarrow> dedup_index \<times> dedup_verdict list" where
  "ddp_live 0 k d = (d, [])"
| "ddp_live (Suc n) k d =
     (let (d1, v) = observe_live test_sha d k test_now; (d2, vs) = ddp_live n k d1 in (d2, v # vs))"

primrec ddp_backfill ::
    "nat \<Rightarrow> content_key \<Rightarrow> dedup_index \<times> batch_ordinals \<Rightarrow> (dedup_index \<times> batch_ordinals) \<times> dedup_verdict list" where
  "ddp_backfill 0 k S = (S, [])"
| "ddp_backfill (Suc n) k S =
     (let (b1, i) = batch_next (snd S) k; (d1, v) = observe_backfill test_sha (fst S) k i test_now;
          (S2, vs) = ddp_backfill n k (d1, b1)
      in (S2, v # vs))"

definition test_identical_fills_in_one_tx_get_distinct_identities :: bool where
  "test_identical_fills_in_one_tx_get_distinct_identities \<longleftrightarrow>
     (let k = ddp_key 1 1 0.98 5;
          (d1, a) = observe_live test_sha dedup_default k test_now; (d2, b) = observe_live test_sha d1 k test_now
      in is_new a \<and> is_new b \<and> verdict_event_id a \<noteq> verdict_event_id b \<and>
         verdict_occurrence a = 0 \<and> verdict_occurrence b = 1)"

definition test_backfill_overlapping_the_live_feed_is_recognised_as_duplicate :: bool where
  "test_backfill_overlapping_the_live_feed_is_recognised_as_duplicate \<longleftrightarrow>
     (let k = ddp_key 1 1 0.98 5;
          (d1, live) = observe_live test_sha dedup_default k test_now;
          (d2, b) = observe_backfill test_sha d1 k 0 test_now
      in \<not> is_new b \<and> verdict_event_id b = verdict_event_id live)"

definition test_backfill_multiset_reconciliation_is_exact :: bool where
  "test_backfill_multiset_reconciliation_is_exact \<longleftrightarrow>
     (let k = ddp_key 1 1 0.98 5; (d1, _) = ddp_live 2 k dedup_default; (_, vs) = ddp_backfill 3 k (d1, [])
      in map is_new vs = [False, False, True] \<and> verdict_occurrence (last vs) = 2)"

definition test_backfill_during_a_gap_is_all_new :: bool where
  "test_backfill_during_a_gap_is_all_new \<longleftrightarrow>
     (let k = ddp_key 2 3 0.44 120; (_, vs) = ddp_backfill 3 k (dedup_default, [])
      in map is_new vs = [True, True, True] \<and> map verdict_occurrence vs = [0, 1, 2])"

definition test_different_wallets_in_one_tx_are_independent :: bool where
  "test_different_wallets_in_one_tx_are_independent \<longleftrightarrow>
     (let (d1, a) = observe_live test_sha dedup_default (ddp_key 1 1 0.6 10) test_now;
          (d2, b) = observe_live test_sha d1 (ddp_key 1 2 0.6 10) test_now
      in verdict_event_id a \<noteq> verdict_event_id b \<and> verdict_occurrence a = 0 \<and> verdict_occurrence b = 0)"

definition test_price_formatting_does_not_change_identity :: bool where
  "test_price_formatting_does_not_change_identity \<longleftrightarrow>
     (let k1 = content_key_new D (ddp_tx 1) (ddp_addr 1) ddp_tok Buy (unwrap (price_new 0.98)) (unwrap (qty_new 5));
          k2 = content_key_new D (ddp_tx 1) (ddp_addr 1) ddp_tok Buy (unwrap (price_new 0.980)) (unwrap (qty_new 5.0))
      in k1 = k2 \<and> event_id test_sha k1 0 = event_id test_sha k2 0)"

definition test_side_is_part_of_identity :: bool where
  "test_side_is_part_of_identity \<longleftrightarrow>
     (let buy = content_key_new D (ddp_tx 1) (ddp_addr 1) ddp_tok Buy (unwrap (price_new 0.5)) (unwrap (qty_new 5));
          sell = content_key_new D (ddp_tx 1) (ddp_addr 1) ddp_tok Sell (unwrap (price_new 0.5)) (unwrap (qty_new 5))
      in event_id test_sha buy 0 \<noteq> event_id test_sha sell 0)"

definition test_identity_is_stable_across_process_restarts :: bool where
  "test_identity_is_stable_across_process_restarts \<longleftrightarrow>
     (let k = ddp_key 9 9 0.33 77; (_, first) = observe_live test_sha dedup_default k test_now;
          (_, second) = observe_live test_sha dedup_default k test_now
      in verdict_event_id first = verdict_event_id second)"

definition test_restore_prevents_recopying_after_restart :: bool where
  "test_restore_prevents_recopying_after_restart \<longleftrightarrow>
     (let k = ddp_key 4 4 0.21 9; d = dedup_restore dedup_default k 2 test_now; (_, vs) = ddp_backfill 3 k (d, [])
      in map is_new vs = [False, False, True])"

definition test_recent_entries_survive_eviction :: bool where
  "test_recent_entries_survive_eviction \<longleftrightarrow>
     (let (d, _) = observe_live test_sha (dedup_new (hours 6)) (ddp_key 1 1 0.5 1) test_now
      in tracked_contents (evict_older_than d test_now) = 1)"

definition test_the_cap_sits_well_above_real_production_volume :: bool where
  "test_the_cap_sits_well_above_real_production_volume \<longleftrightarrow>
     (let (d, vs) = ddp_live 16 (ddp_key 3 3 0.98 5) dedup_default
      in list_all is_new vs \<and> di_suspicious d = 0)"

lemma dedup_tests:
  "test_identical_fills_in_one_tx_get_distinct_identities"
  "test_backfill_overlapping_the_live_feed_is_recognised_as_duplicate"
  "test_backfill_multiset_reconciliation_is_exact" "test_backfill_during_a_gap_is_all_new"
  "test_different_wallets_in_one_tx_are_independent" "test_price_formatting_does_not_change_identity"
  "test_side_is_part_of_identity" "test_identity_is_stable_across_process_restarts"
  "test_restore_prevents_recopying_after_restart" "test_recent_entries_survive_eviction"
  by code_simp+

lemma dedup_volume_test: "test_the_cap_sits_well_above_real_production_volume"
  by code_simp

text \<open>Two tests repeat one row thousands of times. How many of the rows are new has a closed form, from
  which they follow.\<close>

definition ddp_storm :: "dedup_verdict list \<Rightarrow> nat" where
  "ddp_storm vs = length (filter is_new vs)"

lemma is_new_simps [simp]: "is_new (NewFill e n)" "\<not> is_new (DuplicateFill e n)"
  by (simp_all add: is_new_def)

lemma live_storm: "ddp_storm (snd (ddp_live n k d)) = min n (MAX_OCCURRENCES_PER_CONTENT - count_of d k)"
proof (induction n arbitrary: d)
  case (Suc n)
  obtain d1 v where o: "observe_live test_sha d k test_now = (d1, v)" by force
  obtain d2 vs where r: "ddp_live n k d1 = (d2, vs)" by force
  have v: "is_new v \<longleftrightarrow> count_of d k < MAX_OCCURRENCES_PER_CONTENT"
    using live_verdict [of test_sha d k test_now] o by simp
  have c: "count_of d1 k = (if count_of d k < MAX_OCCURRENCES_PER_CONTENT then count_of d k + 1 else count_of d k)"
    using live_counts [of test_sha d k test_now k] o by simp
  have "ddp_storm vs = min n (MAX_OCCURRENCES_PER_CONTENT - count_of d1 k)" using Suc.IH [of d1] r by simp
  then show ?case using o r v c by (auto simp: ddp_storm_def)
qed (simp add: ddp_storm_def)

lemma backfill_storm:
  assumes "get_or b k 0 = i" and "count_of d k = min i MAX_OCCURRENCES_PER_CONTENT"
  shows "ddp_storm (snd (ddp_backfill n k (d, b))) = min n (MAX_OCCURRENCES_PER_CONTENT - i) \<and>
     di_suspicious (fst (fst (ddp_backfill n k (d, b)))) = di_suspicious d + (n - (MAX_OCCURRENCES_PER_CONTENT - i))"
  using assms
proof (induction n arbitrary: d b i)
  case (Suc n)
  obtain d1 v where o: "observe_backfill test_sha d k i test_now = (d1, v)" by force
  define b1 where "b1 = AList.update k (i + 1) b"
  obtain S vs where r: "ddp_backfill n k (d1, b1) = (S, vs)" by (meson surj_pair)
  have nxt: "batch_next b k = (b1, i)" using Suc.prems(1) by (simp add: batch_next_def b1_def)
  have b1: "get_or b1 k 0 = i + 1" by (simp add: b1_def get_or_update)
  have c: "count_of d1 k = min (i + 1) MAX_OCCURRENCES_PER_CONTENT"
    using backfill_counts [of test_sha d k i test_now k] o Suc.prems(2) by (auto simp: min_def)
  have v: "is_new v \<longleftrightarrow> i < MAX_OCCURRENCES_PER_CONTENT"
    "di_suspicious d1 = di_suspicious d + (if i < MAX_OCCURRENCES_PER_CONTENT then 0 else 1)"
    using o Suc.prems(2) by (auto simp: observe_backfill_def count_of_def Let_def split: if_splits)
  from Suc.IH [OF b1 c] r
  have "ddp_storm vs = min n (MAX_OCCURRENCES_PER_CONTENT - (i + 1))"
    "di_suspicious (fst S) = di_suspicious d1 + (n - (MAX_OCCURRENCES_PER_CONTENT - (i + 1)))" by simp_all
  then show ?case using o r v nxt by (auto simp: ddp_storm_def)
qed (simp add: ddp_storm_def)

definition test_a_repeat_storm_is_capped_rather_than_copied_unbounded :: bool where
  "test_a_repeat_storm_is_capped_rather_than_copied_unbounded \<longleftrightarrow>
     (let k = ddp_key 1 1 0.5 10; (S, vs) = ddp_backfill 10000 k (dedup_default, [])
      in ddp_storm vs = MAX_OCCURRENCES_PER_CONTENT \<and> di_suspicious (fst S) > 0)"

definition test_the_live_path_is_capped_too :: bool where
  "test_the_live_path_is_capped_too \<longleftrightarrow>
     (let k = ddp_key 2 2 0.5 10; (_, vs) = ddp_live 1000 k dedup_default
      in ddp_storm vs = MAX_OCCURRENCES_PER_CONTENT)"

lemma dedup_storm_tests:
  "test_a_repeat_storm_is_capped_rather_than_copied_unbounded" "test_the_live_path_is_capped_too"
proof -
  have e: "count_of dedup_default k = 0" "get_or [] k 0 = (0 :: nat)" "di_suspicious dedup_default = 0" for k
    by (simp_all add: count_of_def get_or_def get_def dedup_default_def dedup_new_def)
  have "ddp_storm (snd (ddp_backfill 10000 k (dedup_default, []))) = MAX_OCCURRENCES_PER_CONTENT \<and>
      di_suspicious (fst (fst (ddp_backfill 10000 k (dedup_default, [])))) > 0" for k
    using backfill_storm [of "[]" k 0 dedup_default 10000] e by (simp add: MAX_OCCURRENCES_PER_CONTENT_def)
  then show "test_a_repeat_storm_is_capped_rather_than_copied_unbounded"
    by (simp add: test_a_repeat_storm_is_capped_rather_than_copied_unbounded_def Let_def case_prod_beta)
  have "ddp_storm (snd (ddp_live 1000 k dedup_default)) = MAX_OCCURRENCES_PER_CONTENT" for k
    using live_storm [of 1000 k dedup_default] e by (simp add: MAX_OCCURRENCES_PER_CONTENT_def)
  then show "test_the_live_path_is_capped_too"
    by (simp add: test_the_live_path_is_capped_too_def Let_def case_prod_beta)
qed

section \<open>Tests of crates/wallet_tracker/src/tracker.rs\<close>

definition trk_addr :: "nat \<Rightarrow> address" where
  "trk_addr n = unwrap (address_new (''0x'' @ hex_padded 40 n))"

definition trk_trade :: "address \<Rightarrow> nat \<Rightarrow> rat \<Rightarrow> parsed_trade" where
  "trk_trade wallet tx s = \<lparr>pt_trader = wallet, pt_market_id = unwrap (market_id_new (''0x'' @ hex_padded 64 1)),
     pt_token_id = unwrap (token_id_new ''83208474815813611206796889197671166802498709571847428026387018914516677525784''),
     pt_outcome = ''Down'', pt_side = Buy, pt_price = unwrap (price_new 0.5), pt_quantity = unwrap (qty_new s),
     pt_tx_hash = unwrap (tx_hash_new (''0x'' @ hex_padded 64 tx)), pt_source_ts = test_now, pt_source_is_coarse = False,
     pt_detected_ts = test_now, pt_market_title = ''T'', pt_market_slug = ''t'', pt_source = RtdsWebsocket\<rparr>"

definition trk_tracker_with :: "nat \<Rightarrow> wallet_tracker" where
  "trk_tracker_with n = tracker_new [(target_wallet_new (trk_addr n) ''Target'')\<lparr>tw_min_source_notional_usd := 10\<rparr>]"

text \<open>The call of the tests; the trade gets the correlation id 9.\<close>

definition trk_live :: "wallet_tracker \<Rightarrow> parsed_trade \<Rightarrow> wallet_tracker \<times> detection" where
  "trk_live T t = tracker_observe_live D test_sha T t 9"

definition test_untracked_wallets_are_dropped_immediately :: bool where
  "test_untracked_wallets_are_dropped_immediately \<longleftrightarrow>
     (let (T, d) = trk_live (trk_tracker_with 1) (trk_trade (trk_addr 2) 1 100)
      in d = NotTracked \<and> ts_frames_examined (tk_stats T) = 1 \<and> ts_wallet_matches (tk_stats T) = 0)"

definition test_tracked_wallet_produces_an_actionable_trade :: bool where
  "test_tracked_wallet_produces_an_actionable_trade \<longleftrightarrow>
     (let (T, d) = trk_live (trk_tracker_with 1) (trk_trade (trk_addr 1) 1 100)
      in (case d of Actionable st \<Rightarrow> so_trader st = trk_addr 1 \<and> so_occurrence st = 0 \<and> source_notional D st = 50
          | _ \<Rightarrow> False) \<and> ts_actionable (tk_stats T) = 1)"

definition test_mixed_case_addresses_from_rtds_still_match :: bool where
  "test_mixed_case_addresses_from_rtds_still_match \<longleftrightarrow>
     (let w = target_wallet_new (unwrap (address_new ''0x8a5152d056adb066c9e4dc65164620cdd82ceb6f'')) ''T'';
          T = tracker_new [w]; mixed = unwrap (address_new ''0x8a5152d056aDB066C9E4Dc65164620cDD82CeB6f'')
      in is_tracked T mixed \<and> (case snd (trk_live T (trk_trade mixed 1 1000)) of Actionable _ \<Rightarrow> True | _ \<Rightarrow> False))"

definition test_disabled_wallet_is_skipped_with_a_reason :: bool where
  "test_disabled_wallet_is_skipped_with_a_reason \<longleftrightarrow>
     (let T = fst (set_enabled (trk_tracker_with 1) (trk_addr 1) False)
      in case snd (trk_live T (trk_trade (trk_addr 1) 1 100)) of
           Skipped _ reason \<Rightarrow> reason = SkipWalletDisabled | _ \<Rightarrow> False)"

definition test_dust_trades_are_skipped_not_copied :: bool where
  "test_dust_trades_are_skipped_not_copied \<longleftrightarrow>
     (case snd (trk_live (trk_tracker_with 1) (trk_trade (trk_addr 1) 1 1)) of
        Skipped _ (BelowMinNotional _ _) \<Rightarrow> True | _ \<Rightarrow> False)"

definition test_two_identical_live_fills_both_act_with_distinct_ids :: bool where
  "test_two_identical_live_fills_both_act_with_distinct_ids \<longleftrightarrow>
     (let (T1, a) = trk_live (trk_tracker_with 1) (trk_trade (trk_addr 1) 7 100);
          (T2, b) = trk_live T1 (trk_trade (trk_addr 1) 7 100)
      in (case (a, b) of (Actionable x, Actionable y) \<Rightarrow> so_event_id x \<noteq> so_event_id y | _ \<Rightarrow> False) \<and>
         ts_duplicates_suppressed (tk_stats T2) = 0)"

definition test_backfill_overlap_is_suppressed :: bool where
  "test_backfill_overlap_is_suppressed \<longleftrightarrow>
     (let (T1, a) = trk_live (trk_tracker_with 1) (trk_trade (trk_addr 1) 7 100);
          (T2, _, b) = tracker_observe_backfill D test_sha T1 (trk_trade (trk_addr 1) 7 100) [] 10
      in (case a of Actionable _ \<Rightarrow> True | _ \<Rightarrow> False) \<and>
         (case b of Skipped _ reason \<Rightarrow> reason = DuplicateEvent | _ \<Rightarrow> False) \<and>
         ts_duplicates_suppressed (tk_stats T2) = 1)"

definition test_wallets_can_be_managed_at_runtime :: bool where
  "test_wallets_can_be_managed_at_runtime \<longleftrightarrow>
     (let T1 = trk_tracker_with 1; T2 = upsert_wallet T1 (target_wallet_new (trk_addr 2) ''Second'');
          (T3, r) = remove_wallet T2 (trk_addr 2)
      in wallet_count T1 = 1 \<and> wallet_count T2 = 2 \<and> is_tracked T2 (trk_addr 2) \<and> \<not> Option.is_none r \<and>
         \<not> is_tracked T3 (trk_addr 2))"

lemma tracker_tests:
  "test_untracked_wallets_are_dropped_immediately" "test_tracked_wallet_produces_an_actionable_trade"
  "test_mixed_case_addresses_from_rtds_still_match" "test_disabled_wallet_is_skipped_with_a_reason"
  "test_dust_trades_are_skipped_not_copied" "test_two_identical_live_fills_both_act_with_distinct_ids"
  "test_backfill_overlap_is_suppressed" "test_wallets_can_be_managed_at_runtime"
  by code_simp+

end
