(* ===== verification/ExecutionTests.thy ===== *)
theory ExecutionTests
  imports MatchingTests Reconciliation
begin

text \<open>The unit tests of the execution crate, but for those on the name of an adapter and on elapsed time.\<close>

section \<open>Tests of crates/execution/src/adapter.rs\<close>

definition test_ambiguity_and_transport_failures_demand_reconciliation :: bool where
  "test_ambiguity_and_transport_failures_demand_reconciliation \<longleftrightarrow>
     requires_reconciliation (AmbiguousOutcome ''timeout after send'') \<and>
     requires_reconciliation (TransportFailure ''connection reset'') \<and>
     \<not> requires_reconciliation (VenueRejected ''price off tick'') \<and> \<not> requires_reconciliation (NotAuthenticated ''bad key'')"

lemma adapter_tests: "test_ambiguity_and_transport_failures_demand_reconciliation"
  by code_simp

section \<open>Tests of crates/execution/src/paper.rs\<close>

text \<open>The venue's calls of the tests: the draws of the fixed generator, and the fill ids taken from the order's.\<close>

definition ppr_inputs :: "order_id \<Rightarrow> fill_inputs" where
  "ppr_inputs i = \<lparr>fx_draws = mch_rng, fx_fill_id = 100 + i, fx_venue_fill_id = 200 + i, fx_filled_at = test_now,
     fx_now = test_now\<rparr>"

definition ppr_submit :: "book_cache \<Rightarrow> paper \<Rightarrow> order_request \<Rightarrow> paper \<times> (execution_error + acknowledgement)" where
  "ppr_submit c P r = paper_submit D nat_text c P r (ppr_inputs (rq_order_id r))"

definition ppr_book :: "rat \<Rightarrow> rat \<Rightarrow> order_book" where
  "ppr_book ask s = \<lparr>bk_market = mch_market, bk_token = mch_token, bk_bids = [mch_level (0.40, s)],
     bk_asks = [mch_level (ask, s)], bk_tick_size = 0.01, bk_min_order_size = 1, bk_timestamp = test_now, bk_seq = 1\<rparr>"

definition ppr_order :: "order_id \<Rightarrow> side \<Rightarrow> rat \<Rightarrow> rat \<Rightarrow> time_in_force \<Rightarrow> order_request" where
  "ppr_order i s q limit tif = \<lparr>rq_order_id = i, rq_correlation_id = 50, rq_signal_id = None,
     rq_market_id = mch_market, rq_token_id = mch_token, rq_side = s, rq_order_type = LimitOrder,
     rq_time_in_force = tif, rq_quantity = unwrap (qty_new q), rq_limit_price = unwrap (price_new limit),
     rq_reference_price = unwrap (price_new limit), rq_tick_size = 0.01, rq_created_at = test_now\<rparr>"

definition ppr_certain_params :: match_params where
  "ppr_certain_params = \<lparr>mp_fee_bps = 0, mp_slippage_bps = 0, mp_partial_fill_enabled = True,
     mp_fill_probability = 1, mp_reject_probability = 0\<rparr>"

definition ppr_paper :: paper where
  "ppr_paper = paper_new ppr_certain_params 0 0"

definition test_marketable_order_fills_against_the_cached_book :: bool where
  "test_marketable_order_fills_against_the_cached_book \<longleftrightarrow>
     (let c = cache_put [] (ppr_book 0.50 1000);
          ack = unwrap (snd (ppr_submit c ppr_paper (ppr_order 1 Buy 100 0.60 Gtc)))
      in length (ak_immediate_fills ack) = 1 \<and> ak_terminal ack \<and> fi_quantity (ak_immediate_fills ack ! 0) = 100 \<and>
         ak_venue_order_id ack \<noteq> None)"

definition test_submitting_without_market_data_refuses_instead_of_inventing_a_fill :: bool where
  "test_submitting_without_market_data_refuses_instead_of_inventing_a_fill \<longleftrightarrow>
     (case unwrap_err (snd (ppr_submit [] ppr_paper (ppr_order 1 Buy 100 0.60 Gtc))) of
        AdapterNotReady _ \<Rightarrow> True | _ \<Rightarrow> False)"

definition test_unmarketable_order_rests_and_can_be_cancelled :: bool where
  "test_unmarketable_order_rests_and_can_be_cancelled \<longleftrightarrow>
     (let c = cache_put [] (ppr_book 0.60 1000); r = ppr_order 1 Buy 100 0.45 Gtc;
          (p1, a) = ppr_submit c ppr_paper r; ack = unwrap a; (p2, x) = paper_cancel p1 (rq_order_id r)
      in ak_immediate_fills ack = [] \<and> \<not> ak_terminal ack \<and> resting_count p1 = 1 \<and> is_ok x \<and> resting_count p2 = 0)"

definition test_cancelling_an_unknown_order_is_an_error :: bool where
  "test_cancelling_an_unknown_order_is_an_error \<longleftrightarrow>
     (case snd (paper_cancel ppr_paper 9) of Inl (UnknownAtVenue _) \<Rightarrow> True | _ \<Rightarrow> False)"

definition test_resting_order_fills_when_the_market_comes_to_it :: bool where
  "test_resting_order_fills_when_the_market_comes_to_it \<longleftrightarrow>
     (let c = cache_put [] (ppr_book 0.60 1000);
          (p1, a) = ppr_submit c ppr_paper (ppr_order 1 Buy 100 0.45 Gtc);
          (p2, fills) = on_book_update D nat_text p1 (ppr_book 0.44 1000) ppr_inputs
      in is_ok a \<and> resting_count p1 = 1 \<and> length fills = 1 \<and> fi_is_maker (fills ! 0) \<and> resting_count p2 = 0)"

definition test_partial_fill_leaves_the_remainder_resting :: bool where
  "test_partial_fill_leaves_the_remainder_resting \<longleftrightarrow>
     (let c = cache_put [] (ppr_book 0.50 40);
          (p1, a) = ppr_submit c ppr_paper (ppr_order 1 Buy 100 0.60 Gtc); ack = unwrap a
      in fi_quantity (ak_immediate_fills ack ! 0) = 40 \<and> \<not> ak_terminal ack \<and> resting_count p1 = 1)"

definition test_ioc_does_not_leave_a_remainder_resting :: bool where
  "test_ioc_does_not_leave_a_remainder_resting \<longleftrightarrow>
     (let c = cache_put [] (ppr_book 0.50 40);
          (p1, a) = ppr_submit c ppr_paper (ppr_order 1 Buy 100 0.60 Ioc)
      in ak_terminal (unwrap a) \<and> resting_count p1 = 0)"

definition test_positions_track_signed_exposure :: bool where
  "test_positions_track_signed_exposure \<longleftrightarrow>
     (let c = cache_put [] (ppr_book 0.50 10000);
          (p1, a) = ppr_submit c ppr_paper (ppr_order 1 Buy 100 0.60 Gtc); pos = paper_positions p1;
          sell = (ppr_order 2 Sell 100 0.30 Gtc)\<lparr>rq_limit_price := unwrap (price_new 0.30)\<rparr>;
          (p2, b) = ppr_submit c p1 sell
      in is_ok a \<and> length pos = 1 \<and> vp_quantity (pos ! 0) = 100 \<and> is_ok b \<and> paper_positions p2 = [])"

definition test_fills_are_drained_exactly_once :: bool where
  "test_fills_are_drained_exactly_once \<longleftrightarrow>
     (let c = cache_put [] (ppr_book 0.60 1000);
          (p1, a) = ppr_submit c ppr_paper (ppr_order 1 Buy 100 0.45 Gtc);
          (p2, _) = on_book_update D nat_text p1 (ppr_book 0.44 1000) ppr_inputs;
          (p3, first) = poll_fills p2; (_, again) = poll_fills p3
      in is_ok a \<and> length first = 1 \<and> again = [])"

definition test_reset_clears_all_simulated_state :: bool where
  "test_reset_clears_all_simulated_state \<longleftrightarrow>
     (let c = cache_put [] (ppr_book 0.60 1000);
          (p1, a) = ppr_submit c ppr_paper (ppr_order 1 Buy 100 0.45 Gtc); p2 = paper_reset p1
      in is_ok a \<and> resting_count p1 = 1 \<and> resting_count p2 = 0 \<and> paper_positions p2 = [])"

lemma paper_tests:
  "test_marketable_order_fills_against_the_cached_book"
  "test_submitting_without_market_data_refuses_instead_of_inventing_a_fill"
  "test_unmarketable_order_rests_and_can_be_cancelled" "test_cancelling_an_unknown_order_is_an_error"
  "test_resting_order_fills_when_the_market_comes_to_it" "test_partial_fill_leaves_the_remainder_resting"
  "test_ioc_does_not_leave_a_remainder_resting" "test_positions_track_signed_exposure"
  "test_fills_are_drained_exactly_once" "test_reset_clears_all_simulated_state"
  by code_simp+

section \<open>Tests of crates/execution/src/order_manager.rs\<close>

definition omt_token :: token_id where
  "omt_token = unwrap (token_id_new ''8320847481581361120679688919767116680249870957184742'')"

lemma omt_token_code [code]: "omt_token = TokenId ''8320847481581361120679688919767116680249870957184742''"
  by code_simp

definition omt_req :: "order_id \<Rightarrow> rat \<Rightarrow> order_request" where
  "omt_req i q = \<lparr>rq_order_id = i, rq_correlation_id = 50, rq_signal_id = None, rq_market_id = mch_market,
     rq_token_id = omt_token, rq_side = Buy, rq_order_type = LimitOrder, rq_time_in_force = Gtc,
     rq_quantity = unwrap (qty_new q), rq_limit_price = unwrap (price_new 0.60),
     rq_reference_price = unwrap (price_new 0.60), rq_tick_size = 0.01, rq_created_at = test_now\<rparr>"

definition omt_book :: "rat \<Rightarrow> rat \<Rightarrow> order_book" where
  "omt_book ask s = \<lparr>bk_market = mch_market, bk_token = omt_token, bk_bids = [mch_level (0.40, s)],
     bk_asks = [mch_level (ask, s)], bk_tick_size = 0.01, bk_min_order_size = 1, bk_timestamp = test_now, bk_seq = 1\<rparr>"

text \<open>The two adapters of the tests that keep no state, and the calls of the tests on an order manager and its
  venue.\<close>

definition omt_timeout :: "paper \<Rightarrow> order_request \<Rightarrow> paper \<times> (execution_error + acknowledgement)" where
  "omt_timeout s r = (s, Inl (AmbiguousOutcome (''timeout on '' @ nat_text (rq_order_id r))))"

definition omt_overfill :: "paper \<Rightarrow> order_request \<Rightarrow> paper \<times> (execution_error + acknowledgement)" where
  "omt_overfill s r = (s, Inr \<lparr>ak_order_id = rq_order_id r, ak_venue_order_id = Some ''V1'', ak_accepted_at = test_now,
     ak_immediate_fills = [\<lparr>fi_fill_id = 100, fi_order_id = rq_order_id r, fi_correlation_id = rq_correlation_id r,
       fi_market_id = rq_market_id r, fi_token_id = rq_token_id r, fi_side = rq_side r,
       fi_quantity = unwrap (qty_new (d_mul D (rq_quantity r) 2)), fi_price = rq_limit_price r, fi_fee = 0,
       fi_venue_fill_id = None, fi_is_maker = False, fi_filled_at = test_now\<rparr>],
     ak_terminal = True\<rparr>)"

definition omt_clock :: "nat \<Rightarrow> timestamp" where
  "omt_clock n = test_now"

definition omt_times :: "order_id \<Rightarrow> timestamp \<times> timestamp" where
  "omt_times i = (test_now, test_now)"

definition omt_register :: "order_manager \<Rightarrow> order_request \<Rightarrow> order_manager" where
  "omt_register om r =
     (case register_validated om r (stamps_begin test_now) test_now of
        (om', Inr i) \<Rightarrow> (if i = rq_order_id r then om' else undefined) | _ \<Rightarrow> undefined)"

definition omt_send :: "book_cache \<Rightarrow> order_manager \<Rightarrow> paper \<Rightarrow> order_id \<Rightarrow> order_manager \<times> paper \<times> submit_outcome" where
  "omt_send c om P i = om_submit D nat_text (ppr_submit c) om P i test_now test_now omt_clock"

definition omt_cancel :: "paper \<Rightarrow> order_id \<Rightarrow> string option \<Rightarrow> paper \<times> (execution_error + unit)" where
  "omt_cancel P i v = paper_cancel P i"

definition omt_paper_om :: "rat \<Rightarrow> rat \<Rightarrow> book_cache \<times> order_manager \<times> paper" where
  "omt_paper_om ask s = (cache_put [] (omt_book ask s), om_new, paper_new mch_certain 0 0)"

definition test_happy_path_walks_the_full_state_machine :: bool where
  "test_happy_path_walks_the_full_state_machine \<longleftrightarrow>
     (let (c, om, P) = omt_paper_om 0.50 10000; om1 = omt_register om (omt_req 1 100);
          (om2, _, out) = omt_send c om1 P 1; x = the (om_get om2 1)
      in or_state (the (om_get om1 1)) = Validated \<and> (case out of SubAcknowledged _ _ \<Rightarrow> True | _ \<Rightarrow> False) \<and>
         or_state x = Filled \<and> or_filled_qty x = 100 \<and> or_venue_order_id x \<noteq> None \<and>
         lt_submission (or_latency x) \<noteq> None \<and> lt_ack (or_latency x) \<noteq> None \<and> lt_fill (or_latency x) \<noteq> None)"

definition test_ambiguous_submission_becomes_unknown_not_failed :: bool where
  "test_ambiguous_submission_becomes_unknown_not_failed \<longleftrightarrow>
     (let om1 = omt_register om_new (omt_req 1 100);
          (om2, _, out) = om_submit D nat_text omt_timeout om1 ppr_paper 1 test_now test_now omt_clock;
          x = the (om_get om2 1)
      in (case out of SubAmbiguous _ _ \<Rightarrow> True | _ \<Rightarrow> False) \<and> or_state x = Unknown \<and> may_have_executed (or_state x) \<and>
         length (unknown_orders om2) = 1)"

definition test_venue_overfill_is_refused_and_flagged :: bool where
  "test_venue_overfill_is_refused_and_flagged \<longleftrightarrow>
     (let om1 = omt_register om_new (omt_req 1 100);
          (om2, _, _) = om_submit D nat_text omt_overfill om1 ppr_paper 1 test_now test_now omt_clock;
          x = the (om_get om2 1)
      in or_filled_qty x = 0 \<and> or_state x = Unknown)"

definition test_rejection_is_terminal_and_reported :: bool where
  "test_rejection_is_terminal_and_reported \<longleftrightarrow>
     (let om1 = omt_register om_new (omt_req 1 100);
          (om2, _, out) = omt_send [] om1 (paper_new match_params_default 0 0) 1; x = the (om_get om2 1)
      in (case out of SubRejected _ _ \<Rightarrow> True | _ \<Rightarrow> False) \<and> is_terminal (or_state x) \<and> or_reject_reason x \<noteq> None)"

definition test_open_order_count_reflects_only_working_orders :: bool where
  "test_open_order_count_reflects_only_working_orders \<longleftrightarrow>
     (let (c, om, P) = omt_paper_om 0.80 10000; om1 = omt_register om (omt_req 1 100); (om2, P2, _) = omt_send c om1 P 1;
          (om3, _, r) = om_cancel omt_cancel om2 P2 1 test_now test_now
      in open_count om2 = 1 \<and> is_ok r \<and> open_count om3 = 0 \<and> or_state (the (om_get om3 1)) = Cancelled)"

primrec omt_place :: "nat \<Rightarrow> book_cache \<Rightarrow> order_manager \<times> paper \<Rightarrow> order_manager \<times> paper" where
  "omt_place 0 c S = S"
| "omt_place (Suc n) c S =
     (let (om, P, _) = omt_send c (omt_register (fst S) (omt_req n 100)) (snd S) n in omt_place n c (om, P))"

definition test_cancel_all_clears_the_book_for_the_kill_switch :: bool where
  "test_cancel_all_clears_the_book_for_the_kill_switch \<longleftrightarrow>
     (let (c, om, P) = omt_paper_om 0.80 10000; (om1, P1) = omt_place 5 c (om, P);
          (om2, _, done, failed) = cancel_all omt_cancel omt_times om1 P1
      in open_count om1 = 5 \<and> (done, failed) = (5, 0) \<and> open_count om2 = 0)"

definition test_events_are_emitted_for_the_whole_lifecycle :: bool where
  "test_events_are_emitted_for_the_whole_lifecycle \<longleftrightarrow>
     (let (c, om, P) = omt_paper_om 0.50 10000; (om2, _, _) = omt_send c (omt_register om (omt_req 1 100)) P 1;
          kinds = map event_kind (om_events om2)
      in List.member kinds ''order_submitted'' \<and> List.member kinds ''order_acknowledged'' \<and>
         List.member kinds ''order_filled'')"

definition test_exposure_is_computed_from_filled_quantity_only :: bool where
  "test_exposure_is_computed_from_filled_quantity_only \<longleftrightarrow>
     (let (c, om, P) = omt_paper_om 0.50 10000; (om2, _, _) = omt_send c (omt_register om (omt_req 1 100)) P 1
      in get (filled_exposure D om2) omt_token = Some 100)"

definition test_restored_orders_are_visible_after_restart :: bool where
  "test_restored_orders_are_visible_after_restart \<longleftrightarrow>
     (let x = unwrap (order_new (omt_req 1 50) (stamps_begin test_now));
          x1 = unwrap (transition x Validated test_now); x2 = unwrap (transition x1 Submitted test_now);
          om = om_restore om_new [x2]
      in or_state (the (om_get om (order_id_of x2))) = Submitted \<and> open_count om = 1)"

lemma order_manager_tests:
  "test_happy_path_walks_the_full_state_machine" "test_ambiguous_submission_becomes_unknown_not_failed"
  "test_venue_overfill_is_refused_and_flagged" "test_rejection_is_terminal_and_reported"
  "test_open_order_count_reflects_only_working_orders" "test_cancel_all_clears_the_book_for_the_kill_switch"
  "test_events_are_emitted_for_the_whole_lifecycle" "test_exposure_is_computed_from_filled_quantity_only"
  "test_restored_orders_are_visible_after_restart"
  by code_simp+

section \<open>Tests of crates/execution/src/reconciliation.rs\<close>

definition rcn_tok :: "nat \<Rightarrow> token_id" where
  "rcn_tok n = unwrap (token_id_new (nat_text (1000 + n)))"

definition rcn_vp :: "nat \<Rightarrow> rat \<Rightarrow> venue_position" where
  "rcn_vp n q = \<lparr>vp_token_id = rcn_tok n, vp_quantity = unwrap (qty_new q)\<rparr>"

definition test_agreeing_books_reconcile_clean :: bool where
  "test_agreeing_books_reconcile_clean \<longleftrightarrow>
     (let r = reconcile D [(rcn_tok 1, 100), (rcn_tok 2, 50)] [rcn_vp 1 100, rcn_vp 2 50] 0.01 test_now
      in is_clean r \<and> \<not> warrants_halt r 1 \<and> take 5 (summary r) = ''clean'')"

definition test_quantity_disagreement_is_reported_not_absorbed :: bool where
  "test_quantity_disagreement_is_reported_not_absorbed \<longleftrightarrow>
     (let r = reconcile D [(rcn_tok 1, 100)] [rcn_vp 1 80] 0.01 test_now
      in length (rr_mismatches r) = 1 \<and> mm_difference (rr_mismatches r ! 0) = 20 \<and> \<not> is_clean r)"

definition test_tolerance_absorbs_rounding_but_not_real_gaps :: bool where
  "test_tolerance_absorbs_rounding_but_not_real_gaps \<longleftrightarrow>
     is_clean (reconcile D [(rcn_tok 1, 100.0001)] [rcn_vp 1 100] 0.01 test_now) \<and>
     length (rr_mismatches (reconcile D [(rcn_tok 1, 101)] [rcn_vp 1 100] 0.01 test_now)) = 1"

definition test_unexpected_venue_position_always_warrants_a_halt :: bool where
  "test_unexpected_venue_position_always_warrants_a_halt \<longleftrightarrow>
     (let r = reconcile D [] [rcn_vp 9 500] 0.01 test_now
      in length (rr_unexpected_venue_positions r) = 1 \<and> warrants_halt r 1000000)"

definition test_position_missing_at_venue_is_flagged :: bool where
  "test_position_missing_at_venue_is_flagged \<longleftrightarrow>
     (let r = reconcile D [(rcn_tok 1, 100)] [] 0.01 test_now
      in rr_missing_at_venue r = [rcn_tok 1] \<and> \<not> is_clean r)"

definition test_flat_internal_positions_do_not_generate_noise :: bool where
  "test_flat_internal_positions_do_not_generate_noise \<longleftrightarrow>
     is_clean (reconcile D [(rcn_tok 1, 0)] [] 0.01 test_now)"

definition test_halt_threshold_scales_with_tolerance :: bool where
  "test_halt_threshold_scales_with_tolerance \<longleftrightarrow>
     (let r = reconcile D [(rcn_tok 1, 100)] [rcn_vp 1 95] 0.01 test_now
      in warrants_halt r 1 \<and> \<not> warrants_halt r 10)"

definition test_relative_severity_is_bounded :: bool where
  "test_relative_severity_is_bounded \<longleftrightarrow>
     relative D \<lparr>mm_token_id = rcn_tok 1, mm_internal = 100, mm_venue = 50, mm_difference = 50, mm_at = test_now\<rparr> = 0.5 \<and>
     relative D \<lparr>mm_token_id = rcn_tok 1, mm_internal = 0, mm_venue = 0, mm_difference = 0, mm_at = test_now\<rparr> = 0"

definition test_venue_quantity_can_resolve_an_unknown_order :: bool where
  "test_venue_quantity_can_resolve_an_unknown_order \<longleftrightarrow>
     (let venue = [rcn_vp 1 100]
      in resolves_unknown_order D (rcn_tok 1) 0 venue (unwrap (qty_new 100)) 0.01 \<and>
         \<not> resolves_unknown_order D (rcn_tok 1) 100 venue (unwrap (qty_new 100)) 0.01)"

lemma reconciliation_tests:
  "test_agreeing_books_reconcile_clean" "test_quantity_disagreement_is_reported_not_absorbed"
  "test_tolerance_absorbs_rounding_but_not_real_gaps" "test_unexpected_venue_position_always_warrants_a_halt"
  "test_position_missing_at_venue_is_flagged" "test_flat_internal_positions_do_not_generate_noise"
  "test_halt_threshold_scales_with_tolerance" "test_relative_severity_is_bounded"
  "test_venue_quantity_can_resolve_an_unknown_order"
  by code_simp+

end
