(* ===== verification/MarketDataTests.thy ===== *)
theory MarketDataTests
  imports TestKit Feed Streams
begin

text \<open>
  The unit tests of the market data crate. Where a test writes JSON text, the model starts from the decoded value
  and keeps of the text its first character, which the code looks at. Left out are the two tests that read a
  subscription frame back as JSON, the ones that open a socket, the one that fills the
  subscription set, and the one that counts different delays.
\<close>

section \<open>Tests of crates/market_data/src/parser.rs\<close>

text \<open>The decimal of a float is the short one it was written as; every time stamp of the tests is in range.\<close>

definition prs_decimal :: decimal_ops where
  "prs_decimal = test_decimal\<lparr>d_of_f64 := (\<lambda>v. Some (of_int (round (v * 1000000)) / 1000000)),
     d_try_f64 := (\<lambda>v. Some (of_int (round (v * 1000000)) / 1000000))\<rparr>"

definition prs_time :: "int \<Rightarrow> nat \<Rightarrow> timestamp option" where
  "prs_time secs nanos = Some (secs * 1000000000 + int nanos)"

definition prs_price :: rat where
  "prs_price = f64_round 0.26"

definition prs_size :: rat where
  "prs_size = f64_round 2.7027"

definition prs_tick :: rat where
  "prs_tick = f64_round 0.001"

definition prs_cent :: rat where
  "prs_cent = f64_round 0.01"

lemma prs_floats [code]:
  "prs_price = 1170935903116329 / 4503599627370496" "prs_size = 380371209777945 / 140737488355328"
  "prs_tick = 1152921504606847 / 1152921504606846976" "prs_cent = 5764607523034235 / 576460752303423488"
  by (simp_all add: prs_price_def prs_size_def prs_tick_def prs_cent_def f64_round_def bit_length.simps
      round_half_even_def Let_def)

definition prs_payload :: rtds_trade_payload where
  "prs_payload = \<lparr>rp_proxy_wallet = ''0x510F4963b66B1B18505faaB74b0bB943D1dDa43C'', rp_side = ''BUY'',
     rp_asset = ''72551024098258542594534683942523606143014690620243023298497729957846870197074'',
     rp_condition_id = ''0x1d8720896546460a48d4f7fd5b3f0705a8d427921222de498d1cd334d4890c52'', rp_outcome = ''No'',
     rp_outcome_index = 1, rp_price = Finite prs_price, rp_size = Finite prs_size, rp_timestamp = 1787102287,
     rp_transaction_hash = ''0xb6acf6859bc84216f4b3e2567fb392a2eae19d275340ad96ea17218ccfec27b7'',
     rp_title = ''Will the highest temperature in Wellington be 10C on August 19?'',
     rp_slug = ''highest-temperature-in-wellington-on-august-19-2026-10c'', rp_fee = None\<rparr>"

definition prs_REAL_RTDS_FRAME :: rtds_envelope where
  "prs_REAL_RTDS_FRAME = \<lparr>re_topic = Some ''activity'', re_kind = Some ''trades'', re_timestamp = Some 1787102287053,
     re_payload = Some prs_payload\<rparr>"

definition prs_parse :: "rtds_envelope \<Rightarrow> parse_error + rtds_frame" where
  "prs_parse env = parse_rtds_frame prs_decimal prs_time (\<lambda>_. Some env) ''{'' test_now"

definition prs_raw :: "string \<Rightarrow> parse_error + rtds_frame" where
  "prs_raw s = parse_rtds_frame prs_decimal prs_time (\<lambda>_. None) s test_now"

definition test_parses_a_real_rtds_frame :: bool where
  "test_parses_a_real_rtds_frame \<longleftrightarrow>
     (case unwrap (prs_parse prs_REAL_RTDS_FRAME) of
        TradeFrame t \<Rightarrow> address_str (pt_trader t) = ''0x510f4963b66b1b18505faab74b0bb943d1dda43c'' \<and> pt_side t = Buy \<and>
          pt_price t = 0.26 \<and> pt_quantity t = 2.7027 \<and> pt_outcome t = ''No'' \<and>
          pt_source_ts t div 1000000 = 1787102287053 \<and> \<not> pt_source_is_coarse t
      | IgnoredFrame \<Rightarrow> False)"

definition test_empty_first_frame_is_ignored_not_an_error :: bool where
  "test_empty_first_frame_is_ignored_not_an_error \<longleftrightarrow>
     unwrap (prs_raw '''') = IgnoredFrame \<and> unwrap (prs_raw ''   '') = IgnoredFrame \<and>
     unwrap (prs_raw ''PING'') = IgnoredFrame"

definition test_other_topics_are_ignored :: bool where
  "test_other_topics_are_ignored \<longleftrightarrow>
     unwrap (prs_parse \<lparr>re_topic = Some ''activity'', re_kind = Some ''orders_matched'',
       re_timestamp = Some 1787102287053, re_payload = None\<rparr>) = IgnoredFrame"

definition test_missing_envelope_stamp_falls_back_and_flags_coarseness :: bool where
  "test_missing_envelope_stamp_falls_back_and_flags_coarseness \<longleftrightarrow>
     (case unwrap (prs_parse (prs_REAL_RTDS_FRAME\<lparr>re_timestamp := None\<rparr>)) of
        TradeFrame t \<Rightarrow> pt_source_ts t div 1000000000 = 1787102287 \<and> pt_source_is_coarse t
      | IgnoredFrame \<Rightarrow> False)"

definition test_outcome_index_999_sentinel_does_not_break_parsing :: bool where
  "test_outcome_index_999_sentinel_does_not_break_parsing \<longleftrightarrow>
     (case unwrap (prs_parse (prs_REAL_RTDS_FRAME\<lparr>re_payload := Some (prs_payload\<lparr>rp_outcome_index := 999\<rparr>)\<rparr>)) of
        TradeFrame _ \<Rightarrow> True | IgnoredFrame \<Rightarrow> False)"

definition test_garbage_addresses_are_rejected_not_silently_accepted :: bool where
  "test_garbage_addresses_are_rejected_not_silently_accepted \<longleftrightarrow>
     \<not> is_ok (prs_parse (prs_REAL_RTDS_FRAME\<lparr>re_payload := Some (prs_payload\<lparr>rp_proxy_wallet := ''nonsense''\<rparr>)\<rparr>))"

definition test_epoch_unit_is_inferred_from_magnitude :: bool where
  "test_epoch_unit_is_inferred_from_magnitude \<longleftrightarrow>
     the (epoch_to_utc prs_time 1787102287) div 1000000000 = 1787102287 \<and>
     the (epoch_to_utc prs_time 1787102287053) div 1000000 = 1787102287053"

definition prs_level :: "string \<Rightarrow> string \<Rightarrow> clob_level" where
  "prs_level p s = \<lparr>cl_price = p, cl_size = s\<rparr>"

definition prs_REAL_BOOK :: clob_book where
  "prs_REAL_BOOK = \<lparr>cb_market = ''0x1d8720896546460a48d4f7fd5b3f0705a8d427921222de498d1cd334d4890c52'',
     cb_asset_id = ''32338220190071351435772801779725302244575775216413325951443816017994629993401'',
     cb_timestamp = Some ''1787102287053'',
     cb_bids = [prs_level ''0.001'' ''10611926.49'', prs_level ''0.002'' ''2301168.91'',
       prs_level ''0.043'' ''15505.85'', prs_level ''0.044'' ''18228.38''],
     cb_asks = [prs_level ''0.999'' ''1598544.78'', prs_level ''0.998'' ''243752.25'',
       prs_level ''0.046'' ''8991.48'', prs_level ''0.045'' ''429.57''],
     cb_tick_size = Some ''0.001'', cb_min_order_size = Some ''5''\<rparr>"

definition prs_book :: "clob_book \<Rightarrow> order_book" where
  "prs_book b = unwrap (parse_book prs_decimal prs_time (\<lambda>_. Some b) ''{'' 1 test_now)"

definition test_book_is_normalised_to_best_first :: bool where
  "test_book_is_normalised_to_best_first \<longleftrightarrow>
     (let b = prs_book prs_REAL_BOOK
      in lv_price (the (best_bid b)) = 0.044 \<and> lv_price (the (best_ask b)) = 0.045 \<and> is_well_formed b \<and>
         bk_tick_size b = 0.001 \<and> the (book_spread prs_decimal b) = 0.001)"

definition test_book_normalisation_is_order_independent :: bool where
  "test_book_normalisation_is_order_independent \<longleftrightarrow>
     (let b = prs_book (prs_REAL_BOOK\<lparr>cb_bids := rev (cb_bids prs_REAL_BOOK), cb_asks := rev (cb_asks prs_REAL_BOOK)\<rparr>)
      in lv_price (the (best_bid b)) = 0.044 \<and> lv_price (the (best_ask b)) = 0.045 \<and> is_well_formed b)"

definition test_zero_size_levels_are_dropped :: bool where
  "test_zero_size_levels_are_dropped \<longleftrightarrow>
     (let v = prs_REAL_BOOK\<lparr>cb_bids := [prs_level ''0.001'' ''10611926.49'', prs_level ''0.002'' ''2301168.91'',
            prs_level ''0.043'' ''15505.85'', prs_level ''0.044'' ''0'']\<rparr>
      in lv_price (the (best_bid (prs_book v))) = 0.043)"

definition prs_gamma :: gamma_market where
  "prs_gamma = \<lparr>gm_condition_id = ''0x7d0aaf81bbd3fd73b6a1651cce08a452c0cbf9c0cbb4520ce0f981065b639d88'',
     gm_slug = [], gm_question = [], gm_clob_token_ids = Some ''ids'', gm_outcomes = Some ''names'', gm_tick_size = None,
     gm_min_size = None, gm_active = True, gm_closed = False, gm_accepting_orders = False, gm_neg_risk = False\<rparr>"

definition prs_nested :: "string list \<Rightarrow> string list \<Rightarrow> string \<Rightarrow> string list option" where
  "prs_nested ids names s = (if s = ''ids'' then Some ids else if s = ''names'' then Some names else None)"

definition test_gamma_double_encoded_arrays_are_decoded :: bool where
  "test_gamma_double_encoded_arrays_are_decoded \<longleftrightarrow>
     (let g = prs_gamma\<lparr>gm_slug := ''test'', gm_question := ''Q?'', gm_tick_size := Some (Finite prs_tick),
            gm_accepting_orders := True\<rparr>;
          m = unwrap (parse_gamma_market prs_decimal (prs_nested
            [''27146956652877944551877724690365745048289675287536243265951843487691050802191'',
             ''33216695217861742195941369663873573949679634432452142092545486849801915283392''] [''Yes'', ''No'']) g);
          t = oc_token (mk_outcomes m ! 1)
      in length (mk_outcomes m) = 2 \<and> oc_name (mk_outcomes m ! 0) = ''Yes'' \<and> oc_name (mk_outcomes m ! 1) = ''No'' \<and>
         mk_tick_size m = 0.001 \<and> is_tradable m \<and> oc_name (the (outcome_by_token m t)) = ''No'')"

definition test_gamma_length_mismatch_is_an_error :: bool where
  "test_gamma_length_mismatch_is_an_error \<longleftrightarrow>
     \<not> is_ok (parse_gamma_market prs_decimal (prs_nested [''123'', ''456''] [''Yes'']) prs_gamma)"

definition test_closed_market_is_not_tradable :: bool where
  "test_closed_market_is_not_tradable \<longleftrightarrow>
     \<not> is_tradable (unwrap (parse_gamma_market prs_decimal (prs_nested [''123''] [''Yes'']) (prs_gamma\<lparr>gm_closed := True\<rparr>)))"

lemma parser_tests:
  "test_parses_a_real_rtds_frame" "test_empty_first_frame_is_ignored_not_an_error" "test_other_topics_are_ignored"
  "test_missing_envelope_stamp_falls_back_and_flags_coarseness"
  "test_outcome_index_999_sentinel_does_not_break_parsing" "test_garbage_addresses_are_rejected_not_silently_accepted"
  "test_epoch_unit_is_inferred_from_magnitude" "test_book_is_normalised_to_best_first"
  "test_book_normalisation_is_order_independent" "test_zero_size_levels_are_dropped"
  "test_gamma_double_encoded_arrays_are_decoded" "test_gamma_length_mismatch_is_an_error"
  "test_closed_market_is_not_tradable"
  by code_simp+

section \<open>Tests of crates/market_data/src/rest.rs\<close>

definition rst_condition :: "string \<times> json" where
  "rst_condition =
     (''condition_id'', JStr ''0x1d8720896546460a48d4f7fd5b3f0705a8d427921222de498d1cd334d4890c52'')"

definition test_clob_market_shape_is_parsed :: bool where
  "test_clob_market_shape_is_parsed \<longleftrightarrow>
     (let v = JObj [rst_condition, (''question'', JStr ''Q?''), (''market_slug'', JStr ''q''),
            (''minimum_order_size'', JInt 5), (''minimum_tick_size'', JFloat (Finite prs_cent)), (''active'', JBool True),
            (''closed'', JBool False), (''accepting_orders'', JBool True), (''neg_risk'', JBool False),
            (''tokens'', JArr [JObj [(''token_id'', JStr ''123''), (''outcome'', JStr ''Yes'')],
                             JObj [(''token_id'', JStr ''456''), (''outcome'', JStr ''No'')]])];
          m = unwrap (clob_market_to_domain prs_decimal v)
      in length (mk_outcomes m) = 2 \<and> oc_name (mk_outcomes m ! 0) = ''Yes'' \<and> is_tradable m)"

definition test_market_missing_fields_defaults_to_not_tradable :: bool where
  "test_market_missing_fields_defaults_to_not_tradable \<longleftrightarrow>
     (let m = unwrap (clob_market_to_domain prs_decimal (JObj [rst_condition]))
      in \<not> is_tradable m \<and> mk_closed m)"

definition test_bad_condition_id_is_an_error :: bool where
  "test_bad_condition_id_is_an_error \<longleftrightarrow>
     \<not> is_ok (clob_market_to_domain prs_decimal (JObj [(''condition_id'', JStr ''nope'')]))"

lemma rest_tests:
  "test_market_missing_fields_defaults_to_not_tradable" "test_bad_condition_id_is_an_error"
  "test_clob_market_shape_is_parsed"
  by code_simp+

section \<open>Tests of crates/market_data/src/market_ws.rs\<close>

definition mws_MARKET :: string where
  "mws_MARKET = ''0xa467b14d51f01b957109d9cbb1d6c124fab2a089d52ed8f471d23c2812e743b7''"

definition mws_TOKEN :: string where
  "mws_TOKEN = ''32338220190071351435772801779725302244575775216413325951443816017994629993401''"

definition mws_frame :: wire_frame where
  "mws_frame = \<lparr>wf_event_type = [], wf_market = mws_MARKET, wf_asset_id = [], wf_timestamp = Some ''1787102287053'',
     wf_bids = [], wf_asks = [], wf_tick_size = None, wf_price_changes = [], wf_new_tick_size = None\<rparr>"

definition mws_array_first_frame :: "wire_frame list" where
  "mws_array_first_frame = [mws_frame\<lparr>wf_event_type := ''book'', wf_asset_id := mws_TOKEN,
     wf_bids := [prs_level ''0.001'' ''10611926.49'', prs_level ''0.043'' ''100'', prs_level ''0.044'' ''21577.95''],
     wf_asks := [prs_level ''0.999'' ''1598544.78'', prs_level ''0.046'' ''200'', prs_level ''0.045'' ''1953.32''],
     wf_tick_size := Some ''0.001''\<rparr>]"

definition mws_array :: "wire_frame list \<Rightarrow> market_event list" where
  "mws_array fs = unwrap (parse_market_frame prs_decimal prs_time (\<lambda>_. Some fs) (\<lambda>_. None) ''['' 1 test_now)"

definition mws_object :: "wire_frame \<Rightarrow> market_event list" where
  "mws_object f = unwrap (parse_market_frame prs_decimal prs_time (\<lambda>_. None) (\<lambda>_. Some f) ''{'' 1 test_now)"

definition mws_raw :: "string \<Rightarrow> market_event list" where
  "mws_raw s = unwrap (parse_market_frame prs_decimal prs_time (\<lambda>_. None) (\<lambda>_. None) s 1 test_now)"

definition test_array_first_frame_parses :: bool where
  "test_array_first_frame_parses \<longleftrightarrow>
     (let evs = mws_array mws_array_first_frame
      in length evs = 1 \<and>
         (case evs ! 0 of
            Snapshot b \<Rightarrow> lv_price (the (best_bid b)) = 0.044 \<and> lv_price (the (best_ask b)) = 0.045 \<and>
              is_well_formed b \<and> bk_tick_size b = 0.001
          | _ \<Rightarrow> False))"

definition test_empty_and_keepalive_frames_are_ignored :: bool where
  "test_empty_and_keepalive_frames_are_ignored \<longleftrightarrow>
     list_all (\<lambda>f. mws_raw f = [IgnoredEvent]) ['''', ''   '', ''PING'']"

definition test_price_change_batches_route_per_asset :: bool where
  "test_price_change_batches_route_per_asset \<longleftrightarrow>
     (let f = mws_frame\<lparr>wf_event_type := ''price_change'',
            wf_price_changes := [\<lparr>wc_asset_id = mws_TOKEN, wc_price = ''0.034'', wc_size = ''6759'', wc_side = ''BUY'',
                wc_best_bid = Some ''0.044'', wc_best_ask = Some ''0.045''\<rparr>,
              \<lparr>wc_asset_id = ''999'', wc_price = ''0.5'', wc_size = ''10'', wc_side = ''SELL'', wc_best_bid = Some ''0.4'',
                wc_best_ask = Some ''0.5''\<rparr>]\<rparr>;
          evs = mws_object f
      in length evs = 2 \<and>
         (case evs ! 0 of
            LevelChange t s p sz bb _ \<Rightarrow> token_str t = mws_TOKEN \<and> s = Buy \<and> p = 0.034 \<and> sz = 6759 \<and> the bb = 0.044
          | _ \<Rightarrow> False))"

definition mws_tok :: token_id where
  "mws_tok = unwrap (token_id_new mws_TOKEN)"

lemma mws_tok_code [code]:
  "mws_tok = TokenId ''32338220190071351435772801779725302244575775216413325951443816017994629993401''"
  by code_simp

definition mws_builder_with_book :: book_builder where
  "mws_builder_with_book = foldl (\<lambda>B e. fst (builder_apply B e test_now)) builder_new (mws_array mws_array_first_frame)"

definition mws_change :: "book_builder \<Rightarrow> rat \<Rightarrow> rat \<Rightarrow> rat \<Rightarrow> rat \<Rightarrow> book_builder" where
  "mws_change B p s bb ba = fst (builder_apply B (LevelChange mws_tok Buy (unwrap (price_new p)) s
     (Some (unwrap (price_new bb))) (Some (unwrap (price_new ba)))) test_now)"

definition mws_size_at :: "book_builder \<Rightarrow> rat \<Rightarrow> rat" where
  "mws_size_at B p = lv_size (the (find (\<lambda>l. lv_price l = p) (bk_bids (the (builder_get B mws_tok)))))"

definition test_level_change_replaces_aggregate_size_not_a_delta :: bool where
  "test_level_change_replaces_aggregate_size_not_a_delta \<longleftrightarrow>
     (let b = mws_builder_with_book
      in mws_size_at b 0.043 = 100 \<and> mws_size_at (mws_change b 0.043 250 0.044 0.045) 0.043 = 250)"

definition test_zero_size_deletes_the_level :: bool where
  "test_zero_size_deletes_the_level \<longleftrightarrow>
     (let b = mws_change mws_builder_with_book 0.043 0 0.044 0.045
      in list_all (\<lambda>l. lv_price l \<noteq> 0.043) (bk_bids (the (builder_get b mws_tok))))"

definition test_book_stays_sorted_and_well_formed_after_updates :: bool where
  "test_book_stays_sorted_and_well_formed_after_updates \<longleftrightarrow>
     (let b1 = mws_change mws_builder_with_book 0.0435 10 0.044 0.045; b2 = mws_change b1 0.042 20 0.044 0.045;
          b3 = mws_change b2 0.0415 5 0.044 0.045
      in is_well_formed (the (builder_get b3 mws_tok)))"

definition test_venue_reported_best_price_catches_drift_and_resyncs :: bool where
  "test_venue_reported_best_price_catches_drift_and_resyncs \<longleftrightarrow>
     (let b = mws_builder_with_book; b1 = mws_change b 0.043 1 0.09 0.095
      in builder_get b mws_tok \<noteq> None \<and> builder_get b1 mws_tok = None \<and> bb_integrity_failures b1 = 1)"

definition test_tick_size_change_is_applied :: bool where
  "test_tick_size_change_is_applied \<longleftrightarrow>
     (let b = mws_builder_with_book; b1 = fst (builder_apply b (TickSizeChanged mws_tok 0.01) test_now)
      in bk_tick_size (the (builder_get b mws_tok)) = 0.001 \<and> bk_tick_size (the (builder_get b1 mws_tok)) = 0.01)"

definition test_min_order_size_survives_snapshots :: bool where
  "test_min_order_size_survives_snapshots \<longleftrightarrow>
     (let b = foldl (\<lambda>B e. fst (builder_apply B e test_now)) (set_min_order_size builder_new mws_tok 15)
            (mws_array mws_array_first_frame)
      in bk_min_order_size (the (builder_get b mws_tok)) = 15)"

definition test_changes_for_unknown_tokens_are_harmless :: bool where
  "test_changes_for_unknown_tokens_are_harmless \<longleftrightarrow>
     (let (b, r) = builder_apply builder_new (LevelChange (unwrap (token_id_new ''42'')) Buy (unwrap (price_new 0.5)) 1
            None None) test_now
      in r = None \<and> bb_books b = [])"

lemma market_ws_tests:
  "test_array_first_frame_parses" "test_empty_and_keepalive_frames_are_ignored"
  "test_price_change_batches_route_per_asset" "test_level_change_replaces_aggregate_size_not_a_delta"
  "test_zero_size_deletes_the_level" "test_book_stays_sorted_and_well_formed_after_updates"
  "test_venue_reported_best_price_catches_drift_and_resyncs" "test_tick_size_change_is_applied"
  "test_min_order_size_survives_snapshots" "test_changes_for_unknown_tokens_are_harmless"
  by code_simp+

section \<open>Tests of crates/market_data/src/market_stream.rs\<close>

definition mst_tok :: "nat \<Rightarrow> token_id" where
  "mst_tok n = unwrap (token_id_new (nat_text (1000 + n)))"

definition test_subscriptions_deduplicate_and_track_changes :: bool where
  "test_subscriptions_deduplicate_and_track_changes \<longleftrightarrow>
     (let (s1, a) = subs_add subs_new (mst_tok 1); (s2, b) = subs_add s1 (mst_tok 1); (s3, c) = subs_add s2 (mst_tok 2);
          (s4, d) = take_dirty s3; (_, e) = take_dirty s4
      in a \<and> \<not> b \<and> c \<and> length (su_tokens s3) = 2 \<and> d \<and> \<not> e)"

definition test_snapshot_is_stable_and_sorted :: bool where
  "test_snapshot_is_stable_and_sorted \<longleftrightarrow>
     (let s = subs_extend subs_new [mst_tok 3, mst_tok 1, mst_tok 2]; a = su_tokens s
      in length a = 3 \<and> a = su_tokens s)"

lemma market_stream_tests:
  "test_subscriptions_deduplicate_and_track_changes" "test_snapshot_is_stable_and_sorted"
  by code_simp+

section \<open>Tests of crates/market_data/src/reconnect.rs\<close>

text \<open>Some delays in a row, each with the ceiling before it.\<close>

primrec rct_delays ::
    "nat \<Rightarrow> backoff \<Rightarrow> (64 word \<times> 64 word) list \<Rightarrow> backoff \<times> (64 word \<times> 64 word) list" where
  "rct_delays 0 b xs = (b, xs)"
| "rct_delays (Suc n) b xs =
     rct_delays n (fst (next_delay b)) (xs @ [(ceiling_ms b, snd (next_delay b))])"

definition test_backoff_ceiling_grows_then_caps :: bool where
  "test_backoff_ceiling_grows_then_caps \<longleftrightarrow>
     (let ceilings = map fst (snd (rct_delays 8 (backoff_new 500 8000) []))
      in take 5 ceilings = [500, 1000, 2000, 4000, 8000] \<and> list_all (\<lambda>c. c \<le> 8000) ceilings)"

definition test_jitter_keeps_delays_inside_the_ceiling :: bool where
  "test_jitter_keeps_delays_inside_the_ceiling \<longleftrightarrow>
     list_all (\<lambda>(c, d). d < max c 1) (snd (rct_delays 50 (backoff_new 500 30000) []))"

definition test_reset_returns_to_the_base_delay :: bool where
  "test_reset_returns_to_the_base_delay \<longleftrightarrow>
     (let b = fst (rct_delays 6 (backoff_new 500 30000) []); b1 = backoff_reset b
      in ceiling_ms b > 500 \<and> ceiling_ms b1 = 500 \<and> bo_attempt b1 = 0)"

definition test_breaker_opens_only_after_the_threshold :: bool where
  "test_breaker_opens_only_after_the_threshold \<longleftrightarrow>
     (let c2 = on_failure (on_failure (breaker_new 3 5000)); c3 = on_failure c2
      in br_state c2 = BreakerClosed \<and> allows_request c2 \<and> br_state c3 = BreakerOpen \<and> \<not> allows_request c3)"

definition test_success_resets_the_failure_run :: bool where
  "test_success_resets_the_failure_run \<longleftrightarrow>
     br_state (on_failure (on_success (on_failure (on_failure (breaker_new 3 5000))))) = BreakerClosed"

definition test_breaker_half_opens_after_cooldown_and_closes_on_success :: bool where
  "test_breaker_half_opens_after_cooldown_and_closes_on_success \<longleftrightarrow>
     (let c1 = on_failure (breaker_new 1 5000); c2 = breaker_tick c1 2000; c3 = breaker_tick c2 4000
      in br_state c1 = BreakerOpen \<and> br_state c2 = BreakerOpen \<and> br_state c3 = BreakerHalfOpen \<and> allows_request c3 \<and>
         br_state (on_success c3) = BreakerClosed)"

lemma breaker_tests:
  "test_breaker_opens_only_after_the_threshold" "test_success_resets_the_failure_run"
  "test_breaker_half_opens_after_cooldown_and_closes_on_success"
  by code_simp+

text \<open>The ceilings do not depend on the generator.\<close>

primrec rct_ceilings :: "nat \<Rightarrow> backoff \<Rightarrow> 64 word list" where
  "rct_ceilings 0 b = []"
| "rct_ceilings (Suc n) b = ceiling_ms b # rct_ceilings n (b\<lparr>bo_attempt := sat_add (bo_attempt b) 1\<rparr>)"

lemma rct_ceilings_seed: "rct_ceilings n (b\<lparr>bo_attempt := a, bo_seed := s\<rparr>) = rct_ceilings n (b\<lparr>bo_attempt := a\<rparr>)"
proof (induction n arbitrary: a)
  case (Suc n)
  have "b\<lparr>bo_attempt := c, bo_seed := s\<rparr> = b\<lparr>bo_seed := s, bo_attempt := c\<rparr>" for c by simp
  with Suc show ?case by (simp add: ceiling_ms_def exponent_ms_def)
qed simp

lemma rct_delays_ceilings: "map fst (snd (rct_delays n b xs)) = map fst xs @ rct_ceilings n b"
  by (induction n arbitrary: b xs) (simp_all add: next_delay_def Let_def rct_ceilings_seed)

lemma rct_delays_attempt:
  "bo_attempt (fst (rct_delays n b xs)) = ((\<lambda>a. sat_add a 1) ^^ n) (bo_attempt b)"
  "bo_base_ms (fst (rct_delays n b xs)) = bo_base_ms b" "bo_max_ms (fst (rct_delays n b xs)) = bo_max_ms b"
  "bo_factor (fst (rct_delays n b xs)) = bo_factor b"
  by (induction n arbitrary: b xs) (simp_all add: next_delay_def Let_def funpow_Suc_right del: funpow.simps(2))

lemma attempts:
  "sat_add (0 :: 32 word) 1 = 1" "sat_add (1 :: 32 word) 1 = 2" "sat_add (2 :: 32 word) 1 = 3"
  "sat_add (3 :: 32 word) 1 = 4" "sat_add (4 :: 32 word) 1 = 5" "sat_add (5 :: 32 word) 1 = 6"
  "sat_add (6 :: 32 word) 1 = 7"
  by code_simp+

definition rct_at :: "64 word \<Rightarrow> 32 word \<Rightarrow> backoff" where
  "rct_at top_ms a = (backoff_new 500 top_ms)\<lparr>bo_attempt := a\<rparr>"

lemma rct_at_next: "(rct_at top_ms a)\<lparr>bo_attempt := c\<rparr> = rct_at top_ms c" "bo_attempt (rct_at top_ms a) = a"
  "backoff_new 500 top_ms = rct_at top_ms 0"
  by (simp_all add: rct_at_def backoff_new_def)

lemma ceilings:
  "ceiling_ms (rct_at 8000 0) = 500" "ceiling_ms (rct_at 8000 1) = 1000" "ceiling_ms (rct_at 8000 2) = 2000"
  "ceiling_ms (rct_at 8000 3) = 4000" "ceiling_ms (rct_at 8000 4) = 8000" "ceiling_ms (rct_at 8000 5) = 8000"
  "ceiling_ms (rct_at 8000 6) = 8000" "ceiling_ms (rct_at 8000 7) = 8000"
  by code_simp+

lemma backoff_ceiling_test: "test_backoff_ceiling_grows_then_caps"
proof -
  have "rct_ceilings 8 (rct_at 8000 0) = [500, 1000, 2000, 4000, 8000, 8000, 8000, 8000]"
    by (simp add: eval_nat_numeral rct_at_next ceilings attempts)
  then show ?thesis
    by (simp add: test_backoff_ceiling_grows_then_caps_def rct_delays_ceilings rct_at_next)
qed

lemma backoff_reset_test: "test_reset_returns_to_the_base_delay"
proof -
  have "((\<lambda>a. sat_add a 1) ^^ 6) 0 = (6 :: 32 word)" by (simp add: eval_nat_numeral attempts)
  moreover have "500 < sat_mul (500 :: 64 word) (sat_pow 2 6)" by code_simp
  moreover have "sat_mul (500 :: 64 word) (sat_pow 2 0) = 500" by code_simp
  ultimately show ?thesis
    by (simp add: test_reset_returns_to_the_base_delay_def Let_def ceiling_ms_def exponent_ms_def rct_delays_attempt
        backoff_new_def backoff_reset_def)
qed

text \<open>Fifty delays are below their ceilings because every delay is.\<close>

lemma delays_below:
  "list_all (\<lambda>(c, d). d < max c 1) xs \<Longrightarrow> list_all (\<lambda>(c, d). d < max c 1) (snd (rct_delays n b xs))"
proof (induction n arbitrary: b xs)
  case (Suc n)
  have "snd (next_delay b) < max (ceiling_ms b) 1"
    using delay_below_ceiling [of b] by (auto simp: word_less_nat_alt max_def word_le_nat_alt)
  with Suc show ?case by simp
qed simp

lemma jitter_test: "test_jitter_keeps_delays_inside_the_ceiling"
  by (simp add: test_jitter_keeps_delays_inside_the_ceiling_def delays_below)

end
