(* ===== verification/MetricsTests.thy ===== *)
theory MetricsTests
  imports TestKit Metrics "HOL-Library.Sublist"
begin

text \<open>The unit tests of the metrics crate, but for the ones on threads and on the text exposition. The clock of the health tests moves on by
  a nanosecond per call.\<close>

section \<open>Tests of crates/metrics/src/health.rs\<close>

definition hlt_report :: "health_monitor \<Rightarrow> health_report" where
  "hlt_report H = health_report_of H test_now"

definition test_empty_monitor_is_healthy :: bool where
  "test_empty_monitor_is_healthy \<longleftrightarrow> report_healthy (hlt_report (health_new ''PAPER''))"

definition test_worst_component_determines_overall_state :: bool where
  "test_worst_component_determines_overall_state \<longleftrightarrow>
     (let h1 = health_set (health_new ''PAPER'') ''db'' Healthy ''ok'' test_now;
          h2 = health_set h1 ''feed'' Degraded ''reconnecting'' (test_now + 1);
          h3 = health_set h2 ''execution'' Down ''adapter not ready'' (test_now + 2)
      in hr_state (hlt_report h2) = Degraded \<and> hr_state (hlt_report h3) = Down)"

definition test_recovery_returns_to_healthy :: bool where
  "test_recovery_returns_to_healthy \<longleftrightarrow>
     (let h1 = health_set (health_new ''PAPER'') ''feed'' Down ''disconnected'' test_now;
          h2 = health_set h1 ''feed'' Healthy ''connected'' (test_now + 1)
      in hr_state (hlt_report h1) = Down \<and> report_healthy (hlt_report h2) \<and>
         co_last_ok (the (health_get h2 ''feed'')) \<noteq> None)"

definition test_silent_feeds_are_caught_by_staleness :: bool where
  "test_silent_feeds_are_caught_by_staleness \<longleftrightarrow>
     (let h = expire_stale (health_set (health_new ''PAPER'') ''feed'' Healthy ''connected'' test_now) (ms 30000)
            (test_now + ms 120000);
          c = the (health_get h ''feed'')
      in co_state c = Degraded \<and> sublist ''no update'' (co_detail c))"

definition test_fresh_components_survive_expiry :: bool where
  "test_fresh_components_survive_expiry \<longleftrightarrow>
     (let h = expire_stale (health_set (health_new ''PAPER'') ''feed'' Healthy ''connected'' test_now) (ms 30000)
            (test_now + 1)
      in report_healthy (hlt_report h))"

definition test_state_change_timestamps_only_move_on_change :: bool where
  "test_state_change_timestamps_only_move_on_change \<longleftrightarrow>
     (let h1 = health_set (health_new ''PAPER'') ''db'' Healthy ''ok'' test_now;
          t1 = co_last_change (the (health_get h1 ''db''));
          h2 = health_set h1 ''db'' Healthy ''still ok'' (test_now + ms 5);
          h3 = health_set h2 ''db'' Down ''gone'' (test_now + ms 6)
      in co_last_change (the (health_get h2 ''db'')) = t1 \<and> co_last_change (the (health_get h3 ''db'')) > t1)"

lemma health_tests:
  "test_empty_monitor_is_healthy" "test_worst_component_determines_overall_state" "test_recovery_returns_to_healthy"
  "test_silent_feeds_are_caught_by_staleness" "test_fresh_components_survive_expiry"
  "test_state_change_timestamps_only_move_on_change"
  by code_simp+

section \<open>Tests of crates/metrics/src/latency.rs\<close>

definition rec_samples :: "latency_stage \<Rightarrow> recorder \<Rightarrow> int list \<Rightarrow> recorder" where
  "rec_samples st r xs = foldl (\<lambda>r x. record_sample r st x) r xs"

definition test_unmeasured_stages_report_nothing :: bool where
  "test_unmeasured_stages_report_nothing \<longleftrightarrow>
     recorder_stats recorder_new Detection = None \<and> all_stats recorder_new = []"

definition test_percentiles_are_real_observations :: bool where
  "test_percentiles_are_real_observations \<longleftrightarrow>
     (let s = the (recorder_stats (rec_samples Internal recorder_new (map (\<lambda>i. i * 1000) [1..100])) Internal)
      in st_count s = 100 \<and> st_min s = 1000 \<and> st_max s = 100000 \<and> st_p50 s = 50000 \<and> st_p95 s = 95000 \<and>
         st_p99 s = 99000 \<and> st_mean s = 50500)"

definition test_percentile_ordering_always_holds :: bool where
  "test_percentile_ordering_always_holds \<longleftrightarrow>
     (let s = the (recorder_stats (rec_samples Risk recorder_new [500, 12, 9000, 3, 77, 100000, 42]) Risk)
      in st_min s \<le> st_p50 s \<and> st_p50 s \<le> st_p95 s \<and> st_p95 s \<le> st_p99 s \<and> st_p99 s \<le> st_max s)"

definition test_backwards_clocks_are_dropped_not_recorded :: bool where
  "test_backwards_clocks_are_dropped_not_recorded \<longleftrightarrow>
     (let r1 = record_sample recorder_new Ack (- 5000); r2 = record_sample r1 Ack 100
      in recorder_stats r1 Ack = None \<and> st_count (the (recorder_stats r2 Ack)) = 1)"

definition test_ring_bounds_memory_and_tracks_recent_behaviour :: bool where
  "test_ring_bounds_memory_and_tracks_recent_behaviour \<longleftrightarrow>
     (let r1 = rec_samples Execution recorder_new (replicate CAPACITY 1000);
          r2 = rec_samples Execution r1 (replicate CAPACITY 900000); s = the (recorder_stats r2 Execution)
      in st_p50 (the (recorder_stats r1 Execution)) = 1000 \<and> st_p50 s = 900000 \<and> st_count s = CAPACITY * 2)"

definition test_single_sample_is_every_percentile :: bool where
  "test_single_sample_is_every_percentile \<longleftrightarrow>
     (let s = the (recorder_stats (record_sample recorder_new Strategy 1234) Strategy)
      in (st_min s, st_p50 s, st_p99 s, st_max s) = (1234, 1234, 1234, 1234))"

definition test_record_all_only_captures_measured_stages :: bool where
  "test_record_all_only_captures_measured_stages \<longleftrightarrow>
     (let b = test_now;
          st = (stamps_from_source b False (b + ms 400))\<lparr>lt_signal := Some (b + ms 402)\<rparr>;
          r = record_all recorder_new st
      in recorder_stats r Detection \<noteq> None \<and> recorder_stats r Strategy \<noteq> None \<and> recorder_stats r Risk = None \<and>
         recorder_stats r EndToEnd = None)"

text \<open>Many samples of one stage are as many pushes to its ring.\<close>

lemma record_sample_find:
  "0 \<le> x \<Longrightarrow> find (\<lambda>(s, _). s = st) (record_sample r st x) =
     map_option (\<lambda>(s, g). (s, ring_push g x)) (find (\<lambda>(s, _). s = st) r)"
proof -
  have "find (\<lambda>(s, _). s = st) (update_first (\<lambda>(s, _). s = st) (\<lambda>(s, r). (s, ring_push r x)) r) =
      map_option (\<lambda>(s, g). (s, ring_push g x)) (find (\<lambda>(s, _). s = st) r)"
    by (induction r) auto
  then show "0 \<le> x \<Longrightarrow> ?thesis" by (simp add: record_sample_def)
qed

lemma rec_samples_ring:
  "list_all (\<lambda>x. 0 \<le> x) xs \<Longrightarrow> find (\<lambda>(s, _). s = st) r = Some (st, g) \<Longrightarrow>
     find (\<lambda>(s, _). s = st) (rec_samples st r xs) = Some (st, foldl ring_push g xs)"
proof (induction xs arbitrary: r g)
  case (Cons x xs)
  then have "find (\<lambda>(s, _). s = st) (record_sample r st x) = Some (st, ring_push g x)"
    by (simp add: record_sample_find)
  with Cons show ?case by (simp add: rec_samples_def)
qed (simp add: rec_samples_def)

lemma rec_samples_new:
  "list_all (\<lambda>x. 0 \<le> x) xs \<Longrightarrow> recorder_stats (rec_samples st recorder_new xs) st = ring_stats (foldl ring_push ring_new xs)"
  using rec_samples_ring [of xs st recorder_new ring_new]
  by (cases st) (simp_all add: recorder_stats_def recorder_new_def all_stages_def)

lemma short_ring:
  "length xs \<le> CAPACITY \<Longrightarrow> foldl ring_push ring_new xs = \<lparr>rg_buf = xs, rg_next = 0, rg_total = length xs\<rparr>"
  by (induction xs rule: rev_induct) (simp_all add: ring_new_def ring_push_def)

lemma rec_samples_short:
  "list_all (\<lambda>x. 0 \<le> x) xs \<Longrightarrow> length xs \<le> CAPACITY \<Longrightarrow>
     recorder_stats (rec_samples st recorder_new xs) st = ring_stats \<lparr>rg_buf = xs, rg_next = 0, rg_total = length xs\<rparr>"
  by (simp add: rec_samples_new short_ring)

lemma percentiles_test: "test_percentiles_are_real_observations"
proof -
  have "ring_stats \<lparr>rg_buf = map (\<lambda>i. i * 1000) [1..100], rg_next = 0, rg_total = 100\<rparr> =
      Some \<lparr>st_count = 100, st_min = 1000, st_mean = 50500, st_p50 = 50000, st_p95 = 95000, st_p99 = 99000,
        st_max = 100000\<rparr>"
    by code_simp
  then show ?thesis
    by (simp add: test_percentiles_are_real_observations_def rec_samples_short list_all_iff CAPACITY_def)
qed

lemma ordering_test: "test_percentile_ordering_always_holds"
proof -
  have "ring_stats \<lparr>rg_buf = [500, 12, 9000, 3, 77, 100000, 42], rg_next = 0, rg_total = 7\<rparr> =
      Some \<lparr>st_count = 7, st_min = 3, st_mean = 15662, st_p50 = 77, st_p95 = 100000, st_p99 = 100000, st_max = 100000\<rparr>"
    by code_simp
  then show ?thesis
    by (simp add: test_percentile_ordering_always_holds_def rec_samples_short CAPACITY_def eval_nat_numeral)
qed

lemma single_test: "test_single_sample_is_every_percentile"
proof -
  have "ring_stats \<lparr>rg_buf = [1234], rg_next = 0, rg_total = 1\<rparr> =
      Some \<lparr>st_count = 1, st_min = 1234, st_mean = 1234, st_p50 = 1234, st_p95 = 1234, st_p99 = 1234, st_max = 1234\<rparr>"
    by code_simp
  moreover have "record_sample recorder_new Strategy 1234 = rec_samples Strategy recorder_new [1234]"
    by (simp add: rec_samples_def)
  ultimately show ?thesis
    by (simp add: test_single_sample_is_every_percentile_def rec_samples_short CAPACITY_def)
qed

lemma unmeasured_test: "test_unmeasured_stages_report_nothing"
  by (simp add: test_unmeasured_stages_report_nothing_def recorder_stats_def recorder_new_def all_stages_def all_stats_def
      ring_stats_def ring_new_def List.map_filter_simps)

lemma backwards_test: "test_backwards_clocks_are_dropped_not_recorded"
proof -
  have "record_sample recorder_new Ack (- 5000) = recorder_new" "recorder_stats recorder_new Ack = None"
    by (simp_all add: record_sample_def recorder_stats_def recorder_new_def all_stages_def ring_stats_def ring_new_def)
  moreover have "record_sample recorder_new Ack 100 = rec_samples Ack recorder_new [100]"
    by (simp add: rec_samples_def)
  ultimately show ?thesis
    by (simp add: test_backwards_clocks_are_dropped_not_recorded_def rec_samples_short CAPACITY_def
        ring_stats_def Let_def)
qed

lemma record_all_test: "test_record_all_only_captures_measured_stages"
  by (simp add: test_record_all_only_captures_measured_stages_def record_all_def samples_def recorder_stats_def
      recorder_new_def all_stages_def record_sample_def ring_push_def ring_new_def ring_stats_def Let_def
      stamps_from_source_def stamps_begin_def detection_us_def strategy_us_def risk_us_def submission_us_def ack_us_def
      execution_us_def internal_us_def end_to_end_us_def num_microseconds_def tdiv_def ms_def
      List.map_filter_simps CAPACITY_def)

text \<open>A ring that has been filled up with one value reports it, whatever it held.\<close>

lemma flooded_ring:
  assumes "ring_ok r" and "foldl ring_push r (replicate CAPACITY v) = r'"
  shows "rg_buf r' = replicate CAPACITY v" and "rg_total r' = rg_total r + CAPACITY"
proof -
  from ring_pushes [OF assms(1), of "replicate CAPACITY v"] assms(2)
  have v: "ring_view r' = last_n CAPACITY (ring_view r @ replicate CAPACITY v)" and t: "rg_total r' = rg_total r + CAPACITY"
    by auto
  from v have "ring_view r' = replicate CAPACITY v" by (simp add: last_n_def)
  then have "set (rg_buf r') \<subseteq> {v}" "length (rg_buf r') = CAPACITY"
    using set_ring_view [of r'] length_ring_view [of r'] by auto
  then show "rg_buf r' = replicate CAPACITY v" by (metis replicate_eqI singletonD subsetD)
  from t show "rg_total r' = rg_total r + CAPACITY" .
qed

lemma flooded_stats:
  assumes "rg_buf r = replicate CAPACITY v"
  shows "st_p50 (the (ring_stats r)) = v" and "st_count (the (ring_stats r)) = rg_total r"
proof -
  have "sort (rg_buf r) = rg_buf r" "rg_buf r \<noteq> []" "length (rg_buf r) = CAPACITY"
    using assms CAPACITY_pos by (auto simp: sorted_replicate sorted_sort_id)
  with assms rank_index_less [of CAPACITY P50] show "st_p50 (the (ring_stats r)) = v"
    "st_count (the (ring_stats r)) = rg_total r"
    by (simp_all add: ring_stats_def Let_def)
qed

lemma ring_new_total: "rg_total ring_new = 0"
  by (simp add: ring_new_def)

lemma ring_test: "test_ring_bounds_memory_and_tracks_recent_behaviour"
proof -
  define r1 where "r1 = foldl ring_push ring_new (replicate CAPACITY 1000)"
  define r2 where "r2 = foldl ring_push r1 (replicate CAPACITY 900000)"
  note a = flooded_ring [OF ring_ok_new r1_def [symmetric]]
  have "ring_ok r1" using ring_pushes [OF ring_ok_new] by (simp add: r1_def)
  note b = flooded_ring [OF this r2_def [symmetric]]
  have "rec_samples Execution (rec_samples Execution recorder_new (replicate CAPACITY 1000)) (replicate CAPACITY 900000) =
      rec_samples Execution recorder_new (replicate CAPACITY 1000 @ replicate CAPACITY 900000)"
    by (simp add: rec_samples_def)
  moreover have "foldl ring_push ring_new (replicate CAPACITY 1000 @ replicate CAPACITY 900000) = r2"
    by (simp add: r1_def r2_def)
  ultimately show ?thesis
    using flooded_stats [OF a(1)] flooded_stats [OF b(1)] a(2) b(2) ring_new_total
    by (simp add: test_ring_bounds_memory_and_tracks_recent_behaviour_def Let_def rec_samples_new list_all_iff
        r1_def [symmetric])
qed

section \<open>Tests of crates/metrics/src/registry.rs\<close>

definition test_counters_accumulate :: bool where
  "test_counters_accumulate \<longleftrightarrow>
     (let c = counter_add (counter_inc (mt_orders_filled_total metrics_new)) 4 in c = 5)"

definition test_gauges_carry_decimal_precision :: bool where
  "test_gauges_carry_decimal_precision \<longleftrightarrow>
     (let m = metrics_new\<lparr>mt_pnl_total := gauge_of_decimal D (- 123.45)\<rparr>
      in \<bar>gauge_decimal (mt_pnl_total m) - (- 123.45)\<bar> < 0.000001)"

definition test_rejection_breakdown_is_labelled_by_reason :: bool where
  "test_rejection_breakdown_is_labelled_by_reason \<longleftrightarrow>
     (let m = record_rejection (record_rejection (record_rejection metrics_new ''max_position'') ''max_position'')
            ''kill_switch'';
          b = rejection_breakdown m
      in mt_risk_rejections_total m = 3 \<and> map_of b ''max_position'' = Some 2 \<and> map_of b ''kill_switch'' = Some 1)"

lemma registry_tests:
  "test_counters_accumulate" "test_gauges_carry_decimal_precision" "test_rejection_breakdown_is_labelled_by_reason"
  by code_simp+

end
