(* ===== verification/ConfigTests.thy ===== *)
theory ConfigTests
  imports TestKit Config "HOL-Library.Sublist"
begin

text \<open>The unit tests of the config crate, but for the one that searches the public view as JSON text.\<close>

section \<open>Tests of crates/config/src/lib.rs\<close>

definition cfg_addr :: address where
  "cfg_addr = unwrap (address_new ''0x8a5152d056adb066c9e4dc65164620cdd82ceb6f'')"

lemma cfg_addr_code [code]: "cfg_addr = Address ''0x8a5152d056adb066c9e4dc65164620cdd82ceb6f''"
  by code_simp

text \<open>The default probabilities as binary64 values.\<close>

lemma simulation_default_code [code]:
  "simulation_default = \<lparr>sc_latency_ms = 45, sc_latency_jitter_ms = 20, sc_fee_bps = 0, sc_slippage_bps = 10,
     sc_partial_fill_enabled = True, sc_fill_probability = Finite (8286623314361713 / 9007199254740992),
     sc_reject_probability = Finite (5764607523034235 / 576460752303423488), sc_rng_seed = 42,
     sc_starting_cash_usd = 10000\<rparr>"
  by (simp add: simulation_default_def f64_round_def bit_length.simps round_half_even_def Let_def)

definition cfg_live_base :: app_config where
  "cfg_live_base = app_default\<lparr>ac_mode := LiveMode,
     ac_live := live_default\<lparr>lc_trading_enabled := True, lc_private_key := Secret ''0xkey'', lc_api_key := Secret ''k'',
       lc_api_secret := Secret ''s'', lc_api_passphrase := Secret ''p'', lc_funder_address := Some cfg_addr\<rparr>,
     ac_server := server_default\<lparr>sv_api_token := Secret ''t''\<rparr>\<rparr>"

definition test_live_mode_alone_does_not_arm_trading :: bool where
  "test_live_mode_alone_does_not_arm_trading \<longleftrightarrow>
     (let c = app_default\<lparr>ac_mode := LiveMode\<rparr>
      in validate c = Inl LiveNotArmed \<and> \<not> live_execution_armed c)"

definition test_trading_enabled_alone_does_not_arm_trading :: bool where
  "test_trading_enabled_alone_does_not_arm_trading \<longleftrightarrow>
     (let c = app_default\<lparr>ac_live := live_default\<lparr>lc_trading_enabled := True\<rparr>\<rparr>
      in is_ok (validate c) \<and> \<not> live_execution_armed c)"

definition test_both_switches_arm_trading :: bool where
  "test_both_switches_arm_trading \<longleftrightarrow> is_ok (validate cfg_live_base) \<and> live_execution_armed cfg_live_base"

definition test_live_requires_every_credential :: bool where
  "test_live_requires_every_credential \<longleftrightarrow>
     list_all (\<lambda>c. \<not> is_ok (validate c))
       [cfg_live_base\<lparr>ac_live := (ac_live cfg_live_base)\<lparr>lc_private_key := Secret []\<rparr>\<rparr>,
        cfg_live_base\<lparr>ac_live := (ac_live cfg_live_base)\<lparr>lc_api_secret := Secret []\<rparr>\<rparr>,
        cfg_live_base\<lparr>ac_live := (ac_live cfg_live_base)\<lparr>lc_funder_address := None\<rparr>\<rparr>,
        cfg_live_base\<lparr>ac_server := (ac_server cfg_live_base)\<lparr>sv_api_token := Secret []\<rparr>\<rparr>]"

definition test_demo_data_is_refused_in_live :: bool where
  "test_demo_data_is_refused_in_live \<longleftrightarrow>
     (case validate (cfg_live_base\<lparr>ac_demo_data := True\<rparr>) of Inl (InconsistentLimits _) \<Rightarrow> True | _ \<Rightarrow> False)"

definition test_incoherent_limits_are_rejected :: bool where
  "test_incoherent_limits_are_rejected \<longleftrightarrow>
     \<not> is_ok (validate (app_default\<lparr>ac_risk := risk_default\<lparr>rc_max_trade_usd := 2000\<rparr>\<rparr>)) \<and>
     \<not> is_ok (validate (app_default\<lparr>ac_risk := risk_default\<lparr>rc_min_trade_usd := 500\<rparr>\<rparr>)) \<and>
     \<not> is_ok (validate (app_default\<lparr>ac_risk := risk_default\<lparr>rc_max_open_orders := 0\<rparr>\<rparr>))"

definition test_defaults_are_conservative_not_unlimited :: bool where
  "test_defaults_are_conservative_not_unlimited \<longleftrightarrow>
     rc_max_trade_usd risk_default \<le> 100 \<and> rc_max_daily_loss_usd risk_default \<le> 100 \<and>
     rc_max_open_orders risk_default \<le> 20 \<and> rc_max_slippage_bps risk_default \<le> 50"

definition test_secrets_never_render_their_value :: bool where
  "test_secrets_never_render_their_value \<longleftrightarrow>
     (let s = Secret ''0xdeadbeefprivatekey''
      in secret_debug s = ''Secret(<redacted>)'' \<and> secret_display s = ''<redacted>'' \<and>
         \<not> sublist ''deadbeef'' (secret_debug s @ secret_display s))"

definition test_wallet_spec_parses_all_fields :: bool where
  "test_wallet_spec_parses_all_fields \<longleftrightarrow>
     (let ws = unwrap (parse_target_wallets D ''0x8a5152d056adb066c9e4dc65164620cdd82ceb6f:Whale:0.25:100:1000'')
      in length ws = 1 \<and> tw_nickname (ws ! 0) = ''Whale'' \<and> tw_sizing (ws ! 0) = FixedRatio 0.25 \<and>
         tw_max_trade_usd (ws ! 0) = 100 \<and> tw_max_exposure_usd (ws ! 0) = 1000)"

definition test_wallet_spec_accepts_address_only :: bool where
  "test_wallet_spec_accepts_address_only \<longleftrightarrow>
     (let ws = unwrap (parse_target_wallets D ''0x8a5152d056aDB066C9E4Dc65164620cDD82CeB6f'')
      in length ws = 1 \<and> prefix ''0x8a51'' (tw_nickname (ws ! 0)) \<and>
         address_str (tw_address (ws ! 0)) = ''0x8a5152d056adb066c9e4dc65164620cdd82ceb6f'')"

definition test_duplicate_wallets_are_rejected :: bool where
  "test_duplicate_wallets_are_rejected \<longleftrightarrow>
     (case parse_target_wallets D
        ''0x8a5152d056adb066c9e4dc65164620cdd82ceb6f,0x8A5152D056ADB066C9E4DC65164620CDD82CEB6F'' of
        Inl (BadWallet _ _) \<Rightarrow> True | _ \<Rightarrow> False)"

definition test_absurd_copy_ratio_is_rejected :: bool where
  "test_absurd_copy_ratio_is_rejected \<longleftrightarrow>
     \<not> is_ok (parse_target_wallets D ''0x8a5152d056adb066c9e4dc65164620cdd82ceb6f:X:50'') \<and>
     \<not> is_ok (parse_target_wallets D ''0x8a5152d056adb066c9e4dc65164620cdd82ceb6f:X:0'') \<and>
     \<not> is_ok (parse_target_wallets D ''0x8a5152d056adb066c9e4dc65164620cdd82ceb6f:X:abc'')"

definition test_bad_address_is_rejected_loudly :: bool where
  "test_bad_address_is_rejected_loudly \<longleftrightarrow>
     \<not> is_ok (parse_target_wallets D ''not-an-address'') \<and> \<not> is_ok (parse_target_wallets D ''0x123'')"

definition test_empty_wallet_list_is_valid :: bool where
  "test_empty_wallet_list_is_valid \<longleftrightarrow>
     unwrap (parse_target_wallets D '''') = [] \<and> unwrap (parse_target_wallets D ''  , ,  '') = []"

definition test_replay_requires_a_file :: bool where
  "test_replay_requires_a_file \<longleftrightarrow>
     (case validate (app_default\<lparr>ac_mode := ReplayMode\<rparr>) of Inl (Missing k _) \<Rightarrow> k = ''REPLAY_FILE'' | _ \<Rightarrow> False)"

definition test_per_wallet_limits_cannot_exceed_global :: bool where
  "test_per_wallet_limits_cannot_exceed_global \<longleftrightarrow>
     (let w = (target_wallet_new cfg_addr ''W'')\<lparr>tw_max_trade_usd := 999\<rparr>
      in \<not> is_ok (validate (app_default\<lparr>ac_wallets := [w]\<rparr>)))"

lemma config_validation_tests:
  "test_live_mode_alone_does_not_arm_trading" "test_trading_enabled_alone_does_not_arm_trading"
  "test_both_switches_arm_trading" "test_live_requires_every_credential" "test_demo_data_is_refused_in_live"
  "test_incoherent_limits_are_rejected" "test_defaults_are_conservative_not_unlimited"
  "test_replay_requires_a_file" "test_per_wallet_limits_cannot_exceed_global"
  by code_simp+

lemma config_wallet_tests:
  "test_wallet_spec_parses_all_fields" "test_wallet_spec_accepts_address_only" "test_duplicate_wallets_are_rejected"
  "test_absurd_copy_ratio_is_rejected" "test_bad_address_is_rejected_loudly" "test_empty_wallet_list_is_valid"
  "test_secrets_never_render_their_value"
  by code_simp+

end
