(* ===== verification/ServiceTests.thy ===== *)
theory ServiceTests
  imports TestKit Live Handlers Replay "HOL-Library.Sublist"
begin

text \<open>
  The unit tests of the persistence and api crates, of replays, of live execution and of signing, but for those
  that need a hash or the curve, JSON text, a file, the name of an adapter, or a database that cannot be reached.
\<close>

section \<open>Tests of crates/persistence/src/repositories.rs\<close>

definition rep_repos :: store where
  "rep_repos = None"

definition rep_reread :: "sizing_mode \<Rightarrow> sizing_mode option" where
  "rep_reread s = Some s"

definition test_every_write_is_a_safe_noop_without_a_database :: bool where
  "test_every_write_is_a_safe_noop_without_a_database \<longleftrightarrow>
     is_ephemeral rep_repos \<and> is_ok (snd (audit ''op'' ''kill_switch'' None (JObj []) rep_repos)) \<and>
     is_ok (snd (insert_latency None ''internal'' 100 rep_repos)) \<and> unwrap (load_positions rep_repos) = [] \<and>
     unwrap (load_wallets rep_reread rep_repos) = [] \<and> unwrap (load_open_orders rep_repos) = []"

definition test_ephemeral_recovery_yields_empty_state_not_an_error :: bool where
  "test_ephemeral_recovery_yields_empty_state_not_an_error \<longleftrightarrow>
     (let s = unwrap (recover_state rep_reread test_now rep_repos)
      in rv_positions s = [] \<and> rv_dedup_entries s = [] \<and> rv_cash s = None)"

definition test_ephemeral_source_event_insert_reports_new :: bool where
  "test_ephemeral_source_event_insert_reports_new \<longleftrightarrow>
     \<not> unwrap (source_event_exists (from_digest ''abc'') rep_repos)"

definition rep_row :: "string \<Rightarrow> stored_order" where
  "rep_row s = \<lparr>sw_order_id = 0, sw_state = s, sw_venue_order_id = None, sw_filled_qty = 0, sw_filled_notional = 0,
     sw_fees_paid = 0\<rparr>"

definition test_recovered_orders_that_may_have_traded_are_flagged :: bool where
  "test_recovered_orders_that_may_have_traded_are_flagged \<longleftrightarrow>
     list_all (\<lambda>s. needs_reconciliation (rep_row s))
       [''SUBMITTED'', ''ACKNOWLEDGED'', ''PARTIALLY_FILLED'', ''CANCEL_REQUESTED'', ''UNKNOWN''] \<and>
     list_all (\<lambda>s. \<not> needs_reconciliation (rep_row s))
       [''FILLED'', ''CANCELLED'', ''REJECTED'', ''FAILED'', ''CREATED'', ''VALIDATED'']"

definition test_persisted_state_strings_round_trip_through_the_enum :: bool where
  "test_persisted_state_strings_round_trip_through_the_enum \<longleftrightarrow>
     list_all (\<lambda>s. case parsed_state (rep_row s) of Some p \<Rightarrow> order_state_str p = s | None \<Rightarrow> False)
       [''CREATED'', ''VALIDATED'', ''SUBMITTED'', ''ACKNOWLEDGED'', ''PARTIALLY_FILLED'', ''FILLED'',
        ''CANCEL_REQUESTED'', ''CANCELLED'', ''REJECTED'', ''FAILED'', ''UNKNOWN'']"

definition test_dedup_rows_rebuild_into_tracker_keys :: bool where
  "test_dedup_rows_rebuild_into_tracker_keys \<longleftrightarrow>
     (let r = \<lparr>dr_tx_hash = ''0x'' @ hex_padded 64 1, dr_trader = ''0x'' @ hex_padded 40 2, dr_token_id = ''12345'',
            dr_side = ''BUY'', dr_price = 0.980, dr_size = 5.0, dr_occurrences = 2, dr_last_seen = test_now\<rparr>;
          k = the (dedup_row_to_key D r)
      in ck_price k = ''0.98'' \<and> ck_size k = ''5'')"

definition test_malformed_dedup_rows_are_dropped_not_panicked_on :: bool where
  "test_malformed_dedup_rows_are_dropped_not_panicked_on \<longleftrightarrow>
     dedup_row_to_key D \<lparr>dr_tx_hash = ''bad'', dr_trader = ''bad'', dr_token_id = ''x'', dr_side = ''SIDEWAYS'',
       dr_price = 1, dr_size = 1, dr_occurrences = 1, dr_last_seen = test_now\<rparr> = None"

lemma repositories_tests:
  "test_every_write_is_a_safe_noop_without_a_database" "test_ephemeral_recovery_yields_empty_state_not_an_error"
  "test_ephemeral_source_event_insert_reports_new" "test_recovered_orders_that_may_have_traded_are_flagged"
  "test_persisted_state_strings_round_trip_through_the_enum" "test_dedup_rows_rebuild_into_tracker_keys"
  "test_malformed_dedup_rows_are_dropped_not_panicked_on"
  by code_simp+

section \<open>Tests of crates/api/src/auth.rs\<close>

definition test_bearer_parsing_accepts_valid_headers_only :: bool where
  "test_bearer_parsing_accepts_valid_headers_only \<longleftrightarrow>
     bearer (Some ''Bearer abc123'') = Some ''abc123'' \<and> bearer (Some ''bearer abc123'') = Some ''abc123'' \<and>
     bearer (Some ''Basic abc123'') = None \<and> bearer (Some ''abc123'') = None \<and> bearer None = None"

definition test_comparison_is_length_safe_and_correct :: bool where
  "test_comparison_is_length_safe_and_correct \<longleftrightarrow>
     secure_eq ''secret'' ''secret'' \<and> \<not> secure_eq ''secret'' ''secrer'' \<and> \<not> secure_eq ''secret'' ''secret2'' \<and>
     \<not> secure_eq '''' ''x'' \<and> secure_eq '''' ''''"

definition test_comparison_examines_every_byte :: bool where
  "test_comparison_examines_every_byte \<longleftrightarrow>
     (let a = ''aaaaaaaaaaaaaaaa''; b = ''aaaaaaaaaaaaaaab''; c = ''baaaaaaaaaaaaaaa''
      in \<not> secure_eq a b \<and> \<not> secure_eq a c)"

lemma auth_tests:
  "test_bearer_parsing_accepts_valid_headers_only" "test_comparison_is_length_safe_and_correct"
  "test_comparison_examines_every_byte"
  by code_simp+

section \<open>Tests of crates/api/src/handlers.rs\<close>

definition test_utilisation_is_a_bounded_fraction :: bool where
  "test_utilisation_is_a_bounded_fraction \<longleftrightarrow>
     utilisation D 50 100 = 0.5 \<and> utilisation D 0 100 = 0 \<and> utilisation D 100 100 = 1 \<and>
     utilisation D 150 100 = 1.5 \<and> utilisation D 50 0 = 0"

definition test_limit_query_defaults_are_sane :: bool where
  "test_limit_query_defaults_are_sane \<longleftrightarrow> query_limit None = 100"

definition test_kill_switch_body_defaults_to_cancelling_orders :: bool where
  "test_kill_switch_body_defaults_to_cancelling_orders \<longleftrightarrow>
     (let b = kill_switch_body_of None None in kb_cancel_open_orders b \<and> kb_reason b = None)"

lemma handlers_tests:
  "test_utilisation_is_a_bounded_fraction" "test_limit_query_defaults_are_sane"
  "test_kill_switch_body_defaults_to_cancelling_orders"
  by code_simp+

section \<open>Tests of crates/api/src/routes.rs\<close>

definition test_every_mutating_route_is_protected :: bool where
  "test_every_mutating_route_is_protected \<longleftrightarrow>
     list_all (\<lambda>(m, _, protected). List.member [''POST'', ''PATCH'', ''DELETE'', ''PUT''] m = protected) ROUTES"

definition test_the_documented_route_set_is_complete :: bool where
  "test_the_documented_route_set_is_complete \<longleftrightarrow>
     list_all (\<lambda>r. list_ex (\<lambda>(_, p, _). p = r) ROUTES)
       [''/api/health'', ''/api/status'', ''/api/mode'', ''/api/metrics'', ''/api/positions'', ''/api/orders'',
        ''/api/fills'', ''/api/trades'', ''/api/pnl'', ''/api/risk'', ''/api/target-wallets'', ''/api/risk/kill-switch'',
        ''/api/risk/kill-switch/reset'', ''/api/config'', ''/api/paper/reset'', ''/api/latency'', ''/ws'']"

lemma routes_tests: "test_every_mutating_route_is_protected" "test_the_documented_route_set_is_complete"
  by code_simp+

section \<open>Tests of crates/api/src/state.rs\<close>

definition sta_row :: "string \<Rightarrow> string \<Rightarrow> copy_row" where
  "sta_row i status = \<lparr>cr_correlation_id = i, cr_source_event_id = [], cr_wallet = [], cr_wallet_nickname = [],
     cr_market_title = [], cr_outcome = [], cr_side = ''BUY'', cr_source_notional = ''0'', cr_copy_notional = ''0'',
     cr_source_price = ''0'', cr_copy_price = None, cr_slippage_bps = None, cr_status = status,
     cr_detection_latency_ms = None, cr_execution_latency_ms = None, cr_end_to_end_latency_ms = None, cr_at = test_now\<rparr>"

definition test_recent_activity_is_bounded_and_newest_first :: bool where
  "test_recent_activity_is_bounded_and_newest_first \<longleftrightarrow>
     (let r = foldl (\<lambda>r i. add_copy (sta_row (nat_text i) ''NEW'') r) (recent_new 3) [0..<10]; c = recent_copies 100 r
      in length c = 3 \<and> cr_correlation_id (c ! 0) = ''9'' \<and> cr_correlation_id (c ! 2) = ''7'')"

definition sta_fill :: "copy_row \<Rightarrow> copy_row" where
  "sta_fill c = c\<lparr>cr_status := ''FILLED''\<rparr>"

definition sta_same :: "copy_row \<Rightarrow> copy_row" where
  "sta_same c = c"

definition test_copy_rows_update_in_place_by_correlation_id :: bool where
  "test_copy_rows_update_in_place_by_correlation_id \<longleftrightarrow>
     (let r = add_copy (sta_row ''abc'' ''SUBMITTED'') (recent_new 10); (r1, found) = update_copy ''abc'' sta_fill r
      in found \<and> cr_status (recent_copies 1 r1 ! 0) = ''FILLED'' \<and> \<not> snd (update_copy ''missing'' sta_same r1))"

lemma state_tests:
  "test_recent_activity_is_bounded_and_newest_first" "test_copy_rows_update_in_place_by_correlation_id"
  by code_simp+

section \<open>Tests of crates/app/src/replay.rs\<close>

text \<open>A price of the recording is a binary64 value, whose decimal is the short one it was written as.\<close>

definition rpl_decimal :: decimal_ops where
  "rpl_decimal = test_decimal\<lparr>d_of_f64 := (\<lambda>v. Some (of_int (round (v * 1000000)) / 1000000))\<rparr>"

definition rpl_price1 :: rat where
  "rpl_price1 = f64_round 0.61"

definition rpl_price2 :: rat where
  "rpl_price2 = f64_round 0.63"

lemma rpl_price_code [code]:
  "rpl_price1 = 5494391545392005 / 9007199254740992" "rpl_price2 = 5674535530486825 / 9007199254740992"
  by (simp_all add: rpl_price1_def rpl_price2_def f64_round_def bit_length.simps round_half_even_def Let_def)

definition rpl_event :: "nat \<Rightarrow> string \<Rightarrow> rat \<Rightarrow> rat \<Rightarrow> int \<Rightarrow> replay_event" where
  "rpl_event tx s price quant ts = \<lparr>re_trader = ''0x'' @ hex_padded 40 1, re_market_id = ''0x'' @ hex_padded 64 1,
     re_token_id = ''12345'', re_outcome = ''Yes'', re_side = s, re_price = Finite price, re_size = Finite quant,
     re_tx_hash = ''0x'' @ hex_padded 64 tx, re_source_ts_ms = ts, re_title = ''T'', re_slug = ''t''\<rparr>"

definition rpl_session :: replay_session where
  "rpl_session = \<lparr>rs_name = ''test'',
     rs_events = [rpl_event 2 ''BUY'' rpl_price1 100 1787102287000, rpl_event 3 ''SELL'' rpl_price2 50 1787102292000]\<rparr>"

definition rpl_corr :: "nat \<Rightarrow> correlation_id" where
  "rpl_corr i = 70 + i"

definition rpl_trades :: "int \<Rightarrow> replay_session \<Rightarrow> source_trade list" where
  "rpl_trades now s = to_source_trades rpl_decimal rpl_corr now s"

definition test_replay_preserves_event_spacing :: bool where
  "test_replay_preserves_event_spacing \<longleftrightarrow>
     (let ts = rpl_trades test_now rpl_session
      in length ts = 2 \<and> num_seconds (so_source_ts (ts ! 1) - so_source_ts (ts ! 0)) = 5)"

definition test_replay_is_deterministic_across_runs :: bool where
  "test_replay_is_deterministic_across_runs \<longleftrightarrow>
     (let a = rpl_trades test_now rpl_session; b = rpl_trades (test_now + 1) rpl_session
      in so_event_id (a ! 0) = so_event_id (b ! 0) \<and> so_event_id (a ! 1) = so_event_id (b ! 1) \<and>
         so_event_id (a ! 0) \<noteq> so_event_id (a ! 1))"

definition test_replay_trades_are_marked_as_replay :: bool where
  "test_replay_trades_are_marked_as_replay \<longleftrightarrow>
     (let ts = rpl_trades test_now rpl_session
      in list_all (\<lambda>t. so_source t = ReplaySource) ts \<and> \<not> is_real (so_source (ts ! 0)))"

definition test_malformed_rows_are_skipped_not_fatal :: bool where
  "test_malformed_rows_are_skipped_not_fatal \<longleftrightarrow>
     (let bad = \<lparr>re_trader = ''garbage'', re_market_id = ''bad'', re_token_id = ''x'', re_outcome = [],
            re_side = ''SIDEWAYS'', re_price = Finite 5, re_size = Finite (- 1), re_tx_hash = ''nope'',
            re_source_ts_ms = 0, re_title = [], re_slug = []\<rparr>
      in length (rpl_trades test_now (rpl_session\<lparr>rs_events := rs_events rpl_session @ [bad]\<rparr>)) = 2)"

lemma replay_tests:
  "test_replay_preserves_event_spacing" "test_replay_is_deterministic_across_runs"
  "test_replay_trades_are_marked_as_replay" "test_malformed_rows_are_skipped_not_fatal"
  by code_simp+

section \<open>Tests of crates/execution/src/live.rs\<close>

definition liv_credentials :: l2_credentials where
  "liv_credentials = \<lparr>l2_api_key = ''k'', l2_secret = ''c2VjcmV0'', l2_passphrase = ''p''\<rparr>"

definition test_unarmed_adapter_lists_every_missing_prerequisite :: bool where
  "test_unarmed_adapter_lists_every_missing_prerequisite \<longleftrightarrow>
     (let gaps = readiness_gaps (live_execution_new ''https://clob.polymarket.com'' False)
      in length gaps = 4 \<and> list_ex (sublist ''LIVE_TRADING_ENABLED'') gaps \<and> list_ex (sublist ''OrderSigner'') gaps)"

definition test_live_adapter_refuses_to_submit_without_a_signer :: bool where
  "test_live_adapter_refuses_to_submit_without_a_signer \<longleftrightarrow>
     (let l = with_funder ''0x8a5152d056adb066c9e4dc65164620cdd82ceb6f''
            (with_credentials liv_credentials (live_execution_new ''https://clob.polymarket.com'' True))
      in \<not> live_is_ready l \<and> readiness_gaps l = [''an OrderSigner implementation (EIP-712 L1 signing)''])"

definition test_credentials_never_render_their_material :: bool where
  "test_credentials_never_render_their_material \<longleftrightarrow>
     (let s = show_l2_credentials \<lparr>l2_api_key = ''key123'', l2_secret = ''s3cr3t'', l2_passphrase = ''pass''\<rparr>
      in s = ''L2Credentials(<redacted>)'' \<and> \<not> sublist ''key123'' s \<and> \<not> sublist ''s3cr3t'' s)"

definition test_base64url_round_trips :: bool where
  "test_base64url_round_trips \<longleftrightarrow>
     list_all (\<lambda>v. b64url_decode (b64url_encode v) = Some v)
       [[], [1], [1, 2], [1, 2, 3], map of_nat [0..<256]]"

lemma live_tests:
  "test_unarmed_adapter_lists_every_missing_prerequisite" "test_live_adapter_refuses_to_submit_without_a_signer"
  "test_credentials_never_render_their_material"
  by code_simp+

text \<open>The bytes of the last round trip are any bytes.\<close>

lemma base64_test: "test_base64url_round_trips"
  by (simp add: test_base64url_round_trips_def decode_encode)

section \<open>Tests of crates/execution/src/signing.rs\<close>

definition sgn_mk :: "side \<Rightarrow> order_request" where
  "sgn_mk s = \<lparr>rq_order_id = 1, rq_correlation_id = 2, rq_signal_id = None,
     rq_market_id = unwrap (market_id_new (''0x'' @ hex_padded 64 1)), rq_token_id = unwrap (token_id_new ''12345''),
     rq_side = s, rq_order_type = LimitOrder, rq_time_in_force = Gtc, rq_quantity = unwrap (qty_new 100),
     rq_limit_price = unwrap (price_new 0.60), rq_reference_price = unwrap (price_new 0.60), rq_tick_size = 0.01,
     rq_created_at = test_now\<rparr>"

definition sgn_order :: "side \<Rightarrow> polymarket_order" where
  "sgn_order s = unwrap (from_request D (sgn_mk s) (''0x'' @ hex_padded 40 1) (''0x'' @ hex_padded 40 1) Eoa 1 1 6)"

definition test_buy_and_sell_map_amounts_to_the_right_legs :: bool where
  "test_buy_and_sell_map_amounts_to_the_right_legs \<longleftrightarrow>
     (let b = sgn_order Buy; s = sgn_order Sell
      in po_side b = 0 \<and> po_maker_amount b = 60000000 \<and> po_taker_amount b = 100000000 \<and>
         po_side s = 1 \<and> po_maker_amount s = 100000000 \<and> po_taker_amount s = 60000000)"

definition test_oversized_token_id_is_rejected_not_truncated :: bool where
  "test_oversized_token_id_is_rejected_not_truncated \<longleftrightarrow>
     \<not> is_ok (word_from_decimal_string (replicate 80 (CHR ''1''))) \<and> \<not> is_ok (word_from_decimal_string ''12a4'')"

definition test_malformed_keys_and_addresses_are_rejected :: "'k ec_ops \<Rightarrow> (bytes \<Rightarrow> bytes) \<Rightarrow> bool" where
  "test_malformed_keys_and_addresses_are_rejected C keccak \<longleftrightarrow>
     \<not> is_ok (eoa_signer_new C keccak (\<lambda>s. s) ''nothex'' None Eoa) \<and>
     \<not> is_ok (eoa_signer_new C keccak (\<lambda>s. s) ''0x1234'' None Eoa) \<and> \<not> is_ok (word_from_address ''0x123'')"

lemma sgn_mk_fields:
  "rq_side (sgn_mk s) = s" "rq_quantity (sgn_mk s) = 100" "rq_limit_price (sgn_mk s) = 3/5"
  by (simp_all add: sgn_mk_def unwrap_def qty_new_def price_new_def)

lemma amounts_test: "test_buy_and_sell_map_amounts_to_the_right_legs"
  by (simp add: test_buy_and_sell_map_amounts_to_the_right_legs_def sgn_order_def from_request_def to_base_def to_u128_def
      sgn_mk_fields test_decimal_def unwrap_def d_floor_def d_ceil_def Let_def)

lemma oversized_test: "test_oversized_token_id_is_rejected_not_truncated"
proof -
  have "digits_value (replicate (Suc n) (CHR ''1'')) \<ge> 10 ^ n" for n
    using digits_value_Cons [of "CHR ''1''" "replicate n (CHR ''1'')"] by (simp add: byte_def)
  moreover have "Suc 79 = 80" by simp
  ultimately have "10 ^ 79 \<le> digits_value (replicate 80 (CHR ''1''))" by metis
  moreover have "(256 :: nat) ^ 32 \<le> 10 ^ 79" by simp
  ultimately have big: "256 ^ 32 \<le> digits_value (replicate 80 (CHR ''1''))" by (rule order_trans [rotated])
  have "word_from_decimal_string (replicate 80 (CHR ''1'')) \<noteq> Inr w" for w
    using be_value_less [of w] big unfolding word_from_decimal_string_Inr by (metis leD)
  moreover have "word_from_decimal_string ''12a4'' \<noteq> Inr w" for w
    using word_from_decimal_string_Inr [of "''12a4''" w] by (simp add: is_ascii_digit_def byte_def)
  ultimately show ?thesis
    by (auto simp: test_oversized_token_id_is_rejected_not_truncated_def is_ok_def split: sum.split)
qed

lemma keys_test: "test_malformed_keys_and_addresses_are_rejected C keccak"
proof -
  have "hex_decode (trim_start_matches (CHR ''0'') (CHR ''x'') (trim ''nothex'')) = None"
    "hex_decode (trim_start_matches (CHR ''0'') (CHR ''x'') (trim ''0x1234'')) = Some [0x12, 0x34]"
    "\<not> is_ok (word_from_address ''0x123'')"
    by code_simp+
  then show ?thesis
    by (simp add: test_malformed_keys_and_addresses_are_rejected_def eoa_signer_new_def is_ok_def Let_def)
qed

end
