(* ===== verification/Spec2Isabelle.thy ===== *)
theory Spec2Isabelle
  imports Handlers Dashboard Streams Startup CopyCost
    DomainTests RiskTests StrategyTests PortfolioTests MatchingTests TrackerTests ExecutionTests MarketDataTests
    MetricsTests ConfigTests ServiceTests
begin

text \<open>
  A model of a copy-trading service for prediction markets, and the theorems that make it correct.

  \<^bold>\<open>The program.\<close> The service watches the trades of chosen wallets on a prediction market and copies
  them. A websocket client (\<open>market_data/rtds.rs\<close>) decodes the venue's activity feed
  (\<open>market_data/parser.rs\<close>); the wallet tracker (\<open>wallet_tracker\<close>) keeps the trades of the tracked wallets
  and drops what it has seen already; the strategy (\<open>strategy\<close>) prices and sizes a copy; the risk engine
  (\<open>risk\<close>) approves or refuses it; the order manager (\<open>execution/order_manager.rs\<close>) sends it to a venue,
  which is simulated against the real order book (\<open>execution/paper.rs\<close>, \<open>simulator\<close>) or is the real one
  (\<open>execution/live.rs\<close>, \<open>execution/signing.rs\<close>); the portfolio (\<open>portfolio\<close>) books the fills. The
  application (\<open>app\<close>) runs this path beside the tasks that keep order books, health, persistence and
  reconciliation, and an HTTP interface (\<open>api\<close>) shows the state and changes the settings. All of them share
  one state (\<open>api/state.rs\<close>). Paths are below \<open>src/crates\<close>, with the \<open>src\<close> of each crate left out.

  \<^bold>\<open>How the model reads.\<close> Every operation is a total function from the state it reads to the state it
  leaves and its answer. A Rust \<open>Result\<close> is the sum \<open>error + 'a\<close>, an early return is a branch, and a
  panic that the code could reach is an \<open>option\<close>. Locks are sequential state passing; an asynchronous
  operation that other code can overtake is split where it waits (\<open>submit_begin\<close>, \<open>submit_finish\<close>), so
  that the order of events is explicit. Loops over a socket or a timer are recursions over the list of
  what they receive, one element per turn, so that no fuel is needed; the other loops are structural or
  have a termination proof (\<open>bit_length\<close>, \<open>trim_front\<close>, \<open>chunks\<close>). Integers whose width matters are
  words: the 64-bit counters and the backoff of \<open>Metrics\<close> and \<open>Reconnect\<close>, the 8-bit, 128-bit and
  256-bit numbers of \<open>Signing\<close>; elsewhere the saturation of the source is written out. Time stamps are
  nanoseconds since the epoch.

  \<^bold>\<open>What is a parameter.\<close> Decimals come from a crate: \<open>decimal_ops\<close> (in \<open>Prelude\<close>) is the record of its
  operations, and \<open>Prelude\<close> states what the theorems use of it in three locales, each extending the one
  before: \<open>decimal_sign\<close> (rounding keeps signs), \<open>decimal_additive\<close> (sums are exact) and \<open>decimal_exact\<close>
  (all operations are exact). They are interpreted on exact rationals and, for the first two, on
  an arithmetic whose products and quotients are cut to 28 decimals. Also parameters:
  SHA-256, Keccak-256 and the curve; the text of UUIDs and floats; the decoding of JSON text
  into values, but not what the code makes of the values; the answers of sockets, HTTP servers and of
  the database connection; the random draws and the clocks; the processes' environment and
  command line. A fresh id is an argument of the operation that draws it.

  \<^bold>\<open>Foundations.\<close> \<open>Prelude\<close>: results, guards, association lists, the decimals and the two locales below.
  \<open>Strings\<close>: the text functions of the standard library that the code uses. \<open>Money\<close>
  (\<open>domain/money.rs\<close>), \<open>Ids\<close> (\<open>domain/ids.rs\<close>), \<open>Market\<close> (\<open>domain/market.rs\<close>), \<open>Latency\<close>
  (\<open>domain/latency.rs\<close>, \<open>metrics/latency.rs\<close>), \<open>Trades\<close> (\<open>domain/wallet.rs\<close>, \<open>domain/trade.rs\<close>),
  \<open>Orders\<close> (\<open>domain/order.rs\<close>), \<open>Positions\<close> (\<open>domain/position.rs\<close>) and \<open>Events\<close>
  (\<open>domain/events.rs\<close>): the domain types with their constructors and arithmetic. The lemmas show the
  invariant of each type and that the operations keep it: a book stays sorted and its sweep is exact, an
  order is never filled beyond its quantity in any history, a position is double-entry also when a
  trade crosses through zero.

  \<^bold>\<open>Decision.\<close> \<open>Parser\<close> (\<open>market_data/parser.rs\<close>): both sources of trades give a fill the same key.
  \<open>Dedup\<close> and \<open>Tracker\<close> (\<open>wallet_tracker/dedup.rs\<close>, \<open>tracker.rs\<close>): identity is content with an ordinal; no
  fill is accepted twice, distinct fills never share an identity, and a backfill reconciles with the live
  feed as a multiset. \<open>Strategy\<close> (\<open>strategy/sizing.rs\<close>, \<open>copy_trader.rs\<close>): no configuration sizes a copy
  above a cap. \<open>Risk\<close> (\<open>risk/engine.rs\<close>, \<open>limits.rs\<close>, \<open>kill_switch.rs\<close>, \<open>validation.rs\<close>): an approval is
  characterised exactly. \<open>Config\<close> (\<open>config/lib.rs\<close>): loading and validation; a live configuration
  needs every credential.

  \<^bold>\<open>Execution.\<close> \<open>Adapter\<close> (\<open>execution/adapter.rs\<close>): the contract of a venue. \<open>Matching\<close>
  (\<open>simulator/matching.rs\<close>): a simulated fill is one the book could have given. \<open>Paper\<close>
  (\<open>execution/paper.rs\<close>): the simulated venue keeps an exact ledger. \<open>OrderManager\<close>
  (\<open>execution/order_manager.rs\<close>): under every interleaving of submissions, fills and cancellations no
  order is sent twice, and what the venue answered is what the book of orders says. \<open>Reconciliation\<close>
  (\<open>execution/reconciliation.rs\<close>): a clean report means agreement. \<open>Portfolio\<close> (\<open>portfolio/lib.rs\<close>,
  \<open>domain/pnl.rs\<close>): the books balance. \<open>Signing\<close> and \<open>Live\<close> (\<open>execution/signing.rs\<close>, \<open>live.rs\<close>): a
  digest binds every field of an order, a signature recovers its signer, a live submission fails closed.

  \<^bold>\<open>Market data and records.\<close> \<open>BookStream\<close> (\<open>market_data/market_ws.rs\<close>): the maintained book refines the
  feed. \<open>Streams\<close> (\<open>market_data/market_stream.rs\<close>), \<open>Feed\<close> (\<open>market_data/rtds.rs\<close>, \<open>rest.rs\<close>) and
  \<open>Reconnect\<close> (\<open>market_data/reconnect.rs\<close>): the connections as machines over what their sockets answer, the
  gap report, the backoff and the circuit breaker. \<open>Metrics\<close> (\<open>metrics/registry.rs\<close>, \<open>health.rs\<close>):
  counters, the text exposition, and health that has to be vouched for. \<open>Storage\<close>
  (\<open>persistence/repositories.rs\<close>, \<open>store.rs\<close>): each statement as its documented effect on the tables, with
  the rounding of the numeric columns, the unique keys and the foreign keys; writes are idempotent.

  \<^bold>\<open>The application.\<close> \<open>AppState\<close> (\<open>api/state.rs\<close>): the shared state. \<open>Pipeline\<close> (\<open>app/pipeline.rs\<close>): the
  path of one trade; no order without an approval. \<open>CopyCost\<close>: what one call and a run of calls can cost,
  through all the stages. \<open>Tasks\<close> (\<open>app/tasks.rs\<close>): one operation per turn of each background loop.
  \<open>Desk\<close>: the composition of all that trades, books, marks or cleans up as the step relation
  \<open>paper_desk\<close>; the portfolio and the venue agree in every reachable state. \<open>Recovery\<close>: what survives a
  crash, a stop, and a restart. \<open>Replay\<close> and \<open>Demo\<close> (\<open>app/replay.rs\<close>, \<open>demo.rs\<close>): the two other sources
  of trades. \<open>Views\<close> and \<open>Handlers\<close> (\<open>api/handlers.rs\<close>, \<open>auth.rs\<close>, \<open>routes.rs\<close>): the router as one
  operation from a request to an answer and a state; the mutating routes are guarded, a halt holds.
  \<open>Dashboard\<close> (\<open>api/websocket.rs\<close>): what a connected dashboard is sent. \<open>Startup\<close> (\<open>app/main.rs\<close>): from
  the command line and the environment to the running desk; real money needs every switch.

  \<^bold>\<open>Interfaces.\<close> \<open>id_source\<close> (in \<open>Prelude\<close>) is a source of identities that can be offered one thing
  after the other; its client lemma, that no identity is given out twice, is proved once and interpreted on the
  dedup index and on the whole tracker. \<open>execution_adapter\<close> (in \<open>Adapter\<close>) is the contract of
  a venue's \<open>submit\<close> and \<open>cancel\<close>, and \<open>cooperative_adapter\<close> extends it with cancellations that end;
  \<open>OrderManager\<close> proves its lemmas inside them, and they are interpreted on the simulated venue (\<open>Paper\<close>)
  and, the first, on the live one (\<open>Live\<close>).

  \<^bold>\<open>Invariants and histories.\<close> Histories are inductive relations over the operations: \<open>order_run\<close>,
  \<open>portfolio_reach\<close>, \<open>paper_run\<close>, \<open>om_reach\<close> and \<open>paper_desk\<close>, each with its invariant by rule
  induction. The properties are the theorems whose text starts with a number; a theorem with hypotheses is
  followed by an instance that uses it on concrete data.

  \<^bold>\<open>Replayed tests.\<close> The unit tests that stand in the modules are evidence on what their authors
  expect of the code. \<open>DomainTests\<close>, \<open>RiskTests\<close>, \<open>StrategyTests\<close>, \<open>PortfolioTests\<close>, \<open>MatchingTests\<close>,
  \<open>TrackerTests\<close>, \<open>ExecutionTests\<close>, \<open>MarketDataTests\<close>, \<open>MetricsTests\<close>, \<open>ConfigTests\<close> and \<open>ServiceTests\<close>
  translate them, one definition per test in the order of the file, and evaluate them on the model
  (\<open>TestKit\<close> holds the decimals, the clock and the helpers they share). They check the model against the
  program; no property rests on them. Each theory says which tests it leaves out.

  \<^bold>\<open>What modelling showed.\<close> The theorems that state a flaw of the code say so in their text. Among them:
  a fill-or-kill order can be filled in part (\<open>Matching\<close>); a fill that arrives while a cancellation is
  awaited is lost (\<open>OrderManager\<close>); a fill that a backfill recorded first is copied again (\<open>Dedup\<close>);
  a crash recovers the money of after a copy with the positions of before it (\<open>Recovery\<close>); a paper reset
  leaves the rows that the next start reads back (\<open>Handlers\<close>); the live adapter reports no fills, so a live
  desk halts itself (\<open>Live\<close>); a book that the venue contradicts stays in the cache the trading path
  reads (\<open>Streams\<close>); a replay trades against the last book of each token (\<open>Replay\<close>); the kill switch that
  a daily loss should engage is never reached from the pipeline (\<open>Pipeline\<close>).

  \<^bold>\<open>Not modelled.\<close> Log lines and spans; spawning, sleeping and the runtime's scheduler, whose effect is the order
  of the operations; the connection pool and the migrations; the transport of HTTP and websockets and the CORS and
  trace layers; the generation of random numbers and of UUIDs; the conversion of numbers to text, which is a parameter;
  benchmarks; accessors that only return a field; derived traits; the unit tests that need random
  identifiers, threads, sockets, files, JSON text, a hash or the curve, and those that run very long. The
  code that is used by no operation of the program (the daily risk budget, the structural order
  validator, the circuit breaker) is modelled all the same.
\<close>

end
